(* ===== verification/Prelude.thy ===== *)
theory Prelude
  imports "HOL-Library.Word" "HOL-Library.State_Monad"
begin

text \<open>
  Shared vocabulary of the development: the machine-integer types, the state monad the
  stateful code is written in (\<open>ret\<close>, \<open>gets\<close>, \<open>modify\<close>, \<open>whenM\<close>), and the calculus that
  lifts a relation between the state before and after a step through every sequential
  program.  The locale \<open>effect_order\<close> is that calculus: any reflexive and transitive
  relation that the primitive updates respect is respected by everything built from them.
\<close>

unbundle bit_operations_syntax

type_synonym u8 = "8 word"
type_synonym u16 = "16 word"
type_synonym u18 = "18 word"
type_synonym u32 = "32 word"
type_synonym u64 = "64 word"

named_theorems mstate "equations for running one primitive of the state monad"
named_theorems effects "facts that a program respects an effect relation"

subsection \<open>The state monad\<close>

abbreviation ret :: "'a \<Rightarrow> ('s, 'a) state" where
  "ret \<equiv> State_Monad.return"

definition gets :: "('s \<Rightarrow> 'a) \<Rightarrow> ('s, 'a) state" where
  "gets f = State (\<lambda>s. (f s, s))"

definition modify :: "('s \<Rightarrow> 's) \<Rightarrow> ('s, unit) state" where
  "modify f = State (\<lambda>s. ((), f s))"

definition whenM :: "bool \<Rightarrow> ('s, unit) state \<Rightarrow> ('s, unit) state" where
  "whenM b m = (if b then m else ret ())"

fun forM :: "'x list \<Rightarrow> ('x \<Rightarrow> ('s, unit) state) \<Rightarrow> ('s, unit) state" where
  "forM [] f = ret ()"
| "forM (x # xs) f = do { f x; forM xs f }"

lemma run_gets [simp]: "run_state (gets f) s = (f s, s)"
  by (simp add: gets_def)

lemma run_modify [simp]: "run_state (modify f) s = ((), f s)"
  by (simp add: modify_def)

lemma run_whenM [simp]:
  "run_state (whenM b m) s = (if b then run_state m s else ((), s))"
  by (simp add: whenM_def)

lemma run_let [simp]: "run_state (let x = a in f x) s = (let x = a in run_state (f x) s)"
  by (simp add: Let_def)

lemma run_if: "run_state (if b then m else n) s = (if b then run_state m s else run_state n s)"
  by simp

subsection \<open>Effect relations\<close>

text \<open>
  \<open>state_io_rel R m\<close> (of the library) says that every run of \<open>m\<close> takes a state \<open>s\<close> to a
  state that \<open>R\<close> relates to \<open>s\<close>.  Invariants are the relations \<open>keeps I\<close>, frame
  conditions the relations \<open>same f\<close>.
\<close>

definition keeps :: "('s \<Rightarrow> bool) \<Rightarrow> 's \<Rightarrow> 's \<Rightarrow> bool" where
  "keeps I s t \<longleftrightarrow> (I s \<longrightarrow> I t)"

definition same :: "('s \<Rightarrow> 'b) \<Rightarrow> 's \<Rightarrow> 's \<Rightarrow> bool" where
  "same f s t \<longleftrightarrow> f t = f s"

locale effect_order =
  fixes R :: "'s \<Rightarrow> 's \<Rightarrow> bool"
  assumes refl_R: "R s s"
    and trans_R: "R s t \<Longrightarrow> R t u \<Longrightarrow> R s u"
begin

lemma eff_ret [effects]: "state_io_rel R (ret x)"
  by (auto simp: state_io_rel_def refl_R)

lemma eff_gets [effects]: "state_io_rel R (gets f)"
  by (auto simp: state_io_rel_def refl_R)

lemma eff_bind:
  assumes "state_io_rel R m" and "\<And>x. state_io_rel R (f x)"
  shows "state_io_rel R (State_Monad.bind m f)"
proof (rule state_io_relI)
  fix b s t
  assume run: "run_state (State_Monad.bind m f) s = (b, t)"
  obtain a u where a: "run_state m s = (a, u)" by (cases "run_state m s")
  with run have "run_state (f a) u = (b, t)" by simp
  with a assms show "R s t" by (blast intro: trans_R)
qed

lemma eff_when [effects]: "(b \<Longrightarrow> state_io_rel R m) \<Longrightarrow> state_io_rel R (whenM b m)"
  by (auto simp: whenM_def intro: eff_ret)

lemma eff_if: "(b \<Longrightarrow> state_io_rel R m) \<Longrightarrow> (\<not> b \<Longrightarrow> state_io_rel R n) \<Longrightarrow>
    state_io_rel R (if b then m else n)"
  by simp

lemma eff_let: "(\<And>x. x = a \<Longrightarrow> state_io_rel R (f x)) \<Longrightarrow> state_io_rel R (let x = a in f x)"
  by (simp add: Let_def)

lemma eff_modify: "(\<And>s. R s (f s)) \<Longrightarrow> state_io_rel R (modify f)"
  by (simp add: state_io_rel_def)

lemma eff_case_option:
  "(x = None \<Longrightarrow> state_io_rel R m) \<Longrightarrow> (\<And>y. x = Some y \<Longrightarrow> state_io_rel R (f y)) \<Longrightarrow>
   state_io_rel R (case x of None \<Rightarrow> m | Some y \<Rightarrow> f y)"
  by (cases x) auto

lemma eff_case_prod:
  "(\<And>a b. x = (a, b) \<Longrightarrow> state_io_rel R (f a b)) \<Longrightarrow>
   state_io_rel R (case x of (a, b) \<Rightarrow> f a b)"
  by (cases x) auto

lemma eff_case_sum:
  "(\<And>e. x = Inl e \<Longrightarrow> state_io_rel R (f e)) \<Longrightarrow>
   (\<And>v. x = Inr v \<Longrightarrow> state_io_rel R (g v)) \<Longrightarrow>
   state_io_rel R (case x of Inl e \<Rightarrow> f e | Inr v \<Rightarrow> g v)"
  by (cases x) auto

lemma eff_forM:
  "(\<And>x. x \<in> set xs \<Longrightarrow> state_io_rel R (f x)) \<Longrightarrow> state_io_rel R (forM xs f)"
  by (induction xs) (auto intro: eff_ret eff_bind)

lemma eff_run: "state_io_rel R m \<Longrightarrow> R s (snd (run_state m s))"
  by (simp add: state_io_rel_def)

lemmas eff_intros = eff_bind eff_if eff_let eff_case_option eff_case_prod eff_case_sum
  eff_forM eff_when

end

interpretation keeps: effect_order "keeps I" for I
  by unfold_locales (auto simp: keeps_def)

interpretation same: effect_order "same f" for f
  by unfold_locales (auto simp: same_def)

subsection \<open>Words\<close>

lemma and_0xF_le [simp]: "(x :: u16) AND 0xF \<le> 0xF"
  by (rule word_and_le1)

lemma and_0xFF_le [simp]: "(x :: u16) AND 0xFF \<le> 0xFF"
  by (rule word_and_le1)

lemma and_0xF_id: "(x :: u16) \<le> 0xF \<Longrightarrow> x AND 0xF = x"
  using less_mask_eq [of x 4] by (simp add: mask_numeral word_le_less_eq) unat_arith

lemma and_0xFF_id: "(x :: u16) \<le> 0xFF \<Longrightarrow> x AND 0xFF = x"
  using less_mask_eq [of x 8] by (simp add: mask_numeral word_le_less_eq) unat_arith

lemma unat_AND_FF: "unat ((x :: u16) AND 0xFF) = unat x mod 256"
  using take_bit_eq_mask [of 8 "unat x"]
  by (simp add: unsigned_and_eq mask_numeral take_bit_eq_mod)

lemma unat_AND_F: "unat ((x :: u16) AND 0xF) = unat x mod 16"
  using take_bit_eq_mask [of 4 "unat x"]
  by (simp add: unsigned_and_eq mask_numeral take_bit_eq_mod)

lemma msb16: "(x :: u16) AND 0x8000 \<noteq> 0 \<longleftrightarrow> bit x 15"
  using and_exp_eq_0_iff_not_bit [of x 15] by simp

lemma bit0_16: "(x :: u16) AND 1 \<noteq> 0 \<longleftrightarrow> odd x"
  by (simp add: and_one_eq odd_iff_mod_2_eq_one)

text \<open>Equality of 16-bit words, bit by bit.\<close>

lemma all_less_16: "(\<forall>n<16. P n) \<longleftrightarrow>
    P 0 \<and> P 1 \<and> P 2 \<and> P 3 \<and> P 4 \<and> P 5 \<and> P 6 \<and> P 7 \<and>
    P 8 \<and> P 9 \<and> P 10 \<and> P 11 \<and> P 12 \<and> P 13 \<and> P 14 \<and> P (15 :: nat)"
  by (simp add: All_less_Suc numeral_eq_Suc conj_commute conj_left_commute)

lemma word16_eq_iff: "(x :: u16) = y \<longleftrightarrow> (\<forall>n<16. bit x n = bit y n)"
  by (auto simp: bit_eq_iff impossible_bit dest: bit_imp_le_length)

lemmas bits16 = word16_eq_iff all_less_16

lemma and_FFFF_16 [simp]: "(x :: u16) AND 0xFFFF = x"
  unfolding bits16 by (auto simp: bit_simps)

subsection \<open>Arithmetic on 16 bits, unsigned and signed\<close>
lemma uint16_bounds: "0 \<le> uint (a :: u16)" "uint a < 0x10000"
  using uint_lt2p [of a] by simp_all

lemma bit15_uint: "bit (a :: u16) 15 \<longleftrightarrow> uint a \<ge> 0x8000"
proof -
  have "bit a 15 \<longleftrightarrow> bit (uint a) 15" by (simp add: bit_uint_iff)
  also have "\<dots> \<longleftrightarrow> odd (uint a div 0x8000)" by (simp add: bit_iff_odd)
  also have "uint a div 0x8000 = (if uint a \<ge> 0x8000 then 1 else 0)"
    using uint16_bounds [of a] by auto
  finally show ?thesis by simp
qed

lemma sint16: "sint (a :: u16) = uint a - (if uint a \<ge> 0x8000 then 0x10000 else 0)"
proof -
  have "take_bit 16 (uint a) = uint a" using uint16_bounds [of a] by (simp add: take_bit_int_eq_self)
  then show ?thesis
    by (simp add: sint_uint signed_take_bit_eq_take_bit_minus bit15_uint[symmetric] bit_uint_iff)
qed

lemma mod16_wrap:
  fixes x :: int
  shows "0 \<le> x \<Longrightarrow> x < 0x20000 \<Longrightarrow> x mod 0x10000 = (if x \<ge> 0x10000 then x - 0x10000 else x)"
    and "- 0x10000 \<le> x \<Longrightarrow> x < 0x10000 \<Longrightarrow> x mod 0x10000 = (if x < 0 then x + 0x10000 else x)"
  using minus_mod_self2 [where a = x and b = "0x10000"] mod_add_self2 [where a = x and b = "0x10000"]
  by (auto simp: mod_pos_pos_trivial simp del: minus_mod_self2 mod_add_self2)

lemma uint_add16: "uint (a + b :: u16) = (if uint a + uint b \<ge> 0x10000 then uint a + uint b - 0x10000 else uint a + uint b)"
  unfolding uint_word_ariths(1)
  using mod16_wrap(1) [of "uint a + uint b"] uint16_bounds [of a] uint16_bounds [of b] by simp
lemma uint_sub16: "uint (a - b :: u16) = (if uint a < uint b then uint a - uint b + 0x10000 else uint a - uint b)"
  unfolding uint_word_ariths(2)
  using mod16_wrap(2) [of "uint a - uint b"] uint16_bounds [of a] uint16_bounds [of b] by simp

lemma word16_cases:
  obtains x where "uint (a :: u16) = x" "0 \<le> x" "x < 0x10000"
  using uint16_bounds by blast

lemma add_ovf: "(NOT (a XOR b) AND (a XOR (a + b)) AND 0x8000 \<noteq> (0 :: u16)) \<longleftrightarrow>
   sint a + sint b < - 0x8000 \<or> sint a + sint b > 0x7FFF"
proof -
  have bits: "(NOT (a XOR b) AND (a XOR (a + b)) AND 0x8000 \<noteq> (0 :: u16)) \<longleftrightarrow>
     bit a 15 = bit b 15 \<and> bit a 15 \<noteq> bit (a + b) 15"
    unfolding and.assoc [symmetric] msb16 by (auto simp: bit_simps)
  obtain x y where "uint a = x" "uint b = y" "0 \<le> x" "x < 0x10000" "0 \<le> y" "y < 0x10000"
    using word16_cases by metis
  then show ?thesis
    unfolding bits bit15_uint sint16 uint_add16 by auto
qed
lemma sub_ovf: "((a XOR b) AND (a XOR (a - b)) AND 0x8000 \<noteq> (0 :: u16)) \<longleftrightarrow>
   sint a - sint b < - 0x8000 \<or> sint a - sint b > 0x7FFF"
proof -
  have bits: "((a XOR b) AND (a XOR (a - b)) AND 0x8000 \<noteq> (0 :: u16)) \<longleftrightarrow>
     bit a 15 \<noteq> bit b 15 \<and> bit a 15 \<noteq> bit (a - b) 15"
    unfolding and.assoc [symmetric] msb16 by (auto simp: bit_simps)
  obtain x y where "uint a = x" "uint b = y" "0 \<le> x" "x < 0x10000" "0 \<le> y" "y < 0x10000"
    using word16_cases by metis
  then show ?thesis
    unfolding bits bit15_uint sint16 uint_sub16 by auto
qed

subsection \<open>Lists\<close>

lemma find_map: "find P (map f xs) = map_option f (find (P \<circ> f) xs)"
  by (induction xs) auto

end
