(* ===== verification/Js_Number.thy ===== *)
theory Js_Number
  imports Complex_Main Prelude "HOL-Library.Log_Nat"
begin

text \<open>
  Numbers of the language: rationals that fit a double are exact, the others are rounded to
  53 significant bits (ties to even); infinities and subnormal numbers do not occur in what is
  modelled.  Bitwise operators go through 32-bit integers.
\<close>

subsection \<open>Doubles\<close>

definition flog2 :: "rat \<Rightarrow> int" where
  "flog2 x =
     (let (p, q) = quotient_of x; e = bitlen p - bitlen q
      in if power_int 2 e \<le> x then e else e - 1)"

definition round_even :: "rat \<Rightarrow> int" where
  "round_even x =
     (let f = \<lfloor>x\<rfloor>; d = x - of_int f
      in if d < 1 / 2 then f else if d > 1 / 2 then f + 1 else if even f then f else f + 1)"

definition rnd53 :: "rat \<Rightarrow> rat" where
  "rnd53 x =
     (if x = 0 then 0
      else let e = flog2 \<bar>x\<bar> - 52
           in sgn x * of_int (round_even (\<bar>x\<bar> / power_int 2 e)) * power_int 2 e)"

text \<open>\<^verbatim>\<open>Math.round\<close> and \<^verbatim>\<open>Math.trunc\<close>.\<close>

definition math_round :: "rat \<Rightarrow> int" where
  "math_round x = \<lfloor>x + 1 / 2\<rfloor>"

definition math_trunc :: "rat \<Rightarrow> int" where
  "math_trunc x = (if x < 0 then - \<lfloor>- x\<rfloor> else \<lfloor>x\<rfloor>)"

subsection \<open>Integers\<close>

text \<open>An integer result as a double, and the 32-bit conversions of the bitwise operators.\<close>

definition rndInt :: "int \<Rightarrow> int" where
  "rndInt v = (if \<bar>v\<bar> \<le> 2 ^ 53 then v else \<lfloor>rnd53 (of_int v)\<rfloor>)"

definition toInt32 :: "int \<Rightarrow> u32" where
  "toInt32 v = word_of_int v"

lemma rndInt_small: "\<bar>v\<bar> \<le> 2 ^ 53 \<Longrightarrow> rndInt v = v"
  by (simp add: rndInt_def)

end
