(* ===== verification/Pin_Signal.thy ===== *)
theory Pin_Signal
  imports Prelude
begin

text \<open>
  The pins of the CPU board, \<^verbatim>\<open>cpuboard/pin_signal.ts\<close>.  An output pin is the pair
  [current, previous]; an input pin carries a third flag for a request that had to be
  deferred.  The TypeScript mutates the tuples in place; here each operation returns the
  new pin, and \<open>takeDeferred\<close> the value read with it.
\<close>

record output_pin =
  cur :: bool
  prev :: bool

record input_pin = output_pin +
  deferred :: bool

definition createInputPin :: "bool \<Rightarrow> input_pin" where
  "createInputPin initial = \<lparr>cur = initial, prev = initial, deferred = False\<rparr>"

definition createOutputPin :: "bool \<Rightarrow> output_pin" where
  "createOutputPin initial = \<lparr>cur = initial, prev = initial\<rparr>"

definition setInputLevel :: "bool \<Rightarrow> input_pin \<Rightarrow> input_pin" where
  "setInputLevel enable pin = pin\<lparr>cur := enable\<rparr>"

definition setOutputLevel :: "bool \<Rightarrow> output_pin \<Rightarrow> output_pin" where
  "setOutputLevel enable pin = pin\<lparr>cur := enable\<rparr>"

definition risingEdge :: "'a output_pin_scheme \<Rightarrow> bool" where
  "risingEdge pin \<longleftrightarrow> cur pin \<and> \<not> prev pin"

definition fallingEdge :: "'a output_pin_scheme \<Rightarrow> bool" where
  "fallingEdge pin \<longleftrightarrow> \<not> cur pin \<and> prev pin"

definition commitSample :: "'a output_pin_scheme \<Rightarrow> 'a output_pin_scheme" where
  "commitSample pin = pin\<lparr>prev := cur pin\<rparr>"

definition deferIfAsserted :: "input_pin \<Rightarrow> input_pin" where
  "deferIfAsserted pin = (if cur pin then pin\<lparr>deferred := True\<rparr> else pin)"

definition takeDeferred :: "input_pin \<Rightarrow> bool \<times> input_pin" where
  "takeDeferred pin = (if \<not> deferred pin then (False, pin) else (True, pin\<lparr>deferred := False\<rparr>))"

definition clearDeferred :: "input_pin \<Rightarrow> input_pin" where
  "clearDeferred pin = pin\<lparr>deferred := False\<rparr>"

subsection \<open>Edges\<close>

lemma commitSample_no_edge [simp]:
  "\<not> risingEdge (commitSample pin)" "\<not> fallingEdge (commitSample pin)"
  by (auto simp: risingEdge_def fallingEdge_def commitSample_def)

lemma fst_takeDeferred [simp]: "fst (takeDeferred pin) = deferred pin"
  by (simp add: takeDeferred_def)

lemma snd_takeDeferred [simp]: "snd (takeDeferred pin) = clearDeferred pin"
  by (simp add: takeDeferred_def clearDeferred_def)

lemma pin_sels [simp]:
  "cur (clearDeferred p) = cur p" "prev (clearDeferred p) = prev p"
  "\<not> deferred (clearDeferred p)"
  "cur (commitSample q) = cur q" "prev (commitSample q) = cur q"
  "cur (setInputLevel b p) = b" "prev (setInputLevel b p) = prev p"
  "deferred (setInputLevel b p) = deferred p"
  "cur (setOutputLevel b r) = b" "prev (setOutputLevel b r) = prev r"
  by (simp_all add: clearDeferred_def commitSample_def setInputLevel_def setOutputLevel_def)

lemma deferred_commitSample [simp]: "deferred (commitSample p) = deferred p"
  by (simp add: commitSample_def)

text \<open>Sampling a sequence of levels: the number of rising edges seen by a poller.\<close>

fun sample_edges :: "input_pin \<Rightarrow> bool list \<Rightarrow> nat" where
  "sample_edges p [] = 0"
| "sample_edges p (l # ls) =
     (let q = setInputLevel l p
      in (if risingEdge q then 1 else 0) + sample_edges (commitSample q) ls)"

lemma sample_edges_constant: "sample_edges p (replicate n (prev p)) = 0"
proof (induction n arbitrary: p)
  case (Suc n)
  let ?q = "commitSample (setInputLevel (prev p) p)"
  have "sample_edges ?q (replicate n (prev ?q)) = 0" by (rule Suc.IH)
  then show ?case by (simp add: risingEdge_def Let_def)
qed simp

end
