(* ===== verification/Addr_Comparator.thy ===== *)
theory Addr_Comparator
  imports Prelude
begin

text \<open>
  The address comparators of the CPU board's CPLD, \<^verbatim>\<open>cpuboard/mn1613/addr_comparator.ts\<close>:
  slots, the control word of port 0030, the bus probe, and the ports 0030 to 0034 of
  \<^verbatim>\<open>AddrComparatorBank\<close>.  Addresses are the 18-bit physical word addresses, held in 32-bit
  values as the JavaScript bit operations do.  The hit callback is a result of \<open>probe\<close>
  (the slot that was hit), which the board theory turns into an interrupt.  Reading a port
  indexes the slot array with the three selector bits, of which only four values exist: the
  \<^verbatim>\<open>TypeError\<close> of the others is the value \<open>Inl TypeError\<close>.
\<close>

datatype js_error = TypeError

definition CPLD_COMPARATOR_COUNT :: nat where "CPLD_COMPARATOR_COUNT = 4"

definition IO_PORT_BREAK_CTRL :: u16 where "IO_PORT_BREAK_CTRL = 0x0030"
definition IO_PORT_BREAK_ADDR_LO :: u16 where "IO_PORT_BREAK_ADDR_LO = 0x0031"
definition IO_PORT_BREAK_ADDR_HI :: u16 where "IO_PORT_BREAK_ADDR_HI = 0x0032"
definition IO_PORT_BREAK_HIT :: u16 where "IO_PORT_BREAK_HIT = 0x0033"
definition IO_PORT_BREAK_PREV :: u16 where "IO_PORT_BREAK_PREV = 0x0034"

lemmas break_port_defs = IO_PORT_BREAK_CTRL_def IO_PORT_BREAK_ADDR_LO_def
  IO_PORT_BREAK_ADDR_HI_def IO_PORT_BREAK_HIT_def IO_PORT_BREAK_PREV_def

definition BREAK_RDWR_RD :: u16 where "BREAK_RDWR_RD = 0b01"
definition BREAK_RDWR_WR :: u16 where "BREAK_RDWR_WR = 0b10"
definition BREAK_RDWR_BOTH :: u16 where "BREAK_RDWR_BOTH = 0b11"

record comparator_slot =
  enabled :: bool
  io :: bool
  rdwr :: u16
  addr :: u32

record bus_access =
  acc_addr :: u32
  acc_io :: bool
  acc_write :: bool
  acc_data :: "u16 option"
  acc_prev :: "u16 option"

record break_ctrl =
  bc_slot :: u16
  bc_enabled :: bool
  bc_io :: bool
  bc_rdwr :: u16

definition decodeBreakCtrl :: "u16 \<Rightarrow> break_ctrl" where
  "decodeBreakCtrl ctrl =
     \<lparr>bc_slot = ctrl AND 0x07,
      bc_enabled = (drop_bit 3 ctrl AND 1 = 1),
      bc_io = (drop_bit 4 ctrl AND 1 = 1),
      bc_rdwr = drop_bit 5 ctrl AND 0x03\<rparr>"

definition encodeBreakCtrl :: "u16 \<Rightarrow> bool \<Rightarrow> bool \<Rightarrow> u16 \<Rightarrow> u16" where
  "encodeBreakCtrl slot ena isio rw =
     (slot AND 0x07)
     OR push_bit 3 (if ena then 1 else 0)
     OR push_bit 4 (if isio then 1 else 0)
     OR push_bit 5 (rw AND 0x03)"

definition slotMatches :: "comparator_slot \<Rightarrow> bus_access \<Rightarrow> bool" where
  "slotMatches slot access =
     (if \<not> enabled slot then False
      else if io slot \<noteq> acc_io access then False
      else
        let rw = rdwr slot AND 0x03
        in if rw = 0 then False
           else if acc_write access \<and> rw AND BREAK_RDWR_WR = 0 then False
           else if \<not> acc_write access \<and> rw AND BREAK_RDWR_RD = 0 then False
           else if acc_io access
           then addr slot AND 0xFFFF = acc_addr access AND 0xFFFF
           else addr slot AND 0x3FFFF = acc_addr access AND 0x3FFFF)"

record comparator_bank =
  slots :: "comparator_slot list"
  ctrlLatch :: u16
  addrLoLatch :: u16
  addrHiLatch :: u16
  lastHit :: u16
  prevWrite :: "u16 list"
  prevLatch :: u16

definition emptySlot :: comparator_slot where
  "emptySlot = \<lparr>enabled = False, io = False, rdwr = 0, addr = 0\<rparr>"

definition newComparatorBank :: comparator_bank where
  "newComparatorBank =
     \<lparr>slots = replicate CPLD_COMPARATOR_COUNT emptySlot,
      ctrlLatch = 0, addrLoLatch = 0, addrHiLatch = 0, lastHit = 0xFFFF,
      prevWrite = replicate CPLD_COMPARATOR_COUNT 0, prevLatch = 0\<rparr>"

definition bank_reset :: "comparator_bank \<Rightarrow> comparator_bank" where
  "bank_reset b =
     b\<lparr>slots := map (\<lambda>s. s\<lparr>enabled := False, io := False, rdwr := 0, addr := 0\<rparr>) (slots b),
       ctrlLatch := 0, addrLoLatch := 0, addrHiLatch := 0, lastHit := 0xFFFF, prevLatch := 0,
       prevWrite := map (\<lambda>_. 0) (prevWrite b)\<rparr>"

definition bank_getSlot :: "int \<Rightarrow> comparator_bank \<Rightarrow> comparator_slot option" where
  "bank_getSlot slot b =
     (if slot < 0 \<or> slot \<ge> int CPLD_COMPARATOR_COUNT then None
      else Some (slots b ! nat slot))"

definition bank_setSlot :: "int \<Rightarrow> comparator_slot \<Rightarrow> comparator_bank \<Rightarrow> comparator_bank" where
  "bank_setSlot slot cfg b =
     (if slot < 0 \<or> slot \<ge> int CPLD_COMPARATOR_COUNT then b
      else b\<lparr>slots := (slots b)[nat slot :=
             cfg\<lparr>rdwr := rdwr cfg AND 0x03, addr := addr cfg AND 0x3FFFF\<rparr>]\<rparr>)"

definition bank_getLastHit :: "comparator_bank \<Rightarrow> u16" where
  "bank_getLastHit b = lastHit b"

text \<open>The loop of \<^verbatim>\<open>probe\<close> over the slots, from slot \<open>i\<close> on.\<close>

fun probe_from :: "nat \<Rightarrow> bus_access \<Rightarrow> comparator_slot list \<Rightarrow> comparator_bank
    \<Rightarrow> comparator_bank \<times> int" where
  "probe_from i access [] b = (b, -1)"
| "probe_from i access (s # ss) b =
     (if slotMatches s access then
        let b1 = (if acc_write access then
                    let before = (case acc_prev access of None \<Rightarrow> 0 | Some p \<Rightarrow> p) AND 0xFFFF
                    in b\<lparr>prevWrite := (prevWrite b)[i := before], prevLatch := before\<rparr>
                  else b\<lparr>prevLatch := 0\<rparr>)
        in (b1\<lparr>lastHit := of_nat i\<rparr>, int i)
      else probe_from (Suc i) access ss b)"

definition bank_probe :: "bus_access \<Rightarrow> comparator_bank \<Rightarrow> comparator_bank \<times> int" where
  "bank_probe access b = probe_from 0 access (slots b) b"

definition selectedSlot :: "comparator_bank \<Rightarrow> u16" where
  "selectedSlot b = ctrlLatch b AND 0x07"

definition latchedAddr :: "comparator_bank \<Rightarrow> u32" where
  "latchedAddr b =
     push_bit 16 (ucast (addrHiLatch b AND 0x03)) OR ucast (addrLoLatch b AND 0xFFFF)"

definition applyCtrlToSlot :: "comparator_bank \<Rightarrow> comparator_bank" where
  "applyCtrlToSlot b =
     (let d = decodeBreakCtrl (ctrlLatch b); k = unat (bc_slot d)
      in if k \<ge> CPLD_COMPARATOR_COUNT then b
         else b\<lparr>slots := (slots b)[k := \<lparr>enabled = bc_enabled d, io = bc_io d,
                rdwr = bc_rdwr d, addr = latchedAddr b\<rparr>]\<rparr>)"

definition applyAddrToSelected :: "comparator_bank \<Rightarrow> comparator_bank" where
  "applyAddrToSelected b =
     (let k = unat (selectedSlot b)
      in if k \<ge> CPLD_COMPARATOR_COUNT then b
         else b\<lparr>slots := (slots b)[k := (slots b ! k)\<lparr>addr := latchedAddr b\<rparr>]\<rparr>)"

text \<open>\<^verbatim>\<open>this.slots[k]!\<close>: undefined outside the array, so that its fields throw.\<close>

definition bank_slot_at :: "u16 \<Rightarrow> comparator_bank \<Rightarrow> js_error + comparator_slot" where
  "bank_slot_at k b = (if unat k < length (slots b) then Inr (slots b ! unat k) else Inl TypeError)"

definition ctrlFromSelected :: "comparator_bank \<Rightarrow> js_error + u16" where
  "ctrlFromSelected b =
     (case bank_slot_at (selectedSlot b) b of
        Inl e \<Rightarrow> Inl e
      | Inr s \<Rightarrow> Inr (encodeBreakCtrl (selectedSlot b) (enabled s) (io s) (rdwr s)))"

definition addrLoFromSelected :: "comparator_bank \<Rightarrow> js_error + u16" where
  "addrLoFromSelected b =
     (case bank_slot_at (selectedSlot b) b of
        Inl e \<Rightarrow> Inl e
      | Inr s \<Rightarrow> Inr (ucast (addr s AND 0xFFFF)))"

definition addrHiFromSelected :: "comparator_bank \<Rightarrow> js_error + u16" where
  "addrHiFromSelected b =
     (case bank_slot_at (selectedSlot b) b of
        Inl e \<Rightarrow> Inl e
      | Inr s \<Rightarrow> Inr (ucast (drop_bit 16 (addr s) AND 0x03)))"

definition bank_readPort :: "u16 \<Rightarrow> comparator_bank \<Rightarrow> comparator_bank \<times> (js_error + u16 option)" where
  "bank_readPort p b =
     (if p = IO_PORT_BREAK_CTRL then (b, map_sum id Some (ctrlFromSelected b))
      else if p = IO_PORT_BREAK_ADDR_LO then (b, map_sum id Some (addrLoFromSelected b))
      else if p = IO_PORT_BREAK_ADDR_HI then (b, map_sum id Some (addrHiFromSelected b))
      else if p = IO_PORT_BREAK_HIT then
        (if lastHit b = 0xFFFF then (b\<lparr>prevLatch := 0\<rparr>, Inr (Some 0xFFFF))
         else let slot = lastHit b AND 0x07
              in (b\<lparr>prevLatch := prevWrite b ! unat slot AND 0xFFFF\<rparr>, Inr (Some slot)))
      else if p = IO_PORT_BREAK_PREV then (b, Inr (Some (prevLatch b AND 0xFFFF)))
      else (b, Inr None))"

definition bank_writePort :: "u16 \<Rightarrow> u16 \<Rightarrow> comparator_bank \<Rightarrow> comparator_bank \<times> bool" where
  "bank_writePort p v b =
     (if p = IO_PORT_BREAK_ADDR_LO then
        (applyAddrToSelected (b\<lparr>addrLoLatch := v\<rparr>), True)
      else if p = IO_PORT_BREAK_ADDR_HI then
        (applyAddrToSelected (b\<lparr>addrHiLatch := v AND 0x03\<rparr>), True)
      else if p = IO_PORT_BREAK_CTRL then
        (applyCtrlToSlot (b\<lparr>ctrlLatch := v\<rparr>), True)
      else if p = IO_PORT_BREAK_HIT \<or> p = IO_PORT_BREAK_PREV then (b, True)
      else (b, False))"

subsection \<open>Well-formed banks\<close>

text \<open>Four slots with their fields in range, and the latches the code masks.\<close>

definition wf_slot :: "comparator_slot \<Rightarrow> bool" where
  "wf_slot s \<longleftrightarrow> rdwr s \<le> 3 \<and> addr s \<le> 0x3FFFF"

definition wf_bank :: "comparator_bank \<Rightarrow> bool" where
  "wf_bank b \<longleftrightarrow> length (slots b) = 4 \<and> length (prevWrite b) = 4 \<and> list_all wf_slot (slots b)
     \<and> addrHiLatch b \<le> 3 \<and> (lastHit b = 0xFFFF \<or> lastHit b < 4)"

lemma wf_newComparatorBank: "wf_bank newComparatorBank"
  by (simp add: wf_bank_def wf_slot_def newComparatorBank_def emptySlot_def
      CPLD_COMPARATOR_COUNT_def list_all_iff)

lemma wf_bank_reset: "wf_bank b \<Longrightarrow> wf_bank (bank_reset b)"
  by (auto simp: wf_bank_def wf_slot_def bank_reset_def list_all_iff)

lemma wf_bank_upd: "wf_bank b \<Longrightarrow> wf_slot s \<Longrightarrow> wf_bank (b\<lparr>slots := (slots b)[k := s]\<rparr>)"
  by (auto simp: wf_bank_def list_all_iff dest!: set_update_subset_insert [THEN subsetD])

lemma wf_bank_slot: "wf_bank b \<Longrightarrow> k < 4 \<Longrightarrow> wf_slot (slots b ! k)"
  by (auto simp: wf_bank_def list_all_length)

lemma latchedAddr_le: "latchedAddr b \<le> 0x3FFFF"
proof -
  have three: "(3 :: u16) = mask 2" by (simp add: mask_numeral)
  have "latchedAddr b = latchedAddr b AND mask 18"
    by (rule bit_eqI) (auto simp: latchedAddr_def bit_simps three dest: bit_imp_le_length)
  then show ?thesis using word_and_le1 [of "latchedAddr b" "mask 18"] by (simp add: mask_numeral)
qed

lemma wf_applyCtrl: "wf_bank b \<Longrightarrow> wf_bank (applyCtrlToSlot b)"
  by (auto simp: applyCtrlToSlot_def Let_def decodeBreakCtrl_def wf_slot_def latchedAddr_le
      word_and_le1 intro!: wf_bank_upd)

lemma wf_applyAddr: "wf_bank b \<Longrightarrow> wf_bank (applyAddrToSelected b)"
  using wf_bank_slot [of b "unat (selectedSlot b)"]
  by (auto simp: applyAddrToSelected_def Let_def wf_slot_def latchedAddr_le
      CPLD_COMPARATOR_COUNT_def intro!: wf_bank_upd)

lemma wf_bank_write: "wf_bank b \<Longrightarrow> wf_bank (fst (bank_writePort p v b))"
proof -
  assume wf: "wf_bank b"
  have "wf_bank (b\<lparr>ctrlLatch := v\<rparr>)" "wf_bank (b\<lparr>addrLoLatch := v\<rparr>)"
    "wf_bank (b\<lparr>addrHiLatch := v AND 3\<rparr>)"
    using wf by (simp_all add: wf_bank_def word_and_le1)
  then show ?thesis using wf by (auto simp: bank_writePort_def intro: wf_applyCtrl wf_applyAddr)
qed

lemma wf_bank_read: "wf_bank b \<Longrightarrow> wf_bank (fst (bank_readPort p b))"
  by (auto simp: bank_readPort_def Let_def wf_bank_def)

subsection \<open>The probe\<close>

text \<open>The state after a hit on slot \<open>i\<close>.\<close>

definition recordHit :: "bus_access \<Rightarrow> nat \<Rightarrow> comparator_bank \<Rightarrow> comparator_bank" where
  "recordHit access i b =
     (if acc_write access then
        let before = (case acc_prev access of None \<Rightarrow> 0 | Some p \<Rightarrow> p)
        in b\<lparr>prevWrite := (prevWrite b)[i := before], prevLatch := before, lastHit := of_nat i\<rparr>
      else b\<lparr>prevLatch := 0, lastHit := of_nat i\<rparr>)"

lemma probe_from_find:
  "probe_from i access ss b =
     (case find (\<lambda>k. slotMatches (ss ! k) access) [0..<length ss] of
        None \<Rightarrow> (b, -1)
      | Some k \<Rightarrow> (recordHit access (i + k) b, int (i + k)))"
proof (induction ss arbitrary: i)
  case (Cons s ss)
  have "find (\<lambda>k. slotMatches ((s # ss) ! k) access) [Suc 0..<Suc n] =
      map_option Suc (find (\<lambda>k. slotMatches (ss ! k) access) [0..<n])" for n
    by (simp add: map_Suc_upt [symmetric] find_map comp_def del: upt_Suc)
  then show ?case
    using Cons.IH [of "Suc i"]
    by (auto simp: recordHit_def Let_def upt_conv_Cons simp del: upt_Suc split: option.splits)
qed simp

lemma wf_recordHit: "wf_bank b \<Longrightarrow> i < 4 \<Longrightarrow> wf_bank (recordHit access i b)"
  by (auto simp: recordHit_def wf_bank_def Let_def word_less_nat_alt unat_of_nat)

lemma bank_probe_find:
  "bank_probe access b =
     (case find (\<lambda>k. slotMatches (slots b ! k) access) [0..<length (slots b)] of
        None \<Rightarrow> (b, -1)
      | Some k \<Rightarrow> (recordHit access k b, int k))"
  by (simp add: bank_probe_def probe_from_find split: option.splits)

lemma find_upt_less: "find P [0..<n] = Some k \<Longrightarrow> k < n"
  by (auto simp: find_Some_iff)

lemma wf_bank_probe:
  assumes "wf_bank b"
  shows "wf_bank (fst (bank_probe access b))"
proof (cases "find (\<lambda>k. slotMatches (slots b ! k) access) [0..<length (slots b)]")
  case None
  with assms show ?thesis by (simp add: bank_probe_find)
next
  case (Some k)
  then have "k < 4" using assms find_upt_less by (fastforce simp: wf_bank_def)
  with Some assms show ?thesis by (simp add: bank_probe_find wf_recordHit)
qed

subsection \<open>The control word\<close>

lemma decode_encode:
  "decodeBreakCtrl (encodeBreakCtrl slot ena isio rw) =
     \<lparr>bc_slot = slot AND 7, bc_enabled = ena, bc_io = isio, bc_rdwr = rw AND 3\<rparr>"
  by (simp add: decodeBreakCtrl_def encodeBreakCtrl_def bits16) (auto simp: bit_simps)

lemma encode_decode:
  "(let d = decodeBreakCtrl c
    in encodeBreakCtrl (bc_slot d) (bc_enabled d) (bc_io d) (bc_rdwr d)) = c AND 0x7F"
  unfolding decodeBreakCtrl_def encodeBreakCtrl_def Let_def bits16
  by (auto simp: bit_simps)

lemma encode_slot: "encodeBreakCtrl slot ena isio rw AND 7 = slot AND 7"
  unfolding encodeBreakCtrl_def bits16 by (auto simp: bit_simps)

lemma encode_rw: "encodeBreakCtrl slot ena isio (rw AND 3) = encodeBreakCtrl slot ena isio rw"
  unfolding encodeBreakCtrl_def bits16 by (auto simp: bit_simps)

lemma less_4_AND_7: "(k :: u16) < 4 \<Longrightarrow> k AND 7 = k"
  using less_mask_eq [of k 3] by (simp add: mask_numeral) unat_arith

lemma unat_less_4: "(k :: u16) < 4 \<Longrightarrow> unat k < 4"
  by unat_arith

lemma addr_halves:
  fixes hi lo :: u16
  shows "ucast ((push_bit 16 (ucast (hi AND 3)) OR ucast lo :: u32) AND 0xFFFF) = lo"
    and "ucast (drop_bit 16 (push_bit 16 (ucast (hi AND 3)) OR ucast lo :: u32) AND 3) = hi AND 3"
  unfolding bits16 by (auto simp: bit_simps dest: bit_imp_le_length)

subsection \<open>Properties\<close>

text \<open>
  The control word of port 0030 survives encoding and decoding: what is decoded from an
  encoded control word is the encoded slot (3 bits), enable, I/O and direction (2 bits), and
  encoding the decoded fields gives back the seven significant bits of the word.
\<close>

lemma break_ctrl_roundtrip:
  "decodeBreakCtrl (encodeBreakCtrl slot ena isio rw) =
     \<lparr>bc_slot = slot AND 7, bc_enabled = ena, bc_io = isio, bc_rdwr = rw AND 3\<rparr> \<and>
   (let d = decodeBreakCtrl c
    in encodeBreakCtrl (bc_slot d) (bc_enabled d) (bc_io d) (bc_rdwr d)) = c AND 0x7F"
  by (intro conjI decode_encode encode_decode)



text \<open>
  Programming one of the four comparators through its ports (control word, then the low
  and the high half of the address) sets exactly that slot, and the three ports read back
  what was written.
\<close>

lemma comparator_program:
  assumes "wf_bank b" and "k < 4"
  shows "let b' = fst (bank_writePort IO_PORT_BREAK_ADDR_HI hi
             (fst (bank_writePort IO_PORT_BREAK_ADDR_LO lo
               (fst (bank_writePort IO_PORT_BREAK_CTRL (encodeBreakCtrl k ena isio rw) b)))))
         in slots b' = (slots b)[unat k := \<lparr>enabled = ena, io = isio, rdwr = rw AND 3,
              addr = push_bit 16 (ucast (hi AND 3)) OR ucast lo\<rparr>] \<and>
            snd (bank_readPort IO_PORT_BREAK_CTRL b') =
              Inr (Some (encodeBreakCtrl k ena isio rw)) \<and>
            snd (bank_readPort IO_PORT_BREAK_ADDR_LO b') = Inr (Some lo) \<and>
            snd (bank_readPort IO_PORT_BREAK_ADDR_HI b') = Inr (Some (hi AND 3))"
    (is "let b' = ?b' in _")
proof -
  have k: "k AND 7 = k" "unat k < 4" "length (slots b) = 4"
    using assms by (auto simp: less_4_AND_7 unat_less_4 wf_bank_def)
  have b': "?b' = b\<lparr>ctrlLatch := encodeBreakCtrl k ena isio rw, addrLoLatch := lo,
      addrHiLatch := hi AND 3, slots := (slots b)[unat k := \<lparr>enabled = ena, io = isio,
        rdwr = rw AND 3, addr = push_bit 16 (ucast (hi AND 3)) OR ucast lo\<rparr>]\<rparr>"
    using k by (simp add: bank_writePort_def break_port_defs applyCtrlToSlot_def
        applyAddrToSelected_def Let_def decode_encode selectedSlot_def encode_slot
        CPLD_COMPARATOR_COUNT_def latchedAddr_def)
  show ?thesis
    unfolding Let_def b' using k
    by (simp add: bank_readPort_def break_port_defs ctrlFromSelected_def
        addrLoFromSelected_def addrHiFromSelected_def bank_slot_at_def selectedSlot_def
        encode_slot encode_rw addr_halves del: drop_bit_or)
qed

theorem comparator_program_witness:
  "slots (fst (bank_writePort IO_PORT_BREAK_ADDR_HI 1
     (fst (bank_writePort IO_PORT_BREAK_ADDR_LO 0x100
       (fst (bank_writePort IO_PORT_BREAK_CTRL (encodeBreakCtrl 2 True False 3) newComparatorBank))))))
     ! 2 = \<lparr>enabled = True, io = False, rdwr = 3, addr = 0x10100\<rparr>"
  using comparator_program [OF wf_newComparatorBank, of 2 1 "0x100" True False 3]
  by (simp add: Let_def newComparatorBank_def CPLD_COMPARATOR_COUNT_def)

text \<open>
  Reading the control or an address port throws exactly when the selector latched by the
  last control write names one of the slots 4 to 7, which three bits can name but the bank
  does not have; no other port read throws.
\<close>

theorem readPort_throws_iff:
  assumes "wf_bank b"
  shows "(\<exists>e. snd (bank_readPort p b) = Inl e) \<longleftrightarrow>
     (p = IO_PORT_BREAK_CTRL \<or> p = IO_PORT_BREAK_ADDR_LO \<or> p = IO_PORT_BREAK_ADDR_HI) \<and>
     ctrlLatch b AND 7 \<ge> 4"
proof -
  have "unat (ctrlLatch b AND 7) < 4 \<longleftrightarrow> \<not> ctrlLatch b AND 7 \<ge> 4"
    by (simp add: word_le_nat_alt not_le)
  then show ?thesis
    using assms
    by (auto simp: bank_readPort_def break_port_defs ctrlFromSelected_def addrLoFromSelected_def
        addrHiFromSelected_def bank_slot_at_def selectedSlot_def wf_bank_def Let_def
        split: sum.splits)
qed

theorem readPort_throws_iff_witness:
  "snd (bank_readPort IO_PORT_BREAK_ADDR_LO
     (newComparatorBank\<lparr>ctrlLatch := 5\<rparr>)) = Inl TypeError"
proof -
  have "wf_bank (newComparatorBank\<lparr>ctrlLatch := 5\<rparr>)"
    using wf_newComparatorBank by (simp add: wf_bank_def)
  from readPort_throws_iff [OF this, of IO_PORT_BREAK_ADDR_LO] show ?thesis
    by (auto intro: js_error.exhaust)
qed

end
