(* ===== verification/Step_Break.thy ===== *)
theory Step_Break
  imports Prelude
begin

text \<open>
  The step one-shot of the CPU board's CPLD, \<^verbatim>\<open>cpuboard/mn1613/step_break.ts\<close>
  (class \<^verbatim>\<open>StepBreakUnit\<close>).  The callback \<^verbatim>\<open>onHit\<close> is not part of the unit here:
  \<open>onInstructionFetch\<close> returns whether it was due, and the board theory raises the
  interrupt.  The two latches are 8 bits wide and held in 16-bit values, as the code does.
\<close>

definition IO_PORT_STEP_ENA :: u16 where "IO_PORT_STEP_ENA = 0x0036"
definition IO_PORT_STEP_DELAY :: u16 where "IO_PORT_STEP_DELAY = 0x0037"
definition STEP_BRK_DELAY_1STEP :: u16 where "STEP_BRK_DELAY_1STEP = 0x01"

record step_break_unit =
  sb_ena :: u16
  sb_delay :: u16
  sb_remaining :: u16
  sb_skipFirstFetch :: bool

definition newStepBreakUnit :: step_break_unit where
  "newStepBreakUnit = \<lparr>sb_ena = 0, sb_delay = STEP_BRK_DELAY_1STEP, sb_remaining = 0,
     sb_skipFirstFetch = False\<rparr>"

definition sb_reset :: "step_break_unit \<Rightarrow> step_break_unit" where
  "sb_reset u = u\<lparr>sb_ena := 0, sb_delay := STEP_BRK_DELAY_1STEP, sb_remaining := 0,
     sb_skipFirstFetch := False\<rparr>"

definition sb_getEnable :: "step_break_unit \<Rightarrow> u16" where
  "sb_getEnable u = sb_ena u"

definition sb_getDelayCount :: "step_break_unit \<Rightarrow> u16" where
  "sb_getDelayCount u = sb_delay u AND 0xFF"

definition sb_getRemainingCount :: "step_break_unit \<Rightarrow> u16" where
  "sb_getRemainingCount u = sb_remaining u AND 0xFF"

definition sb_onInstructionFetch :: "u16 \<Rightarrow> step_break_unit \<Rightarrow> step_break_unit \<times> bool" where
  "sb_onInstructionFetch word u =
     (if sb_ena u = 0 then (u, False)
      else if sb_skipFirstFetch u then (u\<lparr>sb_skipFirstFetch := False\<rparr>, False)
      else
        let u1 = (if sb_remaining u > 0
                  then u\<lparr>sb_remaining := (sb_remaining u - 1) AND 0xFF\<rparr> else u)
        in if sb_remaining u1 = 0 then (u1\<lparr>sb_ena := 0\<rparr>, True) else (u1, False))"

definition sb_readPort :: "u16 \<Rightarrow> step_break_unit \<Rightarrow> u16 option" where
  "sb_readPort p u =
     (if p = IO_PORT_STEP_ENA then Some (sb_ena u)
      else if p = IO_PORT_STEP_DELAY then Some (sb_delay u AND 0xFF)
      else None)"

definition sb_writePort :: "u16 \<Rightarrow> u16 \<Rightarrow> step_break_unit \<Rightarrow> step_break_unit \<times> bool" where
  "sb_writePort p v u =
     (if p = IO_PORT_STEP_ENA then
        let u1 = u\<lparr>sb_ena := v AND 1\<rparr>
        in if sb_ena u1 \<noteq> 0
           then (u1\<lparr>sb_remaining := ((sb_delay u1 AND 0xFF) + 1) AND 0xFF,
                    sb_skipFirstFetch := True\<rparr>, True)
           else (u1\<lparr>sb_remaining := 0, sb_skipFirstFetch := False\<rparr>, True)
      else if p = IO_PORT_STEP_DELAY then (u\<lparr>sb_delay := v AND 0xFF\<rparr>, True)
      else (u, False))"

subsection \<open>Latch widths\<close>

definition wf_step :: "step_break_unit \<Rightarrow> bool" where
  "wf_step u \<longleftrightarrow> sb_ena u \<le> 1 \<and> sb_delay u \<le> 0xFF \<and> sb_remaining u \<le> 0xFF"

lemma wf_new_step [simp]: "wf_step newStepBreakUnit"
  by (simp add: wf_step_def newStepBreakUnit_def STEP_BRK_DELAY_1STEP_def)

lemma wf_sb_reset [simp]: "wf_step (sb_reset u)"
  by (simp add: wf_step_def sb_reset_def STEP_BRK_DELAY_1STEP_def)

lemma wf_sb_fetch: "wf_step u \<Longrightarrow> wf_step (fst (sb_onInstructionFetch w u))"
  by (auto simp: wf_step_def sb_onInstructionFetch_def Let_def)

lemma wf_sb_write: "wf_step u \<Longrightarrow> wf_step (fst (sb_writePort p v u))"
  by (auto simp: wf_step_def sb_writePort_def Let_def word_and_le1)

subsection \<open>Counting fetches\<close>









end
