(* ===== verification/Io_Bridge.thy ===== *)
theory Io_Bridge
  imports Prelude
begin

text \<open>
  The handshake lines between the boards, \<^verbatim>\<open>cpuboard/mn1613/mn1613ioport.ts\<close>
  (\<^verbatim>\<open>CpuIoSignals\<close>), and the bridge that shows them to the CPU as the ports 0020 to 0025,
  \<^verbatim>\<open>cpuboard/handshake/io_port_bridge.ts\<close>.  A line of type 0 | 1 is a boolean.
\<close>

record cpu_io_signals =
  INTERRUPT_BUSY :: bool
  INT_CAUSE :: u16
  HSHK_OUT_DENA :: bool
  HSHK_OUT_DACK :: bool
  HSHK_IN_DENA :: bool
  HSHK_IN_DACK :: bool
  HSHK_OUT_REQ :: bool
  HSHK_IN_REQ :: bool
  HSHK_IN_DATA :: u16
  HSHK_OUT_DATA :: u16

definition PORT_INTERRUPT_BUSY :: u16 where "PORT_INTERRUPT_BUSY = 0x20"
definition PORT_INT_CAUSE :: u16 where "PORT_INT_CAUSE = 0x21"
definition PORT_HSHK_OUT_CTRL :: u16 where "PORT_HSHK_OUT_CTRL = 0x22"
definition PORT_HSHK_OUT_DATA :: u16 where "PORT_HSHK_OUT_DATA = 0x23"
definition PORT_HSHK_IN_CTRL :: u16 where "PORT_HSHK_IN_CTRL = 0x24"
definition PORT_HSHK_IN_DATA :: u16 where "PORT_HSHK_IN_DATA = 0x25"

lemmas hshk_port_defs = PORT_INTERRUPT_BUSY_def PORT_INT_CAUSE_def PORT_HSHK_OUT_CTRL_def
  PORT_HSHK_OUT_DATA_def PORT_HSHK_IN_CTRL_def PORT_HSHK_IN_DATA_def

text \<open>\<^verbatim>\<open>HSHK_CTRL_BIT\<close> and \<^verbatim>\<open>HSHK_IN_CTRL_BIT\<close>.\<close>

definition CTRL_OUT_REQ :: u16 where "CTRL_OUT_REQ = 0x01"
definition CTRL_OUT_DENA :: u16 where "CTRL_OUT_DENA = 0x02"
definition CTRL_IN_DACK :: u16 where "CTRL_IN_DACK = 0x04"
definition INCTRL_IN_REQ :: u16 where "INCTRL_IN_REQ = 0x01"
definition INCTRL_IN_DENA :: u16 where "INCTRL_IN_DENA = 0x02"
definition INCTRL_OUT_DACK :: u16 where "INCTRL_OUT_DACK = 0x04"

lemmas ctrl_bit_defs = CTRL_OUT_REQ_def CTRL_OUT_DENA_def CTRL_IN_DACK_def
  INCTRL_IN_REQ_def INCTRL_IN_DENA_def INCTRL_OUT_DACK_def

definition bridge_read :: "u16 \<Rightarrow> cpu_io_signals \<Rightarrow> u16" where
  "bridge_read port bus =
     (if port = PORT_INTERRUPT_BUSY then (if INTERRUPT_BUSY bus then 1 else 0)
      else if port = PORT_INT_CAUSE then INT_CAUSE bus AND 0x07
      else if port = PORT_HSHK_OUT_CTRL then
        (if HSHK_OUT_DENA bus then CTRL_OUT_DENA else 0)
        OR (if HSHK_IN_DACK bus then CTRL_IN_DACK else 0)
        OR (if HSHK_OUT_REQ bus then CTRL_OUT_REQ else 0)
      else if port = PORT_HSHK_OUT_DATA then HSHK_OUT_DATA bus AND 0xFF
      else if port = PORT_HSHK_IN_CTRL then
        (if HSHK_IN_REQ bus then INCTRL_IN_REQ else 0)
        OR (if HSHK_IN_DENA bus then INCTRL_IN_DENA else 0)
        OR (if HSHK_OUT_DACK bus then INCTRL_OUT_DACK else 0)
      else if port = PORT_HSHK_IN_DATA then HSHK_IN_DATA bus AND 0xFF
      else 0)"

definition bridge_write :: "u16 \<Rightarrow> u16 \<Rightarrow> cpu_io_signals \<Rightarrow> cpu_io_signals" where
  "bridge_write port v bus =
     (if port = PORT_INTERRUPT_BUSY then bus\<lparr>INTERRUPT_BUSY := (v AND 0x01 \<noteq> 0)\<rparr>
      else if port = PORT_INT_CAUSE then bus\<lparr>INT_CAUSE := v AND 0x07\<rparr>
      else if port = PORT_HSHK_OUT_CTRL then
        bus\<lparr>HSHK_OUT_DENA := (v AND CTRL_OUT_DENA \<noteq> 0),
            HSHK_IN_DACK := (v AND CTRL_IN_DACK \<noteq> 0),
            HSHK_OUT_REQ := (v AND CTRL_OUT_REQ \<noteq> 0)\<rparr>
      else if port = PORT_HSHK_OUT_DATA then bus\<lparr>HSHK_OUT_DATA := v AND 0xFF\<rparr>
      else if port = PORT_HSHK_IN_CTRL then
        bus\<lparr>HSHK_IN_REQ := (v AND INCTRL_IN_REQ \<noteq> 0),
            HSHK_IN_DENA := (v AND INCTRL_IN_DENA \<noteq> 0),
            HSHK_OUT_DACK := (v AND INCTRL_OUT_DACK \<noteq> 0)\<rparr>
      else if port = PORT_HSHK_IN_DATA then bus\<lparr>HSHK_IN_DATA := v AND 0xFF\<rparr>
      else bus)"

subsection \<open>The ports as registers\<close>

text \<open>The bits each port has; the other ports have none.\<close>

definition bridgeMask :: "u16 \<Rightarrow> u16" where
  "bridgeMask p =
     (if p = PORT_INTERRUPT_BUSY then 1
      else if p = PORT_INT_CAUSE \<or> p = PORT_HSHK_OUT_CTRL \<or> p = PORT_HSHK_IN_CTRL then 7
      else if p = PORT_HSHK_OUT_DATA \<or> p = PORT_HSHK_IN_DATA then 0xFF
      else 0)"

lemma and_1_nonzero: "(if v AND 1 \<noteq> 0 then 1 else 0) = v AND (1 :: u16)"
  unfolding bits16 by (auto simp: bit_simps)

lemma ctrl_bits:
  "(if v AND 2 \<noteq> 0 then 2 else 0) OR (if v AND 4 \<noteq> 0 then 4 else 0) OR v AND 1
   = v AND (7 :: u16)"
  "v AND 1 OR (if v AND 2 \<noteq> 0 then 2 else 0) OR (if v AND 4 \<noteq> 0 then 4 else 0)
   = v AND (7 :: u16)"
  unfolding bits16 by (auto simp: bit_simps)

lemma bridge_port_cases:
  obtains "p = 0x20" | "p = 0x21" | "p = 0x22" | "p = 0x23" | "p = 0x24" | "p = 0x25"
    | "(p :: u16) \<notin> {0x20, 0x21, 0x22, 0x23, 0x24, 0x25}"
  by blast

lemmas bridge_defs = bridge_read_def bridge_write_def bridgeMask_def hshk_port_defs ctrl_bit_defs

lemma bridge_read_same: "bridge_read p (bridge_write p v bus) = v AND bridgeMask p"
  unfolding bridge_defs
  by (rule bridge_port_cases [of p]) (simp_all add: and_1_nonzero ctrl_bits split del: if_split)

lemma bridge_read_other: "q \<noteq> p \<Longrightarrow> bridge_read q (bridge_write p v bus) = bridge_read q bus"
  unfolding bridge_defs
  by (rule bridge_port_cases [of p]) (simp_all split del: if_split cong: if_cong)

text \<open>
  The six handshake ports are independent registers: what the CPU reads from a port is
  the last value written to that port cut to the port's bits, a write to one port never
  changes what another reads, and a port that does not exist reads 0.
\<close>

lemma bridge_registers:
  "bridge_read q (bridge_write p v bus) =
     (if q = p then v AND bridgeMask p else bridge_read q bus)"
  by (simp add: bridge_read_same bridge_read_other)

end
