(* ===== verification/Board_State.thy ===== *)
theory Board_State
  imports Pin_Signal Addr_Comparator Step_Break Io_Bridge
begin

text \<open>
  The state of the MN1613 CPU board: the module variables of \<^verbatim>\<open>cpuboard/mn1613/mn1613.ts\<close>
  (registers, memory buffer, execution state, pins, clock), the comparator bank and step
  unit it imports, and the module variables of \<^verbatim>\<open>cpuboard/io_ports.ts\<close> that its I/O
  callbacks read and write.  The callbacks themselves are a field that says which of the
  two sets of callbacks the repository installs is in place.

  The register STR is the field \<open>rSTR\<close> (the bare name is a token of HOL).
  Registers hold 16-bit values; the four segment registers use the low four bits of theirs
  (an invariant, not a type).  The memory is the byte buffer behind the \<^verbatim>\<open>DataView\<close>.
\<close>

subsection \<open>Registers and flags\<close>

definition STR_E :: u16 where "STR_E = 0x8000"
definition STR_OVF :: u16 where "STR_OVF = 0x2000"
definition STR_M0 :: u16 where "STR_M0 = 0x0400"
definition STR_M1 :: u16 where "STR_M1 = 0x0200"
definition STR_M2 :: u16 where "STR_M2 = 0x0100"
definition IISR_UNDEF :: u16 where "IISR_UNDEF = 0x0001"

lemmas str_bit_defs = STR_E_def STR_OVF_def STR_M0_def STR_M1_def STR_M2_def

text \<open>\<open>R\<close> and \<open>OSR\<close> are the tuples of five and four values, as functions of the index.\<close>

record cpu_register =
  R :: "nat \<Rightarrow> u16"
  SP :: u16
  rSTR :: u16
  IC :: u16
  CSBR :: u16
  SSBR :: u16
  TSR0 :: u16
  TSR1 :: u16
  OSR :: "nat \<Rightarrow> u16"
  NPP :: u16
  IISR :: u16
  SBRB :: u16
  ICB :: u16

definition initialRegister :: cpu_register where
  "initialRegister =
     \<lparr>R = (\<lambda>_. 0), SP = 0, rSTR = 0, IC = 0, CSBR = 0, SSBR = 0, TSR0 = 0, TSR1 = 0,
      OSR = (\<lambda>_. 0), NPP = 0x01, IISR = 0, SBRB = 0, ICB = 0\<rparr>"

subsection \<open>Memory\<close>

record mem_buffer =
  byteLength :: nat
  bytes :: "nat \<Rightarrow> u8"

definition MEM_WORDS :: nat where "MEM_WORDS = 0x40000"

definition getUint16 :: "nat \<Rightarrow> mem_buffer \<Rightarrow> u16" where
  "getUint16 b m = push_bit 8 (ucast (bytes m b)) OR ucast (bytes m (b + 1))"

definition setUint16 :: "nat \<Rightarrow> u16 \<Rightarrow> mem_buffer \<Rightarrow> mem_buffer" where
  "setUint16 b v m =
     m\<lparr>bytes := (bytes m)(b := ucast (drop_bit 8 v), b + 1 := ucast v)\<rparr>"

subsection \<open>Execution state\<close>

datatype exec_status = Idle | Running | Step | Break | Halted

text \<open>
  Which callbacks are installed, for RD and WT (\<open>ioCallbacks\<close>) and for comparator and step
  hits (\<open>hitCallbacks\<close>): the modules' defaults (reads give 0xFFFF, writes are dropped, hits
  are not reported) or those of \<^verbatim>\<open>attachIoBoardPorts\<close>.
\<close>

datatype callbacks = DefaultCallbacks | IoBoardPorts

record io_ports =
  resetVector :: u16
  handshakeBus :: "cpu_io_signals option"
  intCause :: u16
  interruptBusy :: u16

record board =
  reg :: cpu_register
  mem :: mem_buffer
  ioLastWrite :: "u16 \<rightharpoonup> u16"
  execStatus :: exec_status
  breakpoints :: "u16 set"
  stepMode :: bool
  pendingIRQ :: u32
  clockCount :: u64
  pinRST :: input_pin
  pinHLT :: input_pin
  pinIRQ0 :: input_pin
  pinIRQ1 :: input_pin
  pinIRQ2 :: input_pin
  pinBSAV :: input_pin
  pinSTRT :: input_pin
  pinIOP :: output_pin
  pinBSRQ :: output_pin
  pinWRT :: output_pin
  comparators :: comparator_bank
  stepUnit :: step_break_unit
  ioCallbacks :: callbacks
  hitCallbacks :: callbacks
  ports :: io_ports
  stopLog :: "(exec_status \<times> cpu_register) list"

type_synonym 'a cpu = "(board, 'a) state"

text \<open>Updates of one part of the state, the assignments of the TypeScript.\<close>

abbreviation updReg :: "(cpu_register \<Rightarrow> cpu_register) \<Rightarrow> unit cpu" where
  "updReg f \<equiv> modify (reg_update f)"

abbreviation getReg :: "(cpu_register \<Rightarrow> 'a) \<Rightarrow> 'a cpu" where
  "getReg f \<equiv> gets (\<lambda>s. f (reg s))"

definition setR :: "nat \<Rightarrow> u16 \<Rightarrow> unit cpu" where
  "setR i v = updReg (\<lambda>r. r\<lparr>R := (R r)(i := v)\<rparr>)"

definition setSP :: "u16 \<Rightarrow> unit cpu" where "setSP v = updReg (SP_update (\<lambda>_. v))"
definition setSTR :: "u16 \<Rightarrow> unit cpu" where "setSTR v = updReg (rSTR_update (\<lambda>_. v))"
definition setIC :: "u16 \<Rightarrow> unit cpu" where "setIC v = updReg (IC_update (\<lambda>_. v))"
definition setCSBR :: "u16 \<Rightarrow> unit cpu" where "setCSBR v = updReg (CSBR_update (\<lambda>_. v))"
definition setSSBR :: "u16 \<Rightarrow> unit cpu" where "setSSBR v = updReg (SSBR_update (\<lambda>_. v))"
definition setTSR0 :: "u16 \<Rightarrow> unit cpu" where "setTSR0 v = updReg (TSR0_update (\<lambda>_. v))"
definition setTSR1 :: "u16 \<Rightarrow> unit cpu" where "setTSR1 v = updReg (TSR1_update (\<lambda>_. v))"
definition setOSR :: "nat \<Rightarrow> u16 \<Rightarrow> unit cpu" where
  "setOSR i v = updReg (\<lambda>r. r\<lparr>OSR := (OSR r)(i := v)\<rparr>)"
definition setNPP :: "u16 \<Rightarrow> unit cpu" where "setNPP v = updReg (NPP_update (\<lambda>_. v))"
definition setIISR :: "u16 \<Rightarrow> unit cpu" where "setIISR v = updReg (IISR_update (\<lambda>_. v))"
definition setSBRB :: "u16 \<Rightarrow> unit cpu" where "setSBRB v = updReg (SBRB_update (\<lambda>_. v))"
definition setICB :: "u16 \<Rightarrow> unit cpu" where "setICB v = updReg (ICB_update (\<lambda>_. v))"

lemmas reg_set_defs = setR_def setSP_def setSTR_def setIC_def setCSBR_def setSSBR_def
  setTSR0_def setTSR1_def setOSR_def setNPP_def setIISR_def setSBRB_def setICB_def

lemma run_reg_set [simp]:
  "run_state (setR i v) s = ((), s\<lparr>reg := (reg s)\<lparr>R := (R (reg s))(i := v)\<rparr>\<rparr>)"
  "run_state (setSP v) s = ((), s\<lparr>reg := (reg s)\<lparr>SP := v\<rparr>\<rparr>)"
  "run_state (setSTR v) s = ((), s\<lparr>reg := (reg s)\<lparr>rSTR := v\<rparr>\<rparr>)"
  "run_state (setIC v) s = ((), s\<lparr>reg := (reg s)\<lparr>IC := v\<rparr>\<rparr>)"
  "run_state (setCSBR v) s = ((), s\<lparr>reg := (reg s)\<lparr>CSBR := v\<rparr>\<rparr>)"
  "run_state (setSSBR v) s = ((), s\<lparr>reg := (reg s)\<lparr>SSBR := v\<rparr>\<rparr>)"
  "run_state (setTSR0 v) s = ((), s\<lparr>reg := (reg s)\<lparr>TSR0 := v\<rparr>\<rparr>)"
  "run_state (setTSR1 v) s = ((), s\<lparr>reg := (reg s)\<lparr>TSR1 := v\<rparr>\<rparr>)"
  "run_state (setOSR i v) s = ((), s\<lparr>reg := (reg s)\<lparr>OSR := (OSR (reg s))(i := v)\<rparr>\<rparr>)"
  "run_state (setNPP v) s = ((), s\<lparr>reg := (reg s)\<lparr>NPP := v\<rparr>\<rparr>)"
  "run_state (setIISR v) s = ((), s\<lparr>reg := (reg s)\<lparr>IISR := v\<rparr>\<rparr>)"
  "run_state (setSBRB v) s = ((), s\<lparr>reg := (reg s)\<lparr>SBRB := v\<rparr>\<rparr>)"
  "run_state (setICB v) s = ((), s\<lparr>reg := (reg s)\<lparr>ICB := v\<rparr>\<rparr>)"
  by (simp_all add: reg_set_defs)

end
