(* ===== verification/Io_Ports.thy ===== *)
theory Io_Ports
  imports Board_State
begin

text \<open>
  The I/O ports of the MN1613 board, \<^verbatim>\<open>cpuboard/io_ports.ts\<close> in its MN1613 wiring: the
  callbacks that \<^verbatim>\<open>attachIoBoardPorts\<close> hands to the CPU for RD, WT and comparator hits.
  The read callback can throw (see \<open>Addr_Comparator\<close>), so it returns a sum.
\<close>

definition IO_PORT_RESET_VECTOR :: u16 where "IO_PORT_RESET_VECTOR = 0x0000"
definition MONITOR_ENTRY_WORD :: u16 where "MONITOR_ENTRY_WORD = 0x0108"

text \<open>\<^verbatim>\<open>INT1_CAUSE_CODE\<close> of \<^verbatim>\<open>shared/handshake/handshake_type.ts\<close>.\<close>

definition INT1_ADDR_BREAK :: u16 where "INT1_ADDR_BREAK = 0"
definition INT1_STEP :: u16 where "INT1_STEP = 1"

definition initialPorts :: io_ports where
  "initialPorts = \<lparr>resetVector = MONITOR_ENTRY_WORD, handshakeBus = None, intCause = 0,
     interruptBusy = 0\<rparr>"

text \<open>\<^verbatim>\<open>triggerInterrupt\<close> of \<^verbatim>\<open>mn1613.ts\<close>, which the hit callbacks call.\<close>

definition triggerInterrupt :: "nat \<Rightarrow> unit cpu" where
  "triggerInterrupt level = modify (\<lambda>s. s\<lparr>pendingIRQ := pendingIRQ s OR push_bit level 1\<rparr>)"

definition getResetVector :: "u16 cpu" where
  "getResetVector = gets (\<lambda>s. resetVector (ports s) AND 0xFFFF)"

definition setResetVector :: "u16 \<Rightarrow> unit cpu" where
  "setResetVector wordAddr = modify (ports_update (resetVector_update (\<lambda>_. wordAddr)))"

definition attachHandshakeBus :: "cpu_io_signals option \<Rightarrow> unit cpu" where
  "attachHandshakeBus bus = modify (ports_update (handshakeBus_update (\<lambda>_. bus)))"

definition setIntCause :: "u16 \<Rightarrow> unit cpu" where
  "setIntCause cause = do {
     modify (ports_update (intCause_update (\<lambda>_. cause AND 0x07)));
     p \<leftarrow> gets ports;
     (case handshakeBus p of
        None \<Rightarrow> ret ()
      | Some bus \<Rightarrow> modify (ports_update (handshakeBus_update
          (\<lambda>_. Some (bus\<lparr>INT_CAUSE := intCause p\<rparr>)))))
   }"

definition getInterruptBusy :: "u16 cpu" where
  "getInterruptBusy = gets (\<lambda>s.
     case handshakeBus (ports s) of
       Some bus \<Rightarrow> (if INTERRUPT_BUSY bus then 1 else 0)
     | None \<Rightarrow> interruptBusy (ports s))"

definition isHandshakeActive :: "bool cpu" where
  "isHandshakeActive = gets (\<lambda>s.
     case handshakeBus (ports s) of
       None \<Rightarrow> False
     | Some bus \<Rightarrow> HSHK_OUT_REQ bus \<or> HSHK_OUT_DENA bus \<or> HSHK_IN_DACK bus
         \<or> HSHK_IN_REQ bus \<or> HSHK_IN_DENA bus \<or> HSHK_OUT_DACK bus)"

definition raiseAddrBreakIrq :: "int \<Rightarrow> unit cpu" where
  "raiseAddrBreakIrq slot = do { setIntCause INT1_ADDR_BREAK; triggerInterrupt 1 }"

definition raiseStepBreakIrq :: "unit cpu" where
  "raiseStepBreakIrq = do { setIntCause INT1_STEP; triggerInterrupt 1 }"

text \<open>\<^verbatim>\<open>this.onHit?.(\<dots>)\<close> of the two units, with the callback that is installed.\<close>

definition onAddrHit :: "int \<Rightarrow> unit cpu" where
  "onAddrHit slot = do {
     c \<leftarrow> gets hitCallbacks;
     whenM (c = IoBoardPorts) (raiseAddrBreakIrq slot)
   }"

definition onStepHit :: "unit cpu" where
  "onStepHit = do {
     c \<leftarrow> gets hitCallbacks;
     whenM (c = IoBoardPorts) raiseStepBreakIrq
   }"

definition addrComparators_probe :: "bus_access \<Rightarrow> unit cpu" where
  "addrComparators_probe access = do {
     b \<leftarrow> gets comparators;
     modify (comparators_update (\<lambda>_. fst (bank_probe access b)));
     whenM (snd (bank_probe access b) \<ge> 0) (onAddrHit (snd (bank_probe access b)))
   }"

definition stepBreak_onInstructionFetch :: "u16 \<Rightarrow> unit cpu" where
  "stepBreak_onInstructionFetch ir = do {
     u \<leftarrow> gets stepUnit;
     modify (stepUnit_update (\<lambda>_. fst (sb_onInstructionFetch ir u)));
     whenM (snd (sb_onInstructionFetch ir u)) onStepHit
   }"

definition isHshkPort :: "u16 \<Rightarrow> bool" where
  "isHshkPort p \<longleftrightarrow> p = PORT_INTERRUPT_BUSY \<or> p = PORT_INT_CAUSE \<or> p = PORT_HSHK_OUT_CTRL
     \<or> p = PORT_HSHK_IN_CTRL \<or> p = PORT_HSHK_OUT_DATA \<or> p = PORT_HSHK_IN_DATA"

text \<open>The part of the read callback after the comparators and the step unit.\<close>

definition portFallback :: "u16 \<Rightarrow> io_ports \<Rightarrow> u16" where
  "portFallback p s =
     (case handshakeBus s of
        Some bus \<Rightarrow>
          (if isHshkPort p then bridge_read p bus
           else if p = PORT_INTERRUPT_BUSY then interruptBusy s
           else if p = PORT_INT_CAUSE then intCause s
           else 0)
      | None \<Rightarrow>
          (if p = PORT_INTERRUPT_BUSY then interruptBusy s
           else if p = PORT_INT_CAUSE then intCause s
           else 0))"

definition boardIoRead :: "u16 \<Rightarrow> (js_error + u16) cpu" where
  "boardIoRead p =
     (if p = IO_PORT_RESET_VECTOR then gets (\<lambda>s. Inr (resetVector (ports s)))
      else do {
        b \<leftarrow> gets comparators;
        modify (comparators_update (\<lambda>_. fst (bank_readPort p b)));
        (case snd (bank_readPort p b) of
           Inl e \<Rightarrow> ret (Inl e)
         | Inr (Some v) \<Rightarrow> ret (Inr v)
         | Inr None \<Rightarrow> gets (\<lambda>s.
             case sb_readPort p (stepUnit s) of
               Some v \<Rightarrow> Inr v
             | None \<Rightarrow> Inr (portFallback p (ports s))))
      })"

definition isBreakPort :: "u16 \<Rightarrow> bool" where
  "isBreakPort p \<longleftrightarrow> p = IO_PORT_BREAK_CTRL \<or> p = IO_PORT_BREAK_ADDR_LO
     \<or> p = IO_PORT_BREAK_ADDR_HI \<or> p = IO_PORT_BREAK_HIT \<or> p = IO_PORT_BREAK_PREV"

definition boardIoWrite :: "u16 \<Rightarrow> u16 \<Rightarrow> unit cpu" where
  "boardIoWrite p val =
     (if p = IO_PORT_RESET_VECTOR then setResetVector val
      else if isBreakPort p then
        modify (comparators_update (\<lambda>b. fst (bank_writePort p val b)))
      else if p = IO_PORT_STEP_ENA \<or> p = IO_PORT_STEP_DELAY then
        modify (stepUnit_update (\<lambda>u. fst (sb_writePort p val u)))
      else do {
        q \<leftarrow> gets ports;
        (case handshakeBus q of
           Some bus \<Rightarrow> modify (ports_update (handshakeBus_update
             (\<lambda>_. Some (bridge_write p val bus))))
         | None \<Rightarrow> whenM (p = PORT_INTERRUPT_BUSY)
             (modify (ports_update (interruptBusy_update (\<lambda>_. val AND 1)))))
      })"

text \<open>The CPU's \<^verbatim>\<open>_ioRead\<close> and \<^verbatim>\<open>_ioWrite\<close>: the module's defaults or the ports above.\<close>

definition ioRead :: "u16 \<Rightarrow> (js_error + u16) cpu" where
  "ioRead p = do {
     c \<leftarrow> gets ioCallbacks;
     (case c of DefaultCallbacks \<Rightarrow> ret (Inr 0xFFFF) | IoBoardPorts \<Rightarrow> boardIoRead p)
   }"

definition ioWrite :: "u16 \<Rightarrow> u16 \<Rightarrow> unit cpu" where
  "ioWrite p val = do {
     c \<leftarrow> gets ioCallbacks;
     (case c of DefaultCallbacks \<Rightarrow> ret () | IoBoardPorts \<Rightarrow> boardIoWrite p val)
   }"

definition attachIoBoardPorts :: "unit cpu" where
  "attachIoBoardPorts = do {
     modify (hitCallbacks_update (\<lambda>_. IoBoardPorts));
     modify (ioCallbacks_update (\<lambda>_. IoBoardPorts))
   }"

definition resetAddrComparators :: "unit cpu" where
  "resetAddrComparators = do {
     modify (comparators_update bank_reset);
     modify (hitCallbacks_update (\<lambda>_. IoBoardPorts));
     modify (stepUnit_update sb_reset)
   }"

end
