(* ===== verification/Mn1613_Core.thy ===== *)
theory Mn1613_Core
  imports Io_Ports
begin

text \<open>
  The helpers of \<^verbatim>\<open>cpuboard/mn1613/mn1613.ts\<close> the instructions are built from: the clock,
  the bus accesses with their comparator probes, registers, effective addresses, skip
  conditions, flags, the stack and the interrupt entry.  JavaScript numbers that are masked
  to 16 bits are 16-bit words; where a sum or a difference is inspected before it is masked
  it is an integer.
\<close>

subsection \<open>Clock\<close>

definition CPU_CLK_PER_ACCESS :: int where "CPU_CLK_PER_ACCESS = 4"

definition addClocks :: "int \<Rightarrow> unit cpu" where
  "addClocks n = (if n \<le> 0 then ret ()
     else modify (\<lambda>s. s\<lparr>clockCount := clockCount s + word_of_int n\<rparr>))"

subsection \<open>I/O accesses\<close>

definition setIOP :: "bool \<Rightarrow> unit cpu" where
  "setIOP b = modify (pinIOP_update (setOutputLevel b))"

definition setWRT :: "bool \<Rightarrow> unit cpu" where
  "setWRT b = modify (pinWRT_update (setOutputLevel b))"

definition doIoRead :: "u16 \<Rightarrow> (js_error + u16) cpu" where
  "doIoRead port = do {
     setIOP True;
     setWRT False;
     addClocks CPU_CLK_PER_ACCESS;
     r \<leftarrow> ioRead port;
     (case r of
        Inl e \<Rightarrow> ret (Inl e)
      | Inr v \<Rightarrow> do {
          addrComparators_probe \<lparr>acc_addr = ucast port AND 0xFFFF, acc_io = True,
            acc_write = False, acc_data = None, acc_prev = None\<rparr>;
          ret (Inr v)
        })
   }"

definition doIoWrite :: "u16 \<Rightarrow> u16 \<Rightarrow> unit cpu" where
  "doIoWrite port val = do {
     setIOP True;
     setWRT True;
     addClocks CPU_CLK_PER_ACCESS;
     last \<leftarrow> gets ioLastWrite;
     let prv = (case last port of None \<Rightarrow> 0 | Some v \<Rightarrow> v);
     ioWrite port val;
     modify (ioLastWrite_update (\<lambda>m. m(port \<mapsto> val)));
     addrComparators_probe \<lparr>acc_addr = ucast port, acc_io = True, acc_write = True,
       acc_data = Some val, acc_prev = Some prv\<rparr>
   }"

subsection \<open>Memory accesses\<close>

definition phys :: "u16 \<Rightarrow> u16 \<Rightarrow> u18" where
  "phys logAddr seg = push_bit 14 (ucast (seg AND 0xF)) + ucast (logAddr AND 0xFFFF)"

text \<open>A word of the buffer, with the bound check of the code.\<close>

definition memWord :: "u18 \<Rightarrow> mem_buffer \<Rightarrow> u16" where
  "memWord p m =
     (let b = unat p * 2
      in if b + 1 \<ge> byteLength m then 0xFFFF else getUint16 b m)"

definition setMemWord :: "u18 \<Rightarrow> u16 \<Rightarrow> mem_buffer \<Rightarrow> mem_buffer" where
  "setMemWord p v m =
     (let b = unat p * 2
      in if b + 1 < byteLength m then setUint16 b v m else m)"

definition peekWord :: "u16 \<Rightarrow> u16 cpu" where
  "peekWord logAddr = gets (\<lambda>s. memWord (phys (logAddr AND 0xFFFF) 0) (mem s))"

definition rdPhys :: "u18 \<Rightarrow> u16 cpu" where
  "rdPhys p = do {
     addClocks CPU_CLK_PER_ACCESS;
     v \<leftarrow> gets (\<lambda>s. memWord p (mem s));
     addrComparators_probe \<lparr>acc_addr = ucast p, acc_io = False, acc_write = False,
       acc_data = None, acc_prev = None\<rparr>;
     ret v
   }"

definition wrPhys :: "u18 \<Rightarrow> u16 \<Rightarrow> unit cpu" where
  "wrPhys p val = do {
     addClocks CPU_CLK_PER_ACCESS;
     prv \<leftarrow> gets (\<lambda>s. memWord p (mem s));
     modify (mem_update (setMemWord p val));
     addrComparators_probe \<lparr>acc_addr = ucast p, acc_io = False, acc_write = True,
       acc_data = Some val, acc_prev = Some prv\<rparr>
   }"

definition rdC :: "u16 \<Rightarrow> u16 cpu" where
  "rdC la = do { seg \<leftarrow> getReg CSBR; rdPhys (phys la seg) }"

definition wrC :: "u16 \<Rightarrow> u16 \<Rightarrow> unit cpu" where
  "wrC la v = do { seg \<leftarrow> getReg CSBR; wrPhys (phys la seg) v }"

definition rdS :: "u16 \<Rightarrow> u16 cpu" where
  "rdS la = do { seg \<leftarrow> getReg SSBR; rdPhys (phys la seg) }"

definition wrS :: "u16 \<Rightarrow> u16 \<Rightarrow> unit cpu" where
  "wrS la v = do { seg \<leftarrow> getReg SSBR; wrPhys (phys la seg) v }"

definition rdB :: "u16 \<Rightarrow> u16 \<Rightarrow> u16 cpu" where
  "rdB la seg = rdPhys (phys la seg)"

definition wrB :: "u16 \<Rightarrow> u16 \<Rightarrow> u16 \<Rightarrow> unit cpu" where
  "wrB la v seg = wrPhys (phys la seg) v"

definition fetch :: "u16 cpu" where
  "fetch = do {
     ic \<leftarrow> getReg IC;
     w \<leftarrow> rdC ic;
     setIC (ic + 1);
     ret w
   }"

subsection \<open>Registers\<close>

definition gr :: "u16 \<Rightarrow> u16 cpu" where
  "gr rrr =
     (let k = rrr AND 7
      in if k = 0 then getReg (\<lambda>r. R r 0)
         else if k = 1 then getReg (\<lambda>r. R r 1)
         else if k = 2 then getReg (\<lambda>r. R r 2)
         else if k = 3 then getReg (\<lambda>r. R r 3)
         else if k = 4 then getReg (\<lambda>r. R r 4)
         else if k = 5 then getReg SP
         else if k = 6 then getReg rSTR
         else getReg IC)"

definition sw :: "u16 \<Rightarrow> u16 \<Rightarrow> unit cpu" where
  "sw rrr v =
     (let k = rrr AND 7
      in if k = 0 then setR 0 v
         else if k = 1 then setR 1 v
         else if k = 2 then setR 2 v
         else if k = 3 then setR 3 v
         else if k = 4 then setR 4 v
         else if k = 5 then setSP v
         else if k = 6 then setSTR v
         else setIC v)"

definition ri :: "u16 \<Rightarrow> u16 cpu" where
  "ri ii = getReg (\<lambda>r. R r (unat (ii AND 3) + 1))"

definition riSet :: "u16 \<Rightarrow> u16 \<Rightarrow> unit cpu" where
  "riSet ii v = setR (unat (ii AND 3) + 1) v"

definition segReg :: "u16 \<Rightarrow> u16 cpu" where
  "segReg bb =
     (let k = bb AND 3
      in if k = 0 then getReg CSBR
         else if k = 1 then getReg SSBR
         else if k = 2 then getReg TSR0
         else getReg TSR1)"

subsection \<open>Effective addresses\<close>

text \<open>The signed reading of the 8-bit displacement.\<close>

definition sext8 :: "u16 \<Rightarrow> u16" where
  "sext8 d = (if d < 0x80 then d else d - 0x100)"

definition ea :: "u16 \<Rightarrow> u16 \<Rightarrow> u16 cpu" where
  "ea mmm d = do {
     ic \<leftarrow> getReg IC;
     let sd = sext8 d;
     let insnIc = ic - 1;
     let k = mmm AND 7;
     if k = 0 then ret (d AND 0xFF)
     else if k = 1 then ret (insnIc + sd)
     else if k = 2 then rdC (d AND 0xFF)
     else if k = 3 then rdC (insnIc + sd)
     else if k = 4 then getReg (\<lambda>r. R r 3 + (d AND 0xFF))
     else if k = 5 then getReg (\<lambda>r. R r 4 + (d AND 0xFF))
     else if k = 6 then do { x \<leftarrow> getReg (\<lambda>r. R r 3); v \<leftarrow> rdC (d AND 0xFF); ret (x + v) }
     else do { x \<leftarrow> getReg (\<lambda>r. R r 4); v \<leftarrow> rdC (d AND 0xFF); ret (x + v) }
   }"

subsection \<open>Skips\<close>

text \<open>The condition on the result and the flags, and the reading of the flags.\<close>

definition skipCond :: "u16 \<Rightarrow> u16 \<Rightarrow> u16 \<Rightarrow> bool" where
  "skipCond str kkkk result =
     (let n = (result AND 0x8000 \<noteq> 0);
          z = (result AND 0xFFFF = 0);
          e = (str AND STR_E \<noteq> 0);
          v = (str AND STR_OVF \<noteq> 0);
          k = kkkk AND 0xF
      in if k = 0x0 then False
         else if k = 0x1 then True
         else if k = 0x2 then n
         else if k = 0x3 then \<not> n
         else if k = 0x4 then z
         else if k = 0x5 then \<not> z
         else if k = 0x6 then n \<or> z
         else if k = 0x7 then \<not> n \<and> \<not> z
         else if k = 0x8 then \<not> e
         else if k = 0x9 then e
         else if k = 0xA then \<not> v
         else if k = 0xB then v
         else if k = 0xC then e \<or> z
         else if k = 0xD then \<not> e \<and> \<not> z
         else if k = 0xE then \<not> e
         else e \<and> \<not> z)"

definition skip :: "u16 \<Rightarrow> u16 \<Rightarrow> bool cpu" where
  "skip kkkk result = getReg (\<lambda>r. skipCond (rSTR r) kkkk result)"

definition is2Word :: "u16 \<Rightarrow> bool" where
  "is2Word ir =
     (let op = drop_bit 11 ir AND 0x1F;
          rrr = drop_bit 8 ir AND 0x7;
          lo = ir AND 0xFF;
          b10 = lo AND 0xF
      in if op = 0x01 then rrr = 7 \<and> lo AND 7 = 7
         else if op = 0x02 then rrr = 7 \<and> lo \<noteq> 0x0F \<and> lo \<noteq> 0x07
         else if op = 0x04 then
           (if rrr = 7 \<and> lo AND 0x08 \<noteq> 0 \<and> lo AND 0x40 = 0 then True
            else if rrr = 7 \<and> lo AND 0x08 \<noteq> 0 \<and> lo AND 0x40 \<noteq> 0 then True
            else if rrr = 6 \<and> (lo = 0x07 \<or> lo = 0x17) then True
            else False)
         else if op = 0x08 \<or> op = 0x09 then rrr = 7 \<and> lo AND 0x04 \<noteq> 0
         else if op = 0x0A \<or> op = 0x0B \<or> op = 0x0C \<or> op = 0x0D then
           rrr \<noteq> 7 \<and> (b10 = 0xF \<or> b10 = 0x7)
         else if op = 0x0F then b10 = 0x7
         else False)"

definition skipNext :: "unit cpu" where
  "skipNext = do {
     ic \<leftarrow> getReg IC;
     ir \<leftarrow> rdC ic;
     setIC (ic + 1);
     whenM (is2Word ir) (setIC (ic + 2))
   }"

text \<open>\<^verbatim>\<open>if (_skip(kkkk, res)) _skipNext()\<close>, which ends most instructions.\<close>

definition skipIf :: "u16 \<Rightarrow> u16 \<Rightarrow> unit cpu" where
  "skipIf kkkk result = do { b \<leftarrow> skip kkkk result; whenM b skipNext }"

subsection \<open>Flags and arithmetic\<close>

definition setE :: "bool \<Rightarrow> unit cpu" where
  "setE v = updReg (\<lambda>r. if v then r\<lparr>rSTR := rSTR r OR STR_E\<rparr>
                          else r\<lparr>rSTR := rSTR r AND (NOT STR_E AND 0xFFFF)\<rparr>)"

definition setOVF :: "bool \<Rightarrow> unit cpu" where
  "setOVF v = updReg (\<lambda>r. if v then r\<lparr>rSTR := rSTR r OR STR_OVF\<rparr>
                            else r\<lparr>rSTR := rSTR r AND (NOT STR_OVF AND 0xFFFF)\<rparr>)"

definition getE :: "bool cpu" where
  "getE = getReg (\<lambda>r. rSTR r AND STR_E \<noteq> 0)"

definition add16 :: "u16 \<Rightarrow> u16 \<Rightarrow> u16 cpu" where
  "add16 a b = do {
     let res = uint a + uint b;
     setE (res > 0xFFFF);
     setOVF (NOT (a XOR b) AND (a XOR word_of_int res) AND 0x8000 \<noteq> 0);
     ret (word_of_int res)
   }"

definition sub16 :: "u16 \<Rightarrow> u16 \<Rightarrow> u16 cpu" where
  "sub16 a b = do {
     let res = uint a - uint b;
     setE (res < 0);
     setOVF ((a XOR b) AND (a XOR word_of_int res) AND 0x8000 \<noteq> 0);
     ret (word_of_int res)
   }"

definition applyEE :: "u16 \<Rightarrow> unit cpu" where
  "applyEE ee =
     (let k = ee AND 3
      in if k = 1 then setE False
         else if k = 2 then setE True
         else if k = 3 then do { e \<leftarrow> getE; setE (\<not> e) }
         else ret ())"

subsection \<open>Stack\<close>

definition push :: "u16 \<Rightarrow> unit cpu" where
  "push v = do {
     sp \<leftarrow> getReg SP;
     wrS sp v;
     setSP (sp - 1)
   }"

definition pop :: "u16 cpu" where
  "pop = do {
     sp \<leftarrow> getReg SP;
     setSP (sp + 1);
     rdS (sp + 1)
   }"

subsection \<open>Interrupts\<close>

definition acceptIrq :: "nat \<Rightarrow> unit cpu" where
  "acceptIrq lv = do {
     modify (\<lambda>s. s\<lparr>pendingIRQ := pendingIRQ s AND NOT (push_bit lv 1)\<rparr>);
     cs \<leftarrow> getReg CSBR;
     setOSR lv (cs AND 0xF);
     setCSBR 0;
     str \<leftarrow> getReg rSTR;
     wrPhys (phys (of_nat (lv * 2)) 0) str;
     ic \<leftarrow> getReg IC;
     wrPhys (phys (of_nat (lv * 2 + 1)) 0) ic;
     npp \<leftarrow> getReg NPP;
     let npsw = push_bit 8 (npp AND 0xFF);
     str' \<leftarrow> rdPhys (phys (npsw + of_nat (lv * 2)) 0);
     setSTR str';
     ic' \<leftarrow> rdPhys (phys (npsw + of_nat (lv * 2) + 1) 0);
     setIC ic'
   }"

definition irqMask :: "nat \<Rightarrow> u16" where
  "irqMask lv = [STR_M0, STR_M1, STR_M2] ! lv"

definition irqAcceptable :: "board \<Rightarrow> nat \<Rightarrow> bool" where
  "irqAcceptable s lv \<longleftrightarrow>
     pendingIRQ s AND push_bit lv 1 \<noteq> 0 \<and> rSTR (reg s) AND irqMask lv \<noteq> 0"

fun handleIRQ_from :: "nat list \<Rightarrow> unit cpu" where
  "handleIRQ_from [] = ret ()"
| "handleIRQ_from (lv # lvs) = do {
     b \<leftarrow> gets (\<lambda>s. irqAcceptable s lv);
     if b then acceptIrq lv else handleIRQ_from lvs
   }"

definition handleIRQ :: "unit cpu" where
  "handleIRQ = handleIRQ_from [0, 1, 2]"

definition hasAcceptableIrq :: "board \<Rightarrow> bool" where
  "hasAcceptableIrq s = list_ex (irqAcceptable s) [0, 1, 2]"

definition trapUndefinedInsn :: "unit cpu" where
  "trapUndefinedInsn = do {
     iisr \<leftarrow> getReg IISR;
     setIISR (iisr OR 0x0001 OR IISR_UNDEF);
     acceptIrq 0
   }"

subsection \<open>Decimal helpers and the register groups\<close>

definition ladNibble :: "u16 \<Rightarrow> u16 \<Rightarrow> nat \<Rightarrow> u16" where
  "ladNibble a b shift =
     push_bit shift (if (drop_bit shift a AND 0xF) + (drop_bit shift b AND 0xF) > 9 then 6 else 0)"

definition ladResult :: "u16 \<Rightarrow> u16 \<Rightarrow> u16" where
  "ladResult a b = fold (\<lambda>shift res. res OR ladNibble a b shift) [0, 4, 8, 12] 0"

definition dswp :: "u16 \<Rightarrow> u16" where
  "dswp v =
     (let lo4 = v AND 0x000F;
          nib1 = drop_bit 4 v AND 0x000F;
          nib2 = drop_bit 8 v AND 0x000F;
          hi4 = drop_bit 12 v AND 0x000F
      in push_bit 12 hi4 OR push_bit 8 nib1 OR push_bit 4 nib2 OR lo4)"

definition bswp :: "u16 \<Rightarrow> u16" where
  "bswp v = push_bit 8 (v AND 0xFF) OR drop_bit 8 v"

definition getSegReg :: "u16 \<Rightarrow> u16 cpu" where
  "getSegReg bbb =
     (let k = bbb AND 7
      in if k = 0 then getReg CSBR
         else if k = 1 then getReg SSBR
         else if k = 2 then getReg TSR0
         else if k = 3 then getReg TSR1
         else if k = 4 then getReg (\<lambda>r. OSR r 0)
         else if k = 5 then getReg (\<lambda>r. OSR r 1)
         else if k = 6 then getReg (\<lambda>r. OSR r 2)
         else getReg (\<lambda>r. OSR r 3))"

definition setSegReg :: "u16 \<Rightarrow> u16 \<Rightarrow> unit cpu" where
  "setSegReg bbb v =
     (let k = bbb AND 7
      in if k = 1 then setSSBR (v AND 0xF)
         else if k = 2 then setTSR0 (v AND 0xF)
         else if k = 3 then setTSR1 (v AND 0xF)
         else if k = 4 then setOSR 0 (v AND 0xF)
         else if k = 5 then setOSR 1 (v AND 0xF)
         else if k = 6 then setOSR 2 (v AND 0xF)
         else if k = 7 then setOSR 3 (v AND 0xF)
         else ret ())"

definition getSpecReg :: "u16 \<Rightarrow> u16 cpu" where
  "getSpecReg ppp =
     (let k = ppp AND 7
      in if k = 0 then getReg SBRB
         else if k = 1 then getReg ICB
         else if k = 2 then getReg NPP
         else ret 0)"

definition setSpecReg :: "u16 \<Rightarrow> u16 \<Rightarrow> unit cpu" where
  "setSpecReg ppp v =
     (let k = ppp AND 7
      in if k = 0 then setSBRB (v AND 0xFF)
         else if k = 1 then setICB v
         else if k = 2 then setNPP (v AND 0xFF)
         else ret ())"

definition getHWReg :: "u16 \<Rightarrow> u16 cpu" where
  "getHWReg hhh = (if hhh = 6 then getReg IISR else ret 0)"

definition setHWReg :: "u16 \<Rightarrow> u16 \<Rightarrow> unit cpu" where
  "setHWReg hhh v = (if hhh = 6 then setIISR v else ret ())"

end
