(* ===== verification/Mn1613_Float.thy ===== *)
theory Mn1613_Float
  imports Js_Number Mn1613_Core
begin

text \<open>
  The IBM hexadecimal floating point of \<^verbatim>\<open>mn1613.ts\<close> (lines 1161 to 1247).  The code
  computes on JavaScript doubles; the values that occur are rationals well inside the normal
  range (magnitudes between \<open>2 ^ -600\<close> and \<open>2 ^ 600\<close>), so a double is a rational here and the
  operations that can be inexact round to 53 significant bits, ties to even
  (\<open>rnd53\<close>).  Decoding is exact (a 24-bit integer scaled by a power of 16), and so is a
  product of two decoded values.

  ECMAScript leaves the accuracy of \<^verbatim>\<open>Math.log\<close> to the implementation, so the estimate
  \<^verbatim>\<open>Math.floor(Math.log(abs) / Math.log(16))\<close> is the parameter \<open>lg\<close> of every definition that
  needs it.  \<^verbatim>\<open>Math.pow(16, n)\<close> is taken as exact.
\<close>

type_synonym log16 = "rat \<Rightarrow> int"

subsection \<open>The two-word format\<close>

definition fpFromWords :: "u16 \<Rightarrow> u16 \<Rightarrow> rat" where
  "fpFromWords w0 w1 =
     (if w0 OR w1 = 0 then 0
      else
        let sign = drop_bit 15 w0;
            ex = uint (drop_bit 8 w0 AND 0x7F);
            mant = uint (push_bit 16 (ucast (w0 AND 0xFF)) OR ucast w1 :: u32);
            val = of_int mant * power_int 16 (ex - 70)
        in if sign \<noteq> 0 then - val else val)"

function fpNormUp :: "int \<Rightarrow> int \<Rightarrow> int \<times> int" where
  "fpNormUp mant ex =
     (if mant < 0x100000 \<and> ex > 0 then fpNormUp (mant * 16) (ex - 1) else (mant, ex))"
  by pat_completeness auto
termination
  by (relation "measure (\<lambda>(mant, ex). nat ex)") auto

function fpNormDown :: "int \<Rightarrow> int \<Rightarrow> int \<times> int" where
  "fpNormDown mant ex =
     (if mant \<ge> 0x1000000 \<and> ex < 127 then fpNormDown (mant div 16) (ex + 1) else (mant, ex))"
  by pat_completeness auto
termination
  by (relation "measure (\<lambda>(mant, ex). nat (127 - ex))") auto

declare fpNormUp.simps [simp del] fpNormDown.simps [simp del]

definition fpToWords :: "log16 \<Rightarrow> rat \<Rightarrow> u16 \<times> u16 \<times> bool" where
  "fpToWords lg v =
     (if v = 0 then (0, 0, False)
      else
        let sign = (if v < 0 then 1 else 0 :: int);
            abs = \<bar>v\<bar>;
            ex = lg abs + 65;
            mant = math_round (abs * power_int 16 (70 - ex));
            (mant, ex) = fpNormUp mant ex;
            (mant, ex) = fpNormDown mant ex
        in if ex < 0 \<or> mant < 0x100000 then (0, 0, False)
           else if ex > 127 \<or> mant \<ge> 0x1000000 then (0, 0, True)
           else
             let mant = mant AND 0xFFFFFF;
                 w0 = push_bit 15 sign OR push_bit 8 (ex AND 0x7F) OR (drop_bit 16 mant AND 0xFF);
                 w1 = mant AND 0xFFFF
             in (word_of_int w0, word_of_int w1, False))"

definition fpDecode :: "rat cpu" where
  "fpDecode = getReg (\<lambda>r. fpFromWords (R r 0) (R r 1))"

definition fpEncode :: "log16 \<Rightarrow> rat \<Rightarrow> unit cpu" where
  "fpEncode lg v = do {
     let enc = fpToWords lg v;
     setR 0 (fst enc);
     setR 1 (fst (snd enc));
     setOVF (snd (snd enc))
   }"

definition fpDecodeAt :: "u16 \<Rightarrow> rat cpu" where
  "fpDecodeAt a = do {
     w0 \<leftarrow> rdC a;
     w1 \<leftarrow> rdC (a + 1);
     ret (fpFromWords w0 w1)
   }"

definition fpFinish :: "u16 \<Rightarrow> unit cpu" where
  "fpFinish kkkk = do {
     setE False;
     x \<leftarrow> getReg (\<lambda>r. R r 0 OR R r 1);
     skipIf kkkk x
   }"

end
