(* ===== verification/Mn1613_Exec.thy ===== *)
theory Mn1613_Exec
  imports Mn1613_Float
begin

text \<open>
  The instructions of \<^verbatim>\<open>mn1613.ts\<close>: one definition per block of the \<^verbatim>\<open>switch\<close> in
  \<^verbatim>\<open>_executeOne\<close> (named after the five opcode bits), the sub-decoder \<^verbatim>\<open>_exec04\<close>, and
  \<open>executeOne\<close> itself.  Only RD and RDR read ports and can throw, so only the blocks that hold
  them return a sum; an exception abandons the rest of the instruction.
\<close>

type_synonym outcome = "js_error + unit"

abbreviation finished :: "outcome cpu" where
  "finished \<equiv> ret (Inr ())"

text \<open>\<^verbatim>\<open>c === 0 ? (STR & STR_E ? 1 : 0) : 0\<close>: the carry operand of the instructions that take one.\<close>

definition carryIn :: "u16 \<Rightarrow> int cpu" where
  "carryIn c = getReg (\<lambda>r. if c = 0 then (if rSTR r AND STR_E \<noteq> 0 then 1 else 0) else 0)"

text \<open>\<^verbatim>\<open>1 << (15 - n)\<close>: bits are numbered from the most significant one.\<close>

definition bitMask :: "u16 \<Rightarrow> u16" where
  "bitMask n = push_bit (15 - unat n) 1"

subsection \<open>Opcodes 0x10 to 0x1F: L, ST, B, BAL, IMS, DMS\<close>

definition execMem :: "u16 \<Rightarrow> u16 \<Rightarrow> u16 \<Rightarrow> unit cpu" where
  "execMem op rrr lo = do {
     let mmm = op AND 7;
     a \<leftarrow> ea mmm lo;
     let isHi = (op AND 8 \<noteq> 0);
     if rrr = 7 then
       (if isHi then setIC a
        else do { ic \<leftarrow> getReg IC; push ic; setIC a })
     else if mmm = 7 then do {
       c \<leftarrow> rdC a;
       let res = (if isHi then c + 1 else c - 1);
       wrC a res;
       whenM (res = 0) skipNext
     }
     else if isHi then do { v \<leftarrow> rdC a; sw rrr v }
     else do { v \<leftarrow> gr rrr; wrC a v }
   }"

subsection \<open>Opcode 0x01: MVI, LB, LS, STB, STS, CPYB, CPYS, SETB, SETS\<close>

definition exec01 :: "u16 \<Rightarrow> u16 \<Rightarrow> unit cpu" where
  "exec01 rrr lo =
     (if rrr \<noteq> 7 then do { v \<leftarrow> gr rrr; sw rrr ((v AND 0xFF00) OR lo) }
      else
        let bit7 = drop_bit 7 lo AND 1;
            bBits = drop_bit 4 lo AND 7;
            bit3 = drop_bit 3 lo AND 1;
            bLo = lo AND 7
        in if bLo = 7 then do {
             ad16 \<leftarrow> fetch;
             if bit7 = 0 \<and> bit3 = 0 then
               whenM (bBits \<noteq> 0) (do { v \<leftarrow> rdC ad16; setSegReg bBits (v AND 0xF) })
             else if bit7 = 0 \<and> bit3 = 1 then do { v \<leftarrow> rdC ad16; setSpecReg bBits v }
             else if bit7 = 1 \<and> bit3 = 0 then do { v \<leftarrow> getSegReg bBits; wrC ad16 v }
             else do { v \<leftarrow> getSpecReg bBits; wrC ad16 v }
           }
           else if bit7 = 1 \<and> bit3 = 0 then do { v \<leftarrow> getSegReg bBits; sw bLo v }
           else if bit7 = 1 \<and> bit3 = 1 then do { v \<leftarrow> getSpecReg bBits; sw bLo v }
           else if bit7 = 0 \<and> bit3 = 0 then
             whenM (bBits \<noteq> 0) (do { v \<leftarrow> gr bLo; setSegReg bBits (v AND 0xF) })
           else do { v \<leftarrow> gr bLo; setSpecReg bBits v })"

subsection \<open>Opcode 0x02: WT, PSHM, POPM, TSET, TRST\<close>

definition exec02 :: "u16 \<Rightarrow> u16 \<Rightarrow> unit cpu" where
  "exec02 rrr lo =
     (if rrr \<noteq> 7 then do { v \<leftarrow> gr rrr; doIoWrite lo v }
      else if lo = 0x0F then
        forM [0, 1, 2, 3, 4] (\<lambda>i. do { v \<leftarrow> getReg (\<lambda>r. R r i); push v })
      else if lo = 0x07 then
        forM [4, 3, 2, 1, 0] (\<lambda>i. do { v \<leftarrow> pop; setR i v })
      else do {
        ad16 \<leftarrow> fetch;
        let kkkk = drop_bit 4 lo AND 0xF;
        let sss = lo AND 7;
        m \<leftarrow> rdC ad16;
        rs \<leftarrow> gr sss;
        let test = m AND rs;
        let res = (if lo AND 8 \<noteq> 0 then m OR rs else m AND NOT rs);
        wrC ad16 res;
        skipIf kkkk test
      })"

subsection \<open>Opcode 0x03: RD, NEG, FIX, FLT\<close>

definition execFIX :: "u16 \<Rightarrow> unit cpu" where
  "execFIX kkkk = do {
     d \<leftarrow> fpDecode;
     let v = math_trunc d;
     let ov = (v > 32767 \<or> v < -32768);
     setE False;
     setOVF ov;
     setR 0 (if ov then 0 else word_of_int v);
     r0 \<leftarrow> getReg (\<lambda>r. R r 0);
     skipIf kkkk r0
   }"

definition execFLT :: "log16 \<Rightarrow> u16 \<Rightarrow> unit cpu" where
  "execFLT lg kkkk = do {
     r0 \<leftarrow> getReg (\<lambda>r. R r 0);
     let s16 = (if r0 < 0x8000 then uint r0 else uint r0 - 0x10000);
     fpEncode lg (of_int s16);
     setE False;
     x \<leftarrow> getReg (\<lambda>r. R r 0 OR R r 1);
     skipIf kkkk x
   }"

definition execNEG :: "u16 \<Rightarrow> u16 \<Rightarrow> u16 \<Rightarrow> unit cpu" where
  "execNEG kkkk bit3 lo = do {
     let ddd = lo AND 7;
     carry \<leftarrow> carryIn bit3;
     v \<leftarrow> gr ddd;
     r1 \<leftarrow> sub16 0 v;
     r2 \<leftarrow> sub16 r1 (word_of_int carry);
     sw ddd r2;
     skipIf kkkk r2
   }"

definition exec03 :: "log16 \<Rightarrow> u16 \<Rightarrow> u16 \<Rightarrow> outcome cpu" where
  "exec03 lg rrr lo =
     (if rrr \<noteq> 7 then do {
        r \<leftarrow> doIoRead lo;
        (case r of Inl e \<Rightarrow> ret (Inl e) | Inr v \<Rightarrow> do { sw rrr v; finished })
      }
      else
        let kkkk = drop_bit 4 lo AND 0xF;
            bit3 = drop_bit 3 lo AND 1;
            bit2 = drop_bit 2 lo AND 1
        in if bit2 = 1 then
             (if bit3 = 0 then do { execFIX kkkk; finished }
              else do { execFLT lg kkkk; finished })
           else do { execNEG kkkk bit3 lo; finished })"

subsection \<open>Opcodes 0x05 to 0x07: bits, RETL, BLK, SRBT, DEBP, SETH, CPYH\<close>

definition exec05 :: "u16 \<Rightarrow> u16 \<Rightarrow> unit cpu" where
  "exec05 rrr lo = do {
     let kkkk = drop_bit 4 lo AND 0xF;
     let mask = bitMask (lo AND 0xF);
     v \<leftarrow> gr rrr;
     skipIf kkkk (v AND mask)
   }"

definition exec06 :: "u16 \<Rightarrow> u16 \<Rightarrow> unit cpu" where
  "exec06 rrr lo = do {
     let kkkk = drop_bit 4 lo AND 0xF;
     let mask = bitMask (lo AND 0xF);
     v \<leftarrow> gr rrr;
     let res = v AND NOT mask;
     sw rrr res;
     skipIf kkkk res
   }"

text \<open>One turn of the block move, and the loop with as many turns as \<open>R0\<close> allows.\<close>

definition blkBody :: "unit cpu" where
  "blkBody = do {
     r2 \<leftarrow> getReg (\<lambda>r. R r 2);
     r1 \<leftarrow> getReg (\<lambda>r. R r 1);
     t0 \<leftarrow> getReg TSR0;
     v \<leftarrow> rdB r1 t0;
     t1 \<leftarrow> getReg TSR1;
     wrB r2 v t1;
     setR 1 (r1 + 1);
     setR 2 (r2 + 1);
     r0 \<leftarrow> getReg (\<lambda>r. R r 0);
     setR 0 (r0 - 1)
   }"

fun blkLoop :: "nat \<Rightarrow> unit cpu" where
  "blkLoop 0 = ret ()"
| "blkLoop (Suc n) = do {
     r0 \<leftarrow> getReg (\<lambda>r. R r 0);
     if r0 \<noteq> 0 then do { blkBody; blkLoop n } else ret ()
   }"

definition execBLK :: "unit cpu" where
  "execBLK = do {
     r0 \<leftarrow> getReg (\<lambda>r. R r 0);
     blkLoop (unat r0)
   }"

text \<open>The loop of SRBT from bit \<open>b - 1\<close> down: the position found and the value left.\<close>

fun srbtScan :: "nat \<Rightarrow> u16 \<Rightarrow> u16 \<times> u16" where
  "srbtScan 0 v = (0x10, v)"
| "srbtScan (Suc b) v =
     (if drop_bit b v AND 1 \<noteq> 0 then (of_nat (15 - b), v AND NOT (push_bit b 1))
      else srbtScan b v)"

definition exec07 :: "u16 \<Rightarrow> u16 \<Rightarrow> unit cpu" where
  "exec07 rrr lo =
     (if rrr \<noteq> 7 then do {
        let kkkk = drop_bit 4 lo AND 0xF;
        let mask = bitMask (lo AND 0xF);
        v \<leftarrow> gr rrr;
        let res = v OR mask;
        sw rrr res;
        skipIf kkkk res
      }
      else if lo = 0x07 then do {
        cs \<leftarrow> pop;
        setCSBR (cs AND 0xF);
        ic \<leftarrow> pop;
        setIC ic
      }
      else if lo = 0x17 then execBLK
      else if drop_bit 4 lo = 0x7 \<and> lo AND 8 = 0 then do {
        let sss = lo AND 7;
        v \<leftarrow> gr sss;
        setR 0 (fst (srbtScan 16 v));
        sw sss (snd (srbtScan 16 v))
      }
      else if drop_bit 4 lo = 0xF \<and> lo AND 8 = 0 then do {
        let ddd2 = lo AND 7;
        v \<leftarrow> gr ddd2;
        r0 \<leftarrow> getReg (\<lambda>r. R r 0);
        sw ddd2 (v OR bitMask (r0 AND 0xF))
      }
      else do {
        let bit7 = drop_bit 7 lo AND 1;
        let hhh = drop_bit 4 lo AND 7;
        let rdSrc = lo AND 7;
        if bit7 \<noteq> 0 then do { v \<leftarrow> getHWReg hhh; sw rdSrc v }
        else do { v \<leftarrow> gr rdSrc; setHWReg hhh v }
      })"

subsection \<open>Opcodes 0x08 and 0x09: SI, SD, AI, AD\<close>

definition exec08 :: "u16 \<Rightarrow> u16 \<Rightarrow> unit cpu" where
  "exec08 rrr lo = do {
     let kkkk = drop_bit 4 lo AND 0xF;
     if rrr = 7 \<and> lo AND 4 \<noteq> 0 then do {
       let c = drop_bit 3 lo AND 1;
       let ii = lo AND 3;
       a \<leftarrow> ri ii;
       mh \<leftarrow> rdC a;
       ml \<leftarrow> rdC (a + 1);
       e0 \<leftarrow> carryIn c;
       r0 \<leftarrow> getReg (\<lambda>r. R r 0);
       r1 \<leftarrow> getReg (\<lambda>r. R r 1);
       let d = uint r0 * 65536 + uint r1 - (uint mh * 65536 + uint ml) - e0;
       setE (d < 0);
       setOVF False;
       let du = (if d < 0 then d + 0x100000000 else d);
       setR 0 (word_of_int (du div 65536));
       setR 1 (word_of_int du);
       x \<leftarrow> getReg (\<lambda>r. R r 0 OR R r 1);
       skipIf kkkk x
     }
     else do {
       let dddd = lo AND 0xF;
       v \<leftarrow> gr rrr;
       let siRes = v - dddd;
       sw rrr siRes;
       skipIf kkkk siRes
     }
   }"

definition exec09 :: "u16 \<Rightarrow> u16 \<Rightarrow> unit cpu" where
  "exec09 rrr lo = do {
     let kkkk = drop_bit 4 lo AND 0xF;
     if rrr = 7 \<and> lo AND 4 \<noteq> 0 then do {
       let c = drop_bit 3 lo AND 1;
       let ii = lo AND 3;
       a \<leftarrow> ri ii;
       mh \<leftarrow> rdC a;
       ml \<leftarrow> rdC (a + 1);
       e0 \<leftarrow> carryIn c;
       r0 \<leftarrow> getReg (\<lambda>r. R r 0);
       r1 \<leftarrow> getReg (\<lambda>r. R r 1);
       let d = uint r0 * 65536 + uint r1 + (uint mh * 65536 + uint ml) + e0;
       setE (d > 0xFFFFFFFF);
       setOVF False;
       let du = d mod 0x100000000;
       setR 0 (word_of_int (du div 65536));
       setR 1 (word_of_int du);
       x \<leftarrow> getReg (\<lambda>r. R r 0 OR R r 1);
       skipIf kkkk x
     }
     else do {
       v \<leftarrow> gr rrr;
       let aiRes = v + (lo AND 0xF);
       sw rrr aiRes;
       skipIf kkkk aiRes
     }
   }"

end
