(* ===== verification/Mn1613_Execute.thy ===== *)
theory Mn1613_Execute
  imports Mn1613_Exec
begin

text \<open>
  The two-operand groups 0x0A to 0x0F of \<^verbatim>\<open>_executeOne\<close>, the sub-decoder \<^verbatim>\<open>_exec04\<close>, and
  the fetch-decode-execute step itself.
\<close>

subsection \<open>Opcode 0x0A: C, CB, CWR, CWI, CBR, CBI, DAS\<close>

definition execDAS :: "u16 \<Rightarrow> u16 \<Rightarrow> u16 \<Rightarrow> unit cpu" where
  "execDAS kkkk c ii = do {
     a \<leftarrow> ri ii;
     m \<leftarrow> rdC a;
     e0 \<leftarrow> carryIn c;
     r0 \<leftarrow> getReg (\<lambda>r. R r 0);
     let res = uint r0 - uint m - e0;
     setE (res < 0);
     let res1 = (if uint (r0 AND 0xF) - uint (m AND 0xF) - e0 < 0 then res - 0x06 else res);
     let res2 = (if uint (drop_bit 4 r0 AND 0xF) - uint (drop_bit 4 m AND 0xF) < 0
                 then res1 - 0x60 else res1);
     setR 0 (word_of_int res2);
     skipIf kkkk (word_of_int res2)
   }"

definition exec0a :: "u16 \<Rightarrow> u16 \<Rightarrow> unit cpu" where
  "exec0a rrr lo = do {
     let kkkk = drop_bit 4 lo AND 0xF;
     let b32 = drop_bit 2 lo AND 3;
     let b10 = lo AND 3;
     let b3 = drop_bit 3 lo AND 1;
     if rrr = 7 then
       (if lo AND 4 \<noteq> 0 then execDAS kkkk b3 b10
        else if b32 = 2 then do {
          r0 \<leftarrow> getReg (\<lambda>r. R r 0); a \<leftarrow> ri b10; m \<leftarrow> rdC a;
          res \<leftarrow> sub16 r0 m;
          skipIf kkkk res
        }
        else do {
          r0 \<leftarrow> getReg (\<lambda>r. R r 0); a \<leftarrow> ri b10; m \<leftarrow> rdC a;
          res \<leftarrow> sub16 (r0 AND 0xFF) (m AND 0xFF);
          skipIf kkkk res
        })
     else if b3 = 1 \<and> lo AND 7 = 7 then do {
       imm \<leftarrow> fetch; v \<leftarrow> gr rrr;
       res \<leftarrow> sub16 v imm;
       skipIf kkkk res
     }
     else if b3 = 0 \<and> lo AND 7 = 7 then do {
       imm \<leftarrow> fetch; v \<leftarrow> gr rrr;
       res \<leftarrow> sub16 (v AND 0xFF) (imm AND 0xFF);
       skipIf kkkk res
     }
     else if b3 = 1 then do {
       v \<leftarrow> gr rrr; w \<leftarrow> gr (lo AND 7);
       res \<leftarrow> sub16 v w;
       skipIf kkkk res
     }
     else do {
       v \<leftarrow> gr rrr; w \<leftarrow> gr (lo AND 7);
       res \<leftarrow> sub16 (v AND 0xFF) (w AND 0xFF);
       skipIf kkkk res
     }
   }"

subsection \<open>Opcode 0x0B: A, S, AWR, SWR, AWI, SWI, DAA\<close>

definition execDAA :: "u16 \<Rightarrow> u16 \<Rightarrow> u16 \<Rightarrow> unit cpu" where
  "execDAA kkkk c ii = do {
     a \<leftarrow> ri ii;
     m \<leftarrow> rdC a;
     e0 \<leftarrow> carryIn c;
     r0 \<leftarrow> getReg (\<lambda>r. R r 0);
     let res = uint r0 + uint m + e0;
     setE (res > 0xFFFF);
     let res1 = (if uint (r0 AND 0xF) + uint (m AND 0xF) + e0 > 9 then res + 0x06 else res);
     let res2 = (if drop_bit 8 res1 AND 0xFF > 0x99 then res1 + 0x0600 else res1);
     setR 0 (word_of_int res2);
     skipIf kkkk (word_of_int res2)
   }"

definition exec0b :: "u16 \<Rightarrow> u16 \<Rightarrow> unit cpu" where
  "exec0b rrr lo = do {
     let kkkk = drop_bit 4 lo AND 0xF;
     let b32 = drop_bit 2 lo AND 3;
     let b10 = lo AND 3;
     let b3 = drop_bit 3 lo AND 1;
     if rrr = 7 then
       (if lo AND 4 \<noteq> 0 then execDAA kkkk b3 b10
        else if b32 = 2 then do {
          r0 \<leftarrow> getReg (\<lambda>r. R r 0); a \<leftarrow> ri b10; m \<leftarrow> rdC a;
          res \<leftarrow> add16 r0 m;
          setR 0 res;
          skipIf kkkk res
        }
        else if b32 = 0 then do {
          r0 \<leftarrow> getReg (\<lambda>r. R r 0); a \<leftarrow> ri b10; m \<leftarrow> rdC a;
          res \<leftarrow> sub16 r0 m;
          setR 0 res;
          skipIf kkkk res
        }
        else if b3 = 1 \<and> lo AND 7 = 7 then do {
          ic \<leftarrow> getReg IC; imm \<leftarrow> fetch;
          res \<leftarrow> add16 ic imm;
          setIC res;
          skipIf kkkk res
        }
        else do {
          ic \<leftarrow> getReg IC; imm \<leftarrow> fetch;
          res \<leftarrow> sub16 ic imm;
          setIC res;
          skipIf kkkk res
        })
     else if b3 = 1 \<and> lo AND 7 = 7 then do {
       imm \<leftarrow> fetch; v \<leftarrow> gr rrr;
       res \<leftarrow> add16 v imm;
       sw rrr res;
       skipIf kkkk res
     }
     else if b3 = 0 \<and> lo AND 7 = 7 then do {
       imm \<leftarrow> fetch; v \<leftarrow> gr rrr;
       res \<leftarrow> sub16 v imm;
       sw rrr res;
       skipIf kkkk res
     }
     else if b3 = 1 then do {
       v \<leftarrow> gr rrr; w \<leftarrow> gr (lo AND 7);
       res \<leftarrow> add16 v w;
       sw rrr res;
       skipIf kkkk res
     }
     else do {
       v \<leftarrow> gr rrr; w \<leftarrow> gr (lo AND 7);
       res \<leftarrow> sub16 v w;
       sw rrr res;
       skipIf kkkk res
     }
   }"

subsection \<open>Opcodes 0x0C and 0x0D: logic, LAD and the floating-point instructions\<close>

definition execFM :: "log16 \<Rightarrow> u16 \<Rightarrow> u16 \<Rightarrow> unit cpu" where
  "execFM lg kkkk ii = do {
     x \<leftarrow> fpDecode; a \<leftarrow> ri ii; y \<leftarrow> fpDecodeAt a;
     fpEncode lg (x * y);
     fpFinish kkkk
   }"

definition execFD :: "log16 \<Rightarrow> u16 \<Rightarrow> u16 \<Rightarrow> unit cpu" where
  "execFD lg kkkk ii = do {
     a \<leftarrow> ri ii;
     me \<leftarrow> fpDecodeAt a;
     if me = 0 then do {
       setOVF True;
       setE False;
       z \<leftarrow> getReg (\<lambda>r. R r 0 OR R r 1);
       skipIf kkkk z
     }
     else do {
       x \<leftarrow> fpDecode;
       fpEncode lg (rnd53 (x / me));
       fpFinish kkkk
     }
   }"

definition execFA :: "log16 \<Rightarrow> u16 \<Rightarrow> u16 \<Rightarrow> unit cpu" where
  "execFA lg kkkk ii = do {
     x \<leftarrow> fpDecode; a \<leftarrow> ri ii; y \<leftarrow> fpDecodeAt a;
     fpEncode lg (rnd53 (x + y));
     fpFinish kkkk
   }"

definition execFS :: "log16 \<Rightarrow> u16 \<Rightarrow> u16 \<Rightarrow> unit cpu" where
  "execFS lg kkkk ii = do {
     x \<leftarrow> fpDecode; a \<leftarrow> ri ii; y \<leftarrow> fpDecodeAt a;
     fpEncode lg (rnd53 (x - y));
     fpFinish kkkk
   }"

text \<open>
  The shape the two groups share: with a memory operand at \<open>(Ri)\<close>, with an immediate word,
  or between registers, combined by a function \<open>f\<close> of the two values.
\<close>

definition execR0Mem :: "(u16 \<Rightarrow> u16 \<Rightarrow> u16) \<Rightarrow> u16 \<Rightarrow> u16 \<Rightarrow> unit cpu" where
  "execR0Mem f kkkk ii = do {
     r0 \<leftarrow> getReg (\<lambda>r. R r 0); a \<leftarrow> ri ii; m \<leftarrow> rdC a;
     let res = f r0 m;
     setR 0 res;
     skipIf kkkk res
   }"

definition execImm :: "(u16 \<Rightarrow> u16 \<Rightarrow> u16) \<Rightarrow> u16 \<Rightarrow> u16 \<Rightarrow> unit cpu" where
  "execImm f kkkk rrr = do {
     imm \<leftarrow> fetch; v \<leftarrow> gr rrr;
     let res = f v imm;
     sw rrr res;
     skipIf kkkk res
   }"

definition execRegs :: "(u16 \<Rightarrow> u16 \<Rightarrow> u16) \<Rightarrow> u16 \<Rightarrow> u16 \<Rightarrow> u16 \<Rightarrow> unit cpu" where
  "execRegs f kkkk rrr sss = do {
     v \<leftarrow> gr rrr; w \<leftarrow> gr sss;
     let res = f v w;
     sw rrr res;
     skipIf kkkk res
   }"

definition exec0c :: "log16 \<Rightarrow> u16 \<Rightarrow> u16 \<Rightarrow> unit cpu" where
  "exec0c lg rrr lo = do {
     let kkkk = drop_bit 4 lo AND 0xF;
     let b32 = drop_bit 2 lo AND 3;
     let b10 = lo AND 3;
     let b3 = drop_bit 3 lo AND 1;
     if rrr = 7 then
       (if b32 = 3 then execFM lg kkkk b10
        else if b32 = 1 then execFD lg kkkk b10
        else if b32 = 2 then execR0Mem (OR) kkkk b10
        else execR0Mem (XOR) kkkk b10)
     else if b3 = 1 \<and> lo AND 7 = 7 then execImm (OR) kkkk rrr
     else if b3 = 0 \<and> lo AND 7 = 7 then execImm (XOR) kkkk rrr
     else if b3 = 1 then execRegs (OR) kkkk rrr (lo AND 7)
     else execRegs (XOR) kkkk rrr (lo AND 7)
   }"

definition exec0d :: "log16 \<Rightarrow> u16 \<Rightarrow> u16 \<Rightarrow> unit cpu" where
  "exec0d lg rrr lo = do {
     let kkkk = drop_bit 4 lo AND 0xF;
     let b32 = drop_bit 2 lo AND 3;
     let b10 = lo AND 3;
     let b3 = drop_bit 3 lo AND 1;
     if rrr = 7 then
       (if b32 = 3 then execFA lg kkkk b10
        else if b32 = 1 then execFS lg kkkk b10
        else if b32 = 2 then execR0Mem (AND) kkkk b10
        else execR0Mem ladResult kkkk b10)
     else if b3 = 1 \<and> lo AND 7 = 7 then execImm (AND) kkkk rrr
     else if b3 = 0 \<and> lo AND 7 = 7 then execImm ladResult kkkk rrr
     else if b3 = 1 then execRegs (AND) kkkk rrr (lo AND 7)
     else execRegs ladResult kkkk rrr (lo AND 7)
   }"

subsection \<open>Opcode 0x0E: BSWP, DSWP, BSWR, DSWR, D\<close>

definition execD :: "u16 \<Rightarrow> u16 \<Rightarrow> unit cpu" where
  "execD kkkk ii = do {
     a \<leftarrow> ri ii;
     dv \<leftarrow> rdC a;
     setE False;
     if dv = 0 then setOVF True
     else do {
       r0 \<leftarrow> getReg (\<lambda>r. R r 0);
       r1 \<leftarrow> getReg (\<lambda>r. R r 1);
       let n32 = uint (push_bit 16 (ucast r0) OR ucast r1 :: u32);
       let q = n32 div uint dv;
       let rm = n32 mod uint dv;
       if q > 0xFFFF then setOVF True
       else do {
         setOVF False;
         setR 0 (word_of_int q);
         setR 1 (word_of_int rm);
         skipIf kkkk (word_of_int q)
       }
     }
   }"

definition exec0e :: "u16 \<Rightarrow> u16 \<Rightarrow> unit cpu" where
  "exec0e rrr lo = do {
     let kkkk = drop_bit 4 lo AND 0xF;
     let b32 = drop_bit 2 lo AND 3;
     let b10 = lo AND 3;
     let b3 = drop_bit 3 lo AND 1;
     if rrr = 7 then
       (if b32 = 3 then execD kkkk b10
        else if b32 = 2 then execR0Mem (\<lambda>r0 m. bswp m) kkkk b10
        else execR0Mem (\<lambda>r0 m. dswp m) kkkk b10)
     else if b3 = 1 then do {
       v \<leftarrow> gr (lo AND 7);
       let res = bswp v;
       sw rrr res;
       skipIf kkkk res
     }
     else do {
       v \<leftarrow> gr (lo AND 7);
       let res = dswp v;
       sw rrr res;
       skipIf kkkk res
     }
   }"

subsection \<open>Opcode 0x0F: MV, MVB, MVWR, MVWI, MVBR, M\<close>

definition execM :: "u16 \<Rightarrow> u16 \<Rightarrow> unit cpu" where
  "execM kkkk ii = do {
     r0 \<leftarrow> getReg (\<lambda>r. R r 0);
     a \<leftarrow> ri ii;
     m \<leftarrow> rdC a;
     let p = uint r0 * uint m;
     setOVF False;
     setE False;
     setR 0 (word_of_int (p div 65536));
     setR 1 (word_of_int p);
     x \<leftarrow> getReg (\<lambda>r. R r 0 OR R r 1);
     skipIf kkkk x
   }"

text \<open>The byte moves keep the high byte of the destination.\<close>

definition mergeLow :: "u16 \<Rightarrow> u16 \<Rightarrow> u16" where
  "mergeLow d s = (d AND 0xFF00) OR (s AND 0xFF)"

definition exec0f :: "u16 \<Rightarrow> u16 \<Rightarrow> unit cpu" where
  "exec0f rrr lo = do {
     let kkkk = drop_bit 4 lo AND 0xF;
     let b32 = drop_bit 2 lo AND 3;
     let b10 = lo AND 3;
     let b3 = drop_bit 3 lo AND 1;
     if rrr = 7 then
       (if b32 = 3 then execM kkkk b10
        else if b32 = 2 then execR0Mem (\<lambda>r0 m. m) kkkk b10
        else if b3 = 0 \<and> lo AND 7 = 7 then do { ic \<leftarrow> fetch; setIC ic }
        else execR0Mem mergeLow kkkk b10)
     else if lo AND 7 = 7 \<and> b3 = 0 then do {
       imm \<leftarrow> fetch;
       sw rrr imm;
       skipIf kkkk imm
     }
     else if b3 = 1 then do {
       v \<leftarrow> gr (lo AND 7);
       sw rrr v;
       skipIf kkkk v
     }
     else execRegs mergeLow kkkk rrr (lo AND 7)
   }"

subsection \<open>Opcode 0x04: the sub-decoder\<close>

definition execSegBranch :: "u16 \<Rightarrow> bool \<Rightarrow> unit cpu" where
  "execSegBranch ii link = do {
     base \<leftarrow> ri ii;
     whenM link (do {
       ic \<leftarrow> getReg IC; push ic;
       cs \<leftarrow> getReg CSBR; push cs
     });
     cs \<leftarrow> getReg CSBR;
     nc \<leftarrow> rdB base cs;
     cs' \<leftarrow> getReg CSBR;
     ni \<leftarrow> rdB (base + 1) cs';
     setCSBR (nc AND 0xF);
     setIC ni
   }"

text \<open>RRR = 7 with bit 3 set: LD, BL, BALL, STD.\<close>

definition execLongMem :: "u16 \<Rightarrow> unit cpu" where
  "execLongMem lo = do {
     let bb = drop_bit 4 lo AND 3;
     let dest = lo AND 7;
     ad16 \<leftarrow> fetch;
     if lo AND 0x40 = 0 then
       (if dest = 7 then do {
          whenM (bb = 1) (do {
            ic \<leftarrow> getReg IC; push ic;
            cs \<leftarrow> getReg CSBR; push cs
          });
          cs \<leftarrow> getReg CSBR;
          nc \<leftarrow> rdB ad16 cs;
          ni \<leftarrow> rdB (ad16 + 1) cs;
          setCSBR (nc AND 0xF);
          setIC ni
        }
        else do { sg \<leftarrow> segReg bb; v \<leftarrow> rdB ad16 sg; sw dest v })
     else do { v \<leftarrow> gr dest; sg \<leftarrow> segReg bb; wrB ad16 v sg }
   }"

text \<open>The address of LR and STR with its pre-decrement or post-increment.\<close>

definition riMode :: "u16 \<Rightarrow> u16 \<Rightarrow> u16 cpu" where
  "riMode b76 b10 =
     (if b76 = 1 then ri b10
      else if b76 = 2 then do { v \<leftarrow> ri b10; riSet b10 (v - 1); ri b10 }
      else do { v \<leftarrow> ri b10; riSet b10 (v + 1); ret v })"

definition execSR :: "u16 \<Rightarrow> u16 \<Rightarrow> u16 \<Rightarrow> unit cpu" where
  "execSR kkkk ee rrr = do {
     applyEE ee;
     a \<leftarrow> gr rrr;
     e \<leftarrow> getE;
     let eIn = (if e then 0x8000 else 0);
     setE (a AND 1 \<noteq> 0);
     let res = drop_bit 1 a OR eIn;
     sw rrr res;
     skipIf kkkk res
   }"

definition execSL :: "u16 \<Rightarrow> u16 \<Rightarrow> u16 \<Rightarrow> unit cpu" where
  "execSL kkkk ee rrr = do {
     applyEE ee;
     a \<leftarrow> gr rrr;
     e \<leftarrow> getE;
     let eIn = (if e then 1 else 0);
     setE (a AND 0x8000 \<noteq> 0);
     let res = push_bit 1 a OR eIn;
     sw rrr res;
     skipIf kkkk res
   }"

text \<open>The part common to all RRR, after the special cases of RRR = 0, 6 and 7.\<close>

definition exec04_common :: "u16 \<Rightarrow> u16 \<Rightarrow> outcome cpu" where
  "exec04_common rrr lo =
     (let b32 = drop_bit 2 lo AND 3;
          b76 = drop_bit 6 lo AND 3;
          b54 = drop_bit 4 lo AND 3;
          b10 = lo AND 3;
          kkkk = drop_bit 4 lo AND 0xF;
          ee = b10
      in if lo = 0x01 then do { v \<leftarrow> gr rrr; push v; finished }
         else if lo = 0x02 then do { v \<leftarrow> pop; sw rrr v; finished }
         else if b32 = 0 \<and> b76 \<noteq> 0 then do {
           sg \<leftarrow> segReg b54;
           a \<leftarrow> riMode b76 b10;
           v \<leftarrow> rdB a sg;
           sw rrr v;
           finished
         }
         else if b32 = 1 \<and> b76 \<noteq> 0 then do {
           sg \<leftarrow> segReg b54;
           a \<leftarrow> riMode b76 b10;
           v \<leftarrow> gr rrr;
           wrB a v sg;
           finished
         }
         else if b32 = 2 then do { execSR kkkk ee rrr; finished }
         else if b32 = 3 then do { execSL kkkk ee rrr; finished }
         else if drop_bit 4 lo = 1 \<and> b32 = 1 \<and> rrr \<noteq> 7 then do {
           p \<leftarrow> ri b10;
           r \<leftarrow> doIoRead p;
           (case r of Inl e \<Rightarrow> ret (Inl e) | Inr v \<Rightarrow> do { sw rrr v; finished })
         }
         else if drop_bit 4 lo = 1 \<and> b32 = 0 then do {
           p \<leftarrow> ri b10;
           v \<leftarrow> gr rrr;
           doIoWrite p v;
           finished
         }
         else do { trapUndefinedInsn; finished })"

definition exec04 :: "u16 \<Rightarrow> u16 \<Rightarrow> outcome cpu" where
  "exec04 rrr lo =
     (if rrr = 0 \<and> lo = 0x00 then do { modify (execStatus_update (\<lambda>_. Halted)); finished }
      else if rrr = 0 \<and> lo = 0x03 then do { ic \<leftarrow> pop; setIC ic; finished }
      else if rrr = 0 \<and> lo \<ge> 0x04 \<and> lo \<le> 0x07 then do {
        let ll = lo AND 3;
        str \<leftarrow> rdPhys (phys (ll * 2) 0);
        setSTR str;
        ic \<leftarrow> rdPhys (phys (ll * 2 + 1) 0);
        setIC ic;
        os \<leftarrow> getReg (\<lambda>r. OSR r (unat ll));
        setCSBR (os AND 0xF);
        finished
      }
      else if rrr = 6 \<and> lo = 0x07 then do { d \<leftarrow> fetch; setIC d; finished }
      else if rrr = 6 \<and> lo = 0x17 then do {
        d \<leftarrow> fetch;
        ic \<leftarrow> getReg IC;
        push ic;
        setIC d;
        finished
      }
      else if rrr = 7 \<and> lo AND 0xFC = 0x04 then do { execSegBranch (lo AND 3) False; finished }
      else if rrr = 7 \<and> lo AND 0xFC = 0x14 then do { execSegBranch (lo AND 3) True; finished }
      else if rrr = 7 \<and> lo AND 0x08 \<noteq> 0 then do { execLongMem lo; finished }
      else exec04_common rrr lo)"

subsection \<open>One instruction\<close>

text \<open>The decoding \<^verbatim>\<open>switch\<close> on the five opcode bits.\<close>

definition execOp :: "log16 \<Rightarrow> u16 \<Rightarrow> outcome cpu" where
  "execOp lg ir =
     (let op = drop_bit 11 ir AND 0x1F;
          rrr = drop_bit 8 ir AND 0x7;
          lo = ir AND 0xFF
      in if op \<ge> 0x10 then do { execMem op rrr lo; finished }
         else if op = 0x00 then do { trapUndefinedInsn; finished }
         else if op = 0x01 then do { exec01 rrr lo; finished }
         else if op = 0x02 then do { exec02 rrr lo; finished }
         else if op = 0x03 then exec03 lg rrr lo
         else if op = 0x04 then exec04 rrr lo
         else if op = 0x05 then do { exec05 rrr lo; finished }
         else if op = 0x06 then do { exec06 rrr lo; finished }
         else if op = 0x07 then do { exec07 rrr lo; finished }
         else if op = 0x08 then do { exec08 rrr lo; finished }
         else if op = 0x09 then do { exec09 rrr lo; finished }
         else if op = 0x0A then do { exec0a rrr lo; finished }
         else if op = 0x0B then do { exec0b rrr lo; finished }
         else if op = 0x0C then do { exec0c lg rrr lo; finished }
         else if op = 0x0D then do { exec0d lg rrr lo; finished }
         else if op = 0x0E then do { exec0e rrr lo; finished }
         else if op = 0x0F then do { exec0f rrr lo; finished }
         else do { trapUndefinedInsn; finished })"

definition executeOne :: "log16 \<Rightarrow> outcome cpu" where
  "executeOne lg = do {
     pending \<leftarrow> gets pendingIRQ;
     whenM (pending \<noteq> 0) handleIRQ;
     ir \<leftarrow> fetch;
     stepBreak_onInstructionFetch ir;
     execOp lg ir
   }"

end
