(* ===== verification/Board_Effects.thy ===== *)
theory Board_Effects
  imports Mn1613_Execute
begin

text \<open>
  What one instruction can do to the board.  The locale \<open>board_effect\<close> lists the primitive
  updates of the instruction set (registers, segment registers with their masked values,
  memory words, the clock, the I/O ports, the pending interrupts, the halted state) as laws
  of a reflexive and transitive relation; inside it the relation is carried through every
  instruction to \<open>executeOne\<close>.  Each interpretation is one invariant or frame condition of
  the whole instruction set.
\<close>

locale board_effect = effect_order R for R :: "board \<Rightarrow> board \<Rightarrow> bool" +
  assumes rel_R: "R s (s\<lparr>reg := (reg s)\<lparr>R := f\<rparr>\<rparr>)"
    and rel_SP: "R s (s\<lparr>reg := (reg s)\<lparr>SP := v\<rparr>\<rparr>)"
    and rel_STR: "R s (s\<lparr>reg := (reg s)\<lparr>rSTR := v\<rparr>\<rparr>)"
    and rel_IC: "R s (s\<lparr>reg := (reg s)\<lparr>IC := v\<rparr>\<rparr>)"
    and rel_CSBR: "R s (s\<lparr>reg := (reg s)\<lparr>CSBR := v AND 0xF\<rparr>\<rparr>)"
    and rel_SSBR: "R s (s\<lparr>reg := (reg s)\<lparr>SSBR := v AND 0xF\<rparr>\<rparr>)"
    and rel_TSR0: "R s (s\<lparr>reg := (reg s)\<lparr>TSR0 := v AND 0xF\<rparr>\<rparr>)"
    and rel_TSR1: "R s (s\<lparr>reg := (reg s)\<lparr>TSR1 := v AND 0xF\<rparr>\<rparr>)"
    and rel_OSR: "R s (s\<lparr>reg := (reg s)\<lparr>OSR := f\<rparr>\<rparr>)"
    and rel_NPP: "R s (s\<lparr>reg := (reg s)\<lparr>NPP := v AND 0xFF\<rparr>\<rparr>)"
    and rel_IISR: "R s (s\<lparr>reg := (reg s)\<lparr>IISR := v\<rparr>\<rparr>)"
    and rel_SBRB: "R s (s\<lparr>reg := (reg s)\<lparr>SBRB := v\<rparr>\<rparr>)"
    and rel_ICB: "R s (s\<lparr>reg := (reg s)\<lparr>ICB := v\<rparr>\<rparr>)"
    and rel_mem: "R s (mem_update (setMemWord p v) s)"
    and rel_ioLastWrite: "R s (ioLastWrite_update g s)"
    and rel_clock: "R s (s\<lparr>clockCount := clockCount s + 4\<rparr>)"
    and rel_IOP: "R s (pinIOP_update (setOutputLevel b) s)"
    and rel_WRT: "R s (pinWRT_update (setOutputLevel b) s)"
    and rel_probe: "R s (comparators_update (\<lambda>_. fst (bank_probe a (comparators s))) s)"
    and rel_readPort: "R s (comparators_update (\<lambda>_. fst (bank_readPort q (comparators s))) s)"
    and rel_writePort: "R s (comparators_update (\<lambda>b. fst (bank_writePort q v b)) s)"
    and rel_fetch: "R s (stepUnit_update (\<lambda>_. fst (sb_onInstructionFetch v (stepUnit s))) s)"
    and rel_stepPort: "R s (stepUnit_update (\<lambda>u. fst (sb_writePort q v u)) s)"
    and rel_resetVector: "R s (ports_update (resetVector_update (\<lambda>_. v)) s)"
    and rel_handshakeBus: "R s (ports_update (handshakeBus_update h) s)"
    and rel_intCause: "R s (ports_update (intCause_update (\<lambda>_. v AND 7)) s)"
    and rel_interruptBusy: "R s (ports_update (interruptBusy_update (\<lambda>_. v AND 1)) s)"
    and rel_irq: "lv < 3 \<Longrightarrow> R s (s\<lparr>pendingIRQ := pendingIRQ s OR push_bit lv 1\<rparr>)"
    and rel_irq_clear: "R s (s\<lparr>pendingIRQ := pendingIRQ s AND NOT (push_bit lv 1)\<rparr>)"
    and rel_halted: "R s (execStatus_update (\<lambda>_. Halted) s)"
begin

subsection \<open>Registers, flags, pins\<close>

lemma eff_setR [effects]: "state_io_rel R (setR i v)"
  by (simp add: state_io_rel_def rel_R)

lemma eff_setSP [effects]: "state_io_rel R (setSP v)"
  by (simp add: state_io_rel_def rel_SP)

lemma eff_setSTR [effects]: "state_io_rel R (setSTR v)"
  by (simp add: state_io_rel_def rel_STR)

lemma eff_setIC [effects]: "state_io_rel R (setIC v)"
  by (simp add: state_io_rel_def rel_IC)

lemma eff_setCSBR [effects]: "state_io_rel R (setCSBR (v AND 0xF))"
  by (simp add: state_io_rel_def rel_CSBR)

lemma eff_setCSBR_0 [effects]: "state_io_rel R (setCSBR 0)"
  using eff_setCSBR [of 0] by simp

lemma eff_setSSBR [effects]: "state_io_rel R (setSSBR (v AND 0xF))"
  by (simp add: state_io_rel_def rel_SSBR)

lemma eff_setTSR0 [effects]: "state_io_rel R (setTSR0 (v AND 0xF))"
  by (simp add: state_io_rel_def rel_TSR0)

lemma eff_setTSR1 [effects]: "state_io_rel R (setTSR1 (v AND 0xF))"
  by (simp add: state_io_rel_def rel_TSR1)

lemma eff_setOSR [effects]: "state_io_rel R (setOSR i v)"
  by (simp add: state_io_rel_def rel_OSR)

lemma eff_setNPP [effects]: "state_io_rel R (setNPP (v AND 0xFF))"
  by (simp add: state_io_rel_def rel_NPP)

lemma eff_setIISR [effects]: "state_io_rel R (setIISR v)"
  by (simp add: state_io_rel_def rel_IISR)

lemma eff_setSBRB [effects]: "state_io_rel R (setSBRB v)"
  by (simp add: state_io_rel_def rel_SBRB)

lemma eff_setICB [effects]: "state_io_rel R (setICB v)"
  by (simp add: state_io_rel_def rel_ICB)

lemma eff_updSTR [effects]:
  "state_io_rel R (updReg (\<lambda>r. if b then r\<lparr>rSTR := f r\<rparr> else r\<lparr>rSTR := g r\<rparr>))"
proof (rule eff_modify)
  fix s
  show "R s (reg_update (\<lambda>r. if b then r\<lparr>rSTR := f r\<rparr> else r\<lparr>rSTR := g r\<rparr>) s)"
    using rel_STR [of s "f (reg s)"] rel_STR [of s "g (reg s)"] by (cases s; cases b) simp_all
qed

lemma eff_setE [effects]: "state_io_rel R (setE b)"
  unfolding setE_def by (rule eff_updSTR)

lemma eff_setOVF [effects]: "state_io_rel R (setOVF b)"
  unfolding setOVF_def by (rule eff_updSTR)

lemma eff_clock [effects]: "state_io_rel R (addClocks CPU_CLK_PER_ACCESS)"
  using rel_clock by (auto simp: addClocks_def CPU_CLK_PER_ACCESS_def intro!: eff_modify)

lemma eff_setIOP [effects]: "state_io_rel R (setIOP b)"
  by (auto simp: setIOP_def intro!: eff_modify rel_IOP)

lemma eff_setWRT [effects]: "state_io_rel R (setWRT b)"
  by (auto simp: setWRT_def intro!: eff_modify rel_WRT)

lemma eff_memWrite [effects]: "state_io_rel R (modify (mem_update (setMemWord p v)))"
  by (auto intro!: eff_modify rel_mem)

lemma eff_lastWrite [effects]: "state_io_rel R (modify (ioLastWrite_update g))"
  by (auto intro!: eff_modify rel_ioLastWrite)

lemma eff_irq: "lv < 3 \<Longrightarrow> state_io_rel R (triggerInterrupt lv)"
  unfolding triggerInterrupt_def by (rule eff_modify) (rule rel_irq)

lemma eff_irq1 [effects]: "state_io_rel R (triggerInterrupt 1)"
  by (rule eff_irq) simp

lemma eff_irqClear [effects]:
  "state_io_rel R (modify (\<lambda>s. s\<lparr>pendingIRQ := pendingIRQ s AND NOT (push_bit lv 1)\<rparr>))"
  by (rule eff_modify) (rule rel_irq_clear)

lemma eff_halted [effects]: "state_io_rel R (modify (execStatus_update (\<lambda>_. Halted)))"
  by (auto intro!: eff_modify rel_halted)

lemma eff_handshakeBus [effects]:
  "state_io_rel R (modify (ports_update (handshakeBus_update h)))"
  by (auto intro!: eff_modify rel_handshakeBus)

lemma eff_interruptBusy [effects]:
  "state_io_rel R (modify (ports_update (interruptBusy_update (\<lambda>_. v AND 1))))"
  by (auto intro!: eff_modify rel_interruptBusy)

lemma eff_intCause [effects]:
  "state_io_rel R (modify (ports_update (intCause_update (\<lambda>_. v AND 7))))"
  by (auto intro!: eff_modify rel_intCause)

lemma eff_resetVector [effects]: "state_io_rel R (setResetVector v)"
  by (auto simp: setResetVector_def intro!: eff_modify rel_resetVector)

lemma eff_writeBreak [effects]:
  "state_io_rel R (modify (comparators_update (\<lambda>b. fst (bank_writePort q v b))))"
  by (auto intro!: eff_modify rel_writePort)

lemma eff_writeStep [effects]:
  "state_io_rel R (modify (stepUnit_update (\<lambda>u. fst (sb_writePort q v u))))"
  by (auto intro!: eff_modify rel_stepPort)

subsection \<open>Ports\<close>

lemma eff_setIntCause [effects]: "state_io_rel R (setIntCause c)"
  unfolding setIntCause_def by (intro eff_intros effects)

lemma eff_onAddrHit [effects]: "state_io_rel R (onAddrHit i)"
  unfolding onAddrHit_def raiseAddrBreakIrq_def by (intro eff_intros effects)

lemma eff_onStepHit [effects]: "state_io_rel R onStepHit"
  unfolding onStepHit_def raiseStepBreakIrq_def by (intro eff_intros effects)

text \<open>A \<open>gets\<close> whose value is stored back computed: the two updates that read before they write.\<close>

lemma eff_get_modify:
  assumes "\<And>s. R s (upd (g (sel s)) s)" and "\<And>x. state_io_rel R (f x)"
  shows "state_io_rel R (do { x \<leftarrow> gets sel; modify (upd (g x)); f x })"
proof (rule state_io_relI)
  fix b s t
  assume "run_state (do { x \<leftarrow> gets sel; modify (upd (g x)); f x }) s = (b, t)"
  then have "run_state (f (sel s)) (upd (g (sel s)) s) = (b, t)" by simp
  with assms(2) [of "sel s"] have "R (upd (g (sel s)) s) t" by (auto dest: state_io_relD)
  with assms(1) show "R s t" by (rule trans_R)
qed

lemma eff_probe [effects]: "state_io_rel R (addrComparators_probe a)"
  unfolding addrComparators_probe_def
  by (rule eff_get_modify [where upd = "\<lambda>c. comparators_update (\<lambda>_. c)"])
    (rule rel_probe, intro eff_intros effects)

lemma eff_stepFetch [effects]: "state_io_rel R (stepBreak_onInstructionFetch ir)"
  unfolding stepBreak_onInstructionFetch_def
  by (rule eff_get_modify [where upd = "\<lambda>c. stepUnit_update (\<lambda>_. c)"])
    (rule rel_fetch, intro eff_intros effects)

lemma eff_boardIoRead [effects]: "state_io_rel R (boardIoRead p)"
  unfolding boardIoRead_def
  by (intro eff_if effects eff_get_modify [where upd = "\<lambda>c. comparators_update (\<lambda>_. c)"])
    (rule rel_readPort, intro eff_intros effects)

lemma eff_boardIoWrite [effects]: "state_io_rel R (boardIoWrite p v)"
  unfolding boardIoWrite_def by (intro eff_intros effects)

lemma eff_ioRead [effects]: "state_io_rel R (ioRead p)"
  unfolding ioRead_def by (intro eff_bind effects) (simp add: effects split: callbacks.split)

lemma eff_ioWrite [effects]: "state_io_rel R (ioWrite p v)"
  unfolding ioWrite_def by (intro eff_bind effects) (simp add: effects split: callbacks.split)

lemma eff_doIoRead [effects]: "state_io_rel R (doIoRead p)"
  unfolding doIoRead_def by (intro eff_intros effects)

lemma eff_doIoWrite [effects]: "state_io_rel R (doIoWrite p v)"
  unfolding doIoWrite_def by (intro eff_intros effects)

subsection \<open>Memory, operands, skips, stack, interrupts\<close>

lemma eff_rdPhys [effects]: "state_io_rel R (rdPhys p)"
  unfolding rdPhys_def by (intro eff_intros effects)

lemma eff_wrPhys [effects]: "state_io_rel R (wrPhys p v)"
  unfolding wrPhys_def by (intro eff_intros effects)

lemma eff_access [effects]:
  "state_io_rel R (rdC a)" "state_io_rel R (wrC a v)" "state_io_rel R (rdS a)"
  "state_io_rel R (wrS a v)" "state_io_rel R (rdB a sg)" "state_io_rel R (wrB a v sg)"
  unfolding rdC_def wrC_def rdS_def wrS_def rdB_def wrB_def
  by (intro eff_intros effects)+

lemma eff_fetch [effects]: "state_io_rel R fetch"
  unfolding fetch_def by (intro eff_intros effects)

lemma eff_operands [effects]:
  "state_io_rel R (gr k)" "state_io_rel R (sw k v)" "state_io_rel R (ri k)"
  "state_io_rel R (riSet k v)" "state_io_rel R (segReg k)" "state_io_rel R (ea k v)"
  unfolding gr_def sw_def ri_def riSet_def segReg_def ea_def
  by (intro eff_intros effects)+

lemma eff_skip [effects]: "state_io_rel R (skipIf k v)" "state_io_rel R skipNext"
  unfolding skipIf_def skip_def skipNext_def by (intro eff_intros effects)+

lemma eff_arith [effects]:
  "state_io_rel R getE" "state_io_rel R (add16 a b)" "state_io_rel R (sub16 a b)"
  "state_io_rel R (applyEE k)" "state_io_rel R (carryIn k)"
  unfolding getE_def add16_def sub16_def applyEE_def carryIn_def
  by (intro eff_intros effects)+

lemma eff_stack [effects]: "state_io_rel R (push v)" "state_io_rel R pop"
  unfolding push_def pop_def by (intro eff_intros effects)+

lemma eff_acceptIrq [effects]: "state_io_rel R (acceptIrq lv)"
  unfolding acceptIrq_def by (intro eff_intros effects)

lemma eff_handleIRQ [effects]: "state_io_rel R handleIRQ"
  unfolding handleIRQ_def handleIRQ_from.simps by (intro eff_intros effects)

lemma eff_trap [effects]: "state_io_rel R trapUndefinedInsn"
  unfolding trapUndefinedInsn_def by (intro eff_intros effects)

lemma eff_regGroups [effects]:
  "state_io_rel R (getSegReg k)" "state_io_rel R (setSegReg k v)"
  "state_io_rel R (getSpecReg k)" "state_io_rel R (setSpecReg k v)"
  "state_io_rel R (getHWReg k)" "state_io_rel R (setHWReg k v)"
  unfolding getSegReg_def setSegReg_def getSpecReg_def setSpecReg_def getHWReg_def setHWReg_def
  by (intro eff_intros effects)+

lemma eff_fp [effects]:
  "state_io_rel R fpDecode" "state_io_rel R (fpEncode lg q)" "state_io_rel R (fpDecodeAt a)"
  "state_io_rel R (fpFinish k)"
  unfolding fpDecode_def fpEncode_def fpDecodeAt_def fpFinish_def
  by (intro eff_intros effects)+

subsection \<open>Instructions\<close>

lemma eff_execMem [effects]: "state_io_rel R (execMem op rrr lo)"
  unfolding execMem_def by (intro eff_intros effects)

lemma eff_exec01 [effects]: "state_io_rel R (exec01 rrr lo)"
  unfolding exec01_def by (intro eff_intros effects)

lemma eff_exec02 [effects]: "state_io_rel R (exec02 rrr lo)"
  unfolding exec02_def by (intro eff_intros effects)

lemma eff_exec03 [effects]: "state_io_rel R (exec03 lg rrr lo)"
  unfolding exec03_def execFIX_def execFLT_def execNEG_def by (intro eff_intros effects)

lemma eff_exec05_06 [effects]:
  "state_io_rel R (exec05 rrr lo)" "state_io_rel R (exec06 rrr lo)"
  unfolding exec05_def exec06_def by (intro eff_intros effects)+

lemma eff_blkLoop [effects]: "state_io_rel R (blkLoop n)"
  by (induction n) (auto simp: blkBody_def intro!: eff_intros effects)

lemma eff_exec07 [effects]: "state_io_rel R (exec07 rrr lo)"
  unfolding exec07_def execBLK_def by (intro eff_intros effects)

lemma eff_exec08_09 [effects]:
  "state_io_rel R (exec08 rrr lo)" "state_io_rel R (exec09 rrr lo)"
  unfolding exec08_def exec09_def by (intro eff_intros effects)+

lemma eff_exec0a [effects]: "state_io_rel R (exec0a rrr lo)"
  unfolding exec0a_def execDAS_def by (intro eff_intros effects)

lemma eff_exec0b [effects]: "state_io_rel R (exec0b rrr lo)"
  unfolding exec0b_def execDAA_def by (intro eff_intros effects)

lemma eff_shapes [effects]:
  "state_io_rel R (execR0Mem f k ii)" "state_io_rel R (execImm f k rrr)"
  "state_io_rel R (execRegs f k rrr sss)"
  unfolding execR0Mem_def execImm_def execRegs_def by (intro eff_intros effects)+

lemma eff_float [effects]:
  "state_io_rel R (execFM lg k ii)" "state_io_rel R (execFD lg k ii)"
  "state_io_rel R (execFA lg k ii)" "state_io_rel R (execFS lg k ii)"
  unfolding execFM_def execFD_def execFA_def execFS_def by (intro eff_intros effects)+

lemma eff_exec0c_0d [effects]:
  "state_io_rel R (exec0c lg rrr lo)" "state_io_rel R (exec0d lg rrr lo)"
  unfolding exec0c_def exec0d_def by (intro eff_intros effects)+

lemma eff_exec0e_0f [effects]:
  "state_io_rel R (exec0e rrr lo)" "state_io_rel R (exec0f rrr lo)"
  unfolding exec0e_def exec0f_def execD_def execM_def by (intro eff_intros effects)+

lemma eff_exec04_parts [effects]:
  "state_io_rel R (execSegBranch ii b)" "state_io_rel R (execLongMem lo)"
  "state_io_rel R (riMode k ii)" "state_io_rel R (execSR k e rrr)"
  "state_io_rel R (execSL k e rrr)"
  unfolding execSegBranch_def execLongMem_def riMode_def execSR_def execSL_def
  by (intro eff_intros effects)+

lemma eff_exec04_common [effects]: "state_io_rel R (exec04_common rrr lo)"
  unfolding exec04_common_def by (intro eff_intros effects)

lemma eff_exec04 [effects]: "state_io_rel R (exec04 rrr lo)"
  unfolding exec04_def by (intro eff_intros effects)

lemma eff_execOp [effects]: "state_io_rel R (execOp lg ir)"
  unfolding execOp_def by (intro eff_intros effects)

lemma eff_executeOne [effects]: "state_io_rel R (executeOne lg)"
  unfolding executeOne_def by (intro eff_intros effects)

end

end
