(* ===== verification/Mn1613_Run.thy ===== *)
theory Mn1613_Run
  imports Mn1613_Execute
begin

text \<open>
  The control of the CPU, the public interface of \<^verbatim>\<open>mn1613.ts\<close> (lines 219 to 648): power-on
  and reset, the sampling of the input pins, one tick of the main loop, single steps, the
  free run, breakpoints, and the debugger's register access.  Calls of the registered
  \<^verbatim>\<open>_onStop\<close> callback are recorded in \<open>stopLog\<close>.  Whatever executes an instruction or reads
  the reset vector can raise the \<^verbatim>\<open>TypeError\<close> of a port read, which abandons the rest.
\<close>

subsection \<open>The state at module load\<close>

definition initialBoard :: board where
  "initialBoard =
     \<lparr>reg = initialRegister, mem = \<lparr>byteLength = 2 * MEM_WORDS, bytes = (\<lambda>_. 0)\<rparr>,
      ioLastWrite = Map.empty, execStatus = Idle, breakpoints = {}, stepMode = False,
      pendingIRQ = 0, clockCount = 0,
      pinRST = createInputPin False, pinHLT = createInputPin False,
      pinIRQ0 = createInputPin False, pinIRQ1 = createInputPin False,
      pinIRQ2 = createInputPin False, pinBSAV = createInputPin False,
      pinSTRT = createInputPin False, pinIOP = createOutputPin False,
      pinBSRQ = createOutputPin False, pinWRT = createOutputPin False,
      comparators = newComparatorBank, stepUnit = newStepBreakUnit,
      ioCallbacks = DefaultCallbacks, hitCallbacks = DefaultCallbacks,
      ports = initialPorts, stopLog = []\<rparr>"

subsection \<open>Sequencing calls that can throw\<close>

definition andThen :: "outcome cpu \<Rightarrow> outcome cpu \<Rightarrow> outcome cpu" where
  "andThen m n = do {
     r \<leftarrow> m;
     (case r of Inl e \<Rightarrow> ret (Inl e) | Inr _ \<Rightarrow> n)
   }"

subsection \<open>Pins\<close>

definition forInputPins :: "(input_pin \<Rightarrow> input_pin) \<Rightarrow> board \<Rightarrow> board" where
  "forInputPins f s =
     s\<lparr>pinRST := f (pinRST s), pinHLT := f (pinHLT s), pinIRQ0 := f (pinIRQ0 s),
       pinIRQ1 := f (pinIRQ1 s), pinIRQ2 := f (pinIRQ2 s), pinBSAV := f (pinBSAV s),
       pinSTRT := f (pinSTRT s)\<rparr>"

definition forOutputPins :: "(output_pin \<Rightarrow> output_pin) \<Rightarrow> board \<Rightarrow> board" where
  "forOutputPins f s =
     s\<lparr>pinIOP := f (pinIOP s), pinBSRQ := f (pinBSRQ s), pinWRT := f (pinWRT s)\<rparr>"

text \<open>\<^verbatim>\<open>clearDeferred(p); p[1] = p[0]\<close>, and \<^verbatim>\<open>setOutputLevel(p, false); p[1] = false\<close>.\<close>

definition settleInput :: "input_pin \<Rightarrow> input_pin" where
  "settleInput p = (clearDeferred p)\<lparr>prev := cur (clearDeferred p)\<rparr>"

definition settleOutput :: "output_pin \<Rightarrow> output_pin" where
  "settleOutput p = (setOutputLevel False p)\<lparr>prev := False\<rparr>"

definition settlePins :: "unit cpu" where
  "settlePins = do {
     modify (forInputPins settleInput);
     modify (forOutputPins settleOutput)
   }"

definition notifyStop :: "exec_status \<Rightarrow> unit cpu" where
  "notifyStop st = modify (\<lambda>s. s\<lparr>stopLog := stopLog s @ [(st, reg s)]\<rparr>)"

definition setStatus :: "exec_status \<Rightarrow> unit cpu" where
  "setStatus st = modify (execStatus_update (\<lambda>_. st))"

subsection \<open>Power-on and reset\<close>

definition powerOnIdle :: "unit cpu" where
  "powerOnIdle = do {
     updReg (\<lambda>_. initialRegister);
     setStatus Idle;
     modify (stepMode_update (\<lambda>_. False));
     modify (pendingIRQ_update (\<lambda>_. 0));
     modify (clockCount_update (\<lambda>_. 0));
     settlePins;
     modify (ioLastWrite_update (\<lambda>_. Map.empty))
   }"

definition resetCpu :: "outcome cpu" where
  "resetCpu = do {
     updReg (\<lambda>_. initialRegister);
     modify (stepMode_update (\<lambda>_. False));
     modify (pendingIRQ_update (\<lambda>_. 0));
     modify (ioLastWrite_update (\<lambda>_. Map.empty));
     settlePins;
     r \<leftarrow> ioRead 0;
     (case r of
        Inl e \<Rightarrow> ret (Inl e)
      | Inr vec \<Rightarrow> do {
          str \<leftarrow> peekWord (vec + 2);
          setSTR str;
          ic \<leftarrow> peekWord (vec + 3);
          setIC ic;
          modify (clockCount_update (\<lambda>_. 0));
          setStatus Running;
          finished
        })
   }"

subsection \<open>Sampling the pins\<close>

text \<open>\<^verbatim>\<open>risingEdge(pin) || takeDeferred(pin)\<close> and \<^verbatim>\<open>pin[0] || takeDeferred(pin)\<close>.\<close>

definition edgeRequest :: "input_pin \<Rightarrow> bool \<times> input_pin" where
  "edgeRequest p = (if risingEdge p then (True, p) else takeDeferred p)"

definition levelRequest :: "input_pin \<Rightarrow> bool \<times> input_pin" where
  "levelRequest p = (if cur p then (True, p) else takeDeferred p)"

definition sampleRST :: "outcome cpu" where
  "sampleRST = do {
     p \<leftarrow> gets pinRST;
     modify (pinRST_update (\<lambda>_. snd (edgeRequest p)));
     if fst (edgeRequest p) then resetCpu else finished
   }"

definition sampleHLT :: "unit cpu" where
  "sampleHLT = do {
     p \<leftarrow> gets pinHLT;
     modify (pinHLT_update (\<lambda>_. snd (levelRequest p)));
     st \<leftarrow> gets execStatus;
     whenM (fst (levelRequest p) \<and> st = Running)
       (do { setStatus Halted; notifyStop Halted })
   }"

definition sampleIRQ ::
  "nat \<Rightarrow> (board \<Rightarrow> input_pin) \<Rightarrow> ((input_pin \<Rightarrow> input_pin) \<Rightarrow> board \<Rightarrow> board) \<Rightarrow> unit cpu" where
  "sampleIRQ lv pin upd = do {
     p \<leftarrow> gets pin;
     modify (upd (\<lambda>_. snd (edgeRequest p)));
     whenM (fst (edgeRequest p)) (triggerInterrupt lv)
   }"

definition processInputPins :: "outcome cpu" where
  "processInputPins = andThen sampleRST (do {
     sampleHLT;
     sampleIRQ 0 pinIRQ0 pinIRQ0_update;
     sampleIRQ 1 pinIRQ1 pinIRQ1_update;
     sampleIRQ 2 pinIRQ2 pinIRQ2_update;
     modify (forInputPins commitSample);
     modify (forOutputPins commitSample);
     finished
   })"

text \<open>\<^verbatim>\<open>setPins\<close> with the fields of the partial object that are present.\<close>

record cpu_pins_in =
  inRST :: "bool option"
  inHLT :: "bool option"
  inIRQ0 :: "bool option"
  inIRQ1 :: "bool option"
  inIRQ2 :: "bool option"
  inBSAV :: "bool option"
  inSTRT :: "bool option"

definition drive :: "bool option \<Rightarrow> input_pin \<Rightarrow> input_pin" where
  "drive v p = (case v of None \<Rightarrow> p | Some b \<Rightarrow> setInputLevel b p)"

definition setPins :: "cpu_pins_in \<Rightarrow> outcome cpu" where
  "setPins v = do {
     modify (pinRST_update (drive (inRST v)));
     modify (pinHLT_update (drive (inHLT v)));
     modify (pinIRQ0_update (drive (inIRQ0 v)));
     modify (pinIRQ1_update (drive (inIRQ1 v)));
     modify (pinIRQ2_update (drive (inIRQ2 v)));
     modify (pinBSAV_update (drive (inBSAV v)));
     modify (pinSTRT_update (drive (inSTRT v)));
     processInputPins
   }"

record cpu_pins =
  pHLT :: bool
  pRUN :: bool
  pIRQ0 :: bool
  pIRQ1 :: bool
  pIRQ2 :: bool
  pRST :: bool
  pBSAV :: bool
  pSTRT :: bool
  pIOP :: bool
  pBSRQ :: bool
  pWRT :: bool

definition getPins :: "cpu_pins cpu" where
  "getPins = gets (\<lambda>s.
     \<lparr>pHLT = cur (pinHLT s), pRUN = (execStatus s = Running), pIRQ0 = cur (pinIRQ0 s),
      pIRQ1 = cur (pinIRQ1 s), pIRQ2 = cur (pinIRQ2 s), pRST = cur (pinRST s),
      pBSAV = cur (pinBSAV s), pSTRT = cur (pinSTRT s), pIOP = cur (pinIOP s),
      pBSRQ = cur (pinBSRQ s), pWRT = cur (pinWRT s)\<rparr>)"

subsection \<open>The main loop\<close>

definition lowerBusPins :: "unit cpu" where
  "lowerBusPins = do { setIOP False; setWRT False }"

definition tickCpu :: "log16 \<Rightarrow> outcome cpu" where
  "tickCpu lg = andThen processInputPins (do {
     s \<leftarrow> gets id;
     if cur (pinHLT s) \<or> execStatus s = Idle then finished
     else if execStatus s = Halted \<and> \<not> hasAcceptableIrq s then finished
     else do {
       whenM (execStatus s = Halted) (setStatus Running);
       st \<leftarrow> gets execStatus;
       bp \<leftarrow> gets (\<lambda>s. IC (reg s) \<in> breakpoints s);
       if st = Break \<or> st = Step then finished
       else if bp then do { setStatus Break; notifyStop Break; finished }
       else do { lowerBusPins; executeOne lg }
     }
   })"

definition startRun :: "unit cpu" where
  "startRun = do {
     hlt \<leftarrow> gets (\<lambda>s. cur (pinHLT s));
     whenM (\<not> hlt) (do { modify (stepMode_update (\<lambda>_. False)); setStatus Running })
   }"

definition requestHalt :: "unit cpu" where
  "requestHalt = do {
     st \<leftarrow> gets execStatus;
     whenM (st = Running) (do { setStatus Halted; notifyStop Halted })
   }"

definition halt :: "unit cpu" where
  "halt = setStatus Halted"

definition stepCpu :: "log16 \<Rightarrow> (js_error + cpu_register) cpu" where
  "stepCpu lg = do {
     s \<leftarrow> gets id;
     if cur (pinHLT s) \<or> (execStatus s = Halted \<and> \<not> hasAcceptableIrq s)
     then getReg (\<lambda>r. Inr r)
     else do {
       modify (stepMode_update (\<lambda>_. False));
       setStatus Running;
       lowerBusPins;
       r \<leftarrow> executeOne lg;
       (case r of
          Inl e \<Rightarrow> ret (Inl e)
        | Inr _ \<Rightarrow> do {
            st \<leftarrow> gets execStatus;
            whenM (st \<noteq> Halted) (do { setStatus Step; notifyStop Step });
            getReg (\<lambda>r. Inr r)
          })
     }
   }"

subsection \<open>The free run\<close>

text \<open>
  \<^verbatim>\<open>run\<close> executes instructions in batches of 1000 from a timer.  One batch ends the run with
  a status, throws, or leaves the loop variable \<^verbatim>\<open>cycles\<close> to the next timer event.
\<close>

datatype tick_result = Resolved exec_status | Rescheduled nat | Thrown js_error

definition RUN_BATCH :: nat where "RUN_BATCH = 1000"

definition stopWith :: "exec_status \<Rightarrow> tick_result cpu" where
  "stopWith st = do { setStatus st; notifyStop st; ret (Resolved st) }"

fun runFor :: "log16 \<Rightarrow> nat \<Rightarrow> nat \<Rightarrow> nat \<Rightarrow> tick_result cpu" where
  "runFor lg maxCycles 0 cycles = ret (Rescheduled cycles)"
| "runFor lg maxCycles (Suc i) cycles = do {
     s \<leftarrow> gets id;
     if cur (pinHLT s) then stopWith Halted
     else if IC (reg s) \<in> breakpoints s then stopWith Break
     else if stepMode s then stopWith Step
     else do {
       lowerBusPins;
       r \<leftarrow> executeOne lg;
       (case r of
          Inl e \<Rightarrow> ret (Thrown e)
        | Inr _ \<Rightarrow> do {
            st \<leftarrow> gets execStatus;
            if st = Halted then do { notifyStop Halted; ret (Resolved Halted) }
            else if maxCycles > 0 \<and> cycles + 1 \<ge> maxCycles then stopWith Break
            else runFor lg maxCycles i (if maxCycles > 0 then cycles + 1 else cycles)
          })
     }
   }"

definition runTick :: "log16 \<Rightarrow> nat \<Rightarrow> nat \<Rightarrow> tick_result cpu" where
  "runTick lg maxCycles cycles = runFor lg maxCycles RUN_BATCH cycles"

definition runStart :: "u16 \<Rightarrow> unit cpu" where
  "runStart startAddr = do {
     setIC startAddr;
     setStatus Running;
     modify (stepMode_update (\<lambda>_. False))
   }"

subsection \<open>Breakpoints, step mode and register access\<close>

definition addBreakpoint :: "u16 \<Rightarrow> unit cpu" where
  "addBreakpoint a = modify (breakpoints_update (insert a))"

definition removeBreakpoint :: "u16 \<Rightarrow> unit cpu" where
  "removeBreakpoint a = modify (breakpoints_update (\<lambda>b. b - {a}))"

definition clearBreakpoints :: "unit cpu" where
  "clearBreakpoints = modify (breakpoints_update (\<lambda>_. {}))"

definition setStepMode :: "bool \<Rightarrow> unit cpu" where
  "setStepMode enable = do {
     modify (stepMode_update (\<lambda>_. enable));
     st \<leftarrow> gets execStatus;
     whenM (enable \<and> st = Running) (setStatus Step)
   }"

definition setMemory :: "mem_buffer \<Rightarrow> unit cpu" where
  "setMemory m = modify (mem_update (\<lambda>_. m))"

text \<open>\<^verbatim>\<open>setState\<close>: absent fields are None; the values are the caller's integers.\<close>

record partial_register =
  psR :: "nat \<Rightarrow> int option"
  psOSR :: "nat \<Rightarrow> int option"
  psSP :: "int option"
  psSTR :: "int option"
  psIC :: "int option"
  psCSBR :: "int option"
  psSSBR :: "int option"
  psTSR0 :: "int option"
  psTSR1 :: "int option"
  psNPP :: "int option"
  psIISR :: "int option"
  psSBRB :: "int option"
  psICB :: "int option"

definition whenSome :: "int option \<Rightarrow> (u16 \<Rightarrow> unit cpu) \<Rightarrow> unit cpu" where
  "whenSome v f = (case v of None \<Rightarrow> ret () | Some x \<Rightarrow> f (word_of_int x))"

definition setState :: "partial_register \<Rightarrow> unit cpu" where
  "setState p = do {
     forM [0, 1, 2, 3, 4] (\<lambda>i. whenSome (psR p i) (setR i));
     forM [0, 1, 2, 3] (\<lambda>i. whenSome (psOSR p i) (setOSR i));
     whenSome (psSP p) setSP;
     whenSome (psSTR p) setSTR;
     whenSome (psIC p) setIC;
     whenSome (psCSBR p) (\<lambda>v. setCSBR (v AND 0xF));
     whenSome (psSSBR p) (\<lambda>v. setSSBR (v AND 0xF));
     whenSome (psTSR0 p) (\<lambda>v. setTSR0 (v AND 0xF));
     whenSome (psTSR1 p) (\<lambda>v. setTSR1 (v AND 0xF));
     whenSome (psNPP p) (\<lambda>v. setNPP (v AND 0xFF));
     whenSome (psIISR p) setIISR;
     whenSome (psSBRB p) setSBRB;
     whenSome (psICB p) setICB
   }"

end
