(* ===== verification/Memory_Words.thy ===== *)
theory Memory_Words
  imports Mn1613_Core
begin

text \<open>
  The memory as a store of words.  The locale \<open>word_store\<close> states what the stack, the
  interrupt frames and the block move rely on: a word reads back as it was written, and
  writing one word changes no other.  It is interpreted on \<open>memWord\<close> and \<open>setMemWord\<close>, the
  bound-checked big-endian accesses of the code.
\<close>

locale word_store =
  fixes rd :: "'a \<Rightarrow> 'm \<Rightarrow> 'v"
    and wr :: "'a \<Rightarrow> 'v \<Rightarrow> 'm \<Rightarrow> 'm"
    and ok :: "'a \<Rightarrow> 'm \<Rightarrow> bool"
  assumes rd_wr_same: "ok p m \<Longrightarrow> rd p (wr p v m) = v"
    and rd_wr_other: "p \<noteq> q \<Longrightarrow> rd q (wr p v m) = rd q m"
    and ok_wr: "ok q (wr p v m) = ok q m"
begin

lemma rd_wr: "ok p m \<Longrightarrow> rd q (wr p v m) = (if q = p then v else rd q m)"
  by (auto simp: rd_wr_same rd_wr_other)

text \<open>A sequence of writes, in order.\<close>

abbreviation wrs :: "('a \<times> 'v) list \<Rightarrow> 'm \<Rightarrow> 'm" where
  "wrs ws m \<equiv> fold (\<lambda>(p, v). wr p v) ws m"

lemma ok_wrs: "ok q (wrs ws m) = ok q m"
  by (induction ws arbitrary: m) (simp_all add: ok_wr case_prod_unfold)

lemma rd_wrs_other: "p \<notin> fst ` set ws \<Longrightarrow> rd p (wrs ws m) = rd p m"
  by (induction ws arbitrary: m) (simp_all add: rd_wr_other [OF not_sym] case_prod_unfold)

text \<open>The last write to an address decides what is read there.\<close>

lemma rd_wrs:
  assumes "ok p m"
  shows "rd p (wrs ws m) = (case map_of (rev ws) p of None \<Rightarrow> rd p m | Some v \<Rightarrow> v)"
  using assms
proof (induction ws rule: rev_induct)
  case (snoc w ws)
  obtain q v where w: "w = (q, v)" by (cases w)
  from snoc show ?case
    by (cases "q = p") (auto simp: w rd_wr_same rd_wr_other ok_wrs)
qed simp

text \<open>Copying from source to destination, pair by pair in order.\<close>

abbreviation copies :: "('a \<times> 'a) list \<Rightarrow> 'm \<Rightarrow> 'm" where
  "copies ps m \<equiv> fold (\<lambda>(a, b) m. wr b (rd a m) m) ps m"

lemma rd_copies_other: "p \<notin> snd ` set ps \<Longrightarrow> rd p (copies ps m) = rd p m"
  by (induction ps arbitrary: m) (simp_all add: rd_wr_other [OF not_sym] case_prod_unfold)

text \<open>No destination may be read by a later pair, and each is written once.\<close>

definition forward :: "('a \<times> 'a) list \<Rightarrow> bool" where
  "forward ps \<longleftrightarrow> distinct (map snd ps) \<and>
     (\<forall>j<length ps. \<forall>i<j. snd (ps ! i) \<noteq> fst (ps ! j))"

lemma forward_Cons:
  assumes "forward (p # ps)"
  shows "forward ps" and "snd p \<notin> snd ` set ps" and "q \<in> set ps \<Longrightarrow> fst q \<noteq> snd p"
proof -
  have sep: "\<And>j i. j < length (p # ps) \<Longrightarrow> i < j \<Longrightarrow> snd ((p # ps) ! i) \<noteq> fst ((p # ps) ! j)"
    using assms by (simp add: forward_def)
  have "snd (ps ! i) \<noteq> fst (ps ! j)" if "j < length ps" "i < j" for i j
    using sep [of "Suc j" "Suc i"] that by simp
  then show "forward ps" using assms by (simp add: forward_def)
  show "snd p \<notin> snd ` set ps" using assms by (simp add: forward_def)
  show "q \<in> set ps \<Longrightarrow> fst q \<noteq> snd p"
    using sep [of "Suc _" 0] by (fastforce simp: in_set_conv_nth)
qed

lemma rd_copies:
  assumes "forward ps" and "\<forall>b\<in>snd ` set ps. ok b m" and "(a, b) \<in> set ps"
  shows "rd b (copies ps m) = rd a m"
  using assms
proof (induction ps arbitrary: m)
  case (Cons p ps)
  let ?m = "wr (snd p) (rd (fst p) m) m"
  have step: "copies (p # ps) m = copies ps ?m" by (simp add: case_prod_unfold)
  note fw = forward_Cons [OF Cons.prems(1)]
  show ?case
  proof (cases "(a, b) = p")
    case True
    then have "snd p = b" "fst p = a" by auto
    then show ?thesis
      unfolding step using fw(2) Cons.prems(2) by (simp add: rd_copies_other rd_wr_same)
  next
    case False
    then have "(a, b) \<in> set ps" using Cons.prems(3) by auto
    moreover have "\<forall>b\<in>snd ` set ps. ok b ?m" using Cons.prems(2) by (simp add: ok_wr)
    ultimately have "rd b (copies ps ?m) = rd a ?m" using Cons.IH fw(1) by blast
    also have "rd a ?m = rd a m"
      using fw(3) \<open>(a, b) \<in> set ps\<close> by (metis fst_conv rd_wr_other)
    finally show ?thesis unfolding step .
  qed
qed simp

end

subsection \<open>The byte buffer\<close>

definition memOk :: "u18 \<Rightarrow> mem_buffer \<Rightarrow> bool" where
  "memOk p m \<longleftrightarrow> unat p * 2 + 1 < byteLength m"

lemma getUint16_setUint16_same: "getUint16 b (setUint16 b v m) = v"
  unfolding getUint16_def setUint16_def bits16 by (auto simp: bit_simps)

lemma memWord_out: "\<not> memOk p m \<Longrightarrow> memWord p m = 0xFFFF"
  by (simp add: memWord_def memOk_def Let_def)

lemma getUint16_setUint16_other:
  "b + 1 < c \<or> c + 1 < b \<Longrightarrow> getUint16 c (setUint16 b v m) = getUint16 c m"
  by (auto simp: getUint16_def setUint16_def)

lemma byteLength_setUint16 [simp]: "byteLength (setUint16 b v m) = byteLength m"
  by (simp add: setUint16_def)

lemma byteLength_setMemWord [simp]: "byteLength (setMemWord p v m) = byteLength m"
  by (simp add: setMemWord_def Let_def)

lemma unat_apart: "(p :: u18) \<noteq> q \<Longrightarrow> unat p * 2 + 1 < unat q * 2 \<or> unat q * 2 + 1 < unat p * 2"
  using word_unat_eq_iff [of p q] by arith

lemma memWord_setMemWord_same: "memOk p m \<Longrightarrow> memWord p (setMemWord p v m) = v"
  by (simp add: memOk_def memWord_def setMemWord_def Let_def getUint16_setUint16_same)

lemma memWord_setMemWord_other:
  assumes "p \<noteq> q"
  shows "memWord q (setMemWord p v m) = memWord q m"
  using unat_apart [OF assms] getUint16_setUint16_other [of "unat p * 2" "unat q * 2" v m]
  by (simp add: memWord_def setMemWord_def Let_def)

interpretation ram: word_store memWord setMemWord memOk
  by unfold_locales
    (simp_all add: memWord_setMemWord_same memWord_setMemWord_other memOk_def)

text \<open>The default buffer of 256K words holds every physical address.\<close>

lemma unat_18_less: "unat (p :: u18) < 0x40000"
  using unsigned_less [of p, where ?'a = nat] by simp

lemma unat_16_less: "unat (a :: u16) < 0x10000"
  using unsigned_less [of a, where ?'a = nat] by simp

lemma memOk_full: "byteLength m = 2 * MEM_WORDS \<Longrightarrow> memOk p m"
  using unat_18_less [of p] by (simp add: memOk_def MEM_WORDS_def)

subsection \<open>Physical addresses\<close>

text \<open>Within one segment the 64K logical addresses are distinct words.\<close>

lemma unat_ucast_16_18 [simp]: "unat (ucast (a :: u16) :: u18) = unat a"
  using unat_16_less [of a] by (simp add: unsigned_ucast_eq take_bit_nat_eq_self)

lemma phys_inj [simp]: "phys a sg = phys b sg \<longleftrightarrow> a = b"
proof -
  have "(ucast a :: u18) = ucast b \<longleftrightarrow> unat (ucast a :: u18) = unat (ucast b :: u18)"
    by (rule word_unat_eq_iff)
  also have "\<dots> \<longleftrightarrow> a = b"
    by (simp add: word_unat_eq_iff)
  finally show ?thesis by (simp add: phys_def)
qed

lemma unat_phys_0: "unat (phys a 0) = unat a"
  by (simp add: phys_def)

text \<open>
  C31. The memory is a store of words: a word that lies in the buffer reads back exactly as
  it was written, writing it changes no other word, and an access outside the buffer
  changes nothing and reads 0xFFFF.
\<close>

theorem memory_word_store:
  "memWord q (setMemWord p v m) =
     (if \<not> memOk q m then 0xFFFF else if q = p then v else memWord q m)"
proof (cases "memOk q m")
  case True
  then show ?thesis by (cases "q = p") (auto simp: ram.rd_wr_same ram.rd_wr_other)
next
  case False
  then show ?thesis by (simp add: memWord_out ram.ok_wr)
qed

end
