(* ===== verification/Board_Invariant.thy ===== *)
theory Board_Invariant
  imports Board_Effects Mn1613_Run Memory_Words
begin

text \<open>
  The invariant of the board and what every instruction leaves alone.  \<open>board_control\<close> adds
  to \<open>board_effect\<close> the updates of the control operations (power-on, reset, pins, status,
  breakpoints, the debugger); its interpretations and those of \<open>board_effect\<close> on the model's
  own relations give the invariants and frame conditions.
\<close>

subsection \<open>Control operations\<close>

locale board_control = board_effect R for R :: "board \<Rightarrow> board \<Rightarrow> bool" +
  assumes rel_initial: "R s (s\<lparr>reg := initialRegister\<rparr>)"
    and rel_status: "R s (execStatus_update (\<lambda>_. st) s)"
    and rel_stepMode: "R s (stepMode_update (\<lambda>_. b) s)"
    and rel_noIrq: "R s (pendingIRQ_update (\<lambda>_. 0) s)"
    and rel_clock0: "R s (clockCount_update (\<lambda>_. 0) s)"
    and rel_inputPins: "R s (forInputPins f s)"
    and rel_outputPins: "R s (forOutputPins g s)"
    and rel_pins: "R s (pinRST_update f s)" "R s (pinHLT_update f s)" "R s (pinIRQ0_update f s)"
      "R s (pinIRQ1_update f s)" "R s (pinIRQ2_update f s)" "R s (pinBSAV_update f s)"
      "R s (pinSTRT_update f s)"
    and rel_stop: "R s (s\<lparr>stopLog := stopLog s @ l\<rparr>)"
    and rel_breakpoints: "R s (breakpoints_update h s)"
begin

lemma eff_control_updates [effects]:
  "state_io_rel R (updReg (\<lambda>_. initialRegister))"
  "state_io_rel R (setStatus st)"
  "state_io_rel R (modify (stepMode_update (\<lambda>_. b)))"
  "state_io_rel R (modify (pendingIRQ_update (\<lambda>_. 0)))"
  "state_io_rel R (modify (clockCount_update (\<lambda>_. 0)))"
  "state_io_rel R (modify (forInputPins f))"
  "state_io_rel R (modify (forOutputPins g))"
  "state_io_rel R (notifyStop st)"
  "state_io_rel R (modify (breakpoints_update h))"
  unfolding setStatus_def notifyStop_def
  by (rule eff_modify, rule rel_initial rel_status rel_stepMode rel_noIrq rel_clock0
      rel_inputPins rel_outputPins rel_stop rel_breakpoints)+

lemma eff_pins [effects]:
  "state_io_rel R (modify (pinRST_update f))" "state_io_rel R (modify (pinHLT_update f))"
  "state_io_rel R (modify (pinIRQ0_update f))" "state_io_rel R (modify (pinIRQ1_update f))"
  "state_io_rel R (modify (pinIRQ2_update f))" "state_io_rel R (modify (pinBSAV_update f))"
  "state_io_rel R (modify (pinSTRT_update f))"
  by (rule eff_modify, rule rel_pins)+

lemma eff_andThen:
  "state_io_rel R m \<Longrightarrow> state_io_rel R n \<Longrightarrow> state_io_rel R (andThen m n)"
  unfolding andThen_def by (intro eff_intros effects)

lemma eff_powerOnIdle [effects]: "state_io_rel R powerOnIdle"
  unfolding powerOnIdle_def settlePins_def by (intro eff_intros effects)

lemma eff_peekWord [effects]: "state_io_rel R (peekWord a)"
  unfolding peekWord_def by (rule eff_gets)

lemma eff_resetCpu [effects]: "state_io_rel R resetCpu"
  unfolding resetCpu_def settlePins_def by (intro eff_intros effects)

lemma eff_sample [effects]:
  "state_io_rel R sampleRST" "state_io_rel R sampleHLT"
  "state_io_rel R (sampleIRQ 0 pinIRQ0 pinIRQ0_update)"
  "state_io_rel R (sampleIRQ 1 pinIRQ1 pinIRQ1_update)"
  "state_io_rel R (sampleIRQ 2 pinIRQ2 pinIRQ2_update)"
  unfolding sampleRST_def sampleHLT_def sampleIRQ_def
  by (intro eff_intros effects eff_irq; simp)+

lemma eff_processInputPins [effects]: "state_io_rel R processInputPins"
  unfolding processInputPins_def by (intro eff_andThen eff_intros effects)

lemma eff_setPins [effects]: "state_io_rel R (setPins v)"
  unfolding setPins_def by (intro eff_intros effects)

lemma eff_lowerBusPins [effects]: "state_io_rel R lowerBusPins"
  unfolding lowerBusPins_def by (intro eff_intros effects)

lemma eff_tickCpu [effects]: "state_io_rel R (tickCpu lg)"
  unfolding tickCpu_def by (intro eff_andThen eff_intros effects)

lemma eff_stepCpu [effects]: "state_io_rel R (stepCpu lg)"
  unfolding stepCpu_def by (intro eff_intros effects)

lemma eff_runFor [effects]: "state_io_rel R (runFor lg m i c)"
proof (induction i arbitrary: c)
  case 0
  then show ?case by (simp add: eff_ret)
next
  case (Suc i)
  show ?case
    unfolding runFor.simps stopWith_def by (intro eff_intros effects Suc.IH)
qed

lemma eff_run_control [effects]:
  "state_io_rel R (runTick lg m c)" "state_io_rel R (runStart a)" "state_io_rel R startRun"
  "state_io_rel R requestHalt" "state_io_rel R halt" "state_io_rel R (addBreakpoint a)"
  "state_io_rel R (removeBreakpoint a)" "state_io_rel R clearBreakpoints"
  "state_io_rel R (setStepMode b)"
  unfolding runTick_def runStart_def startRun_def requestHalt_def halt_def addBreakpoint_def
    removeBreakpoint_def clearBreakpoints_def setStepMode_def
  by (intro eff_intros effects)+

lemma eff_whenSome:
  "(\<And>x. state_io_rel R (f x)) \<Longrightarrow> state_io_rel R (whenSome v f)"
  unfolding whenSome_def by (intro eff_intros effects)

lemma eff_setState [effects]: "state_io_rel R (setState p)"
  unfolding setState_def by (intro eff_bind eff_forM eff_whenSome effects)

end

subsection \<open>The invariant of the board\<close>

text \<open>
  The ranges that the code relies on but the types do not say: four-bit segment registers,
  an eight-bit NPP, at most three pending interrupt levels, the latches of the step unit and
  of the comparators, and the width of the two interrupt ports.
\<close>

definition wf_board :: "board \<Rightarrow> bool" where
  "wf_board s \<longleftrightarrow>
     CSBR (reg s) \<le> 0xF \<and> SSBR (reg s) \<le> 0xF \<and> TSR0 (reg s) \<le> 0xF \<and> TSR1 (reg s) \<le> 0xF \<and>
     NPP (reg s) \<le> 0xFF \<and> pendingIRQ s AND NOT 7 = 0 \<and> wf_step (stepUnit s) \<and>
     wf_bank (comparators s) \<and> intCause (ports s) \<le> 7 \<and> interruptBusy (ports s) \<le> 1"

lemma pending_or: "p AND - 8 = 0 \<Longrightarrow> lv < 3 \<Longrightarrow> (p OR 2 ^ lv) AND - 8 = (0 :: u32)"
proof -
  assume "p AND - 8 = 0" "lv < 3"
  moreover from \<open>lv < 3\<close> have "lv = 0 \<or> lv = 1 \<or> lv = 2" by auto
  ultimately show ?thesis by (auto simp: bit.conj_disj_distrib2)
qed

lemma pending_and: "p AND - 8 = 0 \<Longrightarrow> (p AND q) AND - 8 = (0 :: u32)"
  by (metis and.assoc and.commute and_zero_eq)

lemmas wf_simps = keeps_def wf_board_def word_and_le1 wf_bank_probe wf_bank_read wf_bank_write
  wf_sb_fetch wf_sb_write initialRegister_def forInputPins_def forOutputPins_def

interpretation wf: board_control "keeps wf_board"
  by unfold_locales (simp_all add: wf_simps pending_or pending_and)

subsection \<open>What an instruction leaves alone\<close>

definition control_part where
  "control_part s =
     ((breakpoints s, stepMode s, ioCallbacks s, hitCallbacks s, byteLength (mem s), stopLog s),
      (pinRST s, pinHLT s, pinIRQ0 s, pinIRQ1 s, pinIRQ2 s, pinBSAV s, pinSTRT s, pinBSRQ s))"

interpretation control: board_effect "same control_part"
  by unfold_locales (simp_all add: same_def control_part_def)

text \<open>The clock advances by whole memory accesses of four clocks.\<close>

definition ticked :: "board \<Rightarrow> board \<Rightarrow> bool" where
  "ticked s t \<longleftrightarrow> (\<exists>k. clockCount t = clockCount s + 4 * of_nat k)"

lemma ticked_same: "clockCount t = clockCount s \<Longrightarrow> ticked s t"
  unfolding ticked_def by (rule exI [of _ 0]) simp

lemma ticked_access: "ticked s (s\<lparr>clockCount := clockCount s + 4\<rparr>)"
  unfolding ticked_def by (rule exI [of _ 1]) simp

lemma ticked_trans: "ticked s t \<Longrightarrow> ticked t u \<Longrightarrow> ticked s u"
proof -
  assume "ticked s t" "ticked t u"
  then obtain j k where "clockCount t = clockCount s + 4 * of_nat j"
    "clockCount u = clockCount t + 4 * of_nat k" unfolding ticked_def by blast
  then have "clockCount u = clockCount s + 4 * of_nat (j + k)" by (simp add: algebra_simps)
  then show ?thesis unfolding ticked_def by blast
qed

interpretation clock: board_effect ticked
  by unfold_locales (simp_all add: ticked_same ticked_access ticked_trans)

end
