(* ===== verification/Board_Reach.thy ===== *)
theory Board_Reach
  imports Board_Invariant
begin

text \<open>
  The states the board can get into: what a host can do to it, as a datatype of commands (the
  exported functions of \<^verbatim>\<open>mn1613.ts\<close> and \<^verbatim>\<open>io_ports.ts\<close>), and the states reachable from the
  state at module load by any sequence of them.
\<close>

datatype command =
    PowerOnIdle
  | ResetCpu
  | SetPins cpu_pins_in
  | TickCpu
  | StepCpu
  | RunStart u16
  | RunTick nat nat
  | StartRun
  | RequestHalt
  | Halt
  | AddBreakpoint u16
  | RemoveBreakpoint u16
  | ClearBreakpoints
  | SetStepMode bool
  | SetState partial_register
  | SetMemory mem_buffer
  | AttachIoBoardPorts
  | AttachHandshakeBus "cpu_io_signals option"
  | SetResetVector u16
  | SetIntCause u16
  | ResetAddrComparators

fun runCommand :: "log16 \<Rightarrow> command \<Rightarrow> unit cpu" where
  "runCommand lg PowerOnIdle = powerOnIdle"
| "runCommand lg ResetCpu = do { resetCpu; ret () }"
| "runCommand lg (SetPins p) = do { setPins p; ret () }"
| "runCommand lg TickCpu = do { tickCpu lg; ret () }"
| "runCommand lg StepCpu = do { stepCpu lg; ret () }"
| "runCommand lg (RunStart a) = runStart a"
| "runCommand lg (RunTick m c) = do { runTick lg m c; ret () }"
| "runCommand lg StartRun = startRun"
| "runCommand lg RequestHalt = requestHalt"
| "runCommand lg Halt = halt"
| "runCommand lg (AddBreakpoint a) = addBreakpoint a"
| "runCommand lg (RemoveBreakpoint a) = removeBreakpoint a"
| "runCommand lg ClearBreakpoints = clearBreakpoints"
| "runCommand lg (SetStepMode b) = setStepMode b"
| "runCommand lg (SetState p) = setState p"
| "runCommand lg (SetMemory m) = setMemory m"
| "runCommand lg AttachIoBoardPorts = attachIoBoardPorts"
| "runCommand lg (AttachHandshakeBus b) = attachHandshakeBus b"
| "runCommand lg (SetResetVector v) = setResetVector v"
| "runCommand lg (SetIntCause c) = setIntCause c"
| "runCommand lg ResetAddrComparators = resetAddrComparators"

inductive board_step :: "log16 \<Rightarrow> board \<Rightarrow> board \<Rightarrow> bool" for lg where
  command: "board_step lg s (snd (run_state (runCommand lg c) s))"

inductive reachable :: "log16 \<Rightarrow> board \<Rightarrow> bool" for lg where
  load: "reachable lg initialBoard"
| step: "reachable lg s \<Longrightarrow> board_step lg s t \<Longrightarrow> reachable lg t"

inductive_simps board_step_iff: "board_step lg s t"
inductive_cases board_stepE: "board_step lg s t"

subsection \<open>Invariance\<close>

lemma wf_modify: "(\<And>s. wf_board s \<Longrightarrow> wf_board (f s)) \<Longrightarrow> state_io_rel (keeps wf_board) (modify f)"
  by (rule keeps.eff_modify) (simp add: keeps_def)

lemma wf_host_updates [effects]:
  "state_io_rel (keeps wf_board) (setMemory m)"
  "state_io_rel (keeps wf_board) attachIoBoardPorts"
  "state_io_rel (keeps wf_board) (attachHandshakeBus b)"
  "state_io_rel (keeps wf_board) resetAddrComparators"
  unfolding setMemory_def attachIoBoardPorts_def attachHandshakeBus_def resetAddrComparators_def
  by (intro keeps.eff_bind wf_modify; simp add: wf_board_def wf_bank_reset)+

lemma wf_runCommand: "state_io_rel (keeps wf_board) (runCommand lg c)"
  by (cases c) (simp_all del: run_state_bind, (intro keeps.eff_bind effects)+)

lemma wf_initialBoard: "wf_board initialBoard"
  by (simp add: wf_board_def initialBoard_def initialRegister_def initialPorts_def
      wf_newComparatorBank)

lemma wf_board_step: "wf_board s \<Longrightarrow> board_step lg s t \<Longrightarrow> wf_board t"
  using keeps.eff_run [OF wf_runCommand] by (auto simp: keeps_def elim!: board_stepE)

text \<open>
  C1. In every state the board can reach from module load, by any sequence of ticks, steps,
  runs, pin changes, resets and debugger accesses, the segment registers have four bits,
  NPP eight, only the three interrupt levels can be pending, the comparator bank has four
  slots with their fields in range, and the latches of the step unit and the interrupt ports
  have their widths.
\<close>

theorem reachable_wf:
  assumes "reachable lg s"
  shows "wf_board s"
  using assms by induction (auto intro: wf_initialBoard wf_board_step)

theorem reachable_wf_witness:
  "wf_board (snd (run_state (runCommand (\<lambda>_. 0) TickCpu) initialBoard))"
  by (rule reachable_wf [where lg = "\<lambda>_. 0"])
    (rule reachable.step [OF reachable.load board_step.command])

text \<open>
  C32. An instruction never changes what belongs to the host and the pins: the breakpoints,
  the step mode, the installed callbacks, the size of the memory, the record of stops, and
  the seven input pins and BSRQ.  It advances the clock by whole memory accesses of four clocks.
\<close>

theorem executeOne_frame:
  "control_part (snd (run_state (executeOne lg) s)) = control_part s \<and>
   (\<exists>n. clockCount (snd (run_state (executeOne lg) s)) = clockCount s + 4 * of_nat n)"
  using same.eff_run [OF control.eff_executeOne, of s lg] clock.eff_run [OF clock.eff_executeOne, of s lg]
  by (simp add: same_def ticked_def)

end
