(* ===== verification/Core_Run.thy ===== *)
theory Core_Run
  imports Mn1613_Run Memory_Words
begin

text \<open>
  How each primitive of the CPU acts on the architectural state: the registers and the
  memory.  Clock, pins, comparators and interrupt requests change on the side; the facts
  here (collection \<open>core\<close>) give the value, the registers and the memory after a primitive in
  terms of those before, so that a whole instruction is evaluated by rewriting.
\<close>

named_theorems core "value, registers and memory after a primitive"

lemma run_bind_fst [core]:
  "fst (run_state (State_Monad.bind m f) s) = fst (run_state (f (fst (run_state m s))) (snd (run_state m s)))"
  by (simp add: case_prod_unfold)

lemma run_bind_snd [core]:
  "snd (run_state (State_Monad.bind m f) s) = snd (run_state (f (fst (run_state m s))) (snd (run_state m s)))"
  by (simp add: case_prod_unfold)

subsection \<open>Side effects that leave the architectural state alone\<close>

lemma trigger_core [core]:
  "reg (snd (run_state (triggerInterrupt lv) s)) = reg s"
  "mem (snd (run_state (triggerInterrupt lv) s)) = mem s"
  "execStatus (snd (run_state (triggerInterrupt lv) s)) = execStatus s"
  by (simp_all add: triggerInterrupt_def)

lemma setIntCause_core [core]:
  "reg (snd (run_state (setIntCause c) s)) = reg s"
  "mem (snd (run_state (setIntCause c) s)) = mem s"
  "execStatus (snd (run_state (setIntCause c) s)) = execStatus s"
  by (simp_all add: setIntCause_def split: option.split)

lemma hits_core [core]:
  "reg (snd (run_state (onAddrHit i) s)) = reg s"
  "mem (snd (run_state (onAddrHit i) s)) = mem s"
  "execStatus (snd (run_state (onAddrHit i) s)) = execStatus s"
  "reg (snd (run_state onStepHit s)) = reg s"
  "mem (snd (run_state onStepHit s)) = mem s"
  "execStatus (snd (run_state onStepHit s)) = execStatus s"
  by (simp_all add: onAddrHit_def onStepHit_def raiseAddrBreakIrq_def raiseStepBreakIrq_def
      core case_prod_unfold)

lemma probe_core [core]:
  "reg (snd (run_state (addrComparators_probe a) s)) = reg s"
  "mem (snd (run_state (addrComparators_probe a) s)) = mem s"
  "execStatus (snd (run_state (addrComparators_probe a) s)) = execStatus s"
  by (simp_all add: addrComparators_probe_def core case_prod_unfold)

lemma stepFetch_core [core]:
  "reg (snd (run_state (stepBreak_onInstructionFetch ir) s)) = reg s"
  "mem (snd (run_state (stepBreak_onInstructionFetch ir) s)) = mem s"
  "execStatus (snd (run_state (stepBreak_onInstructionFetch ir) s)) = execStatus s"
  by (simp_all add: stepBreak_onInstructionFetch_def core case_prod_unfold)

lemma clocks_core [core]:
  "reg (snd (run_state (addClocks n) s)) = reg s"
  "mem (snd (run_state (addClocks n) s)) = mem s"
  "execStatus (snd (run_state (addClocks n) s)) = execStatus s"
  by (simp_all add: addClocks_def)

subsection \<open>Memory\<close>

lemma rdPhys_core [core]:
  "fst (run_state (rdPhys p) s) = memWord p (mem s)"
  "reg (snd (run_state (rdPhys p) s)) = reg s"
  "mem (snd (run_state (rdPhys p) s)) = mem s"
  "execStatus (snd (run_state (rdPhys p) s)) = execStatus s"
  by (simp_all add: rdPhys_def core del: run_state_bind)

lemma wrPhys_core [core]:
  "reg (snd (run_state (wrPhys p v) s)) = reg s"
  "mem (snd (run_state (wrPhys p v) s)) = setMemWord p v (mem s)"
  "execStatus (snd (run_state (wrPhys p v) s)) = execStatus s"
  by (simp_all add: wrPhys_def core del: run_state_bind)

text \<open>A word through the current segment, and the memory after a write through it.\<close>

abbreviation wordC :: "cpu_register \<Rightarrow> mem_buffer \<Rightarrow> u16 \<Rightarrow> u16" where
  "wordC r m a \<equiv> memWord (phys a (CSBR r)) m"

abbreviation wordS :: "cpu_register \<Rightarrow> mem_buffer \<Rightarrow> u16 \<Rightarrow> u16" where
  "wordS r m a \<equiv> memWord (phys a (SSBR r)) m"

lemma access_core [core]:
  "fst (run_state (rdC a) s) = wordC (reg s) (mem s) a"
  "reg (snd (run_state (rdC a) s)) = reg s"
  "mem (snd (run_state (rdC a) s)) = mem s"
  "execStatus (snd (run_state (rdC a) s)) = execStatus s"
  "reg (snd (run_state (wrC a v) s)) = reg s"
  "mem (snd (run_state (wrC a v) s)) = setMemWord (phys a (CSBR (reg s))) v (mem s)"
  "execStatus (snd (run_state (wrC a v) s)) = execStatus s"
  "fst (run_state (rdS a) s) = wordS (reg s) (mem s) a"
  "reg (snd (run_state (rdS a) s)) = reg s"
  "mem (snd (run_state (rdS a) s)) = mem s"
  "execStatus (snd (run_state (rdS a) s)) = execStatus s"
  "reg (snd (run_state (wrS a v) s)) = reg s"
  "mem (snd (run_state (wrS a v) s)) = setMemWord (phys a (SSBR (reg s))) v (mem s)"
  "execStatus (snd (run_state (wrS a v) s)) = execStatus s"
  "fst (run_state (rdB a sg) s) = memWord (phys a sg) (mem s)"
  "reg (snd (run_state (rdB a sg) s)) = reg s"
  "mem (snd (run_state (rdB a sg) s)) = mem s"
  "execStatus (snd (run_state (rdB a sg) s)) = execStatus s"
  "reg (snd (run_state (wrB a v sg) s)) = reg s"
  "mem (snd (run_state (wrB a v sg) s)) = setMemWord (phys a sg) v (mem s)"
  "execStatus (snd (run_state (wrB a v sg) s)) = execStatus s"
  by (simp_all add: rdC_def wrC_def rdS_def wrS_def rdB_def wrB_def core)

lemma fetch_core [core]:
  "fst (run_state fetch s) = wordC (reg s) (mem s) (IC (reg s))"
  "reg (snd (run_state fetch s)) = (reg s)\<lparr>IC := IC (reg s) + 1\<rparr>"
  "mem (snd (run_state fetch s)) = mem s"
  "execStatus (snd (run_state fetch s)) = execStatus s"
  by (simp_all add: fetch_def core del: run_state_bind)

subsection \<open>Registers\<close>

definition regOf :: "cpu_register \<Rightarrow> u16 \<Rightarrow> u16" where
  "regOf r rrr =
     (let k = rrr AND 7
      in if k = 0 then R r 0 else if k = 1 then R r 1 else if k = 2 then R r 2
         else if k = 3 then R r 3 else if k = 4 then R r 4 else if k = 5 then SP r
         else if k = 6 then rSTR r else IC r)"

definition putReg :: "u16 \<Rightarrow> u16 \<Rightarrow> cpu_register \<Rightarrow> cpu_register" where
  "putReg rrr v r =
     (let k = rrr AND 7
      in if k = 0 then r\<lparr>R := (R r)(0 := v)\<rparr> else if k = 1 then r\<lparr>R := (R r)(1 := v)\<rparr>
         else if k = 2 then r\<lparr>R := (R r)(2 := v)\<rparr> else if k = 3 then r\<lparr>R := (R r)(3 := v)\<rparr>
         else if k = 4 then r\<lparr>R := (R r)(4 := v)\<rparr> else if k = 5 then r\<lparr>SP := v\<rparr>
         else if k = 6 then r\<lparr>rSTR := v\<rparr> else r\<lparr>IC := v\<rparr>)"

lemma run_gr [simp]: "run_state (gr k) s = (regOf (reg s) k, s)"
  by (simp add: gr_def regOf_def Let_def)

lemma run_sw [simp]: "run_state (sw k v) s = ((), s\<lparr>reg := putReg k v (reg s)\<rparr>)"
  by (simp add: sw_def putReg_def Let_def)

lemma regOf_putReg_same [simp]: "regOf (putReg k v r) k = v"
  by (simp add: regOf_def putReg_def Let_def)

lemma and_7_cases:
  obtains "k AND 7 = (0 :: u16)" | "k AND 7 = 1" | "k AND 7 = 2" | "k AND 7 = 3" | "k AND 7 = 4"
    | "k AND 7 = 5" | "k AND 7 = 6" | "k AND 7 = 7"
proof -
  have "k AND 7 \<le> 7" by (rule word_and_le1)
  then have "k AND 7 = 0 \<or> k AND 7 = 1 \<or> k AND 7 = 2 \<or> k AND 7 = 3 \<or> k AND 7 = 4 \<or>
      k AND 7 = 5 \<or> k AND 7 = 6 \<or> k AND 7 = 7"
    by unat_arith
  then show ?thesis using that by blast
qed

lemma regOf_putReg_other: "j AND 7 \<noteq> k AND 7 \<Longrightarrow> regOf (putReg k v r) j = regOf r j"
  by (rule and_7_cases [of k]; rule and_7_cases [of j]) (simp_all add: regOf_def putReg_def)

lemma run_ri [simp]: "run_state (ri k) s = (R (reg s) (unat (k AND 3) + 1), s)"
  by (simp add: ri_def)

lemma run_riSet [simp]:
  "run_state (riSet k v) s =
     ((), s\<lparr>reg := (reg s)\<lparr>R := (R (reg s))(unat (k AND 3) + 1 := v)\<rparr>\<rparr>)"
  by (simp add: riSet_def)

definition segOf :: "cpu_register \<Rightarrow> u16 \<Rightarrow> u16" where
  "segOf r bb =
     (let k = bb AND 3
      in if k = 0 then CSBR r else if k = 1 then SSBR r else if k = 2 then TSR0 r else TSR1 r)"

lemma run_segReg [simp]: "run_state (segReg k) s = (segOf (reg s) k, s)"
  by (simp add: segReg_def segOf_def Let_def)

subsection \<open>Flags\<close>

definition putE :: "bool \<Rightarrow> u16 \<Rightarrow> u16" where
  "putE b str = (if b then str OR STR_E else str AND (NOT STR_E AND 0xFFFF))"

definition putOVF :: "bool \<Rightarrow> u16 \<Rightarrow> u16" where
  "putOVF b str = (if b then str OR STR_OVF else str AND (NOT STR_OVF AND 0xFFFF))"

definition flagE :: "cpu_register \<Rightarrow> bool" where
  "flagE r \<longleftrightarrow> rSTR r AND STR_E \<noteq> 0"

definition flagOVF :: "cpu_register \<Rightarrow> bool" where
  "flagOVF r \<longleftrightarrow> rSTR r AND STR_OVF \<noteq> 0"

lemma run_setE [simp]:
  "run_state (setE b) s = ((), s\<lparr>reg := (reg s)\<lparr>rSTR := putE b (rSTR (reg s))\<rparr>\<rparr>)"
  by (cases s; cases b) (simp_all add: setE_def putE_def)

lemma run_setOVF [simp]:
  "run_state (setOVF b) s = ((), s\<lparr>reg := (reg s)\<lparr>rSTR := putOVF b (rSTR (reg s))\<rparr>\<rparr>)"
  by (cases s; cases b) (simp_all add: setOVF_def putOVF_def)

lemma run_getE [simp]: "run_state getE s = (flagE (reg s), s)"
  by (simp add: getE_def flagE_def)

lemma flag_bits: "flagE r \<longleftrightarrow> bit (rSTR r) 15" "flagOVF r \<longleftrightarrow> bit (rSTR r) 13"
  using and_exp_eq_0_iff_not_bit [of "rSTR r" 15] and_exp_eq_0_iff_not_bit [of "rSTR r" 13]
  by (simp_all add: flagE_def flagOVF_def str_bit_defs)

lemma bit_STR_E: "bit STR_E n \<longleftrightarrow> n = 15"
  using bit_exp_iff [of 15 n, where 'a = u16] by (auto simp: STR_E_def)

lemma bit_STR_OVF: "bit STR_OVF n \<longleftrightarrow> n = 13"
  using bit_exp_iff [of 13 n, where 'a = u16] by (auto simp: STR_OVF_def)

lemma bit_putE [simp]: "bit (putE b str) n \<longleftrightarrow> (if n = 15 then b else bit str n)"
  using bit_imp_le_length [of str n]
  by (auto simp: putE_def bit_STR_E bit_simps)

lemma bit_putOVF [simp]: "bit (putOVF b str) n \<longleftrightarrow> (if n = 13 then b else bit str n)"
  using bit_imp_le_length [of str n]
  by (auto simp: putOVF_def bit_STR_OVF bit_simps)

lemma flags_after [simp]:
  "flagE (r\<lparr>rSTR := putE b str\<rparr>) = b" "flagOVF (r\<lparr>rSTR := putOVF b str\<rparr>) = b"
  "flagE (r\<lparr>rSTR := putOVF b (putE c str)\<rparr>) = c" "flagOVF (r\<lparr>rSTR := putE c (putOVF b str)\<rparr>) = b"
  by (simp_all add: flag_bits)

lemma run_carryIn [simp]:
  "run_state (carryIn c) s = (if c = 0 \<and> flagE (reg s) then 1 else 0, s)"
  by (simp add: carryIn_def flagE_def)

lemma run_applyEE [simp]:
  "run_state (applyEE ee) s = ((), s\<lparr>reg := (reg s)\<lparr>rSTR :=
     (let k = ee AND 3
      in if k = 1 then putE False (rSTR (reg s)) else if k = 2 then putE True (rSTR (reg s))
         else if k = 3 then putE (\<not> flagE (reg s)) (rSTR (reg s)) else rSTR (reg s))\<rparr>\<rparr>)"
  by (simp add: applyEE_def Let_def)

text \<open>The flags of an addition and of a subtraction, as numbers.\<close>

definition addSTR :: "u16 \<Rightarrow> u16 \<Rightarrow> u16 \<Rightarrow> u16" where
  "addSTR a b str = putOVF (NOT (a XOR b) AND (a XOR (a + b)) AND 0x8000 \<noteq> 0)
     (putE (uint a + uint b > 0xFFFF) str)"

definition subSTR :: "u16 \<Rightarrow> u16 \<Rightarrow> u16 \<Rightarrow> u16" where
  "subSTR a b str = putOVF ((a XOR b) AND (a XOR (a - b)) AND 0x8000 \<noteq> 0)
     (putE (uint a - uint b < 0) str)"

lemma run_add16 [simp]:
  "run_state (add16 a b) s = (a + b, s\<lparr>reg := (reg s)\<lparr>rSTR := addSTR a b (rSTR (reg s))\<rparr>\<rparr>)"
  by (simp add: add16_def addSTR_def Let_def)

lemma run_sub16 [simp]:
  "run_state (sub16 a b) s = (a - b, s\<lparr>reg := (reg s)\<lparr>rSTR := subSTR a b (rSTR (reg s))\<rparr>\<rparr>)"
  by (simp add: sub16_def subSTR_def Let_def)

subsection \<open>Skips\<close>

text \<open>The number of words a taken skip passes over.\<close>

definition skipWords :: "cpu_register \<Rightarrow> mem_buffer \<Rightarrow> u16" where
  "skipWords r m = (if is2Word (wordC r m (IC r)) then 2 else 1)"

definition skipTo :: "cpu_register \<Rightarrow> mem_buffer \<Rightarrow> u16 \<Rightarrow> u16 \<Rightarrow> u16" where
  "skipTo r m kkkk res = (if skipCond (rSTR r) kkkk res then IC r + skipWords r m else IC r)"

lemma run_skip [simp]: "run_state (skip k v) s = (skipCond (rSTR (reg s)) k v, s)"
  by (simp add: skip_def)

lemma skipNext_core [core]:
  "reg (snd (run_state skipNext s)) = (reg s)\<lparr>IC := IC (reg s) + skipWords (reg s) (mem s)\<rparr>"
  "mem (snd (run_state skipNext s)) = mem s"
  "execStatus (snd (run_state skipNext s)) = execStatus s"
  by (simp_all add: skipNext_def skipWords_def core del: run_state_bind)

lemma skipIf_core [core]:
  "reg (snd (run_state (skipIf k v) s)) = (reg s)\<lparr>IC := skipTo (reg s) (mem s) k v\<rparr>"
  "mem (snd (run_state (skipIf k v) s)) = mem s"
  "execStatus (snd (run_state (skipIf k v) s)) = execStatus s"
  by (simp_all add: skipIf_def skipTo_def core del: run_state_bind)

subsection \<open>Stack and interrupts\<close>

lemma push_core [core]:
  "reg (snd (run_state (push v) s)) = (reg s)\<lparr>SP := SP (reg s) - 1\<rparr>"
  "mem (snd (run_state (push v) s)) = setMemWord (phys (SP (reg s)) (SSBR (reg s))) v (mem s)"
  "execStatus (snd (run_state (push v) s)) = execStatus s"
  by (simp_all add: push_def core del: run_state_bind)

lemma pop_core [core]:
  "fst (run_state pop s) = wordS (reg s) (mem s) (SP (reg s) + 1)"
  "reg (snd (run_state pop s)) = (reg s)\<lparr>SP := SP (reg s) + 1\<rparr>"
  "mem (snd (run_state pop s)) = mem s"
  "execStatus (snd (run_state pop s)) = execStatus s"
  by (simp_all add: pop_def core del: run_state_bind)

text \<open>The new program status word of a level: its address, after the old one is saved.\<close>

definition npswAddr :: "cpu_register \<Rightarrow> nat \<Rightarrow> u16" where
  "npswAddr r lv = push_bit 8 (NPP r AND 0xFF) + of_nat (lv * 2)"

definition opswAddr :: "nat \<Rightarrow> u16" where
  "opswAddr lv = of_nat (lv * 2)"

definition saveOPSW :: "nat \<Rightarrow> cpu_register \<Rightarrow> mem_buffer \<Rightarrow> mem_buffer" where
  "saveOPSW lv r m =
     setMemWord (phys (opswAddr lv + 1) 0) (IC r) (setMemWord (phys (opswAddr lv) 0) (rSTR r) m)"

lemma acceptIrq_core [core]:
  "reg (snd (run_state (acceptIrq lv) s)) = (reg s)\<lparr>OSR := (OSR (reg s))(lv := CSBR (reg s) AND 0xF),
     CSBR := 0,
     rSTR := memWord (phys (npswAddr (reg s) lv) 0) (saveOPSW lv (reg s) (mem s)),
     IC := memWord (phys (npswAddr (reg s) lv + 1) 0) (saveOPSW lv (reg s) (mem s))\<rparr>"
  "mem (snd (run_state (acceptIrq lv) s)) = saveOPSW lv (reg s) (mem s)"
  "execStatus (snd (run_state (acceptIrq lv) s)) = execStatus s"
  by (simp_all add: acceptIrq_def saveOPSW_def npswAddr_def opswAddr_def core Let_def add.commute
      del: run_state_bind)

subsection \<open>Effective addresses\<close>

text \<open>The address an MMM operand denotes: it depends on registers and memory only.\<close>

definition eaOf :: "cpu_register \<Rightarrow> mem_buffer \<Rightarrow> u16 \<Rightarrow> u16 \<Rightarrow> u16" where
  "eaOf r m mmm d =
     (let k = mmm AND 7; sd = sext8 d
      in if k = 0 then d AND 0xFF
         else if k = 1 then IC r - 1 + sd
         else if k = 2 then wordC r m (d AND 0xFF)
         else if k = 3 then wordC r m (IC r - 1 + sd)
         else if k = 4 then R r 3 + (d AND 0xFF)
         else if k = 5 then R r 4 + (d AND 0xFF)
         else if k = 6 then R r 3 + wordC r m (d AND 0xFF)
         else R r 4 + wordC r m (d AND 0xFF))"

lemma ea_core [core]:
  "fst (run_state (ea mmm d) s) = eaOf (reg s) (mem s) mmm d"
  "reg (snd (run_state (ea mmm d) s)) = reg s"
  "mem (snd (run_state (ea mmm d) s)) = mem s"
  "execStatus (snd (run_state (ea mmm d) s)) = execStatus s"
  by (simp_all add: ea_def eaOf_def core Let_def del: run_state_bind)

subsection \<open>One instruction\<close>

text \<open>Without a pending interrupt an instruction is a fetch, the step unit, and \<open>execOp\<close>.\<close>

definition afterFetch :: "board \<Rightarrow> board" where
  "afterFetch s = snd (run_state (stepBreak_onInstructionFetch (wordC (reg s) (mem s) (IC (reg s))))
     (snd (run_state fetch s)))"

lemma afterFetch_core [core]:
  "reg (afterFetch s) = (reg s)\<lparr>IC := IC (reg s) + 1\<rparr>"
  "mem (afterFetch s) = mem s"
  "execStatus (afterFetch s) = execStatus s"
  by (simp_all add: afterFetch_def core)

lemma run_executeOne:
  "pendingIRQ s = 0 \<Longrightarrow>
   run_state (executeOne lg) s =
     run_state (execOp lg (wordC (reg s) (mem s) (IC (reg s)))) (afterFetch s)"
  by (simp add: executeOne_def afterFetch_def core case_prod_unfold)

subsection \<open>Concrete boards\<close>

text \<open>The board at module load with some words of memory and register values put in.\<close>

definition boardWith :: "(u18 \<times> u16) list \<Rightarrow> (cpu_register \<Rightarrow> cpu_register) \<Rightarrow> board" where
  "boardWith ws f = initialBoard\<lparr>mem := fold (\<lambda>(p, v). setMemWord p v) ws (mem initialBoard),
     reg := f initialRegister\<rparr>"

lemma memOk_initial [simp]: "memOk p (mem initialBoard)"
  by (rule memOk_full) (simp add: initialBoard_def)

lemma memWord_initial [simp]: "memWord p (mem initialBoard) = 0"
  using memOk_initial [of p]
  by (simp add: memOk_def memWord_def getUint16_def initialBoard_def)

lemma boardWith_simps [simp]:
  "reg (boardWith ws f) = f initialRegister" "pendingIRQ (boardWith ws f) = 0"
  "execStatus (boardWith ws f) = Idle"
  by (simp_all add: boardWith_def initialBoard_def)

lemma memOk_boardWith [simp]: "memOk p (mem (boardWith ws f))"
  by (simp add: boardWith_def ram.ok_wrs)

lemma memWord_boardWith [simp]:
  "memWord p (mem (boardWith ws f)) = (case map_of (rev ws) p of None \<Rightarrow> 0 | Some v \<Rightarrow> v)"
  by (simp add: boardWith_def ram.rd_wrs split: option.split)

end
