(* ===== verification/Block_Props.thy ===== *)
theory Block_Props
  imports Core_Run
begin

text \<open>
  The block move BLK: its loop, turn by turn, is a sequence of word copies, and the laws of
  the word store give what it leaves in memory.
\<close>

text \<open>The source and the destination of turn \<open>i\<close>.\<close>

definition blkSrc :: "cpu_register \<Rightarrow> nat \<Rightarrow> u18" where
  "blkSrc r i = phys (R r 1 + of_nat i) (TSR0 r)"

definition blkDst :: "cpu_register \<Rightarrow> nat \<Rightarrow> u18" where
  "blkDst r i = phys (R r 2 + of_nat i) (TSR1 r)"


definition blkAdvance :: "cpu_register \<Rightarrow> nat \<Rightarrow> cpu_register" where
  "blkAdvance r n = r\<lparr>R := (R r)(1 := R r 1 + of_nat n, 2 := R r 2 + of_nat n, 0 := R r 0 - of_nat n)\<rparr>"

lemma blkBody_core [core]:
  "reg (snd (run_state blkBody s)) = blkAdvance (reg s) 1"
  "mem (snd (run_state blkBody s)) =
     setMemWord (blkDst (reg s) 0) (memWord (blkSrc (reg s) 0) (mem s)) (mem s)"
  by (simp_all add: blkBody_def blkAdvance_def blkSrc_def blkDst_def core del: run_state_bind)








end
