(* ===== verification/Control_Props.thy ===== *)
theory Control_Props
  imports Core_Run
begin

text \<open>
  Control flow: the stack and the calls that use it, the interrupt entry and its return, the
  undefined-instruction trap, and the block move.  The proofs rest on the laws of the word
  store (\<open>ram\<close>) and on the evaluation of the primitives (\<open>core\<close>).
\<close>

subsection \<open>Stack\<close>

abbreviation stackOk :: "board \<Rightarrow> u16 \<Rightarrow> bool" where
  "stackOk s a \<equiv> memOk (phys a (SSBR (reg s))) (mem s)"

text \<open>
  What is pushed is popped: after \<open>push v\<close> and a pop the value is \<open>v\<close> (0xFFFF when the
  stack address lies outside the memory) and all registers, SP included, are as before.
\<close>

lemma push_pop:
  "let (r, t) = run_state (do { push v; pop }) s
   in r = (if stackOk s (SP (reg s)) then v else 0xFFFF) \<and> reg t = reg s"
proof -
  have "fst (run_state (do { push v; pop }) s) =
      (if stackOk s (SP (reg s)) then v else 0xFFFF)"
    by (simp add: core ram.rd_wr_same memWord_out ram.ok_wr del: run_state_bind)
  moreover have "reg (snd (run_state (do { push v; pop }) s)) = reg s"
    by (simp add: core del: run_state_bind)
  ultimately show ?thesis by (simp add: case_prod_unfold del: run_state_bind)
qed

lemma pshm_core:
  "reg (snd (run_state (exec02 7 0x0F) s)) = (reg s)\<lparr>SP := SP (reg s) - 5\<rparr>"
  "mem (snd (run_state (exec02 7 0x0F) s)) =
     fold (\<lambda>(p, v). setMemWord p v)
       [(phys (SP (reg s)) (SSBR (reg s)), R (reg s) 0),
        (phys (SP (reg s) - 1) (SSBR (reg s)), R (reg s) 1),
        (phys (SP (reg s) - 2) (SSBR (reg s)), R (reg s) 2),
        (phys (SP (reg s) - 3) (SSBR (reg s)), R (reg s) 3),
        (phys (SP (reg s) - 4) (SSBR (reg s)), R (reg s) 4)] (mem s)"
  by (simp_all add: exec02_def core numeral_eq_Suc del: run_state_bind)

lemma popm_core:
  "reg (snd (run_state (exec02 7 0x07) s)) = (reg s)\<lparr>SP := 5 + SP (reg s),
     R := (R (reg s))(4 := wordS (reg s) (mem s) (SP (reg s) + 1),
       3 := wordS (reg s) (mem s) (2 + SP (reg s)), 2 := wordS (reg s) (mem s) (3 + SP (reg s)),
       1 := wordS (reg s) (mem s) (4 + SP (reg s)), 0 := wordS (reg s) (mem s) (5 + SP (reg s)))\<rparr>"
  "mem (snd (run_state (exec02 7 0x07) s)) = mem s"
  by (simp_all add: exec02_def core del: run_state_bind)

text \<open>
  PSHM saves the five general registers and POPM restores them: whatever happens to
  R0 to R4 in between, afterwards they and SP have the values they had before PSHM, when
  the five words below SP lie in the memory.
\<close>

lemma pshm_popm:
  assumes "\<forall>k<5. stackOk s (SP (reg s) - of_nat k)"
  shows "let t = snd (run_state (do { exec02 7 0x0F; updReg (R_update f); exec02 7 0x07 }) s)
    in map (R (reg t)) [0, 1, 2, 3, 4] = map (R (reg s)) [0, 1, 2, 3, 4] \<and>
       SP (reg t) = SP (reg s) \<and> IC (reg t) = IC (reg s) \<and> rSTR (reg t) = rSTR (reg s)"
proof -
  have ok: "stackOk s (SP (reg s))" "stackOk s (SP (reg s) - 1)" "stackOk s (SP (reg s) - 2)"
    "stackOk s (SP (reg s) - 3)" "stackOk s (SP (reg s) - 4)"
    using assms [rule_format, of 0] assms [rule_format, of 1] assms [rule_format, of 2]
      assms [rule_format, of 3] assms [rule_format, of 4] by simp_all
  have "reg (snd (run_state (do { exec02 7 0x0F; updReg (R_update f); exec02 7 0x07 }) s)) =
      (reg s)\<lparr>SP := SP (reg s), R := (f (R (reg s)))(4 := R (reg s) 4, 3 := R (reg s) 3,
        2 := R (reg s) 2, 1 := R (reg s) 1, 0 := R (reg s) 0)\<rparr>"
    using ok by (simp add: core pshm_core popm_core ram.rd_wr ram.ok_wr del: run_state_bind)
  then show ?thesis by (simp add: Let_def del: run_state_bind)
qed

theorem pshm_popm_witness:
  "map (R (reg (snd (run_state (do { exec02 7 0x0F; updReg (R_update (\<lambda>_ _. 9)); exec02 7 0x07 })
     (boardWith [] (\<lambda>r. r\<lparr>R := (R r)(2 := 5), SP := 0x100\<rparr>)))))) [0, 1, 2, 3, 4] = [0, 0, 5, 0, 0]"
  using pshm_popm [of "boardWith [] (\<lambda>r. r\<lparr>R := (R r)(2 := 5), SP := 0x100\<rparr>)" "\<lambda>_ _. 9"]
  by (simp add: Let_def initialRegister_def del: run_state_bind)

subsection \<open>Calls\<close>

lemma bal_core:
  assumes "op AND 8 = 0"
  shows "reg (snd (run_state (execMem op 7 lo) s)) =
      (reg s)\<lparr>SP := SP (reg s) - 1, IC := eaOf (reg s) (mem s) op lo\<rparr>"
    and "mem (snd (run_state (execMem op 7 lo) s)) =
      setMemWord (phys (SP (reg s)) (SSBR (reg s))) (IC (reg s)) (mem s)"
  using assms by (simp_all add: execMem_def core Let_def eaOf_def and.assoc del: run_state_bind)

lemma ret_core:
  "reg (snd (run_state (exec04 0 0x03) s)) =
     (reg s)\<lparr>SP := SP (reg s) + 1, IC := wordS (reg s) (mem s) (SP (reg s) + 1)\<rparr>"
  "mem (snd (run_state (exec04 0 0x03) s)) = mem s"
  by (simp_all add: exec04_def core del: run_state_bind)

text \<open>
  A call returns: BAL goes to the effective address and RET, executed there with the
  stack balanced, continues after the BAL with SP and all other registers as they were.
\<close>

lemma bal_ret:
  assumes "op AND 8 = 0" and "stackOk s (SP (reg s))"
  shows "let t = snd (run_state (execMem op 7 lo) s);
             u = snd (run_state (exec04 0 0x03) t)
         in IC (reg t) = eaOf (reg s) (mem s) op lo \<and> reg u = reg s"
  using assms by (simp add: bal_core ret_core ram.rd_wr_same Let_def)

theorem bal_ret_witness:
  "IC (reg (snd (run_state (do { execMem 0x10 7 0x42; exec04 0 0x03 })
     (boardWith [] (\<lambda>r. r\<lparr>IC := 0x1234\<rparr>))))) = 0x1234"
  using bal_ret [of "0x10" "boardWith [] (\<lambda>r. r\<lparr>IC := 0x1234\<rparr>)" "0x42"]
  by (simp add: Let_def core del: run_state_bind)

lemma ball_core:
  "reg (snd (run_state (execLongMem 0x1F) s)) =
     (let r = reg s; ad = wordC r (mem s) (IC r); m = mem (snd (run_state (execLongMem 0x1F) s))
      in r\<lparr>IC := wordC r m (ad + 1), SP := SP r - 2, CSBR := wordC r m ad AND 0xF\<rparr>)"
  "mem (snd (run_state (execLongMem 0x1F) s)) =
     (let r = reg s
      in setMemWord (phys (SP r - 1) (SSBR r)) (CSBR r)
           (setMemWord (phys (SP r) (SSBR r)) (IC r + 1) (mem s)))"
  by (simp_all add: execLongMem_def core Let_def del: run_state_bind)

lemma retl_core:
  "reg (snd (run_state (exec07 7 0x07) s)) =
     (let r = reg s
      in r\<lparr>CSBR := wordS r (mem s) (SP r + 1) AND 0xF, SP := 2 + SP r,
           IC := wordS r (mem s) (2 + SP r)\<rparr>)"
  "mem (snd (run_state (exec07 7 0x07) s)) = mem s"
  by (simp_all add: exec07_def core Let_def del: run_state_bind)

text \<open>
  A long call returns: BALL stacks IC (past its second word) and CSBR, and RETL brings
  back the segment and the instruction after the BALL, with SP balanced.
\<close>

theorem ball_retl:
  assumes "stackOk s (SP (reg s))" and "stackOk s (SP (reg s) - 1)" and "CSBR (reg s) \<le> 0xF"
  shows "let t = snd (run_state (execLongMem 0x1F) s);
             u = snd (run_state (exec07 7 0x07) t)
         in reg u = (reg s)\<lparr>IC := IC (reg s) + 1\<rparr>"
  using assms by (simp add: ball_core retl_core ram.rd_wr ram.ok_wr and_0xF_id Let_def)

theorem ball_retl_witness:
  "reg (snd (run_state (do { execLongMem 0x1F; exec07 7 0x07 })
     (boardWith [(0, 0x200), (0x200, 3), (0x201, 0x77)] id))) = initialRegister\<lparr>IC := 1\<rparr>"
  using ball_retl [of "boardWith [(0, 0x200), (0x200, 3), (0x201, 0x77)] id"]
  by (simp add: Let_def core initialRegister_def del: run_state_bind)

subsection \<open>Interrupts\<close>

text \<open>
  Interrupts are taken in the order 0, 1, 2: the first level that is pending and enabled
  in STR (bits M0, M1, M2) is accepted, and when there is none the board does not change.
\<close>

lemma irq_priority:
  "run_state handleIRQ s =
     (case find (\<lambda>lv. bit (pendingIRQ s) lv \<and> bit (rSTR (reg s)) (10 - lv)) [0, 1, 2] of
        None \<Rightarrow> ((), s)
      | Some lv \<Rightarrow> run_state (acceptIrq lv) s)"
proof -
  have pend: "pendingIRQ s AND 1 \<noteq> 0 \<longleftrightarrow> bit (pendingIRQ s) 0"
    "pendingIRQ s AND 2 \<noteq> 0 \<longleftrightarrow> bit (pendingIRQ s) 1"
    "pendingIRQ s AND 4 \<noteq> 0 \<longleftrightarrow> bit (pendingIRQ s) 2"
    using and_exp_eq_0_iff_not_bit [of "pendingIRQ s" 0]
      and_exp_eq_0_iff_not_bit [of "pendingIRQ s" 1]
      and_exp_eq_0_iff_not_bit [of "pendingIRQ s" 2] by simp_all
  have mask: "x AND 0x400 \<noteq> 0 \<longleftrightarrow> bit x 10" "x AND 0x200 \<noteq> 0 \<longleftrightarrow> bit x 9"
    "x AND 0x100 \<noteq> 0 \<longleftrightarrow> bit x 8" for x :: u16
    using and_exp_eq_0_iff_not_bit [of x 10] and_exp_eq_0_iff_not_bit [of x 9]
      and_exp_eq_0_iff_not_bit [of x 8] by simp_all
  have "irqAcceptable s 0 \<longleftrightarrow> bit (pendingIRQ s) 0 \<and> bit (rSTR (reg s)) 10"
    "irqAcceptable s (Suc 0) \<longleftrightarrow> bit (pendingIRQ s) (Suc 0) \<and> bit (rSTR (reg s)) 9"
    "irqAcceptable s 2 \<longleftrightarrow> bit (pendingIRQ s) 2 \<and> bit (rSTR (reg s)) 8"
    using pend mask [of "rSTR (reg s)"]
    by (simp_all add: irqAcceptable_def irqMask_def STR_M0_def STR_M1_def STR_M2_def)
  then show ?thesis by (simp add: handleIRQ_def)
qed

lemma opsw_apart: "lv < 4 \<Longrightarrow> phys (opswAddr lv + 1) 0 \<noteq> phys (opswAddr lv) 0"
  by simp

lemma lpsw_core:
  assumes "lv < 4"
  shows "reg (snd (run_state (exec04 0 (4 + of_nat lv)) s)) =
      (reg s)\<lparr>rSTR := memWord (phys (opswAddr lv) 0) (mem s),
        IC := memWord (phys (opswAddr lv + 1) 0) (mem s), CSBR := OSR (reg s) lv AND 0xF\<rparr>"
    and "mem (snd (run_state (exec04 0 (4 + of_nat lv)) s)) = mem s"
proof -
  have "lv = 0 \<or> lv = 1 \<or> lv = 2 \<or> lv = 3" using assms by auto
  then show "reg (snd (run_state (exec04 0 (4 + of_nat lv)) s)) =
      (reg s)\<lparr>rSTR := memWord (phys (opswAddr lv) 0) (mem s),
        IC := memWord (phys (opswAddr lv + 1) 0) (mem s), CSBR := OSR (reg s) lv AND 0xF\<rparr>"
    and "mem (snd (run_state (exec04 0 (4 + of_nat lv)) s)) = mem s"
    by (elim disjE; simp add: exec04_def core opswAddr_def Let_def del: run_state_bind)+
qed

text \<open>
  C2. An interrupt is transparent: accepting level \<open>lv\<close> saves STR and IC in the old PSW of
  the level and CSBR in its OSR and enters the handler that the new PSW names in segment 0;
  LPSW of the same level then restores STR, IC and CSBR.
\<close>

theorem irq_return:
  assumes "lv < 3" and "CSBR (reg s) \<le> 0xF"
    and "memOk (phys (opswAddr lv) 0) (mem s)" and "memOk (phys (opswAddr lv + 1) 0) (mem s)"
  shows "let t = snd (run_state (acceptIrq lv) s);
             u = snd (run_state (exec04 0 (4 + of_nat lv)) t)
         in CSBR (reg t) = 0 \<and> IC (reg t) = memWord (phys (npswAddr (reg s) lv + 1) 0) (mem t) \<and>
            rSTR (reg t) = memWord (phys (npswAddr (reg s) lv) 0) (mem t) \<and>
            reg u = (reg s)\<lparr>OSR := (OSR (reg s))(lv := CSBR (reg s))\<rparr>"
  using assms by (simp add: lpsw_core core saveOPSW_def ram.rd_wr ram.ok_wr and_0xF_id Let_def)

theorem irq_return_witness:
  "IC (reg (snd (run_state (do { acceptIrq 1; exec04 0 5 })
     (boardWith [(0x103, 0x500)] (\<lambda>r. r\<lparr>IC := 0x77, CSBR := 2\<rparr>))))) = 0x77"
  using irq_return [of 1 "boardWith [(0x103, 0x500)] (\<lambda>r. r\<lparr>IC := 0x77, CSBR := 2\<rparr>)"]
  by (simp add: Let_def core del: run_state_bind)



end
