(* ===== verification/Shift_Props.thy ===== *)
theory Shift_Props
  imports Core_Run
begin

text \<open>
  The instructions that move bits: the shifts through E, the byte and nibble swaps, and the
  bit search SRBT with its counterpart DEBP.
\<close>

subsection \<open>Shifts and swaps\<close>

lemma and_7_7 [simp]: "(k AND 7) AND 7 = (k AND 7 :: u16)"
  by (simp add: and.assoc)

lemma flagE_putReg: "k AND 7 < 6 \<Longrightarrow> flagE (putReg k v r) = flagE r"
  by (rule and_7_cases [of k]) (simp_all add: putReg_def flagE_def)

text \<open>The 17-bit rotation that SR and SL perform on a register and E.\<close>

definition rotR :: "bool \<times> u16 \<Rightarrow> bool \<times> u16" where
  "rotR p = (odd (snd p), drop_bit 1 (snd p) OR (if fst p then 0x8000 else 0))"

definition rotL :: "bool \<times> u16 \<Rightarrow> bool \<times> u16" where
  "rotL p = (bit (snd p) 15, push_bit 1 (snd p) OR (if fst p then 1 else 0))"

lemma rot_inverse: "rotL (rotR p) = p" "rotR (rotL p) = p"
proof -
  obtain b x where p: "p = (b, x)" by (cases p)
  have "push_bit 1 (drop_bit 1 x OR (if b then 0x8000 else 0)) OR (if odd x then 1 else 0) = x"
    "drop_bit 1 (push_bit 1 x OR (if b then 1 else 0)) OR (if bit x 15 then 0x8000 else 0) = x"
    "bit (drop_bit 1 x OR (if b then 0x8000 else 0)) 15 = b"
    "odd (push_bit 1 x OR (if b then 1 else 0)) = b"
    unfolding bits16 by (auto simp: bit_simps bit_0 [symmetric] numeral_eq_Suc
        simp del: push_bit_Suc drop_bit_Suc dest: bit_imp_le_length)
  then show "rotL (rotR p) = p" "rotR (rotL p) = p" by (simp_all add: p rotR_def rotL_def)
qed

lemma shift_regs:
  assumes "rrr AND 7 < 6"
  shows "(flagE (reg (snd (run_state (execSR 0 0 rrr) s))),
          regOf (reg (snd (run_state (execSR 0 0 rrr) s))) rrr) =
           rotR (flagE (reg s), regOf (reg s) rrr)"
    and "(flagE (reg (snd (run_state (execSL 0 0 rrr) s))),
          regOf (reg (snd (run_state (execSL 0 0 rrr) s))) rrr) =
           rotL (flagE (reg s), regOf (reg s) rrr)"
proof -
  have ic: "regOf (r\<lparr>IC := IC r\<rparr>) rrr = regOf r rrr" for r by simp
  have str: "regOf (r\<lparr>rSTR := x\<rparr>) rrr = regOf r rrr" for r x
    by (rule and_7_cases [of rrr]) (use assms in \<open>simp_all add: regOf_def\<close>)
  have bits: "(x AND 1 \<noteq> 0) = odd x" "(x AND 0x8000 \<noteq> 0) = bit x 15" for x :: u16
    by (rule bit0_16, rule msb16)
  show "(flagE (reg (snd (run_state (execSR 0 0 rrr) s))),
          regOf (reg (snd (run_state (execSR 0 0 rrr) s))) rrr) =
           rotR (flagE (reg s), regOf (reg s) rrr)"
    by (simp add: execSR_def core Let_def rotR_def str bits flagE_putReg [OF assms]
        skipTo_def skipCond_def del: run_state_bind)
  show "(flagE (reg (snd (run_state (execSL 0 0 rrr) s))),
          regOf (reg (snd (run_state (execSL 0 0 rrr) s))) rrr) =
           rotL (flagE (reg s), regOf (reg s) rrr)"
    by (simp add: execSL_def core Let_def rotL_def str bits flagE_putReg [OF assms]
        skipTo_def skipCond_def del: run_state_bind)
qed

text \<open>
  SR and SL rotate the 17 bits of E and the register by one place, so each undoes the
  other: after SR and then SL (or SL and then SR) on R0 to R4 or SP, without EE and skip
  codes, E and the register have their old values.
\<close>

lemma shifts_inverse:
  assumes "rrr AND 7 < 6"
  shows "let t = snd (run_state (do { execSR 0 0 rrr; execSL 0 0 rrr }) s);
             u = snd (run_state (do { execSL 0 0 rrr; execSR 0 0 rrr }) s)
         in flagE (reg t) = flagE (reg s) \<and> regOf (reg t) rrr = regOf (reg s) rrr \<and>
            flagE (reg u) = flagE (reg s) \<and> regOf (reg u) rrr = regOf (reg s) rrr"
  using shift_regs [OF assms, of s] shift_regs(2) [OF assms, of "snd (run_state (execSR 0 0 rrr) s)"]
    shift_regs(1) [OF assms, of "snd (run_state (execSL 0 0 rrr) s)"]
  by (simp add: Let_def run_bind_snd rot_inverse del: run_state_bind)

theorem shifts_inverse_witness:
  "regOf (reg (snd (run_state (do { execSR 0 0 2; execSL 0 0 2 })
     (boardWith [] (\<lambda>r. r\<lparr>R := (R r)(2 := 0x8001)\<rparr>))))) 2 = 0x8001"
  using shifts_inverse [of 2 "boardWith [] (\<lambda>r. r\<lparr>R := (R r)(2 := 0x8001)\<rparr>)"]
  by (simp add: Let_def regOf_def del: run_state_bind)

text \<open>
  BSWP exchanges the two bytes and DSWP the two middle digits of a word; applied twice
  to the same register each restores it.
\<close>

lemma swaps_involutive:
  "bswp (bswp v) = v \<and> dswp (dswp v) = v \<and>
   (\<forall>n. bit (bswp v) n \<longleftrightarrow> n < 16 \<and> bit v ((n + 8) mod 16)) \<and>
   (\<forall>n. bit (dswp v) n \<longleftrightarrow> bit v (if n div 4 = 1 then n + 4 else if n div 4 = 2 then n - 4 else n))"
proof -
  have len: "\<not> bit (w :: u16) n" if "\<not> n < 16" for w n
    using that bit_imp_le_length by fastforce
  have b: "\<forall>n<16. bit (bswp v) n \<longleftrightarrow> bit v ((n + 8) mod 16)" for v
    unfolding all_less_16 bswp_def by (auto simp: bit_simps dest: bit_imp_le_length)
  have d: "\<forall>n<16. bit (dswp v) n \<longleftrightarrow>
      bit v (if n div 4 = 1 then n + 4 else if n div 4 = 2 then n - 4 else n)" for v
    unfolding all_less_16 dswp_def Let_def by (auto simp: bit_simps)
  have "bswp (bswp v) = v" "dswp (dswp v) = v"
    using b [of v] b [of "bswp v"] d [of v] d [of "dswp v"] unfolding bits16 by simp_all
  moreover have "bit (dswp v) n \<longleftrightarrow>
      bit v (if n div 4 = 1 then n + 4 else if n div 4 = 2 then n - 4 else n)" for n
    using d [of v] len [of n] by (cases "n < 16") auto
  ultimately show ?thesis using b [of v] len by blast
qed

subsection \<open>Bit search\<close>

lemma bit_drop_AND1: "drop_bit b v AND 1 \<noteq> (0 :: u16) \<longleftrightarrow> bit v b"
  by (simp add: and_one_eq bit_iff_odd_drop_bit odd_iff_mod_2_eq_one)

lemma srbtScan_none: "(\<forall>i<n. \<not> bit v i) \<Longrightarrow> srbtScan n v = (0x10, v)"
  by (induction n) (auto simp: bit_drop_AND1)

lemma srbtScan_hit:
  "b < n \<Longrightarrow> bit v b \<Longrightarrow> (\<forall>i<n. b < i \<longrightarrow> \<not> bit v i) \<Longrightarrow>
   srbtScan n v = (of_nat (15 - b), v AND NOT (push_bit b 1))"
proof (induction n)
  case (Suc n)
  show ?case
  proof (cases "b = n")
    case True
    with Suc.prems show ?thesis by (simp add: bit_drop_AND1)
  next
    case False
    with Suc.prems have "b < n" "\<not> bit v n" by auto
    with Suc show ?thesis by (simp add: bit_drop_AND1)
  qed
qed simp

text \<open>
  SRBT finds the most significant bit that is set: it returns the number of that bit
  counted from the left (16 when the word is 0) and the word with that bit cleared, and DEBP
  on the result (setting the bit of that number) gives the word back.
\<close>

lemma srbt_finds_top_bit:
  "case srbtScan 16 v of (pos, rest) \<Rightarrow>
     (if v = 0 then pos = 16 \<and> rest = 0
      else pos < 16 \<and> 15 - unat pos = Max {i. bit v i} \<and>
           {i. bit rest i} = {i. bit v i} - {15 - unat pos} \<and>
           rest OR bitMask (pos AND 0xF) = v)"
proof (cases "v = 0")
  case True
  then show ?thesis by (simp add: srbtScan_none)
next
  case False
  define b where "b = Max {i. bit v i}"
  have fin: "finite {i. bit v i}" and lt: "bit v i \<Longrightarrow> i < 16" for i
    using bit_imp_le_length [of v] by (auto intro: finite_subset [of _ "{..<16}"])
  have "{i. bit v i} \<noteq> {}" using False by (auto simp: bit_eq_iff)
  with fin have b: "bit v b" and top: "\<And>i. bit v i \<Longrightarrow> i \<le> b"
    using Max_in [of "{i. bit v i}"] by (auto simp: b_def)
  then have b16: "b < 16" using lt by blast
  have pos: "unat (of_nat (15 - b) :: u16) = 15 - b" by (simp add: unat_of_nat)
  have mask: "bitMask (of_nat (15 - b) AND 0xF) = push_bit b 1"
    using b16 by (simp add: bitMask_def unat_AND_F pos del: of_nat_diff)
  have "srbtScan 16 v = (of_nat (15 - b), v AND NOT (push_bit b 1))"
    using b16 b top by (intro srbtScan_hit) fastforce+
  moreover have "(of_nat (15 - b) :: u16) < 16"
    using pos by (simp add: word_less_nat_alt)
  moreover have "{i. bit (v AND NOT (push_bit b 1)) i} = {i. bit v i} - {b}"
    using lt by (auto simp: bit_simps)
  moreover have "v AND NOT (push_bit b 1) OR push_bit b 1 = v"
    using b b16 by (auto intro!: bit_eqI simp: bit_simps)
  ultimately show ?thesis
    using False b16 by (simp add: pos mask b_def [symmetric] del: push_bit_of_1 of_nat_diff)
qed

end
