(* ===== verification/Arith_Props.thy ===== *)
theory Arith_Props
  imports Core_Run
begin

text \<open>
  Arithmetic of the CPU: carry and overflow of additions and subtractions, what a skip sees
  after a comparison, multiplication and division, shifts, byte and nibble swaps, the bit
  search, and the decimal instructions.
\<close>


subsection \<open>Flags\<close>

lemma addSTR_bits:
  "bit (addSTR a b str) 15 \<longleftrightarrow> uint a + uint b > 0xFFFF"
  "bit (addSTR a b str) 13 \<longleftrightarrow> sint a + sint b < - 0x8000 \<or> sint a + sint b > 0x7FFF"
  by (simp_all add: addSTR_def add_ovf)

lemma subSTR_bits:
  "bit (subSTR a b str) 15 \<longleftrightarrow> a < b"
  "bit (subSTR a b str) 13 \<longleftrightarrow> sint a - sint b < - 0x8000 \<or> sint a - sint b > 0x7FFF"
  by (simp_all add: subSTR_def sub_ovf word_less_def)

lemma flag_mask:
  assumes "\<And>n. n \<noteq> 13 \<Longrightarrow> n \<noteq> 15 \<Longrightarrow> bit x n = bit y n"
  shows "x AND NOT STR_E AND NOT STR_OVF = y AND NOT STR_E AND NOT STR_OVF"
  by (rule bit_eqI) (use assms in \<open>auto simp: bit_simps bit_STR_E bit_STR_OVF\<close>)

lemma other_bits:
  "addSTR a b str AND NOT STR_E AND NOT STR_OVF = str AND NOT STR_E AND NOT STR_OVF"
  "subSTR a b str AND NOT STR_E AND NOT STR_OVF = str AND NOT STR_E AND NOT STR_OVF"
  by (rule flag_mask, simp add: addSTR_def subSTR_def)+

text \<open>
  C26. Addition and subtraction are modulo \<open>2 ^ 16\<close>; E is the carry (for a subtraction the
  borrow) of the unsigned operation, OVF says that the signed result does not fit 16 bits,
  and no other status bit changes.
\<close>

theorem add_sub_flags:
  "(let (r, t) = run_state (add16 a b) s
    in r = a + b \<and> (flagE (reg t) \<longleftrightarrow> uint a + uint b \<ge> 0x10000) \<and>
       (flagOVF (reg t) \<longleftrightarrow> sint a + sint b \<notin> {-0x8000..0x7FFF}) \<and>
       rSTR (reg t) AND NOT (STR_E OR STR_OVF) = rSTR (reg s) AND NOT (STR_E OR STR_OVF)) \<and>
   (let (r, t) = run_state (sub16 a b) s
    in r = a - b \<and> (flagE (reg t) \<longleftrightarrow> a < b) \<and>
       (flagOVF (reg t) \<longleftrightarrow> sint a - sint b \<notin> {-0x8000..0x7FFF}) \<and>
       rSTR (reg t) AND NOT (STR_E OR STR_OVF) = rSTR (reg s) AND NOT (STR_E OR STR_OVF))"
  by (auto simp: flag_bits addSTR_bits subSTR_bits other_bits)

subsection \<open>Comparison and skip\<close>









subsection \<open>Multiplication and division\<close>

text \<open>The operand \<open>(Ri)\<close> of the register-indirect instructions.\<close>

abbreviation indirect :: "board \<Rightarrow> u16 \<Rightarrow> u16" where
  "indirect s ii \<equiv> wordC (reg s) (mem s) (R (reg s) (Suc (unat (ii AND 3))))"

text \<open>The 32-bit value in the register pair R0, R1.\<close>

definition pairValue :: "cpu_register \<Rightarrow> int" where
  "pairValue r = uint (R r 0) * 0x10000 + uint (R r 1)"

lemma pair_eq: "uint (R r 0) * 0x10000 + uint (R r (Suc 0)) = pairValue r"
  by (simp add: pairValue_def)

lemma pair_bounds:
  fixes a b :: u16
  shows "0 \<le> uint a * 0x10000 + uint b" "uint a * 0x10000 + uint b < 0x100000000"
  using uint16_bounds [of a] uint16_bounds [of b] by linarith+

lemma uint_high_low:
  assumes "0 \<le> p" and "p < 0x100000000"
  shows "uint (word_of_int (p div 0x10000) :: u16) * 0x10000 + uint (word_of_int p :: u16) = p"
proof -
  have "uint (word_of_int (p div 0x10000) :: u16) = p div 0x10000"
    using assms by (simp add: unsigned_of_int take_bit_int_eq_self)
  moreover have "uint (word_of_int p :: u16) = p mod 0x10000"
    by (simp add: unsigned_of_int take_bit_eq_mod)
  ultimately show ?thesis by (simp add: div_mult_mod_eq)
qed

lemma uint_product_bounds:
  fixes a b :: u16
  shows "0 \<le> uint a * uint b" "uint a * uint b < 0x100000000"
proof -
  have "uint a * uint b \<le> 0xFFFF * 0xFFFF"
    by (rule mult_mono) (use uint16_bounds [of a] uint16_bounds [of b] in auto)
  then show "uint a * uint b < 0x100000000" by simp
qed simp

lemma uint_product_parts:
  fixes a b :: u16
  shows "uint (word_of_int ((uint a * uint b) div 0x10000) :: u16) * 0x10000 + uint (a * b) =
    uint a * uint b"
  using uint_high_low [of "uint a * uint b"] uint_product_bounds [of a b] by simp

lemma uint_pair32:
  fixes a b :: u16
  shows "uint (push_bit 16 (ucast a) OR ucast b :: u32) = uint a * 0x10000 + uint b"
proof -
  have "(push_bit 16 (uint a)) AND uint b = 0"
    by (rule bit_eqI) (auto simp: bit_simps dest: bit_imp_le_length)
  then have "push_bit 16 (uint a) OR uint b = push_bit 16 (uint a) + uint b"
    by (simp add: disjunctive_add_eq_or)
  moreover have "uint (push_bit 16 (ucast a) OR ucast b :: u32) =
      take_bit 32 (push_bit 16 (uint a) OR uint b)"
    by (rule bit_eqI) (auto simp: bit_simps dest: bit_imp_le_length)
  ultimately show ?thesis
    using pair_bounds [of a b] by (simp add: push_bit_eq_mult take_bit_int_eq_self)
qed

text \<open>
  M multiplies R0 by the word at \<open>(Ri)\<close> exactly: the pair R0, R1 is the 32-bit product,
  E and OVF are cleared and the memory is unchanged.
\<close>

lemma multiply_exact:
  "let t = snd (run_state (execM k ii) s)
   in pairValue (reg t) = uint (R (reg s) 0) * uint (indirect s ii) \<and>
      \<not> flagE (reg t) \<and> \<not> flagOVF (reg t) \<and> mem t = mem s"
  by (simp add: execM_def core Let_def pairValue_def uint_product_parts flag_bits
      del: run_state_bind)

text \<open>
  D divides the pair R0, R1 by the word at \<open>(Ri)\<close>.  When the divisor is not zero and the
  quotient fits 16 bits, R0 is the quotient, R1 the remainder (smaller than the divisor) and
  OVF is cleared; in every other case OVF is set and the pair keeps its value.  E is cleared
  and the memory is unchanged in all cases.
\<close>

lemma divide_exact:
  "let t = snd (run_state (execD k ii) s); n = pairValue (reg s); d = uint (indirect s ii)
   in (if d \<noteq> 0 \<and> n div d \<le> 0xFFFF
       then n = uint (R (reg t) 0) * d + uint (R (reg t) 1) \<and> uint (R (reg t) 1) < d \<and>
            \<not> flagOVF (reg t)
       else flagOVF (reg t) \<and> R (reg t) = R (reg s)) \<and>
      \<not> flagE (reg t) \<and> mem t = mem s"
proof -
  let ?n = "pairValue (reg s)" and ?d = "uint (indirect s ii)"
  have n: "0 \<le> ?n" using pair_bounds by (simp add: pairValue_def)
  have d: "0 \<le> ?d" "?d < 0x10000" by (rule uint16_bounds)+
  have q: "uint (word_of_int (?n div ?d) :: u16) = ?n div ?d" if "?n div ?d \<le> 0xFFFF"
    using that n d by (simp add: unsigned_of_int take_bit_int_eq_self pos_imp_zdiv_nonneg_iff
        div_int_pos_iff)
  have r: "uint (word_of_int (?n mod ?d) :: u16) = ?n mod ?d" "?n mod ?d < ?d" if "?d \<noteq> 0"
  proof -
    have "0 < ?d" using that d by linarith
    then have "0 \<le> ?n mod ?d" and lt: "?n mod ?d < ?d" by simp_all
    then show "uint (word_of_int (?n mod ?d) :: u16) = ?n mod ?d" "?n mod ?d < ?d"
      using d by (simp_all only: unsigned_of_int) (subst take_bit_int_eq_self, auto)
  qed
  show ?thesis
    by (cases "indirect s ii = 0"; cases "?n div ?d \<le> 0xFFFF")
      (simp_all add: execD_def core Let_def pair_eq uint_pair32 q r flag_bits uint_0_iff
       del: run_state_bind)
qed

subsection \<open>Double-word addition and subtraction\<close>

text \<open>Bit 3 of AD and SD is 0 when E takes part as carry or borrow.\<close>

definition carryBit :: "cpu_register \<Rightarrow> u16 \<Rightarrow> int" where
  "carryBit r lo = (if drop_bit 3 lo AND 1 = 0 \<and> flagE r then 1 else 0)"

text \<open>The double word at \<open>(Ri)\<close>.\<close>

definition pairOperand :: "board \<Rightarrow> u16 \<Rightarrow> int" where
  "pairOperand s ii =
     (let a = R (reg s) (Suc (unat (ii AND 3)))
      in uint (wordC (reg s) (mem s) a) * 0x10000 + uint (wordC (reg s) (mem s) (a + 1)))"

lemma pair_range: "0 \<le> pairValue r" "pairValue r < 0x100000000"
  "0 \<le> pairOperand s ii" "pairOperand s ii < 0x100000000"
  unfolding pairValue_def pairOperand_def Let_def by (rule pair_bounds)+

lemma mod32_wrap:
  fixes x :: int
  shows "0 \<le> x \<Longrightarrow> x < 0x200000000 \<Longrightarrow>
      x mod 0x100000000 = (if x \<ge> 0x100000000 then x - 0x100000000 else x)"
    and "- 0x100000000 \<le> x \<Longrightarrow> x < 0x100000000 \<Longrightarrow>
      x mod 0x100000000 = (if x < 0 then x + 0x100000000 else x)"
  using minus_mod_self2 [where a = x and b = "0x100000000"]
    mod_add_self2 [where a = x and b = "0x100000000"]
  by (auto simp: mod_pos_pos_trivial simp del: minus_mod_self2 mod_add_self2)

lemma pairValue_put' [simp]:
  "pairValue (r\<lparr>rSTR := x, R := (R r)(0 := word_of_int ((p mod 0x100000000) div 0x10000),
     Suc 0 := word_of_int (p mod 0x100000000))\<rparr>) = p mod 0x100000000"
  using uint_high_low [of "p mod 0x100000000"] by (simp add: pairValue_def)

lemma pairValue_upd [simp]:
  "pairValue (r\<lparr>IC := x\<rparr>) = pairValue r" "pairValue (r\<lparr>rSTR := x\<rparr>) = pairValue r"
  by (simp_all add: pairValue_def)

text \<open>
  AD and SD add and subtract 32-bit values in the pair R0, R1, modulo \<open>2 ^ 32\<close>, with E as
  carry or borrow in when the instruction asks for it; afterwards E is the carry or borrow
  out and OVF is cleared.
\<close>

lemma double_add_sub:
  assumes "lo AND 4 \<noteq> 0"
  shows "let p = pairValue (reg s); q = pairOperand s lo; e = carryBit (reg s) lo;
             t = snd (run_state (exec09 7 lo) s); u = snd (run_state (exec08 7 lo) s)
         in pairValue (reg t) = (p + q + e) mod 2 ^ 32 \<and>
            (flagE (reg t) \<longleftrightarrow> p + q + e \<ge> 2 ^ 32) \<and> \<not> flagOVF (reg t) \<and>
            pairValue (reg u) = (p - q - e) mod 2 ^ 32 \<and>
            (flagE (reg u) \<longleftrightarrow> p < q + e) \<and> \<not> flagOVF (reg u)"
proof -
  let ?p = "pairValue (reg s)" and ?q = "pairOperand s lo" and ?e = "carryBit (reg s) lo"
  have e: "0 \<le> ?e" "?e \<le> 1" by (simp_all add: carryBit_def)
  note r = pair_range(1,2) [of "reg s"] pair_range(3,4) [of s lo] e
  have ii: "(lo AND 3) AND 3 = lo AND 3" by (simp add: and.assoc)
  have lo4: "lo AND 4 \<noteq> 0" by (rule assms)
  have sub_wrap: "(?p - ?q - ?e) mod 0x100000000 =
      (if ?p - ?q - ?e < 0 then ?p - ?q - ?e + 0x100000000 else ?p - ?q - ?e)"
    by (rule mod32_wrap(2)) (use r in linarith)+
  have add: "reg (snd (run_state (exec09 7 lo) s)) = (reg s)\<lparr>
      rSTR := putOVF False (putE (?p + ?q + ?e > 0xFFFFFFFF) (rSTR (reg s))),
      R := (R (reg s))(0 := word_of_int (((?p + ?q + ?e) mod 0x100000000) div 0x10000),
                       Suc 0 := word_of_int ((?p + ?q + ?e) mod 0x100000000)),
      IC := IC (reg (snd (run_state (exec09 7 lo) s)))\<rparr>"
    using lo4 by (simp add: exec09_def core Let_def ii pairOperand_def pair_eq carryBit_def
        del: run_state_bind)
  have sub: "reg (snd (run_state (exec08 7 lo) s)) = (reg s)\<lparr>
      rSTR := putOVF False (putE (?p - ?q - ?e < 0) (rSTR (reg s))),
      R := (R (reg s))(0 := word_of_int (((?p - ?q - ?e) mod 0x100000000) div 0x10000),
                       Suc 0 := word_of_int ((?p - ?q - ?e) mod 0x100000000)),
      IC := IC (reg (snd (run_state (exec08 7 lo) s)))\<rparr>"
    unfolding sub_wrap using lo4
    by (simp add: exec08_def core Let_def ii pairOperand_def pair_eq carryBit_def
        del: run_state_bind)
  show ?thesis
    unfolding Let_def
    by (subst (1 2 3) add, subst (1 2 3) sub) (simp add: flag_bits, linarith)
qed

theorem double_add_sub_witness:
  "pairValue (reg (snd (run_state (exec09 7 4)
     (boardWith [(0x11, 5)] (\<lambda>r. r\<lparr>R := (R r)(1 := 0x10)\<rparr>))))) = 0x15"
  using double_add_sub [of 4 "boardWith [(0x11, 5)] (\<lambda>r. r\<lparr>R := (R r)(1 := 0x10)\<rparr>)"]
  by (simp add: Let_def pairValue_def pairOperand_def carryBit_def flagE_def initialRegister_def
      phys_def)

subsection \<open>Decimal addition\<close>

text \<open>A BCD byte.\<close>

abbreviation bcd :: "int \<Rightarrow> int \<Rightarrow> u16" where
  "bcd tens units \<equiv> word_of_int (16 * tens + units)"

lemma uint_bcd:
  assumes "t \<in> {0..9}" and "u \<in> {0..9}"
  shows "uint (bcd t u) = 16 * t + u" and "uint (bcd t u AND 0xF) = u"
proof -
  show *: "uint (bcd t u) = 16 * t + u"
    using assms by (subst unsigned_of_int) (auto intro!: take_bit_int_eq_self)
  have "uint (bcd t u AND 0xF) = uint (bcd t u) mod 16"
    using take_bit_eq_mask [of 4 "uint (bcd t u)"]
    by (simp only: uint_and) (simp add: mask_numeral take_bit_eq_mod)
  then show "uint (bcd t u AND 0xF) = u" unfolding * using assms by simp
qed

lemma run_execDAA:
  fixes s :: board and c ii
  defines "e \<equiv> if c = 0 \<and> flagE (reg s) then 1 else (0 :: int)"
    and "w \<equiv> R (reg s) 0" and "m \<equiv> indirect s ii"
  shows "R (reg (snd (run_state (execDAA k c ii) s))) 0 =
      word_of_int (let x = (if uint (w AND 0xF) + uint (m AND 0xF) + e > 9
                            then uint w + uint m + e + 6 else uint w + uint m + e)
                   in if drop_bit 8 x AND 0xFF > 0x99 then x + 0x600 else x)"
    and "flagE (reg (snd (run_state (execDAA k c ii) s))) \<longleftrightarrow> uint w + uint m + e > 0xFFFF"
  by (simp_all add: execDAA_def core Let_def e_def w_def m_def flag_bits
      del: run_state_bind)

lemma digit_sum:
  assumes "0 \<le> (q :: int)" and "q < 20"
  shows "16 * (q div 10) + q mod 10 = (if q > 9 then q + 6 else q)"
  using assms by presburger

lemma small_bytes:
  assumes "0 \<le> (x :: int)" and "x < 0x200"
  shows "\<not> drop_bit 8 x AND 0xFF > 0x99" and "uint (word_of_int x :: u16) = x"
proof -
  show "uint (word_of_int x :: u16) = x"
    using assms by (simp add: unsigned_of_int take_bit_int_eq_self)
  have "0 \<le> x div 256" "x div 256 < 2" using assms by auto
  then have "x div 256 = 0 \<or> x div 256 = 1" by linarith
  then show "\<not> drop_bit 8 x AND 0xFF > 0x99" by (auto simp: drop_bit_eq_div)
qed

text \<open>
  DAA corrects the lowest decimal digit only.  For two BCD bytes the units digit of the
  result is the decimal one and carries into the tens, but the tens digit is the plain sum of
  the tens: the result is the BCD sum exactly when the tens do not reach 10, and otherwise
  holds a digit above 9, with no decimal carry.
\<close>

theorem daa_corrects_units_only:
  assumes "R (reg s) 0 = bcd a1 a0" and "indirect s ii = bcd b1 b0"
    and "a1 \<in> {0..9}" and "a0 \<in> {0..9}" and "b1 \<in> {0..9}" and "b0 \<in> {0..9}"
  shows "let t = snd (run_state (execDAA k c ii) s);
             e = (if c = 0 \<and> flagE (reg s) then 1 else 0);
             units = (a0 + b0 + e) mod 10;
             tens = a1 + b1 + (a0 + b0 + e) div 10
         in uint (R (reg t) 0) = 16 * tens + units \<and> \<not> flagE (reg t)"
proof -
  define e :: int where "e = (if c = 0 \<and> flagE (reg s) then 1 else 0)"
  have e: "0 \<le> e" "e \<le> 1" by (simp_all add: e_def)
  note digits = assms(3-6) [unfolded atLeastAtMost_iff]
  let ?r = "16 * a1 + a0 + (16 * b1 + b0) + e"
  let ?x = "if a0 + b0 + e > 9 then ?r + 6 else ?r"
  have x: "0 \<le> ?x" "?x < 0x200" using digits e by auto
  note hi = small_bytes(1) [OF x]
  have run: "R (reg (snd (run_state (execDAA k c ii) s))) 0 = word_of_int ?x"
    "flagE (reg (snd (run_state (execDAA k c ii) s))) \<longleftrightarrow> ?r > 0xFFFF"
    using hi unfolding run_execDAA e_def [symmetric] assms(1,2) uint_bcd [OF assms(3,4)]
      uint_bcd [OF assms(5,6)] by simp_all
  note small_bytes(2) [OF x]
  moreover have "?x = 16 * (a1 + b1 + (a0 + b0 + e) div 10) + (a0 + b0 + e) mod 10"
  proof -
    have "16 * ((a0 + b0 + e) div 10) + (a0 + b0 + e) mod 10 =
        (if a0 + b0 + e > 9 then a0 + b0 + e + 6 else a0 + b0 + e)"
      by (rule digit_sum) (use digits e in linarith)+
    then show ?thesis by (auto split: if_splits)
  qed
  moreover have "\<not> ?r > 0xFFFF" using digits e by auto
  ultimately show ?thesis unfolding Let_def run e_def [symmetric] by simp
qed

theorem daa_corrects_units_only_witness:
  "uint (R (reg (snd (run_state (execDAA 0 1 0)
     (boardWith [(0x10, 0x10)] (\<lambda>r. r\<lparr>R := (R r)(0 := 0x95, 1 := 0x10)\<rparr>))))) 0) = 0xA5"
  using daa_corrects_units_only
    [of "boardWith [(0x10, 0x10)] (\<lambda>r. r\<lparr>R := (R r)(0 := 0x95, 1 := 0x10)\<rparr>)" 9 5 0 1 0 0 1]
  by (simp add: Let_def phys_def initialRegister_def)

end
