(* ===== verification/Float_Props.thy ===== *)
theory Float_Props
  imports Arith_Props
begin

text \<open>
  The floating-point format: the normalisation loops repair an estimate of the exponent that
  is off, and an integer converted by FLT comes back from FIX.
\<close>

subsection \<open>Normalisation\<close>

lemma normUp_int:
  assumes "0 < n" and "n < 0x10000" and "k \<le> 5"
  shows "\<exists>j\<le>5. k \<le> j \<and> fpNormUp (n * 16 ^ k) (70 - int k) = (n * 16 ^ j, 70 - int j) \<and>
    0x100000 \<le> n * 16 ^ j"
  using assms(3)
proof (induction "5 - k" arbitrary: k)
  case 0
  then have k: "k = 5" by simp
  have "0x100000 \<le> n * 16 ^ 5" using assms(1) by simp
  then show ?case by (intro exI [of _ 5]) (simp add: k fpNormUp.simps)
next
  case (Suc d)
  show ?case
  proof (cases "n * 16 ^ k < 0x100000")
    case False
    then show ?thesis using Suc.prems by (intro exI [of _ k]) (simp add: fpNormUp.simps)
  next
    case True
    then have "fpNormUp (n * 16 ^ k) (70 - int k) = fpNormUp (n * 16 ^ Suc k) (70 - int (Suc k))"
      using Suc.prems by (subst fpNormUp.simps) (simp add: algebra_simps)
    moreover have "d = 5 - Suc k" "Suc k \<le> 5" using Suc.hyps(2) by auto
    ultimately show ?thesis using Suc.hyps(1) [of "Suc k"] by (metis Suc_leD)
  qed
qed

lemma normDown_int:
  assumes "0 < n" and "n < 0x10000" and "k \<le> 5" and "0x100000 \<le> n * 16 ^ k"
  shows "\<exists>j\<le>5. fpNormDown (n * 16 ^ k) (70 - int k) = (n * 16 ^ j, 70 - int j) \<and>
    0x100000 \<le> n * 16 ^ j \<and> n * 16 ^ j < 0x1000000"
  using assms(3,4)
proof (induction k)
  case 0
  then show ?case using assms(2) by simp
next
  case (Suc k)
  show ?case
  proof (cases "n * 16 ^ Suc k < 0x1000000")
    case True
    then show ?thesis using Suc.prems by (intro exI [of _ "Suc k"]) (simp add: fpNormDown.simps)
  next
    case False
    then have "fpNormDown (n * 16 ^ Suc k) (70 - int (Suc k)) = fpNormDown (n * 16 ^ k) (70 - int k)"
      by (subst fpNormDown.simps) simp
    moreover have "k \<le> 5" "0x100000 \<le> n * 16 ^ k" using Suc.prems False by auto
    ultimately show ?thesis using Suc.IH by simp
  qed
qed

lemma norm_int:
  assumes "0 < n" and "n < 0x10000" and "k \<le> 5"
  shows "\<exists>j\<le>5. case_prod fpNormDown (fpNormUp (n * 16 ^ k) (70 - int k)) = (n * 16 ^ j, 70 - int j) \<and>
    0x100000 \<le> n * 16 ^ j \<and> n * 16 ^ j < 0x1000000"
proof -
  obtain i where "i \<le> 5" "fpNormUp (n * 16 ^ k) (70 - int k) = (n * 16 ^ i, 70 - int i)"
    "0x100000 \<le> n * 16 ^ i"
    using normUp_int [OF assms] by blast
  with normDown_int [OF assms(1,2)] show ?thesis by simp
qed

subsection \<open>Packing\<close>

definition packHi :: "int \<Rightarrow> int \<Rightarrow> int \<Rightarrow> u16" where
  "packHi sign ex mant =
     word_of_int (push_bit 15 sign OR push_bit 8 (ex AND 0x7F) OR (drop_bit 16 mant AND 0xFF))"

lemma bit_small:
  assumes "0 \<le> (x :: int)" and "x < 2 ^ k" and "k \<le> n"
  shows "\<not> bit x n"
proof -
  have "x < 2 ^ n" using assms(2,3) power_increasing [of k n "2 :: int"] by linarith
  then show ?thesis using assms(1) by (simp add: bit_iff_odd)
qed

lemma pack_fields:
  assumes "sign = 0 \<or> sign = 1" and "0 \<le> ex" and "ex < 128" and "0 \<le> mant" and "mant < 0x1000000"
  shows "drop_bit 15 (packHi sign ex mant) = word_of_int sign"
    and "drop_bit 8 (packHi sign ex mant) AND 0x7F = word_of_int ex"
    and "packHi sign ex mant AND 0xFF = word_of_int (mant div 0x10000)"
proof -
  have s: "bit sign n \<longleftrightarrow> sign = 1 \<and> n = 0" for n
    using assms(1) bit_small [of sign 1 n] by (cases n) (auto simp: bit_simps)
  have e: "\<not> bit ex n" if "7 \<le> n" for n using bit_small [of ex 7 n] assms that by simp
  have m: "\<not> bit mant n" if "24 \<le> n" for n using bit_small [of mant 24 n] assms that by simp
  have div: "mant div 0x10000 = drop_bit 16 mant" by (simp add: drop_bit_eq_div)
  show "drop_bit 15 (packHi sign ex mant) = word_of_int sign"
    unfolding packHi_def bits16 by (auto simp: bit_simps s e m)
  show "drop_bit 8 (packHi sign ex mant) AND 0x7F = word_of_int ex"
    unfolding packHi_def bits16 by (auto simp: bit_simps s e m)
  show "packHi sign ex mant AND 0xFF = word_of_int (mant div 0x10000)"
    unfolding packHi_def bits16 div by (auto simp: bit_simps s e m)
qed

lemma fpFromWords_pack:
  assumes "sign = 0 \<or> sign = 1" and "0 \<le> ex" and "ex < 128" and "0 < mant" and "mant < 0x1000000"
  shows "fpFromWords (packHi sign ex mant) (word_of_int mant) =
    (if sign = 1 then - 1 else 1) * of_int mant * power_int 16 (ex - 70)"
proof -
  let ?w0 = "packHi sign ex mant" and ?w1 = "word_of_int mant :: u16"
  note f = pack_fields [OF assms(1,2,3) less_imp_le [OF assms(4)] assms(5)]
  have hi: "uint (word_of_int (mant div 0x10000) :: u16) = mant div 0x10000"
    using assms(4,5) by (simp add: unsigned_of_int take_bit_int_eq_self)
  have lo: "uint ?w1 = mant mod 0x10000" by (simp add: unsigned_of_int take_bit_eq_mod)
  have m: "uint (push_bit 16 (ucast (?w0 AND 0xFF)) OR ucast ?w1 :: u32) = mant"
    unfolding uint_pair32 f(3) hi lo by (rule div_mult_mod_eq)
  have e: "uint (word_of_int ex :: u16) = ex"
    using assms(2,3) by (simp add: unsigned_of_int take_bit_int_eq_self)
  have nz: "?w0 OR ?w1 \<noteq> 0"
  proof
    assume "?w0 OR ?w1 = 0"
    then have "?w0 = 0" "?w1 = 0" by (simp_all add: or_eq_0_iff)
    with m assms(4) show False by simp
  qed
  have sg: "(drop_bit 15 ?w0 \<noteq> 0) \<longleftrightarrow> sign = 1" using assms(1) f(1) by auto
  show ?thesis
    using nz by (simp add: fpFromWords_def Let_def sg f(2) e m)
qed

lemma word_low16 [simp]: "word_of_int (m AND 0xFFFF) = (word_of_int m :: u16)"
  unfolding bits16 by (auto simp: bit_simps)

lemma fpToWords_norm:
  assumes "v \<noteq> 0" and "lg \<bar>v\<bar> + 65 = e0" and "math_round (\<bar>v\<bar> * power_int 16 (70 - e0)) = m0"
    and "case_prod fpNormDown (fpNormUp m0 e0) = (m, e)"
    and "0 \<le> e" and "e \<le> 127" and "0x100000 \<le> m" and "m < 0x1000000"
  shows "fpToWords lg v = (packHi (if v < 0 then 1 else 0) e m, word_of_int m, False)"
proof -
  obtain m1 e1 where up: "fpNormUp m0 e0 = (m1, e1)" by fastforce
  with assms(4) have down: "fpNormDown m1 e1 = (m, e)" by simp
  have m24: "m AND 0xFFFFFF = m"
    using assms(7,8) take_bit_eq_mask [of 24 m] by (simp add: mask_numeral take_bit_int_eq_self)
  show ?thesis
    unfolding fpToWords_def Let_def assms(2) assms(3) up prod.case down m24 word_low16 packHi_def
    using assms(1,5-8) by simp
qed

lemma fpToWords_int:
  assumes "0 < n" and "n < 0x10000" and "0 \<le> lg (of_int n)" and "lg (of_int n) \<le> 5"
    and "\<bar>v\<bar> = of_int n"
  shows "\<exists>j\<le>5. fpToWords lg v =
      (packHi (if v < 0 then 1 else 0) (70 - int j) (n * 16 ^ j), word_of_int (n * 16 ^ j), False) \<and>
    0x100000 \<le> n * 16 ^ j \<and> n * 16 ^ j < 0x1000000"
proof -
  define k where "k = nat (5 - lg (of_int n))"
  have k: "k \<le> 5" "lg (of_int n) + 65 = 70 - int k" using assms(3,4) by (auto simp: k_def)
  have "of_int n * power_int 16 (int k) = (of_int (n * 16 ^ k) :: rat)"
    by (simp add: power_int_of_nat)
  then have "math_round (of_int n * power_int 16 (int k)) = n * 16 ^ k"
    unfolding math_round_def by linarith
  then have round: "math_round (of_int n * power_int 16 (70 - (70 - int k))) = n * 16 ^ k" by simp
  obtain j where j: "j \<le> 5" "0x100000 \<le> n * 16 ^ j" "n * 16 ^ j < 0x1000000"
    and norm: "case_prod fpNormDown (fpNormUp (n * 16 ^ k) (70 - int k)) = (n * 16 ^ j, 70 - int j)"
    using norm_int [OF assms(1,2) k(1)] by blast
  have v: "v \<noteq> 0" using assms(1,5) by auto
  show ?thesis
    using fpToWords_norm [OF v, of lg, unfolded assms(5), OF k(2) round norm] j by auto
qed

lemma unscale: "of_int (n * 16 ^ j) * power_int 16 (70 - int j - 70) = (of_int n :: rat)"
  by (simp add: power_int_minus field_simps)

lemma fp_int_roundtrip:
  assumes "v \<noteq> 0" and "\<bar>v\<bar> < 0x10000"
    and "0 \<le> lg (of_int \<bar>v\<bar>)" and "lg (of_int \<bar>v\<bar>) \<le> 5"
  shows "fpFromWords (fst (fpToWords lg (of_int v))) (fst (snd (fpToWords lg (of_int v)))) = of_int v"
    and "\<not> snd (snd (fpToWords lg (of_int v)))"
proof -
  let ?s = "if (of_int v :: rat) < 0 then 1 else 0 :: int"
  have "\<exists>j\<le>5. fpToWords lg (of_int v) =
      (packHi ?s (70 - int j) (\<bar>v\<bar> * 16 ^ j), word_of_int (\<bar>v\<bar> * 16 ^ j), False) \<and>
    0x100000 \<le> \<bar>v\<bar> * 16 ^ j \<and> \<bar>v\<bar> * 16 ^ j < 0x1000000"
    by (rule fpToWords_int) (use assms in simp_all)
  then obtain j where j: "j \<le> 5"
    and w: "fpToWords lg (of_int v) =
      (packHi ?s (70 - int j) (\<bar>v\<bar> * 16 ^ j), word_of_int (\<bar>v\<bar> * 16 ^ j), False)"
    and m: "0x100000 \<le> \<bar>v\<bar> * 16 ^ j" "\<bar>v\<bar> * 16 ^ j < 0x1000000"
    by blast
  have s: "?s = 0 \<or> ?s = 1" by simp
  have "fpFromWords (packHi ?s (70 - int j) (\<bar>v\<bar> * 16 ^ j)) (word_of_int (\<bar>v\<bar> * 16 ^ j)) =
    (if ?s = 1 then - 1 else 1) * (of_int (\<bar>v\<bar> * 16 ^ j) * power_int 16 (70 - int j - 70))"
    unfolding mult.assoc [symmetric]
    by (rule fpFromWords_pack [OF s]) (use j m in linarith)+
  also have "\<dots> = of_int v" unfolding unscale by simp
  finally show "fpFromWords (fst (fpToWords lg (of_int v))) (fst (snd (fpToWords lg (of_int v)))) = of_int v"
    unfolding w fst_conv snd_conv .
  show "\<not> snd (snd (fpToWords lg (of_int v)))" by (simp add: w)
qed

lemma math_trunc_int [simp]: "math_trunc (of_int v) = v"
  by (simp add: math_trunc_def)

text \<open>The signed value of R0.\<close>

definition signed16 :: "u16 \<Rightarrow> int" where
  "signed16 w = (if w < 0x8000 then uint w else uint w - 0x10000)"

lemma signed16_bounds: "- 0x8000 \<le> signed16 w" "signed16 w \<le> 0x7FFF"
proof -
  obtain x where "uint w = x" "0 \<le> x" "x < 0x10000" using uint16_bounds [of w] by auto
  then show "- 0x8000 \<le> signed16 w" "signed16 w \<le> 0x7FFF"
    by (simp_all add: signed16_def word_less_def)
qed

lemma word_of_signed16 [simp]: "word_of_int (signed16 w) = w"
  by (simp add: signed16_def)

text \<open>
  C37. FLT converts the signed integer in R0 to the floating-point pair R0, R1 without loss:
  FIX after it restores R0 and clears OVF.  This needs nothing of the logarithm but that the
  estimate of the exponent of a number up to 32768 lies between 0 and 5 (the right value lies
  between 0 and 3): the normalisation repairs any such estimate.
\<close>

theorem flt_fix_roundtrip:
  assumes "0 \<le> lg (of_int \<bar>signed16 (R (reg s) 0)\<bar>)" and "lg (of_int \<bar>signed16 (R (reg s) 0)\<bar>) \<le> 5"
  shows "let t = snd (run_state (do { execFLT lg k; execFIX k' }) s)
    in R (reg t) 0 = R (reg s) 0 \<and> \<not> flagOVF (reg t) \<and> mem t = mem s"
proof -
  let ?v = "signed16 (R (reg s) 0)" and ?w = "fpToWords lg (of_int (signed16 (R (reg s) 0)))"
  have val: "fpFromWords (fst ?w) (fst (snd ?w)) = of_int ?v"
  proof (cases "?v = 0")
    case True
    then show ?thesis by (simp add: fpToWords_def fpFromWords_def)
  next
    case False
    then show ?thesis
      by (intro fp_int_roundtrip(1) assms) (use signed16_bounds [of "R (reg s) 0"] in linarith)+
  qed
  have b: "\<not> ?v > 32767" "\<not> ?v < - 32768"
    using signed16_bounds [of "R (reg s) 0"] by simp_all
  have flt: "R (reg (snd (run_state (execFLT lg k) s))) 0 = fst ?w"
    "R (reg (snd (run_state (execFLT lg k) s))) 1 = fst (snd ?w)"
    "mem (snd (run_state (execFLT lg k) s)) = mem s"
    by (simp_all add: execFLT_def fpEncode_def core Let_def signed16_def [symmetric]
        del: run_state_bind)
  show ?thesis
    using b by (simp add: run_bind_snd execFIX_def fpDecode_def core Let_def flt flt(2) [unfolded One_nat_def] val val [unfolded One_nat_def]
        flag_bits del: run_state_bind)
qed

theorem flt_fix_roundtrip_witness:
  "R (reg (snd (run_state (do { execFLT (\<lambda>_. 3) 0; execFIX 0 })
     (boardWith [] (\<lambda>r. r\<lparr>R := (R r)(0 := 0xFFFE)\<rparr>))))) 0 = 0xFFFE"
  using flt_fix_roundtrip [of "\<lambda>_. 3" "boardWith [] (\<lambda>r. r\<lparr>R := (R r)(0 := 0xFFFE)\<rparr>)" 0 0]
  by (simp add: Let_def del: run_state_bind)

end
