(* ===== verification/Js_Text.thy ===== *)
theory Js_Text
  imports Prelude
begin

text \<open>
  The string operations of the language that the disassembler and the assembler use, on
  characters below 256.
\<close>

subsection \<open>Text\<close>

text \<open>\<^verbatim>\<open>toString(16)\<close> and \<^verbatim>\<open>padStart(n, "0")\<close>.\<close>

definition hexDigit :: "nat \<Rightarrow> char" where
  "hexDigit d = ''0123456789abcdef'' ! d"

fun toString16 :: "nat \<Rightarrow> string" where
  "toString16 n = (if n < 16 then [hexDigit n] else toString16 (n div 16) @ [hexDigit (n mod 16)])"

declare toString16.simps [simp del]

definition padStart0 :: "nat \<Rightarrow> string \<Rightarrow> string" where
  "padStart0 n s = replicate (n - length s) (CHR ''0'') @ s"

fun decimal :: "nat \<Rightarrow> string" where
  "decimal n = (if n < 10 then [hexDigit n] else decimal (n div 10) @ [hexDigit (n mod 10)])"

declare decimal.simps [simp del]

text \<open>\<^verbatim>\<open>String.prototype.trim\<close> on the characters below 256.\<close>

definition isJsSpace :: "char \<Rightarrow> bool" where
  "isJsSpace c \<longleftrightarrow> of_char c \<in> {9, 10, 11, 12, 13, 32, 160 :: nat}"

definition trim :: "string \<Rightarrow> string" where
  "trim s = rev (dropWhile isJsSpace (rev (dropWhile isJsSpace s)))"

text \<open>\<^verbatim>\<open>toUpperCase\<close> on ASCII letters; source text is ASCII.\<close>

definition upperChar :: "char \<Rightarrow> char" where
  "upperChar c = (let n = of_char c :: nat in if 97 \<le> n \<and> n \<le> 122 then char_of (n - 32) else c)"

definition toUpperCase :: "string \<Rightarrow> string" where
  "toUpperCase s = map upperChar s"

text \<open>Character classes.\<close>

definition inRange :: "nat \<Rightarrow> nat \<Rightarrow> char \<Rightarrow> bool" where
  "inRange lo hi c \<longleftrightarrow> lo \<le> of_char c \<and> of_char c \<le> hi"

definition isDigit :: "char \<Rightarrow> bool" where "isDigit c \<longleftrightarrow> inRange 48 57 c"
definition isOctal :: "char \<Rightarrow> bool" where "isOctal c \<longleftrightarrow> inRange 48 55 c"
definition isBinary :: "char \<Rightarrow> bool" where "isBinary c \<longleftrightarrow> inRange 48 49 c"
definition isHex :: "char \<Rightarrow> bool" where
  "isHex c \<longleftrightarrow> isDigit c \<or> inRange 65 70 c \<or> inRange 97 102 c"
definition isLetter :: "char \<Rightarrow> bool" where
  "isLetter c \<longleftrightarrow> inRange 65 90 c \<or> inRange 97 122 c"

text \<open>The capital letters as values of \<^verbatim>\<open>char_of\<close>.\<close>

lemma char_of_capital [simp]:
  "char_of (65 :: nat) = CHR ''A''"
  "char_of (66 :: nat) = CHR ''B''"
  "char_of (67 :: nat) = CHR ''C''"
  "char_of (68 :: nat) = CHR ''D''"
  "char_of (69 :: nat) = CHR ''E''"
  "char_of (70 :: nat) = CHR ''F''"
  "char_of (71 :: nat) = CHR ''G''"
  "char_of (72 :: nat) = CHR ''H''"
  "char_of (73 :: nat) = CHR ''I''"
  "char_of (74 :: nat) = CHR ''J''"
  "char_of (75 :: nat) = CHR ''K''"
  "char_of (76 :: nat) = CHR ''L''"
  "char_of (77 :: nat) = CHR ''M''"
  "char_of (78 :: nat) = CHR ''N''"
  "char_of (79 :: nat) = CHR ''O''"
  "char_of (80 :: nat) = CHR ''P''"
  "char_of (81 :: nat) = CHR ''Q''"
  "char_of (82 :: nat) = CHR ''R''"
  "char_of (83 :: nat) = CHR ''S''"
  "char_of (84 :: nat) = CHR ''T''"
  "char_of (85 :: nat) = CHR ''U''"
  "char_of (86 :: nat) = CHR ''V''"
  "char_of (87 :: nat) = CHR ''W''"
  "char_of (88 :: nat) = CHR ''X''"
  "char_of (89 :: nat) = CHR ''Y''"
  "char_of (90 :: nat) = CHR ''Z''"
  by (simp_all add: char_of_def bit_simps bit_numeral_simps)

end
