(* ===== verification/Mn1613_Decode.thy ===== *)
theory Mn1613_Decode
  imports Js_Text
begin

text \<open>
  The structured decoder of the MN1613 disassembler, \<^verbatim>\<open>dis_assembler/mn1613/decode.ts\<close>:
  from a word address and a way to read words to a mnemonic, its operands, and the number
  of words the instruction takes.  The numbers of the operands are 16-bit words, as every
  value the decoder puts there is masked.
\<close>

subsection \<open>Numbers\<close>

definition hex16 :: "u16 \<Rightarrow> string" where
  "hex16 v = ''0x'' @ padStart0 4 (toString16 (unat v))"

definition hex8 :: "u16 \<Rightarrow> string" where
  "hex8 v = ''0x'' @ padStart0 2 (toString16 (unat (v AND 0xFF)))"

subsection \<open>Decoded instructions\<close>

datatype addr_form = Plain | Zp | Paren | At | StarParen | Io | Bb

datatype decoded_op =
    Raw string
  | Addr u16 addr_form "string option"
  | Imm u16 nat
  | Skip u16
  | Ee u16
  | Carry

record decoded_inst =
  mnemonic :: string
  ops :: "decoded_op list"
  wordCount :: nat
  di_ir :: u16

definition REGS :: "string list" where
  "REGS = [''R0'', ''R1'', ''R2'', ''R3'', ''R4'', ''SP'', ''STR'', ''IC'']"
definition RI :: "string list" where "RI = [''R1'', ''R2'', ''R3'', ''R4'']"
definition BB :: "string list" where "BB = [''CSBR'', ''SSBR'', ''TSR0'', ''TSR1'']"
definition BBB :: "string list" where
  "BBB = [''CSBR'', ''SSBR'', ''TSR0'', ''TSR1'', ''OSR0'', ''OSR1'', ''OSR2'', ''OSR3'']"
definition PPP :: "string list" where "PPP = [''SBRB'', ''ICB'', ''NPP'']"
definition HHH :: "string list" where
  "HHH = [''TCR'', ''TIR'', ''TSR'', ''SCR'', ''SSR'', ''SOR'', ''IISR'']"

text \<open>\<^verbatim>\<open>xs[i]\<close>, which is undefined outside the array.\<close>

definition at_index :: "'a list \<Rightarrow> u16 \<Rightarrow> 'a option" where
  "at_index xs i = (if unat i < length xs then Some (xs ! unat i) else None)"

definition regName :: "u16 \<Rightarrow> string" where "regName rrr = REGS ! unat (rrr AND 7)"
definition riName :: "u16 \<Rightarrow> string" where "riName ii = RI ! unat (ii AND 3)"
definition bbName :: "u16 \<Rightarrow> string" where "bbName bb = BB ! unat (bb AND 3)"
definition bbbName :: "u16 \<Rightarrow> string" where "bbbName b = BBB ! unat (b AND 7)"

definition relTarget :: "u16 \<Rightarrow> u16 \<Rightarrow> u16" where
  "relTarget instrAddr d = (let sd = (if d < 0x80 then d else d - 0x100) in instrAddr + sd)"

definition undef :: "u16 \<Rightarrow> decoded_inst" where
  "undef ir = \<lparr>mnemonic = ''.word'', ops = [Imm ir 16], wordCount = 1, di_ir = ir\<rparr>"

definition riModeText :: "u16 \<Rightarrow> u16 \<Rightarrow> string option" where
  "riModeText mm ii =
     (let r = riName ii
      in if mm = 1 then Some (''('' @ r @ '')'')
         else if mm = 2 then Some (''-('' @ r @ '')'')
         else if mm = 3 then Some (''('' @ r @ '')+'')
         else None)"

definition trail :: "decoded_op list \<Rightarrow> u16 \<Rightarrow> u16 option \<Rightarrow> bool \<Rightarrow> decoded_op list" where
  "trail os skp ee carry =
     os
     @ (if carry then [Carry] else [])
     @ (case ee of None \<Rightarrow> [] | Some e \<Rightarrow> if e AND 3 \<noteq> 0 then [Ee (e AND 3)] else [])
     @ (if skp AND 0xF \<noteq> 0 then [Skip (skp AND 0xF)] else [])"

definition one :: "string \<Rightarrow> u16 \<Rightarrow> decoded_op list \<Rightarrow> decoded_inst" where
  "one mn ir os = \<lparr>mnemonic = mn, ops = os, wordCount = 1, di_ir = ir\<rparr>"

definition two :: "string \<Rightarrow> u16 \<Rightarrow> decoded_op list \<Rightarrow> decoded_inst" where
  "two mn ir os = \<lparr>mnemonic = mn, ops = os, wordCount = 2, di_ir = ir\<rparr>"

definition eaOp :: "u16 \<Rightarrow> u16 \<Rightarrow> u16 \<Rightarrow> decoded_op" where
  "eaOp mmm d instrAddr =
     (let disp = d AND 0xFF; k = mmm AND 7
      in if k = 0 then Addr disp Zp None
         else if k = 1 then Addr (relTarget instrAddr disp) Plain None
         else if k = 2 then Addr disp StarParen None
         else if k = 3 then Addr (relTarget instrAddr disp) Paren None
         else if k = 4 then Raw (hex8 disp @ ''(X0)'')
         else if k = 5 then Raw (hex8 disp @ ''(X1)'')
         else if k = 6 then Raw (''(*'' @ hex8 disp @ '')(X0)'')
         else Raw (''(*'' @ hex8 disp @ '')(X1)''))"

text \<open>The operand \<^verbatim>\<open>(Ri)\<close>.\<close>

definition riOp :: "u16 \<Rightarrow> decoded_op" where
  "riOp ii = Raw (''('' @ riName ii @ '')'')"

subsection \<open>The sub-decoders\<close>

text \<open>The second word is passed as the value \<open>extra\<close>; it is used only where the code reads it.\<close>

definition decode01 :: "u16 \<Rightarrow> u16 \<Rightarrow> u16 \<Rightarrow> u16 \<Rightarrow> decoded_inst" where
  "decode01 ir rrr lo extra =
     (if rrr \<noteq> 7 then one ''MVI'' ir [Raw (regName rrr), Imm lo 8]
      else
        let bit7 = drop_bit 7 lo AND 1;
            bBits = drop_bit 4 lo AND 7;
            bit3 = drop_bit 3 lo AND 1;
            bLo = lo AND 7
        in if bLo = 7 then
             (let addr = Addr extra Plain None
              in if bit7 = 0 \<and> bit3 = 0 then two ''LB'' ir [Raw (bbbName bBits), addr]
                 else if bit7 = 0 \<and> bit3 = 1 then
                   (case at_index PPP bBits of
                      None \<Rightarrow> undef ir | Some sr \<Rightarrow> two ''LS'' ir [Raw sr, addr])
                 else if bit7 = 1 \<and> bit3 = 0 then two ''STB'' ir [Raw (bbbName bBits), addr]
                 else (case at_index PPP bBits of
                      None \<Rightarrow> undef ir | Some sr \<Rightarrow> two ''STS'' ir [Raw sr, addr]))
           else if bit7 = 1 \<and> bit3 = 0 then
             one ''CPYB'' ir [Raw (regName bLo), Raw (bbbName bBits)]
           else if bit7 = 1 \<and> bit3 = 1 then
             (case at_index PPP bBits of
                None \<Rightarrow> undef ir | Some sr \<Rightarrow> one ''CPYS'' ir [Raw (regName bLo), Raw sr])
           else if bit7 = 0 \<and> bit3 = 0 then
             one ''SETB'' ir [Raw (regName bLo), Raw (bbbName bBits)]
           else (case at_index PPP bBits of
                None \<Rightarrow> undef ir | Some sr \<Rightarrow> one ''SETS'' ir [Raw (regName bLo), Raw sr]))"

definition decode02 :: "u16 \<Rightarrow> u16 \<Rightarrow> u16 \<Rightarrow> u16 \<Rightarrow> u16 \<Rightarrow> decoded_inst" where
  "decode02 ir rrr lo kkkk extra =
     (if rrr \<noteq> 7 then one ''WT'' ir [Raw (regName rrr), Addr lo Io None]
      else if lo = 0x0F then one ''PSHM'' ir []
      else if lo = 0x07 then one ''POPM'' ir []
      else
        let sss = lo AND 7;
            mnem = (if lo AND 8 \<noteq> 0 then ''TSET'' else ''TRST'')
        in two mnem ir (trail [Raw (regName sss), Addr extra Plain None] kkkk None False))"

definition decode03 :: "u16 \<Rightarrow> u16 \<Rightarrow> u16 \<Rightarrow> u16 \<Rightarrow> decoded_inst" where
  "decode03 ir rrr lo kkkk =
     (if rrr \<noteq> 7 then one ''RD'' ir [Raw (regName rrr), Addr lo Io None]
      else
        let bit3 = drop_bit 3 lo AND 1;
            bit2 = drop_bit 2 lo AND 1
        in if bit2 = 1 then
             (if bit3 = 0 then one ''FIX'' ir (trail [Raw ''R0'', Raw ''DR0''] kkkk None False)
              else one ''FLT'' ir (trail [Raw ''DR0'', Raw ''R0''] kkkk None False))
           else one ''NEG'' ir (trail [Raw (regName (lo AND 7))] kkkk None (bit3 = 0)))"

text \<open>The operands of LD and STD: the base register is shown when it is not CSBR.\<close>

definition longOps :: "u16 \<Rightarrow> u16 \<Rightarrow> u16 \<Rightarrow> decoded_op list" where
  "longOps dest b54 ad =
     [Raw (regName dest),
      if b54 = 0 then Addr ad Plain None else Addr ad Bb (Some (bbName b54))]"

text \<open>The operands of LR and STR.\<close>

definition indirectOps :: "u16 \<Rightarrow> u16 \<Rightarrow> string \<Rightarrow> decoded_op list" where
  "indirectOps rrr b54 mm =
     [Raw (regName rrr)] @ (if b54 \<noteq> 0 then [Raw (bbName b54)] else []) @ [Raw mm]"

definition decode04_tail :: "u16 \<Rightarrow> u16 \<Rightarrow> u16 \<Rightarrow> u16 \<Rightarrow> u16 \<Rightarrow> decoded_inst" where
  "decode04_tail ir rrr lo kkkk b32 =
     (let b76 = drop_bit 6 lo AND 3;
          b54 = drop_bit 4 lo AND 3;
          b10 = lo AND 3;
          mmStr = riModeText b76 b10
      in if lo = 0x01 then one ''PUSH'' ir [Raw (regName rrr)]
         else if lo = 0x02 then one ''POP'' ir [Raw (regName rrr)]
         else if b32 = 0 \<and> mmStr \<noteq> None then one ''LR'' ir (indirectOps rrr b54 (the mmStr))
         else if b32 = 1 \<and> mmStr \<noteq> None then one ''STR'' ir (indirectOps rrr b54 (the mmStr))
         else if b32 = 2 then one ''SR'' ir (trail [Raw (regName rrr)] kkkk (Some b10) False)
         else if b32 = 3 then one ''SL'' ir (trail [Raw (regName rrr)] kkkk (Some b10) False)
         else if drop_bit 4 lo = 1 \<and> b32 = 1 \<and> rrr \<noteq> 7 then
           one ''RDR'' ir [Raw (regName rrr), riOp b10]
         else if drop_bit 4 lo = 1 \<and> b32 = 0 then
           one ''WTR'' ir [Raw (regName rrr), riOp b10]
         else undef ir)"

definition decode04 :: "u16 \<Rightarrow> u16 \<Rightarrow> u16 \<Rightarrow> u16 \<Rightarrow> u16 \<Rightarrow> u16 \<Rightarrow> decoded_inst" where
  "decode04 ir rrr lo kkkk b32 extra =
     (let b54 = drop_bit 4 lo AND 3;
          b10 = lo AND 3;
          dest = lo AND 7
      in if rrr = 0 \<and> lo = 0x00 then one ''H'' ir []
         else if rrr = 0 \<and> lo = 0x03 then one ''RET'' ir []
         else if rrr = 0 \<and> lo \<ge> 0x04 \<and> lo \<le> 0x07 then
           one ''LPSW'' ir [Raw [hexDigit (unat (lo AND 3))]]
         else if rrr = 6 \<and> lo = 0x07 then two ''BD'' ir [Addr extra Plain None]
         else if rrr = 6 \<and> lo = 0x17 then two ''BALD'' ir [Addr extra Plain None]
         else if rrr = 7 \<and> lo AND 0xFC = 0x04 then
           one ''BR'' ir [Raw (''@('' @ riName b10 @ '')'')]
         else if rrr = 7 \<and> lo AND 0xFC = 0x14 then
           one ''BALR'' ir [Raw (''@('' @ riName b10 @ '')'')]
         else if rrr = 7 \<and> lo AND 0x08 \<noteq> 0 then
           (if lo AND 0x40 = 0 then
              (if dest = 7 then
                 two (if b54 = 1 then ''BALL'' else ''BL'') ir [Addr extra At None]
               else two ''LD'' ir (longOps dest b54 extra))
            else two ''STD'' ir (longOps dest b54 extra))
         else decode04_tail ir rrr lo kkkk b32)"

definition decode07 :: "u16 \<Rightarrow> u16 \<Rightarrow> u16 \<Rightarrow> u16 \<Rightarrow> decoded_inst" where
  "decode07 ir rrr lo kkkk =
     (if rrr \<noteq> 7 then
        one ''SBIT'' ir (trail [Raw (regName rrr), Imm (lo AND 0xF) 4] kkkk None False)
      else if lo = 0x07 then one ''RETL'' ir []
      else if lo = 0x17 then one ''BLK'' ir []
      else if drop_bit 4 lo = 0x7 \<and> lo AND 8 = 0 then
        one ''SRBT'' ir [Raw ''R0'', Raw (regName (lo AND 7))]
      else if drop_bit 4 lo = 0xF \<and> lo AND 8 = 0 then
        one ''DEBP'' ir [Raw (regName (lo AND 7)), Raw ''R0'']
      else if lo AND 8 \<noteq> 0 then undef ir
      else
        (case at_index HHH (drop_bit 4 lo AND 7) of
           None \<Rightarrow> undef ir
         | Some hr \<Rightarrow>
             (if drop_bit 7 lo AND 1 = 1 then one ''CPYH'' ir [Raw (regName (lo AND 7)), Raw hr]
              else one ''SETH'' ir [Raw (regName (lo AND 7)), Raw hr])))"

definition decode08 :: "u16 \<Rightarrow> u16 \<Rightarrow> u16 \<Rightarrow> u16 \<Rightarrow> u16 \<Rightarrow> decoded_inst" where
  "decode08 ir rrr lo kkkk b10 =
     (if rrr = 7 \<and> lo AND 4 \<noteq> 0 then
        one ''SD'' ir (trail [Raw ''DR0'', riOp b10] kkkk None (drop_bit 3 lo AND 1 = 0))
      else one ''SI'' ir (trail [Raw (regName rrr), Imm (lo AND 0xF) 4] kkkk None False))"

definition decode09 :: "u16 \<Rightarrow> u16 \<Rightarrow> u16 \<Rightarrow> u16 \<Rightarrow> u16 \<Rightarrow> decoded_inst" where
  "decode09 ir rrr lo kkkk b10 =
     (if rrr = 7 \<and> lo AND 4 \<noteq> 0 then
        one ''AD'' ir (trail [Raw ''DR0'', riOp b10] kkkk None (drop_bit 3 lo AND 1 = 0))
      else one ''AI'' ir (trail [Raw (regName rrr), Imm (lo AND 0xF) 4] kkkk None False))"

text \<open>The family shared by 0x0A to 0x0D; the empty mnemonic of \<^verbatim>\<open>when7\<close> stands for undefined.\<close>

record family_spec =
  when7 :: "string list"
  immHi :: string
  immLo :: string
  bit1 :: string
  bit0 :: string
  acc7 :: string

definition decodeRegFamily :: "u16 \<Rightarrow> u16 \<Rightarrow> u16 \<Rightarrow> u16 \<Rightarrow> u16 \<Rightarrow> family_spec \<Rightarrow> decoded_inst" where
  "decodeRegFamily ir rrr lo kkkk extra spec =
     (let b32 = drop_bit 2 lo AND 3;
          b10 = lo AND 3;
          tail = lo AND 0xF
      in if rrr = 7 then
           (let mnem = when7 spec ! unat b32
            in if mnem = '''' then undef ir
               else one mnem ir (trail [Raw (acc7 spec), riOp b10] kkkk None False))
         else if tail = 0x0F then
           two (immHi spec) ir (trail [Raw (regName rrr), Imm extra 16] kkkk None False)
         else if tail = 0x07 then
           two (immLo spec) ir (trail [Raw (regName rrr), Imm extra 16] kkkk None False)
         else one (if lo AND 8 \<noteq> 0 then bit1 spec else bit0 spec) ir
           (trail [Raw (regName rrr), Raw (regName (lo AND 7))] kkkk None False))"

definition decode0a :: "u16 \<Rightarrow> u16 \<Rightarrow> u16 \<Rightarrow> u16 \<Rightarrow> u16 \<Rightarrow> decoded_inst" where
  "decode0a ir rrr lo kkkk extra =
     (if rrr = 7 \<and> lo AND 4 \<noteq> 0 then
        one ''DAS'' ir (trail [Raw ''R0'', riOp (lo AND 3)] kkkk None (drop_bit 3 lo AND 1 = 0))
      else decodeRegFamily ir rrr lo kkkk extra
        \<lparr>when7 = [''CBR'', '''', ''CWR'', ''''], immHi = ''CWI'', immLo = ''CBI'',
         bit1 = ''C'', bit0 = ''CB'', acc7 = ''R0''\<rparr>)"

definition decode0b :: "u16 \<Rightarrow> u16 \<Rightarrow> u16 \<Rightarrow> u16 \<Rightarrow> u16 \<Rightarrow> decoded_inst" where
  "decode0b ir rrr lo kkkk extra =
     (if rrr = 7 \<and> lo AND 4 \<noteq> 0 then
        one ''DAA'' ir (trail [Raw ''R0'', riOp (lo AND 3)] kkkk None (drop_bit 3 lo AND 1 = 0))
      else decodeRegFamily ir rrr lo kkkk extra
        \<lparr>when7 = [''SWR'', '''', ''AWR'', ''''], immHi = ''AWI'', immLo = ''SWI'',
         bit1 = ''A'', bit0 = ''S'', acc7 = ''R0''\<rparr>)"

definition decode0c :: "u16 \<Rightarrow> u16 \<Rightarrow> u16 \<Rightarrow> u16 \<Rightarrow> u16 \<Rightarrow> decoded_inst" where
  "decode0c ir rrr lo kkkk extra =
     (let b32 = drop_bit 2 lo AND 3
      in decodeRegFamily ir rrr lo kkkk extra
        \<lparr>when7 = [''EORR'', ''FD'', ''ORR'', ''FM''], immHi = ''ORI'', immLo = ''EORI'',
         bit1 = ''OR'', bit0 = ''EOR'',
         acc7 = (if b32 = 1 \<or> b32 = 3 then ''DR0'' else ''R0'')\<rparr>)"

definition decode0d :: "u16 \<Rightarrow> u16 \<Rightarrow> u16 \<Rightarrow> u16 \<Rightarrow> u16 \<Rightarrow> decoded_inst" where
  "decode0d ir rrr lo kkkk extra =
     (let b32 = drop_bit 2 lo AND 3
      in decodeRegFamily ir rrr lo kkkk extra
        \<lparr>when7 = [''LADR'', ''FS'', ''ANDR'', ''FA''], immHi = ''ANDI'', immLo = ''LADI'',
         bit1 = ''AND'', bit0 = ''LAD'',
         acc7 = (if b32 = 1 \<or> b32 = 3 then ''DR0'' else ''R0'')\<rparr>)"

definition decode0e :: "u16 \<Rightarrow> u16 \<Rightarrow> u16 \<Rightarrow> u16 \<Rightarrow> decoded_inst" where
  "decode0e ir rrr lo kkkk =
     (let b32 = drop_bit 2 lo AND 3
      in if rrr = 7 then
           (if b32 = 3 then one ''D'' ir (trail [Raw ''DR0'', riOp (lo AND 3)] kkkk None False)
            else if b32 = 2 then
              one ''BSWR'' ir (trail [Raw ''R0'', riOp (lo AND 3)] kkkk None False)
            else if b32 = 0 then
              one ''DSWR'' ir (trail [Raw ''R0'', riOp (lo AND 3)] kkkk None False)
            else undef ir)
         else if lo AND 0xF = 0x07 \<or> lo AND 0xF = 0x0F then undef ir
         else one (if lo AND 8 \<noteq> 0 then ''BSWP'' else ''DSWP'') ir
           (trail [Raw (regName rrr), Raw (regName (lo AND 7))] kkkk None False))"

definition decode0f :: "u16 \<Rightarrow> u16 \<Rightarrow> u16 \<Rightarrow> u16 \<Rightarrow> u16 \<Rightarrow> decoded_inst" where
  "decode0f ir rrr lo kkkk extra =
     (let b32 = drop_bit 2 lo AND 3;
          tail = lo AND 0xF
      in if rrr \<noteq> 7 \<and> tail = 0x07 then
           two ''MVWI'' ir (trail [Raw (regName rrr), Imm extra 16] kkkk None False)
         else if rrr = 7 then
           (if b32 = 3 then one ''M'' ir (trail [Raw ''DR0'', riOp (lo AND 3)] kkkk None False)
            else if b32 = 2 then
              one ''MVWR'' ir (trail [Raw ''R0'', riOp (lo AND 3)] kkkk None False)
            else if b32 = 0 then
              one ''MVBR'' ir (trail [Raw ''R0'', riOp (lo AND 3)] kkkk None False)
            else undef ir)
         else one (if lo AND 8 \<noteq> 0 then ''MV'' else ''MVB'') ir
           (trail [Raw (regName rrr), Raw (regName (lo AND 7))] kkkk None False))"

subsection \<open>One instruction\<close>

definition decodeMem :: "u16 \<Rightarrow> u16 \<Rightarrow> u16 \<Rightarrow> u16 \<Rightarrow> u16 \<Rightarrow> decoded_inst" where
  "decodeMem ir op rrr lo a =
     (let isHi = (op AND 8 \<noteq> 0);
          e = eaOp (op AND 7) lo a
      in if rrr = 7 then one (if isHi then ''B'' else ''BAL'') ir [e]
         else if rrr = 6 then one (if isHi then ''IMS'' else ''DMS'') ir [e]
         else one (if isHi then ''L'' else ''ST'') ir [Raw (regName rrr), e])"

definition decodeMn1613 :: "u16 \<Rightarrow> (u16 \<Rightarrow> u16) \<Rightarrow> decoded_inst" where
  "decodeMn1613 a readWord =
     (let ir = readWord a;
          extra = readWord (a + 1);
          op = drop_bit 11 ir AND 0x1F;
          rrr = drop_bit 8 ir AND 7;
          lo = ir AND 0xFF;
          kkkk = drop_bit 4 lo AND 0xF;
          b32 = drop_bit 2 lo AND 3;
          b10 = lo AND 3;
          bitOps = trail [Raw (regName rrr), Imm (lo AND 0xF) 4] kkkk None False
      in if op \<ge> 0x10 then decodeMem ir op rrr lo a
         else if op = 0x00 then undef ir
         else if op = 0x01 then decode01 ir rrr lo extra
         else if op = 0x02 then decode02 ir rrr lo kkkk extra
         else if op = 0x03 then decode03 ir rrr lo kkkk
         else if op = 0x04 then decode04 ir rrr lo kkkk b32 extra
         else if op = 0x05 then one ''TBIT'' ir bitOps
         else if op = 0x06 then one ''RBIT'' ir bitOps
         else if op = 0x07 then decode07 ir rrr lo kkkk
         else if op = 0x08 then decode08 ir rrr lo kkkk b10
         else if op = 0x09 then decode09 ir rrr lo kkkk b10
         else if op = 0x0A then decode0a ir rrr lo kkkk extra
         else if op = 0x0B then decode0b ir rrr lo kkkk extra
         else if op = 0x0C then decode0c ir rrr lo kkkk extra
         else if op = 0x0D then decode0d ir rrr lo kkkk extra
         else if op = 0x0E then decode0e ir rrr lo kkkk
         else if op = 0x0F then decode0f ir rrr lo kkkk extra
         else undef ir)"

end
