(* ===== verification/Mn1613_Disassembler.thy ===== *)
theory Mn1613_Disassembler
  imports Mn1613_Decode
begin

text \<open>
  The label table, the text of a decoded instruction, and the disassembler proper:
  \<^verbatim>\<open>dis_assembler/mn1613/\<close> \<^verbatim>\<open>labels.ts\<close>, \<^verbatim>\<open>format.ts\<close> and \<^verbatim>\<open>mn1613_disassembler.ts\<close>.
  The symbols of a CDB file come in as the list its parser returns.
\<close>

subsection \<open>Labels\<close>

record label_entry =
  le_name :: string
  le_scope :: string

type_synonym label_table = "u16 \<rightharpoonup> label_entry"

record label_pair =
  lp_name :: string
  lp_wordAddr :: u16

record cdb_symbol =
  cs_name :: string
  cs_wordAddr :: u32
  cs_scope :: string

definition put :: "u16 \<Rightarrow> string \<Rightarrow> string \<Rightarrow> label_table \<Rightarrow> label_table" where
  "put addr name scope t =
     (case t addr of
        None \<Rightarrow> t(addr \<mapsto> \<lparr>le_name = name, le_scope = scope\<rparr>)
      | Some prv \<Rightarrow>
          (if scope = ''G'' \<or> le_scope prv \<noteq> ''G''
           then t(addr \<mapsto> \<lparr>le_name = name, le_scope = scope\<rparr>) else t))"

definition loadCdbSymbols :: "cdb_symbol list \<Rightarrow> label_table \<Rightarrow> label_table" where
  "loadCdbSymbols syms t =
     fold (\<lambda>sym. put (ucast (cs_wordAddr sym AND 0xFFFF)) (cs_name sym) (cs_scope sym)) syms t"

definition setLabels :: "label_pair list \<Rightarrow> label_table \<Rightarrow> label_table" where
  "setLabels entries t =
     fold (\<lambda>e t. let name = trim (lp_name e)
                 in if name = '''' then t
                    else t(lp_wordAddr e \<mapsto> \<lparr>le_name = name, le_scope = ''G''\<rparr>)) entries t"

definition addLabel :: "string \<Rightarrow> u16 \<Rightarrow> string \<Rightarrow> label_table \<Rightarrow> label_table" where
  "addLabel name wordAddr scope t =
     (let n = trim name in if n = '''' then t else put wordAddr n scope t)"

definition lookup :: "label_table \<Rightarrow> u16 \<Rightarrow> string option" where
  "lookup t wordAddr = map_option le_name (t wordAddr)"

subsection \<open>Formatting\<close>

definition SKIP_NAME :: "string list" where
  "SKIP_NAME = ['''', ''SKP'', ''M'', ''PZ'', ''Z'', ''NZ'', ''MZ'', ''P'', ''EZ'', ''ENZ'',
     ''OZ'', ''ONZ'', ''LMZ'', ''LP'', ''LPZ'', ''LM'']"

definition EE_NAME :: "string list" where
  "EE_NAME = ['''', ''RE'', ''SE'', ''CE'']"

text \<open>A looked-up name that is empty counts as absent (\<^verbatim>\<open>if (name) return name\<close>).\<close>

definition labelAt :: "label_table \<Rightarrow> u16 \<Rightarrow> string option" where
  "labelAt t a = (case lookup t a of None \<Rightarrow> None | Some n \<Rightarrow> if n = '''' then None else Some n)"

definition addrText :: "u16 \<Rightarrow> label_table \<Rightarrow> nat \<Rightarrow> string" where
  "addrText wordAddr t width =
     (case labelAt t wordAddr of
        Some name \<Rightarrow> name
      | None \<Rightarrow> if width = 8 then hex8 wordAddr else hex16 wordAddr)"

definition immText :: "u16 \<Rightarrow> nat \<Rightarrow> label_table \<Rightarrow> string" where
  "immText v bits t =
     (if bits = 16 then
        (case labelAt t v of Some name \<Rightarrow> ''#'' @ name | None \<Rightarrow> ''#'' @ hex16 v)
      else if bits = 8 then ''#'' @ hex8 v
      else ''#'' @ decimal (unat (v AND 0xF)))"

fun formatAddr :: "u16 \<Rightarrow> addr_form \<Rightarrow> string option \<Rightarrow> label_table \<Rightarrow> string" where
  "formatAddr v Plain bb t = addrText v t 16"
| "formatAddr v Zp bb t = ''*'' @ addrText v t 8"
| "formatAddr v Paren bb t = ''('' @ addrText v t 16 @ '')''"
| "formatAddr v At bb t = ''@'' @ addrText v t 16"
| "formatAddr v StarParen bb t = ''(*'' @ addrText v t 8 @ '')''"
| "formatAddr v Io bb t = addrText v t 8"
| "formatAddr v Bb bb t =
     addrText v t 16 @ ''('' @ (case bb of None \<Rightarrow> ''CSBR'' | Some b \<Rightarrow> b) @ '')''"

definition nonEmpty :: "string \<Rightarrow> string option" where
  "nonEmpty s = (if s = '''' then None else Some s)"

fun formatOp :: "decoded_op \<Rightarrow> label_table \<Rightarrow> string option" where
  "formatOp (Raw s) t = Some s"
| "formatOp (Imm v bits) t = Some (immText v bits t)"
| "formatOp (Skip n) t = nonEmpty (SKIP_NAME ! unat (n AND 0xF))"
| "formatOp (Ee n) t = nonEmpty (EE_NAME ! unat (n AND 3))"
| "formatOp Carry t = Some ''C''"
| "formatOp (Addr v form bb) t = Some (formatAddr v form bb t)"

fun join :: "string list \<Rightarrow> string" where
  "join [] = ''''"
| "join [s] = s"
| "join (s # ss) = s @ '', '' @ join ss"

definition formatDecoded :: "decoded_inst \<Rightarrow> label_table \<Rightarrow> string" where
  "formatDecoded inst t =
     (case (mnemonic inst = ''.word'', ops inst) of
        (True, Imm v bits # _) \<Rightarrow> ''.word '' @ hex16 v
      | _ \<Rightarrow>
          let args = filter (\<lambda>s. s \<noteq> '''') (List.map_filter (\<lambda>op. formatOp op t) (ops inst))
          in if args = [] then mnemonic inst else mnemonic inst @ '' '' @ join args)"

subsection \<open>The disassembler\<close>

record disassemble_result =
  dr_text :: string
  dr_wordCount :: nat
  nextAddr :: u16

definition disassemble :: "label_table \<Rightarrow> u16 \<Rightarrow> (u16 \<Rightarrow> u16) \<Rightarrow> disassemble_result" where
  "disassemble t a readWord =
     (let inst = decodeMn1613 a readWord
      in \<lparr>dr_text = formatDecoded inst t, dr_wordCount = wordCount inst,
          nextAddr = a + of_nat (wordCount inst)\<rparr>)"

end
