(* ===== verification/Decode_Props.thy ===== *)
theory Decode_Props
  imports Mn1613_Disassembler Core_Run
begin

text \<open>
  The disassembler against the CPU: the number of words it gives an instruction and the
  number the CPU passes over when it skips one; and the text of numbers and labels.
\<close>

subsection \<open>Instruction lengths\<close>

lemma wordCount_one_two [simp]:
  "wordCount (one mn ir os) = 1" "wordCount (two mn ir os) = 2" "wordCount (undef ir) = 1"
  by (simp_all add: one_def two_def undef_def)

text \<open>The words on which the CPU's skip and the disassembler differ.\<close>

definition isDoubleArith :: "u16 \<Rightarrow> bool" where
  "isDoubleArith ir \<longleftrightarrow> (drop_bit 11 ir AND 0x1F = 8 \<or> drop_bit 11 ir AND 0x1F = 9) \<and>
     drop_bit 8 ir AND 7 = 7 \<and> bit ir 2"

definition isUndefinedLong :: "u16 \<Rightarrow> bool" where
  "isUndefinedLong ir \<longleftrightarrow> drop_bit 8 ir AND 7 = 7 \<and> ir AND 7 = 7 \<and>
     (drop_bit 11 ir AND 0x1F = 1 \<and> bit ir 3 \<and> 3 \<le> drop_bit 4 ir AND 7 \<or>
      drop_bit 11 ir AND 0x1F = 15 \<and> \<not> bit ir 3)"

lemma low_fields:
  "((ir AND 0xFF) AND 7) = ir AND 7"
  "((ir AND 0xFF) AND 0xF) = ir AND 0xF"
  "((ir AND 0xFF) AND 4 = 0) \<longleftrightarrow> \<not> bit ir 2"
  "((ir AND 0xFF) AND 8 = 0) \<longleftrightarrow> \<not> bit ir 3"
  "((ir AND 0xFF) AND 0x40 = 0) \<longleftrightarrow> \<not> bit ir 6"
  "drop_bit 3 (ir AND 0xFF) AND 1 = (if bit ir 3 then 1 else 0)"
  "drop_bit 7 (ir AND 0xFF) AND 1 = (if bit ir 7 then 1 else 0)"
  "(drop_bit 4 (ir AND 0xFF) AND 7) = drop_bit 4 ir AND 7"
  "(ir AND 0xF = 0xF) \<longleftrightarrow> ir AND 7 = 7 \<and> bit ir 3"
  "(ir AND 0xF = 7) \<longleftrightarrow> ir AND 7 = 7 \<and> \<not> bit (ir :: u16) 3"
  unfolding bits16 by (auto simp: bit_simps)

lemma wordCount_decodeRegFamily:
  "wordCount (decodeRegFamily ir rrr (ir AND 0xFF) kkkk extra spec) =
     (if rrr \<noteq> 7 \<and> ir AND 7 = 7 then 2 else 1)"
  by (auto simp: decodeRegFamily_def Let_def low_fields)

lemma at_index_PPP: "at_index PPP b = None \<longleftrightarrow> 3 \<le> b"
  by (simp add: at_index_def PPP_def word_le_nat_alt not_less)

lemma wordCount_decode01:
  "wordCount (decode01 ir rrr (ir AND 0xFF) extra) =
     (if rrr = 7 \<and> ir AND 7 = 7 \<and> \<not> (bit ir 3 \<and> 3 \<le> drop_bit 4 ir AND 7) then 2 else 1)"
  using at_index_PPP [of "drop_bit 4 ir AND 7"]
  by (auto simp: decode01_def Let_def low_fields split: option.splits simp del: drop_bit_and)

lemma wordCount_decode02:
  "wordCount (decode02 ir rrr lo kkkk extra) =
     (if rrr = 7 \<and> lo \<noteq> 0x0F \<and> lo \<noteq> 0x07 then 2 else 1)"
  by (simp add: decode02_def Let_def)

lemma wordCount_decode04_tail: "wordCount (decode04_tail ir rrr lo kkkk b32) = 1"
  by (simp add: decode04_tail_def Let_def)

lemma wordCount_decode04:
  "wordCount (decode04 ir rrr (ir AND 0xFF) kkkk b32 extra) =
     (if rrr = 6 \<and> (ir AND 0xFF = 0x07 \<or> ir AND 0xFF = 0x17) \<or> rrr = 7 \<and> bit ir 3
      then 2 else 1)"
proof -
  have br: "((ir AND 0xFF) AND 0xFC = 4 \<or> (ir AND 0xFF) AND 0xFC = 0x14 \<or>
      ir AND 0xFF = 3 \<or> ir AND 0xFF = 0) \<Longrightarrow> \<not> bit ir 3"
    unfolding bits16 by (auto simp: bit_simps)
  show ?thesis
    using br by (auto simp: decode04_def Let_def low_fields wordCount_decode04_tail simp del: drop_bit_and)
qed

lemma wordCount_decode_short:
  "wordCount (decode03 ir rrr lo kkkk) = 1" "wordCount (decode07 ir rrr lo kkkk) = 1"
  "wordCount (decode08 ir rrr lo kkkk b) = 1" "wordCount (decode09 ir rrr lo kkkk b) = 1"
  "wordCount (decode0e ir rrr lo kkkk) = 1" "wordCount (decodeMem ir op rrr lo a) = 1"
  by (auto simp: decode03_def decode07_def decode08_def decode09_def decode0e_def decodeMem_def
      Let_def split: option.splits)

lemma wordCount_decode_family:
  "wordCount (decode0a ir rrr (ir AND 0xFF) kkkk extra) = (if rrr \<noteq> 7 \<and> ir AND 7 = 7 then 2 else 1)"
  "wordCount (decode0b ir rrr (ir AND 0xFF) kkkk extra) = (if rrr \<noteq> 7 \<and> ir AND 7 = 7 then 2 else 1)"
  "wordCount (decode0c ir rrr (ir AND 0xFF) kkkk extra) = (if rrr \<noteq> 7 \<and> ir AND 7 = 7 then 2 else 1)"
  "wordCount (decode0d ir rrr (ir AND 0xFF) kkkk extra) = (if rrr \<noteq> 7 \<and> ir AND 7 = 7 then 2 else 1)"
  by (simp_all add: decode0a_def decode0b_def decode0c_def decode0d_def Let_def
      wordCount_decodeRegFamily)

lemma wordCount_decode0f:
  "wordCount (decode0f ir rrr (ir AND 0xFF) kkkk extra) =
     (if rrr \<noteq> 7 \<and> ir AND 7 = 7 \<and> \<not> bit ir 3 then 2 else 1)"
  by (simp add: decode0f_def Let_def low_fields)

lemmas wordCount_decode = wordCount_decode01 wordCount_decode02 wordCount_decode04
  wordCount_decode_short wordCount_decode_family wordCount_decode0f

lemma op_cases:
  fixes ir :: u16
  defines "q \<equiv> drop_bit 11 ir AND 0x1F"
  obtains "q \<ge> 0x10" "q \<notin> {0, 1, 2, 3, 4, 5, 6, 7, 8, 9, 10, 11, 12, 13, 14, 15}"
    | "q = 0" | "q = 1" | "q = 2" | "q = 3" | "q = 4" | "q = 5" | "q = 6"
    | "q = 7" | "q = 8" | "q = 9" | "q = 10" | "q = 11" | "q = 12" | "q = 13" | "q = 14" | "q = 15"
proof -
  have "q \<ge> 0x10 \<or> q = 0 \<or> q = 1 \<or> q = 2 \<or> q = 3 \<or> q = 4 \<or> q = 5 \<or> q = 6 \<or> q = 7 \<or> q = 8 \<or>
      q = 9 \<or> q = 10 \<or> q = 11 \<or> q = 12 \<or> q = 13 \<or> q = 14 \<or> q = 15"
    by unat_arith
  moreover have "q \<ge> 0x10 \<Longrightarrow> q \<notin> {0, 1, 2, 3, 4, 5, 6, 7, 8, 9, 10, 11, 12, 13, 14, 15}"
    by (auto simp: word_le_nat_alt)
  ultimately show ?thesis using that by blast
qed

text \<open>
  C25. The CPU and the disassembler agree on the length of every instruction word but these:
  SD and AD (one word for the disassembler, two for a skip), the loads and stores of
  undefined special registers, and \<open>MVWI IC\<close>, which the disassembler shows as data.
\<close>

theorem skip_length_agrees:
  "is2Word (rd a) \<longleftrightarrow>
     wordCount (decodeMn1613 a rd) = 2 \<or> isDoubleArith (rd a) \<or> isUndefinedLong (rd a)"
  by (rule op_cases [of "rd a"];
      simp add: is2Word_def decodeMn1613_def Let_def wordCount_decode isDoubleArith_def
        isUndefinedLong_def low_fields word_le_nat_alt del: drop_bit_and; blast)

lemma wordCount_cases: "wordCount (decodeMn1613 a rd) = 1 \<or> wordCount (decodeMn1613 a rd) = 2"
  by (rule op_cases [of "rd a"];
      simp add: decodeMn1613_def Let_def wordCount_decode del: drop_bit_and)

text \<open>
  SD and AD are one-word instructions to the disassembler and when they are executed (IC
  moves by one, when their skip code is 0), but a skip over one of them passes over two
  words: the word after it is never executed.
\<close>

theorem skip_over_double_arith:
  assumes "ir = wordC (reg s) (mem s) (IC (reg s))" and "isDoubleArith ir"
    and "drop_bit 4 ir AND 0xF = 0" and "pendingIRQ s = 0" and "rd a = ir"
  shows "wordCount (decodeMn1613 a rd) = 1 \<and>
    IC (reg (snd (run_state (executeOne lg) s))) = IC (reg s) + 1 \<and>
    IC (reg (snd (run_state skipNext s))) = IC (reg s) + 2"
proof (intro conjI)
  have ir: "drop_bit 8 ir AND 7 = 7" "bit ir 2" and
    op: "drop_bit 11 ir AND 0x1F = 8 \<or> drop_bit 11 ir AND 0x1F = 9"
    using assms(2) by (auto simp: isDoubleArith_def)
  show "wordCount (decodeMn1613 a rd) = 1"
    using op assms(5) by (auto simp: decodeMn1613_def Let_def wordCount_decode_short)
  have k: "drop_bit 4 (ir AND 0xFF) AND 0xF = 0"
    using assms(3) unfolding bits16 by (auto simp: bit_simps)
  show "IC (reg (snd (run_state (executeOne lg) s))) = IC (reg s) + 1"
    using op unfolding run_executeOne [OF assms(4)] assms(1) [symmetric]
    by (elim disjE) (simp_all add: execOp_def exec08_def exec09_def ir k low_fields core Let_def
        skipTo_def skipCond_def del: run_state_bind drop_bit_and)
  have "is2Word ir"
    using op by (auto simp: is2Word_def Let_def ir low_fields simp del: drop_bit_and)
  then show "IC (reg (snd (run_state skipNext s))) = IC (reg s) + 2"
    by (simp add: core skipWords_def assms(1) [symmetric])
qed

theorem skip_over_double_arith_witness:
  "IC (reg (snd (run_state skipNext (boardWith [(0, 0x4704)] id)))) = 2"
  using skip_over_double_arith [of "0x4704" "boardWith [(0, 0x4704)] id" "\<lambda>_. 0x4704" 0 "\<lambda>_. 0"]
  by (simp add: phys_def initialRegister_def isDoubleArith_def bit_numeral_rec)

text \<open>
  The word that the disassembler shows as IMS (register field 6) increments nothing
  unless its address mode is 7: executed, it loads the status register from the operand
  address and leaves the memory as it is.
\<close>

theorem ims_loads_status:
  assumes "ir = wordC (reg s) (mem s) (IC (reg s))" and "drop_bit 11 ir AND 0x1F \<ge> 0x18"
    and "drop_bit 8 ir AND 7 = 6" and "drop_bit 11 ir AND 7 \<noteq> 7" and "pendingIRQ s = 0"
    and "rd a = ir"
  shows "let t = snd (run_state (executeOne lg) s)
    in mnemonic (decodeMn1613 a rd) = ''IMS'' \<and> mem t = mem s \<and>
       IC (reg t) = IC (reg s) + 1 \<and>
       rSTR (reg t) = wordC (reg s) (mem s) (eaOf ((reg s)\<lparr>IC := IC (reg s) + 1\<rparr>) (mem s)
         (drop_bit 11 ir AND 7) (ir AND 0xFF))"
proof -
  let ?op = "drop_bit 11 ir AND 0x1F"
  have "?op \<le> 0x1F" by (rule word_and_le1)
  with assms(2) have "?op = 0x18 \<or> ?op = 0x19 \<or> ?op = 0x1A \<or> ?op = 0x1B \<or> ?op = 0x1C \<or>
      ?op = 0x1D \<or> ?op = 0x1E \<or> ?op = 0x1F" by unat_arith
  then have op: "?op \<ge> 0x10" "?op AND 8 \<noteq> 0" by auto
  have mmm: "?op AND 7 = drop_bit 11 ir AND 7" by (simp add: and.assoc)
  show ?thesis
    unfolding run_executeOne [OF assms(5)] assms(1) [symmetric] Let_def
    using op mmm assms(3,4,6)
    by (auto simp: execOp_def execMem_def core Let_def putReg_def decodeMn1613_def decodeMem_def one_def
        simp del: run_state_bind drop_bit_and)
qed

theorem ims_loads_status_witness:
  "rSTR (reg (snd (run_state (executeOne (\<lambda>_. 0)) (boardWith [(0, 0xC620), (0x20, 0x1234)] id))))
     = 0x1234"
  using ims_loads_status [of "0xC620" "boardWith [(0, 0xC620), (0x20, 0x1234)] id" "\<lambda>_. 0xC620" 0
      "\<lambda>_. 0"]
  by (simp add: phys_def initialRegister_def eaOf_def Let_def)

end
