(* ===== verification/Text_Props.thy ===== *)
theory Text_Props
  imports Mn1613_Disassembler
begin

text \<open>
  The text the disassembler prints: hexadecimal numbers can be read back, and the label shown
  for an address follows the precedence of scopes.
\<close>

subsection \<open>Hexadecimal\<close>

text \<open>The value of a digit and of a digit string.\<close>

definition digitValue :: "char \<Rightarrow> nat" where
  "digitValue c = (if of_char c \<le> (57 :: nat) then of_char c - 48 else of_char c - 87)"

definition hexValue :: "string \<Rightarrow> nat" where
  "hexValue s = foldl (\<lambda>acc c. 16 * acc + digitValue c) 0 s"

lemma digitValue_hexDigit: "d < 16 \<Longrightarrow> digitValue (hexDigit d) = d"
proof -
  have "\<forall>d<16. digitValue (hexDigit d) = d"
    unfolding all_less_16 by (simp add: hexDigit_def digitValue_def)
  then show "d < 16 \<Longrightarrow> digitValue (hexDigit d) = d" by blast
qed

lemma hexValue_snoc: "hexValue (s @ [c]) = 16 * hexValue s + digitValue c"
  by (simp add: hexValue_def)

lemma hexValue_toString16: "hexValue (toString16 n) = n"
proof (induction n rule: toString16.induct)
  case (1 n)
  then show ?case
    by (subst toString16.simps)
      (simp add: hexValue_snoc digitValue_hexDigit hexValue_def [of "[_]"])
qed

lemma hexValue_pad: "hexValue (padStart0 k s) = hexValue s"
proof -
  have "foldl (\<lambda>acc c. 16 * acc + digitValue c) 0 (replicate n (CHR ''0'')) = 0" for n
    by (induction n) (simp_all add: digitValue_def)
  then show ?thesis by (simp add: hexValue_def padStart0_def)
qed

lemma length_toString16: "n < 16 ^ Suc k \<Longrightarrow> length (toString16 n) \<le> Suc k"
proof (induction k arbitrary: n)
  case 0
  then show ?case by (simp add: toString16.simps [of n])
next
  case (Suc k)
  have "n div 16 < 16 ^ Suc k" using Suc.prems by (simp add: div_less_iff_less_mult)
  from Suc.IH [OF this] show ?case by (simp add: toString16.simps [of n])
qed

text \<open>
  A 16-bit value is printed as \<open>0x\<close> and exactly four digits, from which the value is
  read back; so different values print differently.
\<close>

lemma hex16_roundtrip:
  "length (hex16 v) = 6 \<and> hexValue (drop 2 (hex16 v)) = unat v \<and> (hex16 v = hex16 w \<longleftrightarrow> v = w)"
proof -
  have val: "hexValue (drop 2 (hex16 v)) = unat v" for v
    by (simp add: hex16_def hexValue_pad hexValue_toString16)
  have "unat v < 16 ^ Suc 3" using unsigned_less [of v, where ?'a = nat] by simp
  from length_toString16 [OF this] have "length (hex16 v) = 6"
    by (simp add: hex16_def padStart0_def)
  with val [of v] val [of w] show ?thesis by (metis word_unat_eq_iff)
qed

subsection \<open>Labels\<close>

definition symAddr :: "cdb_symbol \<Rightarrow> u16" where
  "symAddr y = ucast (cs_wordAddr y AND 0xFFFF)"

text \<open>The symbol that decides the label of an address: the last global one, else the last one.\<close>

definition deciding :: "cdb_symbol list \<Rightarrow> u16 \<Rightarrow> cdb_symbol option" where
  "deciding syms a =
     (let here = filter (\<lambda>y. symAddr y = a) syms;
          globals = filter (\<lambda>y. cs_scope y = ''G'') here
      in if globals \<noteq> [] then Some (last globals)
         else if here \<noteq> [] then Some (last here) else None)"

definition labelOf :: "cdb_symbol \<Rightarrow> label_entry" where
  "labelOf y = \<lparr>le_name = cs_name y, le_scope = cs_scope y\<rparr>"

lemma deciding_snoc:
  "deciding (ys @ [y]) a =
     (if symAddr y = a \<and>
         (cs_scope y = ''G'' \<or> filter (\<lambda>z. cs_scope z = ''G'') (filter (\<lambda>z. symAddr z = a) ys) = [])
      then Some y else deciding ys a)"
  unfolding deciding_def Let_def by (cases "cs_scope y = ''G''"; cases "symAddr y = a") simp_all

lemma deciding_scope:
  assumes "deciding ys a = Some p"
  shows "cs_scope p = ''G'' \<longleftrightarrow>
    filter (\<lambda>z. cs_scope z = ''G'') (filter (\<lambda>z. symAddr z = a) ys) \<noteq> []"
proof (cases "filter (\<lambda>z. cs_scope z = ''G'') (filter (\<lambda>z. symAddr z = a) ys) = []")
  case True
  with assms have "p = last (filter (\<lambda>z. symAddr z = a) ys)" "filter (\<lambda>z. symAddr z = a) ys \<noteq> []"
    unfolding deciding_def Let_def by (auto split: if_splits)
  then have "p \<in> set (filter (\<lambda>z. symAddr z = a) ys)" by (metis last_in_set)
  with True show ?thesis by (auto simp: filter_empty_conv)
next
  case False
  with assms have "p = last (filter (\<lambda>z. cs_scope z = ''G'') (filter (\<lambda>z. symAddr z = a) ys))"
    unfolding deciding_def Let_def by simp
  with False have "p \<in> set (filter (\<lambda>z. cs_scope z = ''G'') (filter (\<lambda>z. symAddr z = a) ys))"
    by (metis last_in_set)
  with False show ?thesis by simp
qed

lemma deciding_None: "deciding ys a = None \<Longrightarrow>
    filter (\<lambda>z. cs_scope z = ''G'') (filter (\<lambda>z. symAddr z = a) ys) = []"
  unfolding deciding_def Let_def by (simp split: if_splits)

lemma loadCdb_deciding: "loadCdbSymbols ys Map.empty a = map_option labelOf (deciding ys a)"
proof (induction ys rule: rev_induct)
  case Nil
  then show ?case by (simp add: loadCdbSymbols_def deciding_def)
next
  case (snoc y ys)
  have step: "loadCdbSymbols (ys @ [y]) Map.empty =
      put (symAddr y) (cs_name y) (cs_scope y) (loadCdbSymbols ys Map.empty)"
    by (simp add: loadCdbSymbols_def symAddr_def)
  show ?case
  proof (cases "symAddr y = a")
    case False
    then have "put (symAddr y) n sc t a = t a" for n sc and t :: label_table
      by (simp add: put_def split: option.split)
    with False show ?thesis using snoc.IH by (simp add: step deciding_snoc)
  next
    case True
    show ?thesis
    proof (cases "deciding ys a")
      case None
      then show ?thesis
        using snoc.IH True deciding_None [OF None]
        by (simp add: step put_def deciding_snoc labelOf_def)
    next
      case (Some p)
      then show ?thesis
        using snoc.IH True deciding_scope [OF Some]
        by (simp add: step put_def deciding_snoc labelOf_def)
    qed
  qed
qed

text \<open>
  After loading the symbols of a CDB file into an empty table, the label of an address is
  the last symbol of scope G at that address, and only when there is none the last symbol of
  another scope: of two global symbols the later one wins.
\<close>

theorem label_precedence:
  "lookup (loadCdbSymbols ys Map.empty) a = map_option cs_name (deciding ys a)"
  by (simp add: lookup_def loadCdb_deciding option.map_comp comp_def labelOf_def)

end
