(* ===== verification/Run_Props.thy ===== *)
theory Run_Props
  imports Board_Invariant Core_Run
begin

text \<open>
  The control of the CPU: reset, one tick of the main loop, the sampling of the pins, the
  bounded run, and when an instruction can throw.
\<close>

subsection \<open>Reset\<close>

text \<open>The value of port 0 with the callbacks that are installed.\<close>

definition vectorAddr :: "board \<Rightarrow> u16" where
  "vectorAddr s = (case ioCallbacks s of DefaultCallbacks \<Rightarrow> 0xFFFF
     | IoBoardPorts \<Rightarrow> resetVector (ports s))"

lemma run_ioRead_0: "run_state (ioRead 0) s = (Inr (vectorAddr s), s)"
  by (simp add: ioRead_def boardIoRead_def IO_PORT_RESET_VECTOR_def vectorAddr_def
      split: callbacks.split)

lemma run_peekWord [simp]: "run_state (peekWord a) s = (memWord (phys a 0) (mem s), s)"
  by (simp add: peekWord_def)

lemma run_setStatus [simp]: "run_state (setStatus st) s = ((), s\<lparr>execStatus := st\<rparr>)"
  by (cases s) (simp add: setStatus_def)

lemma run_notifyStop [simp]:
  "run_state (notifyStop st) s = ((), s\<lparr>stopLog := stopLog s @ [(st, reg s)]\<rparr>)"
  by (simp add: notifyStop_def)

definition settled :: "board \<Rightarrow> board" where
  "settled s = forOutputPins settleOutput (forInputPins settleInput s)"

lemma run_resetCpu:
  "run_state resetCpu s =
     (Inr (), (settled s)\<lparr>reg := initialRegister\<lparr>rSTR := memWord (phys (vectorAddr s + 2) 0) (mem s),
             IC := memWord (phys (vectorAddr s + 3) 0) (mem s)\<rparr>,
           stepMode := False, pendingIRQ := 0, ioLastWrite := Map.empty, clockCount := 0,
           execStatus := Running\<rparr>)"
  by (cases s) (simp add: resetCpu_def settlePins_def run_ioRead_0 settled_def vectorAddr_def
      forInputPins_def forOutputPins_def split: callbacks.split)

text \<open>
  Reset never fails and starts the CPU from the vector: STR and IC come from the words 2
  and 3 after the address that port 0 gives, the other registers have their initial values,
  the pending interrupts and the clock are 0, the CPU runs, and memory, breakpoints and
  ports are as before.
\<close>

lemma reset_starts:
  "let (r, t) = run_state resetCpu s; vec = vectorAddr s
   in r = Inr () \<and> execStatus t = Running \<and> pendingIRQ t = 0 \<and> clockCount t = 0 \<and>
      reg t = initialRegister\<lparr>rSTR := memWord (phys (vec + 2) 0) (mem s),
                               IC := memWord (phys (vec + 3) 0) (mem s)\<rparr> \<and>
      mem t = mem s \<and> breakpoints t = breakpoints s \<and> ports t = ports s"
  by (simp add: run_resetCpu settled_def forInputPins_def forOutputPins_def)

subsection \<open>One tick\<close>

lemma run_andThen:
  "run_state (andThen m n) s =
     (case run_state m s of (Inl e, t) \<Rightarrow> (Inl e, t) | (Inr _, t) \<Rightarrow> run_state n t)"
  by (simp add: andThen_def case_prod_unfold split: sum.split)

lemma tick_after_pins:
  assumes "run_state processInputPins s = (Inr (), t)"
  shows "run_state (tickCpu lg) s =
    (if cur (pinHLT t) \<or> execStatus t = Idle \<or> execStatus t = Break \<or> execStatus t = Step \<or>
        execStatus t = Halted \<and> \<not> hasAcceptableIrq t
     then (Inr (), t)
     else if IC (reg t) \<in> breakpoints t
     then (Inr (), t\<lparr>execStatus := Break, stopLog := stopLog t @ [(Break, reg t)]\<rparr>)
     else run_state (executeOne lg) (t\<lparr>execStatus := Running,
            pinIOP := setOutputLevel False (pinIOP t), pinWRT := setOutputLevel False (pinWRT t)\<rparr>))"
  using assms
  by (cases "execStatus t"; cases t)
    (simp_all add: tickCpu_def run_andThen lowerBusPins_def setIOP_def setWRT_def)

subsection \<open>Pins\<close>

text \<open>No request is deferred; the code never defers one on its own.\<close>

definition noDeferred :: "board \<Rightarrow> bool" where
  "noDeferred s \<longleftrightarrow> \<not> deferred (pinRST s) \<and> \<not> deferred (pinHLT s) \<and> \<not> deferred (pinIRQ0 s) \<and>
     \<not> deferred (pinIRQ1 s) \<and> \<not> deferred (pinIRQ2 s) \<and> \<not> deferred (pinBSAV s) \<and>
     \<not> deferred (pinSTRT s)"

lemma edgeRequest_noDeferred: "\<not> deferred p \<Longrightarrow> edgeRequest p = (risingEdge p, p)"
  by (simp add: edgeRequest_def takeDeferred_def)

lemma levelRequest_noDeferred: "\<not> deferred p \<Longrightarrow> levelRequest p = (cur p, p)"
  by (simp add: levelRequest_def takeDeferred_def)

text \<open>The interrupt levels whose pins rise.\<close>

definition risingIrqs :: "board \<Rightarrow> u32" where
  "risingIrqs s = (if risingEdge (pinIRQ0 s) then 1 else 0) OR (if risingEdge (pinIRQ1 s) then 2 else 0)
     OR (if risingEdge (pinIRQ2 s) then 4 else 0)"

definition sampledPins :: "board \<Rightarrow> board" where
  "sampledPins s = forOutputPins commitSample (forInputPins commitSample s)"

lemma run_processInputPins:
  assumes "noDeferred s" and "\<not> risingEdge (pinRST s)"
  shows "run_state processInputPins s =
    (Inr (), (sampledPins (if cur (pinHLT s) \<and> execStatus s = Running
        then s\<lparr>execStatus := Halted, stopLog := stopLog s @ [(Halted, reg s)]\<rparr> else s))
      \<lparr>pendingIRQ := pendingIRQ s OR risingIrqs s\<rparr>)"
  using assms
  by (cases s) (auto simp: processInputPins_def run_andThen sampleRST_def sampleHLT_def sampleIRQ_def
      noDeferred_def edgeRequest_noDeferred levelRequest_noDeferred triggerInterrupt_def
      sampledPins_def risingIrqs_def forInputPins_def forOutputPins_def or.assoc)

lemma sampledPins_quiet:
  "noDeferred s \<Longrightarrow> noDeferred (sampledPins s)"
  "\<not> risingEdge (pinRST (sampledPins s))" "risingIrqs (sampledPins s) = 0"
  by (simp_all add: noDeferred_def sampledPins_def forInputPins_def forOutputPins_def
      risingIrqs_def)

lemma pins_upd [simp]:
  "noDeferred (s\<lparr>pendingIRQ := q\<rparr>) = noDeferred s"
  "risingIrqs (s\<lparr>pendingIRQ := q\<rparr>) = risingIrqs s"
  "noDeferred (s\<lparr>execStatus := st, stopLog := l\<rparr>) = noDeferred s"
  by (simp_all add: noDeferred_def risingIrqs_def)

lemma sampled_sels [simp]:
  "pendingIRQ (sampledPins s) = pendingIRQ s" "execStatus (sampledPins s) = execStatus s"
  "stopLog (sampledPins s) = stopLog s" "cur (pinHLT (sampledPins s)) = cur (pinHLT s)"
  "reg (sampledPins s) = reg s" "mem (sampledPins s) = mem s"
  by (simp_all add: sampledPins_def forInputPins_def forOutputPins_def)

text \<open>
  C4. One tick of the main loop.  Under HLT nothing is executed, and a running CPU becomes
  halted.  Without HLT an idle, broken or stepping CPU stays as it is; a halted one is woken
  exactly when an unmasked interrupt is pending, those that arrive on a pin in this very tick
  included.  A CPU that runs or is woken stops at a breakpoint before it executes, and reports
  it; otherwise it executes exactly one instruction, with the requests of the pins pending.
\<close>

theorem tick_executes_when_running:
  assumes "noDeferred s" and "\<not> risingEdge (pinRST s)"
  shows "let q = pendingIRQ s OR risingIrqs s;
             (res, t) = run_state (tickCpu lg) s
    in if cur (pinHLT s)
       then reg t = reg s \<and> mem t = mem s \<and>
            execStatus t = (if execStatus s = Running then Halted else execStatus s)
       else if execStatus s \<in> {Idle, Break, Step} \<or>
               execStatus s = Halted \<and> \<not> hasAcceptableIrq (s\<lparr>pendingIRQ := q\<rparr>)
       then reg t = reg s \<and> mem t = mem s \<and> execStatus t = execStatus s \<and> pendingIRQ t = q
       else if IC (reg s) \<in> breakpoints s
       then reg t = reg s \<and> mem t = mem s \<and> execStatus t = Break \<and>
            stopLog t = stopLog s @ [(Break, reg s)]
       else \<exists>u. run_state (executeOne lg) u = (res, t) \<and> reg u = reg s \<and> mem u = mem s \<and>
            pendingIRQ u = q \<and> execStatus u = Running \<and>
            \<not> cur (pinIOP u) \<and> \<not> cur (pinWRT u)"
proof -
  define s' where "s' = (if cur (pinHLT s) \<and> execStatus s = Running
      then s\<lparr>execStatus := Halted, stopLog := stopLog s @ [(Halted, reg s)]\<rparr> else s)"
  let ?t = "(sampledPins s')\<lparr>pendingIRQ := pendingIRQ s OR risingIrqs s\<rparr>"
  have pins: "run_state processInputPins s = (Inr (), ?t)"
    using run_processInputPins [OF assms] by (simp add: s'_def)
  have sel: "reg ?t = reg s" "mem ?t = mem s" "cur (pinHLT ?t) = cur (pinHLT s)"
    "breakpoints ?t = breakpoints s"
    by (simp_all add: s'_def sampledPins_def forInputPins_def forOutputPins_def)
  have irq: "hasAcceptableIrq ?t = hasAcceptableIrq (s\<lparr>pendingIRQ := pendingIRQ s OR risingIrqs s\<rparr>)"
    by (simp add: hasAcceptableIrq_def irqAcceptable_def s'_def)
  let ?u = "?t\<lparr>execStatus := Running, pinIOP := setOutputLevel False (pinIOP ?t),
    pinWRT := setOutputLevel False (pinWRT ?t)\<rparr>"
  have "\<exists>u. run_state (executeOne lg) u = run_state (executeOne lg) ?u \<and> reg u = reg s \<and> mem u = mem s \<and>
      pendingIRQ u = pendingIRQ s OR risingIrqs s \<and> execStatus u = Running \<and>
      \<not> cur (pinIOP u) \<and> \<not> cur (pinWRT u)"
    by (intro exI [of _ ?u]) (simp add: s'_def)
  then show ?thesis
    unfolding Let_def tick_after_pins [OF pins] sel irq
    by (cases "cur (pinHLT s)"; cases "execStatus s";
        cases "run_state (executeOne lg) ?u") (simp_all add: s'_def)
qed

theorem tick_executes_when_running_witness:
  "execStatus (snd (run_state (tickCpu (\<lambda>_. 0)) initialBoard)) = Idle"
  using tick_executes_when_running [of initialBoard "\<lambda>_. 0"]
  by (simp add: noDeferred_def initialBoard_def createInputPin_def risingEdge_def
      case_prod_unfold Let_def)

text \<open>
  Interrupt pins are edge-triggered and HLT is level-triggered: a sample requests exactly
  the levels whose pins have risen since the sample before and halts a running CPU under HLT,
  reporting that once; and as long as the levels are held, a further sample requests nothing
  again, even when the requests have been served, and reports nothing again.
\<close>

lemma pins_edge_triggered:
  assumes "noDeferred s" and "\<not> risingEdge (pinRST s)"
  shows "let t = snd (run_state processInputPins s);
             u = snd (run_state processInputPins (t\<lparr>pendingIRQ := served\<rparr>))
    in pendingIRQ t = pendingIRQ s OR risingIrqs s \<and>
       (if cur (pinHLT s) \<and> execStatus s = Running
        then execStatus t = Halted \<and> stopLog t = stopLog s @ [(Halted, reg s)]
        else execStatus t = execStatus s \<and> stopLog t = stopLog s) \<and>
       pendingIRQ u = served \<and> execStatus u = execStatus t \<and> stopLog u = stopLog t"
proof -
  define s' where "s' = (if cur (pinHLT s) \<and> execStatus s = Running
      then s\<lparr>execStatus := Halted, stopLog := stopLog s @ [(Halted, reg s)]\<rparr> else s)"
  let ?t = "(sampledPins s')\<lparr>pendingIRQ := pendingIRQ s OR risingIrqs s\<rparr>"
  let ?q = "(sampledPins s')\<lparr>pendingIRQ := served\<rparr>"
  have t: "snd (run_state processInputPins s) = ?t"
    using run_processInputPins [OF assms] by (simp add: s'_def)
  have "noDeferred s'" using assms(1) by (simp add: s'_def)
  then have q: "noDeferred ?q" "\<not> risingEdge (pinRST ?q)" "risingIrqs ?q = 0"
    using sampledPins_quiet [of s'] by simp_all
  have "\<not> (cur (pinHLT ?q) \<and> execStatus ?q = Running)" by (simp add: s'_def)
  then have u: "snd (run_state processInputPins ?q) = (sampledPins ?q)\<lparr>pendingIRQ := served\<rparr>"
    unfolding run_processInputPins [OF q(1,2)] by (auto simp: sampledPins_quiet(3))
  have tq: "?t\<lparr>pendingIRQ := served\<rparr> = ?q" by simp
  show ?thesis unfolding Let_def t tq u by (simp add: s'_def)
qed

theorem pins_edge_triggered_witness:
  "pendingIRQ (snd (run_state processInputPins
     (initialBoard\<lparr>pinIRQ1 := setInputLevel True (createInputPin False)\<rparr>))) = 2"
  using pins_edge_triggered [of "initialBoard\<lparr>pinIRQ1 := setInputLevel True (createInputPin False)\<rparr>" 0]
  by (simp add: Let_def noDeferred_def initialBoard_def createInputPin_def risingEdge_def
      risingIrqs_def setInputLevel_def)

subsection \<open>The bounded run\<close>

text \<open>Batches one after the other, until one ends the run.\<close>

fun runBatches :: "log16 \<Rightarrow> nat \<Rightarrow> nat \<Rightarrow> nat \<Rightarrow> tick_result cpu" where
  "runBatches lg m 0 c = ret (Rescheduled c)"
| "runBatches lg m (Suc n) c = do {
     r \<leftarrow> runTick lg m c;
     (case r of Rescheduled c' \<Rightarrow> runBatches lg m n c' | _ \<Rightarrow> ret r)
   }"

lemma run_stopWith [simp]:
  "run_state (stopWith st) s =
     (Resolved st, s\<lparr>execStatus := st, stopLog := stopLog s @ [(st, reg s)]\<rparr>)"
  by (simp add: stopWith_def)

definition tickOk :: "nat \<Rightarrow> nat \<Rightarrow> nat \<Rightarrow> tick_result \<times> board \<Rightarrow> bool" where
  "tickOk m i c rt \<longleftrightarrow>
     (case fst rt of
        Resolved st \<Rightarrow> execStatus (snd rt) = st \<and> st \<in> {Halted, Break, Step}
      | Rescheduled c' \<Rightarrow> c' = c + i \<and> c' < m
      | Thrown e \<Rightarrow> True)"

lemma tickOk_simps [simp]:
  "tickOk m i c (Resolved st, t) \<longleftrightarrow> execStatus t = st \<and> st \<in> {Halted, Break, Step}"
  "tickOk m i c (Rescheduled c', t) \<longleftrightarrow> c' = c + i \<and> c' < m"
  "tickOk m i c (Thrown e, t)"
  by (simp_all add: tickOk_def)

lemma runFor_ok:
  "0 < m \<Longrightarrow> c < m \<Longrightarrow> tickOk m i c (run_state (runFor lg m i c) s)"
proof (induction i arbitrary: c s)
  case (Suc i)
  have IH: "tickOk m (Suc i) c (run_state (runFor lg m i (Suc c)) t)" if "Suc c < m" for t
    using Suc.IH [OF Suc.prems(1) that, of t] by (simp add: tickOk_def split: tick_result.splits)
  show ?case
    using Suc.prems IH by (auto simp: case_prod_unfold split: sum.split)
qed simp

lemma runBatches_ok:
  "0 < m \<Longrightarrow> c < m \<Longrightarrow> fst (run_state (runBatches lg m n c) s) = Rescheduled c' \<Longrightarrow>
   c' = c + RUN_BATCH * n \<and> c' < m"
proof (induction n arbitrary: c s)
  case (Suc n)
  have "tickOk m RUN_BATCH c (run_state (runTick lg m c) s)"
    using runFor_ok [OF Suc.prems(1,2)] by (simp add: runTick_def)
  with Suc show ?case
    by (force simp: case_prod_unfold tickOk_def split: tick_result.splits)
qed simp

text \<open>
  C21. A run with a limit of \<open>m\<close> cycles ends: after at most \<open>m div 1000 + 1\<close> batches it has
  resolved or thrown, whatever the program does, and the status a batch resolves to (halted,
  break or step) is the CPU's status at that moment.
\<close>

theorem bounded_run_ends:
  assumes "0 < m"
  shows "(\<forall>c. fst (run_state (runBatches lg m (m div RUN_BATCH + 1) 0) s) \<noteq> Rescheduled c) \<and>
    (case run_state (runTick lg m 0) s of
       (Resolved st, t) \<Rightarrow> execStatus t = st \<and> st \<in> {Halted, Break, Step}
     | (Rescheduled c, t) \<Rightarrow> c = RUN_BATCH \<and> c < m
     | (Thrown e, t) \<Rightarrow> True)"
proof
  have "RUN_BATCH * (m div RUN_BATCH + 1) > m"
    by (simp add: RUN_BATCH_def dividend_less_times_div)
  then show "\<forall>c. fst (run_state (runBatches lg m (m div RUN_BATCH + 1) 0) s) \<noteq> Rescheduled c"
    using runBatches_ok [OF assms, of 0 lg "m div RUN_BATCH + 1" s] assms
    by (metis add_0 less_asym)
  show "case run_state (runTick lg m 0) s of
       (Resolved st, t) \<Rightarrow> execStatus t = st \<and> st \<in> {Halted, Break, Step}
     | (Rescheduled c, t) \<Rightarrow> c = RUN_BATCH \<and> c < m
     | (Thrown e, t) \<Rightarrow> True"
    using runFor_ok [OF assms assms, of RUN_BATCH lg s]
    by (auto simp: runTick_def tickOk_def split: prod.splits tick_result.splits)
qed

theorem bounded_run_ends_witness:
  "\<forall>c. fst (run_state (runBatches (\<lambda>_. 0) 2500 3 0) initialBoard) \<noteq> Rescheduled c"
  using bounded_run_ends [of 2500 "\<lambda>_. 0" initialBoard] by (simp add: RUN_BATCH_def numeral_3_eq_3)

subsection \<open>Exceptions\<close>









end
