(* ===== verification/Asm_Expr.thy ===== *)
theory Asm_Expr
  imports Js_Text Js_Number
begin

text \<open>
  The expressions of the assembler, \<^verbatim>\<open>retrocpu_asm_ts/src/main/expression.ts\<close>: the rewriting
  of \<^verbatim>\<open>len(label)\<close> and of character literals, the tokens, and the evaluation by recursive
  descent.  Errors are values of \<open>asm_error\<close>, one constructor for each \<^verbatim>\<open>throw\<close>.  The token
  list and the index into it are a list of remaining tokens.
\<close>

subsection \<open>Errors\<close>

datatype asm_error =
    LenNeedsLabel
  | LenOfGlobal string
  | BadCharLiteral
  | EmptyExpression
  | InvalidExpression
  | MissingParen
  | UndefinedSymbol string
  | DivisionByZero
  | ModuloByZero
  | UnexpectedToken string
  | BadStringLiteral
  | OutOfRange string
  | UnknownRegister string
  | StrNotAllowed string
  | UnknownSkip string
  | UnknownEm string
  | HashRequired string
  | HashForbidden string
  | BadIndexRegister string
  | BadIndirect string
  | NotDr0 string
  | ArgumentCount
  | CsbrReadOnly
  | WrongOrder string
  | MissingOpcode
  | UnsupportedOpcode string
  | OperandCount string
  | RegisterRequired string
  | EmptyOperand
  | ImmediateOnly string
  | TiSyntax string
  | IndexedByR0
  | MisalignedTarget string

definition bindE :: "asm_error + 'a \<Rightarrow> ('a \<Rightarrow> asm_error + 'b) \<Rightarrow> asm_error + 'b" where
  "bindE m f = (case m of Inl e \<Rightarrow> Inl e | Inr v \<Rightarrow> f v)"

lemma bindE_simps [simp]: "bindE (Inl e) f = Inl e" "bindE (Inr v) f = f v"
  by (simp_all add: bindE_def)

type_synonym symbol_table = "string \<rightharpoonup> int"

subsection \<open>Identifiers\<close>

definition isIdentStart :: "char \<Rightarrow> bool" where
  "isIdentStart c \<longleftrightarrow> isLetter c \<or> c = CHR ''_'' \<or> c = CHR ''.'' \<or> c = CHR ''$''"

definition isIdentChar :: "char \<Rightarrow> bool" where
  "isIdentChar c \<longleftrightarrow> isIdentStart c \<or> isDigit c"

text \<open>A greedy match of a character class: what matches and the rest.\<close>

definition span :: "(char \<Rightarrow> bool) \<Rightarrow> string \<Rightarrow> string \<times> string" where
  "span P s = (takeWhile P s, dropWhile P s)"

definition isBlank :: "char \<Rightarrow> bool" where
  "isBlank c \<longleftrightarrow> c = CHR '' '' \<or> c = char_of (9 :: nat)"

subsection \<open>Calls of len and character literals\<close>

text \<open>The prefix \<^verbatim>\<open>/^len\s*\(/i\<close> of a string: the rest after it.\<close>

definition lenCall :: "string \<Rightarrow> string option" where
  "lenCall s =
     (if toUpperCase (take 3 s) = ''LEN'' then
        (case dropWhile isJsSpace (drop 3 s) of
           c # r \<Rightarrow> if c = CHR ''('' then Some r else None
         | [] \<Rightarrow> None)
      else None)"

text \<open>The argument of a call: the length that replaces it and the rest of the expression.\<close>

definition lenArgument ::
  "(string \<rightharpoonup> nat) \<Rightarrow> string set \<Rightarrow> string \<Rightarrow> asm_error + nat \<times> string" where
  "lenArgument stringLens globlNames r =
     (let r1 = dropWhile isBlank r;
          name = takeWhile isIdentChar r1
      in if r1 = [] \<or> \<not> isIdentStart (hd r1) then Inl LenNeedsLabel
         else
           let r2 = dropWhile isBlank (dropWhile isIdentChar r1); key = toUpperCase name
           in if r2 = [] \<or> hd r2 \<noteq> CHR '')'' then Inl LenNeedsLabel
              else if key \<in> globlNames then Inl (LenOfGlobal name)
              else (case stringLens key of None \<Rightarrow> Inl LenNeedsLabel | Some n \<Rightarrow> Inr (n, tl r2)))"

text \<open>The loop: \<open>prv\<close> is the character before the position, if any.\<close>

lemma lenCall_shorter: "lenCall s = Some r \<Longrightarrow> length r < length s"
proof -
  assume a: "lenCall s = Some r"
  have "length (dropWhile isJsSpace (drop 3 s)) \<le> length s"
    by (rule order_trans [OF length_dropWhile_le]) simp
  then show "length r < length s"
    using a by (auto simp: lenCall_def split: if_splits list.splits)
qed

lemma lenArgument_shorter: "lenArgument ls gs r = Inr (n, r') \<Longrightarrow> length r' < length r"
proof -
  assume a: "lenArgument ls gs r = Inr (n, r')"
  have "length (dropWhile isBlank (dropWhile isIdentChar (dropWhile isBlank r))) \<le> length r"
    by (meson length_dropWhile_le order_trans)
  then show "length r' < length r"
    using a by (cases "dropWhile isBlank (dropWhile isIdentChar (dropWhile isBlank r))")
      (auto simp: lenArgument_def Let_def split: if_splits option.splits)
qed

function substLenCalls ::
  "(string \<rightharpoonup> nat) \<Rightarrow> string set \<Rightarrow> char option \<Rightarrow> string \<Rightarrow> asm_error + string" where
  "substLenCalls ls gs prv s =
     (case s of
        [] \<Rightarrow> Inr []
      | c # cs \<Rightarrow>
          (case (if (case prv of None \<Rightarrow> False | Some p \<Rightarrow> isIdentChar p) then None else lenCall s) of
             None \<Rightarrow> bindE (substLenCalls ls gs (Some c) cs) (\<lambda>out. Inr (c # out))
           | Some r \<Rightarrow>
               (case lenArgument ls gs r of
                  Inl e \<Rightarrow> Inl e
                | Inr nr \<Rightarrow>
                    bindE (substLenCalls ls gs (Some (CHR '')'')) (snd nr))
                      (\<lambda>out. Inr (decimal (fst nr) @ out)))))"
  by pat_completeness auto
termination
  by (relation "measure (\<lambda>(ls, gs, prv, s). length s)")
    (auto split: if_splits dest!: lenCall_shorter lenArgument_shorter)

declare substLenCalls.simps [simp del]

fun substCharLiterals :: "string \<Rightarrow> asm_error + string" where
  "substCharLiterals [] = Inr []"
| "substCharLiterals (c # cs) =
     (if c \<noteq> CHR 0x27 then bindE (substCharLiterals cs) (\<lambda>out. Inr (c # out))
      else (case cs of
              ch # q # rest \<Rightarrow>
                (if q \<noteq> CHR 0x27 then Inl BadCharLiteral
                 else bindE (substCharLiterals rest) (\<lambda>out. Inr (decimal (of_char ch) @ out)))
            | _ \<Rightarrow> Inl BadCharLiteral))"

subsection \<open>Tokens\<close>

text \<open>
  One alternative of the token pattern each: the class of the digits, and the suffixes that
  may end the literal.  The classes and the suffixes are disjoint where a suffix is required,
  so greedy matching needs no backtracking.
\<close>

definition digitsThen :: "(char \<Rightarrow> bool) \<Rightarrow> char set \<Rightarrow> string \<Rightarrow> nat option" where
  "digitsThen P suf s =
     (let n = length (takeWhile P s)
      in if n > 0 \<and> n < length s \<and> s ! n \<in> suf then Some (n + 1) else None)"

definition prefixed :: "char set \<Rightarrow> (char \<Rightarrow> bool) \<Rightarrow> string \<Rightarrow> nat option" where
  "prefixed pre P s =
     (case s of
        z # x # r \<Rightarrow>
          (if z = CHR ''0'' \<and> x \<in> pre \<and> takeWhile P r \<noteq> [] then Some (2 + length (takeWhile P r))
           else None)
      | _ \<Rightarrow> None)"

definition isOperatorChar :: "char \<Rightarrow> bool" where
  "isOperatorChar c \<longleftrightarrow> c \<in> set ''()+-*/%&|^~''"

text \<open>The length of the token at the start of a string, by the first alternative that matches.\<close>

definition tokenLength :: "string \<Rightarrow> nat option" where
  "tokenLength s =
     (if s = [] then None
      else if isIdentStart (hd s) then Some (length (takeWhile isIdentChar s))
      else if hd s = CHR ''>'' \<and> takeWhile isHex (tl s) \<noteq> [] then
        Some (1 + length (takeWhile isHex (tl s)))
      else
        (case prefixed {CHR ''x'', CHR ''X''} isHex s of Some n \<Rightarrow> Some n | None \<Rightarrow>
        (case prefixed {CHR ''o'', CHR ''O''} isOctal s of Some n \<Rightarrow> Some n | None \<Rightarrow>
        (case prefixed {CHR ''b'', CHR ''B''} isBinary s of Some n \<Rightarrow> Some n | None \<Rightarrow>
        (case digitsThen isHex {CHR ''h'', CHR ''H''} s of Some n \<Rightarrow> Some n | None \<Rightarrow>
        (case digitsThen isOctal {CHR ''o'', CHR ''O'', CHR ''q'', CHR ''Q''} s of Some n \<Rightarrow> Some n | None \<Rightarrow>
        (case digitsThen isBinary {CHR ''b'', CHR ''B''} s of Some n \<Rightarrow> Some n | None \<Rightarrow>
          let n = length (takeWhile isDigit s)
          in if n > 0 then Some (if n < length s \<and> s ! n \<in> {CHR ''d'', CHR ''D''} then n + 1 else n)
             else if take 2 s = ''<<'' \<or> take 2 s = ''>>'' then Some 2
             else if isOperatorChar (hd s) then Some 1
             else None)))))))"

lemma tokenLength_Nil [simp]: "tokenLength [] = None"
  by (simp add: tokenLength_def)

lemma tokenLength_nonempty: "tokenLength s = Some n \<Longrightarrow> s \<noteq> []"
  by auto

text \<open>The global match: characters that start no token are passed over.\<close>

function tokenize :: "string \<Rightarrow> string list" where
  "tokenize s =
     (case tokenLength s of
        Some n \<Rightarrow> if n = 0 then [] else take n s # tokenize (drop n s)
      | None \<Rightarrow> if s = [] then [] else tokenize (tl s))"
  by pat_completeness auto

termination
  by (relation "measure length") (auto dest: tokenLength_nonempty)

declare tokenize.simps [simp del]

subsection \<open>Numbers\<close>

definition charDigit :: "char \<Rightarrow> int" where
  "charDigit c =
     (let n = of_char c :: int
      in if n \<le> 57 then n - 48 else if n \<le> 70 then n - 55 else n - 87)"

definition positional :: "int \<Rightarrow> string \<Rightarrow> int" where
  "positional base s = foldl (\<lambda>acc c. base * acc + charDigit c) 0 s"

definition allOf :: "(char \<Rightarrow> bool) \<Rightarrow> string \<Rightarrow> bool" where
  "allOf P s \<longleftrightarrow> s \<noteq> [] \<and> list_all P s"

text \<open>\<^verbatim>\<open>Number.parseInt\<close> of digits that the pattern before it has checked.\<close>

definition parseInt :: "int \<Rightarrow> string \<Rightarrow> int" where
  "parseInt base s = rndInt (positional base s)"

definition parseNumber :: "string \<Rightarrow> int option" where
  "parseNumber token =
     (let t = trim token; body = butlast t
      in if t = [] then None
         else if hd t = CHR ''>'' \<and> allOf isHex (tl t) then Some (parseInt 16 (tl t))
         else if take 2 t \<in> {''0x'', ''0X''} \<and> allOf isHex (drop 2 t) then Some (parseInt 16 (drop 2 t))
         else if take 2 t \<in> {''0o'', ''0O''} \<and> allOf isOctal (drop 2 t) then Some (parseInt 8 (drop 2 t))
         else if take 2 t \<in> {''0b'', ''0B''} \<and> allOf isBinary (drop 2 t) then Some (parseInt 2 (drop 2 t))
         else if last t \<in> {CHR ''h'', CHR ''H''} \<and> allOf isHex body then Some (parseInt 16 body)
         else if last t \<in> {CHR ''o'', CHR ''O'', CHR ''q'', CHR ''Q''} \<and> allOf isOctal body
         then Some (parseInt 8 body)
         else if last t \<in> {CHR ''b'', CHR ''B''} \<and> allOf isBinary body then Some (parseInt 2 body)
         else if last t \<in> {CHR ''d'', CHR ''D''} \<and> allOf isDigit body then Some (parseInt 10 body)
         else if allOf isDigit t then Some (parseInt 10 t)
         else None)"

subsection \<open>Evaluation\<close>

text \<open>
  The levels of precedence, from \<^verbatim>\<open>parsePrimary\<close> (0) over \<^verbatim>\<open>parseMulDiv\<close>, \<^verbatim>\<open>parseAddSub\<close>,
  \<^verbatim>\<open>parseShift\<close>, \<^verbatim>\<open>parseBitwiseAnd\<close> and \<^verbatim>\<open>parseBitwiseXor\<close> to \<^verbatim>\<open>parseBitwiseOr\<close> (6), with the
  operators that the loop of each accepts.
\<close>

definition levelOps :: "nat \<Rightarrow> string list" where
  "levelOps lev =
     (if lev = 1 then [''*'', ''/'', ''%''] else if lev = 2 then [''+'', ''-'']
      else if lev = 3 then [''<<'', ''>>''] else if lev = 4 then [''&'']
      else if lev = 5 then [''^''] else if lev = 6 then [''|''] else [])"

text \<open>
  The operators.  The quotient of two doubles is rounded before it is truncated; the bitwise
  operators go through 32-bit integers, and the shift count is taken modulo 32.
\<close>

definition shiftCount :: "int \<Rightarrow> nat" where
  "shiftCount r = unat (toInt32 r AND 31)"

definition applyOp :: "string \<Rightarrow> int \<Rightarrow> int \<Rightarrow> asm_error + int" where
  "applyOp opr v r =
     (if opr = ''*'' then Inr (rndInt (v * r))
      else if opr = ''/'' then
        (if r = 0 then Inl DivisionByZero else Inr (math_trunc (rnd53 (of_int v / of_int r))))
      else if opr = ''%'' then
        (if r = 0 then Inl ModuloByZero else Inr (sgn v * (\<bar>v\<bar> mod \<bar>r\<bar>)))
      else if opr = ''+'' then Inr (rndInt (v + r))
      else if opr = ''-'' then Inr (rndInt (v - r))
      else if opr = ''<<'' then Inr (uint (push_bit (shiftCount r) (toInt32 v) AND 0xFFFF))
      else if opr = ''>>'' then Inr (uint (drop_bit (shiftCount r) (toInt32 v) AND 0xFFFF))
      else if opr = ''&'' then Inr (sint (toInt32 v AND toInt32 r))
      else if opr = ''^'' then Inr (sint (toInt32 v XOR toInt32 r))
      else Inr (sint (toInt32 v OR toInt32 r)))"

text \<open>\<^verbatim>\<open>~v & 0xffff\<close>.\<close>

definition not16 :: "int \<Rightarrow> int" where
  "not16 v = uint (NOT (toInt32 v) AND 0xFFFF)"

definition symbolValue :: "symbol_table \<Rightarrow> bool \<Rightarrow> string \<Rightarrow> asm_error + int" where
  "symbolValue symbols allowUndefined t =
     (case symbols (toUpperCase t) of
        Some v \<Rightarrow> Inr v
      | None \<Rightarrow> if allowUndefined then Inr 0 else Inl (UndefinedSymbol t))"

text \<open>
  The recursive descent, with fuel for its depth: \<open>parseLevel\<close> is the function of a level and
  \<open>parseLoop\<close> its \<^verbatim>\<open>while\<close> loop with the value so far.
\<close>

fun parseLevel :: "nat \<Rightarrow> symbol_table \<Rightarrow> bool \<Rightarrow> nat \<Rightarrow> string list \<Rightarrow> (asm_error + int \<times> string list) option"
and parseLoop :: "nat \<Rightarrow> symbol_table \<Rightarrow> bool \<Rightarrow> nat \<Rightarrow> int \<Rightarrow> string list \<Rightarrow> (asm_error + int \<times> string list) option"
where
  "parseLevel 0 symbols u lev toks = None"
| "parseLevel (Suc f) symbols u lev toks =
     (if lev = 0 then
        (case toks of
           [] \<Rightarrow> Some (Inl InvalidExpression)
         | t # ts \<Rightarrow>
             (if t = ''('' then
                (case parseLevel f symbols u 6 ts of
                   Some (Inr (v, rest)) \<Rightarrow>
                     (if rest \<noteq> [] \<and> hd rest = '')'' then Some (Inr (v, tl rest))
                      else Some (Inl MissingParen))
                 | r \<Rightarrow> r)
              else if t = ''+'' then parseLevel f symbols u 0 ts
              else if t = ''-'' then
                (case parseLevel f symbols u 0 ts of
                   Some (Inr (v, rest)) \<Rightarrow> Some (Inr (- v, rest)) | r \<Rightarrow> r)
              else if t = ''~'' then
                (case parseLevel f symbols u 0 ts of
                   Some (Inr (v, rest)) \<Rightarrow> Some (Inr (not16 v, rest)) | r \<Rightarrow> r)
              else
                (case parseNumber t of
                   Some n \<Rightarrow> Some (Inr (n, ts))
                 | None \<Rightarrow> Some (bindE (symbolValue symbols u t) (\<lambda>v. Inr (v, ts))))))
      else
        (case parseLevel f symbols u (lev - 1) toks of
           Some (Inr (v, rest)) \<Rightarrow> parseLoop f symbols u lev v rest
         | r \<Rightarrow> r))"
| "parseLoop 0 symbols u lev v toks = None"
| "parseLoop (Suc f) symbols u lev v toks =
     (case toks of
        [] \<Rightarrow> Some (Inr (v, []))
      | t # ts \<Rightarrow>
          (if t \<notin> set (levelOps lev) then Some (Inr (v, toks))
           else
             (case parseLevel f symbols u (lev - 1) ts of
                Some (Inr (r, rest)) \<Rightarrow>
                  (case applyOp t v r of
                     Inl e \<Rightarrow> Some (Inl e)
                   | Inr v' \<Rightarrow> parseLoop f symbols u lev v' rest)
              | r \<Rightarrow> r)))"

text \<open>The fuel that a token list never exhausts (\<open>evalTokens_terminates\<close>).\<close>

definition exprFuel :: "string list \<Rightarrow> nat" where
  "exprFuel toks = 8 * length toks + 8"

definition evalTokens :: "symbol_table \<Rightarrow> bool \<Rightarrow> string list \<Rightarrow> (asm_error + int) option" where
  "evalTokens symbols u toks =
     (if toks = [] then Some (Inl EmptyExpression)
      else
        (case parseLevel (exprFuel toks) symbols u 6 toks of
           None \<Rightarrow> None
         | Some (Inl e) \<Rightarrow> Some (Inl e)
         | Some (Inr (v, rest)) \<Rightarrow>
             (case rest of [] \<Rightarrow> Some (Inr v) | t # _ \<Rightarrow> Some (Inl (UnexpectedToken t)))))"

definition evalExpr ::
  "(string \<rightharpoonup> nat) \<Rightarrow> string set \<Rightarrow> string \<Rightarrow> symbol_table \<Rightarrow> bool \<Rightarrow> asm_error + int" where
  "evalExpr stringLens globlNames expr symbols allowUndefined =
     bindE (substLenCalls stringLens globlNames None expr) (\<lambda>e.
       bindE (substCharLiterals e) (\<lambda>rewritten.
         the (evalTokens symbols allowUndefined (tokenize rewritten))))"

end
