(* ===== verification/Asm_Encoder.thy ===== *)
theory Asm_Encoder
  imports Asm_Expr
begin

text \<open>
  The encoder of MN1613 instructions, \<^verbatim>\<open>retrocpu_asm_ts/src/main/mn1613/mn1613_encoder.ts\<close>:
  from a mnemonic and its operand strings to one or more instruction words.  The patterns of
  the operand syntax are anchored at both ends and their groups are separated by fixed
  characters, so each is a split of the string at such a character.  Operands are trimmed lines
  without line terminators.  Instruction words are 16-bit words.
\<close>

subsection \<open>Tables\<close>

definition REG_MAP :: "(string \<times> u16) list" where
  "REG_MAP = [(''R0'', 0), (''R1'', 1), (''R2'', 2), (''R3'', 3), (''X0'', 3), (''R4'', 4),
     (''X1'', 4), (''SP'', 5), (''STR'', 6)]"

definition SKIP_MAP :: "(string \<times> u16) list" where
  "SKIP_MAP = [('''', 0), (''SKP'', 1), (''M'', 2), (''PZ'', 3), (''Z'', 4), (''E'', 4),
     (''NZ'', 5), (''NE'', 5), (''MZ'', 6), (''P'', 7), (''EZ'', 8), (''ENZ'', 9), (''OZ'', 10),
     (''ONZ'', 11), (''LMZ'', 12), (''LP'', 13), (''LPZ'', 14), (''LM'', 15)]"

definition EM_MAP :: "(string \<times> u16) list" where
  "EM_MAP = [('''', 0), (''RE'', 1), (''SE'', 2), (''CE'', 3)]"

definition BB_MAP :: "(string \<times> u16) list" where
  "BB_MAP = [(''CSBR'', 0), (''SSBR'', 1), (''TSR0'', 2), (''TSR1'', 3)]"

definition BBB_MAP :: "(string \<times> u16) list" where
  "BBB_MAP = [(''CSBR'', 0), (''SSBR'', 1), (''TSR0'', 2), (''TSR1'', 3), (''OSR0'', 4),
     (''OSR1'', 5), (''OSR2'', 6), (''OSR3'', 7)]"

definition PPP_MAP :: "(string \<times> u16) list" where
  "PPP_MAP = [(''SBRB'', 0), (''ICB'', 1), (''NPP'', 2)]"

definition HHH_MAP :: "(string \<times> u16) list" where
  "HHH_MAP = [(''TCR'', 0), (''TIR'', 1), (''TSR'', 2), (''SCR'', 3), (''SSR'', 4), (''SOR'', 5),
     (''IISR'', 6)]"

definition II_MAP :: "(string \<times> u16) list" where
  "II_MAP = [(''R1'', 0), (''R2'', 1), (''R3'', 2), (''R4'', 3)]"

definition TWO_WORD_OPS :: "string list" where
  "TWO_WORD_OPS = [''LD'', ''STD'', ''BD'', ''BL'', ''BALD'', ''BALL'', ''TSET'', ''TRST'',
     ''LB'', ''LS'', ''STB'', ''STS'', ''MVWI'', ''AWI'', ''SWI'', ''CWI'', ''CBI'', ''ANDI'',
     ''ORI'', ''EORI'', ''LADI'']"

subsection \<open>Ranges\<close>

text \<open>\<^verbatim>\<open>u8\<close>, \<^verbatim>\<open>u4\<close>, \<^verbatim>\<open>u2\<close>, \<^verbatim>\<open>s8\<close> and \<^verbatim>\<open>u16\<close> of the code; every value here is an integer.\<close>

definition rangeU8 :: "int \<Rightarrow> string \<Rightarrow> asm_error + u16" where
  "rangeU8 v what = (if v < 0 \<or> v > 0xFF then Inl (OutOfRange what) else Inr (word_of_int v AND 0xFF))"
definition rangeU4 :: "int \<Rightarrow> string \<Rightarrow> asm_error + u16" where
  "rangeU4 v what = (if v < 0 \<or> v > 0xF then Inl (OutOfRange what) else Inr (word_of_int v AND 0xF))"
definition rangeU2 :: "int \<Rightarrow> string \<Rightarrow> asm_error + u16" where
  "rangeU2 v what = (if v < 0 \<or> v > 0x3 then Inl (OutOfRange what) else Inr (word_of_int v AND 0x3))"
definition rangeS8 :: "int \<Rightarrow> string \<Rightarrow> asm_error + u16" where
  "rangeS8 v what =
     (if v < - 128 \<or> v > 127 then Inl (OutOfRange what) else Inr (word_of_int v AND 0xFF))"
definition rangeU16 :: "int \<Rightarrow> string \<Rightarrow> asm_error + u16" where
  "rangeU16 v what =
     (if v < - 0x8000 \<or> v > 0xFFFF then Inl (OutOfRange what) else Inr (word_of_int v))"

subsection \<open>Names\<close>

definition orError :: "asm_error \<Rightarrow> 'a option \<Rightarrow> asm_error + 'a" where
  "orError e v = (case v of None \<Rightarrow> Inl e | Some x \<Rightarrow> Inr x)"

definition parseReg :: "string \<Rightarrow> bool \<Rightarrow> asm_error + u16" where
  "parseReg token allowStr =
     bindE (orError (UnknownRegister token) (map_of REG_MAP (toUpperCase token))) (\<lambda>r.
       if \<not> allowStr \<and> r = 6 then Inl (StrNotAllowed token) else Inr r)"

definition parseSkip :: "string option \<Rightarrow> asm_error + u16" where
  "parseSkip token =
     (let t = (case token of None \<Rightarrow> '''' | Some t \<Rightarrow> t)
      in orError (UnknownSkip t) (map_of SKIP_MAP (toUpperCase (trim t))))"

definition parseEm :: "string option \<Rightarrow> asm_error + u16" where
  "parseEm token =
     (let t = (case token of None \<Rightarrow> '''' | Some t \<Rightarrow> t)
      in orError (UnknownEm t) (map_of EM_MAP (toUpperCase (trim t))))"

definition named :: "(string \<times> u16) list \<Rightarrow> string \<Rightarrow> asm_error + u16" where
  "named tab token = orError (UnknownRegister token) (map_of tab (toUpperCase (trim token)))"

definition parseBB :: "string \<Rightarrow> asm_error + u16" where "parseBB = named BB_MAP"
definition parsePPP :: "string \<Rightarrow> asm_error + u16" where "parsePPP = named PPP_MAP"
definition parseHHH :: "string \<Rightarrow> asm_error + u16" where "parseHHH = named HHH_MAP"

definition parseBBB :: "string \<Rightarrow> bool \<Rightarrow> asm_error + u16" where
  "parseBBB token forWrite =
     bindE (named BBB_MAP token) (\<lambda>v. if forWrite \<and> v = 0 then Inl CsbrReadOnly else Inr v)"

definition isNamedReg :: "(string \<times> u16) list \<Rightarrow> string \<Rightarrow> bool" where
  "isNamedReg tab token \<longleftrightarrow> map_of tab (toUpperCase (trim token)) \<noteq> None"

text \<open>The \<^verbatim>\<open>i\<close>th operand, which is absent beyond the end.\<close>

definition argAt :: "string list \<Rightarrow> nat \<Rightarrow> string option" where
  "argAt args i = (if i < length args then Some (args ! i) else None)"

definition rejectCopySetOrder :: "string \<Rightarrow> (string \<times> u16) list \<Rightarrow> string list \<Rightarrow> asm_error + unit" where
  "rejectCopySetOrder opr tab args =
     (let a0 = (case argAt args 0 of None \<Rightarrow> '''' | Some a \<Rightarrow> a)
      in if isNamedReg tab a0 then Inl (WrongOrder opr) else Inr ())"

definition isCarry :: "string \<Rightarrow> bool" where
  "isCarry token \<longleftrightarrow> toUpperCase (trim token) = ''C''"

definition parseCarrySkip :: "string list \<Rightarrow> nat \<Rightarrow> asm_error + u16 \<times> u16" where
  "parseCarrySkip args startIdx =
     (let (c, i) = (case argAt args startIdx of
                      Some t \<Rightarrow> if isCarry t then (0, startIdx + 1) else (1, startIdx)
                    | None \<Rightarrow> (1, startIdx))
      in case argAt args i of
           Some t \<Rightarrow> bindE (parseSkip (Some t)) (\<lambda>s. Inr (c, s))
         | None \<Rightarrow> Inr (c, 0))"

definition expectArgs :: "string list \<Rightarrow> nat \<Rightarrow> nat \<Rightarrow> asm_error + unit" where
  "expectArgs args nMin nMax =
     (if length args < nMin \<or> length args > nMax then Inl ArgumentCount else Inr ())"

subsection \<open>Values\<close>

text \<open>Operands are evaluated without \<^verbatim>\<open>len()\<close> tables: those calls have been rewritten before.\<close>

definition evalArg :: "symbol_table \<Rightarrow> bool \<Rightarrow> string \<Rightarrow> asm_error + int" where
  "evalArg symbols u s = evalExpr Map.empty {} s symbols u"

definition startsWith :: "char \<Rightarrow> string \<Rightarrow> bool" where
  "startsWith c s \<longleftrightarrow> s \<noteq> [] \<and> hd s = c"

definition endsWith :: "char \<Rightarrow> string \<Rightarrow> bool" where
  "endsWith c s \<longleftrightarrow> s \<noteq> [] \<and> last s = c"

definition requireImmHash :: "string \<Rightarrow> string \<Rightarrow> asm_error + string" where
  "requireImmHash arg what =
     (let t = trim arg
      in if startsWith (CHR ''#'') t then Inr (trim (tl t)) else Inl (HashRequired what))"

definition forbidImmHash :: "string \<Rightarrow> string \<Rightarrow> asm_error + string" where
  "forbidImmHash arg what =
     (let t = trim arg in if startsWith (CHR ''#'') t then Inl (HashForbidden what) else Inr t)"

definition parseImm4 :: "string \<Rightarrow> symbol_table \<Rightarrow> bool \<Rightarrow> asm_error + u16" where
  "parseImm4 arg symbols u =
     bindE (requireImmHash arg ''I4'') (\<lambda>e. bindE (evalArg symbols u e) (\<lambda>v. rangeU4 v ''I4''))"

definition parseImm8 :: "string \<Rightarrow> symbol_table \<Rightarrow> bool \<Rightarrow> asm_error + u16" where
  "parseImm8 arg symbols u =
     bindE (requireImmHash arg ''I8'') (\<lambda>e. bindE (evalArg symbols u e) (\<lambda>v. rangeU8 v ''I8''))"

definition parseIoAddr8 :: "string \<Rightarrow> symbol_table \<Rightarrow> bool \<Rightarrow> asm_error + u16" where
  "parseIoAddr8 arg symbols u =
     (let e = trim (if startsWith (CHR ''#'') arg then tl arg else arg)
      in bindE (evalArg symbols u e) (\<lambda>v. rangeU8 v ''I8''))"

definition parseImm16Value :: "string \<Rightarrow> symbol_table \<Rightarrow> bool \<Rightarrow> asm_error + u16" where
  "parseImm16Value arg symbols u =
     bindE (requireImmHash arg ''IM16'') (\<lambda>e. bindE (evalArg symbols u e) (\<lambda>v. rangeU16 v ''IM16''))"

definition stripBrackets :: "char \<Rightarrow> char \<Rightarrow> string \<Rightarrow> string" where
  "stripBrackets l r t =
     (if startsWith l t \<and> endsWith r t then trim (butlast (tl t)) else t)"

definition stripAddrDecorators :: "string \<Rightarrow> asm_error + string" where
  "stripAddrDecorators arg =
     (let t = trim arg
      in if startsWith (CHR ''#'') t then Inl (HashForbidden arg)
         else
           let t1 = (if startsWith (CHR ''@'') t then trim (tl t) else t)
           in Inr (stripBrackets (CHR ''['') (CHR '']'')
                     (stripBrackets (CHR ''('') (CHR '')'') t1)))"

text \<open>\<^verbatim>\<open>& 0xffff\<close> of the value.\<close>

definition parseImm16 :: "string \<Rightarrow> symbol_table \<Rightarrow> bool \<Rightarrow> asm_error + u16" where
  "parseImm16 arg symbols u =
     bindE (stripAddrDecorators arg) (\<lambda>e. bindE (evalArg symbols u e) (\<lambda>v. Inr (word_of_int v)))"

subsection \<open>Operand syntax\<close>

text \<open>Splitting at the last occurrence of a character.\<close>

definition splitLast :: "char \<Rightarrow> string \<Rightarrow> (string \<times> string) option" where
  "splitLast c s =
     (let r = rev s; after = takeWhile (\<lambda>x. x \<noteq> c) r; before = dropWhile (\<lambda>x. x \<noteq> c) r
      in if before = [] then None else Some (rev (tl before), rev after))"

text \<open>\<^verbatim>\<open>[A-Za-z_][A-Za-z0-9_]*\<close> and the characters that may follow.\<close>

definition isIndexName :: "string \<Rightarrow> bool" where
  "isIndexName s \<longleftrightarrow> s \<noteq> [] \<and> (isLetter (hd s) \<or> hd s = CHR ''_'') \<and>
     list_all (\<lambda>c. isLetter c \<or> isDigit c \<or> c = CHR ''_'') (tl s)"

text \<open>\<^verbatim>\<open>PRE(NAME)\<close>: the text before the last parenthesis and the trimmed name in it.\<close>

definition nameInParens :: "string \<Rightarrow> (string \<times> string) option" where
  "nameInParens t =
     (if endsWith (CHR '')'') t then
        (case splitLast (CHR ''('') (butlast t) of
           Some (pre, inner) \<Rightarrow> if isIndexName (trim inner) then Some (pre, trim inner) else None
         | None \<Rightarrow> None)
      else None)"

text \<open>\<^verbatim>\<open>PRE, NAME\<close> at the last comma.\<close>

definition nameAfterComma :: "string \<Rightarrow> (string \<times> string) option" where
  "nameAfterComma t =
     (case splitLast (CHR '','') t of
        Some (pre, post) \<Rightarrow>
          (let n = dropWhile isJsSpace post in if isIndexName n then Some (pre, n) else None)
      | None \<Rightarrow> None)"

text \<open>\<^verbatim>\<open>(*EXPR)\<close> and \<^verbatim>\<open>[*EXPR]\<close>, and the same without the star.\<close>

definition starIn :: "char \<Rightarrow> char \<Rightarrow> string \<Rightarrow> string option" where
  "starIn l r t =
     (if startsWith l t \<and> endsWith r t then
        (let m = dropWhile isJsSpace (butlast (tl t))
         in if startsWith (CHR ''*'') m \<and> tl m \<noteq> [] then Some (tl m) else None)
      else None)"

definition plainIn :: "char \<Rightarrow> char \<Rightarrow> string \<Rightarrow> string option" where
  "plainIn l r t =
     (if startsWith l t \<and> endsWith r t \<and> butlast (tl t) \<noteq> [] then Some (butlast (tl t)) else None)"

definition trimEnd :: "string \<Rightarrow> string" where
  "trimEnd s = rev (dropWhile isJsSpace (rev s))"

record ea_mode =
  ea_mmm :: u16
  ea_d8 :: u16

definition directMode :: "u16 \<Rightarrow> symbol_table \<Rightarrow> bool \<Rightarrow> string \<Rightarrow> asm_error + ea_mode" where
  "directMode mmm symbols u e =
     bindE (evalArg symbols u e) (\<lambda>v. bindE (rangeU8 v ''EA'') (\<lambda>d. Inr \<lparr>ea_mmm = mmm, ea_d8 = d\<rparr>))"

definition relativeMode :: "u16 \<Rightarrow> int \<Rightarrow> symbol_table \<Rightarrow> bool \<Rightarrow> string \<Rightarrow> asm_error + ea_mode" where
  "relativeMode mmm pcWord symbols u e =
     bindE (evalArg symbols u e) (\<lambda>v.
       bindE (rangeS8 (v - pcWord) ''EA relative'') (\<lambda>d. Inr \<lparr>ea_mmm = mmm, ea_d8 = d\<rparr>))"

text \<open>An index register must be X0 or X1.\<close>

definition indexMode :: "u16 \<Rightarrow> string \<Rightarrow> asm_error + u16" where
  "indexMode base idx =
     (let k = toUpperCase idx
      in if k = ''X0'' then Inr base else if k = ''X1'' then Inr (base + 1)
         else Inl (BadIndexRegister idx))"

definition parseEA_plain :: "string \<Rightarrow> int \<Rightarrow> symbol_table \<Rightarrow> bool \<Rightarrow> asm_error + ea_mode" where
  "parseEA_plain t pcWord symbols u =
     (case starIn (CHR ''('') (CHR '')'') t of Some e \<Rightarrow> directMode 2 symbols u e | None \<Rightarrow>
     (case starIn (CHR ''['') (CHR '']'') t of Some e \<Rightarrow> directMode 2 symbols u e | None \<Rightarrow>
     (case plainIn (CHR ''('') (CHR '')'') t of Some e \<Rightarrow> relativeMode 3 pcWord symbols u e | None \<Rightarrow>
     (case plainIn (CHR ''['') (CHR '']'') t of Some e \<Rightarrow> relativeMode 3 pcWord symbols u e | None \<Rightarrow>
        if startsWith (CHR ''*'') t then directMode 0 symbols u (tl t)
        else relativeMode 1 pcWord symbols u t))))"

definition parseEA :: "string \<Rightarrow> int \<Rightarrow> symbol_table \<Rightarrow> bool \<Rightarrow> asm_error + ea_mode" where
  "parseEA arg pcWord symbols u =
     (let t = trim arg;
          paren = nameInParens t;
          comma = nameAfterComma t;
          starParen = Option.bind paren (\<lambda>(pre, idx).
            map_option (\<lambda>e. (e, idx)) (starIn (CHR ''('') (CHR '')'') (trimEnd pre)));
          starBracket = Option.bind comma (\<lambda>(pre, idx).
            map_option (\<lambda>e. (e, idx)) (starIn (CHR ''['') (CHR '']'') (trimEnd pre)))
      in case starParen of
           Some (e, idx) \<Rightarrow> bindE (indexMode 6 idx) (\<lambda>mmm. directMode mmm symbols u e)
         | None \<Rightarrow>
      (case starBracket of
         Some (e, idx) \<Rightarrow> bindE (indexMode 6 idx) (\<lambda>mmm. directMode mmm symbols u e)
       | None \<Rightarrow>
      (case paren of
         Some (c # cs, idx) \<Rightarrow> bindE (indexMode 4 idx) (\<lambda>mmm. directMode mmm symbols u (c # cs))
       | _ \<Rightarrow>
      (case comma of
         Some (c # cs, idx) \<Rightarrow>
           (case indexMode 4 idx of
              Inr mmm \<Rightarrow> directMode mmm symbols u (c # cs)
            | Inl _ \<Rightarrow> parseEA_plain t pcWord symbols u)
       | _ \<Rightarrow> parseEA_plain t pcWord symbols u))))"

text \<open>\<^verbatim>\<open>ADDR(BRn)\<close>.\<close>

definition parseAddrWithBB :: "string \<Rightarrow> (u16 \<times> string) option" where
  "parseAddrWithBB arg =
     (case nameInParens (trim arg) of
        Some (c # cs, nm) \<Rightarrow>
          map_option (\<lambda>bb. (bb, trim (c # cs))) (map_of BB_MAP (toUpperCase nm))
      | _ \<Rightarrow> None)"

text \<open>\<^verbatim>\<open>(Ri)\<close> with the register field.\<close>

definition parenRi :: "string \<Rightarrow> u16 option" where
  "parenRi t =
     (if startsWith (CHR ''('') t \<and> endsWith (CHR '')'') t
      then map_of II_MAP (toUpperCase (trim (butlast (tl t)))) else None)"

record indirect_reg =
  ir_ii :: u16
  ir_mm :: u16

definition parseIndirect :: "string \<Rightarrow> asm_error + indirect_reg" where
  "parseIndirect arg =
     (let t = trim arg;
          pre = (if startsWith (CHR ''-'') t then parenRi (tl t) else None);
          post = (if endsWith (CHR ''+'') t then parenRi (butlast t) else None);
          plain = parenRi (if startsWith (CHR ''@'') t then tl t else t)
      in case pre of Some ii \<Rightarrow> Inr \<lparr>ir_ii = ii, ir_mm = 2\<rparr> | None \<Rightarrow>
        (case post of Some ii \<Rightarrow> Inr \<lparr>ir_ii = ii, ir_mm = 3\<rparr> | None \<Rightarrow>
        (case plain of Some ii \<Rightarrow> Inr \<lparr>ir_ii = ii, ir_mm = 1\<rparr> | None \<Rightarrow>
           Inl (BadIndirect arg))))"

definition requireDr0 :: "string \<Rightarrow> asm_error + unit" where
  "requireDr0 arg = (if toUpperCase (trim arg) \<noteq> ''DR0'' then Inl (NotDr0 arg) else Inr ())"

definition parseDr0MemRi :: "string \<Rightarrow> asm_error + u16" where
  "parseDr0MemRi arg =
     bindE (parseIndirect arg) (\<lambda>i. if ir_mm i \<noteq> 1 then Inl (BadIndirect arg) else Inr (ir_ii i))"

subsection \<open>Words\<close>

definition op5 :: "u16 \<Rightarrow> u16 \<Rightarrow> u16 \<Rightarrow> u16 \<Rightarrow> u16" where
  "op5 opc ddd skp tail =
     push_bit 11 (opc AND 0x1F) OR push_bit 8 (ddd AND 0x7) OR push_bit 4 (skp AND 0xF)
     OR (tail AND 0xF)"

definition encodeMem :: "u16 \<Rightarrow> u16 \<Rightarrow> u16 \<Rightarrow> u16 \<Rightarrow> u16" where
  "encodeMem bit1 mmm rrr d8 =
     push_bit 15 1 OR push_bit 14 (bit1 AND 1) OR push_bit 11 (mmm AND 0x7)
     OR push_bit 8 (rrr AND 0x7) OR (d8 AND 0xFF)"

text \<open>The chunks of AI and SI: 15 at a time.\<close>

fun imm4Chunks :: "nat \<Rightarrow> nat list" where
  "imm4Chunks remain = (if remain = 0 then [] else min 15 remain # imm4Chunks (remain - min 15 remain))"

declare imm4Chunks.simps [simp del]

definition splitAiSiImm4Chunks ::
  "string \<Rightarrow> string list \<Rightarrow> symbol_table \<Rightarrow> bool \<Rightarrow> asm_error + nat list option" where
  "splitAiSiImm4Chunks opr args symbols u =
     (if toUpperCase opr \<noteq> ''AI'' \<and> toUpperCase opr \<noteq> ''SI'' then Inr None
      else if length args \<noteq> 2 then Inr None
      else
        bindE (requireImmHash (args ! 1) ''I4'') (\<lambda>e.
        bindE (evalArg symbols u e) (\<lambda>imm.
          if imm < 0 then Inl (OutOfRange ''I4'')
          else if imm \<le> 0x0F then Inr (Some [nat imm])
          else Inr (Some (imm4Chunks (nat imm))))))"

subsection \<open>Shapes of instructions\<close>

text \<open>
  The cases of the \<^verbatim>\<open>switch\<close> of \<^verbatim>\<open>encodeInstruction\<close>, one definition for each shape they repeat.
  An operand that the count has made sure of is \<open>args ! i\<close>.
\<close>

definition eaText :: "string list \<Rightarrow> nat \<Rightarrow> string" where
  "eaText args i = (if length args = i + 2 then args ! i @ '', '' @ args ! (i + 1) else args ! i)"

text \<open>L and ST; B, BAL, IMS and DMS.\<close>

definition encLoadStore ::
  "u16 \<Rightarrow> string list \<Rightarrow> int \<Rightarrow> symbol_table \<Rightarrow> bool \<Rightarrow> asm_error + u16 list" where
  "encLoadStore bit1 args pc symbols u =
     bindE (expectArgs args 2 3) (\<lambda>_.
     bindE (parseReg (args ! 0) False) (\<lambda>r.
     bindE (parseEA (eaText args 1) pc symbols u) (\<lambda>ea.
       Inr [encodeMem bit1 (ea_mmm ea) r (ea_d8 ea)])))"

definition encBranchMem ::
  "u16 \<Rightarrow> u16 \<Rightarrow> string list \<Rightarrow> int \<Rightarrow> symbol_table \<Rightarrow> bool \<Rightarrow> asm_error + u16 list" where
  "encBranchMem bit1 rrr args pc symbols u =
     bindE (expectArgs args 1 2) (\<lambda>_.
     bindE (parseEA (eaText args 0) pc symbols u) (\<lambda>ea.
       Inr [encodeMem bit1 (ea_mmm ea) rrr (ea_d8 ea)]))"

text \<open>The register-register instructions.\<close>

definition REG_REG :: "(string \<times> u16 \<times> u16) list" where
  "REG_REG = [(''A'', 0x0B, 8), (''S'', 0x0B, 0), (''C'', 0x0A, 8), (''CB'', 0x0A, 0),
     (''MV'', 0x0F, 8), (''MVB'', 0x0F, 0), (''BSWP'', 0x0E, 8), (''DSWP'', 0x0E, 0),
     (''LAD'', 0x0D, 0), (''AND'', 0x0D, 8), (''OR'', 0x0C, 8), (''EOR'', 0x0C, 0)]"

definition encRegReg :: "u16 \<Rightarrow> u16 \<Rightarrow> string list \<Rightarrow> asm_error + u16 list" where
  "encRegReg opc base args =
     bindE (expectArgs args 2 3) (\<lambda>_.
     bindE (parseReg (args ! 0) True) (\<lambda>rd.
     bindE (parseReg (args ! 1) True) (\<lambda>rs.
     bindE (parseSkip (argAt args 2)) (\<lambda>skp. Inr [op5 opc rd skp (base OR rs)]))))"

text \<open>The shifts: a second operand that names a skip condition is one, else it is an E mode.\<close>

definition encShift :: "u16 \<Rightarrow> string list \<Rightarrow> asm_error + u16 list" where
  "encShift tailBase args =
     bindE (expectArgs args 1 3) (\<lambda>_.
     bindE (parseReg (args ! 0) True) (\<lambda>r.
     bindE (if length args = 2 then
              (case map_of SKIP_MAP (toUpperCase (args ! 1)) of
                 Some k \<Rightarrow> Inr (0, k)
               | None \<Rightarrow> bindE (parseEm (argAt args 1)) (\<lambda>em. Inr (em, 0)))
            else if length args = 3 then
              bindE (parseEm (argAt args 1)) (\<lambda>em.
              bindE (parseSkip (argAt args 2)) (\<lambda>skp. Inr (em, skp)))
            else Inr (0, 0)) (\<lambda>(em, skp).
       Inr [push_bit 11 4 OR push_bit 8 r OR push_bit 4 skp OR tailBase OR em])))"

definition encBit :: "u16 \<Rightarrow> string list \<Rightarrow> symbol_table \<Rightarrow> bool \<Rightarrow> asm_error + u16 list" where
  "encBit opc args symbols u =
     bindE (expectArgs args 2 3) (\<lambda>_.
     bindE (parseReg (args ! 0) True) (\<lambda>r.
     bindE (parseImm4 (args ! 1) symbols u) (\<lambda>i4.
     bindE (parseSkip (argAt args 2)) (\<lambda>skp.
       Inr [push_bit 11 opc OR push_bit 8 r OR push_bit 4 skp OR i4]))))"

definition encAiSi :: "string \<Rightarrow> string list \<Rightarrow> symbol_table \<Rightarrow> bool \<Rightarrow> asm_error + u16 list" where
  "encAiSi opr args symbols u =
     bindE (expectArgs args 2 3) (\<lambda>_.
     bindE (parseReg (args ! 0) True) (\<lambda>r.
     bindE (parseSkip (argAt args 2)) (\<lambda>skp.
       let base = push_bit 11 (if opr = ''AI'' then 9 else 8) OR push_bit 8 r OR push_bit 4 skp
       in bindE (splitAiSiImm4Chunks opr args symbols u) (\<lambda>chunks.
            case chunks of
              Some cs \<Rightarrow> Inr (map (\<lambda>i4. base OR of_nat i4) cs)
            | None \<Rightarrow> bindE (parseImm4 (args ! 1) symbols u) (\<lambda>i4. Inr [base OR i4])))))"

definition encFixed :: "u16 \<Rightarrow> string list \<Rightarrow> asm_error + u16 list" where
  "encFixed w args = bindE (expectArgs args 0 0) (\<lambda>_. Inr [w])"

definition encLpsw :: "string list \<Rightarrow> symbol_table \<Rightarrow> bool \<Rightarrow> asm_error + u16 list" where
  "encLpsw args symbols u =
     bindE (expectArgs args 1 1) (\<lambda>_.
     bindE (forbidImmHash (args ! 0) ''LPSW level'') (\<lambda>e.
     bindE (evalArg symbols u e) (\<lambda>v.
     bindE (rangeU2 v ''LPSW level'') (\<lambda>ll. Inr [push_bit 11 4 OR 0x04 OR ll]))))"

text \<open>PUSH and POP; RD, WT and MVI.\<close>

definition encOneReg :: "u16 \<Rightarrow> string list \<Rightarrow> asm_error + u16 list" where
  "encOneReg tail args =
     bindE (expectArgs args 1 1) (\<lambda>_.
     bindE (parseReg (args ! 0) True) (\<lambda>r. Inr [push_bit 11 4 OR push_bit 8 r OR tail]))"

definition encIo :: "u16 \<Rightarrow> string list \<Rightarrow> symbol_table \<Rightarrow> bool \<Rightarrow> asm_error + u16 list" where
  "encIo opc args symbols u =
     bindE (expectArgs args 2 2) (\<lambda>_.
     bindE (parseReg (args ! 0) True) (\<lambda>r.
     bindE (parseIoAddr8 (args ! 1) symbols u) (\<lambda>p. Inr [push_bit 11 opc OR push_bit 8 r OR p])))"

definition encMvi :: "string list \<Rightarrow> symbol_table \<Rightarrow> bool \<Rightarrow> asm_error + u16 list" where
  "encMvi args symbols u =
     bindE (expectArgs args 2 2) (\<lambda>_.
     bindE (parseReg (args ! 0) True) (\<lambda>r.
     bindE (parseImm8 (args ! 1) symbols u) (\<lambda>i. Inr [push_bit 11 1 OR push_bit 8 r OR i])))"

text \<open>LD and STD.\<close>

definition encLong :: "u16 \<Rightarrow> string list \<Rightarrow> symbol_table \<Rightarrow> bool \<Rightarrow> asm_error + u16 list" where
  "encLong w args symbols u =
     bindE (expectArgs args 2 3) (\<lambda>_.
     bindE (parseReg (args ! 0) False) (\<lambda>rrr.
     bindE (if length args = 2 then
              (case parseAddrWithBB (args ! 1) of
                 Some (bb, addr) \<Rightarrow> bindE (parseImm16 addr symbols u) (\<lambda>ad16. Inr (bb, ad16))
               | None \<Rightarrow> bindE (parseImm16 (args ! 1) symbols u) (\<lambda>ad16. Inr (0, ad16)))
            else
              bindE (parseBB (args ! 1)) (\<lambda>bb.
              bindE (parseImm16 (args ! 2) symbols u) (\<lambda>ad16. Inr (bb, ad16)))) (\<lambda>(bb, ad16).
       Inr [w OR push_bit 4 bb OR 0x08 OR rrr, ad16])))"

definition encodeLRSTR :: "u16 \<Rightarrow> string list \<Rightarrow> asm_error + u16 list" where
  "encodeLRSTR indirBit args =
     bindE (expectArgs args 2 3) (\<lambda>_.
     bindE (parseReg (args ! 0) True) (\<lambda>rrr.
     bindE (if length args = 2 then Inr 0 else parseBB (args ! 1)) (\<lambda>bb.
     bindE (parseIndirect (args ! (length args - 1))) (\<lambda>i.
       Inr [push_bit 11 4 OR push_bit 8 rrr OR push_bit 6 (ir_mm i) OR push_bit 4 bb OR indirBit
            OR ir_ii i]))))"

text \<open>The instructions on R0 and \<^verbatim>\<open>(Ri)\<close>, and those with an immediate word.\<close>

definition R_INDIRECT :: "(string \<times> u16 \<times> u16) list" where
  "R_INDIRECT = [(''MVWR'', 0x0F, 8), (''MVBR'', 0x0F, 0), (''BSWR'', 0x0E, 8), (''DSWR'', 0x0E, 0),
     (''AWR'', 0x0B, 8), (''SWR'', 0x0B, 0), (''CWR'', 0x0A, 8), (''CBR'', 0x0A, 0),
     (''LADR'', 0x0D, 0), (''ANDR'', 0x0D, 8), (''ORR'', 0x0C, 8), (''EORR'', 0x0C, 0),
     (''FA'', 0x0D, 0xC), (''FS'', 0x0D, 4), (''FM'', 0x0C, 0xC), (''FD'', 0x0C, 4)]"

definition encodeRindirect :: "u16 \<Rightarrow> u16 \<Rightarrow> string list \<Rightarrow> asm_error + u16 list" where
  "encodeRindirect opc tailBase args =
     bindE (expectArgs args 2 3) (\<lambda>_.
     bindE (parseIndirect (args ! 1)) (\<lambda>i.
     bindE (if 2 < length args then parseSkip (argAt args 2) else Inr 0) (\<lambda>skp.
       Inr [op5 opc 7 skp (tailBase OR ir_ii i)])))"

definition IMM_WORD :: "(string \<times> u16 \<times> u16) list" where
  "IMM_WORD = [(''MVWI'', 0x0F, 7), (''AWI'', 0x0B, 0xF), (''SWI'', 0x0B, 7), (''CWI'', 0x0A, 0xF),
     (''CBI'', 0x0A, 7), (''LADI'', 0x0D, 7), (''ANDI'', 0x0D, 0xF), (''ORI'', 0x0C, 0xF),
     (''EORI'', 0x0C, 7)]"

definition encImmWord ::
  "u16 \<Rightarrow> u16 \<Rightarrow> string list \<Rightarrow> symbol_table \<Rightarrow> bool \<Rightarrow> asm_error + u16 list" where
  "encImmWord opc tail args symbols u =
     bindE (expectArgs args 2 3) (\<lambda>_.
     bindE (parseReg (args ! 0) True) (\<lambda>rd.
     bindE (parseSkip (argAt args 2)) (\<lambda>skp.
     bindE (parseImm16Value (args ! 1) symbols u) (\<lambda>im16. Inr [op5 opc rd skp tail, im16]))))"

definition encNeg :: "string list \<Rightarrow> asm_error + u16 list" where
  "encNeg args =
     bindE (expectArgs args 1 3) (\<lambda>_.
     bindE (parseReg (args ! 0) True) (\<lambda>rd.
     bindE (parseCarrySkip args 1) (\<lambda>(c, skp).
       Inr [push_bit 11 3 OR push_bit 8 7 OR push_bit 4 skp OR push_bit 3 c OR rd])))"

text \<open>AD and SD; M and D; DAA and DAS; FIX and FLT.\<close>

definition encDouble :: "u16 \<Rightarrow> string list \<Rightarrow> asm_error + u16 list" where
  "encDouble opc args =
     bindE (expectArgs args 2 4) (\<lambda>_.
     bindE (requireDr0 (args ! 0)) (\<lambda>_.
     bindE (parseDr0MemRi (args ! 1)) (\<lambda>ii.
     bindE (parseCarrySkip args 2) (\<lambda>(c, skp). Inr [op5 opc 7 skp (push_bit 3 c OR 0x04 OR ii)]))))"

definition encMulDiv :: "u16 \<Rightarrow> string list \<Rightarrow> asm_error + u16 list" where
  "encMulDiv opc args =
     bindE (expectArgs args 2 3) (\<lambda>_.
     bindE (requireDr0 (args ! 0)) (\<lambda>_.
     bindE (parseDr0MemRi (args ! 1)) (\<lambda>ii.
     bindE (if length args > 2 then parseSkip (argAt args 2) else Inr 0) (\<lambda>skp.
       Inr [op5 opc 7 skp (0x0C OR ii)]))))"

definition encDecimal :: "u16 \<Rightarrow> string list \<Rightarrow> asm_error + u16 list" where
  "encDecimal opc args =
     bindE (expectArgs args 2 4) (\<lambda>_.
     bindE (parseIndirect (args ! 1)) (\<lambda>i.
     bindE (parseCarrySkip args 2) (\<lambda>(c, skp).
       Inr [op5 opc 7 skp (push_bit 3 c OR 0x04 OR ir_ii i)])))"

definition encConvert :: "u16 \<Rightarrow> string list \<Rightarrow> asm_error + u16 list" where
  "encConvert tail args =
     bindE (expectArgs args 2 3) (\<lambda>_.
     bindE (parseSkip (argAt args 2)) (\<lambda>skp.
       Inr [push_bit 11 3 OR push_bit 8 7 OR push_bit 4 skp OR tail]))"

text \<open>Long branches; BR and BALR; RDR and WTR.\<close>

definition encBranch16 :: "u16 \<Rightarrow> string list \<Rightarrow> symbol_table \<Rightarrow> bool \<Rightarrow> asm_error + u16 list" where
  "encBranch16 w args symbols u =
     bindE (expectArgs args 1 1) (\<lambda>_.
     bindE (parseImm16 (args ! 0) symbols u) (\<lambda>ad16. Inr [w, ad16]))"

definition encBranchRi :: "u16 \<Rightarrow> string list \<Rightarrow> asm_error + u16 list" where
  "encBranchRi tail args =
     bindE (expectArgs args 1 1) (\<lambda>_.
     bindE (parseIndirect (args ! 0)) (\<lambda>i. Inr [push_bit 11 4 OR push_bit 8 7 OR tail OR ir_ii i]))"

definition encIoRi :: "u16 \<Rightarrow> string list \<Rightarrow> asm_error + u16 list" where
  "encIoRi tail args =
     bindE (expectArgs args 2 2) (\<lambda>_.
     bindE (parseReg (args ! 0) True) (\<lambda>r.
     bindE (parseIndirect (args ! 1)) (\<lambda>i. Inr [push_bit 11 4 OR push_bit 8 r OR tail OR ir_ii i])))"

text \<open>TSET and TRST; SRBT and DEBP.\<close>

definition encTest :: "u16 \<Rightarrow> string list \<Rightarrow> symbol_table \<Rightarrow> bool \<Rightarrow> asm_error + u16 list" where
  "encTest tail args symbols u =
     bindE (expectArgs args 2 3) (\<lambda>_.
     bindE (parseReg (args ! 0) True) (\<lambda>rs.
     bindE (parseSkip (argAt args 2)) (\<lambda>skp.
     bindE (parseImm16 (args ! 1) symbols u) (\<lambda>ad16.
       Inr [push_bit 11 2 OR push_bit 8 7 OR push_bit 4 skp OR tail OR rs, ad16]))))"

definition encBitReg :: "u16 \<Rightarrow> nat \<Rightarrow> string list \<Rightarrow> asm_error + u16 list" where
  "encBitReg w i args =
     bindE (expectArgs args 2 2) (\<lambda>_. bindE (parseReg (args ! i) True) (\<lambda>r. Inr [w OR r]))"

text \<open>
  The moves of special registers: from and to memory, and between registers.  The name is
  parsed by \<open>nm\<close>; \<open>tab\<close> is the table whose names must not come first.
\<close>

definition encSpecialMem ::
  "u16 \<Rightarrow> (string \<Rightarrow> asm_error + u16) \<Rightarrow> string list \<Rightarrow> symbol_table \<Rightarrow> bool \<Rightarrow> asm_error + u16 list" where
  "encSpecialMem w nm args symbols u =
     bindE (expectArgs args 2 2) (\<lambda>_.
     bindE (nm (args ! 0)) (\<lambda>b.
     bindE (parseImm16 (args ! 1) symbols u) (\<lambda>ad16. Inr [w OR push_bit 4 b, ad16])))"

definition encSpecialReg ::
  "string \<Rightarrow> u16 \<Rightarrow> (string \<times> u16) list \<Rightarrow> (string \<Rightarrow> asm_error + u16) \<Rightarrow> string list \<Rightarrow> asm_error + u16 list" where
  "encSpecialReg opr w tab nm args =
     bindE (expectArgs args 2 2) (\<lambda>_.
     bindE (rejectCopySetOrder opr tab args) (\<lambda>_.
     bindE (parseReg (args ! 0) True) (\<lambda>r.
     bindE (nm (args ! 1)) (\<lambda>b. Inr [w OR push_bit 4 b OR r]))))"

subsection \<open>The instruction\<close>

text \<open>The \<^verbatim>\<open>switch\<close> in four parts, in the order of the code.\<close>

definition encodeSpecial ::
  "string \<Rightarrow> string list \<Rightarrow> symbol_table \<Rightarrow> bool \<Rightarrow> asm_error + u16 list" where
  "encodeSpecial opr args symbols u =
     (if opr = ''TSET'' then encTest 8 args symbols u
      else if opr = ''TRST'' then encTest 0 args symbols u
      else if opr = ''SRBT'' then encBitReg 0x3F70 1 args
      else if opr = ''DEBP'' then encBitReg 0x3FF0 0 args
      else if opr = ''BLK'' then encFixed 0x3F17 args
      else if opr = ''RDR'' then encIoRi 0x14 args
      else if opr = ''WTR'' then encIoRi 0x10 args
      else if opr = ''LB'' then encSpecialMem 0x0F07 (\<lambda>t. parseBBB t False) args symbols u
      else if opr = ''LS'' then encSpecialMem 0x0F0F parsePPP args symbols u
      else if opr = ''STB'' then encSpecialMem 0x0F87 (\<lambda>t. parseBBB t True) args symbols u
      else if opr = ''STS'' then encSpecialMem 0x0F8F parsePPP args symbols u
      else if opr = ''CPYB'' then encSpecialReg ''CPYB'' 0x0F80 BBB_MAP (\<lambda>t. parseBBB t False) args
      else if opr = ''CPYS'' then encSpecialReg ''CPYS'' 0x0F88 PPP_MAP parsePPP args
      else if opr = ''CPYH'' then encSpecialReg ''CPYH'' 0x3F80 HHH_MAP parseHHH args
      else if opr = ''SETB'' then encSpecialReg ''SETB'' 0x0F00 BBB_MAP (\<lambda>t. parseBBB t True) args
      else if opr = ''SETS'' then encSpecialReg ''SETS'' 0x0F08 PPP_MAP parsePPP args
      else if opr = ''SETH'' then encSpecialReg ''SETH'' 0x3F00 HHH_MAP parseHHH args
      else Inl (UnsupportedOpcode opr))"

definition encodeBranch ::
  "string \<Rightarrow> string list \<Rightarrow> symbol_table \<Rightarrow> bool \<Rightarrow> asm_error + u16 list" where
  "encodeBranch opr args symbols u =
     (if opr = ''BD'' then encBranch16 0x2607 args symbols u
      else if opr = ''BL'' then encBranch16 0x270F args symbols u
      else if opr = ''BR'' then encBranchRi 0x04 args
      else if opr = ''BALD'' then encBranch16 0x2617 args symbols u
      else if opr = ''BALL'' then encBranch16 0x271F args symbols u
      else if opr = ''BALR'' then encBranchRi 0x14 args
      else if opr = ''RETL'' then encFixed 0x3F07 args
      else encodeSpecial opr args symbols u)"

definition encodeExtended ::
  "string \<Rightarrow> string list \<Rightarrow> symbol_table \<Rightarrow> bool \<Rightarrow> asm_error + u16 list" where
  "encodeExtended opr args symbols u =
     (if opr = ''LD'' then encLong 0x2700 args symbols u
      else if opr = ''STD'' then encLong 0x2740 args symbols u
      else if opr = ''LR'' then encodeLRSTR 0 args
      else if opr = ''STR'' then encodeLRSTR 4 args
      else if opr = ''PSHM'' then encFixed 0x170F args
      else if opr = ''POPM'' then encFixed 0x1707 args
      else if opr = ''NEG'' then encNeg args
      else if opr = ''AD'' then encDouble 9 args
      else if opr = ''SD'' then encDouble 8 args
      else if opr = ''M'' then encMulDiv 0x0F args
      else if opr = ''D'' then encMulDiv 0x0E args
      else if opr = ''DAA'' then encDecimal 0x0B args
      else if opr = ''DAS'' then encDecimal 0x0A args
      else if opr = ''FIX'' then encConvert 0x04 args
      else if opr = ''FLT'' then encConvert 0x0C args
      else
        (case map_of R_INDIRECT opr of Some (opc, tail) \<Rightarrow> encodeRindirect opc tail args
         | None \<Rightarrow>
        (case map_of IMM_WORD opr of Some (opc, tail) \<Rightarrow> encImmWord opc tail args symbols u
         | None \<Rightarrow> encodeBranch opr args symbols u)))"

definition encodeBasic ::
  "string \<Rightarrow> string list \<Rightarrow> int \<Rightarrow> symbol_table \<Rightarrow> bool \<Rightarrow> asm_error + u16 list" where
  "encodeBasic opr args pc symbols u =
     (if opr = ''L'' then encLoadStore 1 args pc symbols u
      else if opr = ''ST'' then encLoadStore 0 args pc symbols u
      else if opr = ''B'' then encBranchMem 1 7 args pc symbols u
      else if opr = ''BAL'' then encBranchMem 0 7 args pc symbols u
      else if opr = ''IMS'' then encBranchMem 1 6 args pc symbols u
      else if opr = ''DMS'' then encBranchMem 0 6 args pc symbols u
      else if opr = ''SR'' then encShift 8 args
      else if opr = ''SL'' then encShift 12 args
      else if opr = ''TBIT'' then encBit 5 args symbols u
      else if opr = ''RBIT'' then encBit 6 args symbols u
      else if opr = ''SBIT'' then encBit 7 args symbols u
      else if opr = ''AI'' \<or> opr = ''SI'' then encAiSi opr args symbols u
      else if opr = ''LPSW'' then encLpsw args symbols u
      else if opr = ''H'' then encFixed 0x2000 args
      else if opr = ''PUSH'' then encOneReg 1 args
      else if opr = ''POP'' then encOneReg 2 args
      else if opr = ''RET'' then encFixed 0x2003 args
      else if opr = ''RD'' then encIo 3 args symbols u
      else if opr = ''WT'' then encIo 2 args symbols u
      else if opr = ''MVI'' then encMvi args symbols u
      else
        (case map_of REG_REG opr of Some (opc, base) \<Rightarrow> encRegReg opc base args
         | None \<Rightarrow> encodeExtended opr args symbols u))"

definition encodeInstruction ::
  "string \<Rightarrow> string list \<Rightarrow> int \<Rightarrow> symbol_table \<Rightarrow> bool \<Rightarrow> asm_error + u16 list" where
  "encodeInstruction lineOp args pc symbols u =
     (if lineOp = [] then Inl MissingOpcode
      else encodeBasic (toUpperCase lineOp) args pc symbols u)"

subsection \<open>Size\<close>

text \<open>The number of words that the first pass of the assembler reserves for a line.\<close>

definition instructionSize :: "string \<Rightarrow> string list \<Rightarrow> symbol_table \<Rightarrow> asm_error + nat" where
  "instructionSize lineOp args symbols =
     bindE (splitAiSiImm4Chunks lineOp args symbols True) (\<lambda>chunks.
       case chunks of
         Some cs \<Rightarrow> Inr (length cs)
       | None \<Rightarrow> Inr (if toUpperCase lineOp \<in> set TWO_WORD_OPS then 2 else 1))"

end
