(* ===== verification/Encoder_Text.thy ===== *)
theory Encoder_Text
  imports Asm_Encoder Mn1613_Disassembler
begin

text \<open>
  The operand texts that the disassembler prints, read by the assembler: numbers evaluate to
  themselves, names of registers and skip conditions parse back to their codes, and the forms
  of an effective address are recognised.
\<close>

subsection \<open>Printed numbers\<close>

text \<open>The digits that are printed.\<close>

definition hexLower :: "string" where
  "hexLower = ''0123456789abcdef''"

lemma hexDigit_in: "d < 16 \<Longrightarrow> hexDigit d \<in> set hexLower"
  using nth_mem [of d hexLower] by (simp add: hexDigit_def hexLower_def)

lemma set_toString16: "set (toString16 n) \<subseteq> set hexLower"
proof (induction n rule: toString16.induct)
  case (1 n)
  then show ?case
    by (subst toString16.simps) (auto simp: hexDigit_in)
qed

lemma toString16_nonempty [simp]: "toString16 n \<noteq> []"
  by (subst toString16.simps) simp

lemma set_padStart0: "set s \<subseteq> set hexLower \<Longrightarrow> set (padStart0 n s) \<subseteq> set hexLower"
  by (auto simp: padStart0_def hexLower_def)

lemma charDigit_hexDigit: "d < 16 \<Longrightarrow> charDigit (hexDigit d) = int d"
proof -
  have "\<forall>d<16. charDigit (hexDigit d) = int d"
    unfolding all_less_16 by (simp add: hexDigit_def charDigit_def)
  then show "d < 16 \<Longrightarrow> charDigit (hexDigit d) = int d" by blast
qed

lemma positional_snoc: "positional b (s @ [c]) = b * positional b s + charDigit c"
  by (simp add: positional_def)

lemma positional_toString16: "positional 16 (toString16 n) = int n"
proof (induction n rule: toString16.induct)
  case (1 n)
  then show ?case
    by (subst toString16.simps)
      (simp add: positional_snoc charDigit_hexDigit positional_def [of _ "[_]"] zdiv_int zmod_int)
qed

lemma positional_pad: "positional b (padStart0 k s) = positional b s"
proof -
  have "foldl (\<lambda>acc c. b * acc + charDigit c) 0 (replicate n (CHR ''0'')) = 0" for n
    by (induction n) (simp_all add: charDigit_def)
  then show ?thesis by (simp add: positional_def padStart0_def)
qed

lemma positional_decimal: "positional 10 (decimal n) = int n"
proof (induction n rule: decimal.induct)
  case (1 n)
  then show ?case
    by (subst decimal.simps)
      (simp add: positional_snoc charDigit_hexDigit positional_def [of _ "[_]"] zdiv_int zmod_int)
qed

subsection \<open>Printed numbers as expressions\<close>

text \<open>The characters of printed numbers: no L, quote, white space, bracket or sign.\<close>

definition numChar :: "char \<Rightarrow> bool" where
  "numChar c \<longleftrightarrow> upperChar c \<noteq> CHR ''L'' \<and> c \<noteq> CHR 0x27 \<and> \<not> isJsSpace c \<and> c \<notin> set ''()[]*,#@-+''"

lemma numChar_lower: "c \<in> set hexLower \<Longrightarrow> numChar c"
proof -
  have "list_all numChar hexLower"
    by (simp add: hexLower_def numChar_def upperChar_def isJsSpace_def)
  then show "c \<in> set hexLower \<Longrightarrow> numChar c" by (simp add: list_all_iff)
qed

lemma numChar_x [simp]: "numChar (CHR ''x'')"
  by (simp add: numChar_def upperChar_def isJsSpace_def)

lemma numChar_0 [simp]: "numChar (CHR ''0'')"
  by (rule numChar_lower) (simp add: hexLower_def)

lemma lenCall_None: "list_all (\<lambda>c. upperChar c \<noteq> CHR ''L'') s \<Longrightarrow> lenCall s = None"
  by (cases s) (auto simp: lenCall_def toUpperCase_def)

lemma substLenCalls_id:
  "list_all (\<lambda>c. upperChar c \<noteq> CHR ''L'') s \<Longrightarrow> substLenCalls ls gs prv s = Inr s"
proof (induction s arbitrary: prv)
  case Nil
  then show ?case by (simp add: substLenCalls.simps [of _ _ _ "[]"])
next
  case (Cons c cs)
  have "lenCall (c # cs) = None" by (rule lenCall_None) (use Cons.prems in simp)
  then have "substLenCalls ls gs prv (c # cs) =
      bindE (substLenCalls ls gs (Some c) cs) (\<lambda>out. Inr (c # out))"
    by (subst substLenCalls.simps) simp
  then show ?case using Cons by simp
qed

lemma substCharLiterals_id: "CHR 0x27 \<notin> set s \<Longrightarrow> substCharLiterals s = Inr s"
  by (induction s) auto

lemma evalTokens_number:
  assumes "parseNumber t = Some n" and "t \<notin> {''('', ''+'', ''-'', ''~''}"
  shows "evalTokens symbols u [t] = Some (Inr n)"
  using assms by (simp add: evalTokens_def exprFuel_def eval_nat_numeral levelOps_def)

lemma trim_id: "s \<noteq> [] \<Longrightarrow> \<not> isJsSpace (hd s) \<Longrightarrow> \<not> isJsSpace (last s) \<Longrightarrow> trim s = s"
proof -
  assume a: "s \<noteq> []" "\<not> isJsSpace (hd s)" "\<not> isJsSpace (last s)"
  have "dropWhile isJsSpace s = s" using a by (cases s) auto
  moreover have "dropWhile isJsSpace (rev s) = rev s" using a by (cases s rule: rev_cases) auto
  ultimately show "trim s = s" by (simp add: trim_def)
qed

lemma isHex_lower: "c \<in> set hexLower \<Longrightarrow> isHex c"
  unfolding hexLower_def by (auto simp: isHex_def isDigit_def inRange_def)

lemma hexText_expression:
  assumes "set ds \<subseteq> set hexLower" and "ds \<noteq> []" and "\<bar>positional 16 ds\<bar> \<le> 2 ^ 53"
  shows "evalExpr ls gs (''0x'' @ ds) symbols u = Inr (positional 16 ds)"
proof -
  let ?s = "''0x'' @ ds"
  have n: "list_all numChar ?s" using assms(1) numChar_lower by (auto simp: list_all_iff)
  have p: "list_all (\<lambda>c. upperChar c \<noteq> CHR ''L'') ?s" "CHR 0x27 \<notin> set ?s"
    "list_all (\<lambda>c. \<not> isJsSpace c) ?s"
    using n unfolding list_all_iff by (blast dest: numChar_def [THEN iffD1])+
  have hex: "list_all isHex ds" using assms(1) isHex_lower by (auto simp: list_all_iff)
  have tw: "takeWhile isHex ds = ds" using hex by (simp add: list_all_iff)
  have "prefixed {CHR ''x'', CHR ''X''} isHex ?s = Some (length ?s)"
    using assms(2) by (simp add: prefixed_def tw del: takeWhile_eq_all_conv)
  then have "tokenLength ?s = Some (length ?s)"
    by (simp add: tokenLength_def isIdentStart_def isLetter_def inRange_def)
  then have tok: "tokenize ?s = [?s]"
    by (subst tokenize.simps) (simp add: tokenize.simps [of "[]"])
  have "last ?s \<in> set ds" using assms(2) by simp
  then have "trim ?s = ?s" using p(3) by (intro trim_id) (auto simp: list_all_iff)
  then have "parseNumber ?s = Some (positional 16 ds)"
    using hex assms by (simp add: parseNumber_def allOf_def parseInt_def rndInt_small Let_def)
  then show ?thesis
    by (simp only: evalExpr_def substLenCalls_id [OF p(1)] substCharLiterals_id [OF p(2)] tok
        bindE_simps evalTokens_number option.sel) (subst evalTokens_number, simp_all)
qed

text \<open>A printed number: it starts with a zero and has only characters of numbers.\<close>

definition numText :: "string \<Rightarrow> bool" where
  "numText s \<longleftrightarrow> s \<noteq> [] \<and> hd s = CHR ''0'' \<and> list_all numChar s"

text \<open>The expression \<open>s\<close> has the value \<open>v\<close>.\<close>

definition reads :: "string \<Rightarrow> int \<Rightarrow> bool" where
  "reads s v \<longleftrightarrow> numText s \<and> (\<forall>symbols u. evalArg symbols u s = Inr v)"

lemma reads_evalArg: "reads s v \<Longrightarrow> evalArg symbols u s = Inr v"
  by (simp add: reads_def)

lemma reads_numText: "reads s v \<Longrightarrow> numText s"
  by (simp add: reads_def)

lemma numText_prefixed:
  assumes "set ds \<subseteq> set hexLower"
  shows "numText (''0x'' @ ds)"
proof -
  have "numChar c" if "c \<in> set ds" for c by (rule numChar_lower) (use assms that in blast)
  then show ?thesis by (simp add: numText_def list_all_iff)
qed

lemma hexText_reads:
  assumes "n < 2 ^ 16"
  shows "reads (''0x'' @ padStart0 k (toString16 n)) (int n)"
proof -
  let ?ds = "padStart0 k (toString16 n)"
  have ds: "set ?ds \<subseteq> set hexLower" by (intro set_padStart0 set_toString16)
  have val: "positional 16 ?ds = int n" by (simp add: positional_pad positional_toString16)
  have ne: "?ds \<noteq> []" by (simp add: padStart0_def)
  have "\<bar>positional 16 ?ds\<bar> \<le> 2 ^ 53" using assms by (simp add: val)
  then have "evalExpr Map.empty {} (''0x'' @ ?ds) symbols u = Inr (positional 16 ?ds)" for symbols u
    by (rule hexText_expression [OF ds ne])
  then show ?thesis by (simp add: reads_def numText_prefixed [OF ds, simplified] evalArg_def val)
qed

lemma hex16_reads: "reads (hex16 v) (uint v)"
  using hexText_reads [of "unat v" 4] unsigned_less [of v, where ?'a = nat]
  by (simp add: hex16_def)

lemma hex8_reads: "reads (hex8 v) (uint (v AND 0xFF))"
  using hexText_reads [of "unat (v AND 0xFF)" 2] unsigned_less [of "v AND 0xFF", where ?'a = nat]
  by (simp add: hex8_def)

text \<open>What the operand syntax sees of a printed number.\<close>

lemma numText_simps:
  assumes "numText s"
  shows "s \<noteq> []" "trim s = s" "trimEnd s = s" "dropWhile isJsSpace s = s"
    "\<not> isIndexName s" "\<not> isJsSpace (hd s)" "\<not> isJsSpace (last s)"
  "c \<in> set ''()[]*,#@-+'' \<Longrightarrow> \<not> startsWith c s"
  "c \<in> set ''()[]*,#@-+'' \<Longrightarrow> \<not> endsWith c s"
  "c \<in> set ''()[]*,#@-+'' \<Longrightarrow> c \<notin> set s"
proof -
  have ne: "s \<noteq> []" and hd: "hd s = CHR ''0''" and nc: "\<And>c. c \<in> set s \<Longrightarrow> numChar c"
    using assms by (auto simp: numText_def list_all_iff)
  have ends: "\<not> isJsSpace (hd s)" "\<not> isJsSpace (last s)"
    using nc [of "hd s"] nc [of "last s"] ne by (auto simp: numChar_def)
  show "s \<noteq> []" by (rule ne)
  show "trim s = s" by (rule trim_id [OF ne ends])
  show "dropWhile isJsSpace s = s" using ne ends by (cases s) auto
  show "trimEnd s = s" using ne ends by (cases s rule: rev_cases) (auto simp: trimEnd_def)
  show "\<not> isJsSpace (hd s)" "\<not> isJsSpace (last s)" by (fact ends)+
  show "\<not> isIndexName s" using hd by (simp add: isIndexName_def isLetter_def inRange_def)
  show "c \<in> set ''()[]*,#@-+'' \<Longrightarrow> c \<notin> set s" using nc [of c] unfolding numChar_def by blast
  then show "c \<in> set ''()[]*,#@-+'' \<Longrightarrow> \<not> startsWith c s"
    "c \<in> set ''()[]*,#@-+'' \<Longrightarrow> \<not> endsWith c s"
    using ne hd_in_set [OF ne] last_in_set [OF ne] unfolding startsWith_def endsWith_def by blast+
qed

lemma splitLast_None: "c \<notin> set s \<Longrightarrow> splitLast c s = None"
  by (auto simp: splitLast_def Let_def dropWhile_eq_Nil_conv)

lemma splitLast_Some:
  assumes "c \<notin> set post"
  shows "splitLast c (pre @ c # post) = Some (pre, post)"
proof -
  have "\<forall>x\<in>set (rev post). x \<noteq> c" using assms by auto
  then have "takeWhile (\<lambda>x. x \<noteq> c) (rev post @ c # rev pre) = rev post"
    "dropWhile (\<lambda>x. x \<noteq> c) (rev post @ c # rev pre) = c # rev pre"
    by (subst takeWhile_append dropWhile_append; simp)+
  then show ?thesis by (simp add: splitLast_def)
qed

subsection \<open>Effective addresses\<close>

lemma startsWith_Cons [simp]: "startsWith c (d # s) \<longleftrightarrow> d = c"
  by (auto simp: startsWith_def)

lemma endsWith_snoc [simp]: "endsWith c (s @ [d]) \<longleftrightarrow> d = c"
  by (auto simp: endsWith_def)

text \<open>The forms of \<open>parseEA\<close> on a printed number.\<close>

lemma parseEA_num:
  assumes "reads s v"
  shows "parseEA s pc symbols u = relativeMode 1 pc symbols u s"
proof -
  note h = numText_simps [OF reads_numText [OF assms]]
  have "nameInParens s = None" by (simp add: nameInParens_def h)
  moreover have "nameAfterComma s = None" by (simp add: nameAfterComma_def splitLast_None h)
  ultimately show ?thesis
    by (simp add: parseEA_def parseEA_plain_def starIn_def plainIn_def h)
qed

text \<open>White space, brackets and names in operands.\<close>

lemma isJsSpace_punct [simp]:
  "\<not> isJsSpace (CHR ''*'')" "\<not> isJsSpace (CHR ''('')" "\<not> isJsSpace (CHR '')'')"
  "\<not> isJsSpace (CHR ''#'')" "\<not> isJsSpace (CHR ''@'')" "\<not> isJsSpace (CHR ''-'')"
  "\<not> isJsSpace (CHR ''+'')"
  by (simp_all add: isJsSpace_def)

lemma trim_ends [simp]:
  "\<not> isJsSpace c \<Longrightarrow> \<not> isJsSpace d \<Longrightarrow> trim (c # s @ [d]) = c # s @ [d]"
  by (rule trim_id) simp_all

lemma trim_Cons: "\<not> isJsSpace c \<Longrightarrow> s \<noteq> [] \<Longrightarrow> \<not> isJsSpace (last s) \<Longrightarrow> trim (c # s) = c # s"
  by (rule trim_id) simp_all

lemma parseEA_star:
  assumes "reads s v"
  shows "parseEA (CHR ''*'' # s) pc symbols u = directMode 0 symbols u s"
proof -
  note h = numText_simps [OF reads_numText [OF assms]]
  let ?t = "CHR ''*'' # s"
  have t: "trim ?t = ?t" by (rule trim_Cons) (simp_all add: h)
  have e: "\<not> endsWith (CHR '')'') ?t" "\<not> endsWith (CHR '']'') ?t"
    using h(9) [of "CHR '')''"] h(9) [of "CHR '']''"] h(1) by (simp_all add: endsWith_def)
  have "nameInParens ?t = None" using e by (simp add: nameInParens_def)
  moreover have "nameAfterComma ?t = None" by (simp add: nameAfterComma_def splitLast_None h)
  ultimately show ?thesis
    by (simp add: parseEA_def parseEA_plain_def starIn_def plainIn_def t e)
qed

lemma parseEA_paren:
  assumes "reads s v"
  shows "parseEA (''('' @ s @ '')'') pc symbols u = relativeMode 3 pc symbols u s"
proof -
  note h = numText_simps [OF reads_numText [OF assms]]
  let ?t = "CHR ''('' # s @ '')''"
  have "splitLast (CHR ''('') (CHR ''('' # s) = Some ([], s)"
    using splitLast_Some [of "CHR ''(''" s "[]"] h(10) by simp
  then have "nameInParens ?t = None" by (simp add: nameInParens_def endsWith_def h)
  moreover have "nameAfterComma ?t = None" by (simp add: nameAfterComma_def splitLast_None h)
  ultimately show ?thesis
    by (simp add: parseEA_def parseEA_plain_def starIn_def plainIn_def endsWith_def h)
qed

lemma parseEA_starParen:
  assumes "reads s v"
  shows "parseEA (''(*'' @ s @ '')'') pc symbols u = directMode 2 symbols u s"
proof -
  note h = numText_simps [OF reads_numText [OF assms]]
  let ?t = "CHR ''('' # CHR ''*'' # s @ '')''"
  have "splitLast (CHR ''('') (CHR ''('' # CHR ''*'' # s) = Some ([], CHR ''*'' # s)"
    using splitLast_Some [of "CHR ''(''" "CHR ''*'' # s" "[]"] h(10) by simp
  moreover have "trim (CHR ''*'' # s) = CHR ''*'' # s" by (rule trim_Cons) (simp_all add: h)
  ultimately have "nameInParens ?t = None"
    by (simp add: nameInParens_def endsWith_def isIndexName_def isLetter_def inRange_def)
  moreover have "nameAfterComma ?t = None" by (simp add: nameAfterComma_def splitLast_None h)
  moreover have "trim ?t = ?t" using trim_ends [of "CHR ''(''" "CHR '')''" "CHR ''*'' # s"] by simp
  ultimately show ?thesis
    by (simp add: parseEA_def parseEA_plain_def starIn_def plainIn_def endsWith_def h)
qed

text \<open>The indexed forms.\<close>

lemma indexMode_simps [simp]:
  "indexMode b ''X0'' = Inr b" "indexMode b ''X1'' = Inr (b + 1)"
  by (simp_all add: indexMode_def toUpperCase_def upperChar_def)

definition isX :: "string \<Rightarrow> bool" where
  "isX i \<longleftrightarrow> i = ''X0'' \<or> i = ''X1''"

lemma isX_simps:
  assumes "isX i"
  shows "trim i = i" "isIndexName i" "c \<in> set ''()[]*,#@-+'' \<Longrightarrow> c \<notin> set i"
  using assms
  by (auto simp: isX_def trim_def isJsSpace_def isIndexName_def isLetter_def isDigit_def inRange_def)

lemma parseEA_index:
  assumes "reads s v" and "isX i"
  shows "parseEA (s @ ''('' @ i @ '')'') pc symbols u =
    bindE (indexMode 4 i) (\<lambda>mmm. directMode mmm symbols u s)"
proof -
  note h = numText_simps [OF reads_numText [OF assms(1)]] isX_simps [OF assms(2)]
  let ?t = "s @ CHR ''('' # i @ '')''"
  obtain c cs where s: "s = c # cs" using h(1) by (cases s) auto
  have "splitLast (CHR ''('') (s @ CHR ''('' # i) = Some (s, i)"
    by (rule splitLast_Some) (simp add: h)
  then have "nameInParens ?t = Some (s, i)" by (simp add: nameInParens_def endsWith_def butlast_append h)
  moreover have "nameAfterComma ?t = None" by (simp add: nameAfterComma_def splitLast_None h)
  moreover have "trim ?t = ?t" by (rule trim_id) (use h in \<open>simp_all add: s\<close>)
  moreover have "trimEnd (c # cs) = c # cs" using h(3) s by simp
  ultimately show ?thesis using h(8) [of "CHR ''(''"] by (simp add: parseEA_def starIn_def s)
qed

lemma parseEA_starIndex:
  assumes "reads s v" and "isX i"
  shows "parseEA (''(*'' @ s @ '')('' @ i @ '')'') pc symbols u =
    bindE (indexMode 6 i) (\<lambda>mmm. directMode mmm symbols u s)"
proof -
  note h = numText_simps [OF reads_numText [OF assms(1)]] isX_simps [OF assms(2)]
  let ?p = "CHR ''('' # CHR ''*'' # s @ '')''" and ?t = "CHR ''('' # CHR ''*'' # s @ CHR '')'' # CHR ''('' # i @ '')''"
  have "splitLast (CHR ''('') (?p @ CHR ''('' # i) = Some (?p, i)"
    by (rule splitLast_Some) (simp add: h)
  then have "nameInParens ?t = Some (?p, i)" by (simp add: nameInParens_def endsWith_def butlast_append h)
  moreover have "nameAfterComma ?t = None" by (simp add: nameAfterComma_def splitLast_None h)
  moreover have "trim ?t = ?t"
    using trim_ends [of "CHR ''(''" "CHR '')''" "CHR ''*'' # s @ CHR '')'' # CHR ''('' # i"] by simp
  moreover have "trimEnd ?p = ?p" by (simp add: trimEnd_def)
  ultimately show ?thesis by (simp add: parseEA_def starIn_def endsWith_def h)
qed

subsection \<open>Names that look like numbers\<close>

lemma hex_letter:
  assumes "isHex c"
  shows "upperChar c \<noteq> CHR ''L''" "c \<noteq> CHR 0x27" "\<not> isJsSpace c" "isIdentChar c"
proof -
  let ?n = "of_char c :: nat"
  have n: "48 \<le> ?n \<and> ?n \<le> 57 \<or> 65 \<le> ?n \<and> ?n \<le> 70 \<or> 97 \<le> ?n \<and> ?n \<le> 102"
    using assms by (auto simp: isHex_def isDigit_def inRange_def)
  then show "c \<noteq> CHR 0x27" "\<not> isJsSpace c" by (auto simp: isJsSpace_def)
  show "isIdentChar c" using n by (auto simp: isIdentChar_def isIdentStart_def isLetter_def isDigit_def inRange_def)
  have "of_char (upperChar c) = (if 97 \<le> ?n \<and> ?n \<le> 122 then (?n - 32) mod 256 else ?n)"
    by (simp add: upperChar_def Let_def)
  moreover have "\<dots> \<noteq> 76" using n by auto
  ultimately show "upperChar c \<noteq> CHR ''L''" by auto
qed

text \<open>
  A name of hexadecimal letters that ends in H is a number wherever it is used: the symbol
  of that name is never looked up, also when it is defined.
\<close>

theorem hex_like_symbol_ignored:
  assumes "list_all isHex ds" and "isLetter (hd ds)" and "ds \<noteq> []"
  shows "evalExpr ls gs (ds @ ''H'') symbols u = Inr (parseInt 16 ds)"
proof -
  let ?s = "ds @ ''H''"
  have H: "isIdentChar (CHR ''H'')" by (simp add: isIdentChar_def isIdentStart_def isLetter_def inRange_def)
  have p: "list_all (\<lambda>c. upperChar c \<noteq> CHR ''L'') ?s" "CHR 0x27 \<notin> set ?s"
    "\<forall>c\<in>set ?s. isIdentChar c" "\<forall>c\<in>set ?s. \<not> isJsSpace c"
    using assms(1) hex_letter H by (auto simp: list_all_iff upperChar_def isJsSpace_def)
  have hd: "hd ?s = hd ds" using assms(3) by simp
  have "tokenLength ?s = Some (length ?s)"
    using p(3) assms(2,3) by (simp add: tokenLength_def isIdentStart_def hd takeWhile_append)
  then have tok: "tokenize ?s = [?s]"
    by (subst tokenize.simps) (simp add: tokenize.simps [of "[]"])
  have "trim ?s = ?s" using p(4) hd_in_set [OF assms(3)] by (intro trim_id) (auto simp: hd)
  moreover have "hd ds \<noteq> CHR ''>''" "hd ds \<noteq> CHR ''0''" using assms(2) by (auto simp: isLetter_def inRange_def)
  ultimately have "parseNumber ?s = Some (parseInt 16 ds)"
    using assms by (cases ds) (auto simp: parseNumber_def allOf_def Let_def)
  moreover have "?s \<notin> {''('', ''+'', ''-'', ''~''}" by auto
  ultimately have "evalTokens symbols u [?s] = Some (Inr (parseInt 16 ds))" by (rule evalTokens_number)
  then show ?thesis
    by (simp only: evalExpr_def substLenCalls_id [OF p(1)] substCharLiterals_id [OF p(2)] tok bindE_simps
        option.sel)
qed

theorem hex_like_symbol_ignored_witness:
  "evalExpr Map.empty {} ''EACH'' [''EACH'' \<mapsto> 0x1234] False = Inr 0xEAC"
  using hex_like_symbol_ignored [of "''EAC''" Map.empty "{}" "[''EACH'' \<mapsto> 0x1234]" False]
  by (simp add: isHex_def isDigit_def isLetter_def inRange_def parseInt_def positional_def charDigit_def rndInt_def)

end

