(* ===== verification/Encoder_Props.thy ===== *)
theory Encoder_Props
  imports Encoder_Text
begin

text \<open>
  The encoder against the decoder of the disassembler: assembling the text of an instruction
  word gives that word back.
\<close>

subsection \<open>Fields and names\<close>

lemma small_word:
  assumes "(x :: u16) \<le> of_nat n" and "n < 2 ^ 16"
  shows "x \<in> of_nat ` {..n}"
proof -
  have "unat x \<le> n" using assms by (simp add: word_le_nat_alt take_bit_nat_eq_self unsigned_of_nat)
  then have "of_nat (unat x) \<in> (of_nat ` {..n} :: u16 set)" by (intro imageI) simp
  then show ?thesis by simp
qed

lemma and3_cases: "(x :: u16) AND 3 \<in> {0, 1, 2, 3}"
  using small_word [of "x AND 3" 3] word_and_le1 [of x 3]
  by (simp add: atMost_nat_numeral atMost_Suc insert_commute disj_commute disj_left_commute)

lemma and7_cases: "(x :: u16) AND 7 \<in> {0, 1, 2, 3, 4, 5, 6, 7}"
  using small_word [of "x AND 7" 7] word_and_le1 [of x 7]
  by (simp add: atMost_nat_numeral atMost_Suc insert_commute disj_commute disj_left_commute)

lemma and15_cases:
  "(x :: u16) AND 15 \<in> {0, 1, 2, 3, 4, 5, 6, 7, 8, 9, 10, 11, 12, 13, 14, 15}"
  using small_word [of "x AND 15" 15] word_and_le1 [of x 15]
  by (simp add: atMost_nat_numeral atMost_Suc insert_commute disj_commute disj_left_commute)

lemma toUpperCase_simps [simp]:
  "toUpperCase [] = []" "toUpperCase (c # s) = upperChar c # toUpperCase s"
  by (simp_all add: toUpperCase_def)

text \<open>Names of registers are upper-case, so they are looked up as they are.\<close>

lemma parseReg_regName:
  assumes "r AND 7 \<noteq> 7" and "r AND 7 = 6 \<longrightarrow> s"
  shows "parseReg (regName r) s = Inr (r AND 7)"
  using and7_cases [of r] assms
  by (auto simp: parseReg_def regName_def REGS_def REG_MAP_def orError_def upperChar_def)

lemma parseReg_IC: "r AND 7 = 7 \<Longrightarrow> parseReg (regName r) s = Inl (UnknownRegister ''IC'')"
  by (simp add: parseReg_def regName_def REGS_def REG_MAP_def orError_def upperChar_def)

lemma trim_name: "list_all (\<lambda>c. \<not> isJsSpace c) s \<Longrightarrow> trim s = s"
  by (cases "s = []") (auto simp: trim_id list_all_iff, simp add: trim_def)

lemma parseSkip_name:
  "k AND 15 = k \<Longrightarrow> parseSkip (Some (SKIP_NAME ! unat k)) = Inr k"
  using and15_cases [of k]
  by (auto simp: parseSkip_def SKIP_NAME_def SKIP_MAP_def orError_def upperChar_def trim_name isJsSpace_def)

subsection \<open>Effective addresses\<close>

text \<open>The signed displacement, and whether the address it names exists without wrapping.\<close>

definition displacement :: "u16 \<Rightarrow> int" where
  "displacement d = (if uint (d AND 0xFF) < 0x80 then uint (d AND 0xFF) else uint (d AND 0xFF) - 0x100)"

definition reaches :: "u16 \<Rightarrow> u16 \<Rightarrow> bool" where
  "reaches a d \<longleftrightarrow> 0 \<le> uint a + displacement d \<and> uint a + displacement d < 0x10000"

lemma uint_and_FF: "uint ((d :: u16) AND 0xFF) < 0x100" "0 \<le> uint (d AND 0xFF)"
proof -
  have "unat (d AND 0xFF) < 256" by (simp add: unat_AND_FF)
  then have "int (unat (d AND 0xFF)) < 256" by linarith
  then show "uint (d AND 0xFF) < 0x100" by simp
qed simp

lemma displacement_bounds: "- 128 \<le> displacement d" "displacement d \<le> 127"
  using uint_and_FF [of d] unfolding displacement_def
  by (cases "uint (d AND 0xFF) < 0x80"; simp only: if_True if_False; linarith)+

lemma relTarget_displacement: "relTarget a (d AND 0xFF) = a + word_of_int (displacement d)"
proof -
  have "(d AND 0xFF < 0x80) = (uint (d AND 0xFF) < 0x80)" by (simp add: word_less_def)
  then show ?thesis by (simp add: relTarget_def displacement_def Let_def)
qed

lemma relTarget_distance:
  "uint (relTarget a (d AND 0xFF)) - uint a =
     (if reaches a d then displacement d
      else if displacement d < 0 then displacement d + 0x10000 else displacement d - 0x10000)"
proof -
  have b: "0 \<le> uint a" "uint a < 0x10000" using uint16_bounds by blast+
  have "uint (relTarget a (d AND 0xFF)) = (uint a + displacement d) mod 0x10000"
    by (simp add: relTarget_displacement uint_word_ariths uint_word_of_int mod_add_right_eq)
  moreover have "(uint a + displacement d) mod 0x10000 =
      (if uint a + displacement d < 0 then uint a + displacement d + 0x10000
       else if uint a + displacement d < 0x10000 then uint a + displacement d
       else uint a + displacement d - 0x10000)"
    using mod16_wrap(1) [of "uint a + displacement d"] mod16_wrap(2) [of "uint a + displacement d"]
      displacement_bounds [of d] b by (auto simp: not_less)
  ultimately show ?thesis using b displacement_bounds [of d] by (auto simp: reaches_def)
qed

lemma word_of_int_and_FF: "(word_of_int x :: u16) AND 0xFF = word_of_int (x mod 256)"
proof -
  have "x AND 0xFF = x mod 256"
    using take_bit_eq_mask [of 8 x] by (simp add: take_bit_eq_mod mask_numeral)
  then show ?thesis by (metis of_int_and_eq of_int_numeral)
qed

lemma word_displacement: "word_of_int (displacement d) AND 0xFF = d AND (0xFF :: u16)"
proof -
  have "displacement d mod 256 = uint (d AND 0xFF)"
    using uint_and_FF [of d] by (auto simp: displacement_def mod_diff_right_eq [symmetric])
  then show ?thesis by (simp add: word_of_int_and_FF)
qed

lemma relativeMode_relTarget:
  "relativeMode mmm (uint a) symbols u (hex16 (relTarget a (d AND 0xFF))) =
     (if reaches a d then Inr \<lparr>ea_mmm = mmm, ea_d8 = d AND 0xFF\<rparr> else Inl (OutOfRange ''EA relative''))"
  using displacement_bounds [of d]
  by (simp add: relativeMode_def reads_evalArg [OF hex16_reads] relTarget_distance rangeS8_def
      word_displacement)

lemma directMode_hex8:
  "directMode mmm symbols u (hex8 d) = Inr \<lparr>ea_mmm = mmm, ea_d8 = d AND 0xFF\<rparr>"
  using uint_and_FF [of d] by (simp add: directMode_def reads_evalArg [OF hex8_reads] rangeU8_def)

text \<open>The operand texts of an instruction without labels, as the formatter joins them.\<close>

definition operandTexts :: "decoded_inst \<Rightarrow> string list" where
  "operandTexts d = filter (\<lambda>s. s \<noteq> '''') (List.map_filter (\<lambda>o1. formatOp o1 Map.empty) (ops d))"

text \<open>Assembling the disassembly of the words at \<open>a\<close>.\<close>

definition reassemble :: "u16 \<Rightarrow> (u16 \<Rightarrow> u16) \<Rightarrow> symbol_table \<Rightarrow> asm_error + u16 list" where
  "reassemble a rd symbols =
     (let d = decodeMn1613 a rd
      in encodeInstruction (mnemonic d) (operandTexts d) (uint a) symbols False)"

lemma map_filter_simps [simp]:
  "List.map_filter f [] = []"
  "List.map_filter f (x # xs) = (case f x of None \<Rightarrow> List.map_filter f xs | Some y \<Rightarrow> y # List.map_filter f xs)"
  by (auto simp: List.map_filter_def split: option.split)

lemma labelAt_empty [simp]: "labelAt Map.empty a = None"
  by (simp add: labelAt_def lookup_def)

lemma texts_nonempty [simp]: "hex16 v \<noteq> []" "hex8 v \<noteq> []"
  by (simp_all add: hex16_def hex8_def)

text \<open>The address modes that are relative to the instruction.\<close>

definition isRelative :: "u16 \<Rightarrow> bool" where
  "isRelative mmm \<longleftrightarrow> mmm AND 7 = 1 \<or> mmm AND 7 = 3"

definition eaString :: "u16 \<Rightarrow> u16 \<Rightarrow> u16 \<Rightarrow> string" where
  "eaString mmm d a = the (formatOp (eaOp mmm d a) Map.empty)"

lemma eaString_Some: "formatOp (eaOp mmm d a) Map.empty = Some (eaString mmm d a)"
  by (auto simp: eaString_def eaOp_def Let_def)

lemma eaString_nonempty [simp]: "eaString mmm d a \<noteq> []"
  by (auto simp: eaString_def eaOp_def Let_def addrText_def)

lemma parseEA_eaString:
  "parseEA (eaString mmm d a) (uint a) symbols u =
     (if isRelative mmm \<and> \<not> reaches a d then Inl (OutOfRange ''EA relative'')
      else Inr \<lparr>ea_mmm = mmm AND 7, ea_d8 = d AND 0xFF\<rparr>)"
proof -
  have h8: "hex8 (d AND 0xFF) = hex8 d" by (simp add: hex8_def and.assoc)
  note forms = parseEA_num [OF hex16_reads] parseEA_star [OF hex8_reads]
    parseEA_paren [OF hex16_reads] parseEA_starParen [OF hex8_reads]
    parseEA_index [OF hex8_reads, of "''X0''"] parseEA_index [OF hex8_reads, of "''X1''"]
    parseEA_starIndex [OF hex8_reads, of "''X0''"] parseEA_starIndex [OF hex8_reads, of "''X1''"]
  show ?thesis
    using and7_cases [of mmm]
    by (auto simp: eaString_def eaOp_def Let_def addrText_def h8 isX_def isRelative_def
        forms [simplified] relativeMode_relTarget directMode_hex8)
qed

subsection \<open>Memory reference instructions\<close>

lemma op_hi: "bit (ir :: u16) 15 \<Longrightarrow> drop_bit 11 ir AND 0x1F \<ge> 0x10"
proof -
  assume "bit ir 15"
  then have "drop_bit 11 ir AND 0x1F = 0x10 OR (drop_bit 11 ir AND 0xF)"
    unfolding bits16 by (auto simp: bit_simps)
  then show ?thesis by (metis le_word_or2)
qed

lemma mem_fields:
  fixes ir :: u16
  shows "(drop_bit 11 ir AND 0x1F) AND 8 \<noteq> 0 \<longleftrightarrow> bit ir 14"
    "(drop_bit 11 ir AND 0x1F) AND 7 = drop_bit 11 ir AND 7"
    "(drop_bit 8 ir AND 7) AND 7 = drop_bit 8 ir AND 7"
  unfolding bits16 by (auto simp: bit_simps)

lemma encodeMem_fields:
  fixes ir :: u16
  assumes "bit ir 15"
  shows "encodeMem (if bit ir 14 then 1 else 0) (drop_bit 11 ir AND 7) (drop_bit 8 ir AND 7) (ir AND 0xFF) = ir"
  using assms unfolding encodeMem_def bits16 by (auto simp: bit_simps)

lemma parseEA_mem:
  "parseEA (eaString (drop_bit 11 ir AND 7) (ir AND 0xFF) a) (uint a) symbols u =
     (if isRelative (drop_bit 11 ir) \<and> \<not> reaches a ir then Inl (OutOfRange ''EA relative'')
      else Inr \<lparr>ea_mmm = drop_bit 11 ir AND 7, ea_d8 = ir AND 0xFF\<rparr>)"
  by (simp add: parseEA_eaString isRelative_def reaches_def displacement_def and.assoc del: drop_bit_and)

lemma regName_nonempty [simp]: "regName r \<noteq> []"
  using and7_cases [of r] by (auto simp: regName_def REGS_def)

lemma decode_mem:
  assumes "bit (rd a) 15"
  shows "mnemonic (decodeMn1613 a rd) =
      (let rrr = drop_bit 8 (rd a) AND 7; hi = bit (rd a) 14
       in if rrr = 7 then (if hi then ''B'' else ''BAL'')
          else if rrr = 6 then (if hi then ''IMS'' else ''DMS'') else (if hi then ''L'' else ''ST''))"
    and "operandTexts (decodeMn1613 a rd) =
      (let rrr = drop_bit 8 (rd a) AND 7; e = eaString (drop_bit 11 (rd a) AND 7) (rd a AND 0xFF) a
       in if rrr = 7 \<or> rrr = 6 then [e] else [regName rrr, e])"
  using op_hi [OF assms]
  by (simp_all add: decodeMn1613_def Let_def decodeMem_def one_def operandTexts_def eaString_Some mem_fields
      del: drop_bit_and)

text \<open>
  C13. Assembling the text of a memory reference instruction (L, ST, B, BAL, IMS, DMS) gives
  its word back, for all 32768 words, at every address and whatever symbols are defined; only
  when a relative operand names an address beyond the 64K of the program counter, which the
  disassembler wraps around, does the assembler reject it.
\<close>

theorem memory_reference_roundtrip:
  assumes "rd a AND 0x8000 \<noteq> 0"
  shows "reassemble a rd symbols =
     (if isRelative (drop_bit 11 (rd a)) \<and> \<not> reaches a (rd a) then Inl (OutOfRange ''EA relative'')
      else Inr [rd a])"
proof -
  let ?ir = "rd a"
  have hi: "bit ?ir 15" using assms by (simp add: msb16)
  have r: "(drop_bit 8 ?ir AND 7) AND 7 = drop_bit 8 ?ir AND 7" by (rule mem_fields)
  note word = encodeMem_fields [OF hi]
  note eval = reassemble_def Let_def decode_mem [where a = a and rd = rd, OF hi] encodeInstruction_def
    upperChar_def encodeBasic_def encBranchMem_def encLoadStore_def expectArgs_def eaText_def parseEA_mem
    parseReg_regName
  consider "drop_bit 8 ?ir AND 7 = 7" | "drop_bit 8 ?ir AND 7 = 6"
    | "drop_bit 8 ?ir AND 7 \<noteq> 7" "drop_bit 8 ?ir AND 7 \<noteq> 6" by blast
  then show ?thesis
  proof cases
    case 1
    then show ?thesis using word by (auto simp: eval simp del: drop_bit_and)
  next
    case 2
    then show ?thesis using word by (auto simp: eval simp del: drop_bit_and)
  next
    case 3
    then show ?thesis using word r by (auto simp: eval simp del: drop_bit_and)
  qed
qed

theorem memory_reference_roundtrip_witness:
  "reassemble 0x100 ((\<lambda>_. 0)(0x100 := 0xC9FE)) Map.empty = Inr [0xC9FE]"
  using memory_reference_roundtrip [of "(\<lambda>_. 0)(0x100 := 0xC9FE)" "0x100" Map.empty]
  by (simp add: reaches_def displacement_def)

subsection \<open>Register and immediate instructions\<close>

text \<open>The texts of skip conditions and immediates.\<close>

definition skipText :: "u16 \<Rightarrow> string list" where
  "skipText k = (if k = 0 then [] else [SKIP_NAME ! unat k])"

lemma operandTexts_trail:
  assumes "x \<noteq> []" and "formatOp y Map.empty = Some t" and "t \<noteq> []" and "k AND 15 = k"
  shows "filter (\<lambda>s. s \<noteq> []) (List.map_filter (\<lambda>o1. formatOp o1 Map.empty)
    (trail [Raw x, y] k None False)) = [x, t] @ skipText k"
  using and15_cases [of k] assms
  by (auto simp: trail_def skipText_def nonEmpty_def SKIP_NAME_def)

lemma skipText_simps:
  assumes "k AND 15 = k"
  shows "parseSkip (argAt (x # y # skipText k) 2) = Inr k" "length (skipText k) \<le> 1"
  using parseSkip_name [OF assms]
  by (auto simp: skipText_def argAt_def parseSkip_def orError_def SKIP_MAP_def trim_def)

lemma requireImmHash_text:
  "s \<noteq> [] \<Longrightarrow> \<not> isJsSpace (last s) \<Longrightarrow> requireImmHash (CHR ''#'' # s) w = Inr (trim s)"
  by (simp add: requireImmHash_def trim_Cons)

lemma parseImm_hash:
  assumes "reads s v"
  shows "requireImmHash (CHR ''#'' # s) w = Inr s"
  using numText_simps [OF reads_numText [OF assms]] by (simp add: requireImmHash_text)

lemma rangeU16_uint: "rangeU16 (uint (v :: u16)) w = Inr v"
proof -
  have "\<not> (uint v < - 0x8000 \<or> uint v > 0xFFFF)" using uint16_bounds [of v] by linarith
  then show ?thesis by (simp only: rangeU16_def if_False word_of_int_uint)
qed

lemma parseImm16_text: "parseImm16Value (immText v 16 Map.empty) symbols u = Inr v"
  by (simp add: parseImm16Value_def immText_def parseImm_hash [OF hex16_reads]
      reads_evalArg [OF hex16_reads] rangeU16_uint)

lemma parseImm8_text: "parseImm8 (immText v 8 Map.empty) symbols u = Inr (v AND 0xFF)"
  using uint_and_FF [of v]
  by (simp add: parseImm8_def immText_def parseImm_hash [OF hex8_reads]
      reads_evalArg [OF hex8_reads] rangeU8_def and.assoc)

lemma decimal4_text:
  assumes "n < 16"
  shows "requireImmHash (CHR ''#'' # decimal n) w = Inr (decimal n)"
    and "evalArg symbols u (decimal n) = Inr (int n)"
proof -
  have "\<forall>n<16. requireImmHash (CHR ''#'' # decimal n) w = Inr (decimal n)"
    unfolding all_less_16
    by (simp add: decimal.simps hexDigit_def requireImmHash_def trim_def isJsSpace_def)
  then show "requireImmHash (CHR ''#'' # decimal n) w = Inr (decimal n)" using assms by simp
  have "\<forall>n<16. evalArg symbols u (decimal n) = Inr (int n)"
    unfolding all_less_16
    by (simp add: decimal.simps hexDigit_def evalArg_def evalExpr_def substLenCalls_id upperChar_def
        tokenize.simps tokenLength_def prefixed_def digitsThen_def isIdentStart_def isLetter_def
        inRange_def isHex_def isDigit_def isOctal_def isBinary_def evalTokens_number parseNumber_def
        trim_def isJsSpace_def allOf_def parseInt_def positional_def charDigit_def rndInt_def)
  then show "evalArg symbols u (decimal n) = Inr (int n)" using assms by simp
qed

lemma unat_and_F: "unat ((v :: u16) AND 0xF) < 16"
  by (simp add: unat_AND_F)

lemma immText4: "requireImmHash (immText v 4 Map.empty) w = Inr (decimal (unat (v AND 0xF)))"
  using decimal4_text(1) [OF unat_and_F [of v]] by (simp add: immText_def)

lemma eval4: "evalArg symbols u (decimal (unat ((v :: u16) AND 0xF))) = Inr (uint (v AND 0xF))"
  using decimal4_text(2) [OF unat_and_F [of v]] by simp

lemma uint_and_F: "0 \<le> uint ((v :: u16) AND 0xF)" "uint (v AND 0xF) \<le> 0xF"
proof -
  have "int (unat (v AND 0xF)) \<le> 0xF" using unat_and_F [of v] by linarith
  then show "uint (v AND 0xF) \<le> 0xF" by simp
qed simp

lemma parseImm4_text: "parseImm4 (immText v 4 Map.empty) symbols u = Inr (v AND 0xF)"
  using uint_and_F [of v] by (simp add: parseImm4_def immText4 eval4 rangeU4_def and.assoc del: uint_and)

text \<open>The shapes of instructions on their texts.\<close>

lemma encRegReg_text:
  assumes "rd AND 7 = rd" "rd \<noteq> 7" "rs AND 7 = rs" "rs \<noteq> 7" "k AND 15 = k"
  shows "encRegReg opc base ([regName rd, regName rs] @ skipText k) = Inr [op5 opc rd k (base OR rs)]"
  using assms skipText_simps [OF assms(5)]
  by (simp add: encRegReg_def expectArgs_def parseReg_regName)

lemma encImmWord_text:
  assumes "rd AND 7 = rd" "rd \<noteq> 7" "k AND 15 = k"
  shows "encImmWord opc tail ([regName rd, immText v 16 Map.empty] @ skipText k) symbols u =
    Inr [op5 opc rd k tail, v]"
  using assms skipText_simps [OF assms(3)]
  by (simp add: encImmWord_def expectArgs_def parseReg_regName parseImm16_text)

lemma encBit_text:
  assumes "rd AND 7 = rd" "rd \<noteq> 7" "k AND 15 = k"
  shows "encBit opc ([regName rd, immText v 4 Map.empty] @ skipText k) symbols u =
    Inr [push_bit 11 opc OR push_bit 8 rd OR push_bit 4 k OR (v AND 0xF)]"
  using assms skipText_simps [OF assms(3)]
  by (simp add: encBit_def expectArgs_def parseReg_regName parseImm4_text)

lemma encAiSi_text:
  assumes "rd AND 7 = rd" "rd \<noteq> 7" "k AND 15 = k" and "opr = ''AI'' \<or> opr = ''SI''"
  shows "encAiSi opr ([regName rd, immText v 4 Map.empty] @ skipText k) symbols u =
    Inr [push_bit 11 (if opr = ''AI'' then 9 else 8) OR push_bit 8 rd OR push_bit 4 k OR (v AND 0xF)]"
  using assms skipText_simps [OF assms(3)] uint_and_F [of v]
  by (auto simp: encAiSi_def expectArgs_def parseReg_regName parseImm4_text splitAiSiImm4Chunks_def
      upperChar_def immText4 eval4 skipText_def or.assoc simp del: uint_and)

text \<open>The fields of these instructions, and how a mnemonic selects its shape.\<close>

lemma reg_fields:
  fixes ir :: u16
  shows "(ir AND 0xFF) AND 0xF = ir AND 0xF" "(ir AND 0xFF) AND 7 = ir AND 7"
    "drop_bit 4 (ir AND 0xFF) AND 0xF = drop_bit 4 ir AND 0xF"
    "(drop_bit 4 ir AND 0xF) AND 15 = drop_bit 4 ir AND 0xF"
    "(ir AND 7) AND 7 = ir AND 7" "(drop_bit 8 ir AND 7) AND 7 = drop_bit 8 ir AND 7"
    "((ir AND 0xFF) AND 8 = 0) \<longleftrightarrow> \<not> bit ir 3"
    "(ir AND 0xF = 0xF) \<longleftrightarrow> ir AND 7 = 7 \<and> bit ir 3"
    "(ir AND 0xF = 7) \<longleftrightarrow> ir AND 7 = 7 \<and> \<not> bit ir 3"
  unfolding bits16 by (auto simp: bit_simps)

lemma join_fields:
  fixes ir :: u16
  shows "push_bit 11 (drop_bit 11 ir AND 0x1F) OR push_bit 8 (drop_bit 8 ir AND 7)
     OR push_bit 4 (drop_bit 4 ir AND 0xF) OR (ir AND 0xF) = ir"
   "op5 (drop_bit 11 ir AND 0x1F) (drop_bit 8 ir AND 7) (drop_bit 4 ir AND 0xF) (ir AND 0xF) = ir"
   "(if bit ir 3 then 8 else 0) OR (ir AND 7) = ir AND 0xF"
  unfolding op5_def bits16 by (auto simp: bit_simps)

lemma operandTexts_one:
  assumes "x \<noteq> []" and "formatOp y Map.empty = Some t" and "t \<noteq> []" and "k AND 15 = k"
  shows "operandTexts (one mn ir (trail [Raw x, y] k None False)) = [x, t] @ skipText k"
   and "operandTexts (two mn ir (trail [Raw x, y] k None False)) = [x, t] @ skipText k"
  unfolding operandTexts_def one_def two_def using operandTexts_trail [OF assms] by simp_all

lemma immText_nonempty [simp]: "immText v b Map.empty \<noteq> []" by (simp add: immText_def)
lemma mnemonic_simps [simp]: "mnemonic (one mn ir os) = mn" "mnemonic (two mn ir os) = mn" "mnemonic (undef ir) = ''.word''"
  by (simp_all add: one_def two_def undef_def)

lemma encode_register:
  assumes "(mn, opc, base) \<in> set REG_REG"
  shows "encodeInstruction mn args pc symbols u = encRegReg opc base args"
  using assms unfolding REG_REG_def
  by (simp, elim disjE conjE; simp add: REG_REG_def encodeInstruction_def encodeBasic_def upperChar_def)
lemma encode_immediate:
  assumes "(mn, opc, tail) \<in> set IMM_WORD"
  shows "encodeInstruction mn args pc symbols u = encImmWord opc tail args symbols u"
  using assms unfolding IMM_WORD_def
  by (simp, elim disjE conjE; simp add: IMM_WORD_def REG_REG_def R_INDIRECT_def encodeInstruction_def encodeBasic_def encodeExtended_def upperChar_def)

text \<open>One word of registers, one of register and number, and one with an immediate word.\<close>

lemma reassemble_registers:
  assumes "decodeMn1613 a rd = one mn ir (trail [Raw (regName (drop_bit 8 ir AND 7)), Raw (regName (ir AND 7))] (drop_bit 4 ir AND 0xF) None False)"
    and "(mn, drop_bit 11 ir AND 0x1F, if bit ir 3 then 8 else 0) \<in> set REG_REG"
    and "drop_bit 8 ir AND 7 \<noteq> 7" "ir AND 7 \<noteq> 7"
  shows "reassemble a rd symbols = Inr [ir]"
  using encRegReg_text [OF reg_fields(6) assms(3) reg_fields(5) assms(4) reg_fields(4)]
  unfolding reassemble_def Let_def assms(1) mnemonic_simps encode_register [OF assms(2)]
  by (subst operandTexts_one(1) [where t = "regName (ir AND 7)"]) (simp_all add: join_fields reg_fields(4) del: drop_bit_and)

lemma reassemble_immediate:
  assumes "decodeMn1613 a rd = two mn ir (trail [Raw (regName (drop_bit 8 ir AND 7)), Imm v 16] (drop_bit 4 ir AND 0xF) None False)"
    and "(mn, drop_bit 11 ir AND 0x1F, ir AND 0xF) \<in> set IMM_WORD"
    and "drop_bit 8 ir AND 7 \<noteq> 7"
  shows "reassemble a rd symbols = Inr [ir, v]"
  using encImmWord_text [OF reg_fields(6) assms(3) reg_fields(4)]
  unfolding reassemble_def Let_def assms(1) mnemonic_simps encode_immediate [OF assms(2)]
  by (subst operandTexts_one(2) [where t = "immText v 16 Map.empty"]) (simp_all add: join_fields reg_fields(4) del: drop_bit_and)

lemma reassemble_bit:
  assumes "decodeMn1613 a rd = one mn ir (trail [Raw (regName (drop_bit 8 ir AND 7)), Imm ((ir AND 0xFF) AND 0xF) 4] (drop_bit 4 ir AND 0xF) None False)"
    and "(mn, drop_bit 11 ir AND 0x1F) \<in> {(''TBIT'', 5), (''RBIT'', 6), (''SBIT'', 7), (''SI'', 8), (''AI'', 9)}"
    and "drop_bit 8 ir AND 7 \<noteq> 7"
  shows "reassemble a rd symbols = Inr [ir]"
proof -
  let ?args = "[regName (drop_bit 8 ir AND 7), immText (ir AND 0xF) 4 Map.empty] @ skipText (drop_bit 4 ir AND 0xF)"
  have "operandTexts (decodeMn1613 a rd) = ?args"
    unfolding assms(1) by (rule operandTexts_one(1)) (simp_all add: reg_fields del: drop_bit_and)
  moreover have "encodeInstruction mn ?args (uint a) symbols False = Inr [push_bit 11 (drop_bit 11 ir AND 0x1F) OR push_bit 8 (drop_bit 8 ir AND 7)
     OR push_bit 4 (drop_bit 4 ir AND 0xF) OR (ir AND 0xF)]"
    using assms(2) unfolding insert_iff empty_iff prod.inject
    by (elim disjE conjE; simp only: ; simp add: encodeInstruction_def encodeBasic_def upperChar_def
       encBit_text [OF reg_fields(6) assms(3) reg_fields(4), simplified] 
       encAiSi_text [OF reg_fields(6) assms(3) reg_fields(4), simplified] del: drop_bit_and)
  ultimately show ?thesis by (simp add: reassemble_def Let_def assms(1) join_fields del: drop_bit_and push_bit_and)
qed


text \<open>The decoder on these words.\<close>

lemma decode_select:
  fixes rd :: "u16 \<Rightarrow> u16" and a :: u16
  defines "ir \<equiv> rd a"
  defines "q \<equiv> drop_bit 11 ir AND 0x1F" and "r \<equiv> drop_bit 8 ir AND 7"
    and "k \<equiv> drop_bit 4 ir AND 0xF"
  shows "q = 5 \<Longrightarrow> decodeMn1613 a rd = one ''TBIT'' ir (trail [Raw (regName r), Imm ((ir AND 0xFF) AND 0xF) 4] k None False)"
    "q = 6 \<Longrightarrow> decodeMn1613 a rd = one ''RBIT'' ir (trail [Raw (regName r), Imm ((ir AND 0xFF) AND 0xF) 4] k None False)"
    "q = 7 \<Longrightarrow> decodeMn1613 a rd = decode07 ir r (ir AND 0xFF) k"
    "q = 8 \<Longrightarrow> decodeMn1613 a rd = decode08 ir r (ir AND 0xFF) k ((ir AND 0xFF) AND 3)"
    "q = 9 \<Longrightarrow> decodeMn1613 a rd = decode09 ir r (ir AND 0xFF) k ((ir AND 0xFF) AND 3)"
    "q = 10 \<Longrightarrow> decodeMn1613 a rd = decode0a ir r (ir AND 0xFF) k (rd (a + 1))"
    "q = 11 \<Longrightarrow> decodeMn1613 a rd = decode0b ir r (ir AND 0xFF) k (rd (a + 1))"
    "q = 12 \<Longrightarrow> decodeMn1613 a rd = decode0c ir r (ir AND 0xFF) k (rd (a + 1))"
    "q = 13 \<Longrightarrow> decodeMn1613 a rd = decode0d ir r (ir AND 0xFF) k (rd (a + 1))"
    "q = 14 \<Longrightarrow> decodeMn1613 a rd = decode0e ir r (ir AND 0xFF) k"
    "q = 15 \<Longrightarrow> decodeMn1613 a rd = decode0f ir r (ir AND 0xFF) k (rd (a + 1))"
  unfolding assms decodeMn1613_def Let_def by (simp_all add: reg_fields del: drop_bit_and)

lemma family_registers:
  "r \<noteq> 7 \<Longrightarrow> ir AND 7 \<noteq> 7 \<Longrightarrow> decodeRegFamily ir r (ir AND 0xFF) k extra spec =
     one (if bit ir 3 then bit1 spec else bit0 spec) ir (trail [Raw (regName r), Raw (regName (ir AND 7))] k None False)"
  "r \<noteq> 7 \<Longrightarrow> ir AND 7 = 7 \<Longrightarrow> decodeRegFamily ir r (ir AND 0xFF) k extra spec =
     two (if bit ir 3 then immHi spec else immLo spec) ir (trail [Raw (regName r), Imm extra 16] k None False)"
  by (auto simp: decodeRegFamily_def Let_def reg_fields)

text \<open>The mnemonics of the two forms.\<close>

definition regMnemonic :: "u16 \<Rightarrow> bool \<Rightarrow> string" where
  "regMnemonic q b =
     (if q = 10 then (if b then ''C'' else ''CB'') else if q = 11 then (if b then ''A'' else ''S'')
      else if q = 12 then (if b then ''OR'' else ''EOR'') else if q = 13 then (if b then ''AND'' else ''LAD'')
      else if q = 14 then (if b then ''BSWP'' else ''DSWP'') else (if b then ''MV'' else ''MVB''))"

definition immMnemonic :: "u16 \<Rightarrow> bool \<Rightarrow> string" where
  "immMnemonic q b =
     (if q = 10 then (if b then ''CWI'' else ''CBI'') else if q = 11 then (if b then ''AWI'' else ''SWI'')
      else if q = 12 then (if b then ''ORI'' else ''EORI'') else if q = 13 then (if b then ''ANDI'' else ''LADI'')
      else ''MVWI'')"

lemmas decode_family = decode0a_def decode0b_def decode0c_def decode0d_def decode0e_def decode0f_def

lemma decode_registers:
  assumes "drop_bit 11 (rd a) AND 0x1F \<in> {10, 11, 12, 13, 14, 15}"
    and "drop_bit 8 (rd a) AND 7 \<noteq> 7" "rd a AND 7 \<noteq> 7"
  shows "decodeMn1613 a rd = one (regMnemonic (drop_bit 11 (rd a) AND 0x1F) (bit (rd a) 3)) (rd a)
    (trail [Raw (regName (drop_bit 8 (rd a) AND 7)), Raw (regName (rd a AND 7))] (drop_bit 4 (rd a) AND 0xF) None False)"
  using assms(1) unfolding insert_iff empty_iff
  by - (elim disjE; (erule FalseE |
    (simp only: decode_select, simp add: decode_family Let_def family_registers assms(2,3) regMnemonic_def reg_fields
       del: drop_bit_and)))

lemma decode_immediate:
  assumes "drop_bit 11 (rd a) AND 0x1F \<in> {10, 11, 12, 13} \<or> drop_bit 11 (rd a) AND 0x1F = 15 \<and> \<not> bit (rd a) 3"
    and "drop_bit 8 (rd a) AND 7 \<noteq> 7" "rd a AND 7 = 7"
  shows "decodeMn1613 a rd = two (immMnemonic (drop_bit 11 (rd a) AND 0x1F) (bit (rd a) 3)) (rd a)
    (trail [Raw (regName (drop_bit 8 (rd a) AND 7)), Imm (rd (a + 1)) 16] (drop_bit 4 (rd a) AND 0xF) None False)"
  using assms(1) unfolding insert_iff empty_iff
  by - (elim disjE conjE; (erule FalseE |
    (simp only: decode_select, simp add: decode_family Let_def family_registers assms(2,3) immMnemonic_def reg_fields
       del: drop_bit_and)))

lemma reassemble_bits:
  assumes "drop_bit 11 (rd a) AND 0x1F \<in> {5, 6, 7, 8, 9}" and "drop_bit 8 (rd a) AND 7 \<noteq> 7"
  shows "reassemble a rd symbols = Inr [rd a]"
  using assms(1) unfolding insert_iff empty_iff
  by - (elim disjE; (erule FalseE | (rule reassemble_bit [OF _ _ assms(2)],
      simp only: decode_select, simp_all add: decode07_def decode08_def decode09_def assms(2) del: drop_bit_and)))

lemma reassemble_reg:
  assumes "drop_bit 11 (rd a) AND 0x1F \<in> {10, 11, 12, 13, 14, 15}"
    and "drop_bit 8 (rd a) AND 7 \<noteq> 7" "rd a AND 7 \<noteq> 7"
  shows "reassemble a rd symbols = Inr [rd a]"
proof (rule reassemble_registers [OF decode_registers [where a = a and rd = rd, OF assms] _ assms(2,3)])
  show "(regMnemonic (drop_bit 11 (rd a) AND 0x1F) (bit (rd a) 3), drop_bit 11 (rd a) AND 0x1F,
      if bit (rd a) 3 then 8 else 0) \<in> set REG_REG"
    using assms(1) by (auto simp: regMnemonic_def REG_REG_def simp del: drop_bit_and)
qed

lemma reassemble_imm:
  assumes "drop_bit 11 (rd a) AND 0x1F \<in> {10, 11, 12, 13} \<or> drop_bit 11 (rd a) AND 0x1F = 15 \<and> \<not> bit (rd a) 3"
    and "drop_bit 8 (rd a) AND 7 \<noteq> 7" "rd a AND 7 = 7"
  shows "reassemble a rd symbols = Inr [rd a, rd (a + 1)]"
proof (rule reassemble_immediate [OF decode_immediate [where a = a and rd = rd, OF assms] _ assms(2)])
  have "rd a AND 0xF = (if bit (rd a) 3 then 0xF else 7)"
    using reg_fields(8,9) [of "rd a"] assms(3) by simp
  then show "(immMnemonic (drop_bit 11 (rd a) AND 0x1F) (bit (rd a) 3), drop_bit 11 (rd a) AND 0x1F,
      rd a AND 0xF) \<in> set IMM_WORD"
    using assms(1) by (auto simp: immMnemonic_def IMM_WORD_def simp del: drop_bit_and)
qed

lemma reassemble_rejects:
  assumes "drop_bit 8 (rd a) AND 7 \<noteq> 7" "rd a AND 7 = 7"
  shows "drop_bit 11 (rd a) AND 0x1F = 14 \<Longrightarrow> reassemble a rd symbols = Inl (UnsupportedOpcode ''.WORD'')"
    and "drop_bit 11 (rd a) AND 0x1F = 15 \<Longrightarrow> bit (rd a) 3 \<Longrightarrow> reassemble a rd symbols = Inl (UnknownRegister ''IC'')"
proof -
  assume "drop_bit 11 (rd a) AND 0x1F = 14"
  then have "decodeMn1613 a rd = undef (rd a)"
    using assms by (simp add: decode_select decode0e_def Let_def reg_fields del: drop_bit_and)
  then show "reassemble a rd symbols = Inl (UnsupportedOpcode ''.WORD'')"
    by (simp add: reassemble_def Let_def encodeInstruction_def encodeBasic_def encodeExtended_def encodeBranch_def encodeSpecial_def upperChar_def
       REG_REG_def R_INDIRECT_def IMM_WORD_def)
next
  let ?r = "drop_bit 8 (rd a) AND 7" and ?k = "drop_bit 4 (rd a) AND 0xF"
  assume "drop_bit 11 (rd a) AND 0x1F = 15" "bit (rd a) 3"
  then have d: "decodeMn1613 a rd = one ''MV'' (rd a) (trail [Raw (regName ?r), Raw (regName 7)] ?k None False)"
    using assms by (simp add: decode_select decode0f_def Let_def reg_fields del: drop_bit_and)
  have e: "operandTexts (decodeMn1613 a rd) = [regName ?r, regName 7] @ skipText ?k"
    unfolding d by (rule operandTexts_one(1)) (simp_all add: reg_fields del: drop_bit_and)
  have "(''MV'', 0x0F, 8) \<in> set REG_REG" by (simp add: REG_REG_def)
  then have "reassemble a rd symbols = encRegReg 0x0F 8 ([regName ?r, regName 7] @ skipText ?k)"
    using e by (simp add: reassemble_def Let_def d encode_register del: drop_bit_and)
  also have "\<dots> = Inl (UnknownRegister ''IC'')"
    using assms(1) skipText_simps(2) [of ?k] reg_fields [of "rd a"]
    by (simp add: encRegReg_def expectArgs_def parseReg_regName parseReg_IC del: drop_bit_and)
  finally show "reassemble a rd symbols = Inl (UnknownRegister ''IC'')" .
qed

text \<open>
  C14. Assembling the text of a register, bit or immediate instruction (opcodes 5 to 15, register
  field not 7) gives its words back: one word, or two for an immediate word.  The only words of
  this kind that are not taken back are those with source register 7 under opcode 14, which the
  disassembler shows as data, and \<open>MV Rd, IC\<close>, whose operand the assembler does not know.
\<close>

theorem register_roundtrip:
  assumes "drop_bit 11 (rd a) AND 0x1F \<in> {5, 6, 7, 8, 9, 10, 11, 12, 13, 14, 15}"
    and "drop_bit 8 (rd a) AND 7 \<noteq> 7"
  shows "reassemble a rd symbols =
     (if drop_bit 11 (rd a) AND 0x1F \<le> 9 \<or> rd a AND 7 \<noteq> 7 then Inr [rd a]
      else if drop_bit 11 (rd a) AND 0x1F = 14 then Inl (UnsupportedOpcode ''.WORD'')
      else if drop_bit 11 (rd a) AND 0x1F = 15 \<and> bit (rd a) 3 then Inl (UnknownRegister ''IC'')
      else Inr [rd a, rd (a + 1)])"
  using assms(1) reassemble_bits [where a = a and rd = rd] reassemble_reg [where a = a and rd = rd]
    reassemble_imm [where a = a and rd = rd] reassemble_rejects [where a = a and rd = rd] assms(2)
  by (cases "rd a AND 7 = 7") (auto simp del: drop_bit_and)

theorem register_roundtrip_witness:
  "reassemble 0x100 ((\<lambda>_. 0)(0x100 := 0x592F, 0x101 := 0x1234)) Map.empty = Inr [0x592F, 0x1234]"
  using register_roundtrip [of "(\<lambda>_. 0)(0x100 := 0x592F, 0x101 := 0x1234)" "0x100" Map.empty] by simp

subsection \<open>The segment base registers\<close>

lemma parseImm16_hex16: "parseImm16 (hex16 v) symbols u = Inr v"
proof -
  note h = numText_simps [OF reads_numText [OF hex16_reads [of v]]]
  have "stripAddrDecorators (hex16 v) = Inr (hex16 v)"
    by (simp add: stripAddrDecorators_def stripBrackets_def h)
  then show ?thesis by (simp add: parseImm16_def reads_evalArg [OF hex16_reads])
qed

text \<open>
  The direction in which CSBR is protected is the wrong one for the memory transfers: the
  store \<open>STB CSBR\<close>, which only reads the register and which the disassembler prints, is rejected
  as a write, and the load \<open>LB CSBR\<close>, which would write it, is accepted.
\<close>

theorem csbr_protected_backwards:
  "reassemble a (rd(a := 0x0F87)) symbols = Inl CsbrReadOnly \<and>
   reassemble a (rd(a := 0x0F07)) symbols = Inr [0x0F07, rd (a + 1)]"
proof -
  have b: "named BBB_MAP ''CSBR'' = Inr 0"
    by (simp add: named_def BBB_MAP_def orError_def trim_def isJsSpace_def upperChar_def)
  have d: "decodeMn1613 a (rd(a := 0x0F87)) = two ''STB'' 0x0F87 [Raw ''CSBR'', Addr (rd (a + 1)) Plain None]"
    "decodeMn1613 a (rd(a := 0x0F07)) = two ''LB'' 0x0F07 [Raw ''CSBR'', Addr (rd (a + 1)) Plain None]"
    by (simp_all add: decodeMn1613_def Let_def decode01_def bbbName_def BBB_def word_le_nat_alt)
  show ?thesis
    by (simp add: reassemble_def Let_def d operandTexts_def two_def addrText_def encodeInstruction_def
        upperChar_def encodeBasic_def encodeExtended_def encodeBranch_def encodeSpecial_def REG_REG_def
        R_INDIRECT_def IMM_WORD_def encSpecialMem_def expectArgs_def parseBBB_def b parseImm16_hex16)
qed

end

