(* ===== verification/Expr_Props.thy ===== *)
theory Expr_Props
  imports Asm_Expr
begin

text \<open>
  The expression evaluator ends on every input, and it computes the value that the usual
  precedence and associativity of the operators give an expression.
\<close>

subsection \<open>Fuel\<close>

lemma levelOps_zero [simp]: "levelOps 0 = []"
  by (simp add: levelOps_def)

text \<open>With enough fuel a call returns, and what it leaves of the tokens is shorter.\<close>

definition shrinks :: "nat \<Rightarrow> (asm_error + int \<times> string list) option \<Rightarrow> bool" where
  "shrinks n r \<longleftrightarrow>
     (case r of None \<Rightarrow> False | Some (Inl e) \<Rightarrow> True | Some (Inr (v, rest)) \<Rightarrow> length rest < n)"

lemma shrinks_simps [simp]:
  "\<not> shrinks n None" "shrinks n (Some (Inl e))"
  "shrinks n (Some (Inr (v, rest))) \<longleftrightarrow> length rest < n"
  by (simp_all add: shrinks_def)

lemma shrinks_mono: "shrinks n r \<Longrightarrow> n \<le> m \<Longrightarrow> shrinks m r"
  by (auto simp: shrinks_def split: option.splits sum.splits)

lemma shrinks_cases:
  assumes "shrinks n r"
  obtains e where "r = Some (Inl e)" | v rest where "r = Some (Inr (v, rest))" "length rest < n"
  using assms by (cases r) (auto simp: shrinks_def split: sum.splits)

lemma parse_shrinks:
  "lev \<le> 6 \<Longrightarrow> 8 * length toks + lev < f \<Longrightarrow>
     shrinks (length toks) (parseLevel f symbols u lev toks)"
  "lev \<le> 6 \<Longrightarrow> 8 * length toks < f \<Longrightarrow>
     shrinks (Suc (length toks)) (parseLoop f symbols u lev v toks)"
proof (induction f symbols u lev toks and f symbols u lev v toks rule: parseLevel_parseLoop.induct)
  case (2 f symbols u lev toks)
  show ?case
  proof (cases "lev = 0")
    case False
    then have "shrinks (length toks) (parseLevel f symbols u (lev - 1) toks)"
      using "2.prems" by (intro "2.IH"(5)) auto
    then show ?thesis
    proof (cases rule: shrinks_cases)
      case (2 v rest)
      then have "shrinks (Suc (length rest)) (parseLoop f symbols u lev v rest)"
        using "2.prems" False by (intro "2.IH"(6)) auto
      then show ?thesis using False 2 by (auto elim: shrinks_mono)
    qed (use False in simp)
  next
    case True
    show ?thesis
    proof (cases toks)
      case (Cons t ts)
      have IH: "shrinks (length ts) (parseLevel f symbols u 6 ts)" if "t = ''(''"
        using "2.prems" True Cons that by (intro "2.IH"(1)) auto
      have IH0: "shrinks (length ts) (parseLevel f symbols u 0 ts)" if "t \<in> {''+'', ''-'', ''~''}"
        using "2.prems" True Cons that "2.IH"(2,3,4) by auto
      consider "t = ''(''" | "t \<in> {''+'', ''-'', ''~''}" | "t \<notin> {''('', ''+'', ''-'', ''~''}" by blast
      then show ?thesis
      proof cases
        case 1
        from IH [OF this] show ?thesis
          by (cases rule: shrinks_cases) (use True Cons 1 in auto)
      next
        case 2
        from IH0 [OF this] show ?thesis
          by (cases rule: shrinks_cases) (use True Cons 2 in auto)
      next
        case 3
        then show ?thesis using True Cons
          by (auto simp: bindE_def split: option.split sum.split)
      qed
    qed (use True in simp)
  qed
next
  case (4 f symbols u lev v toks)
  show ?case
  proof (cases toks)
    case (Cons t ts)
    show ?thesis
    proof (cases "t \<in> set (levelOps lev)")
      case True
      have lev: "lev \<noteq> 0" using True by (cases lev) auto
      have "shrinks (length ts) (parseLevel f symbols u (lev - 1) ts)"
        using "4.prems" Cons True lev by (intro "4.IH"(1)) auto
      then show ?thesis
      proof (cases rule: shrinks_cases)
        case (2 r rest)
        show ?thesis
        proof (cases "applyOp t v r")
          case (Inr v')
          have "shrinks (Suc (length rest)) (parseLoop f symbols u lev v' rest)"
            using "4.prems" Cons True 2 Inr by (intro "4.IH"(2)) auto
          then show ?thesis using Cons True 2 Inr by (auto elim: shrinks_mono)
        qed (use Cons True 2 in simp)
      qed (use Cons True in simp)
    qed (use Cons in simp)
  qed simp
qed auto

lemma evalTokens_result: obtains r where "evalTokens symbols u toks = Some r"
proof -
  have "shrinks (length toks) (parseLevel (exprFuel toks) symbols u 6 toks)"
    by (rule parse_shrinks) (simp_all add: exprFuel_def)
  then have "evalTokens symbols u toks \<noteq> None"
    by (cases rule: shrinks_cases) (auto simp: evalTokens_def split: list.split)
  then show ?thesis using that by blast
qed

text \<open>
  Evaluation always ends: the recursive descent returns a value or an error on every list
  of tokens, within the fuel the model gives it.
\<close>

lemma evalTokens_terminates: "evalTokens symbols u toks \<noteq> None"
  using evalTokens_result [of symbols u toks] by auto

text \<open>More fuel does not change a result.\<close>

lemma parse_mono:
  "parseLevel f symbols u lev toks = Some r \<Longrightarrow> parseLevel (f + k) symbols u lev toks = Some r"
  "parseLoop f symbols u lev v toks = Some r \<Longrightarrow> parseLoop (f + k) symbols u lev v toks = Some r"
proof (induction f symbols u lev toks and f symbols u lev v toks arbitrary: r and r
    rule: parseLevel_parseLoop.induct)
  case (2 f symbols u lev toks)
  then show ?case
    by (auto split: if_splits list.splits option.splits sum.splits prod.splits)
next
  case (4 f symbols u lev v toks)
  show ?case
  proof (cases toks)
    case (Cons t ts)
    show ?thesis
    proof (cases "t \<in> set (levelOps lev)")
      case True
      obtain q where q: "parseLevel f symbols u (lev - 1) ts = Some q"
        using "4.prems" Cons True by (auto split: option.splits)
      with "4.IH"(1) [OF Cons] True
      have q': "parseLevel (f + k) symbols u (lev - 1) ts = Some q" by simp
      show ?thesis
      proof (cases q)
        case (Inr w)
        obtain x rest where w: "w = (x, rest)" by fastforce
        show ?thesis
        proof (cases "applyOp t v x")
          case (Inr v')
          then have "parseLoop (f + k) symbols u lev v' rest = Some r"
            using "4.IH"(2) [OF Cons] "4.prems" True Cons q \<open>q = Inr w\<close> w by auto
          then show ?thesis using Cons True q' \<open>q = Inr w\<close> w Inr by simp
        qed (use "4.prems" Cons True q q' Inr w in simp)
      qed (use "4.prems" Cons True q q' in auto)
    qed (use "4.prems" Cons in simp)
  qed (use "4.prems" in simp)
qed auto

text \<open>What the parser does, whatever the fuel.\<close>

definition parses :: "symbol_table \<Rightarrow> bool \<Rightarrow> nat \<Rightarrow> string list \<Rightarrow> asm_error + int \<times> string list \<Rightarrow> bool" where
  "parses symbols u lev toks r \<longleftrightarrow> (\<exists>f. parseLevel f symbols u lev toks = Some r)"

definition loops ::
  "symbol_table \<Rightarrow> bool \<Rightarrow> nat \<Rightarrow> int \<Rightarrow> string list \<Rightarrow> asm_error + int \<times> string list \<Rightarrow> bool" where
  "loops symbols u lev v toks r \<longleftrightarrow> (\<exists>f. parseLoop f symbols u lev v toks = Some r)"

lemma parses_up:
  assumes "parses symbols u (lev - 1) toks (Inr (v, rest))" and "loops symbols u lev v rest r"
    and "lev \<noteq> 0"
  shows "parses symbols u lev toks r"
proof -
  obtain f g where "parseLevel f symbols u (lev - 1) toks = Some (Inr (v, rest))"
    and "parseLoop g symbols u lev v rest = Some r"
    using assms(1,2) by (auto simp: parses_def loops_def)
  then have "parseLevel (Suc (f + g)) symbols u lev toks = Some r"
    using parse_mono(1) [of f _ _ "lev - 1" _ _ g] parse_mono(2) [of g _ _ lev _ _ _ f] assms(3)
    by (simp add: add.commute)
  then show ?thesis unfolding parses_def ..
qed

lemma parses_up_error:
  assumes "parses symbols u (lev - 1) toks (Inl e)" and "lev \<noteq> 0"
  shows "parses symbols u lev toks (Inl e)"
proof -
  obtain f where "parseLevel f symbols u (lev - 1) toks = Some (Inl e)"
    using assms(1) by (auto simp: parses_def)
  then have "parseLevel (Suc f) symbols u lev toks = Some (Inl e)" using assms(2) by simp
  then show ?thesis unfolding parses_def ..
qed

lemma loops_stop:
  "toks = [] \<or> hd toks \<notin> set (levelOps lev) \<Longrightarrow> loops symbols u lev v toks (Inr (v, toks))"
  unfolding loops_def by (intro exI [of _ "Suc 0"]) (auto split: list.split)

lemma loops_step:
  assumes "t \<in> set (levelOps lev)" and "parses symbols u (lev - 1) ts (Inr (x, rest))"
    and "applyOp t v x = Inr v'" and "loops symbols u lev v' rest r"
  shows "loops symbols u lev v (t # ts) r"
proof -
  obtain f g where "parseLevel f symbols u (lev - 1) ts = Some (Inr (x, rest))"
    and "parseLoop g symbols u lev v' rest = Some r"
    using assms(2,4) by (auto simp: parses_def loops_def)
  then have "parseLoop (Suc (f + g)) symbols u lev v (t # ts) = Some r"
    using parse_mono(1) [of f _ _ "lev - 1" _ _ g] parse_mono(2) [of g _ _ lev _ _ _ f] assms(1,3)
    by (simp add: add.commute)
  then show ?thesis unfolding loops_def ..
qed

lemma loops_step_error:
  assumes "t \<in> set (levelOps lev)"
    and "parses symbols u (lev - 1) ts (Inl e) \<or>
      (\<exists>x rest. parses symbols u (lev - 1) ts (Inr (x, rest)) \<and> applyOp t v x = Inl e)"
  shows "loops symbols u lev v (t # ts) (Inl e)"
proof -
  obtain f where "parseLevel f symbols u (lev - 1) ts = Some (Inl e) \<or>
      (\<exists>x rest. parseLevel f symbols u (lev - 1) ts = Some (Inr (x, rest)) \<and> applyOp t v x = Inl e)"
    using assms(2) by (auto simp: parses_def)
  then have "parseLoop (Suc f) symbols u lev v (t # ts) = Some (Inl e)" using assms(1) by auto
  then show ?thesis unfolding loops_def ..
qed

lemma parses_primary:
  "t \<notin> {''('', ''+'', ''-'', ''~''} \<Longrightarrow>
   parses symbols u 0 (t # ts)
     (bindE (case parseNumber t of Some n \<Rightarrow> Inr n | None \<Rightarrow> symbolValue symbols u t)
       (\<lambda>v. Inr (v, ts)))"
  unfolding parses_def by (intro exI [of _ "Suc 0"]) (auto split: option.split)

lemma parses_paren:
  assumes "parses symbols u 6 ts r"
  shows "parses symbols u 0 (''('' # ts)
    (bindE r (\<lambda>(v, rest). if rest \<noteq> [] \<and> hd rest = '')'' then Inr (v, tl rest) else Inl MissingParen))"
proof -
  obtain f where "parseLevel f symbols u 6 ts = Some r" using assms by (auto simp: parses_def)
  then have "parseLevel (Suc f) symbols u 0 (''('' # ts) = Some
    (bindE r (\<lambda>(v, rest). if rest \<noteq> [] \<and> hd rest = '')'' then Inr (v, tl rest) else Inl MissingParen))"
    by (cases r) auto
  then show ?thesis unfolding parses_def ..
qed

lemma parses_unary:
  assumes "parses symbols u 0 ts r" and "t \<in> {''+'', ''-'', ''~''}"
  shows "parses symbols u 0 (t # ts)
    (bindE r (\<lambda>(v, rest). Inr (if t = ''+'' then v else if t = ''-'' then - v else not16 v, rest)))"
proof -
  obtain f where "parseLevel f symbols u 0 ts = Some r" using assms(1) by (auto simp: parses_def)
  then have "parseLevel (Suc f) symbols u 0 (t # ts) = Some
    (bindE r (\<lambda>(v, rest). Inr (if t = ''+'' then v else if t = ''-'' then - v else not16 v, rest)))"
    using assms(2) by (cases r) auto
  then show ?thesis unfolding parses_def ..
qed

subsection \<open>The value of an expression\<close>

datatype expr = Lit string | Una string expr | Bin string expr expr

definition opLevel :: "string \<Rightarrow> nat" where
  "opLevel t =
     (if t \<in> {''*'', ''/'', ''%''} then 1 else if t \<in> {''+'', ''-''} then 2
      else if t \<in> {''<<'', ''>>''} then 3 else if t = ''&'' then 4 else if t = ''^'' then 5
      else if t = ''|'' then 6 else 0)"

lemma levelOps_iff: "t \<in> set (levelOps lev) \<longleftrightarrow> lev \<noteq> 0 \<and> opLevel t = lev"
  by (auto simp: levelOps_def opLevel_def)

lemma opLevel_le: "opLevel t \<le> 6"
  by (simp add: opLevel_def)

text \<open>The tokens of an expression, with parentheses only where precedence asks for them.\<close>

fun exprTokens :: "nat \<Rightarrow> expr \<Rightarrow> string list" where
  "exprTokens lev (Lit t) = [t]"
| "exprTokens lev (Una t e) = t # exprTokens 0 e"
| "exprTokens lev (Bin t a b) =
     (let body = exprTokens (opLevel t) a @ t # exprTokens (opLevel t - 1) b
      in if opLevel t \<le> lev then body else ''('' # body @ ['')''])"

fun exprValue :: "symbol_table \<Rightarrow> bool \<Rightarrow> expr \<Rightarrow> asm_error + int" where
  "exprValue symbols u (Lit t) =
     (case parseNumber t of Some n \<Rightarrow> Inr n | None \<Rightarrow> symbolValue symbols u t)"
| "exprValue symbols u (Una t e) =
     bindE (exprValue symbols u e)
       (\<lambda>v. Inr (if t = ''+'' then v else if t = ''-'' then - v else not16 v))"
| "exprValue symbols u (Bin t a b) =
     bindE (exprValue symbols u a) (\<lambda>v. bindE (exprValue symbols u b) (applyOp t v))"

fun wfExpr :: "expr \<Rightarrow> bool" where
  "wfExpr (Lit t) \<longleftrightarrow> t \<notin> {''('', ''+'', ''-'', ''~''}"
| "wfExpr (Una t e) \<longleftrightarrow> t \<in> {''+'', ''-'', ''~''} \<and> wfExpr e"
| "wfExpr (Bin t a b) \<longleftrightarrow> opLevel t \<noteq> 0 \<and> wfExpr a \<and> wfExpr b"

text \<open>The parser at level \<open>lev\<close> finds the value \<open>d\<close> and goes on with \<open>rest\<close>.\<close>

definition continues ::
  "symbol_table \<Rightarrow> bool \<Rightarrow> nat \<Rightarrow> int \<Rightarrow> string list \<Rightarrow> asm_error + int \<times> string list \<Rightarrow> bool" where
  "continues symbols u lev v rest r \<longleftrightarrow>
     (if lev = 0 then r = Inr (v, rest) else loops symbols u lev v rest r)"

definition finds ::
  "symbol_table \<Rightarrow> bool \<Rightarrow> nat \<Rightarrow> string list \<Rightarrow> asm_error + int \<Rightarrow> string list \<Rightarrow> bool" where
  "finds symbols u lev toks d rest \<longleftrightarrow>
     (case d of
        Inl e \<Rightarrow> parses symbols u lev toks (Inl e)
      | Inr v \<Rightarrow> \<forall>r. continues symbols u lev v rest r \<longrightarrow> parses symbols u lev toks r)"

text \<open>The tokens after it do not belong to a tighter level.\<close>

definition looser :: "nat \<Rightarrow> string list \<Rightarrow> bool" where
  "looser lev rest \<longleftrightarrow> rest = [] \<or> opLevel (hd rest) = 0 \<or> lev \<le> opLevel (hd rest)"

lemma continues_stop:
  "looser (Suc lev) rest \<Longrightarrow> continues symbols u lev v rest (Inr (v, rest))"
  by (auto simp: continues_def looser_def levelOps_iff intro!: loops_stop)

lemma finds_stop:
  assumes "finds symbols u lev toks (Inr v) rest" and "looser (Suc lev) rest"
  shows "parses symbols u lev toks (Inr (v, rest))"
  using assms continues_stop by (auto simp: finds_def)

lemma finds_up:
  assumes "finds symbols u lev toks d rest" and "looser (Suc lev) rest"
  shows "finds symbols u (Suc lev) toks d rest"
proof (cases d)
  case (Inl e)
  then show ?thesis using assms(1) parses_up_error [of symbols u "Suc lev"] by (simp add: finds_def)
next
  case (Inr v)
  then show ?thesis
    using finds_stop [of symbols u lev toks v rest] assms parses_up [of symbols u "Suc lev"]
    by (auto simp: finds_def continues_def)
qed

lemma looser_mono: "looser lev rest \<Longrightarrow> k \<le> lev \<Longrightarrow> looser k rest"
  by (auto simp: looser_def)

lemma finds_lift:
  assumes "finds symbols u k toks d rest" and "k \<le> lev" and "looser lev rest"
  shows "finds symbols u lev toks d rest"
  using assms(2,1,3)
proof (induction lev rule: dec_induct)
  case (step n)
  then have "finds symbols u n toks d rest" using looser_mono [of "Suc n" rest n] by simp
  then show ?case using step.prems(2) by (rule finds_up)
qed

lemma finds_binary:
  assumes a: "finds symbols u (opLevel t) (ta @ t # tb @ rest) da (t # tb @ rest)"
    and b: "finds symbols u (opLevel t - 1) (tb @ rest) db rest"
    and t: "opLevel t \<noteq> 0" and rest: "looser (opLevel t) rest"
  shows "finds symbols u (opLevel t) (ta @ t # tb @ rest)
    (bindE da (\<lambda>v. bindE db (applyOp t v))) rest"
proof (cases da)
  case (Inl e)
  then show ?thesis using a by (simp add: finds_def)
next
  case da: (Inr v)
  have t': "t \<in> set (levelOps (opLevel t))" using t by (simp add: levelOps_iff)
  have step: "parses symbols u (opLevel t) (ta @ t # tb @ rest) r"
    if "loops symbols u (opLevel t) v (t # tb @ rest) r" for r
    using a da that t by (simp add: finds_def continues_def)
  show ?thesis
  proof (cases db)
    case (Inl e)
    then have "parses symbols u (opLevel t - 1) (tb @ rest) (Inl e)" using b by (simp add: finds_def)
    then show ?thesis using step loops_step_error [OF t'] da Inl by (auto simp: finds_def)
  next
    case (Inr x)
    have p: "parses symbols u (opLevel t - 1) (tb @ rest) (Inr (x, rest))"
      using finds_stop [of symbols u "opLevel t - 1"] b rest t Inr by simp
    show ?thesis
    proof (cases "applyOp t v x")
      case err: (Inl e)
      have "loops symbols u (opLevel t) v (t # tb @ rest) (Inl e)"
        by (rule loops_step_error [OF t']) (use p err in blast)
      then show ?thesis using step da Inr err by (simp add: finds_def)
    next
      case ok: (Inr v')
      show ?thesis
        using step loops_step [OF t' p ok] t by (simp add: finds_def da Inr ok continues_def)
    qed
  qed
qed

lemma finds_paren:
  assumes "finds symbols u lev toks d ('')'' # rest)" and "lev \<le> 6"
  shows "finds symbols u 0 (''('' # toks) d rest"
proof -
  have close: "looser k ('')'' # rest)" for k by (simp add: looser_def opLevel_def)
  have six: "finds symbols u 6 toks d ('')'' # rest)"
    by (rule finds_lift [OF assms close])
  show ?thesis
  proof (cases d)
    case (Inl e)
    then show ?thesis using six parses_paren [of symbols u toks "Inl e"] by (simp add: finds_def)
  next
    case (Inr v)
    then have "parses symbols u 6 toks (Inr (v, '')'' # rest))"
      using finds_stop [OF _ close] six by simp
    from parses_paren [OF this] show ?thesis by (simp add: finds_def continues_def Inr)
  qed
qed

lemma finds_expr:
  "wfExpr e \<Longrightarrow> lev \<le> 6 \<Longrightarrow> looser lev rest \<Longrightarrow>
   finds symbols u lev (exprTokens lev e @ rest) (exprValue symbols u e) rest"
proof (induction e arbitrary: lev rest)
  case (Lit t)
  have "finds symbols u 0 (t # rest) (exprValue symbols u (Lit t)) rest"
    using parses_primary [of t symbols u rest] Lit.prems(1)
    by (auto simp: finds_def continues_def split: sum.split option.split)
  from finds_lift [OF this] Lit.prems show ?case by simp
next
  case (Una t e)
  have e: "finds symbols u 0 (exprTokens 0 e @ rest) (exprValue symbols u e) rest"
    by (rule Una.IH) (use Una.prems in \<open>auto simp: looser_def\<close>)
  have "finds symbols u 0 (t # exprTokens 0 e @ rest) (exprValue symbols u (Una t e)) rest"
  proof (cases "exprValue symbols u e")
    case (Inl err)
    then show ?thesis
      using e parses_unary [of symbols u "exprTokens 0 e @ rest" "Inl err" t] Una.prems(1)
      by (simp add: finds_def)
  next
    case (Inr v)
    then have "parses symbols u 0 (exprTokens 0 e @ rest) (Inr (v, rest))"
      using e by (simp add: finds_def continues_def)
    from parses_unary [OF this, of t] show ?thesis
      using Una.prems(1) by (simp add: finds_def continues_def Inr)
  qed
  from finds_lift [OF this] Una.prems show ?case by simp
next
  case (Bin t a b)
  let ?l = "opLevel t"
  let ?body = "exprTokens ?l a @ t # exprTokens (?l - 1) b"
  have l: "?l \<noteq> 0" "?l \<le> 6" using Bin.prems(1) opLevel_le by auto
  have body: "finds symbols u ?l (?body @ rest') (exprValue symbols u (Bin t a b)) rest'"
    if "looser ?l rest'" for rest'
  proof -
    have "finds symbols u ?l (exprTokens ?l a @ t # exprTokens (?l - 1) b @ rest')
        (exprValue symbols u a) (t # exprTokens (?l - 1) b @ rest')"
      by (rule Bin.IH(1)) (use Bin.prems(1) l in \<open>auto simp: looser_def\<close>)
    moreover have "finds symbols u (?l - 1) (exprTokens (?l - 1) b @ rest') (exprValue symbols u b) rest'"
      by (rule Bin.IH(2)) (use Bin.prems(1) l that in \<open>auto simp: looser_def\<close>)
    ultimately show ?thesis using finds_binary l(1) that by simp
  qed
  show ?case
  proof (cases "?l \<le> lev")
    case True
    then show ?thesis
      using finds_lift [OF body [of rest] True] Bin.prems looser_mono by (simp add: Let_def)
  next
    case False
    have "finds symbols u 0 (''('' # ?body @ '')'' # rest) (exprValue symbols u (Bin t a b)) rest"
      by (rule finds_paren [OF body l(2)]) (simp add: looser_def opLevel_def)
    from finds_lift [OF this] Bin.prems False show ?thesis by (simp add: Let_def)
  qed
qed

lemma exprTokens_nonempty: "exprTokens lev e \<noteq> []"
  by (cases e) (simp_all add: Let_def)

text \<open>
  C51. The evaluator gives an expression the value that precedence and left associativity give
  it: for every expression, evaluating its tokens, with parentheses only where they are needed,
  gives the value computed on the structure of the expression (\<open>*\<close>, \<open>/\<close>, \<open>%\<close> before \<open>+\<close>, \<open>-\<close>
  before shifts before \<open>&\<close> before \<open>^\<close> before \<open>|\<close>, unary operators first, equal ones from the
  left), and the first error from the left when there is one.
\<close>

theorem evaluator_precedence:
  assumes "wfExpr e"
  shows "evalTokens symbols u (exprTokens 6 e) = Some (exprValue symbols u e)"
proof -
  let ?toks = "exprTokens 6 e"
  have find: "finds symbols u 6 ?toks (exprValue symbols u e) []"
    using finds_expr [OF assms, of 6 "[]"] by (simp add: looser_def)
  obtain r where r: "parseLevel (exprFuel ?toks) symbols u 6 ?toks = Some r"
    using parse_shrinks(1) [of 6 ?toks "exprFuel ?toks" symbols u]
    by (auto simp: exprFuel_def elim: shrinks_cases)
  have same: "r' = r" if p: "parses symbols u 6 ?toks r'" for r'
  proof -
    obtain f where "parseLevel f symbols u 6 ?toks = Some r'" using p by (auto simp: parses_def)
    with parse_mono(1) [OF this, of "exprFuel ?toks"] parse_mono(1) [OF r, of f]
    show ?thesis by (simp add: add.commute)
  qed
  show ?thesis
  proof (cases "exprValue symbols u e")
    case (Inl err)
    then have "Inl err = r" using find same by (simp add: finds_def)
    then show ?thesis using r Inl by (auto simp: evalTokens_def exprTokens_nonempty)
  next
    case (Inr v)
    then have "parses symbols u 6 ?toks (Inr (v, []))"
      using find finds_stop [of symbols u 6 ?toks v "[]"] by (simp add: looser_def)
    then show ?thesis using r Inr same by (auto simp: evalTokens_def exprTokens_nonempty)
  qed
qed

theorem evaluator_precedence_witness:
  "evalTokens Map.empty False [''1'', ''+'', ''2'', ''*'', ''3'', ''-'', ''('', ''4'', ''-'', ''5'', '')''] =
     Some (Inr 8)"
  using evaluator_precedence
    [of "Bin ''-'' (Bin ''+'' (Lit ''1'') (Bin ''*'' (Lit ''2'') (Lit ''3''))) (Bin ''-'' (Lit ''4'') (Lit ''5''))"
      Map.empty False]
  by (simp add: opLevel_def applyOp_def rndInt_def parseNumber_def trim_def isJsSpace_def
      allOf_def isHex_def isOctal_def isBinary_def isDigit_def inRange_def parseInt_def
      positional_def charDigit_def)

end
