(* ===== verification/Encoder_Size.thy ===== *)
theory Encoder_Size
  imports Asm_Encoder Expr_Props
begin

text \<open>
  The two passes over an instruction: the number of words that the first pass reserves and the
  number that the second pass emits, and the chunks of AI and SI.
\<close>

subsection \<open>Undefined symbols\<close>

lemma bindE_Inr: "bindE m f = Inr v \<longleftrightarrow> (\<exists>x. m = Inr x \<and> f x = Inr v)"
  by (cases m) auto

text \<open>
  A value found without undefined symbols is the value found with more symbols, and when
  undefined ones are allowed.
\<close>

lemma symbolValue_mono:
  "symbolValue symbols False t = Inr v \<Longrightarrow> symbols \<subseteq>\<^sub>m larger \<Longrightarrow> symbolValue larger u t = Inr v"
  by (auto simp: symbolValue_def map_le_def dom_def split: option.splits)

lemma parseLevel_mono:
  assumes "symbols \<subseteq>\<^sub>m larger"
  shows "(\<forall>lev toks r. parseLevel f symbols False lev toks = Some (Inr r) \<longrightarrow>
      parseLevel f larger u lev toks = Some (Inr r)) \<and>
   (\<forall>lev v toks r. parseLoop f symbols False lev v toks = Some (Inr r) \<longrightarrow>
      parseLoop f larger u lev v toks = Some (Inr r))"
proof (induction f)
  case (Suc f)
  have IH1: "parseLevel f symbols False lev toks = Some (Inr r) \<Longrightarrow>
      parseLevel f larger u lev toks = Some (Inr r)" for lev toks r
    using Suc.IH by blast
  have IH2: "parseLoop f symbols False lev v toks = Some (Inr r) \<Longrightarrow>
      parseLoop f larger u lev v toks = Some (Inr r)" for lev v toks r
    using Suc.IH by blast
  have "parseLevel (Suc f) larger u lev toks = Some (Inr r)"
    if p: "parseLevel (Suc f) symbols False lev toks = Some (Inr r)" for lev toks r
  proof (cases "lev = 0")
    case False
    then obtain v rest where "parseLevel f symbols False (lev - 1) toks = Some (Inr (v, rest))"
      using p by (auto split: option.splits sum.splits)
    then show ?thesis using p False by (auto dest!: IH1 IH2)
  next
    case True
    then obtain t ts where toks: "toks = t # ts" using p by (cases toks) auto
    consider "t = ''(''" | "t = ''+''" | "t = ''-''" | "t = ''~''" | "t \<notin> {''('', ''+'', ''-'', ''~''}" by blast
    then show ?thesis
    proof cases
      case 1
      then obtain v rest where "parseLevel f symbols False 6 ts = Some (Inr (v, rest))"
        using p True toks by (auto split: option.splits sum.splits)
      then show ?thesis using p True toks 1 by (auto dest!: IH1)
    next
      case 2
      then show ?thesis using p True toks by (auto dest!: IH1)
    next
      case 3
      then obtain v rest where "parseLevel f symbols False 0 ts = Some (Inr (v, rest))"
        using p True toks by (auto split: option.splits sum.splits)
      then show ?thesis using p True toks 3 by (auto dest!: IH1)
    next
      case 4
      then obtain v rest where "parseLevel f symbols False 0 ts = Some (Inr (v, rest))"
        using p True toks by (auto split: option.splits sum.splits)
      then show ?thesis using p True toks 4 by (auto dest!: IH1)
    next
      case 5
      then show ?thesis using p True toks
        by (auto simp: bindE_Inr split: option.splits dest!: symbolValue_mono [OF _ assms])
    qed
  qed
  moreover have "parseLoop (Suc f) larger u lev v toks = Some (Inr r)"
    if "parseLoop (Suc f) symbols False lev v toks = Some (Inr r)" for lev v toks r
    using that
    by (auto split: list.splits if_splits option.splits sum.splits dest!: IH1 IH2)
  ultimately show ?case by blast
qed simp

lemma evalTokens_mono:
  "evalTokens symbols False toks = Some (Inr v) \<Longrightarrow> symbols \<subseteq>\<^sub>m larger \<Longrightarrow>
     evalTokens larger u toks = Some (Inr v)"
  using parseLevel_mono [of symbols larger "exprFuel toks" u]
  by (auto simp: evalTokens_def split: if_splits option.splits sum.splits list.splits)

lemma evalArg_mono:
  assumes "evalArg symbols False s = Inr v" and "symbols \<subseteq>\<^sub>m larger"
  shows "evalArg larger u s = Inr v"
proof -
  obtain e r where e: "substLenCalls Map.empty {} None s = Inr e" "substCharLiterals e = Inr r"
    and v: "the (evalTokens symbols False (tokenize r)) = Inr v"
    using assms by (auto simp: evalArg_def evalExpr_def bindE_Inr)
  obtain x where "evalTokens symbols False (tokenize r) = Some x" by (rule evalTokens_result)
  with v evalTokens_mono [OF _ assms(2), of "tokenize r" v] have "evalTokens larger u (tokenize r) = Some (Inr v)"
    by simp
  then show ?thesis using e by (simp add: evalArg_def evalExpr_def)
qed

lemmas evalArg_allow = evalArg_mono [OF _ map_le_refl, where u = True]

subsection \<open>The number of words\<close>

lemma length_enc_one:
  "encLoadStore b args pc symbols u = Inr ws \<Longrightarrow> length ws = 1"
  "encBranchMem b rrr args pc symbols u = Inr ws \<Longrightarrow> length ws = 1"
  "encRegReg opc base args = Inr ws \<Longrightarrow> length ws = 1"
  "encShift tb args = Inr ws \<Longrightarrow> length ws = 1"
  "encBit opc args symbols u = Inr ws \<Longrightarrow> length ws = 1"
  "encFixed w args = Inr ws \<Longrightarrow> length ws = 1"
  "encLpsw args symbols u = Inr ws \<Longrightarrow> length ws = 1"
  "encOneReg tb args = Inr ws \<Longrightarrow> length ws = 1"
  "encIo opc args symbols u = Inr ws \<Longrightarrow> length ws = 1"
  "encMvi args symbols u = Inr ws \<Longrightarrow> length ws = 1"
  "encodeLRSTR w args = Inr ws \<Longrightarrow> length ws = 1"
  "encodeRindirect opc tb args = Inr ws \<Longrightarrow> length ws = 1"
  "encNeg args = Inr ws \<Longrightarrow> length ws = 1"
  "encDouble opc args = Inr ws \<Longrightarrow> length ws = 1"
  "encMulDiv opc args = Inr ws \<Longrightarrow> length ws = 1"
  "encDecimal opc args = Inr ws \<Longrightarrow> length ws = 1"
  "encConvert tb args = Inr ws \<Longrightarrow> length ws = 1"
  "encBranchRi tb args = Inr ws \<Longrightarrow> length ws = 1"
  "encIoRi tb args = Inr ws \<Longrightarrow> length ws = 1"
  "encBitReg w i args = Inr ws \<Longrightarrow> length ws = 1"
  "encSpecialReg opr w tab nm args = Inr ws \<Longrightarrow> length ws = 1"
  by (auto simp: encLoadStore_def encBranchMem_def encRegReg_def encShift_def encBit_def encFixed_def
      encLpsw_def encOneReg_def encIo_def encMvi_def encodeLRSTR_def encodeRindirect_def encNeg_def
      encDouble_def encMulDiv_def encDecimal_def encConvert_def encBranchRi_def encIoRi_def
      encBitReg_def encSpecialReg_def bindE_Inr)

lemma length_enc_two:
  "encLong w args symbols u = Inr ws \<Longrightarrow> length ws = 2"
  "encImmWord opc tb args symbols u = Inr ws \<Longrightarrow> length ws = 2"
  "encBranch16 w args symbols u = Inr ws \<Longrightarrow> length ws = 2"
  "encTest tb args symbols u = Inr ws \<Longrightarrow> length ws = 2"
  "encSpecialMem w nm args symbols u = Inr ws \<Longrightarrow> length ws = 2"
  by (auto simp: encLong_def encImmWord_def encBranch16_def encTest_def encSpecialMem_def bindE_Inr)

lemma ifE: "(if P then a else b) = c \<Longrightarrow> (P \<Longrightarrow> a = c \<Longrightarrow> R) \<Longrightarrow> (\<not> P \<Longrightarrow> b = c \<Longrightarrow> R) \<Longrightarrow> R"
  by (cases P) auto

lemma length_encodeSpecial:
  "encodeSpecial opr args symbols u = Inr ws \<Longrightarrow>
     length ws = (if opr \<in> set TWO_WORD_OPS then 2 else 1)"
  unfolding encodeSpecial_def
  by (elim ifE; (drule length_enc_one | drule length_enc_two | erule sum.distinct [THEN notE]); simp add: TWO_WORD_OPS_def)

lemma length_encodeBranch:
  "encodeBranch opr args symbols u = Inr ws \<Longrightarrow>
     length ws = (if opr \<in> set TWO_WORD_OPS then 2 else 1)"
  unfolding encodeBranch_def
  by (elim ifE; (drule length_enc_one | drule length_enc_two | erule length_encodeSpecial); simp add: TWO_WORD_OPS_def)

lemma map_of_names:
  "map_of R_INDIRECT opr = Some x \<Longrightarrow> opr \<notin> set TWO_WORD_OPS"
  "map_of REG_REG opr = Some y \<Longrightarrow> opr \<notin> set TWO_WORD_OPS"
  "map_of IMM_WORD opr = Some z \<Longrightarrow> opr \<in> set TWO_WORD_OPS"
proof -
  show "map_of R_INDIRECT opr = Some x \<Longrightarrow> opr \<notin> set TWO_WORD_OPS"
    by (drule map_of_SomeD, unfold R_INDIRECT_def, simp, elim disjE conjE; simp add: TWO_WORD_OPS_def)
  show "map_of REG_REG opr = Some y \<Longrightarrow> opr \<notin> set TWO_WORD_OPS"
    by (drule map_of_SomeD, unfold REG_REG_def, simp, elim disjE conjE; simp add: TWO_WORD_OPS_def)
  show "map_of IMM_WORD opr = Some z \<Longrightarrow> opr \<in> set TWO_WORD_OPS"
    by (drule map_of_SomeD, unfold IMM_WORD_def, simp, elim disjE conjE; simp add: TWO_WORD_OPS_def)
qed

lemma length_encodeExtended:
  assumes "encodeExtended opr args symbols u = Inr ws"
  shows "length ws = (if opr \<in> set TWO_WORD_OPS then 2 else 1)"
proof -
  have tables: "length ws = (if opr \<in> set TWO_WORD_OPS then 2 else 1)"
    if "(case map_of R_INDIRECT opr of Some (opc, tail) \<Rightarrow> encodeRindirect opc tail args
         | None \<Rightarrow>
        (case map_of IMM_WORD opr of Some (opc, tail) \<Rightarrow> encImmWord opc tail args symbols u
         | None \<Rightarrow> encodeBranch opr args symbols u)) = Inr ws"
    using that map_of_names
    by (auto split: option.splits prod.splits dest: length_enc_one length_enc_two length_encodeBranch)
  show ?thesis
    using assms unfolding encodeExtended_def
    by - (elim ifE; (drule length_enc_one | drule length_enc_two | erule tables); simp add: TWO_WORD_OPS_def)
qed

lemma length_encodeBasic:
  assumes "encodeBasic opr args pc symbols u = Inr ws" and "opr \<noteq> ''AI''" "opr \<noteq> ''SI''"
  shows "length ws = (if opr \<in> set TWO_WORD_OPS then 2 else 1)"
proof -
  have tables: "length ws = (if opr \<in> set TWO_WORD_OPS then 2 else 1)"
    if "(case map_of REG_REG opr of Some (opc, base) \<Rightarrow> encRegReg opc base args
         | None \<Rightarrow> encodeExtended opr args symbols u) = Inr ws"
    using that map_of_names
    by (auto split: option.splits prod.splits dest: length_enc_one length_encodeExtended)
  show ?thesis
    using assms unfolding encodeBasic_def
    by - (elim ifE; (drule length_enc_one | erule tables | elim disjE, simp, simp); simp add: TWO_WORD_OPS_def)
qed

lemma upperChar_idem [simp]: "upperChar (upperChar c) = upperChar c"
proof (cases "97 \<le> (of_char c :: nat) \<and> (of_char c :: nat) \<le> 122")
  case True
  then have "((of_char c :: nat) - 32) mod 256 = of_char c - 32"
    by (intro mod_less) linarith
  moreover have "\<not> 97 \<le> (of_char c :: nat) - 32" using True by linarith
  ultimately show ?thesis using True by (simp add: upperChar_def Let_def)
qed (auto simp: upperChar_def Let_def)

lemma toUpperCase_idem [simp]: "toUpperCase (toUpperCase s) = toUpperCase s"
  by (simp add: toUpperCase_def)

lemma split_allow:
  "splitAiSiImm4Chunks opr args symbols False = Inr c \<Longrightarrow> splitAiSiImm4Chunks opr args symbols True = Inr c"
  by (auto simp: splitAiSiImm4Chunks_def bindE_Inr dest: evalArg_allow split: if_splits)

lemma split_case: "splitAiSiImm4Chunks (toUpperCase opr) args symbols u = splitAiSiImm4Chunks opr args symbols u"
  by (simp add: splitAiSiImm4Chunks_def)

lemma length_encAiSi:
  assumes "encAiSi opr args symbols u = Inr ws"
  shows "\<exists>c. splitAiSiImm4Chunks opr args symbols u = Inr c \<and>
    length ws = (case c of None \<Rightarrow> 1 | Some cs \<Rightarrow> length cs)"
proof -
  obtain c base where "splitAiSiImm4Chunks opr args symbols u = Inr c"
    and "(case c of Some cs \<Rightarrow> Inr (map (\<lambda>i4. base OR of_nat i4) cs)
      | None \<Rightarrow> bindE (parseImm4 (args ! 1) symbols u) (\<lambda>i4. Inr [base OR i4])) = Inr ws"
    using assms unfolding encAiSi_def bindE_Inr Let_def by blast
  then show ?thesis by (cases c) (auto simp: bindE_Inr)
qed

lemma size_of_encoding:
  assumes "encodeInstruction lineOp args pc symbols False = Inr ws"
  shows "instructionSize lineOp args symbols = Inr (length ws)"
proof -
  let ?o = "toUpperCase lineOp"
  have basic: "encodeBasic ?o args pc symbols False = Inr ws"
    using assms by (simp add: encodeInstruction_def split: if_splits)
  show ?thesis
  proof (cases "?o = ''AI'' \<or> ?o = ''SI''")
    case True
    then have "encAiSi ?o args symbols False = Inr ws" using basic by (auto simp: encodeBasic_def)
    from length_encAiSi [OF this] obtain c
      where c: "splitAiSiImm4Chunks lineOp args symbols False = Inr c"
        and l: "length ws = (case c of None \<Rightarrow> 1 | Some cs \<Rightarrow> length cs)"
      by (auto simp: split_case)
    have "?o \<notin> set TWO_WORD_OPS" using True by (auto simp: TWO_WORD_OPS_def)
    then show ?thesis using split_allow [OF c] l by (auto simp: instructionSize_def split: option.split)
  next
    case False
    then have "splitAiSiImm4Chunks lineOp args symbols True = Inr None"
      by (simp add: splitAiSiImm4Chunks_def)
    then show ?thesis using length_encodeBasic [OF basic] False by (simp add: instructionSize_def)
  qed
qed

text \<open>
  C15. The two passes agree on lengths: when a line can be encoded with a symbol table, the
  first pass, which may still have undefined symbols, reserves with the same table exactly as
  many words as the second pass emits.
\<close>

theorem size_matches_encoding:
  assumes "encodeInstruction lineOp args pc symbols False = Inr ws"
  shows "instructionSize lineOp args symbols = Inr (length ws)"
  by (rule size_of_encoding [OF assms])

theorem size_matches_encoding_witness:
  "instructionSize ''ai'' [''R1'', ''#40''] Map.empty = Inr 3"
proof -
  have "encodeInstruction ''ai'' [''R1'', ''#40''] 0 Map.empty False = Inr [0x490F, 0x490F, 0x490A]"
    by code_simp
  from size_matches_encoding [OF this] show ?thesis by simp
qed

subsection \<open>Large immediates of AI and SI\<close>

lemma sum_list_int: "sum_list (map int xs) = int (sum_list xs)"
  by (induction xs) simp_all

lemma imm4Chunks_facts: "sum_list (imm4Chunks n) = n \<and> (\<forall>c\<in>set (imm4Chunks n). c \<le> 15)"
proof (induction n rule: imm4Chunks.induct)
  case (1 n)
  show ?case
  proof (cases "n = 0")
    case False
    have step: "imm4Chunks n = min 15 n # imm4Chunks (n - min 15 n)"
      by (rule trans [OF imm4Chunks.simps if_not_P [OF False]])
    note IH = 1 [OF False]
    have "sum_list (imm4Chunks n) = min 15 n + (n - min 15 n)"
      by (simp only: step sum_list.Cons conjunct1 [OF IH])
    also have "\<dots> = n" by (simp only: le_add_diff_inverse min.cobounded2)
    finally have "sum_list (imm4Chunks n) = n" .
    moreover have "\<forall>c\<in>set (imm4Chunks n). c \<le> 15"
      using conjunct2 [OF IH] by (simp only: step set_simps ball_simps min.cobounded1 simp_thms)
    ultimately show ?thesis ..
  qed (simp add: imm4Chunks.simps)
qed

lemma chunk_word:
  fixes b :: u16
  assumes "i \<le> 15" and "b AND 0xF = 0"
  shows "(b OR of_nat i) AND 0xF = of_nat i" "(b OR of_nat i) AND 0xFFF0 = b"
proof -
  have le: "(of_nat i :: u16) \<le> 0xF" using assms(1) by (simp add: word_le_nat_alt unsigned_of_nat take_bit_nat_eq_self)
  then have i: "of_nat i AND 0xF = (of_nat i :: u16)" by (rule and_0xF_id)
  show "(b OR of_nat i) AND 0xF = of_nat i" by (simp add: bit.conj_disj_distrib2 assms(2) i)
  have "of_nat i AND 0xFFF0 = (of_nat i AND 0xF) AND (0xFFF0 :: u16)" by (simp add: i)
  also have "\<dots> = 0" by (simp add: and.assoc)
  finally have z: "of_nat i AND 0xFFF0 = (0 :: u16)" .
  have "b AND 0xFFF0 = b" using assms(2) unfolding bits16 by (auto simp: bit_simps)
  then show "(b OR of_nat i) AND 0xFFF0 = b" by (simp add: bit.conj_disj_distrib2 z)
qed

text \<open>
  An AI or SI with a constant beyond 15 becomes a sequence of instructions with the same
  operation, register and skip condition whose immediates, at most 15 each, add up to the
  constant.
\<close>

lemma large_immediate_split:
  assumes "encodeInstruction opr [r, i] pc symbols False = Inr ws"
    and "toUpperCase opr = ''AI'' \<or> toUpperCase opr = ''SI''"
  shows "\<exists>e n base. requireImmHash i ''I4'' = Inr e \<and> evalArg symbols False e = Inr n \<and> 0 \<le> n \<and>
     base AND 0xF = 0 \<and> (\<forall>w\<in>set ws. w AND 0xFFF0 = base) \<and> (\<Sum>w\<leftarrow>ws. uint (w AND 0xF)) = n"
proof -
  let ?o = "toUpperCase opr"
  have "encAiSi ?o [r, i] symbols False = Inr ws"
    using assms by (auto simp: encodeInstruction_def encodeBasic_def split: if_splits)
  then obtain rr k c where c: "splitAiSiImm4Chunks ?o [r, i] symbols False = Inr c"
    and ws: "(let base = push_bit 11 (if ?o = ''AI'' then 9 else 8) OR push_bit 8 rr OR push_bit 4 k in
      case c of Some cs \<Rightarrow> Inr (map (\<lambda>i4. base OR of_nat i4) cs)
      | None \<Rightarrow> bindE (parseImm4 i symbols False) (\<lambda>i4. Inr [base OR i4])) = Inr ws"
    by (auto simp: encAiSi_def bindE_Inr Let_def)
  obtain e n where e: "requireImmHash i ''I4'' = Inr e" "evalArg symbols False e = Inr n" "0 \<le> n"
    and cs: "c = Some (if n \<le> 0xF then [nat n] else imm4Chunks (nat n))"
    using c assms(2) by (auto simp: splitAiSiImm4Chunks_def bindE_Inr split: if_splits)
  define base :: u16 where "base = push_bit 11 (if ?o = ''AI'' then 9 else 8) OR push_bit 8 rr OR push_bit 4 k"
  have base: "base AND 0xF = 0" unfolding base_def bits16 by (auto simp: bit_simps)
  define xs where "xs = (if n \<le> 0xF then [nat n] else imm4Chunks (nat n))"
  have xs: "sum_list xs = nat n" "\<forall>x\<in>set xs. x \<le> 15"
    using imm4Chunks_facts [of "nat n"] e(3) by (auto simp: xs_def)
  have ws': "ws = map (\<lambda>x. base OR of_nat x) xs" using ws cs by (simp add: base_def xs_def Let_def)
  have "map (\<lambda>x. uint ((base OR of_nat x) AND 0xF)) xs = map int xs"
  proof (rule map_cong [OF refl])
    fix x assume "x \<in> set xs"
    then have x: "x \<le> 15" using xs(2) by simp
    then show "uint ((base OR of_nat x) AND 0xF) = int x"
      by (simp only: chunk_word(1) [OF x base]) (simp add: unsigned_of_nat take_bit_nat_eq_self)
  qed
  then have "(\<Sum>w\<leftarrow>ws. uint (w AND 0xF)) = sum_list (map int xs)"
    by (simp only: ws' map_map comp_def)
  then have "(\<Sum>w\<leftarrow>ws. uint (w AND 0xF)) = n" using xs(1) e(3) sum_list_int [of xs] by simp
  moreover have "\<forall>w\<in>set ws. w AND 0xFFF0 = base" using xs(2) base by (auto simp: ws' chunk_word(2))
  ultimately show ?thesis using e base by blast
qed


theorem large_immediate_split_witness:
  "\<exists>e n base. requireImmHash ''#40'' ''I4'' = Inr e \<and> evalArg Map.empty False e = Inr n \<and> 0 \<le> n \<and>
     base AND 0xF = 0 \<and> (\<forall>w\<in>set [0x490F, 0x490F, 0x490A :: u16]. w AND 0xFFF0 = base) \<and>
     (\<Sum>w\<leftarrow>[0x490F, 0x490F, 0x490A :: u16]. uint (w AND 0xF)) = n"
proof (rule large_immediate_split [of "''AI''" "''R1''" "''#40''" 0 Map.empty])
  show "encodeInstruction ''AI'' [''R1'', ''#40''] 0 Map.empty False = Inr [0x490F, 0x490F, 0x490A]"
    by code_simp
  show "toUpperCase ''AI'' = ''AI'' \<or> toUpperCase ''AI'' = ''SI''" by code_simp
qed

end
