(* ===== verification/Tms_Cru.thy ===== *)
theory Tms_Cru
  imports Io_Bridge Js_Text
begin

text \<open>
  The communication register unit of the TMS9995 board as the handshake uses it,
  \<^verbatim>\<open>cpuboard/tms9995/cru_handshake.ts\<close> (class \<^verbatim>\<open>Tms9995CruHandshake\<close>), and the flag of the
  decrementer, \<^verbatim>\<open>cpuboard/tms9995/cru_timer.ts\<close>.  The lines 0010 to 0027 are one bit each;
  0023 and 0027 are also the low bits of two byte latches.  A method that throws returns the
  left side of a sum.
\<close>

datatype cru_actor = CruCpu | CruIo

datatype cru_out_signal = OutIntBusy | OutReq | OutDena | OutInDack
datatype cru_in_signal = InInt1Cause | InInt2Cause | InReq | InDena | InOutDack

text \<open>An access is logged with the actor, the address and the value.\<close>

type_synonym cru_log = "(cru_actor \<times> u16 \<times> bool) list"

datatype cru_error = CannotWrite cru_actor u16 | CannotRead cru_actor u16
  | OutOfRegion u16 | NotAByte u16

record cru =
  strictRoles :: bool
  cruBits :: "u16 \<Rightarrow> bool"
  outDataByte :: u16
  inDataByte :: u16
  cruWrites :: cru_log
  cruReads :: cru_log

definition BIT_MIN :: u16 where "BIT_MIN = 0x0010"
definition BIT_MAX :: u16 where "BIT_MAX = 0x0027"
definition OUT_DATA_BASE :: u16 where "OUT_DATA_BASE = 0x0023"
definition IN_DATA_BASE :: u16 where "IN_DATA_BASE = 0x0027"

fun cpuOutAddr :: "cru_out_signal \<Rightarrow> u16" where
  "cpuOutAddr OutIntBusy = 0x0010"
| "cpuOutAddr OutReq = 0x0020"
| "cpuOutAddr OutDena = 0x0021"
| "cpuOutAddr OutInDack = 0x0022"

fun cpuInAddr :: "cru_in_signal \<Rightarrow> u16" where
  "cpuInAddr InInt1Cause = 0x0011"
| "cpuInAddr InInt2Cause = 0x0012"
| "cpuInAddr InReq = 0x0024"
| "cpuInAddr InDena = 0x0025"
| "cpuInAddr InOutDack = 0x0026"

definition CPU_WRITABLE :: "u16 list" where
  "CPU_WRITABLE = [cpuOutAddr OutIntBusy, cpuOutAddr OutReq, cpuOutAddr OutDena,
     cpuOutAddr OutInDack, OUT_DATA_BASE]"

definition IO_WRITABLE :: "u16 list" where
  "IO_WRITABLE = [cpuInAddr InInt1Cause, cpuInAddr InInt2Cause, cpuInAddr InReq,
     cpuInAddr InDena, cpuInAddr InOutDack, IN_DATA_BASE]"

lemmas cru_addr_defs = BIT_MIN_def BIT_MAX_def OUT_DATA_BASE_def IN_DATA_BASE_def
  CPU_WRITABLE_def IO_WRITABLE_def

definition newCru :: "bool \<Rightarrow> cru" where
  "newCru strict =
     \<lparr>strictRoles = strict, cruBits = (\<lambda>_. False), outDataByte = 0, inDataByte = 0,
      cruWrites = [], cruReads = []\<rparr>"

definition cru_reset :: "cru \<Rightarrow> cru" where
  "cru_reset c = c\<lparr>cruBits := (\<lambda>_. False), outDataByte := 0, inDataByte := 0,
     cruWrites := [], cruReads := []\<rparr>"

definition normalizeBitAddr :: "u16 \<Rightarrow> cru_error + u16" where
  "normalizeBitAddr a = (if a < BIT_MIN \<or> a > BIT_MAX then Inl (OutOfRegion a) else Inr a)"

definition canWrite :: "cru_actor \<Rightarrow> u16 \<Rightarrow> bool" where
  "canWrite actor a =
     (case actor of CruCpu \<Rightarrow> a \<in> set CPU_WRITABLE | CruIo \<Rightarrow> a \<in> set IO_WRITABLE)"

definition canRead :: "cru_actor \<Rightarrow> u16 \<Rightarrow> bool" where
  "canRead actor a =
     (case actor of CruCpu \<Rightarrow> a \<in> set IO_WRITABLE | CruIo \<Rightarrow> a \<in> set CPU_WRITABLE)"

text \<open>The effect of \<^verbatim>\<open>writeBit\<close> once its checks have passed, and the method itself.\<close>

definition storeBit :: "cru_actor \<Rightarrow> u16 \<Rightarrow> bool \<Rightarrow> cru \<Rightarrow> cru" where
  "storeBit actor a v c =
     (let c1 = (if a = OUT_DATA_BASE then
                  c\<lparr>outDataByte := (outDataByte c AND NOT 1) OR (if v then 1 else 0)\<rparr>
                else if a = IN_DATA_BASE then
                  c\<lparr>inDataByte := (inDataByte c AND NOT 1) OR (if v then 1 else 0)\<rparr>
                else c)
      in c1\<lparr>cruBits := (cruBits c1)(a := v), cruWrites := cruWrites c1 @ [(actor, a, v)]\<rparr>)"

definition writeBit :: "cru_actor \<Rightarrow> u16 \<Rightarrow> bool \<Rightarrow> cru \<Rightarrow> cru_error + cru" where
  "writeBit actor a0 v c =
     (case normalizeBitAddr a0 of
        Inl e \<Rightarrow> Inl e
      | Inr a \<Rightarrow> (if strictRoles c \<and> \<not> canWrite actor a then Inl (CannotWrite actor a)
                 else Inr (storeBit actor a v c)))"

definition fetchBit :: "cru_actor \<Rightarrow> u16 \<Rightarrow> cru \<Rightarrow> bool \<times> cru" where
  "fetchBit actor a c =
     (let v = (if a = OUT_DATA_BASE then outDataByte c AND 1 \<noteq> 0
               else if a = IN_DATA_BASE then inDataByte c AND 1 \<noteq> 0
               else cruBits c a)
      in (v, c\<lparr>cruReads := cruReads c @ [(actor, a, v)]\<rparr>))"

definition readBit :: "cru_actor \<Rightarrow> u16 \<Rightarrow> cru \<Rightarrow> cru_error + bool \<times> cru" where
  "readBit actor a0 c =
     (case normalizeBitAddr a0 of
        Inl e \<Rightarrow> Inl e
      | Inr a \<Rightarrow> (if strictRoles c \<and> \<not> canRead actor a then Inl (CannotRead actor a)
                 else Inr (fetchBit actor a c)))"

text \<open>The methods that name a signal.\<close>

definition cpuWriteSignal :: "cru_out_signal \<Rightarrow> bool \<Rightarrow> cru \<Rightarrow> cru_error + cru" where
  "cpuWriteSignal sig = writeBit CruCpu (cpuOutAddr sig)"
definition cpuReadSignal :: "cru_in_signal \<Rightarrow> cru \<Rightarrow> cru_error + bool \<times> cru" where
  "cpuReadSignal sig = readBit CruCpu (cpuInAddr sig)"
definition ioWriteSignal :: "cru_in_signal \<Rightarrow> bool \<Rightarrow> cru \<Rightarrow> cru_error + cru" where
  "ioWriteSignal sig = writeBit CruIo (cpuInAddr sig)"
definition ioReadSignal :: "cru_out_signal \<Rightarrow> cru \<Rightarrow> cru_error + bool \<times> cru" where
  "ioReadSignal sig = readBit CruIo (cpuOutAddr sig)"

definition ioSetInt1Cause :: "u16 \<Rightarrow> cru \<Rightarrow> cru_error + cru" where
  "ioSetInt1Cause cause = writeBit CruIo 0x0011 (cause AND 1 \<noteq> 0)"
definition cpuReadInt1Cause :: "cru \<Rightarrow> cru_error + bool \<times> cru" where
  "cpuReadInt1Cause = readBit CruCpu 0x0011"
definition ioSetInt2Cause :: "u16 \<Rightarrow> cru \<Rightarrow> cru_error + cru" where
  "ioSetInt2Cause cause = writeBit CruIo 0x0012 (cause AND 1 \<noteq> 0)"
definition cpuReadInt2Cause :: "cru \<Rightarrow> cru_error + bool \<times> cru" where
  "cpuReadInt2Cause = readBit CruCpu 0x0012"

definition asByte :: "u16 \<Rightarrow> cru_error + u16" where
  "asByte v = (if v > 0xFF then Inl (NotAByte v) else Inr v)"

text \<open>The byte latches; the control lines do not change.\<close>

definition storeOutByte :: "u16 \<Rightarrow> cru \<Rightarrow> cru" where
  "storeOutByte b c =
     c\<lparr>outDataByte := b, cruBits := (cruBits c)(OUT_DATA_BASE := b AND 1 \<noteq> 0),
       cruWrites := cruWrites c @ [(CruCpu, OUT_DATA_BASE, b AND 1 \<noteq> 0)]\<rparr>"

definition cpuWriteOutDataByte :: "u16 \<Rightarrow> cru \<Rightarrow> cru_error + cru" where
  "cpuWriteOutDataByte v c =
     (case asByte v of Inl e \<Rightarrow> Inl e | Inr b \<Rightarrow> Inr (storeOutByte b c))"

definition ioReadOutDataByte :: "cru \<Rightarrow> u16 \<times> cru" where
  "ioReadOutDataByte c =
     (outDataByte c AND 0xFF,
      c\<lparr>cruReads := cruReads c @ [(CruIo, OUT_DATA_BASE, outDataByte c AND 1 \<noteq> 0)]\<rparr>)"

definition storeInByte :: "u16 \<Rightarrow> cru \<Rightarrow> cru" where
  "storeInByte b c =
     c\<lparr>inDataByte := b, cruBits := (cruBits c)(IN_DATA_BASE := b AND 1 \<noteq> 0),
       cruWrites := cruWrites c @ [(CruIo, IN_DATA_BASE, b AND 1 \<noteq> 0)]\<rparr>"

definition ioWriteInDataByte :: "u16 \<Rightarrow> cru \<Rightarrow> cru_error + cru" where
  "ioWriteInDataByte v c =
     (case asByte v of Inl e \<Rightarrow> Inl e | Inr b \<Rightarrow> Inr (storeInByte b c))"

definition cpuReadInDataByte :: "cru \<Rightarrow> u16 \<times> cru" where
  "cpuReadInDataByte c =
     (inDataByte c AND 0xFF,
      c\<lparr>cruReads := cruReads c @ [(CruCpu, IN_DATA_BASE, inDataByte c AND 1 \<noteq> 0)]\<rparr>)"

definition peekBit :: "u16 \<Rightarrow> cru \<Rightarrow> bool" where
  "peekBit a c = cruBits c a"

definition bitAddrOf :: "cru_out_signal + cru_in_signal \<Rightarrow> u16" where
  "bitAddrOf sig = (case sig of Inl s \<Rightarrow> cpuOutAddr s | Inr s \<Rightarrow> cpuInAddr s)"

record cru_snapshot =
  snapOut :: "cru_out_signal \<Rightarrow> bool"
  snapIn :: "cru_in_signal \<Rightarrow> bool"
  snapOutData :: u16
  snapInData :: u16
  snapBits :: "(string \<times> bool) list"

text \<open>\<^verbatim>\<open>fmt\<close>, and \<^verbatim>\<open>range(BIT_MIN, BIT_MAX)\<close>.\<close>

definition fmtAddr :: "u16 \<Rightarrow> string" where
  "fmtAddr a = ''0x'' @ padStart0 4 (toUpperCase (toString16 (unat a)))"

definition bitAddrs :: "u16 list" where
  "bitAddrs = map (\<lambda>i. BIT_MIN + of_nat i) [0 ..< 24]"

definition snapshot :: "cru \<Rightarrow> cru_snapshot" where
  "snapshot c =
     \<lparr>snapOut = (\<lambda>sig. peekBit (cpuOutAddr sig) c),
      snapIn = (\<lambda>sig. peekBit (cpuInAddr sig) c),
      snapOutData = outDataByte c AND 0xFF,
      snapInData = inDataByte c AND 0xFF,
      snapBits = map (\<lambda>a. (fmtAddr a,
        if a = OUT_DATA_BASE then outDataByte c AND 1 \<noteq> 0
        else if a = IN_DATA_BASE then inDataByte c AND 1 \<noteq> 0
        else peekBit a c)) bitAddrs\<rparr>"

subsection \<open>The decrementer's flag\<close>

definition notifyCruFlagWrite :: "u16 \<Rightarrow> bool \<Rightarrow> bool \<Rightarrow> bool" where
  "notifyCruFlagWrite bitAddr v decEnabled = (if bitAddr = 0x1EE1 then v else decEnabled)"

definition readCruTimerFlagBit :: "u16 \<Rightarrow> bool \<Rightarrow> bool" where
  "readCruTimerFlagBit bitAddr decEnabled \<longleftrightarrow> bitAddr = 0x1EE1 \<and> decEnabled"

subsection \<open>When an access throws\<close>

text \<open>
  With the roles unchecked, as the board creates the unit, no access inside the region throws.
\<close>

lemma cru_relaxed:
  assumes "\<not> strictRoles c" and "BIT_MIN \<le> a" and "a \<le> BIT_MAX"
  shows "writeBit actor a v c = Inr (storeBit actor a v c)"
    and "readBit actor a c = Inr (fetchBit actor a c)"
  using assms by (simp_all add: writeBit_def readBit_def normalizeBitAddr_def not_less [symmetric])

end
