(* ===== verification/Tms_Mmap.thy ===== *)
theory Tms_Mmap
  imports Addr_Comparator Step_Break
begin

text \<open>
  The memory-mapped registers FE80 to FE87 of the TMS9995 board,
  \<^verbatim>\<open>cpuboard/tms9995/io_mmap.ts\<close>: a comparator is programmed by writing FE80 (slot), FE81
  (control), FE82 and FE83 (address) in this order; FE84 and FE85 show the last hit; FE86 and
  FE87 are the step unit.
\<close>

definition TMS9995_IO_BASE :: u16 where "TMS9995_IO_BASE = 0xFE80"
definition TMS9995_IO_END :: u16 where "TMS9995_IO_END = 0xFEFF"
definition TMS9995_IO_BREAK_SLOT :: u16 where "TMS9995_IO_BREAK_SLOT = 0xFE80"
definition TMS9995_IO_BREAK_CTRL :: u16 where "TMS9995_IO_BREAK_CTRL = 0xFE81"
definition TMS9995_IO_BREAK_ADDR_HI :: u16 where "TMS9995_IO_BREAK_ADDR_HI = 0xFE82"
definition TMS9995_IO_BREAK_ADDR_LO :: u16 where "TMS9995_IO_BREAK_ADDR_LO = 0xFE83"
definition TMS9995_IO_BREAK_HIT :: u16 where "TMS9995_IO_BREAK_HIT = 0xFE84"
definition TMS9995_IO_BREAK_PREV :: u16 where "TMS9995_IO_BREAK_PREV = 0xFE85"
definition TMS9995_IO_STEP_ENA :: u16 where "TMS9995_IO_STEP_ENA = 0xFE86"
definition TMS9995_IO_STEP_DELAY :: u16 where "TMS9995_IO_STEP_DELAY = 0xFE87"

lemmas mmap_port_defs = TMS9995_IO_BASE_def TMS9995_IO_END_def TMS9995_IO_BREAK_SLOT_def
  TMS9995_IO_BREAK_CTRL_def TMS9995_IO_BREAK_ADDR_HI_def TMS9995_IO_BREAK_ADDR_LO_def
  TMS9995_IO_BREAK_HIT_def TMS9995_IO_BREAK_PREV_def TMS9995_IO_STEP_ENA_def
  TMS9995_IO_STEP_DELAY_def

datatype prog_phase = PhaseIdle | PhaseSlot | PhaseCtrl | PhaseAddrHi

record io_mmap =
  mmComparators :: comparator_bank
  mmStep :: step_break_unit
  phase :: prog_phase
  progSlot :: u16
  progCtrl :: u16
  progAddrHi :: u16

definition newIoMmap :: io_mmap where
  "newIoMmap = \<lparr>mmComparators = newComparatorBank, mmStep = newStepBreakUnit,
     phase = PhaseIdle, progSlot = 0, progCtrl = 0, progAddrHi = 0\<rparr>"

definition mmap_reset :: "io_mmap \<Rightarrow> io_mmap" where
  "mmap_reset m = m\<lparr>mmComparators := bank_reset (mmComparators m), mmStep := sb_reset (mmStep m),
     phase := PhaseIdle, progSlot := 0, progCtrl := 0, progAddrHi := 0\<rparr>"

definition isIoAddr :: "u16 \<Rightarrow> bool" where
  "isIoAddr a \<longleftrightarrow> TMS9995_IO_BASE \<le> a \<and> a \<le> TMS9995_IO_END"

text \<open>
  \<^verbatim>\<open>readPort\<close> of the ports 0033 and 0034 never throws (\<open>hit_port_never_throws\<close> below), so the
  two uses of its result have no error branch.
\<close>

definition mmap_readPort :: "u16 \<Rightarrow> io_mmap \<Rightarrow> u16 option \<times> io_mmap" where
  "mmap_readPort p m =
     (let r = bank_readPort p (mmComparators m)
      in (case snd r of Inr v \<Rightarrow> v | Inl _ \<Rightarrow> None, m\<lparr>mmComparators := fst r\<rparr>))"

definition mmap_readByte :: "u16 \<Rightarrow> io_mmap \<Rightarrow> u16 option \<times> io_mmap" where
  "mmap_readByte a m =
     (if \<not> isIoAddr a then (None, m)
      else if a = TMS9995_IO_BREAK_HIT then
        (let (hit, m1) = mmap_readPort 0x0033 m
         in (case hit of None \<Rightarrow> Some 0xFF
             | Some h \<Rightarrow> if h = 0xFFFF then Some 0xFF else Some (h AND 0x07), m1))
      else if a = TMS9995_IO_BREAK_PREV then
        (let (p, m1) = mmap_readPort 0x0034 m
         in (case p of None \<Rightarrow> Some 0 | Some v \<Rightarrow> Some (v AND 0xFF), m1))
      else if a = TMS9995_IO_STEP_ENA then (Some (sb_getEnable (mmStep m) AND 1), m)
      else if a = TMS9995_IO_STEP_DELAY then (Some (sb_getDelayCount (mmStep m) AND 0xFF), m)
      else (Some 0, m))"

text \<open>The completed sequence is applied to the comparator through its ports.\<close>

definition commitBreak :: "u16 \<Rightarrow> io_mmap \<Rightarrow> io_mmap" where
  "commitBreak addrLo m =
     (let slot = progSlot m AND 0x07
      in if slot > 3 then m
         else
           let ena = drop_bit 3 (progCtrl m) AND 1;
               isio = drop_bit 4 (progCtrl m) AND 1;
               rw = drop_bit 5 (progCtrl m) AND 0x03;
               ctrl = encodeBreakCtrl slot (ena \<noteq> 0) (isio \<noteq> 0) rw;
               addr16 = push_bit 8 (progAddrHi m AND 0xFF) OR (addrLo AND 0xFF);
               b1 = fst (bank_writePort 0x0030 ctrl (mmComparators m));
               b2 = fst (bank_writePort 0x0031 addr16 b1);
               b3 = fst (bank_writePort 0x0032 0 b2)
           in m\<lparr>mmComparators := b3\<rparr>)"

definition mmap_writeByte :: "u16 \<Rightarrow> u16 \<Rightarrow> io_mmap \<Rightarrow> io_mmap \<times> bool" where
  "mmap_writeByte a value m =
     (if \<not> isIoAddr a then (m, False)
      else let v = value AND 0xFF in
        if a = TMS9995_IO_BREAK_SLOT then
          (m\<lparr>progSlot := v AND 0x07, progCtrl := 0, progAddrHi := 0, phase := PhaseSlot\<rparr>, True)
        else if a = TMS9995_IO_BREAK_CTRL then
          (if phase m \<noteq> PhaseSlot \<and> phase m \<noteq> PhaseCtrl then (m\<lparr>phase := PhaseIdle\<rparr>, True)
           else (m\<lparr>progCtrl := v, phase := PhaseCtrl\<rparr>, True))
        else if a = TMS9995_IO_BREAK_ADDR_HI then
          (if phase m \<noteq> PhaseCtrl \<and> phase m \<noteq> PhaseAddrHi then (m\<lparr>phase := PhaseIdle\<rparr>, True)
           else (m\<lparr>progAddrHi := v, phase := PhaseAddrHi\<rparr>, True))
        else if a = TMS9995_IO_BREAK_ADDR_LO then
          (if phase m \<noteq> PhaseAddrHi then (m\<lparr>phase := PhaseIdle\<rparr>, True)
           else ((commitBreak v m)\<lparr>phase := PhaseIdle\<rparr>, True))
        else if a = TMS9995_IO_STEP_ENA then
          (m\<lparr>mmStep := fst (sb_writePort 0x0036 v (mmStep m))\<rparr>, True)
        else if a = TMS9995_IO_STEP_DELAY then
          (m\<lparr>mmStep := fst (sb_writePort 0x0037 v (mmStep m))\<rparr>, True)
        else (m, True))"

text \<open>The results say whether the hit callbacks are due, as for the units themselves.\<close>

definition mmap_probe :: "bus_access \<Rightarrow> io_mmap \<Rightarrow> io_mmap \<times> int" where
  "mmap_probe access m =
     (let (b, hit) = bank_probe access (mmComparators m) in (m\<lparr>mmComparators := b\<rparr>, hit))"

definition mmap_onInstructionFetch :: "u16 \<Rightarrow> io_mmap \<Rightarrow> io_mmap \<times> bool" where
  "mmap_onInstructionFetch word m =
     (let (u, hit) = sb_onInstructionFetch word (mmStep m) in (m\<lparr>mmStep := u\<rparr>, hit))"

lemma hit_port_never_throws:
  "p = 0x0033 \<or> p = 0x0034 \<Longrightarrow> \<exists>v. snd (bank_readPort p b) = Inr (Some v)"
  by (auto simp: bank_readPort_def break_port_defs Let_def)

end
