(* ===== verification/Tms_Status.thy ===== *)
theory Tms_Status
  imports Prelude
begin

text \<open>
  The status register of the TMS9995, \<^verbatim>\<open>cpuboard/tms9995/status.ts\<close> and the bit constants of
  \<^verbatim>\<open>types.ts\<close>.  The functions for bytes take the byte in a 16-bit value, as the code does.
\<close>

definition ST_LGT :: u16 where "ST_LGT = 0x8000"
definition ST_AGT :: u16 where "ST_AGT = 0x4000"
definition ST_EQ :: u16 where "ST_EQ = 0x2000"
definition ST_C :: u16 where "ST_C = 0x1000"
definition ST_OV :: u16 where "ST_OV = 0x0800"
definition ST_OP :: u16 where "ST_OP = 0x0400"
definition ST_X :: u16 where "ST_X = 0x0200"
definition ST_IMASK :: u16 where "ST_IMASK = 0x000F"

lemmas st_defs = ST_LGT_def ST_AGT_def ST_EQ_def ST_C_def ST_OV_def ST_OP_def ST_X_def ST_IMASK_def

text \<open>\<^verbatim>\<open>cond ? out | bit : out & ~bit\<close>.\<close>

definition putBit :: "u16 \<Rightarrow> bool \<Rightarrow> u16 \<Rightarrow> u16" where
  "putBit m b st = (if b then st OR m else st AND NOT m)"

definition setLaeWord :: "u16 \<Rightarrow> u16 \<Rightarrow> u16" where
  "setLaeWord st r =
     (let out = st AND NOT (ST_LGT OR ST_AGT OR ST_EQ)
      in if r = 0 then out OR ST_EQ
         else let out1 = out OR ST_LGT
              in if r AND 0x8000 = 0 then out1 OR ST_AGT else out1)"

text \<open>The number of ones among the low eight bits, and whether it is odd.\<close>

definition onesByte :: "u16 \<Rightarrow> nat" where
  "onesByte b = (\<Sum>i\<leftarrow>[0..<8]. if drop_bit i b AND 1 \<noteq> 0 then 1 else 0)"

definition setLaeByte :: "u16 \<Rightarrow> u16 \<Rightarrow> u16" where
  "setLaeByte st resultByte =
     (let b = resultByte AND 0xFF;
          out = st AND NOT (ST_LGT OR ST_AGT OR ST_EQ OR ST_OP);
          out1 = (if b = 0 then out OR ST_EQ
                  else if b AND 0x80 = 0 then (out OR ST_LGT) OR ST_AGT else out OR ST_LGT)
      in if odd (onesByte b) then out1 OR ST_OP else out1)"

definition setCompareWord :: "u16 \<Rightarrow> u16 \<Rightarrow> u16 \<Rightarrow> u16" where
  "setCompareWord st d s =
     (let out = st AND NOT (ST_LGT OR ST_AGT OR ST_EQ);
          out1 = (if d = s then out OR ST_EQ else out);
          out2 = (if d > s then out1 OR ST_LGT else out1)
      in if sint d > sint s then out2 OR ST_AGT else out2)"

text \<open>\<^verbatim>\<open>(b << 24) >> 24\<close>.\<close>

definition signed8 :: "u16 \<Rightarrow> int" where
  "signed8 b = sint (ucast b :: u8)"

definition setCompareByte :: "u16 \<Rightarrow> u16 \<Rightarrow> u16 \<Rightarrow> u16" where
  "setCompareByte st destByte srcByte =
     (let d = destByte AND 0xFF; s = srcByte AND 0xFF;
          out = st AND NOT (ST_LGT OR ST_AGT OR ST_EQ OR ST_OP);
          out1 = (if d = s then out OR ST_EQ else out);
          out2 = (if d > s then out1 OR ST_LGT else out1);
          out3 = (if signed8 d > signed8 s then out2 OR ST_AGT else out2)
      in if odd (onesByte d) then out3 OR ST_OP else out3)"

definition setAddFlags :: "u16 \<Rightarrow> u16 \<Rightarrow> u16 \<Rightarrow> u16 \<Rightarrow> u16" where
  "setAddFlags st a b result =
     (let sum = uint a + uint b;
          out = putBit ST_C (sum > 0xFFFF) (setLaeWord st result);
          as = sint a; bs = sint b; rs = sint result;
          ov = (as > 0 \<and> bs > 0 \<and> rs < 0) \<or> (as < 0 \<and> bs < 0 \<and> rs \<ge> 0)
      in putBit ST_OV ov out)"

definition setSubFlags :: "u16 \<Rightarrow> u16 \<Rightarrow> u16 \<Rightarrow> u16 \<Rightarrow> u16" where
  "setSubFlags st a b result =
     (let out = putBit ST_C (a \<ge> b) (setLaeWord st result);
          as = sint a; bs = sint b; rs = sint result;
          ov = (as \<ge> 0 \<and> bs < 0 \<and> rs < 0) \<or> (as < 0 \<and> bs \<ge> 0 \<and> rs \<ge> 0)
      in putBit ST_OV ov out)"

definition interruptMask :: "u16 \<Rightarrow> u16" where
  "interruptMask st = st AND ST_IMASK"

end
