(* ===== verification/Tms_Board.thy ===== *)
theory Tms_Board
  imports Io_Ports Tms_Cru Tms_Mmap Tms_Status
begin

text \<open>
  The state of the TMS9995 board: the module variables of \<^verbatim>\<open>cpuboard/tms9995/tms9995.ts\<close> and
  those of \<^verbatim>\<open>cpuboard/io_ports.ts\<close>, with the part of that module that the TMS9995 uses, and
  the memory operations of the core.  Memory is the 64 KB buffer that the workers install.

  While an instruction runs the code keeps copies of PC, WP and ST in a context object; the
  context is a component of the state here.  Memory operations use the variables of the module,
  the instructions mostly the context.
\<close>

subsection \<open>State\<close>

datatype port_mode = ModeMN1613 | ModeTMS9995

record exec_ctx =
  cPC :: u16
  cWP :: u16
  cST :: u16
  cIdle :: bool

record tms =
  tMem :: "u16 \<Rightarrow> u8"
  tPC :: u16
  tWP :: u16
  tST :: u16
  tIdle :: bool
  tStatus :: exec_status
  tClock :: nat
  tIrq1 :: bool
  tIrq2 :: bool
  tIrq3 :: bool
  tDecAccum :: nat
  tDecEnabled :: bool
  tpRST :: input_pin
  tpHLT :: input_pin
  tpIRQ1 :: input_pin
  tpIRQ2 :: input_pin
  tpNMI :: input_pin
  tpRUN :: output_pin
  tMmap :: io_mmap
  tHits :: callbacks
  tMode :: port_mode
  tPorts :: io_ports
  tCru :: cru
  tMnIrq :: u32
  ctx :: exec_ctx

type_synonym 'a tcpu = "(tms, 'a) state"

subsection \<open>The port module in its TMS9995 wiring\<close>

text \<open>
  The unit of the board is created with \<^verbatim>\<open>strictRoles: false\<close> and is used inside its region only,
  so none of its methods throws (\<open>cru_relaxed\<close>) and the effects alone are used here.
\<close>

definition cruDo :: "(cru \<Rightarrow> cru) \<Rightarrow> unit tcpu" where
  "cruDo f = modify (tCru_update f)"

text \<open>\<^verbatim>\<open>INT_CAUSE\<close> from the two cause lines, and the lines from a packed cause.\<close>

definition packCause :: "cru_snapshot \<Rightarrow> u16" where
  "packCause snap =
     (if snapIn snap InInt1Cause then 1 else 0)
     OR push_bit 1 (if snapIn snap InInt2Cause then 1 else 0)"

definition applyPackedCause :: "u16 \<Rightarrow> cru \<Rightarrow> cru" where
  "applyPackedCause cause c =
     (let k = cause AND 0x07;
          c1 = storeBit CruIo (cpuInAddr InInt1Cause) (k AND 0x06 = 2) c
      in storeBit CruIo (cpuInAddr InInt2Cause) (k = 1) c1)"

definition busToCru :: "cpu_io_signals \<Rightarrow> cru \<Rightarrow> cru" where
  "busToCru bus c0 =
     (let c1 = storeBit CruCpu (cpuOutAddr OutIntBusy) (INTERRUPT_BUSY bus) c0;
          c2 = applyPackedCause (INT_CAUSE bus) c1;
          c3 = storeBit CruCpu (cpuOutAddr OutReq) (HSHK_OUT_REQ bus) c2;
          c4 = storeBit CruCpu (cpuOutAddr OutDena) (HSHK_OUT_DENA bus) c3;
          c5 = storeBit CruCpu (cpuOutAddr OutInDack) (HSHK_IN_DACK bus) c4;
          c6 = storeBit CruIo (cpuInAddr InReq) (HSHK_IN_REQ bus) c5;
          c7 = storeBit CruIo (cpuInAddr InDena) (HSHK_IN_DENA bus) c6;
          c8 = storeBit CruIo (cpuInAddr InOutDack) (HSHK_OUT_DACK bus) c7;
          c9 = storeOutByte (HSHK_OUT_DATA bus AND 0xFF) c8
      in storeInByte (HSHK_IN_DATA bus AND 0xFF) c9)"

definition cruToBus :: "cru \<Rightarrow> cpu_io_signals \<Rightarrow> cpu_io_signals" where
  "cruToBus c bus =
     (let snap = snapshot c
      in bus\<lparr>INTERRUPT_BUSY := snapOut snap OutIntBusy, INT_CAUSE := packCause snap,
           HSHK_OUT_REQ := snapOut snap OutReq, HSHK_OUT_DENA := snapOut snap OutDena,
           HSHK_IN_DACK := snapOut snap OutInDack, HSHK_IN_REQ := snapIn snap InReq,
           HSHK_IN_DENA := snapIn snap InDena, HSHK_OUT_DACK := snapIn snap InOutDack,
           HSHK_OUT_DATA := snapOutData snap, HSHK_IN_DATA := snapInData snap\<rparr>)"

definition syncBusToTmsCru :: "unit tcpu" where
  "syncBusToTmsCru = do {
     p \<leftarrow> gets tPorts;
     (case handshakeBus p of None \<Rightarrow> ret () | Some bus \<Rightarrow> cruDo (busToCru bus))
   }"

definition syncTmsCruToBus :: "unit tcpu" where
  "syncTmsCruToBus = modify (\<lambda>s. tPorts_update (handshakeBus_update
     (map_option (cruToBus (tCru s)))) s)"

definition tms_attachHandshakeBus :: "cpu_io_signals option \<Rightarrow> unit tcpu" where
  "tms_attachHandshakeBus bus = do {
     modify (tPorts_update (handshakeBus_update (\<lambda>_. bus)));
     syncBusToTmsCru
   }"

definition setCpuPortMode :: "int \<Rightarrow> unit tcpu" where
  "setCpuPortMode cpuType = do {
     modify (tMode_update (\<lambda>_. if cpuType = 2 then ModeTMS9995 else ModeMN1613));
     whenM (cpuType = 2) syncBusToTmsCru
   }"

definition getCpuPortMode :: "int tcpu" where
  "getCpuPortMode = gets (\<lambda>s. case tMode s of ModeMN1613 \<Rightarrow> 1 | ModeTMS9995 \<Rightarrow> 2)"

definition tms_setIntCause :: "u16 \<Rightarrow> unit tcpu" where
  "tms_setIntCause cause = do {
     modify (tPorts_update (intCause_update (\<lambda>_. cause AND 0x07)));
     mode \<leftarrow> gets tMode;
     whenM (mode = ModeTMS9995) (do {
       cruDo (applyPackedCause (cause AND 0x07));
       syncTmsCruToBus
     });
     modify (tPorts_update (handshakeBus_update
       (map_option (\<lambda>bus. bus\<lparr>INT_CAUSE := cause AND 0x07\<rparr>))))
   }"

definition tms_getInterruptBusy :: "u16 tcpu" where
  "tms_getInterruptBusy = do {
     mode \<leftarrow> gets tMode;
     if mode = ModeTMS9995 then do {
       c \<leftarrow> gets tCru;
       cruDo (\<lambda>_. snd (fetchBit CruIo (cpuOutAddr OutIntBusy) c));
       ret (if fst (fetchBit CruIo (cpuOutAddr OutIntBusy) c) then 1 else 0)
     }
     else gets (\<lambda>s. case handshakeBus (tPorts s) of
         Some bus \<Rightarrow> (if INTERRUPT_BUSY bus then 1 else 0)
       | None \<Rightarrow> interruptBusy (tPorts s))
   }"

definition tms_isHandshakeActive :: "bool tcpu" where
  "tms_isHandshakeActive = gets (\<lambda>s.
     if tMode s = ModeTMS9995 then
       (let snap = snapshot (tCru s)
        in snapOut snap OutReq \<or> snapOut snap OutDena \<or> snapOut snap OutInDack
           \<or> snapIn snap InReq \<or> snapIn snap InDena \<or> snapIn snap InOutDack)
     else (case handshakeBus (tPorts s) of
         None \<Rightarrow> False
       | Some bus \<Rightarrow> HSHK_OUT_REQ bus \<or> HSHK_OUT_DENA bus \<or> HSHK_IN_DACK bus
           \<or> HSHK_IN_REQ bus \<or> HSHK_IN_DENA bus \<or> HSHK_OUT_DACK bus))"

definition inCruRegion :: "u16 \<Rightarrow> bool" where
  "inCruRegion a \<longleftrightarrow> a \<ge> 0x0010 \<and> a \<le> 0x0027"

definition tms9995CpuWriteCruBit :: "u16 \<Rightarrow> bool \<Rightarrow> unit tcpu" where
  "tms9995CpuWriteCruBit a v = do {
     mode \<leftarrow> gets tMode;
     whenM (mode = ModeTMS9995)
       (if inCruRegion a then do {
          cruDo (storeBit CruCpu a v);
          snap \<leftarrow> gets (\<lambda>s. snapshot (tCru s));
          modify (tPorts_update (interruptBusy_update
            (\<lambda>_. if snapOut snap OutIntBusy then 1 else 0)));
          modify (tPorts_update (intCause_update (\<lambda>_. packCause snap AND 0x07)));
          syncTmsCruToBus
        }
        else whenM (a = 0x1EE0 \<or> a = 0x1EE1) (modify (tDecEnabled_update (notifyCruFlagWrite a v))))
   }"

definition tms9995CpuReadCruBit :: "u16 \<Rightarrow> bool tcpu" where
  "tms9995CpuReadCruBit a = do {
     mode \<leftarrow> gets tMode;
     if mode \<noteq> ModeTMS9995 then ret False
     else if inCruRegion a then do {
       c \<leftarrow> gets tCru;
       cruDo (\<lambda>_. snd (fetchBit CruCpu a c));
       syncTmsCruToBus;
       ret (fst (fetchBit CruCpu a c))
     }
     else if a = 0x1EE1 then gets (\<lambda>s. readCruTimerFlagBit a (tDecEnabled s))
     else ret False
   }"

definition tms9995CpuWriteCruDataByte :: "u16 \<Rightarrow> unit tcpu" where
  "tms9995CpuWriteCruDataByte v = do {
     mode \<leftarrow> gets tMode;
     whenM (mode = ModeTMS9995) (do { cruDo (storeOutByte (v AND 0xFF)); syncTmsCruToBus })
   }"

definition tms9995CpuReadCruDataByte :: "u16 tcpu" where
  "tms9995CpuReadCruDataByte = do {
     mode \<leftarrow> gets tMode;
     if mode \<noteq> ModeTMS9995 then ret 0
     else do {
       c \<leftarrow> gets tCru;
       cruDo (\<lambda>_. snd (cpuReadInDataByte c));
       syncTmsCruToBus;
       ret (fst (cpuReadInDataByte c))
     }
   }"

definition tms9995MemReadIoByte :: "u16 \<Rightarrow> u16 option tcpu" where
  "tms9995MemReadIoByte a = do {
     mode \<leftarrow> gets tMode;
     if mode \<noteq> ModeTMS9995 then ret None
     else do {
       m \<leftarrow> gets tMmap;
       modify (tMmap_update (\<lambda>_. snd (mmap_readByte a m)));
       ret (fst (mmap_readByte a m))
     }
   }"

definition tms9995MemWriteIoByte :: "u16 \<Rightarrow> u16 \<Rightarrow> bool tcpu" where
  "tms9995MemWriteIoByte a v = do {
     mode \<leftarrow> gets tMode;
     if mode \<noteq> ModeTMS9995 then ret False
     else do {
       m \<leftarrow> gets tMmap;
       modify (tMmap_update (\<lambda>_. fst (mmap_writeByte a v m)));
       ret (snd (mmap_writeByte a v m))
     }
   }"

text \<open>
  The hit callbacks.  The \<^verbatim>\<open>triggerInterrupt\<close> that \<^verbatim>\<open>io_ports.ts\<close> imports is the one of
  \<^verbatim>\<open>mn1613.ts\<close>: the request goes to the other core.
\<close>

definition mnTriggerInterrupt :: "nat \<Rightarrow> unit tcpu" where
  "mnTriggerInterrupt level = modify (\<lambda>s. s\<lparr>tMnIrq := tMnIrq s OR push_bit level 1\<rparr>)"

definition tms_raiseAddrBreakIrq :: "int \<Rightarrow> unit tcpu" where
  "tms_raiseAddrBreakIrq slot = do {
     mode \<leftarrow> gets tMode;
     if mode = ModeTMS9995 then do {
       cruDo (storeBit CruIo (cpuInAddr InInt2Cause) False);
       syncTmsCruToBus;
       mnTriggerInterrupt 2
     }
     else do { tms_setIntCause INT1_ADDR_BREAK; mnTriggerInterrupt 1 }
   }"

definition tms_raiseStepBreakIrq :: "unit tcpu" where
  "tms_raiseStepBreakIrq = do {
     mode \<leftarrow> gets tMode;
     if mode = ModeTMS9995 then do {
       cruDo (storeBit CruIo (cpuInAddr InInt2Cause) True);
       syncTmsCruToBus;
       mnTriggerInterrupt 2
     }
     else do { tms_setIntCause INT1_STEP; mnTriggerInterrupt 1 }
   }"

definition tms_attachIoBoardPorts :: "unit tcpu" where
  "tms_attachIoBoardPorts = modify (tHits_update (\<lambda>_. IoBoardPorts))"

definition tms_resetAddrComparators :: "unit tcpu" where
  "tms_resetAddrComparators = do {
     modify (tMmap_update mmap_reset);
     modify (tHits_update (\<lambda>_. IoBoardPorts))
   }"

subsection \<open>Memory operations\<close>

definition ioMmap_probe :: "bus_access \<Rightarrow> unit tcpu" where
  "ioMmap_probe access = do {
     m \<leftarrow> gets tMmap;
     modify (tMmap_update (\<lambda>_. fst (mmap_probe access m)));
     c \<leftarrow> gets tHits;
     whenM (snd (mmap_probe access m) \<ge> 0 \<and> c = IoBoardPorts)
       (tms_raiseAddrBreakIrq (snd (mmap_probe access m)))
   }"

definition ioMmap_onInstructionFetch :: "u16 \<Rightarrow> unit tcpu" where
  "ioMmap_onInstructionFetch w = do {
     m \<leftarrow> gets tMmap;
     modify (tMmap_update (\<lambda>_. fst (mmap_onInstructionFetch w m)));
     c \<leftarrow> gets tHits;
     whenM (snd (mmap_onInstructionFetch w m) \<and> c = IoBoardPorts) tms_raiseStepBreakIrq
   }"

definition readAccess :: "u16 \<Rightarrow> bus_access" where
  "readAccess a = \<lparr>acc_addr = ucast a, acc_io = False, acc_write = False, acc_data = None,
     acc_prev = None\<rparr>"

definition writeAccess :: "u16 \<Rightarrow> bool \<Rightarrow> u16 \<Rightarrow> u16 \<Rightarrow> bus_access" where
  "writeAccess a isio v p = \<lparr>acc_addr = ucast a, acc_io = isio, acc_write = True,
     acc_data = Some v, acc_prev = Some p\<rparr>"

definition readByte :: "u16 \<Rightarrow> u16 tcpu" where
  "readByte a = do {
     v \<leftarrow> tms9995MemReadIoByte a;
     (case v of
        Some b \<Rightarrow> ret (b AND 0xFF)
      | None \<Rightarrow> do {
          ioMmap_probe (readAccess a);
          gets (\<lambda>s. ucast (tMem s a))
        })
   }"

definition writeByte :: "u16 \<Rightarrow> u16 \<Rightarrow> unit tcpu" where
  "writeByte a value = do {
     p \<leftarrow> readByte a;
     handled \<leftarrow> tms9995MemWriteIoByte a (value AND 0xFF);
     if handled then ioMmap_probe (writeAccess a True (value AND 0xFF) p)
     else do {
       ioMmap_probe (writeAccess a False (value AND 0xFF) p);
       modify (\<lambda>s. s\<lparr>tMem := (tMem s)(a := ucast value)\<rparr>)
     }
   }"

definition readWord :: "u16 \<Rightarrow> u16 tcpu" where
  "readWord a0 = do {
     let a = a0 AND 0xFFFE;
     hi \<leftarrow> readByte a;
     lo \<leftarrow> readByte (a + 1);
     ret (push_bit 8 hi OR lo)
   }"

definition writeWord :: "u16 \<Rightarrow> u16 \<Rightarrow> unit tcpu" where
  "writeWord a0 v = do {
     let a = a0 AND 0xFFFE;
     writeByte a (drop_bit 8 v);
     writeByte (a + 1) (v AND 0xFF)
   }"

definition readReg :: "u16 \<Rightarrow> u16 tcpu" where
  "readReg n = do {
     wp \<leftarrow> gets tWP;
     readWord (wp + (n AND 0x0F) * 2)
   }"

definition writeReg :: "u16 \<Rightarrow> u16 \<Rightarrow> unit tcpu" where
  "writeReg n v = do {
     wp \<leftarrow> gets tWP;
     writeWord (wp + (n AND 0x0F) * 2) v
   }"

definition fetchWord :: "u16 tcpu" where
  "fetchWord = do {
     pc \<leftarrow> gets tPC;
     w \<leftarrow> readWord pc;
     ioMmap_onInstructionFetch w;
     ioMmap_probe (readAccess pc);
     modify (tPC_update (\<lambda>pc. pc + 2));
     ret w
   }"

end
