(* ===== verification/Tms_Execute.thy ===== *)
theory Tms_Execute
  imports Tms_Board Js_Number
begin

text \<open>
  The instructions of the TMS9995, \<^verbatim>\<open>cpuboard/tms9995/addressing.ts\<close> and
  \<^verbatim>\<open>cpuboard/tms9995/execute.ts\<close>.  The tests of the opcode are those of the code, in its order,
  also where a test can never hold.
\<close>

subsection \<open>Operands\<close>

text \<open>\<^verbatim>\<open>TmsEa\<close>: a register of the workspace or a memory address.\<close>

datatype tms_ea = EaReg u16 | EaMem u16

definition resolveEa :: "u16 \<Rightarrow> u16 \<Rightarrow> bool \<Rightarrow> tms_ea tcpu" where
  "resolveEa mode rg isByte = do {
     let m = mode AND 3;
     let r = rg AND 0xF;
     if m = 0 then ret (EaReg r)
     else if m = 1 then do { a \<leftarrow> readReg r; ret (EaMem a) }
     else if m = 3 then do {
       a \<leftarrow> readReg r;
       writeReg r (a + (if isByte then 1 else 2));
       ret (EaMem a)
     }
     else do {
       imm \<leftarrow> fetchWord;
       if r = 0 then ret (EaMem imm)
       else do { b \<leftarrow> readReg r; ret (EaMem (imm + b)) }
     }
   }"

definition readWordEa :: "tms_ea \<Rightarrow> u16 tcpu" where
  "readWordEa ea = (case ea of EaReg r \<Rightarrow> readReg r | EaMem a \<Rightarrow> readWord a)"

definition writeWordEa :: "tms_ea \<Rightarrow> u16 \<Rightarrow> unit tcpu" where
  "writeWordEa ea v = (case ea of EaReg r \<Rightarrow> writeReg r v | EaMem a \<Rightarrow> writeWord a v)"

definition readByteEa :: "tms_ea \<Rightarrow> u16 tcpu" where
  "readByteEa ea =
     (case ea of
        EaReg r \<Rightarrow> do { w \<leftarrow> readReg r; ret (drop_bit 8 w AND 0xFF) }
      | EaMem a \<Rightarrow> readByte a)"

definition writeByteEa :: "tms_ea \<Rightarrow> u16 \<Rightarrow> unit tcpu" where
  "writeByteEa ea value =
     (let v = value AND 0xFF in
      case ea of
        EaReg r \<Rightarrow> do { w \<leftarrow> readReg r; writeReg r (push_bit 8 v OR (w AND 0x00FF)) }
      | EaMem a \<Rightarrow> writeByte a v)"

subsection \<open>The context\<close>

definition setPC :: "u16 \<Rightarrow> unit tcpu" where "setPC v = modify (ctx_update (cPC_update (\<lambda>_. v)))"
definition setWP :: "u16 \<Rightarrow> unit tcpu" where "setWP v = modify (ctx_update (cWP_update (\<lambda>_. v)))"
definition modST :: "(u16 \<Rightarrow> u16) \<Rightarrow> unit tcpu" where
  "modST f = modify (ctx_update (cST_update f))"
definition setIdle :: "unit tcpu" where
  "setIdle = modify (ctx_update (cIdle_update (\<lambda>_. True)))"

definition illegal :: "unit tcpu" where
  "illegal = modify (tStatus_update (\<lambda>_. Break))"

text \<open>\<^verbatim>\<open>doBlwp\<close> of the core, and as the context's callback.\<close>

definition doBlwp :: "u16 \<Rightarrow> u16 option \<Rightarrow> unit tcpu" where
  "doBlwp vec r11 = do {
     w \<leftarrow> readWord vec;
     let newWp = w AND 0xFFFE;
     p \<leftarrow> readWord (vec + 2);
     let newPc = p AND 0xFFFE;
     wp \<leftarrow> gets tWP;
     writeWord (newWp + 26) wp;
     pc \<leftarrow> gets tPC;
     writeWord (newWp + 28) pc;
     st \<leftarrow> gets tST;
     writeWord (newWp + 30) st;
     (case r11 of None \<Rightarrow> ret () | Some v \<Rightarrow> writeWord (newWp + 22) v);
     modify (\<lambda>s. s\<lparr>tWP := newWp, tPC := newPc,
       tST := (tST s AND 0xFFF0) OR (tST s AND 0x000F), tIdle := False\<rparr>)
   }"

definition ctxBlwp :: "u16 \<Rightarrow> u16 option \<Rightarrow> unit tcpu" where
  "ctxBlwp vec r11 = do {
     doBlwp vec r11;
     modify (\<lambda>s. s\<lparr>ctx := (ctx s)\<lparr>cPC := tPC s, cWP := tWP s, cST := tST s\<rparr>\<rparr>)
   }"

subsection \<open>Conditions\<close>

definition testCondition :: "u16 \<Rightarrow> u16 \<Rightarrow> bool" where
  "testCondition cond st =
     (let c = drop_bit 4 cond AND 0x0F;
          lgt = st AND ST_LGT \<noteq> 0; agt = st AND ST_AGT \<noteq> 0; eq = st AND ST_EQ \<noteq> 0;
          carry = st AND ST_C \<noteq> 0; ov = st AND ST_OV \<noteq> 0; op = st AND ST_OP \<noteq> 0
      in if c = 0x0 then True
         else if c = 0x2 then \<not> agt \<and> \<not> eq
         else if c = 0x3 then \<not> lgt \<or> eq
         else if c = 0x4 then eq
         else if c = 0x5 then lgt \<or> eq
         else if c = 0x6 then agt
         else if c = 0x7 then \<not> eq
         else if c = 0x8 then \<not> carry
         else if c = 0x9 then carry
         else if c = 0xA then \<not> ov
         else if c = 0xB then \<not> lgt \<and> \<not> eq
         else if c = 0xC then lgt \<and> \<not> eq
         else if c = 0xD then op
         else False)"

subsection \<open>Format 1\<close>

datatype f1_op = OpA | OpS | OpSOC | OpSZC | OpC | OpMOV

definition format1Byte :: "f1_op \<Rightarrow> tms_ea \<Rightarrow> u16 \<Rightarrow> u16 \<Rightarrow> unit tcpu" where
  "format1Byte op dst d s =
     (case op of
        OpA \<Rightarrow> (let r = (d + s) AND 0xFF in do {
          modST (\<lambda>st. setAddFlags st d s r); modST (\<lambda>st. setLaeByte st r); writeByteEa dst r })
      | OpS \<Rightarrow> (let r = (d - s) AND 0xFF in do {
          modST (\<lambda>st. setSubFlags st d s r); modST (\<lambda>st. setLaeByte st r); writeByteEa dst r })
      | OpSOC \<Rightarrow> (let r = (d OR s) AND 0xFF in do {
          modST (\<lambda>st. setLaeByte st r); writeByteEa dst r })
      | OpSZC \<Rightarrow> (let r = d AND NOT s AND 0xFF in do {
          modST (\<lambda>st. setLaeByte st r); writeByteEa dst r })
      | OpC \<Rightarrow> modST (\<lambda>st. setCompareByte st d s)
      | OpMOV \<Rightarrow> do { modST (\<lambda>st. setLaeByte st s); writeByteEa dst s })"

definition format1Word :: "f1_op \<Rightarrow> tms_ea \<Rightarrow> u16 \<Rightarrow> u16 \<Rightarrow> unit tcpu" where
  "format1Word op dst d s =
     (case op of
        OpA \<Rightarrow> do { modST (\<lambda>st. setAddFlags st d s (d + s)); writeWordEa dst (d + s) }
      | OpS \<Rightarrow> do { modST (\<lambda>st. setSubFlags st d s (d - s)); writeWordEa dst (d - s) }
      | OpSOC \<Rightarrow> do { modST (\<lambda>st. setLaeWord st (d OR s)); writeWordEa dst (d OR s) }
      | OpSZC \<Rightarrow> do { modST (\<lambda>st. setLaeWord st (d AND NOT s)); writeWordEa dst (d AND NOT s) }
      | OpC \<Rightarrow> modST (\<lambda>st. setCompareWord st d s)
      | OpMOV \<Rightarrow> do { modST (\<lambda>st. setLaeWord st s); writeWordEa dst s })"

text \<open>The destination is resolved before the source.\<close>

definition format1 :: "u16 \<Rightarrow> bool \<Rightarrow> f1_op \<Rightarrow> unit tcpu" where
  "format1 ir byteOp op = do {
     dst \<leftarrow> resolveEa (drop_bit 10 ir) (drop_bit 6 ir) byteOp;
     src \<leftarrow> resolveEa (drop_bit 4 ir) ir byteOp;
     if byteOp then do {
       d \<leftarrow> readByteEa dst;
       s \<leftarrow> readByteEa src;
       format1Byte op dst d s
     }
     else do {
       d \<leftarrow> readWordEa dst;
       s \<leftarrow> readWordEa src;
       format1Word op dst d s
     }
   }"

text \<open>The tests \<^verbatim>\<open>hi === 0xa000\<close> to \<^verbatim>\<open>hi === 0x5000\<close>.\<close>

definition FORMAT1_OPS :: "(u16 \<times> bool \<times> f1_op) list" where
  "FORMAT1_OPS = [(0xA000, False, OpA), (0xB000, True, OpA), (0x6000, False, OpS),
     (0x7000, True, OpS), (0x8000, False, OpC), (0x9000, True, OpC), (0xC000, False, OpMOV),
     (0xD000, True, OpMOV), (0xE000, False, OpSOC), (0xF000, True, OpSOC),
     (0x4000, False, OpSZC), (0x5000, True, OpSZC)]"

subsection \<open>Division\<close>

text \<open>\<^verbatim>\<open>(x << 16) | y | 0\<close>, and the remainder \<^verbatim>\<open>%\<close> with the sign of the dividend.\<close>

definition signed32 :: "u16 \<Rightarrow> u16 \<Rightarrow> int" where
  "signed32 hi lo = sint (push_bit 16 (ucast hi) OR ucast lo :: u32)"

definition js_rem :: "int \<Rightarrow> int \<Rightarrow> int" where
  "js_rem a b = sgn a * (\<bar>a\<bar> mod \<bar>b\<bar>)"

definition js_quot :: "int \<Rightarrow> int \<Rightarrow> int" where
  "js_quot a b = sgn a * sgn b * (\<bar>a\<bar> div \<bar>b\<bar>)"

definition divsOverflow :: "u16 \<Rightarrow> u16 \<Rightarrow> u16 \<Rightarrow> bool" where
  "divsOverflow w1 w2 divisor =
     (let divs = sint divisor; dividend = signed32 w1 w2
      in if divs = 0 then True
         else if dividend \<ge> 0 then
           (if divs > 0 then dividend > divs * 2 ^ 15 - 1
            else dividend > (- divs) * 2 ^ 15 + (- divs) - 1)
         else
           let nd = - dividend
           in if divs > 0 then nd > divs * 2 ^ 15 + divs - 1
              else nd > (- divs) * 2 ^ 15 - 1)"

definition divOverflow :: "u16 \<Rightarrow> u16 \<Rightarrow> u16 \<Rightarrow> bool" where
  "divOverflow hi lo divisor = (if divisor = 0 then True else hi \<ge> divisor)"

definition execMPY :: "u16 \<Rightarrow> unit tcpu" where
  "execMPY ir = do {
     src \<leftarrow> resolveEa (drop_bit 4 ir) ir False;
     s \<leftarrow> readWordEa src;
     r0 \<leftarrow> readReg 0;
     let prod = (ucast r0 * ucast s :: u32);
     writeReg 0 (ucast (drop_bit 16 prod));
     writeReg 1 (ucast prod)
   }"

definition execDIV :: "u16 \<Rightarrow> unit tcpu" where
  "execDIV ir = do {
     src \<leftarrow> resolveEa (drop_bit 4 ir) ir False;
     dv \<leftarrow> readWordEa src;
     hi32 \<leftarrow> readReg 0;
     lo32 \<leftarrow> readReg 1;
     if divOverflow hi32 lo32 dv then modST (\<lambda>st. st OR ST_OV)
     else do {
       let dividend = signed32 hi32 lo32;
       modST (\<lambda>st. st AND NOT ST_OV);
       writeReg 0 (word_of_int (dividend div uint dv));
       writeReg 1 (word_of_int (js_rem dividend (uint dv)))
     }
   }"

definition execDIVS :: "u16 \<Rightarrow> unit tcpu" where
  "execDIVS ir = do {
     ea \<leftarrow> resolveEa (drop_bit 4 ir) ir False;
     dv \<leftarrow> readWordEa ea;
     hi32 \<leftarrow> readReg 0;
     lo32 \<leftarrow> readReg 1;
     if divsOverflow hi32 lo32 dv then modST (\<lambda>st. st OR ST_OV)
     else do {
       let dividend = signed32 hi32 lo32;
       modST (\<lambda>st. st AND NOT ST_OV);
       writeReg 0 (word_of_int (js_quot dividend (sint dv)));
       writeReg 1 (word_of_int (js_rem dividend (sint dv)))
     }
   }"

definition execMPYS :: "u16 \<Rightarrow> unit tcpu" where
  "execMPYS ir = do {
     ea \<leftarrow> resolveEa (drop_bit 4 ir) ir False;
     v \<leftarrow> readWordEa ea;
     r0 \<leftarrow> readReg 0;
     let prod = (word_of_int (sint r0 * sint v) :: u32);
     writeReg 0 (ucast (drop_bit 16 prod));
     writeReg 1 (ucast prod)
   }"


subsection \<open>Shifts\<close>

datatype shift_kind = SRA | SRL | SLA | SRC

text \<open>One round of the loop: the value, the carry and the overflow.\<close>

definition shiftStep :: "shift_kind \<Rightarrow> bool \<Rightarrow> u16 \<times> bool \<times> bool \<Rightarrow> u16 \<times> bool \<times> bool" where
  "shiftStep kind sign t =
     (case t of (v, carry, ov) \<Rightarrow>
        (case kind of
           SRA \<Rightarrow> (drop_bit 1 v OR (if sign then 0x8000 else 0), v AND 1 \<noteq> 0, ov)
         | SRL \<Rightarrow> (drop_bit 1 v, v AND 1 \<noteq> 0, ov)
         | SLA \<Rightarrow>
             (let c = v AND 0x8000 \<noteq> 0; v1 = push_bit 1 v
              in (v1, c, ov \<or> c \<noteq> (v1 AND 0x8000 \<noteq> 0)))
         | SRC \<Rightarrow>
             (let c = v AND 1 \<noteq> 0 in (drop_bit 1 v OR (if c then 0x8000 else 0), c, ov))))"

definition shiftOp :: "u16 \<Rightarrow> shift_kind \<Rightarrow> unit tcpu" where
  "shiftOp ir kind = do {
     let rg = ir AND 0x0F;
     let c0 = drop_bit 4 ir AND 0x0F;
     cnt \<leftarrow> (if c0 = 0 then do {
               r0 \<leftarrow> readReg 0;
               let c = drop_bit 12 r0 AND 0x0F;
               ret (if c = 0 then 16 else c)
             }
             else ret c0);
     v0 \<leftarrow> readReg rg;
     let sign = (v0 AND 0x8000 \<noteq> 0);
     let (v, carry, overflow) = (shiftStep kind sign ^^ unat cnt) (v0, False, False);
     modST (\<lambda>st. setLaeWord st v);
     modST (putBit ST_C carry);
     whenM (kind = SLA) (modST (putBit ST_OV overflow));
     writeReg rg v
   }"

text \<open>\<^verbatim>\<open>kinds[(ir >>> 10) & 3]\<close>.\<close>

definition shiftKind :: "u16 \<Rightarrow> shift_kind" where
  "shiftKind ir = [SRA, SRL, SLA, SRC] ! unat (drop_bit 10 ir AND 3)"

subsection \<open>The communication register unit\<close>

text \<open>\<^verbatim>\<open>(disp8 << 24) >> 24\<close> added to R12.\<close>

definition cruAddr :: "u16 \<Rightarrow> u16 tcpu" where
  "cruAddr disp8 = do { r12 \<leftarrow> readReg 12; ret (r12 + word_of_int (signed8 disp8)) }"

definition CRU_HSHK_MIN :: u16 where "CRU_HSHK_MIN = 0x0010"
definition CRU_HSHK_MAX :: u16 where "CRU_HSHK_MAX = 0x0027"
definition CRU_HSHK_OUT_DATA :: u16 where "CRU_HSHK_OUT_DATA = 0x0023"
definition CRU_HSHK_IN_DATA :: u16 where "CRU_HSHK_IN_DATA = 0x0027"

definition inHandshakeCruRange :: "u16 \<Rightarrow> nat \<Rightarrow> bool" where
  "inHandshakeCruRange base bits \<longleftrightarrow>
     base \<ge> CRU_HSHK_MIN \<and> unat base + bits - 1 \<le> unat CRU_HSHK_MAX"

text \<open>The loops over the bits of a transfer, from bit \<open>i\<close> on.\<close>

fun readCruBits :: "u16 \<Rightarrow> nat list \<Rightarrow> u16 \<Rightarrow> u16 tcpu" where
  "readCruBits base [] acc = ret acc"
| "readCruBits base (i # is) acc = do {
     b \<leftarrow> tms9995CpuReadCruBit (base + of_nat i);
     readCruBits base is (acc OR push_bit i (if b then 1 else 0))
   }"

definition writeCruBits :: "u16 \<Rightarrow> nat list \<Rightarrow> u16 \<Rightarrow> unit tcpu" where
  "writeCruBits base is v =
     forM is (\<lambda>i. tms9995CpuWriteCruBit (base + of_nat i) (drop_bit i v AND 1 \<noteq> 0))"

definition cruStore :: "u16 \<Rightarrow> nat \<Rightarrow> tms_ea \<Rightarrow> unit tcpu" where
  "cruStore base bits src =
     (if base = CRU_HSHK_IN_DATA \<and> bits = 8 then do {
        b \<leftarrow> tms9995CpuReadCruDataByte;
        writeByteEa src b;
        modST (\<lambda>st. setLaeByte st b)
      }
      else if bits \<le> 8 then do {
        b \<leftarrow> (if inHandshakeCruRange base bits then readCruBits base [0 ..< bits] 0 else ret 0);
        writeByteEa src b;
        modST (\<lambda>st. setLaeByte st b)
      }
      else do {
        w \<leftarrow> (if inHandshakeCruRange base 16 then readCruBits base [0 ..< 16] 0 else ret 0);
        writeWordEa src w;
        modST (\<lambda>st. setLaeWord st w)
      })"

definition cruLoad :: "u16 \<Rightarrow> nat \<Rightarrow> tms_ea \<Rightarrow> unit tcpu" where
  "cruLoad base bits src =
     (if base = CRU_HSHK_OUT_DATA \<and> bits = 8 then do {
        b \<leftarrow> readByteEa src;
        tms9995CpuWriteCruDataByte b
      }
      else if bits \<le> 8 then do { b \<leftarrow> readByteEa src; writeCruBits base [0 ..< bits] b }
      else do { w \<leftarrow> readWordEa src; writeCruBits base [0 ..< 16] w })"

definition cruTransfer :: "u16 \<Rightarrow> bool \<Rightarrow> unit tcpu" where
  "cruTransfer ir isStcr = do {
     let b0 = unat (drop_bit 6 ir AND 0x0F);
     let bits = (if b0 = 0 then 16 else b0);
     src \<leftarrow> resolveEa (drop_bit 4 ir) ir (bits \<le> 8);
     base \<leftarrow> readReg 12;
     if isStcr then cruStore base bits src else cruLoad base bits src
   }"


subsection \<open>Immediates and control\<close>

text \<open>Format 8.  The word after the instruction is fetched before the operation is looked at.\<close>

definition execImmediate :: "u16 \<Rightarrow> unit tcpu" where
  "execImmediate ir = do {
     let r = ir AND 0x0F;
     imm \<leftarrow> fetchWord;
     let k = ir AND 0x00F0;
     if k = 0x00 then do { writeReg r imm; modST (\<lambda>st. setLaeWord st imm) }
     else if k = 0x20 then do {
       old \<leftarrow> readReg r;
       writeReg r (old + imm);
       modST (\<lambda>st. setAddFlags st old imm (old + imm))
     }
     else if k = 0x40 then do {
       v \<leftarrow> readReg r;
       writeReg r (v AND imm);
       w \<leftarrow> readReg r;
       modST (\<lambda>st. setLaeWord st w)
     }
     else if k = 0x60 then do {
       v \<leftarrow> readReg r;
       writeReg r (v OR imm);
       w \<leftarrow> readReg r;
       modST (\<lambda>st. setLaeWord st w)
     }
     else if k = 0x80 then do { v \<leftarrow> readReg r; modST (\<lambda>st. setCompareWord st v imm) }
     else if k = 0xA0 then do { wp \<leftarrow> gets (\<lambda>s. cWP (ctx s)); writeReg r wp }
     else if k = 0xC0 then do { st \<leftarrow> gets (\<lambda>s. cST (ctx s)); writeReg r st }
     else if k = 0xE0 then setWP (imm AND 0xFFFE)
     else illegal
   }"

definition execRTWP :: "unit tcpu" where
  "execRTWP = do {
     st \<leftarrow> readReg 15;
     modST (\<lambda>_. st);
     pc \<leftarrow> readReg 14;
     setPC (pc AND 0xFFFE);
     wp \<leftarrow> readReg 13;
     setWP (wp AND 0xFFFE)
   }"

text \<open>\<^verbatim>\<open>disp & 0x80 ? disp - 256 : disp\<close>, doubled.\<close>

definition jumpOffset :: "u16 \<Rightarrow> u16" where
  "jumpOffset ir =
     (let disp = ir AND 0xFF in (if disp AND 0x80 \<noteq> 0 then disp - 256 else disp) * 2)"

definition execFormat2 :: "u16 \<Rightarrow> unit tcpu" where
  "execFormat2 ir =
     (let sub = drop_bit 8 ir AND 0x0F in
      if sub \<ge> 0x0D \<and> sub \<le> 0x0F then do {
        a \<leftarrow> cruAddr (ir AND 0xFF);
        if sub = 0x0D then tms9995CpuWriteCruBit a True
        else if sub = 0x0E then tms9995CpuWriteCruBit a False
        else do { b \<leftarrow> tms9995CpuReadCruBit a; modST (putBit ST_EQ b) }
      }
      else do {
        st \<leftarrow> gets (\<lambda>s. cST (ctx s));
        whenM (testCondition (ir AND 0x0F00) st)
          (modify (ctx_update (cPC_update (\<lambda>pc. pc + jumpOffset ir))))
      })"

text \<open>Format 3, with the register field taken from bits 10 to 13 and its mode from bits 6 and 7.\<close>

definition execFormat3 :: "u16 \<Rightarrow> unit tcpu" where
  "execFormat3 ir = do {
     dst \<leftarrow> resolveEa (drop_bit 6 ir) (drop_bit 10 ir) False;
     src \<leftarrow> resolveEa (drop_bit 4 ir) ir False;
     d \<leftarrow> readWordEa dst;
     s \<leftarrow> readWordEa src;
     if ir AND 0x0C00 = 0x0800 then do {
       writeWordEa dst (d XOR s);
       modST (\<lambda>st. setLaeWord st (d XOR s))
     }
     else
       let op = drop_bit 11 ir AND 1;
           masked = (if op = 0 then d AND s = s else d OR s = d)
       in modST (putBit ST_EQ masked)
   }"

definition execXOP :: "u16 \<Rightarrow> unit tcpu" where
  "execXOP ir = do {
     src \<leftarrow> resolveEa (drop_bit 4 ir) ir False;
     wp \<leftarrow> gets (\<lambda>s. cWP (ctx s));
     let ea = (case src of EaReg r \<Rightarrow> wp + r * 2 | EaMem a \<Rightarrow> a);
     let xop = drop_bit 6 ir AND 0x0F;
     modST (\<lambda>st. st OR ST_X);
     ctxBlwp (0x0040 + xop * 4) (Some ea)
   }"

subsection \<open>Format 6\<close>

text \<open>Read, compute, write, and the flags of the result.\<close>

definition unaryOp :: "tms_ea \<Rightarrow> (u16 \<Rightarrow> u16) \<Rightarrow> unit tcpu" where
  "unaryOp ea f = do {
     v \<leftarrow> readWordEa ea;
     writeWordEa ea (f v);
     modST (\<lambda>st. setLaeWord st (f v))
   }"

definition storeOp :: "tms_ea \<Rightarrow> u16 \<Rightarrow> unit tcpu" where
  "storeOp ea v = do { writeWordEa ea v; modST (\<lambda>st. setLaeWord st v) }"

definition execABS :: "tms_ea \<Rightarrow> unit tcpu" where
  "execABS ea = do {
     raw \<leftarrow> readWordEa ea;
     modST (\<lambda>st. setLaeWord st raw);
     modST (putBit ST_OV (raw = 0x8000));
     modST (\<lambda>st. st AND NOT ST_C);
     let v = (if raw AND 0x8000 \<noteq> 0 then - raw else raw);
     writeWordEa ea v;
     modST (\<lambda>st. setLaeWord st v)
   }"

text \<open>All of the format but X.\<close>

definition execFormat6 :: "u16 \<Rightarrow> unit tcpu" where
  "execFormat6 ir = do {
     ea \<leftarrow> resolveEa (drop_bit 4 ir) ir False;
     let op6 = ir AND 0xFFC0;
     if op6 = 0x0400 then do { v \<leftarrow> readWordEa ea; ctxBlwp v None }
     else if op6 = 0x0440 then do { v \<leftarrow> readWordEa ea; setPC (v AND 0xFFFE) }
     else if op6 = 0x04C0 then storeOp ea 0
     else if op6 = 0x0500 then unaryOp ea (\<lambda>v. - v)
     else if op6 = 0x0540 then unaryOp ea (\<lambda>v. NOT v)
     else if op6 = 0x0580 then unaryOp ea (\<lambda>v. v + 1)
     else if op6 = 0x05C0 then unaryOp ea (\<lambda>v. v + 2)
     else if op6 = 0x0600 then unaryOp ea (\<lambda>v. v - 1)
     else if op6 = 0x0640 then unaryOp ea (\<lambda>v. v - 2)
     else if op6 = 0x0680 then do {
       v \<leftarrow> readWordEa ea;
       pc \<leftarrow> gets (\<lambda>s. cPC (ctx s));
       writeReg 11 pc;
       setPC (v AND 0xFFFE)
     }
     else if op6 = 0x06C0 then unaryOp ea (\<lambda>v. push_bit 8 (v AND 0xFF) OR drop_bit 8 v)
     else if op6 = 0x0700 then storeOp ea 0xFFFF
     else if op6 = 0x0740 then execABS ea
     else illegal
   }"

subsection \<open>Dispatch\<close>

text \<open>\<^verbatim>\<open>executeInstruction\<close> without its recursive case X.\<close>

definition executePlain :: "u16 \<Rightarrow> unit tcpu" where
  "executePlain ir =
     (let hi = ir AND 0xFF00 in
      if hi = 0x0200 then execImmediate ir
      else if hi = 0x0080 then do { v \<leftarrow> readReg (ir AND 0x0F); modST (\<lambda>_. v) }
      else if hi = 0x0090 then do { v \<leftarrow> readReg (ir AND 0x0F); setWP (v AND 0xFFFE) }
      else if ir = 0x0300 then do {
        imm \<leftarrow> fetchWord;
        modST (\<lambda>st. (st AND 0xFFF0) OR (imm AND 0x000F))
      }
      else if ir = 0x0340 then setIdle
      else if ir = 0x0360 then modST (\<lambda>st. st AND 0xFFF0)
      else if ir = 0x0380 then execRTWP
      else if ir AND 0xF000 = 0x1000 then execFormat2 ir
      else if ir AND 0xF000 = 0x2000 then execFormat3 ir
      else if ir AND 0xFC00 = 0x3000 \<or> ir AND 0xFC00 = 0x3400 then
        cruTransfer ir (ir AND 0xFC00 = 0x3400)
      else if ir AND 0xFC00 \<ge> 0x0800 \<and> ir AND 0xFC00 \<le> 0x0BFF then shiftOp ir (shiftKind ir)
      else if ir AND 0xFC00 = 0x3800 then execMPY ir
      else if ir AND 0xFC00 = 0x3C00 then execDIV ir
      else if ir AND 0xF800 = 0x2C00 then execXOP ir
      else
       (case map_of FORMAT1_OPS hi of
          Some (byteOp, op) \<Rightarrow> format1 ir byteOp op
        | None \<Rightarrow>
            if ir AND 0xFF00 = 0x0180 then execDIVS ir
            else if ir AND 0xFF00 = 0x01C0 then execMPYS ir
            else if ir AND 0xC000 = 0x0000 \<and> ir AND 0xFC00 \<ge> 0x0400 \<and> ir AND 0xFC00 < 0x0800
            then execFormat6 ir
            else illegal))"

text \<open>
  X executes the word that is fetched at the PC of the module, by a recursive call.  The engine
  gives up at some depth with a \<^verbatim>\<open>RangeError\<close>; the depth is a parameter.
\<close>

datatype tms_error = StackOverflow

definition restoringPC :: "(tms_error + unit) tcpu \<Rightarrow> (tms_error + unit) tcpu" where
  "restoringPC m = do {
     saved \<leftarrow> gets (\<lambda>s. cPC (ctx s));
     r \<leftarrow> m;
     (case r of Inl e \<Rightarrow> ret (Inl e) | Inr _ \<Rightarrow> do { setPC saved; ret (Inr ()) })
   }"

fun executeInstruction :: "nat \<Rightarrow> u16 \<Rightarrow> (tms_error + unit) tcpu" where
  "executeInstruction 0 ir = ret (Inl StackOverflow)"
| "executeInstruction (Suc depth) ir =
     (if ir AND 0xFFC0 = 0x0480 then do {
        ea \<leftarrow> resolveEa (drop_bit 4 ir) ir False;
        innerPc \<leftarrow> readWordEa ea;
        restoringPC (do {
          setPC (innerPc AND 0xFFFE);
          inner \<leftarrow> fetchWord;
          executeInstruction depth inner
        })
      }
      else do { executePlain ir; ret (Inr ()) })"

declare executeInstruction.simps [simp del]

end
