(* ===== verification/Tms_Run.thy ===== *)
theory Tms_Run
  imports Tms_Execute
begin

text \<open>
  The control of the TMS9995, \<^verbatim>\<open>cpuboard/tms9995/tms9995.ts\<close>: power-on and reset, pins,
  interrupts, the decrementer, one instruction, one tick, and the debugger's access.  The
  depth of nested X instructions that the engine allows is the parameter \<open>depth\<close>.
\<close>

definition CYCLES_PER_INSTR :: nat where "CYCLES_PER_INSTR = 12"
definition DEC_ADDR :: u16 where "DEC_ADDR = 0xFFFA"
definition DEC_TICKS_PER_STEP :: nat where "DEC_TICKS_PER_STEP = 3000"

lemmas tms_const_defs = CYCLES_PER_INSTR_def DEC_ADDR_def DEC_TICKS_PER_STEP_def

definition initialCtx :: exec_ctx where
  "initialCtx = \<lparr>cPC = 0, cWP = 0, cST = 0, cIdle = False\<rparr>"

definition initialTms :: tms where
  "initialTms =
     \<lparr>tMem = (\<lambda>_. 0), tPC = 0, tWP = 0, tST = 0, tIdle = False, tStatus = Idle, tClock = 0,
      tIrq1 = False, tIrq2 = False, tIrq3 = False, tDecAccum = 0, tDecEnabled = False,
      tpRST = createInputPin False, tpHLT = createInputPin False,
      tpIRQ1 = createInputPin False, tpIRQ2 = createInputPin False,
      tpNMI = createInputPin False, tpRUN = createOutputPin False,
      tMmap = newIoMmap, tHits = DefaultCallbacks, tMode = ModeMN1613, tPorts = initialPorts,
      tCru = newCru False, tMnIrq = 0, ctx = initialCtx\<rparr>"

subsection \<open>Interrupts\<close>

definition serviceInterrupt :: "u16 \<Rightarrow> u16 \<Rightarrow> unit tcpu" where
  "serviceInterrupt vector newMask = do {
     doBlwp vector None;
     modify (tST_update (\<lambda>st. (st AND 0xFFF0) OR (newMask AND 0x000F)))
   }"

definition handlePendingInterrupts :: "bool tcpu" where
  "handlePendingInterrupts = do {
     s \<leftarrow> gets id;
     let intmask = tST s AND 0x000F;
     if tIrq1 s \<and> intmask \<ge> 1 then do {
       modify (tIrq1_update (\<lambda>_. False));
       serviceInterrupt 0x0004 0;
       ret True
     }
     else if tIrq2 s \<and> intmask \<ge> 2 then do {
       modify (tIrq2_update (\<lambda>_. False));
       serviceInterrupt 0x0008 1;
       ret True
     }
     else if tIrq3 s \<and> intmask \<ge> 3 then do {
       modify (tIrq3_update (\<lambda>_. False));
       serviceInterrupt 0x000C 2;
       ret True
     }
     else ret False
   }"

subsection \<open>The decrementer\<close>

text \<open>One round of the loop, and the loop, which subtracts a step in each round.\<close>

definition decStep :: "unit tcpu" where
  "decStep = do {
     modify (tDecAccum_update (\<lambda>a. a - DEC_TICKS_PER_STEP));
     v \<leftarrow> readWord DEC_ADDR;
     if v = 0 then do { modify (tIrq3_update (\<lambda>_. True)); writeWord DEC_ADDR 0xFFFF }
     else writeWord DEC_ADDR (v - 1)
   }"

fun decLoop :: "nat \<Rightarrow> unit tcpu" where
  "decLoop 0 = ret ()"
| "decLoop (Suc n) = do { decStep; decLoop n }"

definition tickDecrementer :: "unit tcpu" where
  "tickDecrementer = do {
     e \<leftarrow> gets tDecEnabled;
     whenM e (do {
       modify (tDecAccum_update (\<lambda>a. a + CYCLES_PER_INSTR));
       a \<leftarrow> gets tDecAccum;
       decLoop (a div DEC_TICKS_PER_STEP)
     })
   }"

subsection \<open>Power-on and reset\<close>

definition forTmsInputs :: "(input_pin \<Rightarrow> input_pin) \<Rightarrow> tms \<Rightarrow> tms" where
  "forTmsInputs f s = s\<lparr>tpRST := f (tpRST s), tpHLT := f (tpHLT s), tpIRQ1 := f (tpIRQ1 s),
     tpIRQ2 := f (tpIRQ2 s), tpNMI := f (tpNMI s)\<rparr>"

definition settleTms :: "input_pin \<Rightarrow> input_pin" where
  "settleTms p = (clearDeferred p)\<lparr>prev := cur (clearDeferred p)\<rparr>"

definition setRun :: "bool \<Rightarrow> unit tcpu" where
  "setRun b = modify (tpRUN_update (setOutputLevel b))"

definition setTStatus :: "exec_status \<Rightarrow> unit tcpu" where
  "setTStatus st = modify (tStatus_update (\<lambda>_. st))"

text \<open>The assignments that power-on and reset have in common.\<close>

definition clearCpu :: "unit tcpu" where
  "clearCpu = do {
     modify (\<lambda>s. s\<lparr>tPC := 0, tWP := 0, tST := 0, tIdle := False, tIrq1 := False,
       tIrq2 := False, tIrq3 := False, tDecEnabled := False, tDecAccum := 0\<rparr>);
     modify (forTmsInputs settleTms)
   }"

definition tms_powerOnIdle :: "unit tcpu" where
  "tms_powerOnIdle = do {
     clearCpu;
     setTStatus Idle;
     modify (tClock_update (\<lambda>_. 0));
     setRun False;
     modify (tpRUN_update (\<lambda>p. p\<lparr>prev := False\<rparr>))
   }"

definition tms_reset :: "unit tcpu" where
  "tms_reset = do {
     clearCpu;
     w \<leftarrow> readWord 0;
     modify (tWP_update (\<lambda>_. w AND 0xFFFE));
     p \<leftarrow> readWord 2;
     modify (tPC_update (\<lambda>_. p AND 0xFFFE));
     modify (tClock_update (\<lambda>_. 0));
     setTStatus Running;
     setRun True
   }"

subsection \<open>Pins\<close>

definition tmsEdge :: "input_pin \<Rightarrow> bool \<times> input_pin" where
  "tmsEdge p = (if risingEdge p then (True, p) else takeDeferred p)"

definition tmsSampleRST :: "unit tcpu" where
  "tmsSampleRST = do {
     p \<leftarrow> gets tpRST;
     modify (tpRST_update (\<lambda>_. snd (tmsEdge p)));
     whenM (fst (tmsEdge p)) tms_reset
   }"

definition tmsSampleHLT :: "unit tcpu" where
  "tmsSampleHLT = do {
     p \<leftarrow> gets tpHLT;
     let (req, q) = (if cur p then (True, p) else takeDeferred p);
     modify (tpHLT_update (\<lambda>_. q));
     st \<leftarrow> gets tStatus;
     whenM (req \<and> st = Running) (do { setTStatus Halted; setRun False })
   }"

definition tms_processInputPins :: "unit tcpu" where
  "tms_processInputPins = do {
     tmsSampleRST;
     tmsSampleHLT;
     p1 \<leftarrow> gets tpIRQ1;
     modify (tpIRQ1_update (\<lambda>_. snd (tmsEdge p1)));
     whenM (fst (tmsEdge p1)) (modify (tIrq1_update (\<lambda>_. True)));
     p2 \<leftarrow> gets tpIRQ2;
     modify (tpIRQ2_update (\<lambda>_. snd (tmsEdge p2)));
     whenM (fst (tmsEdge p2)) (modify (tIrq2_update (\<lambda>_. True)));
     pn \<leftarrow> gets tpNMI;
     modify (tpNMI_update (\<lambda>_. snd (tmsEdge pn)));
     whenM (fst (tmsEdge pn)) (serviceInterrupt 0xFFFC 0);
     modify (forTmsInputs commitSample);
     modify (tpRUN_update commitSample)
   }"

record tms_pins =
  pin_RST :: "bool option"
  pin_HLT :: "bool option"
  pin_IRQ1 :: "bool option"
  pin_IRQ2 :: "bool option"
  pin_NMI :: "bool option"

definition tmsDrive :: "bool option \<Rightarrow> input_pin \<Rightarrow> input_pin" where
  "tmsDrive v p = (case v of None \<Rightarrow> p | Some b \<Rightarrow> setInputLevel b p)"

definition tms_setPins :: "tms_pins \<Rightarrow> unit tcpu" where
  "tms_setPins v = do {
     modify (\<lambda>s. s\<lparr>tpRST := tmsDrive (pin_RST v) (tpRST s), tpHLT := tmsDrive (pin_HLT v) (tpHLT s),
       tpIRQ1 := tmsDrive (pin_IRQ1 v) (tpIRQ1 s), tpIRQ2 := tmsDrive (pin_IRQ2 v) (tpIRQ2 s),
       tpNMI := tmsDrive (pin_NMI v) (tpNMI s)\<rparr>);
     tms_processInputPins
   }"

record tms_pin_view =
  vHLT :: bool
  vRUN :: bool
  vRST :: bool
  vIRQ1 :: bool
  vIRQ2 :: bool
  vIRQ3 :: bool
  vNMI :: bool

definition tms_getPins :: "tms_pin_view tcpu" where
  "tms_getPins = gets (\<lambda>s. \<lparr>vHLT = cur (tpHLT s), vRUN = (tStatus s = Running),
     vRST = cur (tpRST s), vIRQ1 = cur (tpIRQ1 s), vIRQ2 = cur (tpIRQ2 s), vIRQ3 = tIrq3 s,
     vNMI = cur (tpNMI s)\<rparr>)"

subsection \<open>Access from outside\<close>

text \<open>The registers in the form of the other core.  The reads are bus accesses.\<close>

definition tms_getState :: "cpu_register tcpu" where
  "tms_getState = do {
     r0 \<leftarrow> readReg 0; r1 \<leftarrow> readReg 1; r2 \<leftarrow> readReg 2; r3 \<leftarrow> readReg 3; r4 \<leftarrow> readReg 4;
     sp \<leftarrow> readReg 10;
     s \<leftarrow> gets id;
     ret \<lparr>R = (\<lambda>i. if i < 5 then [r0, r1, r2, r3, r4] ! i else 0), SP = sp, rSTR = tST s,
       IC = tPC s, CSBR = 0, SSBR = 0, TSR0 = 0, TSR1 = 0, OSR = (\<lambda>_. 0), NPP = 0, IISR = 0,
       SBRB = 0, ICB = 0\<rparr>
   }"

definition tms_triggerInterrupt :: "nat \<Rightarrow> unit tcpu" where
  "tms_triggerInterrupt level =
     (if level = 1 then modify (tIrq1_update (\<lambda>_. True))
      else if level = 2 then modify (tIrq2_update (\<lambda>_. True))
      else ret ())"

definition tms_startRun :: "unit tcpu" where
  "tms_startRun = do {
     p \<leftarrow> gets tpHLT;
     whenM (\<not> cur p) (do {
       modify (tIdle_update (\<lambda>_. False));
       setTStatus Running;
       setRun True
     })
   }"

definition tms_requestHalt :: "unit tcpu" where
  "tms_requestHalt = do {
     st \<leftarrow> gets tStatus;
     whenM (st = Running) (do { setTStatus Halted; setRun False })
   }"

record tms_partial =
  new_PC :: "u16 option"
  new_WP :: "u16 option"
  new_ST :: "u16 option"
  new_IC :: "u16 option"

definition orKeep :: "u16 option \<Rightarrow> (u16 \<Rightarrow> u16) \<Rightarrow> u16 \<Rightarrow> u16" where
  "orKeep v f old = (case v of None \<Rightarrow> old | Some x \<Rightarrow> f x)"

definition tms_setState :: "tms_partial \<Rightarrow> unit tcpu" where
  "tms_setState v = do {
     modify (tPC_update (orKeep (new_PC v) (\<lambda>x. x AND 0xFFFE)));
     modify (tPC_update (orKeep (new_IC v) (\<lambda>x. x AND 0xFFFE)));
     modify (tWP_update (orKeep (new_WP v) (\<lambda>x. x AND 0xFFFE)));
     modify (tST_update (orKeep (new_ST v) id))
   }"

definition pokeByte :: "u16 \<Rightarrow> u16 \<Rightarrow> unit tcpu" where
  "pokeByte a v = modify (\<lambda>s. s\<lparr>tMem := (tMem s)(a := ucast v)\<rparr>)"

definition peekByte :: "u16 \<Rightarrow> u16 tcpu" where
  "peekByte a = gets (\<lambda>s. ucast (tMem s a))"

definition setDecrementerEnabled :: "bool \<Rightarrow> unit tcpu" where
  "setDecrementerEnabled b = modify (tDecEnabled_update (\<lambda>_. b))"

subsection \<open>Instructions and ticks\<close>

definition addCycles :: "unit tcpu" where
  "addCycles = modify (tClock_update (\<lambda>c. c + CYCLES_PER_INSTR))"

text \<open>The state is copied into a new context after the fetch, and back after the instruction.\<close>

definition openCtx :: "tms \<Rightarrow> tms" where
  "openCtx s = s\<lparr>ctx := \<lparr>cPC = tPC s, cWP = tWP s, cST = tST s, cIdle = tIdle s\<rparr>\<rparr>"

definition closeCtx :: "u16 \<Rightarrow> tms \<Rightarrow> tms" where
  "closeCtx pcAfterOpcode s =
     s\<lparr>tPC := (if cPC (ctx s) \<noteq> pcAfterOpcode then cPC (ctx s) else tPC s),
       tWP := cWP (ctx s), tST := cST (ctx s), tIdle := cIdle (ctx s)\<rparr>"

definition afterInstruction :: "unit tcpu" where
  "afterInstruction = do {
     addCycles;
     tickDecrementer;
     s \<leftarrow> gets id;
     if tIdle s then do { setTStatus Halted; setRun False }
     else if tStatus s = Break then setRun False
     else do { _ \<leftarrow> handlePendingInterrupts; ret () }
   }"

text \<open>The fetched word executed in a context of its own.\<close>

definition execWord :: "nat \<Rightarrow> u16 \<Rightarrow> (tms_error + unit) tcpu" where
  "execWord depth ir = do {
     modify openCtx;
     pcAfterOpcode \<leftarrow> gets tPC;
     r \<leftarrow> executeInstruction depth ir;
     (case r of
        Inl e \<Rightarrow> ret (Inl e)
      | Inr _ \<Rightarrow> do { modify (closeCtx pcAfterOpcode); ret (Inr ()) })
   }"

definition tms_executeOne :: "nat \<Rightarrow> (tms_error + unit) tcpu" where
  "tms_executeOne depth = do {
     b \<leftarrow> handlePendingInterrupts;
     if b then do { addCycles; ret (Inr ()) }
     else do {
       idle \<leftarrow> gets tIdle;
       if idle then do {
         b2 \<leftarrow> handlePendingInterrupts;
         whenM b2 addCycles;
         ret (Inr ())
       }
       else do {
         ir \<leftarrow> fetchWord;
         r \<leftarrow> execWord depth ir;
         (case r of Inl e \<Rightarrow> ret (Inl e) | Inr _ \<Rightarrow> do { afterInstruction; ret (Inr ()) })
       }
     }
   }"

text \<open>A stopped processor is started again by \<open>wake\<close>, or the tick ends.\<close>

definition wake :: "bool \<Rightarrow> bool tcpu" where
  "wake already = do {
     b \<leftarrow> (if already then ret True else handlePendingInterrupts);
     whenM b (do { setTStatus Running; setRun True });
     ret b
   }"

definition tms_tickCpu :: "nat \<Rightarrow> (tms_error + unit) tcpu" where
  "tms_tickCpu depth = do {
     tms_processInputPins;
     s \<leftarrow> gets id;
     if cur (tpHLT s) \<or> tStatus s = Idle then ret (Inr ())
     else do {
       go1 \<leftarrow> (if tStatus s = Halted then wake (tIdle s) else ret True);
       if \<not> go1 then ret (Inr ())
       else do {
         st \<leftarrow> gets tStatus;
         go2 \<leftarrow> (if st = Break \<or> st = Step then wake False else ret True);
         if \<not> go2 then ret (Inr ()) else tms_executeOne depth
       }
     }
   }"

end
