(* ===== verification/Tms_Effects.thy ===== *)
theory Tms_Effects
  imports Tms_Run
begin

text \<open>
  What the TMS9995 can do to its board.  As for the other processor, the locale \<open>tms_effect\<close>
  lists the primitive updates as laws of a reflexive and transitive relation and carries the
  relation through the instruction set; \<open>tms_control\<close> goes on to ticks, reset and pins.
\<close>

locale tms_effect = effect_order R for R :: "tms \<Rightarrow> tms \<Rightarrow> bool" +
  assumes rel_storeBit: "R s (tCru_update (storeBit who a b) s)"
    and rel_fetchBit: "R s (tCru_update (\<lambda>_. snd (fetchBit who a (tCru s))) s)"
    and rel_outByte: "R s (tCru_update (storeOutByte (v AND 0xFF)) s)"
    and rel_inByte: "R s (tCru_update (\<lambda>_. snd (cpuReadInDataByte (tCru s))) s)"
    and rel_applyCause: "R s (tCru_update (applyPackedCause v) s)"
    and rel_toBus: "R s (tPorts_update (handshakeBus_update (map_option (cruToBus c))) s)"
    and rel_busCause: "R s (tPorts_update (handshakeBus_update
        (map_option (\<lambda>bus. bus\<lparr>INT_CAUSE := v AND 7\<rparr>))) s)"
    and rel_busy: "R s (tPorts_update (interruptBusy_update (\<lambda>_. if b then 1 else 0)) s)"
    and rel_cause: "R s (tPorts_update (intCause_update (\<lambda>_. v AND 7)) s)"
    and rel_dec: "R s (tDecEnabled_update f s)"
    and rel_mn: "R s (s\<lparr>tMnIrq := w\<rparr>)"
    and rel_mmapRead: "R s (tMmap_update (\<lambda>_. snd (mmap_readByte a (tMmap s))) s)"
    and rel_mmapWrite: "R s (tMmap_update (\<lambda>_. fst (mmap_writeByte a v (tMmap s))) s)"
    and rel_mmapProbe: "R s (tMmap_update (\<lambda>_. fst (mmap_probe acc (tMmap s))) s)"
    and rel_mmapFetch: "R s (tMmap_update (\<lambda>_. fst (mmap_onInstructionFetch v (tMmap s))) s)"
    and rel_tMem: "R s (s\<lparr>tMem := g\<rparr>)"
    and rel_tPC: "R s (tPC_update (\<lambda>pc. pc + 2) s)"
    and rel_blwp: "R s (s\<lparr>tWP := v AND 0xFFFE, tPC := a AND 0xFFFE, tST := st, tIdle := False\<rparr>)"
    and rel_illegal: "R s (tStatus_update (\<lambda>_. Break) s)"
    and rel_cPC: "R s (ctx_update (cPC_update (\<lambda>_. v AND 0xFFFE)) s)"
    and rel_jump: "R s (ctx_update (cPC_update (\<lambda>pc. pc + jumpOffset v)) s)"
    and rel_cWP: "R s (ctx_update (cWP_update (\<lambda>_. v AND 0xFFFE)) s)"
    and rel_cST: "R s (ctx_update (cST_update h) s)"
    and rel_cIdle: "R s (ctx_update (cIdle_update k) s)"
    and rel_reload: "R s (s\<lparr>ctx := (ctx s)\<lparr>cPC := tPC s, cWP := tWP s, cST := tST s\<rparr>\<rparr>)"
    and rel_restore: "state_io_rel R m \<Longrightarrow> state_io_rel R (restoringPC m)"
begin

text \<open>An update with a value that was read just before.\<close>

lemma eff_update_read:
  "(\<And>s. R s (f (g s) s)) \<Longrightarrow> (\<And>x. state_io_rel R (k x)) \<Longrightarrow>
   state_io_rel R (do { x \<leftarrow> gets g; modify (f x); k x })"
proof (rule state_io_relI)
  fix b s t
  assume f: "\<And>s. R s (f (g s) s)" and k: "\<And>x. state_io_rel R (k x)"
    and run: "run_state (do { x \<leftarrow> gets g; modify (f x); k x }) s = (b, t)"
  have "R (f (g s) s) (snd (run_state (k (g s)) (f (g s) s)))"
    using k eff_run by blast
  with f [of s] run show "R s t" by (auto intro: trans_R)
qed

subsection \<open>The port module\<close>

lemma eff_cruDo [effects]:
  "state_io_rel R (cruDo (storeBit who a b))" "state_io_rel R (cruDo (storeOutByte (v AND 0xFF)))"
  "state_io_rel R (cruDo (applyPackedCause v))"
  unfolding cruDo_def by (rule eff_modify, rule rel_storeBit rel_outByte rel_applyCause)+

lemma eff_ports [effects]:
  "state_io_rel R syncTmsCruToBus"
  "state_io_rel R (modify (tPorts_update (handshakeBus_update
        (map_option (\<lambda>bus. bus\<lparr>INT_CAUSE := v AND 7\<rparr>)))))"
  "state_io_rel R (modify (tPorts_update (interruptBusy_update (\<lambda>_. if b then 1 else 0))))"
  "state_io_rel R (modify (tPorts_update (intCause_update (\<lambda>_. v AND 7))))"
  "state_io_rel R (modify (tDecEnabled_update f))"
  "state_io_rel R (mnTriggerInterrupt lv)"
  unfolding syncTmsCruToBus_def mnTriggerInterrupt_def
  by (rule eff_modify, rule rel_toBus rel_busCause rel_busy rel_cause rel_dec rel_mn)+

lemma eff_setIntCause [effects]: "state_io_rel R (tms_setIntCause v)"
  unfolding tms_setIntCause_def by (intro eff_intros effects)

lemma eff_writeCruBit [effects]: "state_io_rel R (tms9995CpuWriteCruBit a b)"
  unfolding tms9995CpuWriteCruBit_def by (intro eff_intros effects)

lemma eff_readCruBit [effects]: "state_io_rel R (tms9995CpuReadCruBit a)"
  unfolding tms9995CpuReadCruBit_def cruDo_def
  by (intro eff_update_read eff_intros effects rel_fetchBit)

lemma eff_dataByte [effects]:
  "state_io_rel R (tms9995CpuWriteCruDataByte v)" "state_io_rel R tms9995CpuReadCruDataByte"
  unfolding tms9995CpuWriteCruDataByte_def tms9995CpuReadCruDataByte_def
  by (intro eff_intros effects) (unfold cruDo_def, intro eff_update_read eff_intros effects rel_inByte)

lemma eff_memIo [effects]:
  "state_io_rel R (tms9995MemReadIoByte a)" "state_io_rel R (tms9995MemWriteIoByte a v)"
  unfolding tms9995MemReadIoByte_def tms9995MemWriteIoByte_def
  by (intro eff_bind eff_if eff_update_read effects rel_mmapRead rel_mmapWrite)+

lemma eff_raise [effects]:
  "state_io_rel R (tms_raiseAddrBreakIrq i)" "state_io_rel R tms_raiseStepBreakIrq"
  unfolding tms_raiseAddrBreakIrq_def tms_raiseStepBreakIrq_def by (intro eff_intros effects)+

subsection \<open>Memory\<close>

lemma eff_tmsProbe [effects]: "state_io_rel R (ioMmap_probe acc)"
  unfolding ioMmap_probe_def by (intro eff_update_read eff_intros effects rel_mmapProbe)

lemma eff_tmsFetch [effects]: "state_io_rel R (ioMmap_onInstructionFetch v)"
  unfolding ioMmap_onInstructionFetch_def by (intro eff_update_read eff_intros effects rel_mmapFetch)

lemma eff_readByte [effects]: "state_io_rel R (readByte a)"
  unfolding readByte_def by (intro eff_intros effects)

lemma eff_writeByte [effects]: "state_io_rel R (writeByte a v)"
  unfolding writeByte_def by (intro eff_intros effects eff_modify rel_tMem)

lemma eff_word [effects]: "state_io_rel R (readWord a)" "state_io_rel R (writeWord a v)"
  unfolding readWord_def writeWord_def by (intro eff_intros effects)+

lemma eff_reg [effects]: "state_io_rel R (readReg n)" "state_io_rel R (writeReg n v)"
  unfolding readReg_def writeReg_def by (intro eff_intros effects)+

lemma eff_fetchWord [effects]: "state_io_rel R fetchWord"
  unfolding fetchWord_def by (intro eff_intros effects eff_modify rel_tPC)

subsection \<open>Instructions\<close>

lemma eff_resolveEa [effects]: "state_io_rel R (resolveEa m r b)"
  unfolding resolveEa_def by (intro eff_intros effects)

lemma eff_ea [effects]:
  "state_io_rel R (readWordEa e)" "state_io_rel R (writeWordEa e v)"
  "state_io_rel R (readByteEa e)" "state_io_rel R (writeByteEa e v)"
  unfolding readWordEa_def writeWordEa_def readByteEa_def writeByteEa_def Let_def
  by (cases e; simp del: run_state_bind; intro eff_intros effects)+

lemma eff_ctx [effects]:
  "state_io_rel R (setPC (v AND 0xFFFE))" "state_io_rel R (setWP (v AND 0xFFFE))"
  "state_io_rel R (modST f)" "state_io_rel R setIdle" "state_io_rel R illegal"
  unfolding setPC_def setWP_def modST_def setIdle_def illegal_def
  by (rule eff_modify, rule rel_cPC rel_cWP rel_cST rel_cIdle rel_illegal)+

lemma eff_doBlwp [effects]: "state_io_rel R (doBlwp v r)"
  unfolding doBlwp_def by (intro eff_intros effects; (simp add: Let_def)?)
    (intro eff_intros effects eff_modify rel_blwp)+

lemma eff_ctxBlwp [effects]: "state_io_rel R (ctxBlwp v r)"
  unfolding ctxBlwp_def by (intro eff_intros effects eff_modify rel_reload)

lemma eff_format1 [effects]: "state_io_rel R (format1 ir b op)"
proof -
  have "state_io_rel R (format1Byte op e d v)" "state_io_rel R (format1Word op e d v)" for e d v
    unfolding format1Byte_def format1Word_def Let_def
    by (cases op; simp del: run_state_bind; intro eff_intros effects)+
  then show ?thesis unfolding format1_def by (intro eff_intros effects)
qed

lemma eff_arith [effects]:
  "state_io_rel R (execMPY ir)" "state_io_rel R (execDIV ir)" "state_io_rel R (execDIVS ir)"
  "state_io_rel R (execMPYS ir)" "state_io_rel R (shiftOp ir kind)"
  unfolding execMPY_def execDIV_def execDIVS_def execMPYS_def shiftOp_def
  by (intro eff_intros effects)+

lemma eff_readCruBits [effects]: "state_io_rel R (readCruBits a is acc)"
  by (induction "is" arbitrary: acc) (auto intro!: eff_intros effects)

lemma eff_cru [effects]: "state_io_rel R (cruTransfer ir b)"
  unfolding cruTransfer_def cruStore_def cruLoad_def writeCruBits_def
  by (intro eff_intros effects)

lemma eff_formats [effects]:
  "state_io_rel R (execImmediate ir)" "state_io_rel R execRTWP" "state_io_rel R (execFormat2 ir)"
  "state_io_rel R (execFormat3 ir)" "state_io_rel R (execXOP ir)" "state_io_rel R (execFormat6 ir)"
  unfolding execImmediate_def execRTWP_def execFormat2_def execFormat3_def execXOP_def
    execFormat6_def cruAddr_def unaryOp_def storeOp_def execABS_def
  by (intro eff_intros effects eff_modify rel_jump)+

lemma eff_executePlain [effects]: "state_io_rel R (executePlain ir)"
  unfolding executePlain_def by (intro eff_intros effects)

lemma eff_executeInstruction [effects]: "state_io_rel R (executeInstruction depth ir)"
proof (induction depth arbitrary: ir)
  case 0
  show ?case unfolding executeInstruction.simps by (rule eff_ret)
next
  case (Suc depth)
  show ?case
    unfolding executeInstruction.simps by (intro eff_intros effects rel_restore Suc.IH)
qed

end

end
