(* ===== verification/Tms_Reach.thy ===== *)
theory Tms_Reach
  imports Tms_Effects
begin

text \<open>
  The control operations of the TMS9995 in the calculus of effects, and the invariant of the
  states that the board can reach.
\<close>

subsection \<open>Control operations\<close>

locale tms_control = tms_effect R for R :: "tms \<Rightarrow> tms \<Rightarrow> bool" +
  assumes rel_irqs: "R s (tIrq1_update f s)" "R s (tIrq2_update f s)" "R s (tIrq3_update f s)"
    and rel_mask: "R s (tST_update h s)"
    and rel_accum: "R s (tDecAccum_update d s)"
    and rel_clear: "R s (s\<lparr>tPC := 0, tWP := 0, tST := 0, tIdle := False, tIrq1 := False,
       tIrq2 := False, tIrq3 := False, tDecEnabled := False, tDecAccum := 0\<rparr>)"
    and rel_tmsPins: "R s (forTmsInputs p s)" "R s (tpRUN_update q s)"
      "R s (tpRST_update p s)" "R s (tpHLT_update p s)" "R s (tpIRQ1_update p s)"
      "R s (tpIRQ2_update p s)" "R s (tpNMI_update p s)"
    and rel_tStatus: "R s (tStatus_update (\<lambda>_. st) s)"
    and rel_tClock: "R s (tClock_update d s)"
    and rel_evenPC: "R s (tPC_update (\<lambda>_. v AND 0xFFFE) s)"
    and rel_evenWP: "R s (tWP_update (\<lambda>_. v AND 0xFFFE) s)"
    and rel_tIdle: "R s (tIdle_update k s)"
    and rel_open: "R s (openCtx s)"
    and rel_close: "R s (closeCtx v s)"
begin

lemma eff_tms_updates [effects]:
  "state_io_rel R (modify (tIrq1_update f))" "state_io_rel R (modify (tIrq2_update f))"
  "state_io_rel R (modify (tIrq3_update f))" "state_io_rel R (modify (tST_update h))"
  "state_io_rel R (modify (tDecAccum_update d))"
  "state_io_rel R (modify (forTmsInputs p))" "state_io_rel R (modify (tpRUN_update q))"
  "state_io_rel R (modify (tpRST_update p))" "state_io_rel R (modify (tpHLT_update p))"
  "state_io_rel R (modify (tpIRQ1_update p))" "state_io_rel R (modify (tpIRQ2_update p))"
  "state_io_rel R (modify (tpNMI_update p))" "state_io_rel R (setTStatus st)"
  "state_io_rel R (setRun b)" "state_io_rel R (modify (tClock_update d))"
  "state_io_rel R (modify (tPC_update (\<lambda>_. v AND 0xFFFE)))"
  "state_io_rel R (modify (tWP_update (\<lambda>_. v AND 0xFFFE)))"
  "state_io_rel R (modify (tIdle_update k))" "state_io_rel R (modify openCtx)"
  "state_io_rel R (modify (closeCtx v))"
  unfolding setTStatus_def setRun_def
  by (rule eff_modify, rule rel_irqs rel_mask rel_accum rel_tmsPins rel_tStatus rel_tClock
      rel_evenPC rel_evenWP rel_tIdle rel_open rel_close)+

lemma eff_clearCpu [effects]: "state_io_rel R clearCpu"
  unfolding clearCpu_def by (intro eff_intros effects eff_modify rel_clear)

lemma eff_interrupts [effects]:
  "state_io_rel R (serviceInterrupt v k)" "state_io_rel R handlePendingInterrupts"
  unfolding handlePendingInterrupts_def serviceInterrupt_def by (intro eff_intros effects)+

lemma eff_decrementer [effects]: "state_io_rel R tickDecrementer"
proof -
  have "state_io_rel R (decLoop n)" for n
    by (induction n) (auto simp: decStep_def simp del: run_state_bind intro!: eff_intros effects)
  then show ?thesis unfolding tickDecrementer_def by (intro eff_intros effects)
qed

lemma eff_reset [effects]: "state_io_rel R tms_powerOnIdle" "state_io_rel R tms_reset"
  unfolding tms_powerOnIdle_def tms_reset_def by (intro eff_intros effects)+

lemma eff_tmsPins [effects]: "state_io_rel R tms_processInputPins"
  unfolding tms_processInputPins_def tmsSampleRST_def tmsSampleHLT_def
  by (intro eff_intros effects)

lemma eff_tmsOutside [effects]:
  "state_io_rel R tms_getState" "state_io_rel R (tms_triggerInterrupt l)"
  "state_io_rel R tms_startRun" "state_io_rel R tms_requestHalt"
  unfolding tms_getState_def tms_triggerInterrupt_def tms_startRun_def tms_requestHalt_def
  by (intro eff_intros effects)+

lemma eff_tms_executeOne [effects]: "state_io_rel R (tms_executeOne depth)"
  unfolding tms_executeOne_def execWord_def afterInstruction_def addCycles_def
  by (intro eff_intros effects)

lemma eff_tms_tickCpu [effects]: "state_io_rel R (tms_tickCpu depth)"
  unfolding tms_tickCpu_def wake_def by (intro eff_intros effects)

end

subsection \<open>The invariant\<close>

definition wf_mmap :: "io_mmap \<Rightarrow> bool" where
  "wf_mmap m \<longleftrightarrow> wf_bank (mmComparators m) \<and> wf_step (mmStep m) \<and> progSlot m \<le> 7
     \<and> progCtrl m \<le> 0xFF \<and> progAddrHi m \<le> 0xFF"

definition wf_cru :: "cru \<Rightarrow> bool" where
  "wf_cru c \<longleftrightarrow> \<not> strictRoles c \<and> outDataByte c \<le> 0xFF \<and> inDataByte c \<le> 0xFF
     \<and> (cruBits c OUT_DATA_BASE \<longleftrightarrow> odd (outDataByte c))
     \<and> (cruBits c IN_DATA_BASE \<longleftrightarrow> odd (inDataByte c))"

definition wf_tms :: "tms \<Rightarrow> bool" where
  "wf_tms s \<longleftrightarrow> even (tPC s) \<and> even (tWP s) \<and> even (cPC (ctx s)) \<and> even (cWP (ctx s))
     \<and> wf_mmap (tMmap s) \<and> wf_cru (tCru s)
     \<and> intCause (tPorts s) \<le> 7 \<and> interruptBusy (tPorts s) \<le> 1"

lemma even_bit0: "even (v :: u16) \<longleftrightarrow> \<not> bit v 0"
  by (simp add: bit_0)

lemma even_and_FFFE [simp]: "even (v AND 0xFFFE :: u16)"
  by (simp add: even_bit0 bit_simps)

lemma even_add_16: "even (x + y :: u16) \<longleftrightarrow> (even x \<longleftrightarrow> even y)"
  by simp

lemma even_jumpOffset [simp]: "even (jumpOffset v)"
  by (simp add: jumpOffset_def Let_def)

lemma wf_mmap_steps:
  assumes "wf_mmap m"
  shows "wf_mmap (snd (mmap_readByte a m))" "wf_mmap (fst (mmap_writeByte a v m))"
    "wf_mmap (fst (mmap_probe acc m))" "wf_mmap (fst (mmap_onInstructionFetch v m))"
    "wf_mmap (mmap_reset m)"
proof -
  have le: "v AND 7 \<le> (7 :: u16)" "v AND 0xFF \<le> (0xFF :: u16)" for v by (rule word_and_le1)+
  have c: "wf_mmap (commitBreak v m)" if "wf_mmap m" for v m
    using that by (auto simp: commitBreak_def wf_mmap_def Let_def intro: wf_bank_write)
  then show "wf_mmap (fst (mmap_writeByte a v m))"
    using assms c [OF assms, of "v AND 0xFF"]
    by (auto simp: mmap_writeByte_def wf_mmap_def Let_def le wf_sb_write)
  show "wf_mmap (snd (mmap_readByte a m))"
    using assms by (auto simp: mmap_readByte_def mmap_readPort_def wf_mmap_def Let_def wf_bank_read)
  show "wf_mmap (fst (mmap_probe acc m))" "wf_mmap (fst (mmap_onInstructionFetch v m))"
    using assms wf_bank_probe [of "mmComparators m" acc] wf_sb_fetch [of "mmStep m" v]
    by (auto simp: mmap_probe_def mmap_onInstructionFetch_def wf_mmap_def split: prod.splits)
  show "wf_mmap (mmap_reset m)"
    using assms by (simp add: mmap_reset_def wf_mmap_def wf_bank_reset)
qed

lemma odd_and1: "(v :: u16) AND 1 \<noteq> 0 \<longleftrightarrow> odd v"
  by (simp add: and_one_eq odd_iff_mod_2_eq_one)

lemma latch_bit:
  fixes v :: u16
  assumes "v \<le> 0xFF"
  shows "(v AND NOT 1) OR (if b then 1 else 0) \<le> 0xFF"
    and "odd ((v AND NOT 1) OR (if b then 1 else 0)) \<longleftrightarrow> b"
proof -
  have "(v AND NOT 1) OR (if b then 1 else 0) = ((v AND NOT 1) OR (if b then 1 else 0)) AND 0xFF"
    using and_0xFF_id [OF assms] unfolding bits16 by (auto simp: bit_simps)
  then show "(v AND NOT 1) OR (if b then 1 else 0) \<le> 0xFF" by (metis word_and_le1)
  show "odd ((v AND NOT 1) OR (if b then 1 else 0)) \<longleftrightarrow> b"
    by (simp add: even_bit0 bit_simps)
qed

lemma wf_cru_steps:
  assumes "wf_cru c"
  shows "wf_cru (storeBit who a b c)" "wf_cru (snd (fetchBit who a c))"
    "wf_cru (storeOutByte (v AND 0xFF) c)" "wf_cru (storeInByte (v AND 0xFF) c)"
    "wf_cru (snd (cpuReadInDataByte c))" "wf_cru (applyPackedCause v c)"
proof -
  have st: "wf_cru (storeBit who a b c)" if "wf_cru c" for who a b c
    using that latch_bit [of "outDataByte c" b] latch_bit [of "inDataByte c" b]
    by (auto simp: storeBit_def wf_cru_def Let_def OUT_DATA_BASE_def IN_DATA_BASE_def)
  show "wf_cru (storeBit who a b c)" using assms by (rule st)
  show "wf_cru (applyPackedCause v c)" using assms st by (simp add: applyPackedCause_def Let_def)
qed (use assms in \<open>auto simp: wf_cru_def fetchBit_def storeOutByte_def storeInByte_def odd_and1
    cpuReadInDataByte_def OUT_DATA_BASE_def IN_DATA_BASE_def Let_def word_and_le1\<close>)


lemma wf_busToCru: "wf_cru c \<Longrightarrow> wf_cru (busToCru bus c)"
  by (simp add: busToCru_def Let_def wf_cru_steps)

lemma wf_restore:
  assumes "state_io_rel (keeps wf_tms) m"
  shows "state_io_rel (keeps wf_tms) (restoringPC m)"
proof (rule state_io_relI)
  fix b s t
  assume run: "run_state (restoringPC m) s = (b, t)"
  show "keeps wf_tms s t"
  proof (unfold keeps_def, rule impI)
    assume wf: "wf_tms s"
    obtain r u where m: "run_state m s = (r, u)" by (cases "run_state m s")
    then have "wf_tms u" using keeps.eff_run [OF assms, of s] wf by (simp add: keeps_def)
    with m run wf show "wf_tms t"
      by (cases r) (auto simp: restoringPC_def setPC_def wf_tms_def)
  qed
qed

interpretation tms_wf: tms_control "keeps wf_tms"
proof unfold_locales
  fix m :: "(tms_error + unit) tcpu"
  show "state_io_rel (keeps wf_tms) m \<Longrightarrow> state_io_rel (keeps wf_tms) (restoringPC m)"
    by (rule wf_restore)
qed (auto simp: keeps_def wf_tms_def wf_cru_steps wf_mmap_steps forTmsInputs_def openCtx_def
    closeCtx_def even_add_16 word_and_le1)

subsection \<open>Reachable states\<close>

text \<open>What a host can do to the board.\<close>

datatype tms_command =
    TmsPowerOnIdle
  | TmsReset
  | TmsSetPins tms_pins
  | TmsTick nat
  | TmsStartRun
  | TmsRequestHalt
  | TmsTriggerInterrupt nat
  | TmsSetState tms_partial
  | TmsPokeByte u16 u16
  | TmsGetState
  | TmsAttachIoBoardPorts
  | TmsAttachHandshakeBus "cpu_io_signals option"
  | TmsSetCpuPortMode int
  | TmsSetIntCause u16
  | TmsGetInterruptBusy
  | TmsResetAddrComparators
  | TmsSetDecrementer bool

fun runTms :: "tms_command \<Rightarrow> unit tcpu" where
  "runTms TmsPowerOnIdle = tms_powerOnIdle"
| "runTms TmsReset = tms_reset"
| "runTms (TmsSetPins p) = tms_setPins p"
| "runTms (TmsTick depth) = do { tms_tickCpu depth; ret () }"
| "runTms TmsStartRun = tms_startRun"
| "runTms TmsRequestHalt = tms_requestHalt"
| "runTms (TmsTriggerInterrupt l) = tms_triggerInterrupt l"
| "runTms (TmsSetState p) = tms_setState p"
| "runTms (TmsPokeByte a v) = pokeByte a v"
| "runTms TmsGetState = do { tms_getState; ret () }"
| "runTms TmsAttachIoBoardPorts = tms_attachIoBoardPorts"
| "runTms (TmsAttachHandshakeBus b) = tms_attachHandshakeBus b"
| "runTms (TmsSetCpuPortMode k) = setCpuPortMode k"
| "runTms (TmsSetIntCause v) = tms_setIntCause v"
| "runTms TmsGetInterruptBusy = do { tms_getInterruptBusy; ret () }"
| "runTms TmsResetAddrComparators = tms_resetAddrComparators"
| "runTms (TmsSetDecrementer b) = setDecrementerEnabled b"

inductive tms_reachable :: "tms \<Rightarrow> bool" where
  load: "tms_reachable initialTms"
| command: "tms_reachable s \<Longrightarrow> tms_reachable (snd (run_state (runTms c) s))"

lemma wf_modify_tms:
  "(\<And>s. wf_tms s \<Longrightarrow> wf_tms (f s)) \<Longrightarrow> state_io_rel (keeps wf_tms) (modify f)"
  by (rule keeps.eff_modify) (simp add: keeps_def)

lemma wf_syncBus [effects]: "state_io_rel (keeps wf_tms) syncBusToTmsCru"
  unfolding syncBusToTmsCru_def cruDo_def
  by (intro keeps.eff_intros effects wf_modify_tms) (simp add: wf_tms_def wf_busToCru)

lemma even_orKeep: "even old \<Longrightarrow> even (orKeep v (\<lambda>x. x AND 0xFFFE) old)"
  by (simp add: orKeep_def split: option.split)

lemma wf_tms_host [effects]:
  "state_io_rel (keeps wf_tms) (tms_setPins v)"
  "state_io_rel (keeps wf_tms) (tms_setState p)"
  "state_io_rel (keeps wf_tms) (pokeByte a w)"
  "state_io_rel (keeps wf_tms) tms_attachIoBoardPorts"
  "state_io_rel (keeps wf_tms) (tms_attachHandshakeBus b)"
  "state_io_rel (keeps wf_tms) (setCpuPortMode k)"
  "state_io_rel (keeps wf_tms) tms_resetAddrComparators"
  "state_io_rel (keeps wf_tms) (setDecrementerEnabled d)"
  unfolding tms_setPins_def tms_setState_def pokeByte_def tms_attachIoBoardPorts_def
    tms_attachHandshakeBus_def setCpuPortMode_def tms_resetAddrComparators_def
    setDecrementerEnabled_def
  by (intro keeps.eff_intros effects wf_modify_tms;
      simp add: wf_tms_def even_orKeep wf_mmap_steps)+

lemma wf_getBusy [effects]: "state_io_rel (keeps wf_tms) tms_getInterruptBusy"
  unfolding tms_getInterruptBusy_def cruDo_def
  by (intro keeps.eff_bind keeps.eff_if tms_wf.eff_update_read effects)
    (simp add: keeps_def wf_tms_def wf_cru_steps)

lemma wf_runTms: "state_io_rel (keeps wf_tms) (runTms c)"
  by (cases c) (simp_all del: run_state_bind, (intro keeps.eff_bind effects)+)

lemma wf_initialTms: "wf_tms initialTms"
  by (simp add: wf_tms_def initialTms_def initialCtx_def wf_mmap_def newIoMmap_def
      wf_newComparatorBank wf_cru_def newCru_def initialPorts_def)

text \<open>
  C3. In every state the TMS9995 board can reach from module load, by any sequence of ticks,
  resets, pin changes, debugger writes, bus attachments and changes of the wiring, the program
  counter and the workspace pointer are even, the comparators, the step unit and the
  programming latches have their widths, and each byte latch of the CRU agrees with the line
  that shows its low bit.
\<close>

theorem tms_reachable_wf:
  assumes "tms_reachable s"
  shows "wf_tms s"
  using assms
proof induction
  case (command s c)
  then show ?case using keeps.eff_run [OF wf_runTms, of s c] by (simp add: keeps_def)
qed (rule wf_initialTms)

theorem tms_reachable_wf_witness:
  "wf_tms (snd (run_state (runTms (TmsTick 1)) (snd (run_state (runTms TmsReset) initialTms))))"
  by (rule tms_reachable_wf) (intro tms_reachable.intros)

end
