(* ===== verification/Tms_Core.thy ===== *)
theory Tms_Core
  imports Tms_Reach Core_Run
begin

text \<open>
  How the primitives of the TMS9995 act on its architectural state: memory, PC, WP, ST, the
  context, the status.  The comparators, the CRU and the requests for the other core change on
  the side; \<open>arch\<close> forgets them.  The facts of the collection \<open>tcore\<close> give the value and the
  architectural state after a primitive, so that an instruction is evaluated by rewriting.
\<close>

named_theorems tcore "value and architectural state after a primitive of the TMS9995"

definition arch :: "tms \<Rightarrow> tms" where
  "arch s = s\<lparr>tMmap := newIoMmap, tCru := newCru False, tPorts := initialPorts, tMnIrq := 0\<rparr>"

lemma arch_fields:
  "tMem (arch s) = tMem s" "tPC (arch s) = tPC s" "tWP (arch s) = tWP s" "tST (arch s) = tST s"
  "tIdle (arch s) = tIdle s" "tStatus (arch s) = tStatus s" "tMode (arch s) = tMode s"
  "ctx (arch s) = ctx s" "tIrq1 (arch s) = tIrq1 s" "tIrq2 (arch s) = tIrq2 s"
  "tIrq3 (arch s) = tIrq3 s" "tDecEnabled (arch s) = tDecEnabled s"
  by (simp_all add: arch_def)

lemma fields_of_arch:
  assumes "arch t = arch s"
  shows "tMem t = tMem s" "tPC t = tPC s" "tWP t = tWP s" "tST t = tST s" "tIdle t = tIdle s"
    "tStatus t = tStatus s" "tMode t = tMode s" "ctx t = ctx s" "tIrq1 t = tIrq1 s"
    "tIrq2 t = tIrq2 s" "tIrq3 t = tIrq3 s" "tDecEnabled t = tDecEnabled s"
  using arch_fields [of t] arch_fields [of s] assms by simp_all

subsection \<open>What the architectural state does not show\<close>

lemma arch_updates [simp]:
  "arch (tMmap_update f s) = arch s" "arch (tCru_update g s) = arch s"
  "arch (tPorts_update h s) = arch s" "arch (tMnIrq_update k s) = arch s"
  "arch (tMem_update m s) = tMem_update m (arch s)" "arch (tPC_update a s) = tPC_update a (arch s)"
  "arch (tWP_update a s) = tWP_update a (arch s)" "arch (tST_update a s) = tST_update a (arch s)"
  "arch (ctx_update c s) = ctx_update c (arch s)"
  "arch (tIdle_update i s) = tIdle_update i (arch s)"
  "arch (tStatus_update x s) = tStatus_update x (arch s)"
  "arch (tIrq1_update i s) = tIrq1_update i (arch s)"
  "arch (tIrq2_update i s) = tIrq2_update i (arch s)"
  "arch (tIrq3_update i s) = tIrq3_update i (arch s)"
  by (simp_all add: arch_def)

text \<open>The hit callbacks touch the CRU, the bus and the other core's requests only.\<close>

lemma arch_raise [tcore]:
  "arch (snd (run_state (tms_raiseAddrBreakIrq i) s)) = arch s"
  "arch (snd (run_state tms_raiseStepBreakIrq s)) = arch s"
  by (simp_all add: tms_raiseAddrBreakIrq_def tms_raiseStepBreakIrq_def mnTriggerInterrupt_def
      syncTmsCruToBus_def cruDo_def tms_setIntCause_def)

lemma arch_probe [tcore]:
  "arch (snd (run_state (ioMmap_probe acc) s)) = arch s"
  "arch (snd (run_state (ioMmap_onInstructionFetch w) s)) = arch s"
  by (simp_all add: ioMmap_probe_def ioMmap_onInstructionFetch_def arch_raise case_prod_unfold)

subsection \<open>Memory as an array of words\<close>

text \<open>The word that an address denotes, and the memory with a word replaced.\<close>

definition wordAt :: "(u16 \<Rightarrow> u8) \<Rightarrow> u16 \<Rightarrow> u16" where
  "wordAt m a = push_bit 8 (ucast (m (a AND 0xFFFE))) OR ucast (m ((a AND 0xFFFE) + 1))"

definition putWord :: "u16 \<Rightarrow> u16 \<Rightarrow> (u16 \<Rightarrow> u8) \<Rightarrow> u16 \<Rightarrow> u8" where
  "putWord a v m = m(a AND 0xFFFE := ucast (drop_bit 8 v), (a AND 0xFFFE) + 1 := ucast v)"

text \<open>Outside the registers of the IO area, or in the wiring of the other processor.\<close>

definition ramWord :: "port_mode \<Rightarrow> u16 \<Rightarrow> bool" where
  "ramWord mode a \<longleftrightarrow> mode = ModeMN1613 \<or> \<not> isIoAddr (a AND 0xFFFE)"

lemma even_and_id: "even a \<Longrightarrow> a AND 0xFFFE = (a :: u16)"
  unfolding bits16 even_bit0 by (auto simp: bit_simps)

lemma even_succ_ne: "even a \<Longrightarrow> even b \<Longrightarrow> a \<noteq> b + (1 :: u16)"
  by (metis even_add_16 odd_one)

lemma isIoAddr_succ:
  assumes "even (a :: u16)" shows "isIoAddr (a + 1) = isIoAddr a"
proof -
  have "a \<noteq> 0xFE7F" "a \<noteq> 0xFEFF" using assms by auto
  then have n: "unat a \<noteq> 0xFE7F" "unat a \<noteq> 0xFEFF" by (auto simp: word_unat_eq_iff)
  have "unat (a + 1) = (unat a + 1) mod 65536" by (simp add: unat_word_ariths)
  moreover have "unat a < 65536" using unsigned_less [of a, where 'a = nat] by simp
  ultimately show ?thesis
    using n unfolding isIoAddr_def mmap_port_defs word_le_nat_alt
    by (cases "unat a = 65535") auto
qed

lemma isIoAddr_and: "isIoAddr ((a AND 0xFFFE) + 1) = isIoAddr (a AND 0xFFFE)"
  by (rule isIoAddr_succ) simp

lemma byte_parts:
  fixes v :: u16
  shows "push_bit 8 (ucast (ucast (drop_bit 8 v) :: u8)) OR ucast (ucast v :: u8) = v"
  unfolding bits16 by (simp add: bit_simps; simp add: all_less_16 [symmetric])

lemma wordAt_putWord_same [simp]: "wordAt (putWord a v m) a = v"
  using byte_parts [of v] by (simp add: wordAt_def putWord_def)

lemma wordAt_putWord_eq: "a AND 0xFFFE = b AND 0xFFFE \<Longrightarrow> wordAt (putWord a v m) b = v"
  using wordAt_putWord_same [of a v m] by (simp add: wordAt_def)

lemma wordAt_putWord_other:
  "a AND 0xFFFE \<noteq> b AND 0xFFFE \<Longrightarrow> wordAt (putWord a v m) b = wordAt m b"
  using even_succ_ne [of "a AND 0xFFFE" "b AND 0xFFFE"] even_succ_ne [of "b AND 0xFFFE" "a AND 0xFFFE"]
  by (simp add: wordAt_def putWord_def)


subsection \<open>Memory operations\<close>

lemma memIo_read:
  assumes "tMode s = ModeMN1613 \<or> \<not> isIoAddr a"
  shows "fst (run_state (tms9995MemReadIoByte a) s) = None"
    and "arch (snd (run_state (tms9995MemReadIoByte a) s)) = arch s"
  using assms by (auto simp: tms9995MemReadIoByte_def mmap_readByte_def)

lemma memIo_write:
  assumes "tMode s = ModeMN1613 \<or> \<not> isIoAddr a"
  shows "fst (run_state (tms9995MemWriteIoByte a v) s) = False"
    and "arch (snd (run_state (tms9995MemWriteIoByte a v) s)) = arch s"
  using assms by (auto simp: tms9995MemWriteIoByte_def mmap_writeByte_def)

lemma readByte_arch:
  assumes "tMode s = ModeMN1613 \<or> \<not> isIoAddr a"
  shows "fst (run_state (readByte a) s) = ucast (tMem s a)"
    and "arch (snd (run_state (readByte a) s)) = arch s"
proof -
  let ?s = "snd (run_state (tms9995MemReadIoByte a) s)"
  let ?t = "snd (run_state (ioMmap_probe (readAccess a)) ?s)"
  have t: "arch ?t = arch s" by (simp add: arch_probe memIo_read(2) [OF assms])
  show "fst (run_state (readByte a) s) = ucast (tMem s a)"
    using memIo_read(1) [OF assms] fields_of_arch(1) [OF t]
    by (simp add: readByte_def case_prod_unfold)
  show "arch (snd (run_state (readByte a) s)) = arch s"
    using memIo_read(1) [OF assms] t by (simp add: readByte_def case_prod_unfold)
qed

lemma writeByte_arch:
  assumes "tMode s = ModeMN1613 \<or> \<not> isIoAddr a"
  shows "arch (snd (run_state (writeByte a v) s)) = (arch s)\<lparr>tMem := (tMem s)(a := ucast v)\<rparr>"
proof -
  let ?s = "snd (run_state (readByte a) s)"
  have s: "arch ?s = arch s" by (rule readByte_arch [OF assms])
  have m: "tMode ?s = ModeMN1613 \<or> \<not> isIoAddr a" using assms fields_of_arch(7) [OF s] by simp
  let ?t = "snd (run_state (tms9995MemWriteIoByte a (v AND 0xFF)) ?s)"
  let ?u = "snd (run_state (ioMmap_probe (writeAccess a False (v AND 0xFF) (fst (run_state (readByte a) s)))) ?t)"
  have u: "arch ?u = arch s" using memIo_write(2) [OF m] s by (simp add: arch_probe)
  have "run_state (writeByte a v) s = ((), ?u\<lparr>tMem := (tMem ?u)(a := ucast v)\<rparr>)"
    using memIo_write(1) [OF m] by (simp add: writeByte_def case_prod_unfold)
  then show ?thesis using u fields_of_arch(1) [OF u] by simp
qed

lemma ramWord_bytes:
  assumes "ramWord mode a"
  shows "mode = ModeMN1613 \<or> \<not> isIoAddr (a AND 0xFFFE)"
    and "mode = ModeMN1613 \<or> \<not> isIoAddr ((a AND 0xFFFE) + 1)"
  using assms by (simp_all add: ramWord_def isIoAddr_and)

lemma readWord_arch:
  assumes "ramWord (tMode s) a"
  shows "fst (run_state (readWord a) s) = wordAt (tMem s) a"
    and "arch (snd (run_state (readWord a) s)) = arch s"
proof -
  let ?t = "snd (run_state (readByte (a AND 0xFFFE)) s)"
  note b = readByte_arch [OF ramWord_bytes(1) [OF assms]]
  have "ramWord (tMode ?t) a" using assms fields_of_arch(7) [OF b(2)] by simp
  note c = readByte_arch [OF ramWord_bytes(2) [OF this]]
  show "fst (run_state (readWord a) s) = wordAt (tMem s) a"
    using b(1) c(1) fields_of_arch(1) [OF b(2)]
    by (simp add: readWord_def wordAt_def case_prod_unfold Let_def)
  show "arch (snd (run_state (readWord a) s)) = arch s"
    using b(2) c(2) by (simp add: readWord_def case_prod_unfold Let_def)
qed

lemma writeWord_arch:
  assumes "ramWord (tMode s) a"
  shows "arch (snd (run_state (writeWord a v) s)) = (arch s)\<lparr>tMem := putWord a v (tMem s)\<rparr>"
proof -
  let ?t = "snd (run_state (writeByte (a AND 0xFFFE) (drop_bit 8 v)) s)"
  note b = writeByte_arch [OF ramWord_bytes(1) [OF assms], of "drop_bit 8 v"]
  have t: "tMode ?t = tMode s" "tMem ?t = (tMem s)(a AND 0xFFFE := ucast (drop_bit 8 v))"
    using arch_fields(7) [of ?t] arch_fields(1) [of ?t] b by (simp_all add: arch_fields)
  then have "ramWord (tMode ?t) a" using assms by simp
  note c = writeByte_arch [OF ramWord_bytes(2) [OF this], of "v AND 0xFF"]
  have "(ucast (v AND mask 8) :: u8) = ucast v" by (rule bit_eqI) (auto simp: bit_simps)
  then have "(ucast (v AND 0xFF) :: u8) = ucast v" by (simp add: mask_numeral)
  then show ?thesis using b c t by (simp add: writeWord_def putWord_def case_prod_unfold Let_def)
qed


subsection \<open>Rewriting rules\<close>

lemma readWord_core [tcore]:
  assumes "ramWord (tMode s) a"
  shows "fst (run_state (readWord a) s) = wordAt (tMem s) a"
    "tMem (snd (run_state (readWord a) s)) = tMem s" "tPC (snd (run_state (readWord a) s)) = tPC s"
    "tWP (snd (run_state (readWord a) s)) = tWP s" "tST (snd (run_state (readWord a) s)) = tST s"
    "tIdle (snd (run_state (readWord a) s)) = tIdle s"
    "tStatus (snd (run_state (readWord a) s)) = tStatus s"
    "tMode (snd (run_state (readWord a) s)) = tMode s" "ctx (snd (run_state (readWord a) s)) = ctx s"
    "tIrq1 (snd (run_state (readWord a) s)) = tIrq1 s" "tIrq2 (snd (run_state (readWord a) s)) = tIrq2 s"
    "tIrq3 (snd (run_state (readWord a) s)) = tIrq3 s"
  by (rule readWord_arch(1) fields_of_arch, (rule readWord_arch)?, rule assms)+

lemma writeWord_core [tcore]:
  assumes "ramWord (tMode s) a"
  shows "tMem (snd (run_state (writeWord a v) s)) = putWord a v (tMem s)"
    "tPC (snd (run_state (writeWord a v) s)) = tPC s"
    "tWP (snd (run_state (writeWord a v) s)) = tWP s" "tST (snd (run_state (writeWord a v) s)) = tST s"
    "tIdle (snd (run_state (writeWord a v) s)) = tIdle s"
    "tStatus (snd (run_state (writeWord a v) s)) = tStatus s"
    "tMode (snd (run_state (writeWord a v) s)) = tMode s" "ctx (snd (run_state (writeWord a v) s)) = ctx s"
    "tIrq1 (snd (run_state (writeWord a v) s)) = tIrq1 s" "tIrq2 (snd (run_state (writeWord a v) s)) = tIrq2 s"
    "tIrq3 (snd (run_state (writeWord a v) s)) = tIrq3 s"
proof -
  have "arch (snd (run_state (writeWord a v) s)) = arch (s\<lparr>tMem := putWord a v (tMem s)\<rparr>)"
    by (simp add: writeWord_arch [OF assms])
  note f = fields_of_arch [OF this]
  show "tMem (snd (run_state (writeWord a v) s)) = putWord a v (tMem s)"
    "tPC (snd (run_state (writeWord a v) s)) = tPC s"
    "tWP (snd (run_state (writeWord a v) s)) = tWP s" "tST (snd (run_state (writeWord a v) s)) = tST s"
    "tIdle (snd (run_state (writeWord a v) s)) = tIdle s"
    "tStatus (snd (run_state (writeWord a v) s)) = tStatus s"
    "tMode (snd (run_state (writeWord a v) s)) = tMode s" "ctx (snd (run_state (writeWord a v) s)) = ctx s"
    "tIrq1 (snd (run_state (writeWord a v) s)) = tIrq1 s" "tIrq2 (snd (run_state (writeWord a v) s)) = tIrq2 s"
    "tIrq3 (snd (run_state (writeWord a v) s)) = tIrq3 s"
    using f by simp_all
qed

text \<open>A workspace outside the IO area, and the registers in it.\<close>

definition ramWorkspace :: "port_mode \<Rightarrow> u16 \<Rightarrow> bool" where
  "ramWorkspace mode wp \<longleftrightarrow> list_all (\<lambda>k. ramWord mode (wp + of_nat k * 2)) [0 ..< 16]"

abbreviation regAddr :: "u16 \<Rightarrow> u16 \<Rightarrow> u16" where
  "regAddr wp n \<equiv> wp + (n AND 0xF) * 2"

lemma ramWorkspace_reg: "ramWorkspace mode wp \<Longrightarrow> ramWord mode (regAddr wp n)"
proof -
  assume w: "ramWorkspace mode wp"
  have "unat (n AND 0xF) < 16" using and_0xF_le [of n] by (simp add: word_le_nat_alt)
  then have "unat (n AND 0xF) \<in> set [0 ..< 16]" by simp
  then have "ramWord mode (wp + of_nat (unat (n AND 0xF)) * 2)"
    using w unfolding ramWorkspace_def list_all_iff by blast
  then show ?thesis by simp
qed

lemma readReg_core [tcore]:
  assumes "ramWorkspace (tMode s) (tWP s)"
  shows "fst (run_state (readReg n) s) = wordAt (tMem s) (regAddr (tWP s) n)"
    "tMem (snd (run_state (readReg n) s)) = tMem s" "tPC (snd (run_state (readReg n) s)) = tPC s"
    "tWP (snd (run_state (readReg n) s)) = tWP s" "tST (snd (run_state (readReg n) s)) = tST s"
    "tIdle (snd (run_state (readReg n) s)) = tIdle s"
    "tStatus (snd (run_state (readReg n) s)) = tStatus s"
    "tMode (snd (run_state (readReg n) s)) = tMode s" "ctx (snd (run_state (readReg n) s)) = ctx s"
    "tIrq1 (snd (run_state (readReg n) s)) = tIrq1 s" "tIrq2 (snd (run_state (readReg n) s)) = tIrq2 s"
    "tIrq3 (snd (run_state (readReg n) s)) = tIrq3 s"
  using readWord_core [OF ramWorkspace_reg [OF assms]] by (simp_all add: readReg_def)

lemma writeReg_core [tcore]:
  assumes "ramWorkspace (tMode s) (tWP s)"
  shows "tMem (snd (run_state (writeReg n v) s)) = putWord (regAddr (tWP s) n) v (tMem s)"
    "tPC (snd (run_state (writeReg n v) s)) = tPC s"
    "tWP (snd (run_state (writeReg n v) s)) = tWP s" "tST (snd (run_state (writeReg n v) s)) = tST s"
    "tIdle (snd (run_state (writeReg n v) s)) = tIdle s"
    "tStatus (snd (run_state (writeReg n v) s)) = tStatus s"
    "tMode (snd (run_state (writeReg n v) s)) = tMode s" "ctx (snd (run_state (writeReg n v) s)) = ctx s"
    "tIrq1 (snd (run_state (writeReg n v) s)) = tIrq1 s" "tIrq2 (snd (run_state (writeReg n v) s)) = tIrq2 s"
    "tIrq3 (snd (run_state (writeReg n v) s)) = tIrq3 s"
  using writeWord_core [OF ramWorkspace_reg [OF assms]] by (simp_all add: writeReg_def)

lemma fetchWord_core [tcore]:
  assumes "ramWord (tMode s) (tPC s)"
  shows "fst (run_state fetchWord s) = wordAt (tMem s) (tPC s)"
    "tMem (snd (run_state fetchWord s)) = tMem s" "tPC (snd (run_state fetchWord s)) = tPC s + 2"
    "tWP (snd (run_state fetchWord s)) = tWP s" "tST (snd (run_state fetchWord s)) = tST s"
    "tIdle (snd (run_state fetchWord s)) = tIdle s"
    "tStatus (snd (run_state fetchWord s)) = tStatus s"
    "tMode (snd (run_state fetchWord s)) = tMode s" "ctx (snd (run_state fetchWord s)) = ctx s"
    "tIrq1 (snd (run_state fetchWord s)) = tIrq1 s" "tIrq2 (snd (run_state fetchWord s)) = tIrq2 s"
    "tIrq3 (snd (run_state fetchWord s)) = tIrq3 s"
proof -
  have "tPC_update f t = t\<lparr>tPC := f (tPC t)\<rparr>" for t f by (cases t) simp
  from this [of "\<lambda>pc. pc + 2" "arch s"]
  have "arch (snd (run_state fetchWord s)) = arch (s\<lparr>tPC := tPC s + 2\<rparr>)"
    using readWord_arch(2) [OF assms] readWord_core(3) [OF assms]
    by (simp add: fetchWord_def case_prod_unfold arch_probe arch_fields(2))
  note f = fields_of_arch [OF this]
  show "fst (run_state fetchWord s) = wordAt (tMem s) (tPC s)"
    using readWord_core(1) [OF assms] by (simp add: fetchWord_def case_prod_unfold)
  show "tMem (snd (run_state fetchWord s)) = tMem s" "tPC (snd (run_state fetchWord s)) = tPC s + 2"
    "tWP (snd (run_state fetchWord s)) = tWP s" "tST (snd (run_state fetchWord s)) = tST s"
    "tIdle (snd (run_state fetchWord s)) = tIdle s"
    "tStatus (snd (run_state fetchWord s)) = tStatus s"
    "tMode (snd (run_state fetchWord s)) = tMode s" "ctx (snd (run_state fetchWord s)) = ctx s"
    "tIrq1 (snd (run_state fetchWord s)) = tIrq1 s" "tIrq2 (snd (run_state fetchWord s)) = tIrq2 s"
    "tIrq3 (snd (run_state fetchWord s)) = tIrq3 s"
    using f by simp_all
qed

subsection \<open>Executing a word\<close>

lemma run_ctx [simp]:
  "run_state (setPC v) s = ((), ctx_update (cPC_update (\<lambda>_. v)) s)"
  "run_state (setWP v) s = ((), ctx_update (cWP_update (\<lambda>_. v)) s)"
  "run_state (modST f) s = ((), ctx_update (cST_update f) s)"
  "run_state illegal s = ((), s\<lparr>tStatus := Break\<rparr>)"
  by (simp_all add: setPC_def setWP_def modST_def illegal_def)

text \<open>All words but X are executed without recursion, at any depth.\<close>

lemma run_execWord:
  assumes "ir AND 0xFFC0 \<noteq> 0x0480"
  shows "run_state (execWord (Suc depth) ir) s =
    (Inr (), closeCtx (tPC s) (snd (run_state (executePlain ir) (openCtx s))))"
  using assms by (simp add: execWord_def executeInstruction.simps case_prod_unfold openCtx_def)

lemma openCtx_core [tcore]:
  "tMem (openCtx s) = tMem s" "tPC (openCtx s) = tPC s" "tWP (openCtx s) = tWP s"
  "tST (openCtx s) = tST s" "tIdle (openCtx s) = tIdle s" "tStatus (openCtx s) = tStatus s"
  "tMode (openCtx s) = tMode s" "tIrq1 (openCtx s) = tIrq1 s" "tIrq2 (openCtx s) = tIrq2 s"
  "tIrq3 (openCtx s) = tIrq3 s"
  "ctx (openCtx s) = \<lparr>cPC = tPC s, cWP = tWP s, cST = tST s, cIdle = tIdle s\<rparr>"
  by (simp_all add: openCtx_def)

lemma closeCtx_core [tcore]:
  "tMem (closeCtx p s) = tMem s" "tStatus (closeCtx p s) = tStatus s"
  "tMode (closeCtx p s) = tMode s" "tIrq1 (closeCtx p s) = tIrq1 s"
  "tIrq2 (closeCtx p s) = tIrq2 s" "tIrq3 (closeCtx p s) = tIrq3 s"
  "tPC (closeCtx p s) = (if cPC (ctx s) \<noteq> p then cPC (ctx s) else tPC s)"
  "tWP (closeCtx p s) = cWP (ctx s)" "tST (closeCtx p s) = cST (ctx s)"
  "tIdle (closeCtx p s) = cIdle (ctx s)"
  by (simp_all add: closeCtx_def)

end
