(* ===== verification/Tms_Encoder.thy ===== *)
theory Tms_Encoder
  imports Asm_Encoder
begin

text \<open>
  The encoder of TMS9995 instructions, \<^verbatim>\<open>retrocpu_asm_ts/src/main/tms9995/tms9995_encode.ts\<close>:
  the general addressing forms, the tables of the nine formats, and the instruction words.
  Addresses are in bytes.
\<close>

subsection \<open>Operands\<close>

text \<open>\<^verbatim>\<open>evalTms\<close>: the value masked to 16 bits.\<close>

definition evalTms :: "string \<Rightarrow> symbol_table \<Rightarrow> bool \<Rightarrow> asm_error + u16" where
  "evalTms e symbols u = bindE (evalArg symbols u e) (\<lambda>v. Inr (word_of_int v))"

definition requireImm :: "string \<Rightarrow> symbol_table \<Rightarrow> bool \<Rightarrow> asm_error + u16" where
  "requireImm raw symbols u =
     (let s = trim raw
      in if startsWith (CHR ''#'') s then evalTms (trim (tl s)) symbols u else Inl (HashRequired raw))"

definition requireImmRange ::
  "string \<Rightarrow> int \<Rightarrow> int \<Rightarrow> symbol_table \<Rightarrow> bool \<Rightarrow> string \<Rightarrow> asm_error + int" where
  "requireImmRange raw lo hi symbols u what =
     bindE (requireImm raw symbols u) (\<lambda>v.
       let s = sint v
       in if \<not> u \<and> (s < lo \<or> s > hi) then Inl (OutOfRange what) else Inr (if u then 0 else s))"

text \<open>The pattern \<^verbatim>\<open>R([0-9]|1[0-5])\<close>.\<close>

definition TMS_REGS :: "(string \<times> u16) list" where
  "TMS_REGS = [(''R0'', 0), (''R1'', 1), (''R2'', 2), (''R3'', 3), (''R4'', 4), (''R5'', 5),
     (''R6'', 6), (''R7'', 7), (''R8'', 8), (''R9'', 9), (''R10'', 10), (''R11'', 11),
     (''R12'', 12), (''R13'', 13), (''R14'', 14), (''R15'', 15)]"

definition parseTmsReg :: "string \<Rightarrow> u16 option" where
  "parseTmsReg tok = map_of TMS_REGS (toUpperCase (trim tok))"

definition isOpenBracket :: "char \<Rightarrow> bool" where
  "isOpenBracket c \<longleftrightarrow> c = CHR ''('' \<or> c = CHR ''[''"
definition isCloseBracket :: "char \<Rightarrow> bool" where
  "isCloseBracket c \<longleftrightarrow> c = CHR '')'' \<or> c = CHR '']''"

text \<open>\<^verbatim>\<open>(Rn)\<close> and \<^verbatim>\<open>[Rn]\<close>.\<close>

definition bracketReg :: "string \<Rightarrow> u16 option" where
  "bracketReg t =
     (if t \<noteq> [] \<and> isOpenBracket (hd t) \<and> tl t \<noteq> [] \<and> isCloseBracket (last t)
      then parseTmsReg (butlast (tl t)) else None)"

text \<open>\<^verbatim>\<open>addr(Rn)\<close> and \<^verbatim>\<open>addr[Rn]\<close>: the text before the last opening bracket and the register.\<close>

definition indexedReg :: "string \<Rightarrow> (string \<times> u16) option" where
  "indexedReg s =
     (let r = rev s;
          inner = takeWhile (\<lambda>c. \<not> isOpenBracket c) (tl r);
          before = dropWhile (\<lambda>c. \<not> isOpenBracket c) (tl r)
      in if s = [] \<or> \<not> isCloseBracket (last s) \<or> length before < 2 then None
         else map_option (\<lambda>reg. (trim (rev (tl before)), reg)) (parseTmsReg (rev inner)))"

text \<open>The prefix \<^verbatim>\<open>*Rn\<close> of the TI syntax.\<close>

definition isTiStar :: "string \<Rightarrow> bool" where
  "isTiStar s =
     (case s of
        c # r \<Rightarrow>
          c = CHR ''*'' \<and>
          (case dropWhile isJsSpace r of
             x # d # _ \<Rightarrow> (x = CHR ''R'' \<or> x = CHR ''r'') \<and> isDigit d | _ \<Rightarrow> False)
      | [] \<Rightarrow> False)"

record tms_addr =
  ta_mode :: u16
  ta_reg :: u16
  ta_extra :: "u16 option"

definition parseGeneralAddr :: "string \<Rightarrow> symbol_table \<Rightarrow> bool \<Rightarrow> asm_error + tms_addr" where
  "parseGeneralAddr raw symbols u =
     (let s = trim raw
      in if s = [] then Inl EmptyOperand
         else if startsWith (CHR ''#'') s then Inl (ImmediateOnly raw)
         else if startsWith (CHR ''@'') s \<or> isTiStar s then Inl (TiSyntax raw)
         else
      (case (if endsWith (CHR ''+'') s then bracketReg (trimEnd (butlast s)) else None) of
         Some r \<Rightarrow> Inr \<lparr>ta_mode = 3, ta_reg = r, ta_extra = None\<rparr>
       | None \<Rightarrow>
      (case bracketReg s of
         Some r \<Rightarrow> Inr \<lparr>ta_mode = 1, ta_reg = r, ta_extra = None\<rparr>
       | None \<Rightarrow>
      (case parseTmsReg s of
         Some r \<Rightarrow> Inr \<lparr>ta_mode = 0, ta_reg = r, ta_extra = None\<rparr>
       | None \<Rightarrow>
      (case indexedReg s of
         Some (e, r) \<Rightarrow>
           (if r = 0 then Inl IndexedByR0
            else bindE (evalTms e symbols u) (\<lambda>v. Inr \<lparr>ta_mode = 2, ta_reg = r, ta_extra = Some v\<rparr>))
       | None \<Rightarrow>
           bindE (evalTms s symbols u) (\<lambda>v. Inr \<lparr>ta_mode = 2, ta_reg = 0, ta_extra = Some v\<rparr>))))))"

text \<open>\<^verbatim>\<open>packAddr\<close>: the six bits of the field and the words that follow.\<close>

definition field6 :: "tms_addr \<Rightarrow> u16" where
  "field6 a = push_bit 4 (ta_mode a AND 3) OR (ta_reg a AND 0xF)"

definition addrExtras :: "tms_addr \<Rightarrow> u16 list" where
  "addrExtras a = (case ta_extra a of None \<Rightarrow> [] | Some w \<Rightarrow> [w])"

subsection \<open>Tables\<close>

definition FMT1 :: "(string \<times> u16) list" where
  "FMT1 = [(''SZC'', 0x4000), (''SZCB'', 0x5000), (''S'', 0x6000), (''SB'', 0x7000), (''C'', 0x8000),
     (''CB'', 0x9000), (''A'', 0xA000), (''AB'', 0xB000), (''MOV'', 0xC000), (''MOVB'', 0xD000),
     (''SOC'', 0xE000), (''SOCB'', 0xF000)]"

definition FMT2_JUMP :: "(string \<times> u16) list" where
  "FMT2_JUMP = [(''JMP'', 0x1000), (''JLT'', 0x1100), (''JLE'', 0x1200), (''JEQ'', 0x1300),
     (''JHE'', 0x1400), (''JGT'', 0x1500), (''JNE'', 0x1600), (''JNC'', 0x1700), (''JOC'', 0x1800),
     (''JNO'', 0x1900), (''JL'', 0x1A00), (''JH'', 0x1B00), (''JOP'', 0x1C00)]"

definition FMT6 :: "(string \<times> u16) list" where
  "FMT6 = [(''BLWP'', 0x0400), (''B'', 0x0440), (''X'', 0x0480), (''CLR'', 0x04C0), (''NEG'', 0x0500),
     (''INV'', 0x0540), (''INC'', 0x0580), (''INCT'', 0x05C0), (''DEC'', 0x0600), (''DECT'', 0x0640),
     (''BL'', 0x0680), (''SWPB'', 0x06C0), (''SETO'', 0x0700), (''ABS'', 0x0740), (''DIVS'', 0x0180),
     (''MPYS'', 0x01C0)]"

definition FMT2_CRU :: "(string \<times> u16) list" where
  "FMT2_CRU = [(''SBO'', 0x1D00), (''SBZ'', 0x1E00), (''TB'', 0x1F00)]"

definition FMT3 :: "(string \<times> u16) list" where
  "FMT3 = [(''COC'', 0x2000), (''CZC'', 0x2400), (''XOR'', 0x2800)]"

definition FMT4 :: "(string \<times> u16) list" where
  "FMT4 = [(''LDCR'', 0x3000), (''STCR'', 0x3400)]"

definition FMT5 :: "(string \<times> u16) list" where
  "FMT5 = [(''SRA'', 0x0800), (''SRL'', 0x0900), (''SLA'', 0x0A00), (''SRC'', 0x0B00)]"

definition FMT8_REG_IMM :: "(string \<times> u16) list" where
  "FMT8_REG_IMM = [(''LI'', 0x0200), (''AI'', 0x0220), (''ANDI'', 0x0240), (''ORI'', 0x0260),
     (''CI'', 0x0280)]"

definition FMT9 :: "(string \<times> u16) list" where
  "FMT9 = [(''XOP'', 0x2C00), (''MPY'', 0x3800), (''DIV'', 0x3C00)]"

definition FMT7_FIXED :: "(string \<times> u16) list" where
  "FMT7_FIXED = [(''IDLE'', 0x0340), (''RSET'', 0x0360), (''RTWP'', 0x0380), (''CKON'', 0x03A0),
     (''CKOF'', 0x03C0), (''LREX'', 0x03E0)]"

text \<open>The register-only instructions of format 8.\<close>

definition FMT8_REG :: "(string \<times> u16) list" where
  "FMT8_REG = [(''STWP'', 0x02A0), (''STST'', 0x02C0), (''LST'', 0x0080), (''LWP'', 0x0090)]"

subsection \<open>Instructions\<close>

definition tmsCount :: "string \<Rightarrow> nat \<Rightarrow> string list \<Rightarrow> asm_error + unit" where
  "tmsCount opr n args = (if length args \<noteq> n then Inl (OperandCount opr) else Inr ())"

definition tmsReg :: "string \<Rightarrow> string \<Rightarrow> asm_error + u16" where
  "tmsReg opr tok = orError (RegisterRequired opr) (parseTmsReg tok)"

definition encTmsImm :: "string \<Rightarrow> u16 \<Rightarrow> string list \<Rightarrow> symbol_table \<Rightarrow> bool \<Rightarrow> asm_error + u16 list" where
  "encTmsImm opr base args symbols u =
     bindE (tmsCount opr 1 args) (\<lambda>_.
     bindE (requireImm (args ! 0) symbols u) (\<lambda>v. Inr [base, v]))"

definition encTmsReg :: "string \<Rightarrow> u16 \<Rightarrow> string list \<Rightarrow> asm_error + u16 list" where
  "encTmsReg opr base args =
     bindE (tmsCount opr 1 args) (\<lambda>_.
     bindE (tmsReg opr (args ! 0)) (\<lambda>r. Inr [base OR (r AND 0xF)]))"

definition encTmsRegImm :: "string \<Rightarrow> u16 \<Rightarrow> string list \<Rightarrow> symbol_table \<Rightarrow> bool \<Rightarrow> asm_error + u16 list" where
  "encTmsRegImm opr base args symbols u =
     bindE (tmsCount opr 2 args) (\<lambda>_.
     bindE (tmsReg opr (args ! 0)) (\<lambda>r.
     bindE (requireImm (args ! 1) symbols u) (\<lambda>v. Inr [base OR (r AND 0xF), v])))"

definition encTmsCru :: "string \<Rightarrow> u16 \<Rightarrow> string list \<Rightarrow> symbol_table \<Rightarrow> bool \<Rightarrow> asm_error + u16 list" where
  "encTmsCru opr base args symbols u =
     bindE (tmsCount opr 1 args) (\<lambda>_.
     bindE (requireImmRange (args ! 0) (- 128) 127 symbols u opr) (\<lambda>d.
       Inr [base OR (word_of_int d AND 0xFF)]))"

text \<open>The displacement is counted in words from the next instruction.\<close>

definition encTmsJump ::
  "u16 \<Rightarrow> string list \<Rightarrow> int \<Rightarrow> symbol_table \<Rightarrow> bool \<Rightarrow> string \<Rightarrow> asm_error + u16 list" where
  "encTmsJump base args pcByte symbols u opr =
     bindE (tmsCount opr 1 args) (\<lambda>_.
     bindE (evalTms (args ! 0) symbols u) (\<lambda>target.
       let distance = uint target - (pcByte + 2);
           dispWords = (if u then 0 else math_trunc (of_int distance / 2))
       in if \<not> u \<and> odd distance then Inl (MisalignedTarget (args ! 0))
          else if \<not> u \<and> (dispWords < - 128 \<or> dispWords > 127) then Inl (OutOfRange ''jump'')
          else Inr [base OR (word_of_int dispWords AND 0xFF)]))"

definition encTmsShift :: "string \<Rightarrow> u16 \<Rightarrow> string list \<Rightarrow> symbol_table \<Rightarrow> bool \<Rightarrow> asm_error + u16 list" where
  "encTmsShift opr base args symbols u =
     bindE (tmsCount opr 2 args) (\<lambda>_.
     bindE (tmsReg opr (args ! 0)) (\<lambda>r.
     bindE (requireImmRange (args ! 1) 0 15 symbols u opr) (\<lambda>cnt.
       Inr [base OR push_bit 4 (word_of_int cnt AND 0xF) OR (r AND 0xF)])))"

text \<open>COC, CZC and XOR.\<close>

definition encTmsSrcReg :: "string \<Rightarrow> u16 \<Rightarrow> string list \<Rightarrow> symbol_table \<Rightarrow> bool \<Rightarrow> asm_error + u16 list" where
  "encTmsSrcReg opr base args symbols u =
     bindE (tmsCount opr 2 args) (\<lambda>_.
     bindE (tmsReg opr (args ! 1)) (\<lambda>r.
     bindE (parseGeneralAddr (args ! 0) symbols u) (\<lambda>src.
       Inr ((base OR push_bit 6 (r AND 0xF) OR field6 src) # addrExtras src))))"

text \<open>LDCR and STCR: the counts 0 and 16 are the same.\<close>

definition encTmsBits :: "string \<Rightarrow> u16 \<Rightarrow> string list \<Rightarrow> symbol_table \<Rightarrow> bool \<Rightarrow> asm_error + u16 list" where
  "encTmsBits opr base args symbols u =
     bindE (tmsCount opr 2 args) (\<lambda>_.
     bindE (requireImmRange (args ! 1) 0 16 symbols u opr) (\<lambda>bits.
       let cccc = (if bits = 16 \<or> bits = 0 then 0 else bits)
       in bindE (parseGeneralAddr (args ! 0) symbols u) (\<lambda>src.
            Inr ((base OR push_bit 6 (word_of_int cccc AND 0xF) OR field6 src) # addrExtras src))))"

text \<open>XOP, MPY and DIV.\<close>

definition encTmsFmt9 :: "string \<Rightarrow> u16 \<Rightarrow> string list \<Rightarrow> symbol_table \<Rightarrow> bool \<Rightarrow> asm_error + u16 list" where
  "encTmsFmt9 opr base args symbols u =
     bindE (tmsCount opr 2 args) (\<lambda>_.
     bindE (parseGeneralAddr (args ! 0) symbols u) (\<lambda>src.
       if opr = ''XOP'' then
         bindE (requireImmRange (args ! 1) 0 15 symbols u opr) (\<lambda>n.
           Inr ((base OR push_bit 6 (word_of_int n AND 0xF) OR field6 src) # addrExtras src))
       else
         bindE (tmsReg opr (args ! 1)) (\<lambda>r.
           Inr ((base OR push_bit 6 (r AND 0xF) OR field6 src) # addrExtras src))))"

definition encTmsOne :: "string \<Rightarrow> u16 \<Rightarrow> string list \<Rightarrow> symbol_table \<Rightarrow> bool \<Rightarrow> asm_error + u16 list" where
  "encTmsOne opr base args symbols u =
     bindE (tmsCount opr 1 args) (\<lambda>_.
     bindE (parseGeneralAddr (args ! 0) symbols u) (\<lambda>a. Inr ((base OR field6 a) # addrExtras a)))"

text \<open>Two general operands; the extra word of the source comes first.\<close>

definition encTmsTwo :: "string \<Rightarrow> u16 \<Rightarrow> string list \<Rightarrow> symbol_table \<Rightarrow> bool \<Rightarrow> asm_error + u16 list" where
  "encTmsTwo opr base args symbols u =
     bindE (tmsCount opr 2 args) (\<lambda>_.
     bindE (parseGeneralAddr (args ! 0) symbols u) (\<lambda>src.
     bindE (parseGeneralAddr (args ! 1) symbols u) (\<lambda>dst.
       Inr ((base OR push_bit 10 (ta_mode dst AND 3) OR push_bit 6 (ta_reg dst AND 0xF) OR field6 src)
            # addrExtras src @ addrExtras dst))))"

text \<open>The formats in the order of the code; the tables have no name in common.\<close>

definition encodeTmsBody ::
  "string \<Rightarrow> string list \<Rightarrow> int \<Rightarrow> symbol_table \<Rightarrow> bool \<Rightarrow> asm_error + u16 list" where
  "encodeTmsBody opr args pcByte symbols u =
     (case map_of FMT7_FIXED opr of
        Some w \<Rightarrow> bindE (tmsCount opr 0 args) (\<lambda>_. Inr [w]) | None \<Rightarrow>
      if opr = ''LWPI'' then encTmsImm opr 0x02E0 args symbols u
      else if opr = ''LIMI'' then encTmsImm opr 0x0300 args symbols u
      else
     (case map_of FMT8_REG opr of Some b \<Rightarrow> encTmsReg opr b args | None \<Rightarrow>
     (case map_of FMT8_REG_IMM opr of Some b \<Rightarrow> encTmsRegImm opr b args symbols u | None \<Rightarrow>
     (case map_of FMT2_CRU opr of Some b \<Rightarrow> encTmsCru opr b args symbols u | None \<Rightarrow>
     (case map_of FMT2_JUMP opr of Some b \<Rightarrow> encTmsJump b args pcByte symbols u opr | None \<Rightarrow>
     (case map_of FMT5 opr of Some b \<Rightarrow> encTmsShift opr b args symbols u | None \<Rightarrow>
     (case map_of FMT3 opr of Some b \<Rightarrow> encTmsSrcReg opr b args symbols u | None \<Rightarrow>
     (case map_of FMT4 opr of Some b \<Rightarrow> encTmsBits opr b args symbols u | None \<Rightarrow>
     (case map_of FMT9 opr of Some b \<Rightarrow> encTmsFmt9 opr b args symbols u | None \<Rightarrow>
     (case map_of FMT6 opr of Some b \<Rightarrow> encTmsOne opr b args symbols u | None \<Rightarrow>
     (case map_of FMT1 opr of Some b \<Rightarrow> encTmsTwo opr b args symbols u | None \<Rightarrow>
        Inl (UnsupportedOpcode opr))))))))))))"

definition encodeTms9995Instruction ::
  "string \<Rightarrow> string list \<Rightarrow> int \<Rightarrow> symbol_table \<Rightarrow> bool \<Rightarrow> asm_error + u16 list" where
  "encodeTms9995Instruction lineOp args0 pcByte symbols u =
     (let opr = toUpperCase lineOp; args = map trim args0
      in if lineOp = [] then Inr []
         else if opr = ''RT'' then
           bindE (tmsCount opr 0 args) (\<lambda>_. encodeTmsBody ''B'' [''(R11)''] pcByte symbols u)
         else if opr = ''NOP'' then bindE (tmsCount opr 0 args) (\<lambda>_. Inr [0x1000])
         else encodeTmsBody opr args pcByte symbols u)"

text \<open>The bytes of a line, in the first pass: without any symbols.\<close>

definition tms9995InstructionSize :: "string \<Rightarrow> string list \<Rightarrow> asm_error + nat" where
  "tms9995InstructionSize lineOp args =
     bindE (encodeTms9995Instruction lineOp args 0 Map.empty True) (\<lambda>ws. Inr (length ws * 2))"

end
