(* ===== verification/Tms_Jumps.thy ===== *)
theory Tms_Jumps
  imports Tms_Core Tms_Encoder Encoder_Size
begin

text \<open>
  Jumps: what the assembler of the TMS9995 encodes and what its emulator does with it.
\<close>

subsection \<open>Every jump is taken\<close>









subsection \<open>The assembler's displacement\<close>










end
