(* ===== verification/Tms_Cru_Props.thy ===== *)
theory Tms_Cru_Props
  imports Tms_Reach
begin

text \<open>
  The lines of the CRU: the roles of the two sides, and the way to the shared bus and back.
\<close>

subsection \<open>The register file behind the lines\<close>

text \<open>What a reader of a line sees.\<close>

definition line :: "cru \<Rightarrow> u16 \<Rightarrow> bool" where
  "line c a = fst (fetchBit CruCpu a c)"

text \<open>Operations of the two sides, each of which may throw.\<close>

datatype cru_op = WriteBit cru_actor u16 bool | ReadBit cru_actor u16
  | OutByte u16 | InByte u16 | GetOutByte | GetInByte

definition cruOp :: "cru_op \<Rightarrow> cru \<Rightarrow> cru_error + cru" where
  "cruOp op c =
     (case op of
        WriteBit who a b \<Rightarrow> writeBit who a b c
      | ReadBit who a \<Rightarrow> map_sum id snd (readBit who a c)
      | OutByte v \<Rightarrow> cpuWriteOutDataByte v c
      | InByte v \<Rightarrow> ioWriteInDataByte v c
      | GetOutByte \<Rightarrow> Inr (snd (ioReadOutDataByte c))
      | GetInByte \<Rightarrow> Inr (snd (cpuReadInDataByte c)))"

text \<open>The lines that an operation of one side can change.\<close>

fun opActor :: "cru_op \<Rightarrow> cru_actor" where
  "opActor (WriteBit who a b) = who"
| "opActor (ReadBit who a) = who"
| "opActor (OutByte v) = CruCpu"
| "opActor (InByte v) = CruIo"
| "opActor GetOutByte = CruIo"
| "opActor GetInByte = CruCpu"


fun cruRun :: "cru_op list \<Rightarrow> cru \<Rightarrow> cru_error + cru" where
  "cruRun [] c = Inr c"
| "cruRun (op # ops) c = (case cruOp op c of Inl e \<Rightarrow> Inl e | Inr c1 \<Rightarrow> cruRun ops c1)"

text \<open>The part of the unit that a side drives: its lines and its byte latch.\<close>

definition drivenBy :: "cru_actor \<Rightarrow> cru \<Rightarrow> (u16 \<Rightarrow> bool) \<times> u16" where
  "drivenBy who c =
     ((\<lambda>a. canWrite who a \<and> cruBits c a),
      case who of CruCpu \<Rightarrow> outDataByte c | CruIo \<Rightarrow> inDataByte c)"

lemma roles_disjoint: "canWrite CruCpu a \<Longrightarrow> \<not> canWrite CruIo a"
  by (auto simp: canWrite_def cru_addr_defs)

lemma storeBit_other:
  assumes "canWrite who a" and "who' \<noteq> who"
  shows "drivenBy who' (storeBit who a b c) = drivenBy who' c"
  using assms roles_disjoint [of a]
  by (cases who; cases who')
    (auto simp: drivenBy_def storeBit_def Let_def canWrite_def cru_addr_defs)

lemma cruOp_other:
  assumes "strictRoles c" and "cruOp op c = Inr c1" and "opActor op \<noteq> who"
  shows "strictRoles c1" "drivenBy who c1 = drivenBy who c"
proof -
  note d = drivenBy_def storeOutByte_def storeInByte_def fetchBit_def cpuReadInDataByte_def
    ioReadOutDataByte_def canWrite_def cru_addr_defs
  have "strictRoles c1 \<and> drivenBy who c1 = drivenBy who c"
  proof (cases op)
    case (WriteBit w a b)
    then have "canWrite w a" "c1 = storeBit w a b c" "who \<noteq> w"
      using assms by (auto simp: cruOp_def writeBit_def normalizeBitAddr_def split: if_splits)
    then show ?thesis
      using assms(1) storeBit_other [of w a who b c] by (simp add: storeBit_def Let_def)
  next
    case (ReadBit w a)
    then show ?thesis
      using assms by (auto simp: cruOp_def readBit_def normalizeBitAddr_def d Let_def
          split: if_splits cru_actor.split)
  qed (use assms in \<open>cases who; auto simp: cruOp_def cpuWriteOutDataByte_def ioWriteInDataByte_def
      asByte_def d split: if_splits\<close>)+
  then show "strictRoles c1" "drivenBy who c1 = drivenBy who c" by simp_all
qed

text \<open>
  With the roles checked, the two sides of the CRU cannot disturb each other: whatever one
  side does, a series of writes and reads by names, addresses and bytes, either one of its
  accesses throws or all lines and the byte latch that the other side drives keep their values.
\<close>

lemma cru_isolation:
  assumes "strictRoles c" and "\<forall>op\<in>set ops. opActor op \<noteq> who" and "cruRun ops c = Inr c'"
  shows "drivenBy who c' = drivenBy who c"
  using assms
proof (induction ops arbitrary: c)
  case (Cons op ops)
  then obtain c1 where c1: "cruOp op c = Inr c1" "cruRun ops c1 = Inr c'"
    by (auto split: sum.splits)
  have "opActor op \<noteq> who" using Cons.prems(2) by simp
  note cruOp_other [OF Cons.prems(1) c1(1) this]
  moreover have "drivenBy who c' = drivenBy who c1"
    using Cons.IH [OF calculation(1) _ c1(2)] Cons.prems(2) by simp
  ultimately show ?case by simp
qed simp

theorem cru_isolation_witness:
  "drivenBy CruIo (storeOutByte 0x5A (storeBit CruCpu 0x20 True (storeBit CruIo 0x24 True (newCru True)))) =
   drivenBy CruIo (storeBit CruIo 0x24 True (newCru True))"
  by (rule cru_isolation [where ops = "[WriteBit CruCpu 0x20 True, OutByte 0x5A]"])
    (simp_all add: cruOp_def writeBit_def normalizeBitAddr_def canWrite_def cpuWriteOutDataByte_def
      asByte_def cru_addr_defs storeBit_def newCru_def)


subsection \<open>The shared bus\<close>







end
