(* ===== verification/Tms_Interrupts.thy ===== *)
theory Tms_Interrupts
  imports Tms_Core
begin

text \<open>
  Interrupts and context switches of the TMS9995: which request is taken, what is saved, and
  how RTWP returns.
\<close>

subsection \<open>The context switch\<close>

text \<open>Memory with PC, WP and ST saved in the registers 13 to 15 of a workspace.\<close>

definition savedIn :: "u16 \<Rightarrow> tms \<Rightarrow> u16 \<Rightarrow> u8" where
  "savedIn w s = putWord (w + 30) (tST s) (putWord (w + 28) (tPC s) (putWord (w + 26) (tWP s) (tMem s)))"





subsection \<open>Which request is taken\<close>



definition clearAt :: "nat \<Rightarrow> tms \<Rightarrow> tms" where
  "clearAt lv s =
     (if lv = 1 then s\<lparr>tIrq1 := False\<rparr> else if lv = 2 then s\<lparr>tIrq2 := False\<rparr> else s\<lparr>tIrq3 := False\<rparr>)"

lemma clearAt_sels [simp]:
  "tMem (clearAt lv s) = tMem s" "tPC (clearAt lv s) = tPC s" "tWP (clearAt lv s) = tWP s"
  "tST (clearAt lv s) = tST s" "tMode (clearAt lv s) = tMode s" "savedIn w (clearAt lv s) = savedIn w s"
  by (simp_all add: clearAt_def savedIn_def)

















end
