(* ===== verification/Tms_Flags.thy ===== *)
theory Tms_Flags
  imports Tms_Status
begin

text \<open>
  What the status functions of the TMS9995 compute: the flags as facts on numbers.
\<close>

lemma and_bit_word: "(x :: u16) AND push_bit n 1 \<noteq> 0 \<longleftrightarrow> bit x n"
  using and_exp_eq_0_iff_not_bit [of x n] by (simp add: push_bit_eq_mult)

lemma flag_bit:
  "st AND ST_LGT \<noteq> 0 \<longleftrightarrow> bit st 15" "st AND ST_AGT \<noteq> 0 \<longleftrightarrow> bit st 14"
  "st AND ST_EQ \<noteq> 0 \<longleftrightarrow> bit st 13" "st AND ST_C \<noteq> 0 \<longleftrightarrow> bit st 12"
  "st AND ST_OV \<noteq> 0 \<longleftrightarrow> bit st 11" "st AND ST_OP \<noteq> 0 \<longleftrightarrow> bit st 10"
  using and_bit_word [of st 15] and_bit_word [of st 14] and_bit_word [of st 13]
    and_bit_word [of st 12] and_bit_word [of st 11] and_bit_word [of st 10]
  by (simp_all add: st_defs)

lemma bit_pow16: "k < 16 \<Longrightarrow> bit (2 ^ k :: u16) n \<longleftrightarrow> n = k"
  by (auto simp: bit_exp_iff)

lemma bit_mask16 [simp]:
  "bit ST_LGT n \<longleftrightarrow> n = 15" "bit ST_AGT n \<longleftrightarrow> n = 14" "bit ST_EQ n \<longleftrightarrow> n = 13"
  "bit ST_C n \<longleftrightarrow> n = 12" "bit ST_OV n \<longleftrightarrow> n = 11" "bit ST_OP n \<longleftrightarrow> n = 10"
  using bit_pow16 [of 15 n] bit_pow16 [of 14 n] bit_pow16 [of 13 n] bit_pow16 [of 12 n]
    bit_pow16 [of 11 n] bit_pow16 [of 10 n]
  by (simp_all add: st_defs)

lemma bit_putBit [simp]: "bit (putBit m b st) n \<longleftrightarrow> (if bit m n then b else bit st n)"
  using bit_imp_le_length [of st n] bit_imp_le_length [of m n] by (auto simp: putBit_def bit_simps)

lemma bit_setLaeWord [simp]:
  "bit (setLaeWord st r) n \<longleftrightarrow>
     (if n = 15 then r \<noteq> 0 else if n = 14 then r \<noteq> 0 \<and> \<not> bit r 15 else if n = 13 then r = 0
      else bit st n)"
  using bit_imp_le_length [of st n] msb16 [of r]
  by (auto simp: setLaeWord_def Let_def bit_simps)

lemma bit_setCompareWord [simp]:
  "bit (setCompareWord st d s) n \<longleftrightarrow>
     (if n = 15 then d > s else if n = 14 then sint d > sint s else if n = 13 then d = s
      else bit st n)"
  using bit_imp_le_length [of st n] by (auto simp: setCompareWord_def Let_def bit_simps)

lemma sint_pos: "sint (r :: u16) > 0 \<longleftrightarrow> r \<noteq> 0 \<and> \<not> bit r 15"
proof -
  obtain x where x: "uint r = x" "0 \<le> x" "x < 0x10000" by (rule word16_cases)
  have "r = 0 \<longleftrightarrow> x = 0" using x(1) by (auto simp: word_uint_eq_iff)
  then show ?thesis unfolding sint16 bit15_uint x(1) using x(2,3) by (cases "x \<ge> 0x8000") auto
qed

lemma signed_add_range:
  fixes a b :: u16
  shows "(sint a > 0 \<and> sint b > 0 \<and> sint (a + b) < 0) \<or> (sint a < 0 \<and> sint b < 0 \<and> sint (a + b) \<ge> 0)
     \<longleftrightarrow> sint a + sint b < - 0x8000 \<or> sint a + sint b > 0x7FFF"
proof -
  obtain x y where "uint a = x" "uint b = y" "0 \<le> x" "x < 0x10000" "0 \<le> y" "y < 0x10000"
    using word16_cases by metis
  then show ?thesis unfolding sint16 uint_add16 by auto
qed

lemma signed_sub_range:
  fixes a b :: u16
  shows "(sint a \<ge> 0 \<and> sint b < 0 \<and> sint (a - b) < 0) \<or> (sint a < 0 \<and> sint b \<ge> 0 \<and> sint (a - b) \<ge> 0)
     \<longleftrightarrow> sint a - sint b < - 0x8000 \<or> sint a - sint b > 0x7FFF"
proof -
  obtain x y where "uint a = x" "uint b = y" "0 \<le> x" "x < 0x10000" "0 \<le> y" "y < 0x10000"
    using word16_cases by metis
  then show ?thesis unfolding sint16 uint_sub16 by auto
qed

lemma low_flag_bits:
  assumes "\<And>n. n < 11 \<Longrightarrow> bit t n = bit st n"
  shows "t AND 0x07FF = st AND (0x07FF :: u16)"
proof -
  have "t AND mask 11 = st AND mask 11" using assms by (auto simp: bit_eq_iff bit_simps)
  then show ?thesis by (simp add: mask_numeral)
qed

text \<open>
  C38. The status flags of the TMS9995 are exact.  After an addition C is the unsigned carry and
  OV says that the signed sum does not fit; after a subtraction C says that there is no borrow
  and OV that the signed difference does not fit; the comparison flags order the operands as
  unsigned (LGT) and signed (AGT) numbers, and after arithmetic they compare the result with
  zero.  The parity bit, the X bit and the interrupt mask keep their values.
\<close>

theorem tms_flags:
  fixes a b st :: u16
  shows "let t = setAddFlags st a b (a + b); u = setSubFlags st a b (a - b);
      c = setCompareWord st a b
    in ((t AND ST_C \<noteq> 0) = (uint a + uint b \<ge> 0x10000)) \<and>
       ((t AND ST_OV \<noteq> 0) = (\<not> (- 0x8000 \<le> sint a + sint b \<and> sint a + sint b \<le> 0x7FFF))) \<and>
       ((t AND ST_EQ \<noteq> 0) = (a + b = 0)) \<and> ((t AND ST_AGT \<noteq> 0) = (sint (a + b) > 0)) \<and>
       ((u AND ST_C \<noteq> 0) = (uint a - uint b \<ge> 0)) \<and>
       ((u AND ST_OV \<noteq> 0) = (\<not> (- 0x8000 \<le> sint a - sint b \<and> sint a - sint b \<le> 0x7FFF))) \<and>
       ((u AND ST_EQ \<noteq> 0) = (a = b)) \<and> ((u AND ST_AGT \<noteq> 0) = (sint (a - b) > 0)) \<and>
       ((c AND ST_EQ \<noteq> 0) = (a = b)) \<and> ((c AND ST_LGT \<noteq> 0) = (uint a > uint b)) \<and>
       ((c AND ST_AGT \<noteq> 0) = (sint a > sint b)) \<and>
       t AND 0x07FF = st AND 0x07FF \<and> u AND 0x07FF = st AND 0x07FF \<and> c AND 0x07FF = st AND 0x07FF"
proof -
  let ?t = "setAddFlags st a b (a + b)" and ?u = "setSubFlags st a b (a - b)"
  let ?c = "setCompareWord st a b"
  have low: "?t AND 0x07FF = st AND 0x07FF" "?u AND 0x07FF = st AND 0x07FF" "?c AND 0x07FF = st AND 0x07FF"
    by (rule low_flag_bits; simp add: setAddFlags_def setSubFlags_def Let_def)+
  have ovf: "(?t AND ST_OV \<noteq> 0) = (\<not> (- 0x8000 \<le> sint a + sint b \<and> sint a + sint b \<le> 0x7FFF))"
    "(?u AND ST_OV \<noteq> 0) = (\<not> (- 0x8000 \<le> sint a - sint b \<and> sint a - sint b \<le> 0x7FFF))"
    unfolding setAddFlags_def setSubFlags_def Let_def flag_bit bit_putBit bit_mask16
      signed_add_range signed_sub_range by (simp_all add: not_le disj_commute)
  have carry: "(?t AND ST_C \<noteq> 0) = (uint a + uint b \<ge> 0x10000)"
    "(?u AND ST_C \<noteq> 0) = (uint a - uint b \<ge> 0)"
    unfolding setAddFlags_def setSubFlags_def Let_def flag_bit by (simp_all add: word_le_def) arith
  have zero: "(?t AND ST_EQ \<noteq> 0) = (a + b = 0)" "(?t AND ST_AGT \<noteq> 0) = (sint (a + b) > 0)"
    "(?u AND ST_EQ \<noteq> 0) = (a = b)" "(?u AND ST_AGT \<noteq> 0) = (sint (a - b) > 0)"
    unfolding setAddFlags_def setSubFlags_def Let_def flag_bit sint_pos by simp_all
  have order: "(?c AND ST_EQ \<noteq> 0) = (a = b)" "(?c AND ST_LGT \<noteq> 0) = (uint a > uint b)"
    "(?c AND ST_AGT \<noteq> 0) = (sint a > sint b)"
    unfolding flag_bit by (simp_all add: word_less_def)
  show ?thesis unfolding Let_def by (intro conjI low ovf carry zero order)
qed

end
