(* ===== verification/Mmap_Props.thy ===== *)
theory Mmap_Props
  imports Tms_Mmap
begin

text \<open>
  The programming sequence of the memory-mapped comparators: what a series of writes to the
  IO area does to the bank.
\<close>

definition mmap_writes :: "(u16 \<times> u16) list \<Rightarrow> io_mmap \<Rightarrow> io_mmap" where
  "mmap_writes ws m = fold (\<lambda>(a, v) m. fst (mmap_writeByte a v m)) ws m"

lemma mmap_writes_snoc [simp]:
  "mmap_writes (ws @ [w]) m = fst (mmap_writeByte (fst w) (snd w) (mmap_writes ws m))"
  by (simp add: mmap_writes_def case_prod_unfold)

text \<open>The writes among them that belong to the sequence, and the three prefixes of it.\<close>

definition isProgAddr :: "u16 \<Rightarrow> bool" where
  "isProgAddr a \<longleftrightarrow> a \<in> {TMS9995_IO_BREAK_SLOT, TMS9995_IO_BREAK_CTRL, TMS9995_IO_BREAK_ADDR_HI,
     TMS9995_IO_BREAK_ADDR_LO}"

abbreviation progWrites :: "(u16 \<times> u16) list \<Rightarrow> (u16 \<times> u16) list" where
  "progWrites ws \<equiv> filter (\<lambda>w. isProgAddr (fst w)) ws"

definition slotChosen :: "(u16 \<times> u16) list \<Rightarrow> u16 \<Rightarrow> bool" where
  "slotChosen ws s \<longleftrightarrow> (\<exists>pre. ws = pre @ [(TMS9995_IO_BREAK_SLOT, s)])"

definition ctrlGiven :: "(u16 \<times> u16) list \<Rightarrow> u16 \<Rightarrow> u16 \<Rightarrow> bool" where
  "ctrlGiven ws s c \<longleftrightarrow> (\<exists>pre cs. ws = pre @ cs @ [(TMS9995_IO_BREAK_CTRL, c)] \<and> slotChosen pre s
     \<and> (\<forall>w\<in>set cs. fst w = TMS9995_IO_BREAK_CTRL))"

definition addrBegun :: "(u16 \<times> u16) list \<Rightarrow> u16 \<Rightarrow> u16 \<Rightarrow> u16 \<Rightarrow> bool" where
  "addrBegun ws s c h \<longleftrightarrow> (\<exists>pre hs. ws = pre @ hs @ [(TMS9995_IO_BREAK_ADDR_HI, h)] \<and> ctrlGiven pre s c
     \<and> (\<forall>w\<in>set hs. fst w = TMS9995_IO_BREAK_ADDR_HI))"

subsection \<open>The prefixes grow with the writes\<close>

lemma slotChosen_snoc: "slotChosen (ws @ [w]) s \<longleftrightarrow> w = (TMS9995_IO_BREAK_SLOT, s)"
  by (auto simp: slotChosen_def)

text \<open>A run of equal addresses after a prefix: either it just began or it goes on.\<close>

lemma run_snoc:
  "(\<exists>pre xs. ws @ [w] = pre @ xs @ [(a, v)] \<and> P pre \<and> (\<forall>x\<in>set xs. fst x = a)) \<longleftrightarrow>
   w = (a, v) \<and> (P ws \<or> (\<exists>pre xs u. ws = pre @ xs @ [(a, u)] \<and> P pre \<and> (\<forall>x\<in>set xs. fst x = a)))"
  (is "?L \<longleftrightarrow> ?R")
proof
  assume ?L
  then obtain pre xs where e: "ws @ [w] = pre @ xs @ [(a, v)]" "P pre" "\<forall>x\<in>set xs. fst x = a" by blast
  then have w: "w = (a, v)" "ws = pre @ xs" by (simp_all flip: append_assoc)
  show ?R
  proof (cases xs rule: rev_cases)
    case Nil
    then show ?thesis using w e by simp
  next
    case (snoc ys y)
    then have "ws = pre @ ys @ [(a, snd y)]" "\<forall>x\<in>set ys. fst x = a" using w e by auto
    then show ?thesis using w e(2) by blast
  qed
next
  assume r: ?R
  then show ?L
  proof (elim conjE disjE exE)
    fix pre xs u
    assume h: "w = (a, v)" "ws = pre @ xs @ [(a, u)]" "P pre" "\<forall>x\<in>set xs. fst x = a"
    have "ws @ [w] = pre @ (xs @ [(a, u)]) @ [(a, v)]" "\<forall>x\<in>set (xs @ [(a, u)]). fst x = a"
      using h by auto
    then show ?L using h(3) by blast
  next
    assume h: "w = (a, v)" "P ws"
    then have "ws @ [w] = ws @ [] @ [(a, v)]" "\<forall>x\<in>set []. fst x = a" by simp_all
    then show ?L using h(2) by blast
  qed
qed

lemma ctrlGiven_snoc:
  "ctrlGiven (ws @ [w]) s c \<longleftrightarrow>
     w = (TMS9995_IO_BREAK_CTRL, c) \<and> (slotChosen ws s \<or> (\<exists>u. ctrlGiven ws s u))"
  unfolding ctrlGiven_def run_snoc by blast

lemma addrBegun_snoc:
  "addrBegun (ws @ [w]) s c h \<longleftrightarrow>
     w = (TMS9995_IO_BREAK_ADDR_HI, h) \<and> (ctrlGiven ws s c \<or> (\<exists>u. addrBegun ws s c u))"
  unfolding addrBegun_def run_snoc by blast

lemma prefixes_Nil: "\<not> slotChosen [] s" "\<not> ctrlGiven [] s c" "\<not> addrBegun [] s c h"
  by (simp_all add: slotChosen_def ctrlGiven_def addrBegun_def)

text \<open>
  The state of the unit follows the prefixes: the latches hold what the sequence so far says.
\<close>

definition tracks :: "(u16 \<times> u16) list \<Rightarrow> io_mmap \<Rightarrow> bool" where
  "tracks ws m \<longleftrightarrow>
     (phase m = PhaseSlot \<longleftrightarrow> (\<exists>s. slotChosen ws s)) \<and>
     (phase m = PhaseCtrl \<longleftrightarrow> (\<exists>s c. ctrlGiven ws s c)) \<and>
     (phase m = PhaseAddrHi \<longleftrightarrow> (\<exists>s c h. addrBegun ws s c h)) \<and>
     (\<forall>s. slotChosen ws s \<longrightarrow> progSlot m = s AND 7) \<and>
     (\<forall>s c. ctrlGiven ws s c \<longrightarrow> progSlot m = s AND 7 \<and> progCtrl m = c AND 0xFF) \<and>
     (\<forall>s c h. addrBegun ws s c h \<longrightarrow>
        progSlot m = s AND 7 \<and> progCtrl m = c AND 0xFF \<and> progAddrHi m = h AND 0xFF)"

lemma commitBreak_phase [simp]:
  "phase (commitBreak v m) = phase m" "progSlot (commitBreak v m) = progSlot m"
  "progCtrl (commitBreak v m) = progCtrl m" "progAddrHi (commitBreak v m) = progAddrHi m"
  by (simp_all add: commitBreak_def Let_def)


lemma and_FF_7: "(v AND 0xFF) AND 7 = v AND (7 :: u16)" "(v AND 0xFF) AND 0xFF = v AND (0xFF :: u16)"
  by (simp_all add: and.assoc)

lemma tracks_step:
  assumes "tracks ws m" and "isProgAddr a"
  shows "tracks (ws @ [(a, v)]) (fst (mmap_writeByte a v m))"
proof -
  consider "a = TMS9995_IO_BREAK_SLOT" | "a = TMS9995_IO_BREAK_CTRL"
    | "a = TMS9995_IO_BREAK_ADDR_HI" | "a = TMS9995_IO_BREAK_ADDR_LO"
    using assms(2) by (auto simp: isProgAddr_def)
  note c = this
  note defs = tracks_def slotChosen_snoc ctrlGiven_snoc addrBegun_snoc mmap_writeByte_def
    isIoAddr_def mmap_port_defs Let_def and_FF_7
  from c show ?thesis
  proof cases
    case 1
    with assms(1) show ?thesis by (auto simp: defs)
  next
    case 2
    with assms(1) show ?thesis by (auto simp: defs)
  next
    case 3
    with assms(1) show ?thesis by (auto simp: defs) metis+
  next
    case 4
    with assms(1) show ?thesis by (auto simp: defs)
  qed
qed

lemma tracks_other:
  assumes "\<not> isProgAddr a"
  shows "tracks ws (fst (mmap_writeByte a v m)) = tracks ws m"
    and "mmComparators (fst (mmap_writeByte a v m)) = mmComparators m"
  using assms by (auto simp: tracks_def mmap_writeByte_def isProgAddr_def Let_def)

lemma tracks_writes:
  assumes "phase m = PhaseIdle"
  shows "tracks (progWrites ws) (mmap_writes ws m)"
proof (induction ws rule: rev_induct)
  case Nil
  show ?case using assms by (simp add: tracks_def prefixes_Nil mmap_writes_def)
next
  case (snoc w ws)
  then show ?case
    using tracks_step [of "progWrites ws" "mmap_writes ws m" "fst w" "snd w"]
    by (simp add: tracks_other(1))
qed

text \<open>The slot that a completed sequence sets.\<close>

definition programmedSlot :: "u16 \<Rightarrow> u16 \<Rightarrow> u16 \<Rightarrow> comparator_slot" where
  "programmedSlot c h l =
     \<lparr>enabled = bit c 3, io = bit c 4, rdwr = drop_bit 5 c AND 3,
      addr = ucast (push_bit 8 (h AND 0xFF) OR (l AND 0xFF))\<rparr>"

lemma commitBreak_slots:
  assumes "length (slots (mmComparators m)) = 4" and "progSlot m = s AND 7"
    and "progCtrl m = c AND 0xFF" and "progAddrHi m = h AND 0xFF"
  shows "slots (mmComparators (commitBreak (l AND 0xFF) m)) =
    (if s AND 7 < 4 then (slots (mmComparators m))[unat (s AND 7) := programmedSlot c h l]
     else slots (mmComparators m))"
proof -
  have seven: "s AND 7 AND 7 = s AND 7" by (simp add: and.assoc)
  have bits: "(drop_bit 3 (c AND 0xFF) AND 1 \<noteq> 0) = bit c 3"
    "(drop_bit 4 (c AND 0xFF) AND 1 \<noteq> 0) = bit c 4"
    by (simp_all add: bit0_16 bit_iff_odd_drop_bit [symmetric] bit_simps del: drop_bit_and)
  have rw: "drop_bit 5 (c AND 0xFF) AND 3 = drop_bit 5 c AND 3" "drop_bit 5 c AND 3 AND 3 = drop_bit 5 c AND 3"
    by (simp_all add: and.assoc)
  have gt: "\<not> s AND 7 > 3 \<longleftrightarrow> s AND 7 < 4" by unat_arith
  show ?thesis
  proof (cases "s AND 7 < 4")
    case False
    then show ?thesis using assms gt by (simp add: commitBreak_def seven)
  next
    case True
    then have k: "unat (s AND 7) < 4" by (simp add: word_less_nat_alt)
    have ctrl: "decodeBreakCtrl (encodeBreakCtrl (s AND 7) e i r) =
        \<lparr>bc_slot = s AND 7, bc_enabled = e, bc_io = i, bc_rdwr = r AND 3\<rparr>" for e i r
      by (simp add: decode_encode seven)
    show ?thesis
      using True assms k gt
      by (simp add: commitBreak_def Let_def seven bank_writePort_def break_port_defs
          applyCtrlToSlot_def applyAddrToSelected_def selectedSlot_def encode_slot ctrl
          CPLD_COMPARATOR_COUNT_def latchedAddr_def programmedSlot_def bits rw and_FF_7
          not_le [symmetric] del: drop_bit_and)
  qed
qed


lemma commit_write:
  "mmap_writeByte TMS9995_IO_BREAK_ADDR_LO l m =
     (if phase m = PhaseAddrHi then ((commitBreak (l AND 0xFF) m)\<lparr>phase := PhaseIdle\<rparr>, True)
      else (m\<lparr>phase := PhaseIdle\<rparr>, True))"
  by (simp add: mmap_writeByte_def isIoAddr_def mmap_port_defs)

text \<open>
  The comparators of the memory map are set by the sequence FE80, FE81, FE82, FE83 and by
  nothing else.  After any series of writes from the idle state, a write of FE83 sets the chosen
  slot to the control byte and the address just given when the writes to the four registers end
  with a choice of a slot, control bytes and high address bytes in this order (the last of each
  counts, and slots beyond 3 are ignored), and otherwise changes no comparator; no other write
  changes a comparator.
\<close>

lemma mmap_program:
  assumes "phase m = PhaseIdle" and "length (slots (mmComparators (mmap_writes ws m))) = 4"
  shows "let b = mmComparators (mmap_writes ws m);
      b1 = mmComparators (mmap_writes (ws @ [(TMS9995_IO_BREAK_ADDR_LO, l)]) m)
    in (\<forall>s c h. addrBegun (progWrites ws) s c h \<longrightarrow>
          slots b1 = (if s AND 7 < 4 then (slots b)[unat (s AND 7) := programmedSlot c h l] else slots b))
       \<and> ((\<nexists>s c h. addrBegun (progWrites ws) s c h) \<longrightarrow> b1 = b)
       \<and> (\<forall>a v. a \<noteq> TMS9995_IO_BREAK_ADDR_LO \<longrightarrow> mmComparators (mmap_writes (ws @ [(a, v)]) m) = b)"
proof -
  let ?m = "mmap_writes ws m" and ?p = "progWrites ws"
  have t: "tracks ?p ?m" by (rule tracks_writes) (rule assms(1))
  have hi: "phase ?m = PhaseAddrHi \<longleftrightarrow> (\<exists>s c h. addrBegun ?p s c h)"
    using t by (simp add: tracks_def)
  have "slots (mmComparators (fst (mmap_writeByte TMS9995_IO_BREAK_ADDR_LO l ?m))) =
      (if s AND 7 < 4 then (slots (mmComparators ?m))[unat (s AND 7) := programmedSlot c h l]
       else slots (mmComparators ?m))" if "addrBegun ?p s c h" for s c h
  proof -
    have "phase ?m = PhaseAddrHi" using hi that by blast
    moreover have "progSlot ?m = s AND 7" "progCtrl ?m = c AND 0xFF" "progAddrHi ?m = h AND 0xFF"
      using t that unfolding tracks_def by blast+
    ultimately show ?thesis
      using commitBreak_slots [OF assms(2), of s c h l] by (simp add: commit_write)
  qed
  moreover have "mmComparators (fst (mmap_writeByte TMS9995_IO_BREAK_ADDR_LO l ?m)) = mmComparators ?m"
    if "\<nexists>s c h. addrBegun ?p s c h"
    using hi that by (simp add: commit_write)
  moreover have "mmComparators (fst (mmap_writeByte a v ?m)) = mmComparators ?m"
    if "a \<noteq> TMS9995_IO_BREAK_ADDR_LO" for a v
    using that by (auto simp: mmap_writeByte_def Let_def)
  ultimately show ?thesis unfolding Let_def mmap_writes_snoc fst_conv snd_conv by blast
qed

theorem mmap_program_witness:
  "slots (mmComparators (mmap_writes [(0xFE80, 2), (0xFE81, 0x68), (0xFE82, 0x12), (0xFE83, 0x34)]
     newIoMmap)) =
   [emptySlot, emptySlot, \<lparr>enabled = True, io = False, rdwr = 3, addr = 0x1234\<rparr>, emptySlot]"
proof -
  let ?ws = "[(0xFE80, 2), (0xFE81, 0x68), (0xFE82, 0x12)] :: (u16 \<times> u16) list"
  have "slotChosen [(0xFE80, 2)] 2" by (simp add: slotChosen_def mmap_port_defs)
  then have "ctrlGiven ([(0xFE80, 2)] @ [(0xFE81, 0x68)]) 2 0x68"
    unfolding ctrlGiven_snoc by (simp add: mmap_port_defs)
  then have "addrBegun (([(0xFE80, 2)] @ [(0xFE81, 0x68)]) @ [(0xFE82, 0x12)]) 2 0x68 0x12"
    unfolding addrBegun_snoc by (simp add: mmap_port_defs)
  then have a: "addrBegun (progWrites ?ws) 2 0x68 0x12"
    by (simp add: isProgAddr_def mmap_port_defs)
  have b: "slots (mmComparators (mmap_writes ?ws newIoMmap)) = replicate 4 emptySlot"
    by code_simp
  note mmap_program [of newIoMmap ?ws "0x34"]
  moreover have "phase newIoMmap = PhaseIdle" by code_simp
  ultimately have "slots (mmComparators (mmap_writes (?ws @ [(0xFE83, 0x34)]) newIoMmap)) =
      (replicate 4 emptySlot)[unat ((2 :: u16) AND 7) := programmedSlot 0x68 0x12 0x34]"
    using a b by (simp add: Let_def mmap_port_defs)
  moreover have "(replicate 4 emptySlot)[unat ((2 :: u16) AND 7) := programmedSlot 0x68 0x12 0x34] =
      [emptySlot, emptySlot, \<lparr>enabled = True, io = False, rdwr = 3, addr = 0x1234\<rparr>, emptySlot]"
    by code_simp
  ultimately show ?thesis by simp
qed

end
