(* ===== verification/Asm_Parse.thy ===== *)
theory Asm_Parse
  imports Asm_Expr
begin

text \<open>
  The line parser of the assembler, \<^verbatim>\<open>retrocpu_asm_ts/src/main/parser.ts\<close>: parser combinators
  over a string and an index, and the grammar of a line: a label, an operation, operands, a
  comment.
\<close>

subsection \<open>Combinators\<close>

datatype 'a parse_result = POk 'a nat | PNg string nat

type_synonym 'a parser = "string \<Rightarrow> nat \<Rightarrow> 'a parse_result"

definition mapP :: "'a parser \<Rightarrow> ('a \<Rightarrow> 'b) \<Rightarrow> 'b parser" where
  "mapP p fn input index =
     (case p input index of PNg e a \<Rightarrow> PNg e a | POk v n \<Rightarrow> POk (fn v) n)"

definition seqP :: "'a parser \<Rightarrow> 'b parser \<Rightarrow> ('a \<times> 'b) parser" where
  "seqP l r input index =
     (case l input index of
        PNg e a \<Rightarrow> PNg e a
      | POk v1 n1 \<Rightarrow>
          (case r input n1 of PNg e a \<Rightarrow> PNg e a | POk v2 n2 \<Rightarrow> POk (v1, v2) n2))"

definition orP :: "'a parser \<Rightarrow> 'a parser \<Rightarrow> 'a parser" where
  "orP first second input index =
     (case first input index of
        POk v n \<Rightarrow> POk v n
      | PNg e1 a1 \<Rightarrow>
          (case second input index of
             POk v n \<Rightarrow> POk v n
           | PNg e2 a2 \<Rightarrow> (if a2 \<ge> a1 then PNg e2 a2 else PNg e1 a1)))"

definition optionalP :: "'a parser \<Rightarrow> 'a option parser" where
  "optionalP p input index =
     (case p input index of PNg _ _ \<Rightarrow> POk None index | POk v n \<Rightarrow> POk (Some v) n)"

text \<open>
  The loop of \<^verbatim>\<open>manyP\<close> ends at a failure or when nothing is consumed.  The fuel is more than
  the characters that a parser can consume; \<open>manyP_fuel\<close> shows that it is enough for parsers
  that move forward inside the input.
\<close>

fun manyLoop :: "nat \<Rightarrow> 'a parser \<Rightarrow> string \<Rightarrow> nat \<Rightarrow> 'a list \<Rightarrow> ('a list \<times> nat) option" where
  "manyLoop 0 p input cur out = None"
| "manyLoop (Suc fuel) p input cur out =
     (case p input cur of
        PNg _ _ \<Rightarrow> Some (out, cur)
      | POk v n \<Rightarrow> (if n = cur then Some (out, cur) else manyLoop fuel p input n (out @ [v])))"

definition manyP :: "'a parser \<Rightarrow> 'a list parser" where
  "manyP p input index =
     (case the (manyLoop (length input + 2) p input index []) of (out, n) \<Rightarrow> POk out n)"

definition charP :: "char \<Rightarrow> string parser" where
  "charP ch input index =
     (if index < length input \<and> input ! index = ch then POk [ch] (index + 1)
      else PNg [CHR 0x27, ch, CHR 0x27] index)"

text \<open>A regular expression is given by the length of its match at the start of a string.\<close>

definition regexP :: "(string \<Rightarrow> nat option) \<Rightarrow> string \<Rightarrow> string parser" where
  "regexP re expected input index =
     (case re (drop index input) of
        None \<Rightarrow> PNg expected index
      | Some n \<Rightarrow> POk (take n (drop index input)) (index + n))"

definition sepBy1P :: "'a parser \<Rightarrow> 'b parser \<Rightarrow> 'a list parser" where
  "sepBy1P item sep input index =
     (case item input index of
        PNg e a \<Rightarrow> PNg e a
      | POk v n \<Rightarrow>
          (case manyP (seqP sep item) input n of
             PNg e a \<Rightarrow> PNg e a
           | POk rest m \<Rightarrow> POk (v # map snd rest) m))"

subsection \<open>Comments\<close>

text \<open>The loop of \<^verbatim>\<open>stripLineComment\<close>; the first argument is the quote that is open.\<close>

fun stripFrom :: "char option \<Rightarrow> string \<Rightarrow> string" where
  "stripFrom quote [] = []"
| "stripFrom (Some q) (c # cs) = c # stripFrom (if c = q then None else Some q) cs"
| "stripFrom None (c # cs) =
     (if c = CHR 0x27 \<or> c = CHR 0x22 then c # stripFrom (Some c) cs
      else if c = CHR '';'' then []
      else if c = CHR ''/'' \<and> cs \<noteq> [] \<and> hd cs = CHR ''/'' then []
      else c # stripFrom None cs)"

definition stripLineComment :: "string \<Rightarrow> string" where
  "stripLineComment line = stripFrom None line"

subsection \<open>Parts of a line\<close>

definition ws0 :: "string parser" where
  "ws0 = regexP (\<lambda>s. Some (length (takeWhile isBlank s))) ''whitespace''"

definition ws1 :: "string parser" where
  "ws1 = regexP (\<lambda>s. let n = length (takeWhile isBlank s) in if n = 0 then None else Some n) ''whitespace''"

text \<open>\<^verbatim>\<open>[A-Za-z_.$][A-Za-z0-9_.$]*\<close>.\<close>

definition identLength :: "string \<Rightarrow> nat option" where
  "identLength s =
     (if s \<noteq> [] \<and> isIdentStart (hd s) then Some (length (takeWhile isIdentChar s)) else None)"

definition ident :: "string parser" where
  "ident = regexP identLength ''label''"

definition opToken :: "string parser" where
  "opToken = regexP (\<lambda>s. let n = length (takeWhile (\<lambda>c. \<not> isJsSpace c) s)
     in if n = 0 then None else Some n) ''opcode''"

definition parseLabelDecl :: "string parser" where
  "parseLabelDecl = mapP (seqP ident (charP (CHR '':''))) fst"

text \<open>
  The number of characters up to the end of an operand, with the depths of brackets and
  parentheses: an outer comma ends it, a quoted string outside of both is passed over.
\<close>

fun operandEnd :: "int \<Rightarrow> int \<Rightarrow> string \<Rightarrow> nat" where
  "operandEnd bracket paren [] = 0"
| "operandEnd bracket paren (ch # cs) =
     (if (ch = CHR 0x27 \<or> ch = CHR 0x22) \<and> bracket = 0 \<and> paren = 0 then
        (let n = length (takeWhile (\<lambda>c. c \<noteq> ch) cs)
         in if n < length cs then n + 2 + operandEnd bracket paren (drop (n + 1) cs) else n + 1)
      else if ch = CHR ''['' then Suc (operandEnd (bracket + 1) paren cs)
      else if ch = CHR '']'' then Suc (operandEnd (bracket - 1) paren cs)
      else if ch = CHR ''('' then Suc (operandEnd bracket (paren + 1) cs)
      else if ch = CHR '')'' then Suc (operandEnd bracket (paren - 1) cs)
      else if ch = CHR '','' \<and> bracket = 0 \<and> paren = 0 then 0
      else Suc (operandEnd bracket paren cs))"

definition parseOperand :: "string parser" where
  "parseOperand input index =
     (let n = operandEnd 0 0 (drop index input);
          token = trim (take n (drop index input))
      in if token = [] then PNg ''operand'' index else POk token (index + n))"

definition comma :: "string parser" where
  "comma = mapP (seqP (seqP ws0 (charP (CHR '',''))) ws0) (\<lambda>_. '','')"

definition parseArgsList :: "string list parser" where
  "parseArgsList = sepBy1P parseOperand comma"

record parsed_body =
  pb_label :: "string option"
  pb_op :: "string option"
  pb_args :: "string list"

text \<open>The text after \<^verbatim>\<open>NAME\<close>, blanks and a keyword, compared without regard to case.\<close>

definition afterKeyword :: "string \<Rightarrow> string \<Rightarrow> string option" where
  "afterKeyword kw s =
     (if toUpperCase (take (length kw) s) = kw then Some (drop (length kw) s) else None)"

definition afterName :: "string \<Rightarrow> (string \<times> string) option" where
  "afterName s =
     (case identLength s of
        None \<Rightarrow> None
      | Some n \<Rightarrow>
          (let r = drop n s
           in if r \<noteq> [] \<and> isBlank (hd r) then Some (take n s, dropWhile isBlank r) else None))"

text \<open>\<^verbatim>\<open>[ \t]+(.+)$\<close>: a blank and at least one more character, without line ends.\<close>

definition restOfLine :: "string \<Rightarrow> string option" where
  "restOfLine s =
     (if s \<noteq> [] \<and> isBlank (hd s) \<and> tl s \<noteq> []
         \<and> list_all (\<lambda>c. c \<noteq> char_of (10 :: nat) \<and> c \<noteq> char_of (13 :: nat)) (tl s)
      then Some (trim (tl s)) else None)"

definition tryParseSdasStyleEqu :: "string \<Rightarrow> nat \<Rightarrow> parsed_body parse_result option" where
  "tryParseSdasStyleEqu body start =
     (case afterName (drop start body) of
        None \<Rightarrow> None
      | Some (name, r) \<Rightarrow>
          (let found = (case afterKeyword ''.EQU'' r of
               Some t \<Rightarrow> Some (''.EQU'', t)
             | None \<Rightarrow> map_option (\<lambda>t. (''EQU'', t)) (afterKeyword ''EQU'' r))
           in case found of
                None \<Rightarrow> None
              | Some (opr, t) \<Rightarrow>
                  map_option (\<lambda>arg. POk \<lparr>pb_label = Some name, pb_op = Some opr, pb_args = [arg]\<rparr>
                    (length body)) (restOfLine t)))"

text \<open>\<^verbatim>\<open>NAME .ds\<close> without a colon: the name and the directive as it is written.\<close>

definition isWordChar :: "char \<Rightarrow> bool" where
  "isWordChar c \<longleftrightarrow> isLetter c \<or> isDigit c \<or> c = CHR ''_''"

definition dsNoColon :: "string \<Rightarrow> (string \<times> string) option" where
  "dsNoColon s =
     (case afterName s of
        None \<Rightarrow> None
      | Some (name, r) \<Rightarrow>
          (let matches = (\<lambda>kw. case afterKeyword kw r of
               None \<Rightarrow> False | Some t \<Rightarrow> t = [] \<or> \<not> isWordChar (hd t))
           in if matches ''.DS'' then Some (name, take 3 r)
              else if matches ''.BLKW'' then Some (name, take 5 r)
              else None))"

text \<open>The operation and its operands, from the position of the operation on.\<close>

definition opTail :: "string list parser" where
  "opTail = orP (mapP (seqP ws1 parseArgsList) snd) (mapP ws0 (\<lambda>_. []))"

definition parseOperation :: "string option \<Rightarrow> parsed_body parser" where
  "parseOperation label body cur =
     (case opToken body cur of
        PNg e a \<Rightarrow> PNg e a
      | POk opr cur2 \<Rightarrow>
          (case opTail body cur2 of
             PNg e a \<Rightarrow> PNg e a
           | POk args cur3 \<Rightarrow>
               (case ws0 body cur3 of
                  PNg e a \<Rightarrow> PNg e a
                | POk _ cur4 \<Rightarrow>
                    (if cur4 \<noteq> length body then PNg ''end of line'' cur4
                     else POk \<lparr>pb_label = label, pb_op = Some (toUpperCase opr), pb_args = args\<rparr> cur4))))"

definition parseBody :: "string \<Rightarrow> parsed_body parse_result" where
  "parseBody body =
     (case seqP (optionalP parseLabelDecl) ws0 body 0 of
        PNg e a \<Rightarrow> PNg e a
      | POk (label, _) cur \<Rightarrow>
          (if cur \<ge> length body then POk \<lparr>pb_label = label, pb_op = None, pb_args = []\<rparr> cur
           else if label \<noteq> None then parseOperation label body cur
           else
             (case tryParseSdasStyleEqu body cur of
                Some r \<Rightarrow> r
              | None \<Rightarrow>
                  (case dsNoColon (drop cur body) of
                     Some (name, ds) \<Rightarrow>
                       PNg (ds @ '' label must end with ':' (write '' @ name @ '': '' @ ds @ '' ...)'') cur
                   | None \<Rightarrow> parseOperation label body cur))))"

subsection \<open>Lines\<close>

record parsed_line =
  lineNo :: nat
  line_text :: string
  line_label :: "string option"
  line_op :: "string option"
  line_args :: "string list"

datatype parse_error = PseudoInColumn1 nat | ParseError nat nat string

text \<open>\<^verbatim>\<open>text.replace(/\r\n/g, "\n").split("\n")\<close>.\<close>

fun unixLines :: "string \<Rightarrow> string" where
  "unixLines (a # b # cs) =
     (if a = char_of (13 :: nat) \<and> b = char_of (10 :: nat) then b # unixLines cs
      else a # unixLines (b # cs))"
| "unixLines s = s"

fun splitLines :: "string \<Rightarrow> string list" where
  "splitLines [] = [[]]"
| "splitLines (c # cs) =
     (if c = char_of (10 :: nat) then [] # splitLines cs
      else (case splitLines cs of l # ls \<Rightarrow> (c # l) # ls | [] \<Rightarrow> [[c]]))"

definition parseLine :: "nat \<Rightarrow> string \<Rightarrow> parse_error + parsed_line" where
  "parseLine n raw =
     (let stripped = stripLineComment raw; body = trim stripped
      in if body = [] then
           Inr \<lparr>lineNo = n, line_text = raw, line_label = None, line_op = None, line_args = []\<rparr>
         else if hd stripped = CHR ''.'' then Inl (PseudoInColumn1 n)
         else
           (case parseBody body of
              PNg expected a \<Rightarrow> Inl (ParseError n (a + 1) expected)
            | POk b _ \<Rightarrow> Inr \<lparr>lineNo = n, line_text = raw, line_label = pb_label b,
                line_op = pb_op b, line_args = pb_args b\<rparr>))"

fun parseLines :: "nat \<Rightarrow> string list \<Rightarrow> parse_error + parsed_line list" where
  "parseLines n [] = Inr []"
| "parseLines n (raw # rest) =
     (case parseLine n raw of
        Inl e \<Rightarrow> Inl e
      | Inr l \<Rightarrow> (case parseLines (n + 1) rest of Inl e \<Rightarrow> Inl e | Inr ls \<Rightarrow> Inr (l # ls)))"

definition parseSource :: "string \<Rightarrow> parse_error + (nat \<times> string) list \<times> parsed_line list" where
  "parseSource txt =
     (let ls = splitLines (unixLines txt)
      in case parseLines 1 ls of
           Inl e \<Rightarrow> Inl e
         | Inr parsed \<Rightarrow> Inr (zip [1 ..< length ls + 1] ls, parsed))"

end
