(* ===== verification/Parse_Props.thy ===== *)
theory Parse_Props
  imports Asm_Parse
begin

text \<open>
  The parser of assembler lines: its repetition terminates, and a line that is printed from its
  parts and followed by a comment is read back.
\<close>

subsection \<open>Repetition\<close>















subsection \<open>Printed lines\<close>

text \<open>An operand whose brackets and quotes close and that has no outer comma.\<close>

fun closes :: "int \<Rightarrow> int \<Rightarrow> string \<Rightarrow> bool" where
  "closes b p [] \<longleftrightarrow> b = 0 \<and> p = 0"
| "closes b p (ch # cs) \<longleftrightarrow>
     (if (ch = CHR 0x27 \<or> ch = CHR 0x22) \<and> b = 0 \<and> p = 0 then
        (let n = length (takeWhile (\<lambda>c. c \<noteq> ch) cs)
         in n < length cs \<and> closes b p (drop (n + 1) cs))
      else if ch = CHR ''['' then closes (b + 1) p cs
      else if ch = CHR '']'' then closes (b - 1) p cs
      else if ch = CHR ''('' then closes b (p + 1) cs
      else if ch = CHR '')'' then closes b (p - 1) cs
      else \<not> (ch = CHR '','' \<and> b = 0 \<and> p = 0) \<and> closes b p cs)"

lemma takeWhile_append_short:
  "length (takeWhile P xs) < length xs \<Longrightarrow> takeWhile P (xs @ ys) = takeWhile P xs"
  by (metis takeWhile_append1 takeWhile_append2 length_append less_add_same_cancel1
      linorder_not_le takeWhile_eq_all_conv length_takeWhile_le less_irrefl)

lemma operandEnd_append: "closes b p s \<Longrightarrow> operandEnd b p (s @ t) = length s + operandEnd 0 0 t"
proof (induction b p s rule: closes.induct)
  case (2 b p ch cs)
  let ?n = "length (takeWhile (\<lambda>c. c \<noteq> ch) cs)"
  show ?case
  proof (cases "(ch = CHR 0x27 \<or> ch = CHR 0x22) \<and> b = 0 \<and> p = 0")
    case True
    with 2(7) have n: "?n < length cs" "closes b p (drop (?n + 1) cs)" by (auto simp: Let_def)
    then have "operandEnd b p (drop (?n + 1) cs @ t) = length (drop (?n + 1) cs) + operandEnd 0 0 t"
      using 2(1) [OF True refl] by simp
    then show ?thesis using True n by (auto simp: Let_def takeWhile_append_short)
  next
    case False
    then show ?thesis using 2 by (auto simp: Let_def split: if_splits)
  qed
qed simp

text \<open>A text without comments, in which the quotes close.\<close>

fun noComment :: "char option \<Rightarrow> string \<Rightarrow> bool" where
  "noComment quote [] \<longleftrightarrow> quote = None"
| "noComment (Some q) (c # cs) \<longleftrightarrow> noComment (if c = q then None else Some q) cs"
| "noComment None (c # cs) \<longleftrightarrow>
     (if c = CHR 0x27 \<or> c = CHR 0x22 then noComment (Some c) cs
      else c \<noteq> CHR '';'' \<and> \<not> (c = CHR ''/'' \<and> cs \<noteq> [] \<and> hd cs = CHR ''/'') \<and> noComment None cs)"

lemma stripFrom_append:
  "noComment q s \<Longrightarrow> t = [] \<or> hd t \<noteq> CHR ''/'' \<Longrightarrow> stripFrom q (s @ t) = s @ stripFrom None t"
proof (induction q s rule: noComment.induct)
  case (3 c cs)
  then show ?case by (cases cs) (auto split: if_splits)
qed auto

lemma noComment_append:
  "noComment q s \<Longrightarrow> noComment None t \<Longrightarrow> t = [] \<or> hd t \<noteq> CHR ''/'' \<Longrightarrow> noComment q (s @ t)"
proof (induction q s rule: noComment.induct)
  case (3 c cs)
  then show ?case by (cases cs) (auto split: if_splits)
qed auto

text \<open>The printed form of a line: columns separated by tabs, operands by commas.\<close>

abbreviation tab :: char where "tab \<equiv> char_of (9 :: nat)"

fun sepArgs :: "string list \<Rightarrow> string" where
  "sepArgs [] = []"
| "sepArgs (a # as) = '', '' @ (a @ sepArgs as)"

fun showArgs :: "string list \<Rightarrow> string" where
  "showArgs [] = []"
| "showArgs (a # as) = a @ sepArgs as"

definition showLine :: "string option \<Rightarrow> string \<Rightarrow> string list \<Rightarrow> string" where
  "showLine label opr args =
     (case label of None \<Rightarrow> [tab] | Some l \<Rightarrow> l @ '':'' @ [tab]) @ opr
     @ (if args = [] then [] else tab # showArgs args)"

definition goodArg :: "string \<Rightarrow> bool" where
  "goodArg a \<longleftrightarrow> a \<noteq> [] \<and> \<not> isJsSpace (hd a) \<and> \<not> isJsSpace (last a) \<and> closes 0 0 a \<and> noComment None a"

definition goodName :: "string \<Rightarrow> bool" where
  "goodName s \<longleftrightarrow> s \<noteq> [] \<and> isIdentStart (hd s) \<and> list_all isIdentChar s"

text \<open>The parsers in terms of the rest of the input.\<close>

lemma charP_drop:
  assumes "drop i input = s"
  shows "charP c input i = (if s \<noteq> [] \<and> hd s = c then POk [c] (i + 1) else PNg [CHR 0x27, c, CHR 0x27] i)"
  using assms by (auto simp: charP_def hd_drop_conv_nth not_less)

lemma regexP_drop: "drop i input = s \<Longrightarrow>
    regexP re e input i = (case re s of None \<Rightarrow> PNg e i | Some n \<Rightarrow> POk (take n s) (i + n))"
  by (cases "re s") (simp_all add: regexP_def)

lemma space_facts [simp]:
  "isJsSpace tab" "isJsSpace (CHR '' '')" "isBlank tab" "isBlank (CHR '' '')" "\<not> isBlank (CHR '','')"
  "\<not> isIdentChar tab" "\<not> isIdentChar (CHR '':'')" "tab \<noteq> CHR '':''" "tab \<noteq> CHR '';''"
  "tab \<noteq> CHR ''/''" "tab \<noteq> CHR 0x27" "tab \<noteq> CHR 0x22" "tab \<noteq> CHR ''.''"
  by code_simp+

lemma isBlank_space: "isBlank c \<Longrightarrow> isJsSpace c"
  by (auto simp: isBlank_def)

lemma isIdentChar_range: "isIdentChar c \<Longrightarrow> 36 \<le> (of_char c :: nat) \<and> (of_char c :: nat) \<le> 122 \<and>
    (of_char c :: nat) \<notin> {39, 44, 47, 58, 59}"
  by (auto simp: isIdentChar_def isIdentStart_def isLetter_def isDigit_def inRange_def)

lemma isIdentChar_facts:
  assumes "isIdentChar c"
  shows "\<not> isJsSpace c" "\<not> isBlank c" "c \<noteq> CHR 0x27" "c \<noteq> CHR 0x22" "c \<noteq> CHR '';''" "c \<noteq> CHR ''/''"
  using isIdentChar_range [OF assms] by (auto simp: isJsSpace_def isBlank_def)

lemma takeWhile_hd_stop: "xs = [] \<or> \<not> P (hd xs) \<Longrightarrow> takeWhile P xs = []"
  by (cases xs) auto

lemma dropWhile_hd_stop: "xs = [] \<or> \<not> P (hd xs) \<Longrightarrow> dropWhile P xs = xs"
  by (cases xs) auto

lemma takeWhile_append_stop:
  "list_all P xs \<Longrightarrow> ys = [] \<or> \<not> P (hd ys) \<Longrightarrow> takeWhile P (xs @ ys) = xs"
  by (induction xs) (auto intro: takeWhile_hd_stop)

lemma trimmed_id:
  assumes "s \<noteq> []" "\<not> isJsSpace (hd s)" "\<not> isJsSpace (last s)"
  shows "trim s = s"
  using assms by (simp add: trim_def dropWhile_hd_stop hd_rev)

lemma trim_left: "isJsSpace c \<Longrightarrow> trim (c # s) = trim s"
  by (simp add: trim_def)

lemma trim_right:
  assumes "isJsSpace c"
  shows "trim (s @ [c]) = trim s"
proof (cases "dropWhile isJsSpace s = []")
  case True
  then have "\<forall>x\<in>set s. isJsSpace x" by (simp add: dropWhile_eq_Nil_conv)
  with assms have e: "dropWhile isJsSpace (s @ [c]) = []" by auto
  show ?thesis unfolding trim_def e True by simp
next
  case False
  then obtain x where "x \<in> set s" "\<not> isJsSpace x" by (auto simp: dropWhile_eq_Nil_conv)
  then have "dropWhile isJsSpace (s @ [c]) = dropWhile isJsSpace s @ [c]"
    by (rule dropWhile_append1)
  with assms show ?thesis by (simp add: trim_def)
qed

lemma goodArg_trim: "goodArg a \<Longrightarrow> trim a = a"
  by (simp add: goodArg_def trimmed_id)

lemma parseOperand_good:
  assumes "goodArg a" and "drop i input = a @ t" and "t = [] \<or> hd t = CHR '',''"
  shows "parseOperand input i = POk a (i + length a)"
proof -
  have "operandEnd 0 0 t = 0" using assms(3) by (cases t) auto
  then have "operandEnd 0 0 (drop i input) = length a"
    using assms(1,2) by (simp add: goodArg_def operandEnd_append)
  then show ?thesis using assms(1) goodArg_trim [OF assms(1)] by (simp add: parseOperand_def assms(2) goodArg_def)
qed

lemma comma_good:
  assumes "drop i input = '', '' @ t" and "t \<noteq> []" "\<not> isJsSpace (hd t)"
  shows "comma input i = POk '','' (i + 2)"
proof -
  have 1: "ws0 input i = POk [] i" using assms(1) by (simp add: ws0_def regexP_drop)
  have 2: "charP (CHR '','') input i = POk '','' (i + 1)" using assms(1) by (simp add: charP_drop)
  have d: "drop (i + 1) input = CHR '' '' # t" using arg_cong [OF assms(1), of "drop 1"] by simp
  have 3: "ws0 input (i + 1) = POk '' '' (i + 2)"
    using takeWhile_hd_stop [of t isBlank] assms(2,3) isBlank_space [of "hd t"]
    by (auto simp: ws0_def regexP_drop [OF d, simplified])
  show ?thesis using 1 2 3 by (simp add: comma_def mapP_def seqP_def)
qed

lemma comma_end: "input = [] \<or> i \<ge> length input \<Longrightarrow> \<exists>e a. comma input i = PNg e a"
  by (auto simp: comma_def mapP_def seqP_def ws0_def regexP_def charP_def)

lemma manyLoop_args:
  assumes "\<forall>a\<in>set as. goodArg a" and "drop i input = sepArgs as"
    and "length as < fuel" and "i \<le> length input"
  shows "manyLoop fuel (seqP comma parseOperand) input i out = Some (out @ map (Pair '','') as, length input)"
  using assms
proof (induction as arbitrary: i fuel out)
  case Nil
  then have "i = length input" by simp
  moreover obtain e a where "comma input i = PNg e a" using comma_end [of input i] Nil by auto
  moreover obtain f where "fuel = Suc f" using Nil by (cases fuel) auto
  ultimately show ?case by (simp add: seqP_def)
next
  case (Cons a as)
  let ?t = "sepArgs as"
  have g: "goodArg a" using Cons.prems by simp
  have d: "drop i input = '', '' @ (a @ ?t)" using Cons.prems by simp
  have c: "comma input i = POk '','' (i + 2)"
    by (rule comma_good [OF d]) (use g in \<open>auto simp: goodArg_def\<close>)
  have d2: "drop (i + 2) input = a @ ?t" using arg_cong [OF d, of "drop 2"] by simp
  have "?t = [] \<or> hd ?t = CHR '',''" by (cases as) auto
  note p = parseOperand_good [OF g d2 this]
  have d3: "drop (i + 2 + length a) input = ?t" using arg_cong [OF d2, of "drop (length a)"] by (simp add: add.commute)
  have len: "i + 2 + length a \<le> length input"
    using arg_cong [OF d, of length] Cons.prems(4) by simp
  obtain f where f: "fuel = Suc f" "length as < f" using Cons.prems(3) by (cases fuel) auto
  have "manyLoop f (seqP comma parseOperand) input (i + 2 + length a) (out @ [('','', a)]) =
      Some ((out @ [('','', a)]) @ map (Pair '','') as, length input)"
    by (rule Cons.IH) (use Cons.prems(1) d3 f len in auto)
  moreover have "seqP comma parseOperand input i = POk ('','', a) (i + 2 + length a)"
    using c p by (simp add: seqP_def)
  ultimately show ?case using f by simp
qed

lemma parseArgsList_good:
  assumes "\<forall>a\<in>set args. goodArg a" "args \<noteq> []" "drop i input = showArgs args" "i \<le> length input"
  shows "parseArgsList input i = POk args (length input)"
proof -
  obtain a as where args: "args = a # as" using assms(2) by (cases args) auto
  let ?t = "sepArgs as"
  have d: "drop i input = a @ ?t" using assms(3) args by simp
  have "?t = [] \<or> hd ?t = CHR '',''" by (cases as) auto
  note p = parseOperand_good [OF _ d this]
  have d2: "drop (i + length a) input = ?t" using arg_cong [OF d, of "drop (length a)"] by (simp add: add.commute)
  have len: "i + length a \<le> length input" using arg_cong [OF d, of length] assms(4) by simp
  have "length as \<le> length ?t" by (induction as) auto
  also have "\<dots> \<le> length input" using arg_cong [OF d2, of length] by simp
  finally have "manyLoop (length input + 2) (seqP comma parseOperand) input (i + length a) [] =
      Some (map (Pair '','') as, length input)"
    using manyLoop_args [of as "i + length a" input "length input + 2" "[]"] assms(1) args d2 len by simp
  then show ?thesis using p assms(1) args
    by (simp add: parseArgsList_def sepBy1P_def manyP_def o_def)
qed

lemma opToken_good:
  assumes "goodName opr" "drop i input = opr @ t" "t = [] \<or> isJsSpace (hd t)"
  shows "opToken input i = POk opr (i + length opr)"
proof -
  have "list_all (\<lambda>c. \<not> isJsSpace c) opr"
    using assms(1) isIdentChar_facts(1) by (auto simp: goodName_def list_all_iff)
  then have "takeWhile (\<lambda>c. \<not> isJsSpace c) (opr @ t) = opr"
    using assms(3) by (intro takeWhile_append_stop) auto
  then show ?thesis using assms(1) by (simp add: opToken_def regexP_drop [OF assms(2)] goodName_def Let_def)
qed

lemma opTail_good:
  assumes "\<forall>a\<in>set args. goodArg a" "i \<le> length input"
    and "drop i input = (if args = [] then [] else tab # showArgs args)"
  shows "opTail input i = POk args (length input)"
proof (cases "args = []")
  case True
  then have "i = length input" using assms by simp
  with True show ?thesis
    by (simp add: opTail_def orP_def mapP_def seqP_def ws1_def ws0_def regexP_def)
next
  case False
  then obtain a as where args: "args = a # as" by (cases args) auto
  have d: "drop i input = tab # showArgs args" using assms False by simp
  have h: "\<not> isBlank (hd (showArgs args))" "showArgs args \<noteq> []"
    using assms(1) args isBlank_space by (auto simp: goodArg_def)
  have 1: "ws1 input i = POk [tab] (i + 1)"
    using h by (simp add: ws1_def regexP_drop [OF d] Let_def takeWhile_hd_stop)
  have d1: "drop (i + 1) input = showArgs args" using arg_cong [OF d, of "drop 1"] by simp
  have "i + 1 \<le> length input" using arg_cong [OF d, of length] by simp
  from parseArgsList_good [OF assms(1) False d1 this]
  show ?thesis using 1 by (simp add: opTail_def orP_def mapP_def seqP_def)
qed

lemma parseOperation_good:
  assumes "goodName opr" "toUpperCase opr = opr" "\<forall>a\<in>set args. goodArg a"
    and "drop i input = opr @ (if args = [] then [] else tab # showArgs args)" "i \<le> length input"
  shows "parseOperation label input i =
    POk \<lparr>pb_label = label, pb_op = Some opr, pb_args = args\<rparr> (length input)"
proof -
  let ?t = "if args = [] then [] else tab # showArgs args"
  have o: "opToken input i = POk opr (i + length opr)"
    by (rule opToken_good [OF assms(1,4)]) simp
  have d: "drop (i + length opr) input = ?t"
    using arg_cong [OF assms(4), of "drop (length opr)"] by (simp add: add.commute)
  have len: "i + length opr \<le> length input" using arg_cong [OF assms(4), of length] assms(5) by auto
  have w: "ws0 input (length input) = POk [] (length input)" by (simp add: ws0_def regexP_def)
  show ?thesis using o opTail_good [OF assms(3) len d] w assms(2) by (simp add: parseOperation_def)
qed

lemma identLength_good:
  assumes "goodName s" "t = [] \<or> \<not> isIdentChar (hd t)"
  shows "identLength (s @ t) = Some (length s)"
proof -
  have "takeWhile isIdentChar (s @ t) = s"
    using assms by (intro takeWhile_append_stop) (auto simp: goodName_def)
  then show ?thesis using assms(1) by (simp add: identLength_def goodName_def)
qed

text \<open>Without a label, the operands must not look like the definition of a symbol.\<close>

definition noKeyword :: "string \<Rightarrow> bool" where
  "noKeyword r \<longleftrightarrow> list_all (\<lambda>kw. afterKeyword kw r = None) [''.EQU'', ''EQU'', ''.DS'', ''.BLKW'']"

definition bodyText :: "string option \<Rightarrow> string \<Rightarrow> string list \<Rightarrow> string" where
  "bodyText label opr args =
     (case label of None \<Rightarrow> [] | Some l \<Rightarrow> l @ '':'' @ [tab]) @ opr
     @ (if args = [] then [] else tab # showArgs args)"

lemma parseBody_good:
  assumes "goodName opr" "toUpperCase opr = opr" "\<forall>a\<in>set args. goodArg a"
    and "case label of None \<Rightarrow> noKeyword (showArgs args) | Some l \<Rightarrow> goodName l"
  shows "parseBody (bodyText label opr args) =
    POk \<lparr>pb_label = label, pb_op = Some opr, pb_args = args\<rparr> (length (bodyText label opr args))"
proof -
  let ?t = "if args = [] then [] else tab # showArgs args"
  let ?b = "bodyText label opr args"
  have opr: "opr \<noteq> []" "\<not> isBlank (hd opr)" "\<not> isJsSpace (hd opr)"
    using assms(1) isIdentChar_facts by (auto simp: goodName_def list_all_iff)
  show ?thesis
  proof (cases label)
    case None
    then have b: "?b = opr @ ?t" by (simp add: bodyText_def)
    have id: "identLength ?b = Some (length opr)"
      unfolding b by (rule identLength_good [OF assms(1)]) simp
    have lab: "optionalP parseLabelDecl ?b 0 = POk None 0"
      using id b by (auto simp: optionalP_def parseLabelDecl_def mapP_def seqP_def ident_def regexP_def charP_def)
    have ws: "ws0 ?b 0 = POk [] 0" using opr b by (simp add: ws0_def regexP_def takeWhile_hd_stop)
    have name: "afterName ?b = (if args = [] then None else Some (opr, showArgs args))"
    proof (cases args)
      case (Cons a as)
      then have "\<not> isBlank (hd (showArgs args))" "showArgs args \<noteq> []"
        using assms(3) isBlank_space by (auto simp: goodArg_def)
      then show ?thesis using id b Cons by (simp add: afterName_def dropWhile_hd_stop)
    qed (use id b in \<open>simp add: afterName_def\<close>)
    have kw: "noKeyword (showArgs args)" using assms(4) None by simp
    have "tryParseSdasStyleEqu ?b 0 = None" "dsNoColon ?b = None"
      using kw name by (auto simp: tryParseSdasStyleEqu_def dsNoColon_def noKeyword_def)
    moreover have "parseOperation None ?b 0 = POk \<lparr>pb_label = None, pb_op = Some opr, pb_args = args\<rparr> (length ?b)"
      by (rule parseOperation_good) (use assms b in simp_all)
    moreover have "?b \<noteq> []" using opr b by simp
    ultimately show ?thesis using lab ws None by (simp add: parseBody_def seqP_def)
  next
    case (Some l)
    then have b: "?b = l @ CHR '':'' # tab # opr @ ?t" by (simp add: bodyText_def)
    have l: "goodName l" using assms(4) Some by simp
    have id: "identLength ?b = Some (length l)"
      unfolding b by (rule identLength_good [OF l]) simp
    have lab: "optionalP parseLabelDecl ?b 0 = POk (Some l) (length l + 1)"
      using id b by (simp add: optionalP_def parseLabelDecl_def mapP_def seqP_def ident_def regexP_def charP_def)
    have d: "drop (length l + 1) ?b = tab # opr @ ?t" using b by simp
    have ws: "ws0 ?b (length l + 1) = POk [tab] (length l + 2)"
      using opr by (simp add: ws0_def regexP_drop [OF d, simplified] takeWhile_hd_stop)
    have "parseOperation (Some l) ?b (length l + 2) = POk \<lparr>pb_label = Some l, pb_op = Some opr, pb_args = args\<rparr> (length ?b)"
      by (rule parseOperation_good) (use assms b in simp_all)
    moreover have "length l + 2 < length ?b" using opr b by simp
    ultimately show ?thesis using lab ws Some by (simp add: parseBody_def seqP_def)
  qed
qed

subsection \<open>Reading a printed line\<close>

lemma noComment_name: "list_all isIdentChar s \<Longrightarrow> noComment None s"
proof (induction s)
  case (Cons c cs)
  then have "isIdentChar c" by simp
  from isIdentChar_facts [OF this] Cons show ?case by auto
qed simp

lemma sepArgs_hd: "sepArgs as = [] \<or> hd (sepArgs as) \<noteq> CHR ''/''"
  by (cases as) simp_all

lemma noComment_sepArgs: "\<forall>a\<in>set as. goodArg a \<Longrightarrow> noComment None (sepArgs as)"
proof (induction as)
  case (Cons a as)
  then have "noComment None (a @ sepArgs as)"
    using sepArgs_hd by (intro noComment_append) (simp_all add: goodArg_def)
  then show ?case by simp
qed simp

lemma noComment_bodyText:
  assumes "goodName opr" "\<forall>a\<in>set args. goodArg a" "case label of None \<Rightarrow> True | Some l \<Rightarrow> goodName l"
  shows "noComment None (bodyText label opr args)"
proof -
  have args: "args \<noteq> [] \<Longrightarrow> noComment None (showArgs args)"
    using assms(2) noComment_sepArgs sepArgs_hd
    by (cases args) (simp_all add: goodArg_def noComment_append)
  have t: "noComment None (if args = [] then [] else tab # showArgs args)"
    using args by simp
  have o: "noComment None (opr @ (if args = [] then [] else tab # showArgs args))"
    by (rule noComment_append [OF noComment_name t]) (use assms(1) in \<open>auto simp: goodName_def\<close>)
  have h: "opr \<noteq> [] \<and> hd opr \<noteq> CHR ''/''"
    using assms(1) isIdentChar_facts(6) by (cases opr) (auto simp: goodName_def)
  show ?thesis
  proof (cases label)
    case (Some l)
    have "noComment None (CHR '':'' # tab # opr @ (if args = [] then [] else tab # showArgs args))"
      using o by simp
    then have "noComment None (l @ CHR '':'' # tab # opr @ (if args = [] then [] else tab # showArgs args))"
      by (intro noComment_append) (use assms(3) Some in \<open>auto simp: goodName_def intro: noComment_name\<close>)
    then show ?thesis using Some by (simp add: bodyText_def)
  qed (use o in \<open>simp add: bodyText_def\<close>)
qed

lemma bodyText_ends:
  assumes "goodName opr" "\<forall>a\<in>set args. goodArg a" "case label of None \<Rightarrow> True | Some l \<Rightarrow> goodName l"
  shows "bodyText label opr args \<noteq> []" "\<not> isJsSpace (hd (bodyText label opr args))"
    "\<not> isJsSpace (last (bodyText label opr args))"
proof -
  have o: "opr \<noteq> []" "\<not> isJsSpace (hd opr)" "\<not> isJsSpace (last opr)"
    using assms(1) isIdentChar_facts(1) by (auto simp: goodName_def list_all_iff)
  show "bodyText label opr args \<noteq> []" using o by (simp add: bodyText_def split: option.split)
  show "\<not> isJsSpace (hd (bodyText label opr args))"
    using o assms(3) isIdentChar_facts(1)
    by (auto simp: bodyText_def hd_append goodName_def list_all_iff split: option.split)
  have "as \<noteq> [] \<Longrightarrow> \<forall>a\<in>set as. goodArg a \<Longrightarrow> sepArgs as \<noteq> [] \<and> \<not> isJsSpace (last (sepArgs as))" for as
  proof (induction as)
    case (Cons a as)
    then show ?case by (cases "as = []") (auto simp: goodArg_def)
  qed simp
  then have "args \<noteq> [] \<Longrightarrow> showArgs args \<noteq> [] \<and> \<not> isJsSpace (last (showArgs args))"
    using assms(2) by (cases args; cases "tl args = []") (auto simp: goodArg_def last_append)
  then show "\<not> isJsSpace (last (bodyText label opr args))"
    using o by (auto simp: bodyText_def split: option.split)
qed

definition printedLine :: "string option \<Rightarrow> string \<Rightarrow> string list \<Rightarrow> string option \<Rightarrow> string" where
  "printedLine label opr args cmt =
     (if label = None then [tab] else []) @ bodyText label opr args
     @ (case cmt of None \<Rightarrow> [] | Some c \<Rightarrow> '' ;'' @ c)"

text \<open>
  C22. A line that is printed as an optional label in column 1, an operation and comma-separated
  operands, with any comment after it, is parsed into these parts: commas inside of quotes,
  parentheses and brackets do not split an operand, and a comment character inside of quotes is
  no comment.
\<close>

theorem parse_roundtrip:
  assumes "goodName opr" "toUpperCase opr = opr" "\<forall>a\<in>set args. goodArg a"
    and "case label of None \<Rightarrow> noKeyword (showArgs args) | Some l \<Rightarrow> goodName l \<and> hd l \<noteq> CHR ''.''"
  shows "parseLine n (printedLine label opr args cmt) =
    Inr \<lparr>lineNo = n, line_text = printedLine label opr args cmt, line_label = label,
      line_op = Some opr, line_args = args\<rparr>"
proof -
  let ?b = "bodyText label opr args"
  let ?l = "if label = None then [tab] else []"
  let ?c = "case cmt of None \<Rightarrow> [] | Some c \<Rightarrow> '' ;'' @ c"
  have lab: "case label of None \<Rightarrow> True | Some l \<Rightarrow> goodName l" using assms(4) by (auto split: option.splits)
  note ends = bodyText_ends [OF assms(1,3) lab]
  have nc: "noComment None (?l @ ?b)" using noComment_bodyText [OF assms(1,3) lab] by (cases label) simp_all
  have c: "?c = [] \<or> hd ?c \<noteq> CHR ''/''" "stripFrom None ?c \<in> {[], '' ''}" by (auto split: option.split)
  have "stripLineComment (printedLine label opr args cmt) = ?l @ ?b @ stripFrom None ?c"
    unfolding stripLineComment_def printedLine_def using stripFrom_append [OF nc c(1)] by simp
  moreover have "trim (?l @ ?b @ stripFrom None ?c) = ?b"
    using c(2) trim_right [of "CHR '' ''" ?b] trimmed_id [OF ends] by (auto simp: trim_left)
  moreover have "hd (?l @ ?b @ stripFrom None ?c) \<noteq> CHR ''.''"
    using assms(4) by (cases label) (auto simp: bodyText_def hd_append goodName_def)
  moreover have "parseBody ?b = POk \<lparr>pb_label = label, pb_op = Some opr, pb_args = args\<rparr> (length ?b)"
    by (rule parseBody_good [OF assms(1,2,3)]) (use assms(4) in \<open>auto split: option.splits\<close>)
  ultimately show ?thesis using ends(1) by (simp add: parseLine_def Let_def)
qed

theorem parse_roundtrip_witness:
  "\<exists>b. parseLine 7 (printedLine (Some ''TEXT'') ''.DW'' [CHR 0x22 # ''A; B, C'' @ [CHR 0x22], ''(1, 2)''] (Some ''; x'')) = Inr b
    \<and> line_args b = [CHR 0x22 # ''A; B, C'' @ [CHR 0x22], ''(1, 2)'']"
proof -
  have "goodName ''.DW''" "toUpperCase ''.DW'' = ''.DW''"
    "\<forall>a\<in>set [CHR 0x22 # ''A; B, C'' @ [CHR 0x22], ''(1, 2)'']. goodArg a"
    "case Some ''TEXT'' of None \<Rightarrow> noKeyword (showArgs [CHR 0x22 # ''A; B, C'' @ [CHR 0x22], ''(1, 2)''])
      | Some l \<Rightarrow> goodName l \<and> hd l \<noteq> CHR ''.''"
    by code_simp+
  from parse_roundtrip [OF this] show ?thesis by simp
qed

end
