(* ===== verification/Asm_Reloc.thy ===== *)
theory Asm_Reloc
  imports Asm_Encoder "HOL-Library.List_Lexorder" "HOL-Library.Char_ord"
begin

text \<open>
  Symbols and relocations of the assembler: the operand forms of \<^verbatim>\<open>expression.ts\<close> that name an
  address, and the order of areas, \<^verbatim>\<open>areaOrder.ts\<close>.
\<close>

subsection \<open>Areas\<close>

definition AREA_LINK_ORDER :: "string list" where
  "AREA_LINK_ORDER = [''_VECTOR'', ''_SYS_PAGE0'', ''_USR_PAGE0'', ''_BIOS'', ''_CODE'', ''_DATA'', ''_WORK'']"

definition SYS_PAGE0_WORD_BASE :: int where "SYS_PAGE0_WORD_BASE = 0x0008"
definition USR_PAGE0_WORD_BASE :: int where "USR_PAGE0_WORD_BASE = 0x0040"
definition A3_OVR :: int where "A3_OVR = 0x04"

definition canonicalAreaName :: "string \<Rightarrow> string" where
  "canonicalAreaName name = (let u = toUpperCase (trim name) in if u = [] then ''_CODE'' else u)"

definition page0WordBase :: "string \<Rightarrow> int option" where
  "page0WordBase name =
     (let n = canonicalAreaName name
      in if n = ''_SYS_PAGE0'' then Some SYS_PAGE0_WORD_BASE
         else if n = ''_USR_PAGE0'' then Some USR_PAGE0_WORD_BASE else None)"

definition SDLD_AREA_BASES :: "(string \<times> int) list" where
  "SDLD_AREA_BASES = [(''_SYS_PAGE0'', SYS_PAGE0_WORD_BASE * 2), (''_USR_PAGE0'', USR_PAGE0_WORD_BASE * 2),
     (''_VECTOR'', 0), (''_BIOS'', 0), (''_CODE'', 0)]"

definition asxxxxAreaFlags :: "string \<Rightarrow> bool \<Rightarrow> int" where
  "asxxxxAreaFlags name noload = (if canonicalAreaName name = ''_VECTOR'' then A3_OVR else 0)"

text \<open>\<^verbatim>\<open>sort\<close> compares strings by their character codes.\<close>

definition orderLinkAreaNames :: "string list \<Rightarrow> string list" where
  "orderLinkAreaNames names =
     (let s = filter (\<lambda>n. n \<noteq> []) (map canonicalAreaName names)
      in filter (\<lambda>n. n \<in> set s) AREA_LINK_ORDER
         @ sort (remdups (filter (\<lambda>n. n \<notin> set AREA_LINK_ORDER) s)))"

subsection \<open>Symbols\<close>

datatype symbol_kind = SymLocal | SymGlobal | SymExternal

record symbol_info =
  si_value :: int
  si_kind :: symbol_kind
  si_area :: "string option"

type_synonym symbol_infos = "string \<rightharpoonup> symbol_info"

text \<open>A symbol that the linker resolves, a word in an area, or a constant.\<close>

datatype reloc_operand = RelSymbol string | RelWord u16 "string option" | RelConst int

definition upperArea :: "string option \<Rightarrow> string option" where
  "upperArea a = (case a of None \<Rightarrow> None | Some n \<Rightarrow> if n = [] then None else Some (toUpperCase (trim n)))"

definition toRelocOperand :: "string \<Rightarrow> symbol_infos \<Rightarrow> reloc_operand option" where
  "toRelocOperand name infos =
     (case infos name of
        None \<Rightarrow> None
      | Some info \<Rightarrow>
          (if si_kind info = SymExternal then Some (RelSymbol name)
           else Some (RelWord (word_of_int (si_value info)) (upperArea (si_area info)))))"

text \<open>\<^verbatim>\<open>/^[A-Za-z_.$][A-Za-z0-9_.$]*$/\<close>.\<close>

definition isIdentifier :: "string \<Rightarrow> bool" where
  "isIdentifier t \<longleftrightarrow> t \<noteq> [] \<and> isIdentStart (hd t) \<and> list_all isIdentChar t"

definition bracketed :: "char \<Rightarrow> char \<Rightarrow> string \<Rightarrow> bool" where
  "bracketed l r t \<longleftrightarrow> startsWith l t \<and> endsWith r t"

text \<open>\<^verbatim>\<open>slice(1, -1)\<close> of a string of one character is empty.\<close>

definition parseSimpleSymbolOperand :: "string \<Rightarrow> string option" where
  "parseSimpleSymbolOperand e =
     (let t0 = trim e;
          t1 = (if startsWith (CHR ''#'') t0 then trim (tl t0) else t0);
          t2 = (if startsWith (CHR 0x40) t1 then trim (tl t1) else t1);
          t3 = (if bracketed (CHR ''('') (CHR '')'') t2 \<or> bracketed (CHR ''['') (CHR '']'') t2
                then trim (butlast (tl t2)) else t2)
      in if isIdentifier t3 then Some (toUpperCase t3) else None)"

definition matchExternalAbsReloc :: "string \<Rightarrow> symbol_infos \<Rightarrow> string option" where
  "matchExternalAbsReloc e infos =
     (case parseSimpleSymbolOperand e of
        None \<Rightarrow> None
      | Some name \<Rightarrow>
          (case infos name of
             None \<Rightarrow> None
           | Some info \<Rightarrow> if si_kind info = SymExternal then Some name else None))"

text \<open>The left operand of a relocation against a symbol; its right operand is the constant 0.\<close>

definition relocIn :: "string list \<Rightarrow> string \<Rightarrow> symbol_infos \<Rightarrow> reloc_operand option" where
  "relocIn areas name infos =
     (case infos name of
        None \<Rightarrow> None
      | Some info \<Rightarrow>
          (if si_kind info = SymExternal \<or> si_kind info = SymGlobal then Some (RelSymbol name)
           else
             (let area = (case upperArea (si_area info) of None \<Rightarrow> [] | Some a \<Rightarrow> a)
              in if area \<notin> set areas then None
                 else Some (RelWord (word_of_int (si_value info)) (Some area)))))"

definition matchAbsAddrReloc :: "string \<Rightarrow> symbol_infos \<Rightarrow> (reloc_operand \<times> reloc_operand) option" where
  "matchAbsAddrReloc e infos =
     (case parseSimpleSymbolOperand e of
        None \<Rightarrow> None
      | Some name \<Rightarrow>
          map_option (\<lambda>l. (l, RelConst 0))
            (relocIn [''_CODE'', ''_DATA'', ''_WORK'', ''_SYS_PAGE0'', ''_USR_PAGE0''] name infos))"

text \<open>\<^verbatim>\<open>*SYM\<close>, \<^verbatim>\<open>(*SYM)\<close> and \<^verbatim>\<open>[*SYM]\<close>: the text after the star.\<close>

definition starName :: "string \<Rightarrow> string option" where
  "starName t =
     (if startsWith (CHR ''*'') t then Some (trim (tl t))
      else if t \<noteq> [] \<and> (hd t = CHR ''['' \<or> hd t = CHR ''('') \<and> tl t \<noteq> [] \<and> (last t = CHR '']'' \<or> last t = CHR '')'') then
        (let inner = trim (butlast (tl t))
         in if startsWith (CHR ''*'') inner \<and> isIdentifier (trim (tl inner)) then Some (trim (tl inner))
            else None)
      else None)"

definition matchPage0StarReloc :: "string \<Rightarrow> symbol_infos \<Rightarrow> (reloc_operand \<times> reloc_operand) option" where
  "matchPage0StarReloc e infos =
     (case starName (trim e) of
        None \<Rightarrow> None
      | Some raw \<Rightarrow>
          (case parseSimpleSymbolOperand raw of
             None \<Rightarrow> None
           | Some name \<Rightarrow>
               map_option (\<lambda>l. (l, RelConst 0)) (relocIn [''_SYS_PAGE0'', ''_USR_PAGE0''] name infos)))"

text \<open>Two identifiers with a minus sign between them.\<close>

definition splitDiff :: "string \<Rightarrow> (string \<times> string) option" where
  "splitDiff e =
     (let t = trim e; l = takeWhile isIdentChar t; r1 = dropWhile isJsSpace (dropWhile isIdentChar t)
      in if isIdentifier l \<and> r1 \<noteq> [] \<and> hd r1 = CHR ''-'' then
           (let r = dropWhile isJsSpace (tl r1) in if isIdentifier r then Some (l, r) else None)
         else None)"

definition isRelWord :: "reloc_operand \<Rightarrow> bool" where
  "isRelWord r = (case r of RelWord _ _ \<Rightarrow> True | _ \<Rightarrow> False)"

definition matchWordDiffReloc :: "string \<Rightarrow> symbol_infos \<Rightarrow> (reloc_operand \<times> reloc_operand) option" where
  "matchWordDiffReloc e infos =
     (case splitDiff e of
        None \<Rightarrow> None
      | Some (l, r) \<Rightarrow>
          (case (toRelocOperand (toUpperCase l) infos, toRelocOperand (toUpperCase r) infos) of
             (Some a, Some b) \<Rightarrow> (if isRelWord a \<and> isRelWord b then None else Some (a, b))
           | _ \<Rightarrow> None))"

definition matchExternalWordDiff :: "string \<Rightarrow> symbol_infos \<Rightarrow> (string \<times> string) option" where
  "matchExternalWordDiff e infos =
     (case matchWordDiffReloc e infos of
        Some (RelSymbol a, RelSymbol b) \<Rightarrow> Some (a, b)
      | _ \<Rightarrow> None)"

subsection \<open>Strings\<close>

definition asciiCodesFromStringArg :: "string \<Rightarrow> asm_error + nat list option" where
  "asciiCodesFromStringArg arg =
     (let t = trim arg
      in if length t < 2 \<or> hd t \<noteq> CHR 0x22 \<or> last t \<noteq> CHR 0x22 then Inr None
         else
           (let body = butlast (tl t)
            in if CHR 0x22 \<in> set body then Inl BadStringLiteral
               else Inr (Some (map of_char body))))"

end
