(* ===== verification/Asm_Passes.thy ===== *)
theory Asm_Passes
  imports Asm_Parse Asm_Reloc Tms_Encoder "HOL-Library.AList"
begin

text \<open>
  The two passes of the assembler, \<^verbatim>\<open>retrocpu_asm_ts/src/main/assembler.ts\<close>, with
  \<^verbatim>\<open>cpuType.ts\<close>.  Errors are values of \<open>pass_error\<close>, one constructor for each \<^verbatim>\<open>throw\<close>; an error
  of the expression evaluator or of an encoder is passed on, with the line number where the
  code adds it.  The tables of areas keep the order in which areas first appear, as \<^verbatim>\<open>Map\<close> does.
\<close>

subsection \<open>Errors\<close>

datatype pass_error =
    Raised asm_error
  | AtLine nat asm_error
  | AreaNeedsName nat
  | UnknownAreaFlag nat string
  | OneArgument nat string
  | NegativeCount nat
  | DuplicateSymbol nat string
  | EquNeedsName nat
  | EquOneExpression nat
  | InitialValues nat string
  | NoloadCode nat string
  | ExternalDiff nat string
  | ExternalExpression nat string
  | SourceError parse_error
  | CpuNotFirst nat
  | CpuDuplicate nat
  | CpuNeedsName nat
  | CpuUnknown nat string
  | CpuUnspecified
  | BadCheckpointName nat string
  | OpenCheckpoints "string list"
  | CheckpointWithoutAddress string nat

definition bindP :: "'e + 'a \<Rightarrow> ('a \<Rightarrow> 'e + 'b) \<Rightarrow> 'e + 'b" where
  "bindP m f = (case m of Inl e \<Rightarrow> Inl e | Inr v \<Rightarrow> f v)"

lemma bindP_simps [simp]: "bindP (Inl e) f = Inl e" "bindP (Inr v) f = f v"
  by (simp_all add: bindP_def)

lemma bindP_Inr: "bindP m f = Inr r \<longleftrightarrow> (\<exists>v. m = Inr v \<and> f v = Inr r)"
  by (cases m) auto

definition raised :: "asm_error + 'a \<Rightarrow> pass_error + 'a" where
  "raised m = (case m of Inl e \<Rightarrow> Inl (Raised e) | Inr v \<Rightarrow> Inr v)"

definition atLine :: "nat \<Rightarrow> asm_error + 'a \<Rightarrow> pass_error + 'a" where
  "atLine n m = (case m of Inl e \<Rightarrow> Inl (AtLine n e) | Inr v \<Rightarrow> Inr v)"

lemma raised_Inr [simp]: "raised m = Inr v \<longleftrightarrow> m = Inr v" "atLine n m = Inr v \<longleftrightarrow> m = Inr v"
  by (cases m; simp add: raised_def atLine_def)+

text \<open>A loop with a state that an error ends.\<close>

fun foldE :: "('x \<Rightarrow> 's \<Rightarrow> 'e + 's) \<Rightarrow> 'x list \<Rightarrow> 's \<Rightarrow> 'e + 's" where
  "foldE f [] s = Inr s"
| "foldE f (x # xs) s = bindP (f x s) (foldE f xs)"

fun mapE :: "('x \<Rightarrow> 'e + 'y) \<Rightarrow> 'x list \<Rightarrow> 'e + 'y list" where
  "mapE f [] = Inr []"
| "mapE f (x # xs) = bindP (f x) (\<lambda>y. bindP (mapE f xs) (\<lambda>ys. Inr (y # ys)))"

subsection \<open>The processor\<close>

datatype cpu_type = CpuMn1613 | CpuTms9995

definition parseCpuType :: "string option \<Rightarrow> cpu_type option" where
  "parseCpuType value =
     (case value of
        None \<Rightarrow> None
      | Some s \<Rightarrow>
          (let v = toUpperCase (trim s)
           in if v = ''MN1613'' then Some CpuMn1613
              else if v = ''TMS9995'' then Some CpuTms9995 else None))"

definition lineBody :: "string \<Rightarrow> string" where
  "lineBody line = trim (stripLineComment line)"

text \<open>
  \<^verbatim>\<open>/^\.cpu(?:\s+(\S+))?$/i\<close> on a trimmed line: nothing, or the word after \<^verbatim>\<open>.cpu\<close>.
\<close>

definition cpuDirective :: "string \<Rightarrow> string option option" where
  "cpuDirective body =
     (case afterKeyword ''.CPU'' body of
        None \<Rightarrow> None
      | Some r \<Rightarrow>
          (if r = [] then Some None
           else
             (let w = dropWhile isJsSpace r
              in if isJsSpace (hd r) \<and> w \<noteq> [] \<and> list_all (\<lambda>c. \<not> isJsSpace c) w then Some (Some w)
                 else None)))"

fun scanCpuLines :: "nat \<Rightarrow> bool \<Rightarrow> cpu_type option \<Rightarrow> string list \<Rightarrow> pass_error + cpu_type option" where
  "scanCpuLines n seenContent found [] = Inr found"
| "scanCpuLines n seenContent found (l # ls) =
     (let body = lineBody l
      in if body = [] then scanCpuLines (n + 1) seenContent found ls
         else
           (case cpuDirective body of
              None \<Rightarrow> scanCpuLines (n + 1) True found ls
            | Some raw \<Rightarrow>
                (if seenContent then Inl (CpuNotFirst n)
                 else if found \<noteq> None then Inl (CpuDuplicate n)
                 else
                   (case raw of
                      None \<Rightarrow> Inl (CpuNeedsName n)
                    | Some w \<Rightarrow>
                        (case parseCpuType (Some w) of
                           None \<Rightarrow> Inl (CpuUnknown n w)
                         | Some c \<Rightarrow> scanCpuLines (n + 1) True (Some c) ls)))))"

definition scanSourceCpu :: "string \<Rightarrow> pass_error + cpu_type option" where
  "scanSourceCpu src = scanCpuLines 1 False None (splitLines (unixLines src))"

definition resolveCpuType :: "cpu_type option \<Rightarrow> string \<Rightarrow> pass_error + cpu_type" where
  "resolveCpuType explicit src =
     bindP (scanSourceCpu src) (\<lambda>fromSource.
       case explicit of
         Some c \<Rightarrow> Inr c
       | None \<Rightarrow> (case fromSource of Some c \<Rightarrow> Inr c | None \<Rightarrow> Inl CpuUnspecified))"

subsection \<open>Areas\<close>

record area_loc =
  al_pc :: u16
  al_noload :: bool

record area_ctx =
  ac_current :: string
  ac_areas :: "(string \<times> area_loc) list"

definition createAreaContext :: area_ctx where
  "createAreaContext = \<lparr>ac_current = [], ac_areas = [([], \<lparr>al_pc = 0, al_noload = False\<rparr>)]\<rparr>"

definition currentLoc :: "area_ctx \<Rightarrow> area_loc" where
  "currentLoc c = the (map_of (ac_areas c) (ac_current c))"

definition areaPc :: "area_ctx \<Rightarrow> u16" where "areaPc c = al_pc (currentLoc c)"
definition areaNoload :: "area_ctx \<Rightarrow> bool" where "areaNoload c = al_noload (currentLoc c)"

text \<open>\<^verbatim>\<open>pc & 0xffff\<close>.\<close>

definition setAreaPc :: "int \<Rightarrow> area_ctx \<Rightarrow> area_ctx" where
  "setAreaPc pc c = c\<lparr>ac_areas :=
     AList.update (ac_current c) ((currentLoc c)\<lparr>al_pc := word_of_int pc\<rparr>) (ac_areas c)\<rparr>"

definition switchArea :: "string \<Rightarrow> bool \<Rightarrow> area_ctx \<Rightarrow> area_ctx" where
  "switchArea name noload c =
     (let key = toUpperCase name;
          loc = (case map_of (ac_areas c) key of
                   None \<Rightarrow> \<lparr>al_pc = 0, al_noload = noload\<rparr>
                 | Some l \<Rightarrow> if noload then l\<lparr>al_noload := True\<rparr> else l)
      in \<lparr>ac_current = key, ac_areas = AList.update key loc (ac_areas c)\<rparr>)"

definition AREA_FLAGS :: "string list" where
  "AREA_FLAGS = [''REL'', ''ABS'', ''CON'', ''OVR'', ''PAG'', ''NOPAG'', ''NOLOAD'', ''CODE'',
     ''DATA'', ''XDATA'', ''BIT'']"

text \<open>\<^verbatim>\<open>split\<close> at characters of a class, without the empty parts.\<close>

function fieldsOf :: "(char \<Rightarrow> bool) \<Rightarrow> string \<Rightarrow> string list" where
  "fieldsOf sep [] = []"
| "fieldsOf sep (c # cs) =
     (if sep c then fieldsOf sep cs
      else (c # takeWhile (\<lambda>x. \<not> sep x) cs) # fieldsOf sep (dropWhile (\<lambda>x. \<not> sep x) cs))"
  by pat_completeness auto
termination
  by (relation "measure (length \<circ> snd)") (auto intro: le_imp_less_Suc length_dropWhile_le)

declare fieldsOf.simps [simp del]

fun joinBlank :: "string list \<Rightarrow> string" where
  "joinBlank [] = []"
| "joinBlank [a] = a"
| "joinBlank (a # as) = a @ '' '' @ joinBlank as"

definition parseAreaDirective :: "string list \<Rightarrow> nat \<Rightarrow> pass_error + string \<times> bool" where
  "parseAreaDirective args n =
     (if args = [] \<or> trim (hd args) = [] then Inl (AreaNeedsName n)
      else
        (let joined = trim (joinBlank args);
             name = trim (takeWhile (\<lambda>c. c \<noteq> CHR ''('') joined);
             flagText = dropWhile (\<lambda>c. c \<noteq> CHR ''('') joined;
             flags = map toUpperCase (fieldsOf (\<lambda>c. isJsSpace c \<or> c = CHR '','' \<or> c = CHR ''('' \<or> c = CHR '')'') flagText)
         in if name = [] then Inl (AreaNeedsName n)
            else
              (case find (\<lambda>f. f \<notin> set AREA_FLAGS) flags of
                 Some f \<Rightarrow> Inl (UnknownAreaFlag n f)
               | None \<Rightarrow> Inr (name, toUpperCase name = ''_WORK'' \<or> ''NOLOAD'' \<in> set flags))))"

subsection \<open>Sizes\<close>

definition storageSize :: "string \<Rightarrow> int \<Rightarrow> cpu_type \<Rightarrow> int" where
  "storageSize opr count cpu = (if cpu = CpuTms9995 \<and> opr = ''.BLKW'' then count * 2 else count)"

text \<open>The operation of a line in upper case; it is there.\<close>

definition opOf :: "parsed_line \<Rightarrow> string" where
  "opOf line = (case line_op line of None \<Rightarrow> [] | Some opr \<Rightarrow> toUpperCase opr)"

definition evalStorageReserve ::
  "parsed_line \<Rightarrow> symbol_table \<Rightarrow> bool \<Rightarrow> cpu_type \<Rightarrow> pass_error + u16" where
  "evalStorageReserve line symbols pass1 cpu =
     (if length (line_args line) \<noteq> 1 then Inl (OneArgument (lineNo line) (opOf line))
      else bindP (raised (evalArg symbols pass1 (line_args line ! 0))) (\<lambda>count.
        if count < 0 then Inl (NegativeCount (lineNo line))
        else Inr (word_of_int (storageSize (opOf line) count cpu))))"

definition expandWordDirectiveArgs :: "string list \<Rightarrow> nat \<Rightarrow> pass_error + string list" where
  "expandWordDirectiveArgs args n =
     bindP (mapE (\<lambda>arg. bindP (atLine n (asciiCodesFromStringArg arg))
         (\<lambda>codes. Inr (case codes of Some cs \<Rightarrow> map decimal cs | None \<Rightarrow> [arg]))) args)
       (\<lambda>parts. Inr (concat parts))"

definition isWordDirective :: "string \<Rightarrow> bool" where
  "isWordDirective opr \<longleftrightarrow> opr = ''.WORD'' \<or> opr = ''.DW'' \<or> opr = ''DW''"

definition directiveSize :: "parsed_line \<Rightarrow> cpu_type \<Rightarrow> pass_error + int" where
  "directiveSize line cpu =
     (if line_op line = None then Inr 0
      else if isWordDirective (opOf line) then
        bindP (expandWordDirectiveArgs (line_args line) (lineNo line)) (\<lambda>ws.
          Inr (if cpu = CpuTms9995 then int (length ws) * 2 else int (length ws)))
      else Inr 0)"

definition isDirective :: "string \<Rightarrow> bool" where
  "isDirective opr \<longleftrightarrow> startsWith (CHR ''.'') (toUpperCase opr) \<or> toUpperCase opr = ''DW''"

subsection \<open>Lengths of strings\<close>

fun wordDirectiveStringLen :: "nat \<Rightarrow> string list \<Rightarrow> asm_error + nat option" where
  "wordDirectiveStringLen n [] = Inr (Some n)"
| "wordDirectiveStringLen n (arg # args) =
     bindE (asciiCodesFromStringArg arg) (\<lambda>codes.
       case codes of None \<Rightarrow> Inr None | Some cs \<Rightarrow> wordDirectiveStringLen (n + length cs) args)"

text \<open>\<^verbatim>\<open>assign\<close>: the length is recorded for the names; no arguments count as no string.\<close>

definition assignLens ::
  "string list \<Rightarrow> string list \<Rightarrow> (string \<rightharpoonup> nat) \<Rightarrow> pass_error + (string \<rightharpoonup> nat)" where
  "assignLens names args lens =
     (if args = [] then Inr lens
      else bindP (raised (wordDirectiveStringLen 0 args)) (\<lambda>n.
        Inr (case n of None \<Rightarrow> lens
             | Some k \<Rightarrow> foldl (\<lambda>m name. m(toUpperCase name \<mapsto> k)) lens names)))"

definition stringLenStep ::
  "parsed_line \<Rightarrow> (string \<rightharpoonup> nat) \<times> string list \<Rightarrow> pass_error + (string \<rightharpoonup> nat) \<times> string list" where
  "stringLenStep line st =
     (case st of (lens, pending) \<Rightarrow>
        (case line_label line of
           Some l \<Rightarrow>
             (if line_op line = None then Inr (lens, pending @ [l])
              else if isWordDirective (opOf line) then
                bindP (assignLens (pending @ [l]) (line_args line) lens) (\<lambda>m. Inr (m, []))
              else Inr (lens, []))
         | None \<Rightarrow>
             (if line_op line = None then Inr (lens, pending)
              else if isWordDirective (opOf line) \<and> pending \<noteq> [] then
                bindP (assignLens pending (line_args line) lens) (\<lambda>m. Inr (m, []))
              else Inr (lens, []))))"

definition collectStringLens :: "parsed_line list \<Rightarrow> pass_error + (string \<rightharpoonup> nat)" where
  "collectStringLens ls = bindP (foldE stringLenStep ls (Map.empty, [])) (\<lambda>st. Inr (fst st))"

definition applyLenCalls ::
  "(string \<rightharpoonup> nat) \<Rightarrow> string set \<Rightarrow> parsed_line list \<Rightarrow> pass_error + parsed_line list" where
  "applyLenCalls lens globl =
     mapE (\<lambda>line. bindP (atLine (lineNo line) (mapE (substLenCalls lens globl None) (line_args line)))
       (\<lambda>as. Inr (line\<lparr>line_args := as\<rparr>)))"

subsection \<open>The first pass\<close>

record pass1_state =
  p1_symbols :: symbol_table
  p1_symbolAreas :: "string \<rightharpoonup> string"
  p1_lineAreas :: "nat \<rightharpoonup> string"
  p1_areas :: area_ctx

definition initialPass1 :: pass1_state where
  "initialPass1 = \<lparr>p1_symbols = Map.empty, p1_symbolAreas = Map.empty, p1_lineAreas = Map.empty,
     p1_areas = createAreaContext\<rparr>"

definition defineLabel :: "symbol_table \<Rightarrow> string \<Rightarrow> int \<Rightarrow> nat \<Rightarrow> pass_error + symbol_table" where
  "defineLabel tab0 label v n =
     (let key = toUpperCase label
      in if tab0 key \<noteq> None then Inl (DuplicateSymbol n label) else Inr (tab0(key \<mapsto> v)))"

text \<open>A label in the current area.\<close>

definition placeLabel :: "string \<Rightarrow> nat \<Rightarrow> pass1_state \<Rightarrow> pass_error + pass1_state" where
  "placeLabel label n s =
     bindP (defineLabel (p1_symbols s) label (uint (areaPc (p1_areas s))) n) (\<lambda>tab0.
       Inr (s\<lparr>p1_symbols := tab0,
         p1_symbolAreas := (p1_symbolAreas s)(toUpperCase label \<mapsto>
           canonicalAreaName (ac_current (p1_areas s)))\<rparr>))"

definition isEqu :: "string \<Rightarrow> bool" where "isEqu opr \<longleftrightarrow> opr = ''.EQU'' \<or> opr = ''EQU''"

definition pass1Equ :: "parsed_line \<Rightarrow> pass1_state \<Rightarrow> pass_error + pass1_state" where
  "pass1Equ line s =
     (let args = line_args line; tab0 = p1_symbols s
      in case line_label line of
           None \<Rightarrow>
             (if length args < 2 then Inl (EquNeedsName (lineNo line))
              else bindP (raised (evalArg tab0 True (args ! 1))) (\<lambda>v.
                Inr (s\<lparr>p1_symbols := tab0(toUpperCase (args ! 0) \<mapsto> v)\<rparr>)))
         | Some l \<Rightarrow>
             (if length args \<noteq> 1 then Inl (EquOneExpression (lineNo line))
              else bindP (raised (evalArg tab0 True (args ! 0))) (\<lambda>v.
                Inr (s\<lparr>p1_symbols := tab0(toUpperCase l \<mapsto> v)\<rparr>))))"

text \<open>The size of an instruction: bytes for the TMS9995, words for the MN1613.\<close>

definition lineSize :: "cpu_type \<Rightarrow> parsed_line \<Rightarrow> symbol_table \<Rightarrow> asm_error + nat" where
  "lineSize cpu line symbols =
     (case cpu of
        CpuTms9995 \<Rightarrow> tms9995InstructionSize (opOf line) (line_args line)
      | CpuMn1613 \<Rightarrow> instructionSize (opOf line) (line_args line) symbols)"

definition advancePc :: "int \<Rightarrow> area_ctx \<Rightarrow> area_ctx" where
  "advancePc n c = setAreaPc (uint (areaPc c) + n) c"

text \<open>\<^verbatim>\<open>.globl\<close>, \<^verbatim>\<open>.global\<close> and \<^verbatim>\<open>.cpu\<close>, which no pass acts on.\<close>

definition isNoOp :: "string \<Rightarrow> bool" where
  "isNoOp opr \<longleftrightarrow> opr = ''.GLOBL'' \<or> opr = ''.GLOBAL'' \<or> opr = ''.CPU''"

definition isStorage :: "string \<Rightarrow> bool" where "isStorage opr \<longleftrightarrow> opr = ''.DS'' \<or> opr = ''.BLKW''"

definition pass1Op :: "cpu_type \<Rightarrow> parsed_line \<Rightarrow> pass1_state \<Rightarrow> pass_error + pass1_state" where
  "pass1Op cpu line s =
     (let opr = opOf line; c = p1_areas s; n = lineNo line; tab0 = p1_symbols s
      in if isEqu opr then pass1Equ line s
         else if opr = ''.ORG'' then
           (if length (line_args line) \<noteq> 1 then Inl (OneArgument n opr)
            else bindP (raised (evalArg tab0 True (line_args line ! 0))) (\<lambda>v.
              Inr (s\<lparr>p1_areas := setAreaPc v c\<rparr>)))
         else if opr = ''.AREA'' then
           bindP (parseAreaDirective (line_args line) n) (\<lambda>a.
             Inr (s\<lparr>p1_areas := switchArea (fst a) (snd a) c\<rparr>))
         else if isNoOp opr then Inr s
         else if isStorage opr then
           bindP (evalStorageReserve line tab0 True cpu) (\<lambda>k.
             Inr (s\<lparr>p1_areas := advancePc (uint k) c\<rparr>))
         else if isDirective opr then
           (if areaNoload c \<and> isWordDirective opr then Inl (InitialValues n (ac_current c))
            else bindP (directiveSize line cpu) (\<lambda>k. Inr (s\<lparr>p1_areas := advancePc k c\<rparr>)))
         else if areaNoload c then Inl (NoloadCode n (ac_current c))
         else bindP (raised (lineSize cpu line tab0)) (\<lambda>k.
           Inr (s\<lparr>p1_areas := advancePc (int k) c\<rparr>)))"

definition pass1Line :: "cpu_type \<Rightarrow> parsed_line \<Rightarrow> pass1_state \<Rightarrow> pass_error + pass1_state" where
  "pass1Line cpu line s0 =
     (let s = s0\<lparr>p1_lineAreas := (p1_lineAreas s0)(lineNo line \<mapsto> canonicalAreaName (ac_current (p1_areas s0)))\<rparr>
      in if line_op line = None then
           (case line_label line of None \<Rightarrow> Inr s | Some l \<Rightarrow> placeLabel l (lineNo line) s)
         else
           bindP (case line_label line of
                    None \<Rightarrow> Inr s
                  | Some l \<Rightarrow> if isEqu (opOf line) then Inr s else placeLabel l (lineNo line) s)
             (pass1Op cpu line))"

definition pass1 :: "cpu_type \<Rightarrow> parsed_line list \<Rightarrow> pass_error + pass1_state" where
  "pass1 cpu ls = foldE (pass1Line cpu) ls initialPass1"

subsection \<open>Symbols for the second pass\<close>

definition isGlobl :: "string \<Rightarrow> bool" where "isGlobl opr \<longleftrightarrow> opr = ''.GLOBL'' \<or> opr = ''.GLOBAL''"

text \<open>The declared names in the order of the source.\<close>

definition collectGloblNames :: "parsed_line list \<Rightarrow> string list" where
  "collectGloblNames ls =
     concat (map (\<lambda>line. if line_op line \<noteq> None \<and> isGlobl (opOf line)
       then map toUpperCase (filter (\<lambda>n. n \<noteq> []) (map trim (line_args line))) else []) ls)"

definition buildSymbolInfos ::
  "symbol_table \<Rightarrow> string set \<Rightarrow> (string \<rightharpoonup> string) \<Rightarrow> symbol_infos" where
  "buildSymbolInfos symbols globl areas name =
     (case symbols name of
        Some v \<Rightarrow> Some \<lparr>si_value = v, si_kind = (if name \<in> globl then SymGlobal else SymLocal), si_area = areas name\<rparr>
      | None \<Rightarrow>
          (if name \<in> globl then Some \<lparr>si_value = 0, si_kind = SymExternal, si_area = None\<rparr> else None))"

record area_info =
  ai_name :: string
  ai_size :: u16
  ai_noload :: bool

text \<open>Areas of the same canonical name are merged, in the order of the table.\<close>

fun mergeArea :: "string \<times> area_loc \<Rightarrow> (string \<times> area_info) list \<Rightarrow> (string \<times> area_info) list" where
  "mergeArea (name, loc) tab =
     (if name = [] \<and> al_pc loc = 0 then tab
      else
        (let key = canonicalAreaName name; nl = al_noload loc \<or> key = ''_WORK''
         in case map_of tab key of
              None \<Rightarrow> tab @ [(key, \<lparr>ai_name = key, ai_size = al_pc loc, ai_noload = nl\<rparr>)]
            | Some p \<Rightarrow> AList.update key (p\<lparr>ai_size := max (ai_size p) (al_pc loc),
                ai_noload := ai_noload p \<or> nl\<rparr>) tab))"

definition snapshotAreas :: "area_ctx \<Rightarrow> area_info list" where
  "snapshotAreas c =
     (let tab = fold mergeArea (ac_areas c) []
      in map (\<lambda>n. the (map_of tab n)) (orderLinkAreaNames (map fst tab)))"


subsection \<open>The second pass\<close>

record emitted_word =
  ew_address :: int
  ew_value :: u16
  ew_lineNo :: nat
  ew_source :: string
  ew_area :: string

record word_reloc =
  wr_byteAddr :: int
  wr_left :: reloc_operand
  wr_right :: reloc_operand
  wr_area :: string
  wr_low8 :: bool

record pass2_state =
  p2_words :: "emitted_word list"
  p2_relocs :: "word_reloc list"
  p2_areas :: area_ctx
  p2_storage :: "nat \<rightharpoonup> u16"

definition initialPass2 :: pass2_state where
  "initialPass2 = \<lparr>p2_words = [], p2_relocs = [], p2_areas = createAreaContext, p2_storage = Map.empty\<rparr>"

definition addrStep :: "cpu_type \<Rightarrow> int" where
  "addrStep cpu = (case cpu of CpuTms9995 \<Rightarrow> 2 | CpuMn1613 \<Rightarrow> 1)"

text \<open>An address in bytes.\<close>

definition byteAddr :: "cpu_type \<Rightarrow> int \<Rightarrow> int" where
  "byteAddr cpu a = (case cpu of CpuTms9995 \<Rightarrow> a | CpuMn1613 \<Rightarrow> a * 2)"

definition emitWord :: "int \<Rightarrow> u16 \<Rightarrow> parsed_line \<Rightarrow> pass2_state \<Rightarrow> pass2_state" where
  "emitWord a v line s = s\<lparr>p2_words := p2_words s @ [\<lparr>ew_address = a, ew_value = v, ew_lineNo = lineNo line,
     ew_source = line_text line, ew_area = canonicalAreaName (ac_current (p2_areas s))\<rparr>]\<rparr>"

definition pushReloc :: "int \<Rightarrow> reloc_operand \<times> reloc_operand \<Rightarrow> bool \<Rightarrow> pass2_state \<Rightarrow> pass2_state" where
  "pushReloc a lr low8 s = s\<lparr>p2_relocs := p2_relocs s @ [\<lparr>wr_byteAddr = a, wr_left = fst lr, wr_right = snd lr,
     wr_area = canonicalAreaName (ac_current (p2_areas s)), wr_low8 = low8\<rparr>]\<rparr>"

definition setPc2 :: "int \<Rightarrow> pass2_state \<Rightarrow> pass2_state" where
  "setPc2 pc s = s\<lparr>p2_areas := setAreaPc pc (p2_areas s)\<rparr>"

text \<open>
  The pattern of an external name in an operand, between characters that are not part of a name.
  The name goes into the pattern as it is: its dots match any character and its dollar signs only
  the end.  Names are made of identifier characters.
\<close>

fun matchName :: "string \<Rightarrow> string \<Rightarrow> string option" where
  "matchName [] s = Some s"
| "matchName (p # ps) s =
     (if p = CHR ''$'' then (if s = [] then matchName ps s else None)
      else
        (case s of
           [] \<Rightarrow> None
         | c # cs \<Rightarrow>
             (if p = CHR ''.'' then
                (if c = char_of (10 :: nat) \<or> c = char_of (13 :: nat) then None else matchName ps cs)
              else if upperChar c = upperChar p then matchName ps cs else None)))"

fun mentions :: "string \<Rightarrow> bool \<Rightarrow> string \<Rightarrow> bool" where
  "mentions name start s \<longleftrightarrow>
     (start \<and> (case matchName name s of None \<Rightarrow> False | Some r \<Rightarrow> r = [] \<or> \<not> isIdentChar (hd r)))
     \<or> (case s of [] \<Rightarrow> False | c # cs \<Rightarrow> mentions name (\<not> isIdentChar c) cs)"

declare mentions.simps [simp del]

definition isExternal :: "symbol_infos \<Rightarrow> string \<Rightarrow> bool" where
  "isExternal infos name = (case infos name of Some i \<Rightarrow> si_kind i = SymExternal | None \<Rightarrow> False)"

text \<open>One operand of \<^verbatim>\<open>.word\<close>.\<close>

definition emitData ::
  "cpu_type \<Rightarrow> symbol_table \<Rightarrow> symbol_infos \<Rightarrow> string list \<Rightarrow> parsed_line \<Rightarrow> string \<Rightarrow> pass2_state \<Rightarrow>
   pass_error + pass2_state" where
  "emitData cpu symbols infos globl line arg s =
     (let pc = uint (areaPc (p2_areas s)); n = lineNo line
      in if matchWordDiffReloc arg infos \<noteq> None then Inl (ExternalDiff n arg)
         else
           (case matchAbsAddrReloc arg infos of
              Some (l, r) \<Rightarrow>
                bindP (case l of
                         RelSymbol _ \<Rightarrow> Inr 0
                       | _ \<Rightarrow> bindP (raised (evalArg symbols False arg)) (\<lambda>v. Inr (word_of_int v)))
                  (\<lambda>v0. let v = (if cpu = CpuMn1613 \<and> isRelWord l then v0 * 2 else v0)
                        in Inr (setPc2 (pc + addrStep cpu)
                             (pushReloc (byteAddr cpu pc) (l, r) False (emitWord pc v line s))))
            | None \<Rightarrow>
                (if list_ex (\<lambda>name. isExternal infos name \<and> mentions name True arg) globl
                 then Inl (ExternalExpression n arg)
                 else bindP (atLine n (bindE (evalArg symbols False arg) (\<lambda>v. rangeU16 v (opOf line))))
                   (\<lambda>v. Inr (setPc2 (pc + addrStep cpu) (emitWord pc v line s))))))"

definition symbolsForEncode :: "symbol_table \<Rightarrow> symbol_infos \<Rightarrow> symbol_table" where
  "symbolsForEncode symbols infos name =
     (case symbols name of Some v \<Rightarrow> Some v | None \<Rightarrow> if isExternal infos name then Some 0 else None)"

definition encodeLine :: "cpu_type \<Rightarrow> parsed_line \<Rightarrow> int \<Rightarrow> symbol_table \<Rightarrow> asm_error + u16 list" where
  "encodeLine cpu line pc symbols =
     (case cpu of
        CpuTms9995 \<Rightarrow> encodeTms9995Instruction (opOf line) (line_args line) pc symbols False
      | CpuMn1613 \<Rightarrow> encodeInstruction (opOf line) (line_args line) pc symbols False)"

text \<open>The result of the first operand for which a function has one.\<close>

fun firstSome :: "('a \<Rightarrow> 'b option) \<Rightarrow> 'a list \<Rightarrow> 'b option" where
  "firstSome f [] = None"
| "firstSome f (x # xs) = (case f x of Some y \<Rightarrow> Some y | None \<Rightarrow> firstSome f xs)"

definition patchLast :: "(u16 \<Rightarrow> u16) \<Rightarrow> u16 list \<Rightarrow> u16 list" where
  "patchLast f ws = butlast ws @ [f (last ws)]"

text \<open>The value that is left for the linker in the last word of an instruction.\<close>

definition absPlaceholder :: "cpu_type \<Rightarrow> reloc_operand \<Rightarrow> u16 \<Rightarrow> u16" where
  "absPlaceholder cpu l v =
     (case l of RelSymbol _ \<Rightarrow> 0 | RelWord _ _ \<Rightarrow> (if cpu = CpuMn1613 then v * 2 else v) | RelConst _ \<Rightarrow> v)"

definition page0Placeholder :: "reloc_operand \<Rightarrow> u16 \<Rightarrow> u16" where
  "page0Placeholder l v =
     (case l of
        RelSymbol _ \<Rightarrow> v AND 0xFF00
      | RelWord w _ \<Rightarrow> (v AND 0xFF00) OR (w * 2 AND 0xFF)
      | RelConst _ \<Rightarrow> v)"

text \<open>The words of a line with the placeholder, and the relocation with the byte it patches.\<close>

definition relocateLine ::
  "cpu_type \<Rightarrow> symbol_infos \<Rightarrow> parsed_line \<Rightarrow> int \<Rightarrow> u16 list \<Rightarrow>
   u16 list \<times> (int \<times> (reloc_operand \<times> reloc_operand) \<times> bool) option" where
  "relocateLine cpu infos line pc ws =
     (if length ws \<ge> 2 then
        (case firstSome (\<lambda>a. matchAbsAddrReloc a infos) (line_args line) of
           Some lr \<Rightarrow> (patchLast (absPlaceholder cpu (fst lr)) ws,
             Some (byteAddr cpu (pc + (int (length ws) - 1) * addrStep cpu), lr, False))
         | None \<Rightarrow> (ws, None))
      else if cpu = CpuMn1613 \<and> length ws = 1 then
        (case firstSome (\<lambda>a. matchPage0StarReloc a infos) (line_args line) of
           Some lr \<Rightarrow> (patchLast (page0Placeholder (fst lr)) ws, Some (pc * 2 + 1, lr, True))
         | None \<Rightarrow> (ws, None))
      else (ws, None))"

fun emitWords :: "cpu_type \<Rightarrow> int \<Rightarrow> u16 list \<Rightarrow> parsed_line \<Rightarrow> pass2_state \<Rightarrow> pass2_state" where
  "emitWords cpu a [] line s = s"
| "emitWords cpu a (w # ws) line s = emitWords cpu (a + addrStep cpu) ws line (emitWord a w line s)"

definition emitInstruction ::
  "cpu_type \<Rightarrow> symbol_table \<Rightarrow> symbol_infos \<Rightarrow> parsed_line \<Rightarrow> pass2_state \<Rightarrow> pass_error + pass2_state" where
  "emitInstruction cpu symbols infos line s =
     (let pc = uint (areaPc (p2_areas s))
      in bindP (raised (encodeLine cpu line pc (symbolsForEncode symbols infos))) (\<lambda>ws0.
           case relocateLine cpu infos line pc ws0 of (ws, rel) \<Rightarrow>
             let s1 = emitWords cpu pc ws line s;
                 s2 = (case rel of None \<Rightarrow> s1 | Some (a, lr, low8) \<Rightarrow> pushReloc a lr low8 s1)
             in Inr (setPc2 (pc + int (length ws0) * addrStep cpu) s2)))"

definition pass2Op ::
  "cpu_type \<Rightarrow> symbol_table \<Rightarrow> symbol_infos \<Rightarrow> string list \<Rightarrow> parsed_line \<Rightarrow> pass2_state \<Rightarrow>
   pass_error + pass2_state" where
  "pass2Op cpu symbols infos globl line s =
     (let opr = opOf line; c = p2_areas s; n = lineNo line
      in if isEqu opr then Inr s
         else if opr = ''.ORG'' then
           bindP (raised (evalArg symbols False (line_args line ! 0))) (\<lambda>v. Inr (setPc2 v s))
         else if opr = ''.AREA'' then
           bindP (parseAreaDirective (line_args line) n) (\<lambda>a.
             Inr (s\<lparr>p2_areas := switchArea (fst a) (snd a) c\<rparr>))
         else if isNoOp opr then Inr s
         else if isStorage opr then
           bindP (evalStorageReserve line symbols False cpu) (\<lambda>k.
             Inr (s\<lparr>p2_storage := (p2_storage s)(n \<mapsto> areaPc c), p2_areas := advancePc (uint k) c\<rparr>))
         else if isWordDirective opr then
           (if areaNoload c then Inl (InitialValues n (ac_current c))
            else bindP (expandWordDirectiveArgs (line_args line) n) (\<lambda>args.
              foldE (emitData cpu symbols infos globl line) args s))
         else if areaNoload c then Inl (NoloadCode n (ac_current c))
         else emitInstruction cpu symbols infos line s)"

definition pass2Line ::
  "cpu_type \<Rightarrow> symbol_table \<Rightarrow> symbol_infos \<Rightarrow> string list \<Rightarrow> parsed_line \<Rightarrow> pass2_state \<Rightarrow>
   pass_error + pass2_state" where
  "pass2Line cpu symbols infos globl line s =
     (if line_op line = None then Inr s else pass2Op cpu symbols infos globl line s)"

definition pass2 ::
  "cpu_type \<Rightarrow> parsed_line list \<Rightarrow> symbol_table \<Rightarrow> symbol_infos \<Rightarrow> string list \<Rightarrow> pass_error + pass2_state" where
  "pass2 cpu ls symbols infos globl = foldE (pass2Line cpu symbols infos globl) ls initialPass2"

subsection \<open>Checkpoints\<close>

text \<open>\<^verbatim>\<open>checkpoint.ts\<close>.  The leftmost \<^verbatim>\<open>; @cp\<close> of a line with the word after it, if any.\<close>

fun findCheckpoint :: "string \<Rightarrow> string option" where
  "findCheckpoint [] = None"
| "findCheckpoint (c # cs) =
     (let r = dropWhile isJsSpace cs
      in if c = CHR '';'' \<and> startsWith (CHR 0x40) r \<and> toUpperCase (take 2 (tl r)) = ''CP'' then
           (let t = drop 2 (tl r)
            in Some (if t \<noteq> [] \<and> isJsSpace (hd t) then takeWhile (\<lambda>x. \<not> isJsSpace x) (dropWhile isJsSpace t)
                     else []))
         else findCheckpoint cs)"

text \<open>\<^verbatim>\<open>/^[A-Za-z_][A-Za-z0-9_]*$/\<close>.\<close>

definition isCpName :: "string \<Rightarrow> bool" where
  "isCpName s \<longleftrightarrow> s \<noteq> [] \<and> (isLetter (hd s) \<or> hd s = CHR ''_'') \<and> list_all isWordChar s"

definition checkpointNameInLine :: "string \<Rightarrow> nat \<Rightarrow> pass_error + string option" where
  "checkpointNameInLine txt n =
     (case findCheckpoint txt of
        None \<Rightarrow> Inr None
      | Some name \<Rightarrow> if isCpName name then Inr (Some name) else Inl (BadCheckpointName n name))"

definition SKIP_PSEUDO :: "string list" where
  "SKIP_PSEUDO = [''CPU'', ''AREA'', ''ORG'', ''INCLUDE'', ''EQU'', ''GLOBL'', ''GLOBAL'', ''MACRO'', ''ENDM'',
     ''IF'', ''ELSE'', ''ENDIF'', ''IFDEF'', ''IFNDEF'', ''LIST'', ''NLIST'', ''MODULE'']"

definition isEmittingLine :: "parsed_line \<Rightarrow> bool" where
  "isEmittingLine line \<longleftrightarrow>
     line_op line \<noteq> None
     \<and> (if startsWith (CHR ''.'') (opOf line) then tl (opOf line) else opOf line) \<notin> set SKIP_PSEUDO"

text \<open>The names that wait for a line, and the names with the line they are bound to.\<close>

definition checkpointStep ::
  "parsed_line \<Rightarrow> string list \<times> (string \<times> nat) list \<Rightarrow> pass_error + string list \<times> (string \<times> nat) list" where
  "checkpointStep line st =
     (case st of (pending, bound) \<Rightarrow>
        bindP (checkpointNameInLine (line_text line) (lineNo line)) (\<lambda>cp.
          let here = map (\<lambda>name. (name, lineNo line)) in
          case cp of
            Some name \<Rightarrow>
              (if isEmittingLine line then Inr ([], bound @ here (pending @ [name]))
               else Inr (pending @ [name], bound))
          | None \<Rightarrow>
              (if isEmittingLine line then Inr ([], bound @ here pending) else Inr (pending, bound))))"

record asm_checkpoint =
  cp_name :: string
  cp_serial :: string
  cp_area :: string
  cp_address :: int

definition checkpointId :: "string \<Rightarrow> string \<Rightarrow> string" where
  "checkpointId name serial = ''__CP$'' @ name @ ''$'' @ serial"

text \<open>The address of a bound checkpoint: the first word of its line, or the start of its storage.\<close>

definition placeCheckpoint ::
  "emitted_word list \<Rightarrow> (nat \<rightharpoonup> u16) \<Rightarrow> (nat \<rightharpoonup> string) \<Rightarrow> string \<times> nat \<Rightarrow> asm_checkpoint list \<Rightarrow>
   pass_error + asm_checkpoint list" where
  "placeCheckpoint words storage lineAreas b out =
     (case b of (name, target) \<Rightarrow>
        (let serial = padStart0 4 (decimal (length (filter (\<lambda>c. cp_name c = name) out) + 1))
         in case find (\<lambda>w. ew_lineNo w = target) words of
              Some w \<Rightarrow> Inr (out @ [\<lparr>cp_name = name, cp_serial = serial,
                cp_area = canonicalAreaName (ew_area w), cp_address = ew_address w\<rparr>])
            | None \<Rightarrow>
                (case storage target of
                   Some a \<Rightarrow> Inr (out @ [\<lparr>cp_name = name, cp_serial = serial,
                     cp_area = canonicalAreaName (case lineAreas target of None \<Rightarrow> ''_CODE'' | Some x \<Rightarrow> x),
                     cp_address = uint a\<rparr>])
                 | None \<Rightarrow> Inl (CheckpointWithoutAddress name target))))"

definition collectCheckpoints ::
  "parsed_line list \<Rightarrow> emitted_word list \<Rightarrow> (nat \<rightharpoonup> u16) \<Rightarrow> (nat \<rightharpoonup> string) \<Rightarrow>
   pass_error + asm_checkpoint list" where
  "collectCheckpoints ls words storage lineAreas =
     bindP (foldE checkpointStep ls ([], [])) (\<lambda>st.
       if fst st \<noteq> [] then Inl (OpenCheckpoints (fst st))
       else foldE (placeCheckpoint words storage lineAreas) (snd st) [])"

subsection \<open>The assembler\<close>

datatype address_unit = UnitWord | UnitByte

record assembly_result =
  ar_words :: "emitted_word list"
  ar_symbols :: symbol_table
  ar_symbolInfos :: symbol_infos
  ar_relocs :: "word_reloc list"
  ar_areas :: "area_info list"
  ar_sourceLines :: "(nat \<times> string) list"
  ar_storageAddrs :: "nat \<rightharpoonup> u16"
  ar_cpuType :: cpu_type
  ar_addressUnit :: address_unit
  ar_checkpoints :: "asm_checkpoint list"

definition assembleLines ::
  "cpu_type \<Rightarrow> (nat \<times> string) list \<Rightarrow> parsed_line list \<Rightarrow> pass_error + assembly_result" where
  "assembleLines cpu sourceLines parsed0 =
     (let globl = collectGloblNames parsed0
      in bindP (collectStringLens parsed0) (\<lambda>lens.
         bindP (applyLenCalls lens (set globl) parsed0) (\<lambda>parsed.
         bindP (pass1 cpu parsed) (\<lambda>p1.
           let infos = buildSymbolInfos (p1_symbols p1) (set globl) (p1_symbolAreas p1)
           in bindP (pass2 cpu parsed (p1_symbols p1) infos globl) (\<lambda>p2.
              bindP (collectCheckpoints parsed (p2_words p2) (p2_storage p2) (p1_lineAreas p1)) (\<lambda>cps.
                Inr \<lparr>ar_words = p2_words p2, ar_symbols = p1_symbols p1, ar_symbolInfos = infos,
                  ar_relocs = p2_relocs p2, ar_areas = snapshotAreas (p2_areas p2),
                  ar_sourceLines = sourceLines, ar_storageAddrs = p2_storage p2, ar_cpuType = cpu,
                  ar_addressUnit = (case cpu of CpuTms9995 \<Rightarrow> UnitByte | CpuMn1613 \<Rightarrow> UnitWord),
                  ar_checkpoints = cps\<rparr>))))))"

text \<open>\<^verbatim>\<open>assemble\<close> after the expansion of macros.\<close>

definition assembleExpanded :: "cpu_type option \<Rightarrow> string \<Rightarrow> pass_error + assembly_result" where
  "assembleExpanded explicit expanded =
     bindP (resolveCpuType explicit expanded) (\<lambda>cpu.
       case parseSource expanded of
         Inl e \<Rightarrow> Inl (SourceError e)
       | Inr (sourceLines, parsed) \<Rightarrow> assembleLines cpu sourceLines parsed)"

end
