(* ===== verification/Pass_Sizes.thy ===== *)
theory Pass_Sizes
  imports Asm_Passes Encoder_Size
begin

text \<open>
  The contract between the assembler's passes and an encoder: the size that the first pass
  reserves for a line is the size of the words that the second pass emits, also when the second
  pass knows more symbols.  Both encoders keep it.
\<close>

subsection \<open>The contract\<close>

text \<open>
  \<open>ready l tab\<close> says that the symbols on which the size of a line depends are defined in \<open>tab\<close>.
\<close>

locale line_encoder =
  fixes size_of :: "parsed_line \<Rightarrow> symbol_table \<Rightarrow> asm_error + nat"
    and encode :: "parsed_line \<Rightarrow> int \<Rightarrow> symbol_table \<Rightarrow> asm_error + u16 list"
    and ready :: "parsed_line \<Rightarrow> symbol_table \<Rightarrow> bool"
    and step :: int
  assumes size_encode: "size_of l tab = Inr n \<Longrightarrow> encode l pc larger = Inr ws \<Longrightarrow> tab \<subseteq>\<^sub>m larger \<Longrightarrow>
      ready l tab \<Longrightarrow> int n = int (length ws) * step"
    and no_directive: "isDirective (opOf l) \<Longrightarrow> encode l pc larger \<noteq> Inr ws"
begin

text \<open>Both passes move the location counter by the same amount over an instruction.\<close>

lemma advance:
  assumes "size_of l tab = Inr n" "encode l pc larger = Inr ws" "tab \<subseteq>\<^sub>m larger" "ready l tab"
  shows "advancePc (int n) c = setAreaPc (uint (areaPc c) + int (length ws) * step) c"
  using size_encode [OF assms] by (simp add: advancePc_def)

end

subsection \<open>The MN1613\<close>

definition immReady :: "parsed_line \<Rightarrow> symbol_table \<Rightarrow> bool" where
  "immReady l tab \<longleftrightarrow>
     (if (opOf l = ''AI'' \<or> opOf l = ''SI'') \<and> length (line_args l) = 2 then
        (case requireImmHash (line_args l ! 1) ''I4'' of
           Inl _ \<Rightarrow> True
         | Inr e \<Rightarrow> (case evalArg tab False e of Inl _ \<Rightarrow> False | Inr _ \<Rightarrow> True))
      else True)"

lemma upper_opOf [simp]: "toUpperCase (opOf l) = opOf l"
  by (auto simp: opOf_def toUpperCase_def split: option.split)

lemma split_ready:
  assumes "immReady l tab" and "splitAiSiImm4Chunks (opOf l) (line_args l) larger True = Inr d"
    and "tab \<subseteq>\<^sub>m larger" and "splitAiSiImm4Chunks (opOf l) (line_args l) tab True = Inr c"
  shows "d = c"
proof (cases "(opOf l = ''AI'' \<or> opOf l = ''SI'') \<and> length (line_args l) = 2")
  case True
  then obtain e v where e: "requireImmHash (line_args l ! 1) ''I4'' = Inr e" "evalArg tab False e = Inr v"
    using assms(1,4) by (auto simp: immReady_def splitAiSiImm4Chunks_def bindE_Inr split: sum.splits)
  then have "evalArg tab True e = Inr v" "evalArg larger True e = Inr v"
    using evalArg_mono [OF e(2)] assms(3) map_le_refl by blast+
  with e True assms(2,4) show ?thesis by (auto simp: splitAiSiImm4Chunks_def split: if_splits)
next
  case False
  with assms(2,4) show ?thesis by (auto simp: splitAiSiImm4Chunks_def split: if_splits)
qed

text \<open>Directives are in none of the tables.\<close>

lemma no_directive_cases:
  assumes "isDirective opr" "toUpperCase opr = opr" "\<And>s. P (CHR ''.'' # s)" "P ''DW''"
  shows "P opr"
  using assms by (auto simp: isDirective_def startsWith_def neq_Nil_conv)

lemma map_of_letter: "list_all (\<lambda>k. k \<noteq> [] \<and> hd k \<noteq> c) (map fst tab) \<Longrightarrow> map_of tab (c # s) = None"
  by (cases "map_of tab (c # s)") (force simp: list_all_iff dest!: map_of_SomeD)+

lemma mn_tables:
  "map_of REG_REG (CHR ''.'' # s) = None" "map_of R_INDIRECT (CHR ''.'' # s) = None"
  "map_of IMM_WORD (CHR ''.'' # s) = None"
  by (rule map_of_letter, code_simp)+

lemma mn_tables_DW:
  "map_of REG_REG ''DW'' = None" "map_of R_INDIRECT ''DW'' = None" "map_of IMM_WORD ''DW'' = None"
  by code_simp+

lemma mn_no_directive:
  assumes "isDirective opr" "toUpperCase opr = opr"
  shows "encodeInstruction opr args pc tab u \<noteq> Inr ws"
  using assms
  by (rule no_directive_cases) (simp_all add: encodeInstruction_def toUpperCase_def upperChar_def encodeBasic_def
      encodeExtended_def encodeBranch_def encodeSpecial_def mn_tables mn_tables_DW)

interpretation mn: line_encoder "lineSize CpuMn1613" "encodeLine CpuMn1613" immReady 1
proof
  fix l tab n pc larger ws
  assume a: "lineSize CpuMn1613 l tab = Inr n" "encodeLine CpuMn1613 l pc larger = Inr ws"
    "tab \<subseteq>\<^sub>m larger" "immReady l tab"
  from a(1) obtain c where c: "splitAiSiImm4Chunks (opOf l) (line_args l) tab True = Inr c"
    by (auto simp: lineSize_def instructionSize_def bindE_Inr)
  have "instructionSize (opOf l) (line_args l) larger = Inr (length ws)"
    by (rule size_of_encoding) (use a(2) in \<open>simp add: encodeLine_def\<close>)
  with split_ready [OF a(4) _ a(3) c] c a(1) show "int n = int (length ws) * 1"
    by (auto simp: lineSize_def instructionSize_def bindE_Inr)
next
  fix l pc larger ws
  assume "isDirective (opOf l)"
  then show "encodeLine CpuMn1613 l pc larger \<noteq> Inr ws"
    unfolding encodeLine_def using mn_no_directive by simp
qed

subsection \<open>The TMS9995\<close>

lemma extras_agree:
  assumes "parseGeneralAddr raw tab u = Inr a" "parseGeneralAddr raw tab' u' = Inr b"
  shows "length (addrExtras a) = length (addrExtras b)"
  using assms
  by (auto simp: parseGeneralAddr_def addrExtras_def Let_def bindE_Inr split: if_splits option.splits prod.splits)

lemma length_tms:
  "encTmsImm opr b args tab u = Inr ws \<Longrightarrow> length ws = 2"
  "encTmsReg opr b args = Inr ws \<Longrightarrow> length ws = 1"
  "encTmsRegImm opr b args tab u = Inr ws \<Longrightarrow> length ws = 2"
  "encTmsCru opr b args tab u = Inr ws \<Longrightarrow> length ws = 1"
  "encTmsJump b args pc tab u opr = Inr ws \<Longrightarrow> length ws = 1"
  "encTmsShift opr b args tab u = Inr ws \<Longrightarrow> length ws = 1"
  by (auto simp: encTmsImm_def encTmsReg_def encTmsRegImm_def encTmsCru_def encTmsJump_def encTmsShift_def
      bindE_Inr Let_def split: if_splits)

lemma length_tms_addr:
  "encTmsSrcReg opr b args tab u = Inr ws \<Longrightarrow> encTmsSrcReg opr b args tab' u' = Inr ws' \<Longrightarrow> length ws = length ws'"
  "encTmsBits opr b args tab u = Inr ws \<Longrightarrow> encTmsBits opr b args tab' u' = Inr ws' \<Longrightarrow> length ws = length ws'"
  "encTmsFmt9 opr b args tab u = Inr ws \<Longrightarrow> encTmsFmt9 opr b args tab' u' = Inr ws' \<Longrightarrow> length ws = length ws'"
  "encTmsOne opr b args tab u = Inr ws \<Longrightarrow> encTmsOne opr b args tab' u' = Inr ws' \<Longrightarrow> length ws = length ws'"
  by (auto simp: encTmsSrcReg_def encTmsBits_def encTmsFmt9_def encTmsOne_def bindE_Inr Let_def
      split: if_splits intro: extras_agree)

lemma length_tms_two:
  assumes "encTmsTwo opr b args tab u = Inr ws" "encTmsTwo opr b args tab' u' = Inr ws'"
  shows "length ws = length ws'"
proof -
  obtain a d where a: "parseGeneralAddr (args ! 0) tab u = Inr a" "parseGeneralAddr (args ! 1) tab u = Inr d"
    "length ws = Suc (length (addrExtras a) + length (addrExtras d))"
    using assms(1) by (auto simp: encTmsTwo_def bindE_Inr)
  obtain a' d' where a': "parseGeneralAddr (args ! 0) tab' u' = Inr a'" "parseGeneralAddr (args ! 1) tab' u' = Inr d'"
    "length ws' = Suc (length (addrExtras a') + length (addrExtras d'))"
    using assms(2) by (auto simp: encTmsTwo_def bindE_Inr)
  show ?thesis using a a' extras_agree by metis
qed

text \<open>The two runs take the same branch, which the operation alone decides.\<close>

lemma case_both:
  assumes "(case m of None \<Rightarrow> p | Some x \<Rightarrow> f x) = Inr ws" "(case m of None \<Rightarrow> q | Some x \<Rightarrow> g x) = Inr ws'"
    and "\<And>x. f x = Inr ws \<Longrightarrow> g x = Inr ws' \<Longrightarrow> P" "p = Inr ws \<Longrightarrow> q = Inr ws' \<Longrightarrow> P"
  shows P
  using assms by (cases m) auto

lemma if_both:
  assumes "(if c then p else q) = Inr ws" "(if c then p' else q') = Inr ws'"
    and "p = Inr ws \<Longrightarrow> p' = Inr ws' \<Longrightarrow> P" "q = Inr ws \<Longrightarrow> q' = Inr ws' \<Longrightarrow> P"
  shows P
  using assms by (cases c) auto

lemma length_tms_same:
  "encTmsImm opr b args tab u = Inr ws \<Longrightarrow> encTmsImm opr b args tab' u' = Inr ws' \<Longrightarrow> length ws = length ws'"
  "encTmsReg opr b args = Inr ws \<Longrightarrow> encTmsReg opr b args = Inr ws' \<Longrightarrow> length ws = length ws'"
  "encTmsRegImm opr b args tab u = Inr ws \<Longrightarrow> encTmsRegImm opr b args tab' u' = Inr ws' \<Longrightarrow> length ws = length ws'"
  "encTmsCru opr b args tab u = Inr ws \<Longrightarrow> encTmsCru opr b args tab' u' = Inr ws' \<Longrightarrow> length ws = length ws'"
  "encTmsJump b args pc tab u opr = Inr ws \<Longrightarrow> encTmsJump b args pc' tab' u' opr = Inr ws' \<Longrightarrow> length ws = length ws'"
  "encTmsShift opr b args tab u = Inr ws \<Longrightarrow> encTmsShift opr b args tab' u' = Inr ws' \<Longrightarrow> length ws = length ws'"
  using length_tms by metis+

lemma tms_body_length:
  "encodeTmsBody opr args pc tab u = Inr ws \<Longrightarrow> encodeTmsBody opr args pc' tab' u' = Inr ws' \<Longrightarrow>
    length ws = length ws'"
  unfolding encodeTmsBody_def
  apply (erule (1) case_both)
   apply (auto simp: bindE_Inr)[1]
  apply (erule (1) if_both, erule (1) length_tms_same)
  apply (erule (1) if_both, erule (1) length_tms_same)
  apply (erule (1) case_both, erule (1) length_tms_same)
  apply (erule (1) case_both, erule (1) length_tms_same)
  apply (erule (1) case_both, erule (1) length_tms_same)
  apply (erule (1) case_both, erule (1) length_tms_same)
  apply (erule (1) case_both, erule (1) length_tms_same)
  apply (erule (1) case_both, erule (1) length_tms_addr)
  apply (erule (1) case_both, erule (1) length_tms_addr)
  apply (erule (1) case_both, erule (1) length_tms_addr)
  apply (erule (1) case_both, erule (1) length_tms_addr)
  apply (erule (1) case_both, erule (1) length_tms_two)
  apply simp
  done

lemma tms_length:
  assumes "encodeTms9995Instruction opr args pc tab u = Inr ws" "encodeTms9995Instruction opr args pc' tab' u' = Inr ws'"
  shows "length ws = length ws'"
  using assms unfolding encodeTms9995Instruction_def Let_def
  by (auto simp: bindE_Inr split: if_splits intro: tms_body_length)

lemma tms_no_directive:
  assumes "isDirective opr" "toUpperCase opr = opr"
  shows "encodeTms9995Instruction opr args pc tab u \<noteq> Inr ws"
proof -
  note tables = FMT7_FIXED_def FMT8_REG_def FMT8_REG_IMM_def FMT2_CRU_def FMT2_JUMP_def FMT5_def FMT3_def
    FMT4_def FMT9_def FMT6_def FMT1_def
  show ?thesis
    using assms
    by (rule no_directive_cases) (simp_all add: encodeTms9995Instruction_def toUpperCase_def upperChar_def
        encodeTmsBody_def tables)
qed

interpretation tms: line_encoder "lineSize CpuTms9995" "encodeLine CpuTms9995" "\<lambda>_ _. True" 2
proof
  fix l tab n pc larger ws
  assume "lineSize CpuTms9995 l tab = Inr n" "encodeLine CpuTms9995 l pc larger = Inr ws"
  then show "int n = int (length ws) * 2"
    by (auto simp: lineSize_def encodeLine_def tms9995InstructionSize_def bindE_Inr dest: tms_length)
next
  fix l pc larger ws
  assume "isDirective (opOf l)"
  then show "encodeLine CpuTms9995 l pc larger \<noteq> Inr ws"
    unfolding encodeLine_def using tms_no_directive by simp
qed

end
