(* ===== verification/Pass_Props.thy ===== *)
theory Pass_Props
  imports Pass_Sizes
begin

text \<open>
  The two passes of the assembler agree on addresses: in a source whose location counter does not
  depend on symbols that are defined later, the value of a label is the address of the first word
  that the second pass emits for its line.  A source that does depend on them is accepted all the
  same and its labels then are wrong.
\<close>

subsection \<open>Sources without forward references in the location counter\<close>

definition resolved :: "symbol_table \<Rightarrow> string \<Rightarrow> bool" where
  "resolved tab arg = (case evalArg tab False arg of Inl _ \<Rightarrow> False | Inr _ \<Rightarrow> True)"

definition equName :: "parsed_line \<Rightarrow> string" where
  "equName line = toUpperCase (case line_label line of Some l \<Rightarrow> l | None \<Rightarrow> line_args line ! 0)"

text \<open>The symbols a line sees in the first pass: its own label is among them.\<close>

definition seenSymbols :: "parsed_line \<Rightarrow> pass1_state \<Rightarrow> symbol_table" where
  "seenSymbols line s =
     (case line_label line of
        None \<Rightarrow> p1_symbols s
      | Some l \<Rightarrow> (p1_symbols s)(toUpperCase l \<mapsto> uint (areaPc (p1_areas s))))"

definition lineOrdered :: "cpu_type \<Rightarrow> parsed_line \<Rightarrow> pass1_state \<Rightarrow> bool" where
  "lineOrdered cpu line s \<longleftrightarrow>
     (if line_op line = None then True
      else if isEqu (opOf line) then p1_symbols s (equName line) = None
      else if opOf line = ''.ORG'' \<or> isStorage (opOf line) then resolved (seenSymbols line s) (line_args line ! 0)
      else if cpu = CpuMn1613 then immReady line (seenSymbols line s)
      else True)"

fun wellOrdered :: "cpu_type \<Rightarrow> parsed_line list \<Rightarrow> pass1_state \<Rightarrow> bool" where
  "wellOrdered cpu [] s = True"
| "wellOrdered cpu (l # ls) s =
     (lineOrdered cpu l s \<and> (case pass1Line cpu l s of Inl _ \<Rightarrow> True | Inr s' \<Rightarrow> wellOrdered cpu ls s'))"

subsection \<open>Location counters\<close>

definition areaKnown :: "area_ctx \<Rightarrow> bool" where
  "areaKnown c \<longleftrightarrow> map_of (ac_areas c) (ac_current c) \<noteq> None"

lemma currentLoc_setAreaPc [simp]: "currentLoc (setAreaPc v c) = (currentLoc c)\<lparr>al_pc := word_of_int v\<rparr>"
  by (simp add: setAreaPc_def currentLoc_def update_conv)

lemma areaPc_setAreaPc [simp]: "areaPc (setAreaPc v c) = word_of_int v"
  by (simp add: areaPc_def)

lemma ac_current_setAreaPc [simp]: "ac_current (setAreaPc v c) = ac_current c"
  by (simp add: setAreaPc_def)

lemma setAreaPc_setAreaPc [simp]: "setAreaPc v (setAreaPc w c) = setAreaPc v c"
  by (simp add: setAreaPc_def currentLoc_def update_conv)

lemma setAreaPc_cong: "(word_of_int v :: u16) = word_of_int w \<Longrightarrow> setAreaPc v c = setAreaPc w c"
  by (simp add: setAreaPc_def)

lemma setAreaPc_same: "areaKnown c \<Longrightarrow> setAreaPc (uint (areaPc c)) c = c"
  by (auto simp: areaKnown_def setAreaPc_def areaPc_def currentLoc_def update_triv)

lemma areaKnown_intros [simp]: "areaKnown (setAreaPc v c)" "areaKnown (advancePc n c)" "areaKnown (switchArea a b c)"
  "areaKnown createAreaContext"
  by (simp_all add: areaKnown_def setAreaPc_def advancePc_def switchArea_def createAreaContext_def update_conv Let_def)


subsection \<open>What the second pass emits\<close>

text \<open>\<open>grown n a s t\<close>: the words that \<open>t\<close> has more than \<open>s\<close> are of line \<open>n\<close>, the first one at address \<open>a\<close>.\<close>

definition grown :: "nat \<Rightarrow> int \<Rightarrow> pass2_state \<Rightarrow> pass2_state \<Rightarrow> bool" where
  "grown n a s t \<longleftrightarrow>
     (\<exists>ws. p2_words t = p2_words s @ ws \<and> (\<forall>w\<in>set ws. ew_lineNo w = n) \<and> (ws \<noteq> [] \<longrightarrow> ew_address (hd ws) = a))"

lemma grown_same [intro]: "p2_words t = p2_words s \<Longrightarrow> grown n a s t"
  by (auto simp: grown_def)

lemma grown_app: "grown n a s t \<Longrightarrow> grown n b t u \<Longrightarrow> (p2_words t = p2_words s \<Longrightarrow> b = a) \<Longrightarrow> grown n a s u"
  unfolding grown_def
  apply (elim exE conjE)
  subgoal for vs ws by (rule exI [of _ "vs @ ws"]) (cases vs; auto)
  done

lemma p2_updates [simp]:
  "p2_words (setPc2 v s) = p2_words s" "p2_words (pushReloc a lr b s) = p2_words s"
  "p2_areas (setPc2 v s) = setAreaPc v (p2_areas s)" "p2_areas (pushReloc a lr b s) = p2_areas s"
  "p2_areas (emitWord a x line s) = p2_areas s"
  "p2_storage (setPc2 v s) = p2_storage s" "p2_storage (pushReloc a lr b s) = p2_storage s"
  "p2_storage (emitWord a x line s) = p2_storage s"
  by (simp_all add: setPc2_def pushReloc_def emitWord_def)

lemma grown_emitWord: "grown (lineNo line) a s (emitWord a v line s)"
  by (auto simp: grown_def emitWord_def)

lemma emitWords_frame [simp]:
  "p2_areas (emitWords cpu a ws line s) = p2_areas s" "p2_storage (emitWords cpu a ws line s) = p2_storage s"
  by (induction ws arbitrary: a s) simp_all

lemma words_emitWord [simp]: "p2_words (emitWord a v line s) \<noteq> p2_words s"
  by (simp add: emitWord_def)

lemma grown_emitWords: "grown (lineNo line) a s (emitWords cpu a ws line s)"
proof (induction ws arbitrary: a s)
  case (Cons w ws)
  have "grown (lineNo line) a s (emitWords cpu (a + addrStep cpu) ws line (emitWord a w line s))"
    by (rule grown_app [OF grown_emitWord Cons.IH]) simp
  then show ?case by simp
qed auto

lemma length_relocateLine: "fst (relocateLine cpu infos line pc ws) = vs \<Longrightarrow> length vs = length ws"
  by (auto simp: relocateLine_def patchLast_def Let_def split: option.splits if_splits)

lemma emitInstruction_effect:
  assumes "emitInstruction cpu symbols infos line s = Inr t"
  obtains ws where "encodeLine cpu line (uint (areaPc (p2_areas s))) (symbolsForEncode symbols infos) = Inr ws"
    "p2_areas t = setAreaPc (uint (areaPc (p2_areas s)) + int (length ws) * addrStep cpu) (p2_areas s)"
    "grown (lineNo line) (uint (areaPc (p2_areas s))) s t" "p2_storage t = p2_storage s"
proof -
  let ?pc = "uint (areaPc (p2_areas s))"
  obtain ws where ws: "encodeLine cpu line ?pc (symbolsForEncode symbols infos) = Inr ws"
    using assms by (auto simp: emitInstruction_def bindP_Inr Let_def)
  obtain vs rel where r: "relocateLine cpu infos line ?pc ws = (vs, rel)" by (cases "relocateLine cpu infos line ?pc ws")
  have t: "p2_words t = p2_words (emitWords cpu ?pc vs line s)"
    "p2_areas t = setAreaPc (?pc + int (length ws) * addrStep cpu) (p2_areas s)" "p2_storage t = p2_storage s"
    using assms ws r by (auto simp: emitInstruction_def Let_def raised_def split: option.splits prod.splits)
  have "grown (lineNo line) ?pc s t"
    using grown_emitWords [of line ?pc s cpu vs] t(1) by (simp add: grown_def)
  with ws t that show thesis by blast
qed

lemma emitData_effect:
  assumes "emitData cpu symbols infos globl line arg s = Inr t"
  shows "p2_areas t = setAreaPc (uint (areaPc (p2_areas s)) + addrStep cpu) (p2_areas s)"
    "grown (lineNo line) (uint (areaPc (p2_areas s))) s t" "p2_words t \<noteq> p2_words s" "p2_storage t = p2_storage s"
  using assms by (auto simp: emitData_def Let_def bindP_Inr grown_def emitWord_def split: option.splits if_splits prod.splits)

lemma foldE_emitData:
  assumes "foldE (emitData cpu symbols infos globl line) args s = Inr t" and "areaKnown (p2_areas s)"
  shows "p2_areas t = setAreaPc (uint (areaPc (p2_areas s)) + int (length args) * addrStep cpu) (p2_areas s) \<and>
    grown (lineNo line) (uint (areaPc (p2_areas s))) s t \<and> p2_storage t = p2_storage s"
  using assms
proof (induction args arbitrary: s)
  case Nil
  then show ?case by (auto simp: setAreaPc_same)
next
  case (Cons a args)
  then obtain u where u: "emitData cpu symbols infos globl line a s = Inr u"
    "foldE (emitData cpu symbols infos globl line) args u = Inr t"
    by (auto simp: bindP_Inr)
  note e = emitData_effect [OF u(1)]
  have "areaKnown (p2_areas u)" by (simp add: e(1))
  note ih = Cons.IH [OF u(2) this]
  have "grown (lineNo line) (uint (areaPc (p2_areas s))) s t"
    by (rule grown_app [OF e(2)]) (use ih e(3) in blast)+
  moreover have "p2_areas t = setAreaPc (uint (areaPc (p2_areas s)) + int (length (a # args)) * addrStep cpu) (p2_areas s)"
    using ih e(1) by (auto simp: algebra_simps intro: setAreaPc_cong)
  ultimately show ?case using ih e(4) by simp
qed


subsection \<open>The first pass over a line\<close>

lemma placeLabel_effect:
  assumes "placeLabel l n s = Inr s'"
  shows "p1_symbols s (toUpperCase l) = None" "p1_areas s' = p1_areas s"
    "p1_symbols s' = (p1_symbols s)(toUpperCase l \<mapsto> uint (areaPc (p1_areas s)))"
  using assms by (auto simp: placeLabel_def defineLabel_def Let_def bindP_Inr split: if_splits)

text \<open>A line that is not an \<^verbatim>\<open>.equ\<close>: the label is placed, then the operation is carried out.\<close>

lemma pass1Line_labelled:
  assumes "pass1Line cpu line s = Inr s'" and "line_op line = None \<or> \<not> isEqu (opOf line)"
  obtains u where "p1_symbols u = seenSymbols line s" "p1_areas u = p1_areas s"
    "if line_op line = None then s' = u else pass1Op cpu line u = Inr s'" "p1_symbols s \<subseteq>\<^sub>m seenSymbols line s"
proof -
  define v where "v = s\<lparr>p1_lineAreas := (p1_lineAreas s)(lineNo line \<mapsto> canonicalAreaName (ac_current (p1_areas s)))\<rparr>"
  have v: "p1_symbols v = p1_symbols s" "p1_areas v = p1_areas s" by (simp_all add: v_def)
  show thesis
  proof (cases "line_label line")
    case None
    with assms v_def [symmetric] show thesis
      by (intro that [of v]) (auto simp: pass1Line_def seenSymbols_def v Let_def split: if_splits)
  next
    case (Some l)
    then obtain u where u: "placeLabel l (lineNo line) v = Inr u"
      "if line_op line = None then s' = u else pass1Op cpu line u = Inr s'"
      using assms v_def [symmetric] by (auto simp: pass1Line_def Let_def bindP_Inr split: if_splits)
    note e = placeLabel_effect [OF u(1)]
    show thesis
      by (rule that [of u]) (use u(2) e Some v in \<open>auto simp: seenSymbols_def map_le_def split: if_splits\<close>)
  qed
qed

lemma pass1Equ_effect:
  assumes "pass1Equ line s = Inr s'"
  obtains v where "p1_symbols s' = (p1_symbols s)(equName line \<mapsto> v)" "p1_areas s' = p1_areas s"
  using assms by (auto simp: pass1Equ_def equName_def Let_def bindP_Inr split: option.splits if_splits)

lemma pass1Line_equ:
  assumes "pass1Line cpu line s = Inr s'" "line_op line \<noteq> None" "isEqu (opOf line)"
  obtains v where "p1_symbols s' = (p1_symbols s)(equName line \<mapsto> v)" "p1_areas s' = p1_areas s"
proof -
  define u where "u = s\<lparr>p1_lineAreas := (p1_lineAreas s)(lineNo line \<mapsto> canonicalAreaName (ac_current (p1_areas s)))\<rparr>"
  have "pass1Equ line u = Inr s'"
    using assms by (auto simp: pass1Line_def pass1Op_def Let_def u_def split: option.splits)
  then obtain v where "p1_symbols s' = (p1_symbols u)(equName line \<mapsto> v)" "p1_areas s' = p1_areas u"
    by (rule pass1Equ_effect)
  with that show thesis by (simp add: u_def)
qed

lemma pass1Op_symbols: "pass1Op cpu line u = Inr s' \<Longrightarrow> \<not> isEqu (opOf line) \<Longrightarrow> p1_symbols s' = p1_symbols u"
  by (auto simp: pass1Op_def Let_def bindP_Inr split: if_splits)

lemma pass1Line_symbols:
  assumes "pass1Line cpu line s = Inr s'" "line_op line = None \<or> \<not> isEqu (opOf line)"
  shows "p1_symbols s' = seenSymbols line s" "p1_symbols s \<subseteq>\<^sub>m p1_symbols s'"
  using assms by (auto elim!: pass1Line_labelled simp: pass1Op_symbols split: if_splits)

lemma pass1Line_grows:
  assumes "pass1Line cpu line s = Inr s'" "lineOrdered cpu line s"
  shows "p1_symbols s \<subseteq>\<^sub>m p1_symbols s'"
proof (cases "line_op line \<noteq> None \<and> isEqu (opOf line)")
  case True
  then obtain v where "p1_symbols s' = (p1_symbols s)(equName line \<mapsto> v)"
    using pass1Line_equ [OF assms(1)] by blast
  then show ?thesis using True assms(2) by (auto simp: lineOrdered_def map_le_def)
next
  case False
  then show ?thesis using pass1Line_symbols(2) [OF assms(1)] by simp
qed


subsection \<open>The passes move the location counter alike\<close>

lemma evalStorage_agree:
  assumes "evalStorageReserve line tab True cpu = Inr k" "evalStorageReserve line larger False cpu = Inr k'"
    and "resolved tab (line_args line ! 0)" "tab \<subseteq>\<^sub>m larger"
  shows "k' = k"
proof -
  obtain v where v: "evalArg tab False (line_args line ! 0) = Inr v"
    using assms(3) by (auto simp: resolved_def split: sum.splits)
  then have "evalArg tab True (line_args line ! 0) = Inr v" "evalArg larger False (line_args line ! 0) = Inr v"
    using evalArg_mono assms(4) map_le_refl by blast+
  with assms(1,2) show ?thesis by (auto simp: evalStorageReserve_def raised_def split: if_splits)
qed

lemma org_agree:
  assumes "raised (evalArg tab True e) = Inr v" "raised (evalArg larger False e) = Inr v'"
    and "resolved tab e" "tab \<subseteq>\<^sub>m larger"
  shows "v' = v"
proof -
  obtain w where w: "evalArg tab False e = Inr w"
    using assms(3) by (auto simp: resolved_def split: sum.splits)
  then have "evalArg tab True e = Inr w" "evalArg larger False e = Inr w"
    using evalArg_mono assms(4) map_le_refl by blast+
  with assms(1,2) show ?thesis by simp
qed

lemma symbolsForEncode_le: "tab \<subseteq>\<^sub>m symbols \<Longrightarrow> tab \<subseteq>\<^sub>m symbolsForEncode symbols infos"
  by (auto simp: map_le_def symbolsForEncode_def dom_def split: option.splits)

lemma line_advance:
  assumes "lineSize cpu line tab = Inr n" "encodeLine cpu line pc larger = Inr ws" "tab \<subseteq>\<^sub>m larger"
    and "cpu = CpuMn1613 \<longrightarrow> immReady line tab"
  shows "advancePc (int n) c = setAreaPc (uint (areaPc c) + int (length ws) * addrStep cpu) c"
  using assms mn.advance tms.advance by (cases cpu) (auto simp: addrStep_def)

lemma encodeLine_no_directive: "isDirective (opOf line) \<Longrightarrow> encodeLine cpu line pc tab \<noteq> Inr ws"
  using mn.no_directive tms.no_directive by (cases cpu) auto

lemmas directive_names = isEqu_def isNoOp_def isStorage_def isWordDirective_def

text \<open>The operations one by one, over the symbols that the first pass sees.\<close>

lemma op_agree:
  assumes one: "pass1Op cpu line u = Inr s'" and two: "pass2Op cpu symbols infos globl line t = Inr t'"
    and a: "p2_areas t = p1_areas u" and k: "areaKnown (p1_areas u)" and sub: "p1_symbols u \<subseteq>\<^sub>m symbols"
    and equ: "\<not> isEqu (opOf line)"
    and org: "opOf line = ''.ORG'' \<or> isStorage (opOf line) \<Longrightarrow> resolved (p1_symbols u) (line_args line ! 0)"
    and imm: "cpu = CpuMn1613 \<Longrightarrow> opOf line \<noteq> ''.ORG'' \<Longrightarrow> \<not> isStorage (opOf line) \<Longrightarrow> immReady line (p1_symbols u)"
  shows "p2_areas t' = p1_areas s' \<and> areaKnown (p1_areas s') \<and> grown (lineNo line) (uint (areaPc (p1_areas u))) t t' \<and>
    (p2_storage t' = p2_storage t \<or> p2_storage t' = (p2_storage t)(lineNo line \<mapsto> areaPc (p1_areas u)))"
proof -
  consider (org) "opOf line = ''.ORG''" | (area) "opOf line = ''.AREA''" | (noop) "isNoOp (opOf line)"
    | (storage) "isStorage (opOf line)" | (data) "isWordDirective (opOf line)"
    | (other) "opOf line \<noteq> ''.ORG''" "opOf line \<noteq> ''.AREA''" "\<not> isNoOp (opOf line)" "\<not> isStorage (opOf line)"
        "\<not> isWordDirective (opOf line)" by blast
  then show ?thesis
  proof cases
    case org
    note res = assms(7) [OF disjI1 [OF org]]
    from one org equ obtain v where v: "raised (evalArg (p1_symbols u) True (line_args line ! 0)) = Inr v"
      "p1_areas s' = setAreaPc v (p1_areas u)"
      by (auto simp: pass1Op_def bindP_Inr Let_def split: if_splits)
    from two org equ obtain v' where v': "raised (evalArg symbols False (line_args line ! 0)) = Inr v'" "t' = setPc2 v' t"
      by (auto simp: pass2Op_def bindP_Inr Let_def split: if_splits)
    from org_agree [OF v(1) v'(1) res sub] v(2) v'(2) a show ?thesis by auto
  next
    case area
    with one two equ a show ?thesis
      by (auto simp: pass1Op_def pass2Op_def bindP_Inr Let_def)
  next
    case noop
    with one two equ a k show ?thesis
      by (auto simp: pass1Op_def pass2Op_def bindP_Inr Let_def isNoOp_def isEqu_def)
  next
    case storage
    note res = assms(7) [OF disjI2 [OF storage]]
    from one storage equ obtain n where n: "evalStorageReserve line (p1_symbols u) True cpu = Inr n"
      "p1_areas s' = advancePc (uint n) (p1_areas u)"
      by (auto simp: pass1Op_def bindP_Inr Let_def directive_names)
    from two storage equ obtain n' where n': "evalStorageReserve line symbols False cpu = Inr n'"
      "t' = t\<lparr>p2_storage := (p2_storage t)(lineNo line \<mapsto> areaPc (p2_areas t)), p2_areas := advancePc (uint n') (p2_areas t)\<rparr>"
      by (auto simp: pass2Op_def bindP_Inr Let_def directive_names)
    from evalStorage_agree [OF n(1) n'(1) res sub] n(2) n'(2) a show ?thesis by auto
  next
    case data
    then have d: "isDirective (opOf line)" "line_op line \<noteq> None"
      by (auto simp: directive_names isDirective_def startsWith_def opOf_def split: option.splits)
    from one data d equ obtain args where args: "expandWordDirectiveArgs (line_args line) (lineNo line) = Inr args"
      "p1_areas s' = advancePc (int (length args) * addrStep cpu) (p1_areas u)"
      by (cases cpu) (auto simp: pass1Op_def directiveSize_def bindP_Inr Let_def directive_names addrStep_def split: if_splits)
    from two data args(1) equ have "foldE (emitData cpu symbols infos globl line) args t = Inr t'"
      by (auto simp: pass2Op_def Let_def directive_names split: if_splits)
    from foldE_emitData [OF this] k a args(2) show ?thesis by (simp add: advancePc_def)
  next
    case other
    from two other equ have e: "emitInstruction cpu symbols infos line t = Inr t'"
      by (auto simp: pass2Op_def Let_def split: if_splits)
    from emitInstruction_effect [OF this] obtain ws where ws:
      "encodeLine cpu line (uint (areaPc (p2_areas t))) (symbolsForEncode symbols infos) = Inr ws"
      "p2_areas t' = setAreaPc (uint (areaPc (p2_areas t)) + int (length ws) * addrStep cpu) (p2_areas t)"
      "grown (lineNo line) (uint (areaPc (p2_areas t))) t t'" "p2_storage t' = p2_storage t" .
    have "\<not> isDirective (opOf line)" using ws(1) encodeLine_no_directive by blast
    with one other equ obtain n where n: "lineSize cpu line (p1_symbols u) = Inr n"
      "p1_areas s' = advancePc (int n) (p1_areas u)"
      by (auto simp: pass1Op_def bindP_Inr Let_def split: if_splits)
    have "advancePc (int n) (p1_areas u) = p2_areas t'"
      using line_advance [OF n(1) ws(1) symbolsForEncode_le [OF sub]] imm other ws(2) a by auto
    with ws(3,4) n(2) a show ?thesis by (simp add: ws(2))
  qed
qed


lemma pass_step:
  assumes one: "pass1Line cpu line s = Inr s'" and two: "pass2Line cpu symbols infos globl line t = Inr t'"
    and o: "lineOrdered cpu line s" and k: "areaKnown (p1_areas s)" and a: "p2_areas t = p1_areas s"
    and sub: "p1_symbols s' \<subseteq>\<^sub>m symbols"
  shows "p2_areas t' = p1_areas s' \<and> areaKnown (p1_areas s') \<and> grown (lineNo line) (uint (areaPc (p1_areas s))) t t' \<and>
    (p2_storage t' = p2_storage t \<or> p2_storage t' = (p2_storage t)(lineNo line \<mapsto> areaPc (p1_areas s)))"
proof (cases "line_op line \<noteq> None \<and> isEqu (opOf line)")
  case True
  with pass1Line_equ [OF one] have "p1_areas s' = p1_areas s" by blast
  with True two a k show ?thesis by (auto simp: pass2Line_def pass2Op_def)
next
  case False
  then obtain u where u: "p1_symbols u = seenSymbols line s" "p1_areas u = p1_areas s"
    "if line_op line = None then s' = u else pass1Op cpu line u = Inr s'"
    using pass1Line_labelled [OF one] by metis
  show ?thesis
  proof (cases "line_op line = None")
    case True
    with u two a k show ?thesis by (auto simp: pass2Line_def)
  next
    case op: False
    with False u have p: "pass1Op cpu line u = Inr s'" "\<not> isEqu (opOf line)" by auto
    have "p2_areas t' = p1_areas s' \<and> areaKnown (p1_areas s') \<and> grown (lineNo line) (uint (areaPc (p1_areas u))) t t' \<and>
      (p2_storage t' = p2_storage t \<or> p2_storage t' = (p2_storage t)(lineNo line \<mapsto> areaPc (p1_areas u)))"
    proof (rule op_agree [OF p(1)])
      show "pass2Op cpu symbols infos globl line t = Inr t'" using two op by (simp add: pass2Line_def)
      show "p1_symbols u \<subseteq>\<^sub>m symbols" using sub pass1Op_symbols [OF p] by simp
    qed (use a k u p o op in \<open>auto simp: lineOrdered_def\<close>)
    with u show ?thesis by simp
  qed
qed

lemma foldE_append: "foldE f (xs @ ys) s = bindP (foldE f xs s) (foldE f ys)"
  by (induction xs arbitrary: s) (auto simp: bindP_def split: sum.splits)

lemma wellOrdered_append:
  "wellOrdered cpu (xs @ ys) s \<Longrightarrow> foldE (pass1Line cpu) xs s = Inr s' \<Longrightarrow>
    wellOrdered cpu xs s \<and> wellOrdered cpu ys s'"
  by (induction xs arbitrary: s) (auto simp: bindP_Inr)

lemma foldE_grows:
  "foldE (pass1Line cpu) ls s = Inr s' \<Longrightarrow> wellOrdered cpu ls s \<Longrightarrow> p1_symbols s \<subseteq>\<^sub>m p1_symbols s'"
  by (induction ls arbitrary: s) (auto simp: bindP_Inr intro: map_le_trans pass1Line_grows)

text \<open>
  Both passes over a prefix of the source: same areas, words only of the lines of the prefix,
  storage only for them.
\<close>

lemma passes_agree:
  assumes "foldE (pass1Line cpu) ls s = Inr s'" "foldE (pass2Line cpu symbols infos globl) ls t = Inr t'"
    and "wellOrdered cpu ls s" "areaKnown (p1_areas s)" "p2_areas t = p1_areas s" "p1_symbols s' \<subseteq>\<^sub>m symbols"
  shows "p2_areas t' = p1_areas s' \<and> areaKnown (p1_areas s') \<and>
    (\<exists>ws. p2_words t' = p2_words t @ ws \<and> ew_lineNo ` set ws \<subseteq> lineNo ` set ls) \<and>
    (\<forall>n. n \<notin> lineNo ` set ls \<longrightarrow> p2_storage t' n = p2_storage t n)"
  using assms
proof (induction ls arbitrary: s t)
  case (Cons l ls)
  obtain s1 t1 where m: "pass1Line cpu l s = Inr s1" "foldE (pass1Line cpu) ls s1 = Inr s'"
    "pass2Line cpu symbols infos globl l t = Inr t1" "foldE (pass2Line cpu symbols infos globl) ls t1 = Inr t'"
    using Cons.prems(1,2) by (auto simp: bindP_Inr)
  have o: "lineOrdered cpu l s" "wellOrdered cpu ls s1" using Cons.prems(3) m(1) by auto
  have "p1_symbols s1 \<subseteq>\<^sub>m symbols"
    using foldE_grows [OF m(2) o(2)] Cons.prems(6) map_le_trans by blast
  note st = pass_step [OF m(1,3) o(1) Cons.prems(4,5) this]
  from st have ka: "areaKnown (p1_areas s1)" "p2_areas t1 = p1_areas s1" by blast+
  note ih = Cons.IH [OF m(2,4) o(2) ka Cons.prems(6)]
  from st obtain ws where ws: "p2_words t1 = p2_words t @ ws" "\<forall>w\<in>set ws. ew_lineNo w = lineNo l"
    by (auto simp: grown_def)
  from ih obtain vs where "p2_words t' = p2_words t1 @ vs" "ew_lineNo ` set vs \<subseteq> lineNo ` set ls" by blast
  with ws have "p2_words t' = p2_words t @ (ws @ vs) \<and> ew_lineNo ` set (ws @ vs) \<subseteq> lineNo ` set (l # ls)" by auto
  moreover have "p2_storage t' n = p2_storage t n" if "n \<notin> lineNo ` set (l # ls)" for n
    using st ih that by auto
  ultimately show ?case using ih by blast
qed simp

lemma find_skip: "(\<forall>x\<in>set xs. \<not> P x) \<Longrightarrow> find P (xs @ ys) = find P ys"
  by (induction xs) auto

lemma other_lines: "f ` set ws \<subseteq> L \<Longrightarrow> n \<notin> L \<Longrightarrow> \<forall>w\<in>set ws. f w \<noteq> n"
  by blast

text \<open>
  C41: labels are addresses.  Let both passes accept a source with distinct line numbers whose
  location counter does not depend on later symbols.  Then every labelled line, other than an
  \<^verbatim>\<open>.equ\<close>, has its label in the symbol table, and its value is the address of the first word
  that the second pass emits for the line and the address of the storage that the line reserves.
\<close>

theorem labels_are_addresses:
  assumes "pass1 cpu ls = Inr p1" and "pass2 cpu ls (p1_symbols p1) infos globl = Inr p2"
    and "wellOrdered cpu ls initialPass1" and "distinct (map lineNo ls)"
    and "line \<in> set ls" and "line_label line = Some l" and "\<not> isEqu (opOf line)"
  shows "\<exists>a. p1_symbols p1 (toUpperCase l) = Some a \<and>
    (\<forall>w. find (\<lambda>w. ew_lineNo w = lineNo line) (p2_words p2) = Some w \<longrightarrow> ew_address w = a) \<and>
    (\<forall>x. p2_storage p2 (lineNo line) = Some x \<longrightarrow> uint x = a)"
proof -
  let ?f1 = "pass1Line cpu" and ?f2 = "pass2Line cpu (p1_symbols p1) infos globl"
  obtain pre post where ls: "ls = pre @ line # post" using assms(5) by (auto simp: in_set_conv_decomp)
  obtain s s1 t t1 where
    m1: "foldE ?f1 pre initialPass1 = Inr s" "?f1 line s = Inr s1" "foldE ?f1 post s1 = Inr p1" and
    m2: "foldE ?f2 pre initialPass2 = Inr t" "?f2 line t = Inr t1" "foldE ?f2 post t1 = Inr p2"
    using assms(1,2) by (auto simp: ls pass1_def pass2_def foldE_append bindP_Inr)
  have o: "wellOrdered cpu pre initialPass1" "lineOrdered cpu line s" "wellOrdered cpu post s1"
    using wellOrdered_append [OF assms(3) [unfolded ls] m1(1)] m1(2) by auto
  have g: "p1_symbols s1 \<subseteq>\<^sub>m p1_symbols p1" "p1_symbols s \<subseteq>\<^sub>m p1_symbols s1"
    by (rule foldE_grows [OF m1(3) o(3)], rule pass1Line_grows [OF m1(2) o(2)])
  have i: "areaKnown (p1_areas initialPass1)" "p2_areas initialPass2 = p1_areas initialPass1"
    by (simp_all add: initialPass1_def initialPass2_def)
  note p = passes_agree [OF m1(1) m2(1) o(1) i map_le_trans [OF g(2,1)]]
  from p have ka: "areaKnown (p1_areas s)" "p2_areas t = p1_areas s" by blast+
  note q = pass_step [OF m1(2) m2(2) o(2) ka g(1)]
  from q have kb: "areaKnown (p1_areas s1)" "p2_areas t1 = p1_areas s1" by blast+
  note r = passes_agree [OF m1(3) m2(3) o(3) kb map_le_refl]
  let ?a = "uint (areaPc (p1_areas s))"
  obtain before where b: "p2_words t = before" "ew_lineNo ` set before \<subseteq> lineNo ` set pre"
    using p by (auto simp: initialPass2_def)
  obtain ws where ws: "p2_words t1 = before @ ws" "\<forall>w\<in>set ws. ew_lineNo w = lineNo line"
    "ws \<noteq> [] \<longrightarrow> ew_address (hd ws) = ?a"
    using q b by (auto simp: grown_def)
  obtain after where af: "p2_words p2 = before @ ws @ after" "ew_lineNo ` set after \<subseteq> lineNo ` set post"
    using r ws by auto
  have n: "lineNo line \<notin> lineNo ` set pre" "lineNo line \<notin> lineNo ` set post" using assms(4) by (auto simp: ls)
  have "p1_symbols s1 (toUpperCase l) = Some ?a"
    using pass1Line_symbols(1) [OF m1(2)] assms(6,7) by (simp add: seenSymbols_def)
  then have "p1_symbols p1 (toUpperCase l) = Some ?a" using g(1) by (auto simp: map_le_def dom_def)
  moreover have "ew_address w = ?a" if w: "find (\<lambda>w. ew_lineNo w = lineNo line) (p2_words p2) = Some w" for w
  proof -
    have "\<forall>w\<in>set before. ew_lineNo w \<noteq> lineNo line" using b(2) n(1) by (rule other_lines)
    then have f: "find (\<lambda>w. ew_lineNo w = lineNo line) (ws @ after) = Some w" using w by (simp add: af(1) find_skip)
    have "\<forall>w\<in>set after. ew_lineNo w \<noteq> lineNo line" using af(2) n(2) by (rule other_lines)
    then have "find (\<lambda>w. ew_lineNo w = lineNo line) after = None" by (simp add: find_None_iff)
    with f ws(2,3) show ?thesis by (cases ws) auto
  qed
  moreover have "uint x = ?a" if x: "p2_storage p2 (lineNo line) = Some x" for x
  proof -
    have "p2_storage t (lineNo line) = None" using p n(1) by (simp add: initialPass2_def)
    moreover have "p2_storage p2 (lineNo line) = p2_storage t1 (lineNo line)" using r n(2) by simp
    ultimately show ?thesis using q x by auto
  qed
  ultimately show ?thesis by blast
qed


text \<open>A line of a source, without its text.\<close>

definition plain :: "nat \<Rightarrow> string option \<Rightarrow> string \<Rightarrow> string list \<Rightarrow> parsed_line" where
  "plain n l opr args = \<lparr>lineNo = n, line_text = [], line_label = l, line_op = Some opr, line_args = args\<rparr>"

definition loopSource :: "parsed_line list" where
  "loopSource = [plain 1 None ''.ORG'' [''256''], plain 2 None ''MVI'' [''R1'', ''#3''],
     plain 3 (Some ''LOOP'') ''SI'' [''R1'', ''#1''], plain 4 None ''B'' [''LOOP''],
     plain 5 (Some ''BUF'') ''.DS'' [''4''], plain 6 (Some ''TAB'') ''.WORD'' [''LOOP'', ''BUF'']]"

lemma loopSource_facts:
  "case pass1 CpuMn1613 loopSource of Inl _ \<Rightarrow> False | Inr p1 \<Rightarrow>
     (case pass2 CpuMn1613 loopSource (p1_symbols p1) Map.empty [] of Inl _ \<Rightarrow> False | Inr p2 \<Rightarrow>
        map_option ew_address (find (\<lambda>w. ew_lineNo w = 3) (p2_words p2)) = Some 257)"
  "wellOrdered CpuMn1613 loopSource initialPass1"
  by code_simp+

theorem labels_are_addresses_witness:
  "\<exists>p1 p2 w. pass1 CpuMn1613 loopSource = Inr p1 \<and>
     pass2 CpuMn1613 loopSource (p1_symbols p1) Map.empty [] = Inr p2 \<and>
     find (\<lambda>w. ew_lineNo w = 3) (p2_words p2) = Some w \<and>
     p1_symbols p1 ''LOOP'' = Some (ew_address w) \<and> ew_address w = 257"
proof -
  obtain p1 p2 w where p: "pass1 CpuMn1613 loopSource = Inr p1"
    "pass2 CpuMn1613 loopSource (p1_symbols p1) Map.empty [] = Inr p2"
    "find (\<lambda>w. ew_lineNo w = 3) (p2_words p2) = Some w" "ew_address w = 257"
    using loopSource_facts(1) by (auto split: sum.splits)
  let ?l = "plain 3 (Some ''LOOP'') ''SI'' [''R1'', ''#1'']"
  have "distinct (map lineNo loopSource)" "?l \<in> set loopSource" "line_label ?l = Some ''LOOP''"
    "\<not> isEqu (opOf ?l)" "toUpperCase ''LOOP'' = ''LOOP''" "lineNo ?l = 3"
    by code_simp+
  with labels_are_addresses [OF p(1,2) loopSource_facts(2), of ?l "''LOOP''"] p show ?thesis by auto
qed

text \<open>
  Without the hypothesis the passes disagree and no error is raised: a forward reference in
  \<^verbatim>\<open>.ORG\<close> counts as 0 in the first pass.  The word of \<^verbatim>\<open>START\<close> is at 256, the label is 0.
\<close>

lemma forward_org_misplaces_labels:
  "case assembleLines CpuMn1613 []
      [plain 1 None ''.ORG'' [''BASE''], plain 2 (Some ''START'') ''.WORD'' [''START''],
       plain 3 (Some ''BASE'') ''.EQU'' [''256'']] of
     Inl _ \<Rightarrow> False
   | Inr r \<Rightarrow> ar_symbols r ''START'' = Some 0 \<and> map ew_address (ar_words r) = [256]"
  by code_simp

text \<open>An \<^verbatim>\<open>.EQU\<close> replaces a label that is already defined, without an error; a second label is one.\<close>

lemma equ_redefines_label:
  "case assembleLines CpuMn1613 []
      [plain 1 (Some ''A'') ''.WORD'' [''1''], plain 2 (Some ''A'') ''.EQU'' [''99'']] of
     Inl _ \<Rightarrow> False | Inr r \<Rightarrow> ar_symbols r ''A'' = Some 99"
  "case assembleLines CpuMn1613 []
      [plain 1 (Some ''A'') ''.WORD'' [''1''], plain 2 (Some ''A'') ''.WORD'' [''2'']] of
     Inl e \<Rightarrow> e = DuplicateSymbol 2 ''A'' | Inr r \<Rightarrow> False"
  by code_simp+

end
