(* ===== verification/Asm_Macros.thy ===== *)
theory Asm_Macros
  imports Asm_Passes
begin

text \<open>
  The expansion of macros and repeat blocks, \<^verbatim>\<open>retrocpu_asm_ts/src/main/macros.ts\<close>, and the whole
  assembler, \<^verbatim>\<open>assemble\<close> of \<^verbatim>\<open>assembler.ts\<close>.  The count of \<^verbatim>\<open>.rept\<close> is evaluated by the language
  itself (\<^verbatim>\<open>Function\<close>), which is the parameter \<open>js\<close>.
\<close>

subsection \<open>Parts of a line\<close>

datatype macro_error =
    RepeatNeedsCount nat
  | RepeatInvalid nat string
  | RepeatCannotEvaluate nat string
  | RepeatNotNatural nat
  | UnclosedBlock nat
  | MacroNeedsName nat
  | DuplicateMacro nat string
  | StrayEndm nat
  | TooDeep
  | IrpNeedsSymbol nat
  | IrpcNeedsSymbol nat
  | MexitOutside nat
  | TooManyArguments string nat nat
  | UnexpandedMacro
  | TooManyPasses

record macro_def =
  md_name :: string
  md_args :: "string list"
  md_body :: "string list"
  md_definedAt :: nat

type_synonym macro_table = "string \<rightharpoonup> macro_def"

definition MAX_EXPAND_DEPTH :: nat where "MAX_EXPAND_DEPTH = 64"
definition MAX_PASSES :: nat where "MAX_PASSES = 32"

lemma bindP_cong [fundef_cong]:
  "m = m' \<Longrightarrow> (\<And>v. m' = Inr v \<Longrightarrow> f v = g v) \<Longrightarrow> bindP m f = bindP m' g"
  by (cases m') auto

text \<open>This file cuts at the first comment sign, also inside quotes.\<close>

fun macro_stripLineComment :: "string \<Rightarrow> string" where
  "macro_stripLineComment [] = []"
| "macro_stripLineComment (c # cs) =
     (if c = CHR '';'' \<or> c = CHR ''/'' \<and> cs \<noteq> [] \<and> hd cs = CHR ''/'' then []
      else c # macro_stripLineComment cs)"

fun commaLoop :: "char option \<Rightarrow> nat \<Rightarrow> string \<Rightarrow> string \<Rightarrow> string list" where
  "commaLoop quote depth cur [] = [trim cur]"
| "commaLoop (Some q) depth cur (ch # cs) =
     commaLoop (if ch = q then None else Some q) depth (cur @ [ch]) cs"
| "commaLoop None depth cur (ch # cs) =
     (if ch = CHR 0x22 \<or> ch = CHR 0x27 then commaLoop (Some ch) depth (cur @ [ch]) cs
      else if ch = CHR ''('' \<or> ch = CHR ''['' then commaLoop None (depth + 1) (cur @ [ch]) cs
      else if ch = CHR '')'' \<or> ch = CHR '']'' then commaLoop None (depth - 1) (cur @ [ch]) cs
      else if ch = CHR '','' \<and> depth = 0 then trim cur # commaLoop None 0 [] cs
      else commaLoop None depth (cur @ [ch]) cs)"

definition splitCommaArgs :: "string \<Rightarrow> string list" where
  "splitCommaArgs txt = filter (\<lambda>a. a \<noteq> []) (commaLoop None 0 [] (trim txt))"

text \<open>Without the characters at which \<^verbatim>\<open>.\<close> of a pattern stops.\<close>

definition noLineEnd :: "string \<Rightarrow> bool" where
  "noLineEnd s \<longleftrightarrow> list_all (\<lambda>c. c \<noteq> char_of (10 :: nat) \<and> c \<noteq> char_of (13 :: nat)) s"

definition isMacroStart :: "char \<Rightarrow> bool" where
  "isMacroStart c \<longleftrightarrow> isLetter c \<or> c = CHR ''_'' \<or> c = CHR ''.''"

definition isMacroChar :: "char \<Rightarrow> bool" where
  "isMacroChar c \<longleftrightarrow> isMacroStart c \<or> isDigit c"

text \<open>\<^verbatim>\<open>/^([A-Za-z_.?][A-Za-z0-9_.?]*)\s*:\s*(.*)$/\<close> and \<^verbatim>\<open>/^([A-Za-z_.][A-Za-z0-9_.]*)\s*(.*)$/\<close>.\<close>

definition labelColon :: "string \<Rightarrow> (string \<times> string) option" where
  "labelColon s =
     (let inName = (\<lambda>c. isMacroChar c \<or> c = CHR ''?'');
          r = dropWhile isJsSpace (dropWhile inName s)
      in if s \<noteq> [] \<and> (isMacroStart (hd s) \<or> hd s = CHR ''?'') \<and> r \<noteq> [] \<and> hd r = CHR '':''
            \<and> noLineEnd (dropWhile isJsSpace (tl r))
         then Some (takeWhile inName s, dropWhile isJsSpace (tl r)) else None)"

definition opAndArgs :: "string \<Rightarrow> (string \<times> string) option" where
  "opAndArgs s =
     (let r = dropWhile isJsSpace (dropWhile isMacroChar s)
      in if s \<noteq> [] \<and> isMacroStart (hd s) \<and> noLineEnd r then Some (takeWhile isMacroChar s, r) else None)"

record asm_parts =
  ap_label :: "string option"
  ap_op :: "string option"
  ap_argsText :: string
  ap_indent :: string

definition splitAsmLine :: "string \<Rightarrow> asm_parts" where
  "splitAsmLine raw =
     (let body = macro_stripLineComment raw;
          indent = takeWhile isJsSpace body;
          lr = (case labelColon (trim body) of None \<Rightarrow> (None, trim body) | Some (l, r) \<Rightarrow> (Some l, trim r))
      in case opAndArgs (snd lr) of
           None \<Rightarrow> \<lparr>ap_label = fst lr, ap_op = None, ap_argsText = snd lr, ap_indent = indent\<rparr>
         | Some (opr, r) \<Rightarrow> \<lparr>ap_label = fst lr, ap_op = Some opr, ap_argsText = trim r, ap_indent = indent\<rparr>)"

text \<open>The operation of a line in upper case, and the empty string when it has none.\<close>

definition lineOp :: "string \<Rightarrow> string" where
  "lineOp raw = (case ap_op (splitAsmLine raw) of None \<Rightarrow> [] | Some opr \<Rightarrow> toUpperCase opr)"

definition isBlockOpen :: "string \<Rightarrow> bool" where
  "isBlockOpen opr \<longleftrightarrow> opr \<in> {''.MACRO'', ''.REPT'', ''.IRP'', ''.IRPC''}"

definition isEndm :: "string \<Rightarrow> bool" where "isEndm opr \<longleftrightarrow> opr = ''.ENDM''"
definition isMexit :: "string \<Rightarrow> bool" where "isMexit opr \<longleftrightarrow> opr = ''.MEXIT''"

subsection \<open>Substitution\<close>

text \<open>\<^verbatim>\<open>\b\<close> between two characters, or at an end of the text.\<close>

definition wordBoundary :: "char option \<Rightarrow> char option \<Rightarrow> bool" where
  "wordBoundary a b \<longleftrightarrow>
     (case a of None \<Rightarrow> False | Some c \<Rightarrow> isWordChar c) \<noteq> (case b of None \<Rightarrow> False | Some c \<Rightarrow> isWordChar c)"

definition lastChar :: "string \<Rightarrow> char option" where "lastChar s = (if s = [] then None else Some (last s))"
definition headChar :: "string \<Rightarrow> char option" where "headChar s = (if s = [] then None else Some (hd s))"

definition dummyHere :: "string \<Rightarrow> string \<Rightarrow> string \<Rightarrow> bool" where
  "dummyHere dummy before s \<longleftrightarrow>
     length dummy \<le> length s \<and> map upperChar (take (length dummy) s) = map upperChar dummy
     \<and> wordBoundary (lastChar before) (headChar s)
     \<and> wordBoundary (lastChar (take (length dummy) s)) (headChar (drop (length dummy) s))"

text \<open>The replacement text of \<^verbatim>\<open>String.replace\<close>, in which a dollar sign introduces a reference.\<close>

fun replacement :: "string \<Rightarrow> string \<Rightarrow> string \<Rightarrow> string \<Rightarrow> string" where
  "replacement before found after (a # b # cs) =
     (if a = CHR ''$'' \<and> b = CHR ''$'' then CHR ''$'' # replacement before found after cs
      else if a = CHR ''$'' \<and> b = CHR ''&'' then found @ replacement before found after cs
      else if a = CHR ''$'' \<and> b = CHR 0x60 then before @ replacement before found after cs
      else if a = CHR ''$'' \<and> b = CHR 0x27 then after @ replacement before found after cs
      else a # replacement before found after (b # cs))"
| "replacement before found after cs = cs"

function replaceFrom :: "string \<Rightarrow> string \<Rightarrow> string \<Rightarrow> string \<Rightarrow> string" where
  "replaceFrom dummy actual before s =
     (if dummy = [] \<or> s = [] then s
      else if dummyHere dummy before s then
        (let n = length dummy
         in replacement before (take n s) (drop n s) actual @
            replaceFrom dummy actual (before @ take n s) (drop n s))
      else hd s # replaceFrom dummy actual (before @ [hd s]) (tl s))"
  by pat_completeness auto
termination by (relation "measure (\<lambda>(d, a, b, s). length s)") auto

declare replaceFrom.simps [simp del]

definition replaceArg :: "string \<Rightarrow> string \<Rightarrow> string \<Rightarrow> string" where
  "replaceArg txt dummy actual = replaceFrom dummy actual [] txt"

definition replaceLocalMarks :: "string \<Rightarrow> nat \<Rightarrow> string" where
  "replaceLocalMarks txt n = concat (map (\<lambda>c. if c = CHR ''?'' then CHR ''M'' # decimal n else [c]) txt)"

text \<open>Longer names first; names of the same length in the order of the header.\<close>

definition applyBindings :: "string \<Rightarrow> (string \<times> string) list \<Rightarrow> nat \<Rightarrow> string" where
  "applyBindings line binding expandId =
     replaceLocalMarks
       (fold (\<lambda>k out. replaceArg out k (the (map_of binding k)))
          (sort_key (\<lambda>k. - int (length k)) (map fst binding)) line)
       expandId"

subsection \<open>Blocks\<close>

definition parseMacroHeader :: "string \<Rightarrow> string \<times> string list" where
  "parseMacroHeader argsText =
     (case splitCommaArgs argsText of
        [] \<Rightarrow> ([], [])
      | first # rest \<Rightarrow>
          (let sp = fieldsOf isJsSpace first
           in if length sp > 1
              then (hd sp, filter (\<lambda>s. s \<noteq> []) (map trim (joinBlank (tl sp) # rest)))
              else (first, rest)))"

datatype js_result = JsThrows | JsNotFinite | JsNumber rat

definition isRepeatChar :: "char \<Rightarrow> bool" where
  "isRepeatChar c \<longleftrightarrow>
     isHex c \<or> isJsSpace c \<or> c \<in> {CHR ''x'', CHR ''X'', CHR ''+'', CHR ''-'', CHR ''*'', CHR ''/'', CHR ''('', CHR '')''}"

definition evalRepeatCount :: "(string \<Rightarrow> js_result) \<Rightarrow> string \<Rightarrow> nat \<Rightarrow> macro_error + nat" where
  "evalRepeatCount js expr n =
     (let t = concat (map (\<lambda>c. if c = CHR ''$'' then ''0x'' else [c]) (trim expr))
      in if t = [] then Inl (RepeatNeedsCount n)
         else if \<not> list_all isRepeatChar t then Inl (RepeatInvalid n expr)
         else
           (case js t of
              JsThrows \<Rightarrow> Inl (RepeatCannotEvaluate n expr)
            | JsNotFinite \<Rightarrow> Inl (RepeatNotNatural n)
            | JsNumber v \<Rightarrow> if v < 0 \<or> v \<noteq> of_int \<lfloor>v\<rfloor> then Inl (RepeatNotNatural n) else Inr (nat \<lfloor>v\<rfloor>)))"

text \<open>The body of a block, the line that closes it, and the lines after it.\<close>

fun readBody :: "nat \<Rightarrow> nat \<Rightarrow> string list \<Rightarrow> macro_error + string list \<times> string \<times> string list" where
  "readBody depth openLine [] = Inl (UnclosedBlock openLine)"
| "readBody depth openLine (l # ls) =
     (if isEndm (lineOp l) \<and> depth = 0 then Inr ([], l, ls)
      else
        bindP (readBody (if isBlockOpen (lineOp l) then depth + 1 else if isEndm (lineOp l) then depth - 1 else depth)
                 openLine ls)
          (\<lambda>(body, e, rest). Inr (l # body, e, rest)))"

definition readBlockBody :: "string list \<Rightarrow> nat \<Rightarrow> macro_error + string list \<times> string \<times> string list" where
  "readBlockBody ls openLine = readBody 0 openLine ls"

lemma readBody_length: "readBody d n ls = Inr (body, e, rest) \<Longrightarrow> length rest < length ls"
  by (induction d n ls arbitrary: body rule: readBody.induct) (fastforce simp: bindP_Inr split: if_splits)+

lemma readBlockBody_length: "readBlockBody ls n = Inr (body, e, rest) \<Longrightarrow> length rest < length ls"
  by (simp add: readBlockBody_def readBody_length)

subsection \<open>Definitions\<close>

function extractLoop ::
  "nat \<Rightarrow> string list \<Rightarrow> macro_table \<Rightarrow> macro_error + macro_table \<times> string list" where
  "extractLoop i [] macros = Inr (macros, [])"
| "extractLoop i (raw # ls) macros =
     (let opr = lineOp raw
      in if opr = ''.MACRO'' then
           (case parseMacroHeader (ap_argsText (splitAsmLine raw)) of (name, formalArgs) \<Rightarrow>
              if name = [] then Inl (MacroNeedsName (i + 1))
              else if macros (toUpperCase name) \<noteq> None then Inl (DuplicateMacro (i + 1) name)
              else bindP (readBlockBody ls (i + 1)) (\<lambda>(body, e, rest).
                extractLoop (i + length body + 2) rest (macros(toUpperCase name \<mapsto>
                  \<lparr>md_name = name, md_args = formalArgs, md_body = body, md_definedAt = i + 1\<rparr>))))
         else if isBlockOpen opr then
           bindP (readBlockBody ls (i + 1)) (\<lambda>(body, e, rest).
             bindP (extractLoop (i + length body + 2) rest macros) (\<lambda>(m, out).
               Inr (m, raw # body @ e # out)))
         else if isEndm opr then Inl (StrayEndm (i + 1))
         else bindP (extractLoop (i + 1) ls macros) (\<lambda>(m, out). Inr (m, raw # out)))"
  by pat_completeness auto
termination
  by (relation "measure (\<lambda>(i, ls, m). length ls)") (auto dest: readBlockBody_length)

declare extractLoop.simps [simp del]

fun joinLines :: "string list \<Rightarrow> string" where
  "joinLines [] = []"
| "joinLines [l] = l"
| "joinLines (l # ls) = l @ char_of (10 :: nat) # joinLines ls"

definition extractMacros :: "string \<Rightarrow> macro_error + macro_table \<times> string" where
  "extractMacros src =
     bindP (extractLoop 0 (splitLines (unixLines src)) Map.empty) (\<lambda>(m, out). Inr (m, joinLines out))"

subsection \<open>Calls and repeats\<close>

text \<open>
  The recursion \<^verbatim>\<open>expandLines\<close> at the next depth is an argument: lines and the last local number
  in, expanded lines and the last local number out.
\<close>

type_synonym expander = "string list \<Rightarrow> nat \<Rightarrow> macro_error + string list \<times> nat"

definition expandBodyLines ::
  "expander \<Rightarrow> string list \<Rightarrow> (string \<times> string) list \<Rightarrow> nat \<Rightarrow> macro_error + string list \<times> nat" where
  "expandBodyLines inner body binding expandId =
     inner (map (\<lambda>raw. applyBindings raw binding expandId) (takeWhile (\<lambda>raw. \<not> isMexit (lineOp raw)) body))
       expandId"

text \<open>The body once for each binding, each time with a new local number.\<close>

fun expandEach ::
  "expander \<Rightarrow> string list \<Rightarrow> (string \<times> string) list list \<Rightarrow> nat \<Rightarrow> macro_error + string list \<times> nat" where
  "expandEach inner body [] expandId = Inr ([], expandId)"
| "expandEach inner body (b # bs) expandId =
     bindP (expandBodyLines inner body b (expandId + 1)) (\<lambda>(out, n).
       bindP (expandEach inner body bs n) (\<lambda>(outs, n2). Inr (out @ outs, n2)))"

definition isQuoteSign :: "char \<Rightarrow> bool" where "isQuoteSign c \<longleftrightarrow> c = CHR 0x22 \<or> c = CHR 0x27"

text \<open>\<^verbatim>\<open>replace(/^["']|["']$/g, "")\<close>.\<close>

definition unquote :: "string \<Rightarrow> string" where
  "unquote s =
     (let t = (if s \<noteq> [] \<and> isQuoteSign (hd s) then tl s else s)
      in if t \<noteq> [] \<and> isQuoteSign (last t) then butlast t else t)"

fun joinComma :: "string list \<Rightarrow> string" where
  "joinComma [] = []"
| "joinComma [a] = a"
| "joinComma (a # as) = a @ CHR '','' # joinComma as"

definition irpcParts :: "string \<Rightarrow> string \<times> string" where
  "irpcParts argsText =
     (let parts = splitCommaArgs argsText; sp = fieldsOf isJsSpace argsText
      in if length parts \<ge> 2 then (hd parts, unquote (joinComma (tl parts)))
         else (case sp of [] \<Rightarrow> ([], []) | a # as \<Rightarrow> (a, unquote (concat as))))"

text \<open>The actual arguments of a call; those that are missing are empty.\<close>

definition callBinding :: "string list \<Rightarrow> string list \<Rightarrow> (string \<times> string) list" where
  "callBinding formal actual =
     fold (\<lambda>i m. AList.update (toUpperCase (formal ! i)) (if i < length actual then actual ! i else []) m)
       [0 ..< length formal] []"

text \<open>The label of a call goes before the expansion or into its first line.\<close>

definition attachLabel :: "string option \<Rightarrow> string \<Rightarrow> string list \<Rightarrow> string list" where
  "attachLabel label indent bodyOut =
     (case label of
        None \<Rightarrow> bodyOut
      | Some l \<Rightarrow>
          (let own = indent @ l @ '':'';
               tab = [char_of (9 :: nat)];
               p = splitAsmLine (hd bodyOut)
           in if bodyOut = [] then [own]
              else if ap_label p \<noteq> None then own # bodyOut
              else
                (case ap_op p of
                   Some opr \<Rightarrow> (own @ tab @ opr @ (if ap_argsText p = [] then [] else tab @ ap_argsText p)) # tl bodyOut
                 | None \<Rightarrow> own # bodyOut)))"

function expandLoop ::
  "(string \<Rightarrow> js_result) \<Rightarrow> expander \<Rightarrow> macro_table \<Rightarrow> nat \<Rightarrow> expander" where
  "expandLoop js inner macros i [] expandId = Inr ([], expandId)"
| "expandLoop js inner macros i (raw # ls) expandId =
     (let p = splitAsmLine raw; opr = lineOp raw; args = ap_argsText p;
          keep = bindP (expandLoop js inner macros (i + 1) ls expandId) (\<lambda>(out, n). Inr (raw # out, n))
      in if opr = [] then keep
         else if opr = ''.REPT'' then
           bindP (evalRepeatCount js args (i + 1)) (\<lambda>count.
           bindP (readBlockBody ls (i + 1)) (\<lambda>(body, e, rest).
           bindP (expandEach inner body (replicate count []) expandId) (\<lambda>(out, n).
           bindP (expandLoop js inner macros (i + length body + 2) rest n) (\<lambda>(outs, n2). Inr (out @ outs, n2)))))
         else if opr = ''.IRP'' then
           (case splitCommaArgs args of
              [] \<Rightarrow> Inl (IrpNeedsSymbol (i + 1))
            | symb # list \<Rightarrow>
                bindP (readBlockBody ls (i + 1)) (\<lambda>(body, e, rest).
                bindP (expandEach inner body (map (\<lambda>a. [(toUpperCase symb, a)]) list) expandId) (\<lambda>(out, n).
                bindP (expandLoop js inner macros (i + length body + 2) rest n) (\<lambda>(outs, n2). Inr (out @ outs, n2)))))
         else if opr = ''.IRPC'' then
           (case irpcParts args of (symb, chars) \<Rightarrow>
              if symb = [] then Inl (IrpcNeedsSymbol (i + 1))
              else
                bindP (readBlockBody ls (i + 1)) (\<lambda>(body, e, rest).
                bindP (expandEach inner body (map (\<lambda>c. [(toUpperCase symb, [c])]) chars) expandId) (\<lambda>(out, n).
                bindP (expandLoop js inner macros (i + length body + 2) rest n) (\<lambda>(outs, n2). Inr (out @ outs, n2)))))
         else if isMexit opr then Inl (MexitOutside (i + 1))
         else if opr = ''.MACRO'' \<or> isEndm opr then keep
         else
           (case macros opr of
              None \<Rightarrow> keep
            | Some d \<Rightarrow>
                (let actual = splitCommaArgs args
                 in if length actual > length (md_args d)
                    then Inl (TooManyArguments (md_name d) (length (md_args d)) (length actual))
                    else
                      bindP (expandBodyLines inner (md_body d) (callBinding (md_args d) actual) (expandId + 1))
                        (\<lambda>(out, n).
                      bindP (expandLoop js inner macros (i + 1) ls n) (\<lambda>(outs, n2).
                        Inr (attachLabel (ap_label p) (ap_indent p) out @ outs, n2))))))"
  by pat_completeness auto
termination
  by (relation "measure (\<lambda>(js, inner, macros, i, ls, e). length ls)") (auto dest: readBlockBody_length)

declare expandLoop.simps [simp del]

text \<open>\<^verbatim>\<open>expandLines\<close> with the number of levels that are left.\<close>

fun expandLines :: "(string \<Rightarrow> js_result) \<Rightarrow> macro_table \<Rightarrow> nat \<Rightarrow> expander" where
  "expandLines js macros 0 = (\<lambda>ls expandId. Inl TooDeep)"
| "expandLines js macros (Suc d) = expandLoop js (expandLines js macros d) macros 0"

definition expandCallsAndRepeats ::
  "(string \<Rightarrow> js_result) \<Rightarrow> string \<Rightarrow> macro_table \<Rightarrow> macro_error + string" where
  "expandCallsAndRepeats js src macros =
     bindP (expandLines js macros (MAX_EXPAND_DEPTH + 1) (splitLines (unixLines src)) 0)
       (\<lambda>(out, n). Inr (joinLines out))"

subsection \<open>All passes\<close>

text \<open>\<^verbatim>\<open>/\.macro\b/i.test\<close>.\<close>

fun mentionsMacro :: "string \<Rightarrow> bool" where
  "mentionsMacro [] \<longleftrightarrow> False"
| "mentionsMacro (c # cs) \<longleftrightarrow>
     map upperChar (take 6 (c # cs)) = ''.MACRO'' \<and> \<not> (drop 6 (c # cs) \<noteq> [] \<and> isWordChar (hd (drop 6 (c # cs))))
     \<or> mentionsMacro cs"

fun expandPasses :: "(string \<Rightarrow> js_result) \<Rightarrow> nat \<Rightarrow> string \<Rightarrow> macro_error + string" where
  "expandPasses js 0 txt = Inl TooManyPasses"
| "expandPasses js (Suc n) txt =
     bindP (extractMacros txt) (\<lambda>(macros, src).
     bindP (expandCallsAndRepeats js src macros) (\<lambda>expanded.
       if expanded = txt then (if mentionsMacro expanded then Inl UnexpandedMacro else Inr expanded)
       else expandPasses js n expanded))"

definition expandMacros :: "(string \<Rightarrow> js_result) \<Rightarrow> string \<Rightarrow> macro_error + string" where
  "expandMacros js src = expandPasses js MAX_PASSES (unixLines src)"

definition assemble ::
  "(string \<Rightarrow> js_result) \<Rightarrow> cpu_type option \<Rightarrow> string \<Rightarrow> (macro_error + pass_error) + assembly_result" where
  "assemble js explicit src =
     (case expandMacros js src of
        Inl e \<Rightarrow> Inl (Inl e)
      | Inr expanded \<Rightarrow>
          (case assembleExpanded explicit expanded of Inl e \<Rightarrow> Inl (Inr e) | Inr r \<Rightarrow> Inr r))"

end
