(* ===== verification/Text_Lines.thy ===== *)
theory Text_Lines
  imports Asm_Macros
begin

text \<open>Lines of a text: splitting a text that was joined from lines gives the lines back.\<close>

subsection \<open>Lines\<close>

lemma joinLines_Cons: "ls \<noteq> [] \<Longrightarrow> joinLines (l # ls) = l @ char_of (10 :: nat) # joinLines ls"
  by (cases ls) auto

lemma splitLines_nonempty [simp]: "splitLines s \<noteq> []"
  by (induction s rule: splitLines.induct) (auto split: list.splits)

lemma join_split [simp]: "joinLines (splitLines s) = s"
proof (induction s)
  case (Cons c cs)
  obtain l ls where ls: "splitLines cs = l # ls" using splitLines_nonempty [of cs] by (cases "splitLines cs") blast
  show ?case
  proof (cases ls)
    case Nil
    with Cons ls show ?thesis by (auto simp: joinLines_Cons)
  next
    case (Cons a list)
    with \<open>joinLines (splitLines cs) = cs\<close> ls show ?thesis by (auto simp: joinLines_Cons)
  qed
qed simp

lemma split_noNewline: "char_of (10 :: nat) \<notin> set l \<Longrightarrow> splitLines l = [l]"
  by (induction l) auto

lemma split_append: "char_of (10 :: nat) \<notin> set l \<Longrightarrow> splitLines (l @ char_of (10 :: nat) # s) = l # splitLines s"
  by (induction l) auto

lemma split_join:
  "ls \<noteq> [] \<Longrightarrow> \<forall>l\<in>set ls. char_of (10 :: nat) \<notin> set l \<Longrightarrow> splitLines (joinLines ls) = ls"
  by (induction ls rule: joinLines.induct) (auto simp: split_noNewline split_append)

lemma unixLines_id: "char_of (13 :: nat) \<notin> set s \<Longrightarrow> unixLines s = s"
  by (induction s rule: unixLines.induct) auto

lemma set_joinLines: "set (joinLines ls) \<subseteq> insert (char_of (10 :: nat)) (\<Union>l\<in>set ls. set l)"
  by (induction ls rule: joinLines.induct) auto

lemma noCR_joinLines:
  "\<forall>l\<in>set ls. char_of (13 :: nat) \<notin> set l \<Longrightarrow> char_of (13 :: nat) \<notin> set (joinLines ls)"
  using set_joinLines [of ls] by (auto simp: char_of_eq_iff)

text \<open>A line of text holds no line ends.\<close>

definition oneLine :: "string \<Rightarrow> bool" where
  "oneLine l \<longleftrightarrow> char_of (10 :: nat) \<notin> set l \<and> char_of (13 :: nat) \<notin> set l"

lemma lines_text:
  assumes "\<forall>l\<in>set ls. oneLine l"
  shows "char_of (13 :: nat) \<notin> set (joinLines ls)" "unixLines (joinLines ls) = joinLines ls"
    "ls \<noteq> [] \<Longrightarrow> splitLines (joinLines ls) = ls"
  using assms noCR_joinLines [of ls] by (auto simp: oneLine_def unixLines_id intro!: split_join)

end
