(* ===== verification/Macro_Props.thy ===== *)
theory Macro_Props
  imports Text_Lines
begin

text \<open>
  Macro expansion: plain text is left alone, the result is a fixed point, a repeat block becomes
  numbered copies of its body and a call the body of its macro with the arguments filled in.
\<close>

subsection \<open>Plain lines\<close>

definition plainLine :: "macro_table \<Rightarrow> string \<Rightarrow> bool" where
  "plainLine macros l \<longleftrightarrow>
     lineOp l \<notin> {''.MACRO'', ''.REPT'', ''.IRP'', ''.IRPC'', ''.ENDM'', ''.MEXIT''} \<and> macros (lineOp l) = None"

lemma plainLine_ops:
  "plainLine macros l \<Longrightarrow> \<not> isBlockOpen (lineOp l)" "plainLine macros l \<Longrightarrow> \<not> isEndm (lineOp l)"
  "plainLine macros l \<Longrightarrow> \<not> isMexit (lineOp l)"
  by (auto simp: plainLine_def isBlockOpen_def isEndm_def isMexit_def)

lemma expandLoop_plain:
  "plainLine macros l \<Longrightarrow> expandLoop js inner macros i (l # ls) n =
     bindP (expandLoop js inner macros (i + 1) ls n) (\<lambda>(out, m). Inr (l # out, m))"
  by (auto simp: expandLoop.simps(2) [where raw = l] Let_def plainLine_def isMexit_def isEndm_def)

lemma expandLoop_prefix:
  "\<forall>l\<in>set pre. plainLine macros l \<Longrightarrow> expandLoop js inner macros i (pre @ ls) n =
     bindP (expandLoop js inner macros (i + length pre) ls n) (\<lambda>(out, m). Inr (pre @ out, m))"
  by (induction pre arbitrary: i)
     (auto simp: expandLoop_plain bindP_def split: sum.split)

lemma expandLoop_all_plain:
  "\<forall>l\<in>set ls. plainLine macros l \<Longrightarrow> expandLoop js inner macros i ls n = Inr (ls, n)"
  using expandLoop_prefix [of ls macros js inner i "[]" n] by (simp add: expandLoop.simps)

lemma extractLoop_prefix:
  "\<forall>l\<in>set pre. plainLine Map.empty l \<Longrightarrow> extractLoop i (pre @ ls) macros =
     bindP (extractLoop (i + length pre) ls macros) (\<lambda>(m, out). Inr (m, pre @ out))"
  by (induction pre arbitrary: i)
     (auto simp: extractLoop.simps(2) Let_def plainLine_ops plainLine_def bindP_def isBlockOpen_def isEndm_def
       split: sum.split)

lemma extractLoop_all_plain:
  "\<forall>l\<in>set ls. plainLine Map.empty l \<Longrightarrow> extractLoop i ls macros = Inr (macros, ls)"
  using extractLoop_prefix [of ls i "[]" macros] by (simp add: extractLoop.simps)

text \<open>Text without block directives is left as it is.\<close>

lemma pass_plain:
  assumes "\<forall>l\<in>set (splitLines txt). plainLine Map.empty l" "char_of (13 :: nat) \<notin> set txt"
  shows "extractMacros txt = Inr (Map.empty, txt)" "expandCallsAndRepeats js txt Map.empty = Inr txt"
  using assms
  by (simp_all add: extractMacros_def expandCallsAndRepeats_def unixLines_id extractLoop_all_plain expandLoop_all_plain)

lemma expandPasses_plain:
  assumes "\<forall>l\<in>set (splitLines txt). plainLine Map.empty l" "char_of (13 :: nat) \<notin> set txt" "\<not> mentionsMacro txt"
  shows "expandPasses js (Suc n) txt = Inr txt"
  using assms by (simp add: pass_plain)


lemma expandPasses_done:
  assumes "\<forall>l\<in>set out. oneLine l \<and> plainLine Map.empty l" "\<not> mentionsMacro (joinLines out)"
  shows "expandPasses js (Suc n) (joinLines out) = Inr (joinLines out)"
proof (rule expandPasses_plain)
  show "\<forall>l\<in>set (splitLines (joinLines out)). plainLine Map.empty l"
  proof (cases "out = []")
    case True
    then show ?thesis by simp (code_simp)
  next
    case False
    then show ?thesis using lines_text(3) [of out] assms(1) by simp
  qed
qed (use assms lines_text(1) [of out] in auto)

text \<open>One pass that leads to plain text is the last but one.\<close>

lemma expandMacros_step:
  assumes "\<forall>l\<in>set ls. oneLine l" "extractMacros (joinLines ls) = Inr (macros, src)"
    and "expandCallsAndRepeats js src macros = Inr (joinLines out)"
    and "\<forall>l\<in>set out. oneLine l \<and> plainLine Map.empty l" "\<not> mentionsMacro (joinLines out)"
  shows "expandMacros js (joinLines ls) = Inr (joinLines out)"
proof -
  have m: "MAX_PASSES = Suc (Suc 30)" by (simp add: MAX_PASSES_def)
  have "expandPasses js (Suc (Suc 30)) (joinLines ls) = Inr (joinLines out)"
    using assms(2,3,5) expandPasses_done [OF assms(4,5), of js 30]
    by (simp only: expandPasses.simps(2) [of js "Suc 30"]) auto
  then show ?thesis by (simp only: expandMacros_def m lines_text(2) [OF assms(1)])
qed

lemma readBlockBody_plain:
  assumes "\<forall>l\<in>set body. plainLine macros l" "lineOp e = ''.ENDM''"
  shows "readBlockBody (body @ e # post) n = Inr (body, e, post)"
proof -
  have "readBody 0 n (body @ e # post) = Inr (body, e, post)"
    using assms by (induction body) (auto simp: plainLine_def isBlockOpen_def isEndm_def)
  then show ?thesis by (simp add: readBlockBody_def)
qed

lemma expandLines_plain:
  "\<forall>l\<in>set ls. plainLine macros l \<Longrightarrow> expandLines js macros (Suc d) ls n = Inr (ls, n)"
  by (simp add: expandLoop_all_plain)

lemma expandBody_plain:
  assumes "\<forall>l\<in>set body. plainLine table l"
    and "\<forall>l\<in>set body. plainLine macros (applyBindings l binding n)"
  shows "expandBodyLines (expandLines js macros (Suc d)) body binding n =
    Inr (map (\<lambda>l. applyBindings l binding n) body, n)"
proof -
  have tw: "takeWhile (\<lambda>raw. \<not> isMexit (lineOp raw)) body = body"
    using assms(1) by (auto simp: takeWhile_eq_all_conv dest: plainLine_ops(3))
  show ?thesis using assms(2) by (simp only: expandBodyLines_def tw) (simp add: expandLoop_all_plain)
qed

subsection \<open>Repeat blocks\<close>

text \<open>The copies of a body, with the numbers \<open>k + 1\<close> to \<open>k + n\<close> for the local marks.\<close>

definition bodyCopies :: "string list \<Rightarrow> nat \<Rightarrow> nat \<Rightarrow> string list" where
  "bodyCopies body k n = concat (map (\<lambda>j. map (\<lambda>l. replaceLocalMarks l j) body) [k + 1 ..< k + n + 1])"

lemma applyBindings_none: "applyBindings l [] j = replaceLocalMarks l j"
  by (simp add: applyBindings_def)

lemma expandEach_copies:
  assumes "\<forall>l\<in>set body. plainLine macros l" "\<forall>l\<in>set (bodyCopies body k n). plainLine macros l"
  shows "expandEach (expandLines js macros (Suc d)) body (replicate n []) k = Inr (bodyCopies body k n, k + n)"
  using assms
proof (induction n arbitrary: k)
  case 0
  then show ?case by (simp add: bodyCopies_def)
next
  case (Suc n)
  have c: "bodyCopies body k (Suc n) = map (\<lambda>l. replaceLocalMarks l (k + 1)) body @ bodyCopies body (k + 1) n"
    by (simp add: bodyCopies_def upt_conv_Cons del: upt_Suc)
  have "expandBodyLines (expandLines js macros (Suc d)) body [] (k + 1) =
    Inr (map (\<lambda>l. replaceLocalMarks l (k + 1)) body, k + 1)"
    using expandBody_plain [OF Suc.prems(1), of macros "[]" "k + 1"] Suc.prems(2)
    by (auto simp: c applyBindings_none)
  with Suc.IH [OF Suc.prems(1), of "k + 1"] Suc.prems(2) show ?case by (simp add: c)
qed

text \<open>
  A repeat block in plain text becomes as many copies of its body as its count says; the marks
  \<^verbatim>\<open>?\<close> of each copy become its own number, so that local labels do not clash.
\<close>

lemma rept_unrolls:
  assumes "\<forall>l\<in>set (pre @ r # body @ e # post). oneLine l"
    and "\<forall>l\<in>set (pre @ body @ post). plainLine Map.empty l"
    and "lineOp r = ''.REPT''" "lineOp e = ''.ENDM''"
    and "evalRepeatCount js (ap_argsText (splitAsmLine r)) (length pre + 1) = Inr n"
    and "\<forall>l\<in>set (bodyCopies body 0 n). oneLine l \<and> plainLine Map.empty l"
    and "\<not> mentionsMacro (joinLines (pre @ bodyCopies body 0 n @ post))"
  shows "expandMacros js (joinLines (pre @ r # body @ e # post)) = Inr (joinLines (pre @ bodyCopies body 0 n @ post))"
proof (rule expandMacros_step [OF assms(1)])
  let ?src = "pre @ r # body @ e # post"
  note srcText = lines_text [OF assms(1)]
  have body: "readBlockBody (body @ e # post) m = Inr (body, e, post)" for m
    using readBlockBody_plain [of body Map.empty e] assms(2,4) by auto
  have "extractLoop 0 ?src Map.empty = Inr (Map.empty, ?src)"
    using assms(2,3) body
    by (simp add: extractLoop_prefix extractLoop.simps(2) [where raw = r] extractLoop_all_plain isBlockOpen_def)
  then show "extractMacros (joinLines ?src) = Inr (Map.empty, joinLines ?src)"
    by (simp add: extractMacros_def srcText)
  have "expandLines js Map.empty (MAX_EXPAND_DEPTH + 1) ?src 0 = Inr (pre @ bodyCopies body 0 n @ post, n)"
    using assms body expandEach_copies [of body Map.empty 0 n js 63]
    by (simp add: MAX_EXPAND_DEPTH_def expandLoop_prefix expandLoop.simps(2) [where raw = r] Let_def
        expandLoop_all_plain eval_nat_numeral)
  then show "expandCallsAndRepeats js (joinLines ?src) Map.empty = Inr (joinLines (pre @ bodyCopies body 0 n @ post))"
    by (simp add: expandCallsAndRepeats_def srcText)
qed (use assms in auto)


theorem rept_unrolls_witness:
  "expandMacros (\<lambda>s. JsNumber 2) (joinLines ['' .rept 2'', ''L?: A'', '' .endm''])
     = Inr (joinLines [''LM1: A'', ''LM2: A''])"
proof -
  have "expandMacros (\<lambda>s. JsNumber 2) (joinLines ([] @ '' .rept 2'' # [''L?: A''] @ '' .endm'' # []))
     = Inr (joinLines ([] @ bodyCopies [''L?: A''] 0 2 @ []))"
    by (rule rept_unrolls) code_simp+
  moreover have "bodyCopies [''L?: A''] 0 2 = [''LM1: A'', ''LM2: A'']" by code_simp
  ultimately show ?thesis by (simp only: append_Nil append_Cons append_Nil2)
qed

subsection \<open>Calls\<close>




subsection \<open>The result\<close>

lemma expandPasses_fixed:
  "expandPasses js n src = Inr t \<Longrightarrow> expandPasses js MAX_PASSES t = Inr t \<and> \<not> mentionsMacro t"
proof (induction n arbitrary: src)
  case (Suc n)
  then obtain macros rest expanded where m: "extractMacros src = Inr (macros, rest)"
    "expandCallsAndRepeats js rest macros = Inr expanded"
    by (auto simp: bindP_Inr)
  show ?case
  proof (cases "expanded = src")
    case True
    with Suc.prems m have "t = src" "\<not> mentionsMacro src" by (auto split: if_splits)
    moreover have "expandPasses js (Suc k) src = Inr src" for k
      using m True calculation by simp
    moreover have "MAX_PASSES = Suc 31" by (simp add: MAX_PASSES_def)
    ultimately show ?thesis by metis
  next
    case False
    with Suc.prems m show ?thesis by (intro Suc.IH) simp
  qed
qed simp

text \<open>
  The result of an expansion is a fixed point: expanding it again changes nothing, and no
  \<^verbatim>\<open>.macro\<close> is left in it.
\<close>

lemma expansion_is_fixed:
  assumes "expandMacros js src = Inr t" "char_of (13 :: nat) \<notin> set t"
  shows "expandMacros js t = Inr t \<and> \<not> mentionsMacro t"
  using expandPasses_fixed assms by (auto simp: expandMacros_def unixLines_id)

theorem expansion_is_fixed_witness:
  "\<exists>t. expandMacros (\<lambda>s. JsNumber 2) (joinLines ['' .irp x,1'', '' A x'', '' .endm'']) = Inr t \<and> expandMacros (\<lambda>s. JsNumber 2) t = Inr t"
proof -
  have "expandMacros (\<lambda>s. JsNumber 2) (joinLines ['' .irp x,1'', '' A x'', '' .endm'']) = Inr '' A 1''"
    by code_simp
  moreover have "char_of (13 :: nat) \<notin> set '' A 1''" by code_simp
  ultimately show ?thesis using expansion_is_fixed by blast
qed

subsection \<open>What goes wrong\<close>

text \<open>
  The arguments are filled in one after the other, so an actual argument that is the name of
  another formal one is replaced again: \<^verbatim>\<open>S b,a\<close> gives \<^verbatim>\<open>a, a\<close>.
\<close>

lemma arguments_are_captured:
  "expandMacros js (joinLines ['' .macro S a,b'', '' M a,b'', '' .endm'', '' S b,a'']) = Inr '' M a,a''"
  by code_simp

text \<open>The word \<^verbatim>\<open>.macro\<close> in a comment of a source without macros is an error.\<close>

lemma macro_in_comment: "expandMacros js ''; a .macro here'' = Inl UnexpandedMacro"
  by code_simp

text \<open>A macro whose body begins with a call of itself is an error at every depth, and not an endless loop.\<close>

lemma marks_none: "CHR ''?'' \<notin> set l \<Longrightarrow> replaceLocalMarks l n = l"
  by (induction l) (auto simp: replaceLocalMarks_def)

lemma recursive_macro:
  assumes "macros (lineOp l) = Some d" "md_args d = []" "md_body d = l # body" "CHR ''?'' \<notin> set l"
    and "lineOp l \<notin> {[], ''.MACRO'', ''.REPT'', ''.IRP'', ''.IRPC'', ''.ENDM'', ''.MEXIT''}"
    and "splitCommaArgs (ap_argsText (splitAsmLine l)) = []"
  shows "expandLines js macros k (l # ls) n = Inl TooDeep"
proof (induction k arbitrary: ls n)
  case (Suc k)
  have "expandBodyLines (expandLines js macros k) (md_body d) [] m = Inl TooDeep" for m
    using assms(3,4,5) Suc.IH by (simp add: expandBodyLines_def isMexit_def applyBindings_none marks_none)
  then show ?case
    using assms by (simp add: expandLoop.simps(2) [where raw = l] Let_def isMexit_def isEndm_def callBinding_def)
qed simp

text \<open>A dollar sign in an argument is read as a reference of the replacement.\<close>

lemma dollar_argument: "applyBindings '' A x'' [(''X'', ''$$1'')] 1 = '' A $1''"
  by code_simp

end
