(* ===== verification/Asm_Rel.thy ===== *)
theory Asm_Rel
  imports Asm_Macros
begin

text \<open>
  The two outputs of the assembler: the relocatable object file for the linker \<^verbatim>\<open>sdld\<close>,
  \<^verbatim>\<open>retrocpu_asm_ts/src/main/relWriter.ts\<close>, and the listing, \<^verbatim>\<open>lstWriter.ts\<close>.  The order of names,
  \<^verbatim>\<open>localeCompare\<close>, depends on the locale of the machine and is the parameter \<open>leq\<close>.
\<close>

subsection \<open>Numbers\<close>

definition MAX_T_DATA_BYTES :: nat where "MAX_T_DATA_BYTES = 14"
definition R3_WORD_AREA :: nat where "R3_WORD_AREA = 0x00"
definition R3_WORD_SYM :: nat where "R3_WORD_SYM = 0x02"
definition R3_BYTE_AREA :: nat where "R3_BYTE_AREA = 0x01"
definition R3_BYTE_SYM :: nat where "R3_BYTE_SYM = 0x03"

definition relHex2 :: "int \<Rightarrow> string" where
  "relHex2 v = padStart0 2 (toUpperCase (toString16 (nat (v mod 256))))"

definition relHex4 :: "int \<Rightarrow> string" where
  "relHex4 v = padStart0 4 (toUpperCase (toString16 (nat (v mod 65536))))"

text \<open>\<^verbatim>\<open>/^[SL]__/\<close>: the names of areas are in lower case for the linker.\<close>

definition sdldSymName :: "string \<Rightarrow> string" where
  "sdldSymName name =
     (if take 3 name = ''S__'' then CHR ''s'' # tl name
      else if take 3 name = ''L__'' then CHR ''l'' # tl name else name)"

definition unitsToRelAddr :: "int \<Rightarrow> bool \<Rightarrow> int" where
  "unitsToRelAddr units byteAddrs = (if byteAddrs then units else (units * 2) mod 65536)"

definition areaSizeRel :: "int \<Rightarrow> bool \<Rightarrow> int" where
  "areaSizeRel sizeUnits byteAddrs = (if byteAddrs then sizeUnits else (sizeUnits * 2) mod 65536)"

definition beWord :: "int \<Rightarrow> string" where
  "beWord v = relHex2 (v div 256) @ '' '' @ relHex2 v"

subsection \<open>Symbols and areas\<close>

record rel_symbol =
  rs_name :: string
  rs_def :: bool
  rs_value :: int
  rs_area :: string

text \<open>
  The names of the table of symbols in its order: labels and \<^verbatim>\<open>.equ\<close> as they first appear, then the
  other declared names.
\<close>

definition definedName :: "parsed_line \<Rightarrow> string list" where
  "definedName line =
     (case line_label line of
        Some l \<Rightarrow> [toUpperCase l]
      | None \<Rightarrow> if line_op line \<noteq> None \<and> isEqu (opOf line) then [toUpperCase (line_args line ! 0)] else [])"

definition symbolOrder :: "parsed_line list \<Rightarrow> string list" where
  "symbolOrder ls = rev (remdups (rev (concat (map definedName ls) @ collectGloblNames ls)))"

definition globalEntry :: "symbol_infos \<Rightarrow> string \<Rightarrow> rel_symbol list" where
  "globalEntry infos name =
     (case infos name of
        None \<Rightarrow> []
      | Some i \<Rightarrow>
          (case si_kind i of
             SymGlobal \<Rightarrow> [\<lparr>rs_name = name, rs_def = True, rs_value = si_value i,
               rs_area = (case si_area i of None \<Rightarrow> ''_CODE'' | Some a \<Rightarrow> if a = [] then ''_CODE'' else canonicalAreaName a)\<rparr>]
           | SymExternal \<Rightarrow> [\<lparr>rs_name = name, rs_def = False, rs_value = 0, rs_area = []\<rparr>]
           | SymLocal \<Rightarrow> []))"

text \<open>A stable sort by a total preorder that is given as a predicate.\<close>

fun insertBy :: "('a \<Rightarrow> 'a \<Rightarrow> bool) \<Rightarrow> 'a \<Rightarrow> 'a list \<Rightarrow> 'a list" where
  "insertBy le x [] = [x]"
| "insertBy le x (y # ys) = (if le x y then x # y # ys else y # insertBy le x ys)"

definition sortBy :: "('a \<Rightarrow> 'a \<Rightarrow> bool) \<Rightarrow> 'a list \<Rightarrow> 'a list" where
  "sortBy le xs = foldr (insertBy le) xs []"

definition globalEntries :: "(string \<Rightarrow> string \<Rightarrow> bool) \<Rightarrow> symbol_infos \<Rightarrow> string list \<Rightarrow> rel_symbol list" where
  "globalEntries leq infos names =
     sortBy (\<lambda>a b. leq (rs_name a) (rs_name b)) (concat (map (globalEntry infos) names))"

definition relAreaNames :: "assembly_result \<Rightarrow> rel_symbol list \<Rightarrow> string list" where
  "relAreaNames r entries =
     (let ns = orderLinkAreaNames
        (map ai_name (ar_areas r) @ map ew_area (ar_words r)
         @ map rs_area (filter (\<lambda>g. rs_def g \<and> rs_area g \<noteq> []) entries) @ map cp_area (ar_checkpoints r))
      in if ns = [] then [''_CODE''] else ns)"

text \<open>The information on an area; an area that has only words gets an empty entry.\<close>

definition relAreaInfo :: "assembly_result \<Rightarrow> string \<Rightarrow> area_info option" where
  "relAreaInfo r name =
     (case map_of (rev (map (\<lambda>a. (ai_name a, a)) (ar_areas r))) name of
        Some a \<Rightarrow> Some a
      | None \<Rightarrow>
          (if name \<in> set (map (\<lambda>w. canonicalAreaName (ew_area w)) (ar_words r))
           then Some \<lparr>ai_name = name, ai_size = 0, ai_noload = (name = ''_WORK'')\<rparr> else None))"

text \<open>Checkpoints as symbols.\<close>

definition checkpointEntries :: "assembly_result \<Rightarrow> bool \<Rightarrow> rel_symbol list" where
  "checkpointEntries r byteAddrs =
     map (\<lambda>c. \<lparr>rs_name = checkpointId (cp_name c) (cp_serial c), rs_def = True,
       rs_value = unitsToRelAddr (cp_address c) byteAddrs, rs_area = canonicalAreaName (cp_area c)\<rparr>)
       (ar_checkpoints r)"

definition ABS_NAME :: string where "ABS_NAME = ''.__.ABS.''"

text \<open>The symbols that an area defines: globals first, then checkpoints.\<close>

definition areaGlobals :: "rel_symbol list \<Rightarrow> string \<Rightarrow> rel_symbol list" where
  "areaGlobals entries area =
     filter (\<lambda>g. rs_def g \<and> canonicalAreaName (if rs_area g = [] then ''_CODE'' else rs_area g) = area) entries"

definition areaCheckpoints :: "rel_symbol list \<Rightarrow> string \<Rightarrow> rel_symbol list" where
  "areaCheckpoints cps area = filter (\<lambda>c. rs_area c = area) cps"

definition symbolNumbering :: "rel_symbol list \<Rightarrow> rel_symbol list \<Rightarrow> string list \<Rightarrow> string list" where
  "symbolNumbering entries cps areas =
     ABS_NAME # map rs_name (filter (\<lambda>g. \<not> rs_def g) entries)
       @ concat (map (\<lambda>a. map rs_name (areaGlobals entries a) @ map rs_name (areaCheckpoints cps a)) areas)"

text \<open>The number of a name; the last one when a name is given twice, as in a \<^verbatim>\<open>Map\<close>.\<close>

definition indexOfName :: "string list \<Rightarrow> string \<Rightarrow> nat option" where
  "indexOfName names name = map_of (rev (zip names [0 ..< length names])) name"

subsection \<open>Relocations\<close>

record reloc_item =
  ri_mode :: nat
  ri_rtp :: nat
  ri_index :: nat

definition relocItem :: "word_reloc \<Rightarrow> nat \<Rightarrow> string list \<Rightarrow> string list \<Rightarrow> reloc_item option" where
  "relocItem r rtp areas symbols =
     (if wr_right r \<noteq> RelConst 0 then None
      else
        (case wr_left r of
           RelSymbol name \<Rightarrow>
             map_option (\<lambda>i. \<lparr>ri_mode = (if wr_low8 r then R3_BYTE_SYM else R3_WORD_SYM), ri_rtp = rtp, ri_index = i\<rparr>)
               (indexOfName symbols name)
         | RelWord v a \<Rightarrow>
             map_option (\<lambda>i. \<lparr>ri_mode = (if wr_low8 r then R3_BYTE_AREA else R3_WORD_AREA), ri_rtp = rtp, ri_index = i\<rparr>)
               (indexOfName areas (canonicalAreaName (case a of None \<Rightarrow> wr_area r | Some x \<Rightarrow> x)))
         | RelConst c \<Rightarrow> None))"

datatype rel_error = UnsupportedReloc int string

subsection \<open>Text records\<close>

text \<open>The words at the head of a sorted list whose addresses follow on each other.\<close>

fun headRun :: "int \<Rightarrow> emitted_word list \<Rightarrow> emitted_word list \<times> emitted_word list" where
  "headRun step (a # b # ws) =
     (if ew_address b = ew_address a + step
      then (case headRun step (b # ws) of (run, rest) \<Rightarrow> (a # run, rest))
      else ([a], b # ws))"
| "headRun step [a] = ([a], [])"
| "headRun step [] = ([], [])"

function chunksOf :: "nat \<Rightarrow> 'a list \<Rightarrow> 'a list list" where
  "chunksOf n xs = (if xs = [] \<or> n = 0 then [] else take n xs # chunksOf n (drop n xs))"
  by pat_completeness auto
termination by (relation "measure (length \<circ> snd)") auto

declare chunksOf.simps [simp del]

lemma headRun_length: "headRun step ws = (run, rest) \<Longrightarrow> ws \<noteq> [] \<Longrightarrow> length rest < length ws"
  by (induction step ws arbitrary: run rest rule: headRun.induct) (auto split: prod.splits if_splits)

function textChunks :: "int \<Rightarrow> emitted_word list \<Rightarrow> emitted_word list list" where
  "textChunks step ws =
     (if ws = [] then []
      else (case headRun step ws of (run, rest) \<Rightarrow> chunksOf (MAX_T_DATA_BYTES div 2) run @ textChunks step rest))"
  by pat_completeness auto
termination by (relation "measure (length \<circ> snd)") (auto dest: headRun_length [OF sym])

declare textChunks.simps [simp del]

definition wordBytes :: "emitted_word list \<Rightarrow> nat list" where
  "wordBytes ws = concat (map (\<lambda>w. [unat (ew_value w) div 256, unat (ew_value w) mod 256]) ws)"

fun joinWith :: "string \<Rightarrow> string list \<Rightarrow> string" where
  "joinWith sep [] = []"
| "joinWith sep [s] = s"
| "joinWith sep (s # ss) = s @ sep @ joinWith sep ss"

definition itemText :: "reloc_item \<Rightarrow> string" where
  "itemText i = relHex2 (int (ri_mode i)) @ '' '' @ relHex2 (int (ri_rtp i)) @ '' '' @ beWord (int (ri_index i))"

text \<open>The relocations of a chunk with the position of the byte they patch.\<close>

definition chunkItems ::
  "bool \<Rightarrow> string list \<Rightarrow> string list \<Rightarrow> word_reloc list \<Rightarrow> string \<Rightarrow> emitted_word list \<Rightarrow> rel_error + reloc_item list" where
  "chunkItems byteAddrs areas symbols relocs area ws =
     (let startByte = (if byteAddrs then ew_address (hd ws) else ew_address (hd ws) * 2);
          endByte = startByte + 2 * int (length ws)
      in mapE (\<lambda>r. case relocItem r (nat (2 + (wr_byteAddr r - startByte))) areas symbols of
                 None \<Rightarrow> Inl (UnsupportedReloc (wr_byteAddr r) area)
               | Some i \<Rightarrow> Inr i)
           (filter (\<lambda>r. startByte \<le> wr_byteAddr r \<and> wr_byteAddr r < endByte) relocs))"

definition chunkLines ::
  "bool \<Rightarrow> string list \<Rightarrow> string list \<Rightarrow> word_reloc list \<Rightarrow> string \<Rightarrow> nat \<Rightarrow> emitted_word list \<Rightarrow> rel_error + string list" where
  "chunkLines byteAddrs areas symbols relocs area areaIdx ws =
     bindP (chunkItems byteAddrs areas symbols relocs area ws) (\<lambda>items.
       Inr [''T '' @ beWord (unitsToRelAddr (ew_address (hd ws)) byteAddrs) @ '' ''
              @ joinWith '' '' (map (\<lambda>b. relHex2 (int b)) (wordBytes ws)),
            ''R '' @ beWord (int R3_WORD_AREA) @ '' '' @ beWord (int areaIdx)
              @ (if items = [] then [] else '' '' @ joinWith '' '' (map itemText items))])"

definition areaSizeOf :: "bool \<Rightarrow> area_info option \<Rightarrow> emitted_word list \<Rightarrow> int" where
  "areaSizeOf byteAddrs info ws =
     (let maxAddr = (if ws = [] then -1 else fold max (map ew_address ws) 0);
          fromWords = (if maxAddr < 0 then 0 else if byteAddrs then maxAddr + 2 else maxAddr + 1);
          fromInfo = (case info of None \<Rightarrow> 0 | Some i \<Rightarrow> areaSizeRel (uint (ai_size i)) byteAddrs)
      in max fromWords fromInfo)"

definition symbolLine :: "string \<Rightarrow> bool \<Rightarrow> int \<Rightarrow> string" where
  "symbolLine name isDef v = ''S '' @ name @ (if isDef then '' Def'' else '' Ref'') @ relHex4 v"

definition areaLines ::
  "assembly_result \<Rightarrow> rel_symbol list \<Rightarrow> rel_symbol list \<Rightarrow> string list \<Rightarrow> string list \<Rightarrow> string \<Rightarrow>
   rel_error + string list" where
  "areaLines r entries cps areas symbols area =
     (let byteAddrs = (ar_addressUnit r = UnitByte);
          info = relAreaInfo r area;
          sorted = sort_key ew_address (filter (\<lambda>w. canonicalAreaName (ew_area w) = area) (ar_words r));
          noload = (case info of None \<Rightarrow> False | Some i \<Rightarrow> ai_noload i) \<or> area = ''_WORK'';
          relocs = filter (\<lambda>l. canonicalAreaName (wr_area l) = area) (ar_relocs r);
          idx = (case indexOfName areas area of None \<Rightarrow> 0 | Some i \<Rightarrow> i)
      in bindP (mapE (chunkLines byteAddrs areas symbols relocs area idx)
                 (textChunks (if byteAddrs then 2 else 1) sorted)) (\<lambda>chunks.
           Inr ((''A '' @ area @ '' size '' @ relHex4 (areaSizeOf byteAddrs info sorted)
                   @ '' flags '' @ relHex4 (asxxxxAreaFlags area noload) @ '' addr 0'')
                # map (\<lambda>g. symbolLine (sdldSymName (rs_name g)) True (unitsToRelAddr (rs_value g) byteAddrs))
                    (areaGlobals entries area)
                @ map (\<lambda>c. symbolLine (rs_name c) True (rs_value c)) (areaCheckpoints cps area)
                @ concat chunks)))"

definition relLines ::
  "(string \<Rightarrow> string \<Rightarrow> bool) \<Rightarrow> assembly_result \<Rightarrow> string list \<Rightarrow> string \<Rightarrow> rel_error + string list" where
  "relLines leq r names moduleName =
     (let entries = globalEntries leq (ar_symbolInfos r) names;
          cps = checkpointEntries r (ar_addressUnit r = UnitByte);
          areas = relAreaNames r entries;
          symbols = symbolNumbering entries cps areas
      in bindP (mapE (areaLines r entries cps areas symbols) areas) (\<lambda>body.
           Inr ([''XH2'',
                 ''H '' @ toUpperCase (toString16 (length areas)) @ '' areas ''
                   @ toUpperCase (toString16 (length symbols)) @ '' global symbols'',
                 ''M '' @ moduleName, symbolLine ABS_NAME True 0]
                @ map (\<lambda>g. symbolLine (sdldSymName (rs_name g)) False 0) (filter (\<lambda>g. \<not> rs_def g) entries)
                @ concat body @ [''E''])))"

definition writeRel ::
  "(string \<Rightarrow> string \<Rightarrow> bool) \<Rightarrow> assembly_result \<Rightarrow> string list \<Rightarrow> string \<Rightarrow> rel_error + string" where
  "writeRel leq r names moduleName =
     bindP (relLines leq r names moduleName) (\<lambda>ls. Inr (joinLines ls @ [char_of (10 :: nat)]))"

subsection \<open>The listing\<close>

definition listLine :: "assembly_result \<Rightarrow> nat \<times> string \<Rightarrow> string list" where
  "listLine r src =
     (case src of (n, txt) \<Rightarrow>
        (let ws = filter (\<lambda>w. ew_lineNo w = n) (ar_words r);
             prefix = (\<lambda>w. relHex4 (ew_address w) @ '' '' @ relHex4 (uint (ew_value w)) @ '' '')
         in case ws of
              [] \<Rightarrow>
                (case ar_storageAddrs r n of
                   Some loc \<Rightarrow> [relHex4 (uint loc) @ ''       '' @ txt]
                 | None \<Rightarrow> [''          '' @ txt])
            | w # more_words \<Rightarrow> (prefix w @ '' '' @ txt) # map prefix more_words))"

definition writeLst :: "assembly_result \<Rightarrow> string" where
  "writeLst r = joinLines (concat (map (listLine r) (ar_sourceLines r))) @ [char_of (10 :: nat)]"

end
