(* ===== verification/Asm_Link.thy ===== *)
theory Asm_Link
  imports Asm_Rel
begin

text \<open>
  The link step, \<^verbatim>\<open>retrocpu_asm_ts/src/main/sdldLink.ts\<close>: Intel HEX, the symbol map of the linker, the
  object files read back, and the correction of byte addresses to the address unit of the CPU.  The
  linker \<^verbatim>\<open>sdld\<close> is a program of its own and the parameter \<open>sdld\<close>: from the text of a link file to the
  map and the image it writes, if it succeeds.  Sparse images are association lists from addresses
  to bytes; a byte that a truncated record leaves undefined is \<open>None\<close>.
\<close>

subsection \<open>Intel HEX\<close>

type_synonym image = "(nat \<times> nat option) list"

definition hexDigitOf :: "char \<Rightarrow> nat" where
  "hexDigitOf c = nat (charDigit c)"

text \<open>\<^verbatim>\<open>Buffer.from(s, "hex")\<close> stops at the first pair that is not hexadecimal.\<close>

fun hexBytes :: "string \<Rightarrow> nat list" where
  "hexBytes (a # b # cs) =
     (if isHex a \<and> isHex b then (16 * hexDigitOf a + hexDigitOf b) # hexBytes cs else [])"
| "hexBytes cs = []"

definition hexChecksum :: "nat list \<Rightarrow> nat" where
  "hexChecksum bytes = (256 - sum_list bytes mod 256) mod 256"

fun putBytes :: "nat \<Rightarrow> nat option list \<Rightarrow> image \<Rightarrow> image" where
  "putBytes a [] im = im"
| "putBytes a (b # bs) im = putBytes (a + 1) bs (AList.update a b im)"

definition hexRecord :: "string \<Rightarrow> image \<Rightarrow> image" where
  "hexRecord raw out =
     (let line = trim raw; buf = hexBytes (tl line)
      in if line = [] \<or> hd line \<noteq> CHR '':'' \<or> length buf < 5 \<or> buf ! 3 \<noteq> 0 then out
         else putBytes (256 * (buf ! 1) + buf ! 2)
           (map (\<lambda>i. if 4 + i < length buf then Some (buf ! (4 + i)) else None) [0 ..< buf ! 0]) out)"

definition parseIntelHex :: "string \<Rightarrow> image" where
  "parseIntelHex s = fold hexRecord (splitLines (unixLines s)) []"

text \<open>The addresses at the head of a sorted list that follow on each other, at most as many as given.\<close>

fun consecutive :: "nat \<Rightarrow> nat \<Rightarrow> nat list \<Rightarrow> nat list" where
  "consecutive a 0 as = []"
| "consecutive a (Suc n) [] = []"
| "consecutive a (Suc n) (x # as) = (if x = a then x # consecutive (a + 1) n as else [])"

function hexGroups :: "nat list \<Rightarrow> nat list list" where
  "hexGroups [] = []"
| "hexGroups (a # as) =
     (let g = consecutive a 16 (a # as) in g # hexGroups (drop (length g) (a # as)))"
  by pat_completeness auto
termination by (relation "measure length") (auto simp: eval_nat_numeral)

declare hexGroups.simps [simp del]

definition byteText :: "nat \<Rightarrow> string" where
  "byteText b = toUpperCase (padStart0 2 (toString16 b))"

text \<open>One record; an undefined byte raises a \<^verbatim>\<open>TypeError\<close>, which is \<open>None\<close>.\<close>

definition hexLine :: "image \<Rightarrow> nat list \<Rightarrow> string option" where
  "hexLine im g =
     (let start = hd g; chunk = map (\<lambda>a. the (map_of im a)) g;
          rec = [length g, start div 256 mod 256, start mod 256, 0] @ map the chunk
      in if None \<in> set chunk then None
         else Some ('':'' @ concat (map byteText (rec @ [hexChecksum rec]))))"

fun mapO :: "('a \<Rightarrow> 'b option) \<Rightarrow> 'a list \<Rightarrow> 'b list option" where
  "mapO f [] = Some []"
| "mapO f (x # xs) = (case f x of None \<Rightarrow> None | Some y \<Rightarrow> map_option (\<lambda>ys. y # ys) (mapO f xs))"

definition bytesToIntelHex :: "image \<Rightarrow> string option" where
  "bytesToIntelHex im =
     map_option (\<lambda>ls. joinLines (ls @ ['':00000001FF'']) @ [char_of (10 :: nat)])
       (mapO (hexLine im) (hexGroups (sort (map fst im))))"

definition hexBytesToImage :: "image \<Rightarrow> nat list" where
  "hexBytesToImage im =
     (if im = [] then []
      else map (\<lambda>a. case map_of im a of Some (Some b) \<Rightarrow> b mod 256 | _ \<Rightarrow> 0) [0 ..< Max (set (map fst im)) + 1])"

subsection \<open>Symbols of the linker\<close>

type_synonym link_defs = "(string \<times> nat) list"

text \<open>\<^verbatim>\<open>/\b([0-9A-Fa-f]{4,8})\s+([A-Za-z_.][A-Za-z0-9_.$]*)\b/\<close> at one place: value, name, and the text after it.\<close>

definition mapSymbolHere :: "char option \<Rightarrow> string \<Rightarrow> (nat \<times> string \<times> string) option" where
  "mapSymbolHere before s =
     (let digits = takeWhile isHex s; r = dropWhile isHex s; t = dropWhile isJsSpace r;
          whole = takeWhile isIdentChar t;
          name = rev (dropWhile (\<lambda>c. \<not> isWordChar c) (rev whole))
      in if wordBoundary before (headChar s) \<and> 4 \<le> length digits \<and> length digits \<le> 8
            \<and> r \<noteq> [] \<and> isJsSpace (hd r) \<and> t \<noteq> [] \<and> isMacroStart (hd t) \<and> name \<noteq> []
         then Some (nat (positional 16 digits), name, drop (length name) t) else None)"

function mapSymbols :: "char option \<Rightarrow> string \<Rightarrow> (string \<times> nat) list" where
  "mapSymbols before s =
     (if s = [] then []
      else
        (case mapSymbolHere before s of
           None \<Rightarrow> mapSymbols (Some (hd s)) (tl s)
         | Some (v, name, rest) \<Rightarrow>
             (if length rest < length s then (name, v) # mapSymbols (Some (last name)) rest else [])))"
  by pat_completeness auto
termination by (relation "measure (length \<circ> snd)") auto

declare mapSymbols.simps [simp del]

text \<open>\<^verbatim>\<open>/^Area\b/i\<close> and \<^verbatim>\<open>/^-+/\<close>.\<close>

definition isMapHeading :: "string \<Rightarrow> bool" where
  "isMapHeading line \<longleftrightarrow>
     toUpperCase (take 4 line) = ''AREA'' \<and> \<not> (drop 4 line \<noteq> [] \<and> isWordChar (hd (drop 4 line)))
     \<or> startsWith (CHR ''-'') line"

definition parseSdldMapSymbols :: "string \<Rightarrow> link_defs" where
  "parseSdldMapSymbols mapText =
     fold (\<lambda>line defs. if isMapHeading line then defs
             else fold (\<lambda>(name, v) d. if name \<in> {''Area'', ''Addr'', ''Size''} then d else AList.update name v d)
               (mapSymbols None line) defs)
       (splitLines (unixLines mapText)) []"

definition defLookup :: "link_defs \<Rightarrow> string \<Rightarrow> nat option" where
  "defLookup defs name =
     (case map_of defs name of
        Some v \<Rightarrow> Some v
      | None \<Rightarrow> map_option snd (find (\<lambda>d. toUpperCase (fst d) = toUpperCase name) defs))"

text \<open>\<^verbatim>\<open>/^__CP[0-9]{4}$/i\<close> and \<^verbatim>\<open>/^__CP\$([A-Za-z_][A-Za-z0-9_]*)\$([0-9]{4})$/\<close>.\<close>

definition isOldCheckpoint :: "string \<Rightarrow> bool" where
  "isOldCheckpoint name \<longleftrightarrow>
     length name = 8 \<and> toUpperCase (take 4 name) = ''__CP'' \<and> list_all isDigit (drop 4 name)"

definition isCheckpointName :: "string \<Rightarrow> bool" where
  "isCheckpointName name \<longleftrightarrow>
     (let mid = drop 5 name; n = length mid - 5
      in take 5 name = ''__CP$'' \<and> 5 < length mid \<and> isCpName (take n mid)
         \<and> mid ! n = CHR ''$'' \<and> list_all isDigit (drop (n + 1) mid))"

definition defsToCdbFromSdld :: "(string \<Rightarrow> string \<Rightarrow> bool) \<Rightarrow> link_defs \<Rightarrow> string" where
  "defsToCdbFromSdld leq defs =
     (let names = filter (\<lambda>n. \<not> isOldCheckpoint n) (sortBy leq (map fst defs));
          line = (\<lambda>name. let hex = toUpperCase (toString16 (the (map_of defs name)))
                         in if isCheckpointName name then ''L:'' @ name @ '':'' @ hex
                            else ''L:G$'' @ name @ ''$0$0:'' @ hex)
      in if names = [] then [] else joinLines (map line names) @ [char_of (10 :: nat)])"

subsection \<open>The link file\<close>

definition baseOption :: "string \<times> nat \<Rightarrow> string" where
  "baseOption b = ''-b '' @ fst b @ '' = 0x'' @ toUpperCase (toString16 (snd b))"

definition buildSdldLnk ::
  "string list \<Rightarrow> (string \<times> nat) list \<Rightarrow> string \<Rightarrow> string set option \<Rightarrow> string" where
  "buildSdldLnk relPaths extraB outName presentAreas =
     (let present = (\<lambda>a. case presentAreas of None \<Rightarrow> True | Some s \<Rightarrow> a \<in> s)
      in joinLines ([''-i'', ''-m'', ''-y'', ''-w'', ''-o '' @ outName]
           @ map baseOption (filter (\<lambda>b. present (fst b) \<and> map_of extraB (fst b) = None)
               (map (\<lambda>(a, v). (a, nat v)) SDLD_AREA_BASES))
           @ map baseOption (filter (\<lambda>b. present (fst b)) extraB)
           @ relPaths) @ [char_of (10 :: nat)])"

subsection \<open>Object files\<close>

record rel_chunk =
  rc_areaName :: string
  rc_tAddr :: nat
  rc_data :: "nat list"
  rc_items :: "reloc_item list"

record parsed_rel =
  pr_areas :: "string list"
  pr_areaSizes :: "(string \<times> nat) list"
  pr_symbols :: "string list"
  pr_chunks :: "rel_chunk list"

record rel_reader =
  rr_areas :: "string list"
  rr_areaSizes :: "(string \<times> nat) list"
  rr_symbols :: "string list"
  rr_chunks :: "rel_chunk list"
  rr_pending :: "(nat \<times> nat list) option"
  rr_current :: string

definition initialReader :: rel_reader where
  "initialReader = \<lparr>rr_areas = [], rr_areaSizes = [], rr_symbols = [], rr_chunks = [], rr_pending = None,
     rr_current = ''_CODE''\<rparr>"

text \<open>\<^verbatim>\<open>parseInt(p, 16)\<close> on the numbers of an object file, which are hexadecimal digits.\<close>

definition hexNumber :: "string \<Rightarrow> nat" where
  "hexNumber p = nat (positional 16 (takeWhile isHex p))"

definition orZero :: "nat list \<Rightarrow> nat \<Rightarrow> nat" where
  "orZero ns i = (if i < length ns then ns ! i else 0)"

fun readItems :: "nat list \<Rightarrow> reloc_item list" where
  "readItems (m # t # h # l # ns) = \<lparr>ri_mode = m, ri_rtp = t, ri_index = 256 * h + l\<rparr> # readItems ns"
| "readItems ns = []"

text \<open>The size of an area stands after the word \<^verbatim>\<open>size\<close>.\<close>

definition areaSizeField :: "string list \<Rightarrow> nat" where
  "areaSizeField parts =
     (case dropWhile (\<lambda>p. p \<noteq> ''size'') parts of a # b # ps \<Rightarrow> hexNumber b | _ \<Rightarrow> 0)"

definition readRelLine :: "string \<Rightarrow> rel_reader \<Rightarrow> rel_reader" where
  "readRelLine raw s =
     (case fieldsOf isJsSpace (trim raw) of
        [] \<Rightarrow> s
      | tag # rest \<Rightarrow>
          (if tag = ''A'' then
             (let area = (case rest of [] \<Rightarrow> ''_CODE'' | a # _ \<Rightarrow> a)
              in s\<lparr>rr_current := area, rr_areas := rr_areas s @ [area],
                   rr_areaSizes := AList.update area (areaSizeField (tag # rest)) (rr_areaSizes s)\<rparr>)
           else if tag = ''S'' then
             s\<lparr>rr_symbols := rr_symbols s @ [case rest of [] \<Rightarrow> [] | a # _ \<Rightarrow> a]\<rparr>
           else if tag = ''T'' then
             (let ns = map hexNumber rest
              in s\<lparr>rr_pending := Some (256 * orZero ns 0 + orZero ns 1, drop 2 ns)\<rparr>)
           else if tag = ''R'' then
             (case rr_pending s of
                None \<Rightarrow> s
              | Some (tAddr, data) \<Rightarrow>
                  (let ns = map hexNumber rest; idx = 256 * orZero ns 2 + orZero ns 3
                   in s\<lparr>rr_pending := None,
                        rr_chunks := rr_chunks s @
                          [\<lparr>rc_areaName = (if idx < length (rr_areas s) then rr_areas s ! idx else rr_current s),
                            rc_tAddr = tAddr, rc_data = data, rc_items = readItems (drop 4 ns)\<rparr>]\<rparr>))
           else s))"

definition parseRelChunks :: "string \<Rightarrow> parsed_rel" where
  "parseRelChunks s =
     (let f = fold readRelLine (splitLines (unixLines s)) initialReader
      in \<lparr>pr_areas = rr_areas f, pr_areaSizes = rr_areaSizes f, pr_symbols = rr_symbols f, pr_chunks = rr_chunks f\<rparr>)"


subsection \<open>Bases of the areas\<close>

definition sdldBase :: "string \<Rightarrow> nat option" where
  "sdldBase area = map_option nat (map_of SDLD_AREA_BASES area)"

fun firstDefined :: "nat option list \<Rightarrow> nat" where
  "firstDefined [] = 0"
| "firstDefined (Some v # vs) = v"
| "firstDefined (None # vs) = firstDefined vs"

text \<open>\<^verbatim>\<open>seed\<close>: where an area begins.\<close>

definition seedOf :: "link_defs \<Rightarrow> string \<Rightarrow> nat \<Rightarrow> nat" where
  "seedOf defs area fallback = firstDefined [defLookup defs (''s_'' @ area), sdldBase area, Some fallback]"

definition initialCursor :: "link_defs \<Rightarrow> (string \<times> nat) list" where
  "initialCursor defs =
     map (\<lambda>(a, fb). (a, seedOf defs a fb))
       [(''_BIOS'', 0), (''_CODE'', 0), (''_DATA'', firstDefined [defLookup defs ''s__CODE'']),
        (''_WORK'', firstDefined [defLookup defs ''s__DATA'']),
        (''_SYS_PAGE0'', firstDefined [sdldBase ''_SYS_PAGE0'']),
        (''_USR_PAGE0'', firstDefined [sdldBase ''_USR_PAGE0'']), (''_VECTOR'', 0)]"

text \<open>One area of one object file: its base, and the cursor after it.\<close>

definition baseStep ::
  "link_defs \<Rightarrow> parsed_rel \<Rightarrow> string \<Rightarrow> (string \<times> nat) list \<times> (string \<times> nat) list \<Rightarrow>
   (string \<times> nat) list \<times> (string \<times> nat) list" where
  "baseStep defs rel area st =
     (case st of (cursor, this) \<Rightarrow>
        (let start = (case map_of cursor area of Some v \<Rightarrow> v | None \<Rightarrow> seedOf defs area 0);
             end_of = (if area = ''_VECTOR'' then start
                     else (start + firstDefined [map_of (pr_areaSizes rel) area]) mod 2 ^ 32)
         in (AList.update area end_of cursor, AList.update area start this)))"

fun basesLoop :: "link_defs \<Rightarrow> parsed_rel list \<Rightarrow> (string \<times> nat) list \<Rightarrow> (string \<times> nat) list list" where
  "basesLoop defs [] cursor = []"
| "basesLoop defs (rel # rels) cursor =
     (case fold (baseStep defs rel) (pr_areas rel) (cursor, []) of
        (cursor2, this) \<Rightarrow> this # basesLoop defs rels cursor2)"

definition moduleAreaBases :: "parsed_rel list \<Rightarrow> link_defs \<Rightarrow> (string \<times> nat) list list" where
  "moduleAreaBases rels defs = basesLoop defs rels (initialCursor defs)"

subsection \<open>Correction of addresses\<close>

definition byteIn :: "image \<Rightarrow> nat \<Rightarrow> nat" where
  "byteIn im a = (case map_of im a of Some (Some b) \<Rightarrow> b | _ \<Rightarrow> 0)"

definition read16be :: "image \<Rightarrow> nat \<Rightarrow> nat" where
  "read16be im a = (256 * byteIn im a + byteIn im (a + 1)) mod 65536"

definition write16be :: "image \<Rightarrow> nat \<Rightarrow> nat \<Rightarrow> image" where
  "write16be im a v = AList.update (a + 1) (Some (v mod 256)) (AList.update a (Some (v div 256 mod 256)) im)"

definition hasBit :: "nat \<Rightarrow> nat \<Rightarrow> bool" where "hasBit v k \<longleftrightarrow> odd (v div 2 ^ k)"

text \<open>The address that an item patches, and for a byte item the byte address it stands for.\<close>

definition itemAddr :: "nat \<Rightarrow> rel_chunk \<Rightarrow> reloc_item \<Rightarrow> nat" where
  "itemAddr areaBase chunk i = nat ((int areaBase + int (rc_tAddr chunk) + (int (ri_rtp i) - 2)) mod 2 ^ 32)"

definition nthOr :: "'a list \<Rightarrow> nat \<Rightarrow> 'a \<Rightarrow> 'a" where
  "nthOr xs i d = (if i < length xs then xs ! i else d)"

definition byteItemValue ::
  "link_defs \<Rightarrow> parsed_rel \<Rightarrow> (string \<times> nat) list \<Rightarrow> rel_chunk \<Rightarrow> reloc_item \<Rightarrow> nat" where
  "byteItemValue defs rel bases chunk i =
     (if hasBit (ri_mode i) 1 then firstDefined [defLookup defs (nthOr (pr_symbols rel) (ri_index i) [])]
      else
        (let area = nthOr (pr_areas rel) (ri_index i) (rc_areaName chunk)
         in (firstDefined [map_of bases area, defLookup defs (''s_'' @ area), sdldBase area]
             + (if ri_rtp i < 2 then 0 else orZero (rc_data chunk) (ri_rtp i - 2))) mod 2 ^ 32))"

text \<open>The MN1613 addresses words: 16-bit fields are halved, byte fields get the low byte of the word address.\<close>

definition mn1613Item ::
  "link_defs \<Rightarrow> parsed_rel \<Rightarrow> (string \<times> nat) list \<Rightarrow> rel_chunk \<Rightarrow> reloc_item \<Rightarrow> image \<Rightarrow> image" where
  "mn1613Item defs rel bases chunk i im =
     (let a = itemAddr (firstDefined [map_of bases (rc_areaName chunk)]) chunk i
      in if hasBit (ri_mode i) 0
         then AList.update a (Some (byteItemValue defs rel bases chunk i div 2 mod 256)) im
         else write16be im a (read16be im a div 2))"

text \<open>The TMS9995 addresses bytes: only the fields of the reset vector are changed, and doubled.\<close>

definition tms9995Item ::
  "link_defs \<Rightarrow> parsed_rel \<Rightarrow> (string \<times> nat) list \<Rightarrow> rel_chunk \<Rightarrow> reloc_item \<Rightarrow> image \<Rightarrow> image" where
  "tms9995Item defs rel bases chunk i im =
     (let a = itemAddr (firstDefined [map_of bases (rc_areaName chunk)]) chunk i
      in if hasBit (ri_mode i) 0
         then AList.update a (Some (byteItemValue defs rel bases chunk i mod 256)) im
         else write16be im a (read16be im a * 2 mod 65536))"

definition fixChunks ::
  "(rel_chunk \<Rightarrow> bool) \<Rightarrow> (rel_chunk \<Rightarrow> reloc_item \<Rightarrow> image \<Rightarrow> image) \<Rightarrow> parsed_rel \<Rightarrow> image \<Rightarrow> image" where
  "fixChunks sel item rel im =
     fold (\<lambda>chunk. fold (item chunk) (rc_items chunk)) (filter sel (pr_chunks rel)) im"

definition applyMn1613WordAddrFixup :: "parsed_rel list \<Rightarrow> link_defs \<Rightarrow> image \<Rightarrow> image" where
  "applyMn1613WordAddrFixup rels defs im =
     fold (\<lambda>(rel, bases). fixChunks (\<lambda>_. True) (mn1613Item defs rel bases) rel)
       (zip rels (moduleAreaBases rels defs)) im"

definition applyTms9995ByteAddrFixup :: "parsed_rel list \<Rightarrow> link_defs \<Rightarrow> image \<Rightarrow> image" where
  "applyTms9995ByteAddrFixup rels defs im =
     fold (\<lambda>(rel, bases). fixChunks (\<lambda>c. rc_areaName c = ''_VECTOR'') (tms9995Item defs rel bases) rel)
       (zip rels (moduleAreaBases rels defs)) im"

subsection \<open>Linking\<close>

datatype link_error = NoInputs | SdldFailed | NoImage | UndefinedByte

record link_result =
  lr_hexText :: string
  lr_cdbText :: string
  lr_mapText :: string
  lr_image :: "nat list"
  lr_defs :: link_defs

text \<open>\<^verbatim>\<open>/^A\s+(\S+)/\<close>: the areas that occur in an object file.\<close>

definition areaOfLine :: "string \<Rightarrow> string list" where
  "areaOfLine line =
     (let r = dropWhile isJsSpace (tl line)
      in if line \<noteq> [] \<and> hd line = CHR ''A'' \<and> tl line \<noteq> [] \<and> isJsSpace (hd (tl line)) \<and> r \<noteq> []
         then [takeWhile (\<lambda>c. \<not> isJsSpace c) r] else [])"

definition presentAreasOf :: "string list \<Rightarrow> string set" where
  "presentAreasOf texts = set (concat (map (\<lambda>s. concat (map areaOfLine (splitLines (unixLines s)))) texts))"

text \<open>The value of an area symbol, under either of its spellings.\<close>

definition areaSymbol :: "link_defs \<Rightarrow> string \<Rightarrow> string \<Rightarrow> nat option" where
  "areaSymbol defs kind name =
     (case defLookup defs (kind @ ''__'' @ name) of
        Some v \<Rightarrow> Some v | None \<Rightarrow> defLookup defs (kind @ ''_'' @ name))"

text \<open>The bases that the first map gives for the second run: \<open>_CODE\<close> after \<open>_BIOS\<close>, \<open>_DATA\<close> after \<open>_CODE\<close>, \<open>_WORK\<close> after \<open>_DATA\<close>.\<close>

definition extraBases :: "link_defs \<Rightarrow> string set \<Rightarrow> (string \<times> nat) list" where
  "extraBases defs present =
     (let codeLen = firstDefined [areaSymbol defs ''l'' ''CODE''];
          biosEnd = (firstDefined [areaSymbol defs ''s'' ''BIOS''] + firstDefined [areaSymbol defs ''l'' ''BIOS'']) mod 2 ^ 32;
          codeB = (if ''_BIOS'' \<in> present \<and> ''_CODE'' \<in> present then [(''_CODE'', biosEnd)] else []);
          codeStart = (if codeB \<noteq> [] then biosEnd else firstDefined [areaSymbol defs ''s'' ''CODE'']);
          codeEnd = (codeStart + codeLen) mod 2 ^ 32;
          dataB = (if ''_DATA'' \<in> present then [(''_DATA'', codeEnd)] else []);
          dataLen = firstDefined [areaSymbol defs ''l'' ''DATA''];
          dataStart = (if dataB \<noteq> [] then Some codeEnd else areaSymbol defs ''s'' ''DATA'');
          workB = (if ''_WORK'' \<in> present
                   then [(''_WORK'', case dataStart of Some d \<Rightarrow> (d + dataLen) mod 2 ^ 32 | None \<Rightarrow> codeEnd)] else [])
      in codeB @ dataB @ workB)"

text \<open>
  \<^verbatim>\<open>linkRelsWithSdld\<close>: the linker runs once, and a second time with the bases of the first map.  A
  run gives the map and, if it wrote one, the image; the files of the last run remain.
\<close>

definition linkRelsWithSdld ::
  "(string \<Rightarrow> (string \<times> string option) option) \<Rightarrow> (string \<Rightarrow> string \<Rightarrow> bool) \<Rightarrow> (string \<times> string) list \<Rightarrow> bool \<Rightarrow>
   string \<Rightarrow> link_error + link_result" where
  "linkRelsWithSdld sdld leq rels wordAddrFixup outName =
     (if rels = [] then Inl NoInputs
      else
        (let paths = map fst rels; texts = map snd rels; present = presentAreasOf texts in
         case sdld (buildSdldLnk paths [] outName (Some present)) of
           None \<Rightarrow> Inl SdldFailed
         | Some (firstMap, ihx1) \<Rightarrow>
             (let extraB = extraBases (parseSdldMapSymbols firstMap) present in
              case (if extraB = [] then Some (firstMap, ihx1) else sdld (buildSdldLnk paths extraB outName (Some present))) of
                None \<Rightarrow> Inl SdldFailed
              | Some (mapText, ihx) \<Rightarrow>
                  (case ihx of
                     None \<Rightarrow> Inl NoImage
                   | Some hex \<Rightarrow>
                       (let defs = parseSdldMapSymbols mapText; parsed = map parseRelChunks texts;
                            im = (if wordAddrFixup then applyMn1613WordAddrFixup else applyTms9995ByteAddrFixup)
                              parsed defs (parseIntelHex hex)
                        in case bytesToIntelHex im of
                             None \<Rightarrow> Inl UndefinedByte
                           | Some out \<Rightarrow> Inr \<lparr>lr_hexText = out, lr_cdbText = defsToCdbFromSdld leq defs,
                               lr_mapText = mapText, lr_image = hexBytesToImage im, lr_defs = defs\<rparr>)))))"

end
