(* ===== verification/Link_Props.thy ===== *)
theory Link_Props
  imports Text_Lines Asm_Link
begin

text \<open>
  The files of the link step: what is written as Intel HEX is read back, what is written as an
  object file is read back, and the correction of addresses touches the relocated fields only.
\<close>

subsection \<open>Bytes as text\<close>

definition hexUpper :: "nat \<Rightarrow> char" where
  "hexUpper d = upperChar (hexDigit d)"

lemma hexUpper_facts:
  assumes "d < 16"
  shows "isHex (hexUpper d) \<and> hexDigitOf (hexUpper d) = d \<and> \<not> isJsSpace (hexUpper d) \<and> hexUpper d \<noteq> CHR '':''"
proof -
  have "\<forall>d<16. isHex (hexUpper d) \<and> hexDigitOf (hexUpper d) = d \<and> \<not> isJsSpace (hexUpper d) \<and> hexUpper d \<noteq> CHR '':''"
    unfolding all_less_16
    by (simp add: hexUpper_def hexDigit_def upperChar_def isHex_def isDigit_def inRange_def isJsSpace_def
        hexDigitOf_def charDigit_def Let_def)
  then show ?thesis using assms by blast
qed

lemma padded_two:
  assumes "b < 256"
  shows "toUpperCase (padStart0 2 (toString16 b)) = [hexUpper (b div 16), hexUpper (b mod 16)]"
proof (cases "b < 16")
  case True
  then show ?thesis
    by (subst toString16.simps) (simp add: padStart0_def toUpperCase_def hexUpper_def hexDigit_def)
next
  case False
  then have "b div 16 < 16" using assms by auto
  with False show ?thesis
    by (subst toString16.simps, subst toString16.simps) (simp add: padStart0_def toUpperCase_def hexUpper_def)
qed

lemma byteText_two: "b < 256 \<Longrightarrow> byteText b = [hexUpper (b div 16), hexUpper (b mod 16)]"
  by (simp add: byteText_def padded_two)

lemma hexBytes_byteText:
  assumes "b < 256"
  shows "hexBytes (byteText b @ s) = b # hexBytes s"
proof -
  have "b div 16 < 16" "b mod 16 < 16" using assms by auto
  then show ?thesis by (simp add: byteText_two assms hexUpper_facts)
qed

lemma hexBytes_record: "\<forall>b\<in>set bs. b < 256 \<Longrightarrow> hexBytes (concat (map byteText bs)) = bs"
  by (induction bs) (simp_all add: hexBytes_byteText)

subsection \<open>Groups of addresses\<close>

lemma consecutive_upt: "consecutive a n as = [a ..< a + length (consecutive a n as)]"
  by (induction a n as rule: consecutive.induct) (auto simp: upt_conv_Cons simp del: upt_Suc)

lemma consecutive_prefix: "consecutive a n as @ drop (length (consecutive a n as)) as = as"
  by (induction a n as rule: consecutive.induct) auto

lemma consecutive_length: "length (consecutive a n as) \<le> n"
  by (induction a n as rule: consecutive.induct) auto

lemma consecutive_start: "consecutive a 16 (a # as) \<noteq> []"
  by (simp add: eval_nat_numeral)

lemma concat_hexGroups: "concat (hexGroups as) = as"
proof (induction as rule: hexGroups.induct)
  case (2 a as)
  have "concat (hexGroups (a # as)) = consecutive a 16 (a # as) @ drop (length (consecutive a 16 (a # as))) (a # as)"
    using "2.IH" [OF refl] by (subst hexGroups.simps) (simp add: Let_def)
  then show ?case by (simp only: consecutive_prefix)
qed (simp add: hexGroups.simps)

definition goodGroup :: "nat list \<Rightarrow> bool" where
  "goodGroup g \<longleftrightarrow> g \<noteq> [] \<and> length g \<le> 16 \<and> g = [hd g ..< hd g + length g]"

lemma hexGroups_good: "\<forall>g\<in>set (hexGroups as). goodGroup g"
proof (induction as rule: hexGroups.induct)
  case (2 a as)
  let ?g = "consecutive a 16 (a # as)"
  have u: "?g = [a ..< a + length ?g]" by (rule consecutive_upt)
  have "hd ?g = a" using consecutive_start [of a as] by (subst u) (simp add: hd_upt)
  then have "goodGroup ?g"
    using u consecutive_start consecutive_length by (simp add: goodGroup_def)
  then show ?case using "2.IH" [OF refl] by (subst hexGroups.simps) (simp add: Let_def)
qed (simp add: hexGroups.simps)


subsection \<open>Records\<close>

lemma trim_solid: "s \<noteq> [] \<Longrightarrow> \<not> isJsSpace (hd s) \<Longrightarrow> \<not> isJsSpace (last s) \<Longrightarrow> trim s = s"
  by (simp add: trim_def dropWhile_eq_self_iff [THEN iffD2] hd_rev)

lemma trim_noSpace: "s \<noteq> [] \<Longrightarrow> \<forall>c\<in>set s. \<not> isJsSpace c \<Longrightarrow> trim s = s"
  by (rule trim_solid) auto

lemma set_byteText: "b < 256 \<Longrightarrow> c \<in> set (byteText b) \<Longrightarrow> isHex c \<and> \<not> isJsSpace c"
  using hexUpper_facts [of "b div 16"] hexUpper_facts [of "b mod 16"] less_mult_imp_div_less [of b 16 16]
  by (auto simp: byteText_two)

lemma checksum_byte: "hexChecksum bs < 256"
  by (simp add: hexChecksum_def)

text \<open>The bytes of a record.\<close>

definition recordBytes :: "nat \<Rightarrow> nat list \<Rightarrow> nat list" where
  "recordBytes start bs =
     (let r = [length bs, start div 256 mod 256, start mod 256, 0] @ bs in r @ [hexChecksum r])"

definition recordText :: "nat \<Rightarrow> nat list \<Rightarrow> string" where
  "recordText start bs = '':'' @ concat (map byteText (recordBytes start bs))"

lemma recordBytes_small:
  "\<forall>b\<in>set bs. b < 256 \<Longrightarrow> length bs \<le> 16 \<Longrightarrow> \<forall>b\<in>set (recordBytes start bs). b < 256"
  by (auto simp: recordBytes_def Let_def checksum_byte)

lemma recordText_chars:
  assumes "\<forall>b\<in>set bs. b < 256" "length bs \<le> 16" "c \<in> set (recordText start bs)"
  shows "c = CHR '':'' \<or> isHex c \<and> \<not> isJsSpace c"
  using assms recordBytes_small [OF assms(1,2)] by (auto simp: recordText_def dest: set_byteText)

lemma colon_not_space: "\<not> isJsSpace (CHR '':'')"
  by (simp add: isJsSpace_def)

lemma oneLine_solid: "\<forall>c\<in>set l. \<not> isJsSpace c \<Longrightarrow> oneLine l"
  by (auto simp: oneLine_def isJsSpace_def)

lemma recordText_solid:
  assumes "\<forall>b\<in>set bs. b < 256" "length bs \<le> 16"
  shows "\<forall>c\<in>set (recordText start bs). \<not> isJsSpace c"
  using recordText_chars [OF assms] colon_not_space by blast

lemma hexRecord_recordText:
  assumes "\<forall>b\<in>set bs. b < 256" "length bs \<le> 16" "start < 65536"
  shows "hexRecord (recordText start bs) im = putBytes start (map Some bs) im"
proof -
  have ne: "recordText start bs \<noteq> []" by (simp add: recordText_def)
  have s: "trim (recordText start bs) = recordText start bs"
    by (rule trim_noSpace [OF ne recordText_solid [OF assms(1,2)]])
  have b: "hexBytes (tl (recordText start bs)) = recordBytes start bs"
    using hexBytes_record [OF recordBytes_small [OF assms(1,2)]] by (simp add: recordText_def)
  have n: "length (recordBytes start bs) = length bs + 5" "recordBytes start bs ! 0 = length bs"
    "256 * (recordBytes start bs ! 1) + recordBytes start bs ! 2 = start" "recordBytes start bs ! 3 = 0"
    using assms(3) by (auto simp: recordBytes_def Let_def)
  have d: "map (\<lambda>i. if 4 + i < length (recordBytes start bs) then Some (recordBytes start bs ! (4 + i)) else None)
      [0 ..< length bs] = map Some bs"
    by (rule nth_equalityI) (auto simp: recordBytes_def Let_def nth_append)
  have "hd (recordText start bs) = CHR '':''" by (simp add: recordText_def)
  then show ?thesis unfolding hexRecord_def Let_def s b n(2,3,4) d using ne n(1) by simp
qed

lemma map_of_putBytes:
  "map_of (putBytes a bs im) x = (if a \<le> x \<and> x < a + length bs then Some (bs ! (x - a)) else map_of im x)"
proof (induction bs arbitrary: a im)
  case (Cons b bs)
  show ?case
  proof (cases "x = a")
    case True
    then show ?thesis using Cons.IH [of "a + 1"] by (auto simp: update_conv)
  next
    case False
    then have "x - a = Suc (x - Suc a)" if "a \<le> x" using that by auto
    with False show ?thesis using Cons.IH [of "a + 1"] by (auto simp: update_conv)
  qed
qed auto

text \<open>What the records of groups of addresses leave in the image.\<close>

lemma fold_records:
  assumes "\<forall>g\<in>set gs. goodGroup g \<and> (\<forall>a\<in>set g. a < 65536 \<and> (\<exists>b<256. f a = b))"
  shows "map_of (fold hexRecord (map (\<lambda>g. recordText (hd g) (map f g)) gs) im) x =
    (if x \<in> set (concat gs) then Some (Some (f x)) else map_of im x)"
  using assms
proof (induction gs arbitrary: im)
  case (Cons g gs)
  have g: "g \<noteq> []" "length g \<le> 16" "g = [hd g ..< hd g + length g]" "\<forall>b\<in>set (map f g). b < 256"
    using Cons.prems by (auto simp: goodGroup_def)
  have h: "hd g < 65536" using Cons.prems g(1) by (cases g) auto
  have r: "hexRecord (recordText (hd g) (map f g)) im = putBytes (hd g) (map Some (map f g)) im"
    by (rule hexRecord_recordText) (use g h in auto)
  have s: "x \<in> set g \<longleftrightarrow> hd g \<le> x \<and> x < hd g + length g"
    by (subst g(3)) auto
  have "g ! (x - hd g) = x" if "hd g \<le> x" "x < hd g + length g"
    by (subst g(3)) (use that in simp)
  then show ?case using Cons r s by (auto simp: map_of_putBytes)
qed simp

lemma mapO_Some: "(\<And>x. x \<in> set xs \<Longrightarrow> f x = Some (g x)) \<Longrightarrow> mapO f xs = Some (map g xs)"
  by (induction xs) auto

definition byteImage :: "image \<Rightarrow> bool" where
  "byteImage im \<longleftrightarrow> list_all (\<lambda>(a, b). a < 65536 \<and> (case b of None \<Rightarrow> False | Some v \<Rightarrow> v < 256)) im"

lemma byteImage_at:
  assumes "byteImage im" "a \<in> set (map fst im)"
  shows "a < 65536 \<and> map_of im a = Some (Some (byteIn im a)) \<and> byteIn im a < 256"
proof -
  obtain b where b: "map_of im a = Some b" using assms(2) by (metis map_of_eq_None_iff not_None_eq set_map)
  then have "(a, b) \<in> set im" by (rule map_of_SomeD)
  with assms(1) b show ?thesis by (auto simp: byteImage_def list_all_iff byteIn_def split: option.splits)
qed

lemma joinLines_end: "joinLines (ls @ [l]) @ [char_of (10 :: nat)] = joinLines (ls @ [l, []])"
  by (induction ls) (auto simp: joinLines_Cons)

text \<open>The text of an image: a record for every group of addresses, and the end.\<close>

definition imageLine :: "image \<Rightarrow> nat list \<Rightarrow> string" where
  "imageLine im g = recordText (hd g) (map (byteIn im) g)"

lemma group_at:
  assumes "byteImage im" "g \<in> set (hexGroups (sort (map fst im)))" "a \<in> set g"
  shows "a < 65536 \<and> map_of im a = Some (Some (byteIn im a)) \<and> byteIn im a < 256"
proof (rule byteImage_at [OF assms(1)])
  have "a \<in> set (concat (hexGroups (sort (map fst im))))" using assms by auto
  then show "a \<in> set (map fst im)" by (simp only: concat_hexGroups set_sort)
qed

lemma hex_text:
  assumes "byteImage im"
  shows "bytesToIntelHex im =
      Some (joinLines (map (imageLine im) (hexGroups (sort (map fst im))) @ ['':00000001FF'', []]))"
    and "\<forall>l\<in>set (map (imageLine im) (hexGroups (sort (map fst im))) @ ['':00000001FF'', []]). oneLine l"
proof -
  let ?gs = "hexGroups (sort (map fst im))"
  note at = group_at [OF assms]
  have line: "hexLine im g = Some (imageLine im g)" if g: "g \<in> set ?gs" for g
  proof -
    have ch: "map (\<lambda>a. the (map_of im a)) g = map (\<lambda>a. Some (byteIn im a)) g"
      by (rule map_cong) (use at [OF g] in auto)
    show ?thesis
      by (simp only: hexLine_def Let_def ch) (auto simp: imageLine_def recordText_def recordBytes_def Let_def comp_def)
  qed
  have "mapO (hexLine im) ?gs = Some (map (imageLine im) ?gs)" by (rule mapO_Some) (rule line)
  then show "bytesToIntelHex im = Some (joinLines (map (imageLine im) ?gs @ ['':00000001FF'', []]))"
    using joinLines_end [of "map (imageLine im) ?gs" "'':00000001FF''"] by (simp add: bytesToIntelHex_def)
  have "oneLine (imageLine im g)" if g: "g \<in> set ?gs" for g
    unfolding imageLine_def
  proof (rule oneLine_solid [OF recordText_solid])
    show "length (map (byteIn im) g) \<le> 16" using hexGroups_good g by (auto simp: goodGroup_def)
  qed (use at [OF g] in auto)
  moreover have "oneLine '':00000001FF''" "oneLine []" by code_simp+
  ultimately show "\<forall>l\<in>set (map (imageLine im) ?gs @ ['':00000001FF'', []]). oneLine l" by auto
qed

text \<open>
  C23. an image of bytes below 64 K survives the way through Intel HEX.
\<close>

theorem intel_hex_roundtrip:
  assumes "byteImage im"
  shows "\<exists>t. bytesToIntelHex im = Some t \<and> map_of (parseIntelHex t) = map_of im"
proof -
  let ?gs = "hexGroups (sort (map fst im))"
  let ?ls = "map (imageLine im) ?gs @ ['':00000001FF'', []]"
  have "map_of (parseIntelHex (joinLines ?ls)) x = map_of im x" for x
  proof -
    have "parseIntelHex (joinLines ?ls) = fold hexRecord ?ls []"
      using lines_text [OF hex_text(2) [OF assms]] by (simp add: parseIntelHex_def)
    also have "\<dots> = fold hexRecord (map (\<lambda>g. recordText (hd g) (map (byteIn im) g)) ?gs) []"
      by (simp add: hexRecord_def [of "'':00000001FF''"] hexRecord_def [of "[]"] imageLine_def [abs_def]) code_simp
    finally have "map_of (parseIntelHex (joinLines ?ls)) x =
      (if x \<in> set (concat ?gs) then Some (Some (byteIn im x)) else map_of [] x)"
      using fold_records [of ?gs "byteIn im" "[]" x] hexGroups_good group_at [OF assms] by auto
    moreover have "map_of im x = None" if "x \<notin> set (map fst im)" using that by (simp add: map_of_eq_None_iff)
    ultimately show ?thesis
      using byteImage_at [OF assms, of x] by (simp only: concat_hexGroups set_sort) auto
  qed
  with hex_text(1) [OF assms] show ?thesis by blast
qed

theorem intel_hex_roundtrip_witness:
  "\<exists>t. bytesToIntelHex [(257, Some 7), (256, Some 255)] = Some t \<and> map_of (parseIntelHex t) 256 = Some (Some 255)"
proof -
  have "byteImage [(257, Some 7), (256, Some 255)]" by (simp add: byteImage_def)
  from intel_hex_roundtrip [OF this] obtain t where
    "bytesToIntelHex [(257, Some 7), (256, Some 255)] = Some t"
    "map_of (parseIntelHex t) = map_of [(257, Some 7), (256, Some 255)]" by blast
  then show ?thesis by (intro exI [of _ t]) simp
qed

subsection \<open>Correction of word addresses\<close>

text \<open>The two bytes of a field.\<close>

definition fieldOf :: "image \<Rightarrow> nat \<Rightarrow> nat option option \<times> nat option option" where
  "fieldOf im a = (map_of im a, map_of im (a + 1))"

lemma byteIn_update: "byteIn (AList.update a (Some v) im) x = (if x = a then v else byteIn im x)"
  by (simp add: byteIn_def update_conv)

lemma read16be_write16be: "v < 65536 \<Longrightarrow> read16be (write16be im a v) a = v"
  by (simp add: read16be_def write16be_def byteIn_update)

lemma map_of_write16be:
  "x \<noteq> a \<Longrightarrow> x \<noteq> a + 1 \<Longrightarrow> map_of (write16be im a v) x = map_of im x"
  by (simp add: write16be_def update_conv)

text \<open>The bytes that an item patches.\<close>

definition patched :: "nat \<Rightarrow> rel_chunk \<Rightarrow> reloc_item \<Rightarrow> nat set" where
  "patched base chunk i =
     (let a = itemAddr base chunk i in if hasBit (ri_mode i) 0 then {a} else {a, a + 1})"

definition chunkBase :: "(string \<times> nat) list \<Rightarrow> rel_chunk \<Rightarrow> nat" where
  "chunkBase bases chunk = firstDefined [map_of bases (rc_areaName chunk)]"

lemma mn1613Item_frame:
  "x \<notin> patched (chunkBase bases chunk) chunk i \<Longrightarrow> map_of (mn1613Item defs rel bases chunk i im) x = map_of im x"
  by (auto simp: mn1613Item_def patched_def chunkBase_def Let_def update_conv map_of_write16be split: if_splits)

text \<open>All items of all chunks of an object file, in order.\<close>

definition allItems :: "parsed_rel \<Rightarrow> (rel_chunk \<times> reloc_item) list" where
  "allItems rel = concat (map (\<lambda>c. map (\<lambda>i. (c, i)) (rc_items c)) (pr_chunks rel))"

lemma fixChunks_items:
  "fixChunks (\<lambda>_. True) item rel im = fold (\<lambda>(c, i). item c i) (allItems rel) im"
proof -
  have "fold (\<lambda>chunk. fold (item chunk) (rc_items chunk)) cs im =
    fold (\<lambda>(c, i). item c i) (concat (map (\<lambda>c. map (\<lambda>i. (c, i)) (rc_items c)) cs)) im" for cs
    by (induction cs arbitrary: im) (simp_all add: fold_map comp_def)
  then show ?thesis by (simp add: fixChunks_def allItems_def)
qed

lemma fold_frame:
  "\<forall>(c, i)\<in>set its. x \<notin> patched (chunkBase bases c) c i \<Longrightarrow>
    map_of (fold (\<lambda>(c, i). mn1613Item defs rel bases c i) its im) x = map_of im x"
  by (induction its arbitrary: im) (auto simp: mn1613Item_frame)

text \<open>
  The correction for the MN1613 halves every 16-bit field that a relocation names, and changes
  no byte outside the relocated fields, when the fields of an object file do not overlap.
\<close>

lemma word_fixup_halves:
  assumes "allItems rel = before @ (c, i) # after"
    and "\<forall>(c', i')\<in>set (before @ after).
      patched (chunkBase bases c') c' i' \<inter> patched (chunkBase bases c) c i = {}"
    and "\<not> hasBit (ri_mode i) 0"
  shows "read16be (fixChunks (\<lambda>_. True) (mn1613Item defs rel bases) rel im) (itemAddr (chunkBase bases c) c i)
    = read16be im (itemAddr (chunkBase bases c) c i) div 2 \<and>
    (\<forall>x. (\<forall>(c', i')\<in>set (allItems rel). x \<notin> patched (chunkBase bases c') c' i') \<longrightarrow>
      map_of (fixChunks (\<lambda>_. True) (mn1613Item defs rel bases) rel im) x = map_of im x)"
proof -
  let ?a = "itemAddr (chunkBase bases c) c i"
  let ?fold = "\<lambda>its. fold (\<lambda>(c, i). mn1613Item defs rel bases c i) its"
  have p: "patched (chunkBase bases c) c i = {?a, ?a + 1}" using assms(3) by (simp add: patched_def Let_def)
  have keep: "read16be (?fold its jm) ?a = read16be jm ?a" if "set its \<subseteq> set (before @ after)" for its jm
  proof -
    have "map_of (?fold its jm) y = map_of jm y" if "y \<in> {?a, ?a + 1}" for y
      by (rule fold_frame) (use assms(2) p that \<open>set its \<subseteq> set (before @ after)\<close> in fastforce)
    then show ?thesis by (simp add: read16be_def byteIn_def)
  qed
  have "read16be (mn1613Item defs rel bases c i jm) ?a = read16be jm ?a div 2" for jm
  proof -
    have "read16be jm ?a div 2 < 65536" by (simp add: read16be_def)
    then show ?thesis using assms(3) by (simp add: mn1613Item_def chunkBase_def Let_def read16be_write16be)
  qed
  then have "read16be (fixChunks (\<lambda>_. True) (mn1613Item defs rel bases) rel im) ?a = read16be im ?a div 2"
    using keep by (simp add: fixChunks_items assms(1))
  then show ?thesis by (auto simp: fixChunks_items intro!: fold_frame)
qed


text \<open>A file with one chunk: its first word is a relocated address, its second one is not.\<close>

definition smallRel :: parsed_rel where
  "smallRel = \<lparr>pr_areas = [''_CODE''], pr_areaSizes = [(''_CODE'', 4)], pr_symbols = [],
     pr_chunks = [\<lparr>rc_areaName = ''_CODE'', rc_tAddr = 0, rc_data = [0, 6, 1, 2],
       rc_items = [\<lparr>ri_mode = 0, ri_rtp = 2, ri_index = 0\<rparr>]\<rparr>]\<rparr>"

lemma smallRel_facts:
  "allItems smallRel = [] @ (hd (pr_chunks smallRel), hd (rc_items (hd (pr_chunks smallRel)))) # []"
  "\<forall>(c', i')\<in>set ([] @ []). patched (chunkBase bases c') c' i' \<inter>
    patched (chunkBase bases (hd (pr_chunks smallRel))) (hd (pr_chunks smallRel)) (hd (rc_items (hd (pr_chunks smallRel)))) = {}"
  "\<not> hasBit (ri_mode (hd (rc_items (hd (pr_chunks smallRel))))) 0"
  by (simp_all add: allItems_def smallRel_def hasBit_def)

lemma smallRel_at:
  "itemAddr (chunkBase [(''_CODE'', 512)] (hd (pr_chunks smallRel))) (hd (pr_chunks smallRel))
    (hd (rc_items (hd (pr_chunks smallRel)))) = 512"
  "read16be [(512, Some 2), (513, Some 6), (514, Some 1), (515, Some 2)] 512 = 518"
  by (simp_all add: itemAddr_def chunkBase_def smallRel_def read16be_def byteIn_def)

theorem word_fixup_halves_witness:
  "read16be (fixChunks (\<lambda>_. True) (mn1613Item [] smallRel [(''_CODE'', 512)]) smallRel
     [(512, Some 2), (513, Some 6), (514, Some 1), (515, Some 2)]) 512 = 259"
  using word_fixup_halves [OF smallRel_facts, where bases = "[(''_CODE'', 512)]" and defs = "[]"
    and im = "[(512, Some 2), (513, Some 6), (514, Some 1), (515, Some 2)]"]
  by (simp only: smallRel_at)



text \<open>Above that, the highest bit of the word address is lost: the word 0x8001 becomes 1.\<close>

lemma high_word_lost: "unat (absPlaceholder CpuMn1613 (RelWord 0x8001 area) 0x8001) div 2 = 1"
  by (simp add: absPlaceholder_def)

end
