(* ===== verification/Rel_Props.thy ===== *)
theory Rel_Props
  imports Link_Props Encoder_Text
begin

text \<open>
  The object file that the assembler writes is read back by the link step: areas, symbols, the bytes
  of every word with their addresses, and the relocations.
\<close>

subsection \<open>Fields of a line\<close>

definition solid :: "string \<Rightarrow> bool" where
  "solid w \<longleftrightarrow> w \<noteq> [] \<and> list_all (\<lambda>c. \<not> isJsSpace c) w"

lemma solid_facts: "solid w \<Longrightarrow> w \<noteq> []" "solid w \<Longrightarrow> c \<in> set w \<Longrightarrow> \<not> isJsSpace c"
  by (auto simp: solid_def list_all_iff)

lemma space_is: "isJsSpace (CHR '' '')"
  by (simp add: isJsSpace_def)

lemma fieldsOf_word:
  assumes "solid w"
  shows "fieldsOf isJsSpace w = [w]" "fieldsOf isJsSpace (w @ CHR '' '' # s) = w # fieldsOf isJsSpace s"
proof -
  obtain c cs where w: "w = c # cs" using assms by (cases w) (auto simp: solid_def)
  have "\<not> isJsSpace c" "\<forall>x\<in>set cs. \<not> isJsSpace x" using assms by (auto simp: solid_def w list_all_iff)
  then show "fieldsOf isJsSpace w = [w]" "fieldsOf isJsSpace (w @ CHR '' '' # s) = w # fieldsOf isJsSpace s"
    using space_is by (auto simp: w fieldsOf.simps takeWhile_eq_all_conv [THEN iffD2] dropWhile_eq_Nil_conv [THEN iffD2])
qed

lemma joinWith_Cons: "ws \<noteq> [] \<Longrightarrow> joinWith sep (w # ws) = w @ sep @ joinWith sep ws"
  by (cases ws) auto

lemma joinWith_append: "xs \<noteq> [] \<Longrightarrow> ys \<noteq> [] \<Longrightarrow> joinWith sep (xs @ ys) = joinWith sep xs @ sep @ joinWith sep ys"
proof (induction xs)
  case (Cons x xs)
  then show ?case by (cases "xs = []") (simp_all add: joinWith_Cons)
qed simp

lemma fieldsOf_join: "\<forall>w\<in>set ws. solid w \<Longrightarrow> fieldsOf isJsSpace (joinWith '' '' ws) = ws"
  by (induction "'' ''" ws rule: joinWith.induct) (simp_all add: fieldsOf.simps fieldsOf_word)

lemma joinWith_ends:
  assumes "ws \<noteq> []" "\<forall>w\<in>set ws. solid w"
  shows "joinWith '' '' ws \<noteq> []" "\<not> isJsSpace (hd (joinWith '' '' ws))" "\<not> isJsSpace (last (joinWith '' '' ws))"
proof -
  have "joinWith '' '' ws \<noteq> [] \<and> \<not> isJsSpace (hd (joinWith '' '' ws)) \<and> \<not> isJsSpace (last (joinWith '' '' ws))"
    using assms
  proof (induction ws)
    case (Cons w ws)
    then show ?case by (cases ws) (auto simp: solid_facts)
  qed simp
  then show "joinWith '' '' ws \<noteq> []" "\<not> isJsSpace (hd (joinWith '' '' ws))" "\<not> isJsSpace (last (joinWith '' '' ws))"
    by blast+
qed

lemma fields_line:
  "ws \<noteq> [] \<Longrightarrow> \<forall>w\<in>set ws. solid w \<Longrightarrow> fieldsOf isJsSpace (trim (joinWith '' '' ws)) = ws"
  by (simp add: trim_solid joinWith_ends fieldsOf_join)

lemma oneLine_joined: "\<forall>w\<in>set ws. solid w \<Longrightarrow> oneLine (joinWith '' '' ws)"
proof (induction ws)
  case (Cons w ws)
  have "oneLine w" using Cons.prems by (auto simp: solid_def list_all_iff oneLine_def isJsSpace_def)
  moreover have "char_of (10 :: nat) \<noteq> CHR '' ''" "char_of (13 :: nat) \<noteq> CHR '' ''" by code_simp+
  ultimately show ?case using Cons by (cases "ws = []") (simp_all add: joinWith_Cons oneLine_def)
qed (simp add: oneLine_def)

subsection \<open>Numbers\<close>

lemma charDigit_hexUpper: "d < 16 \<Longrightarrow> charDigit (hexUpper d) = int d"
proof -
  have "\<forall>d<16. charDigit (hexUpper d) = int d"
    unfolding all_less_16 by (simp add: hexUpper_def hexDigit_def upperChar_def charDigit_def Let_def)
  then show "d < 16 \<Longrightarrow> charDigit (hexUpper d) = int d" by blast
qed

lemma upper_toString16:
  "positional 16 (toUpperCase (toString16 n)) = int n \<and> list_all (\<lambda>c. isHex c \<and> \<not> isJsSpace c) (toUpperCase (toString16 n))"
proof (induction n rule: less_induct)
  case (less n)
  show ?case
  proof (cases "n < 16")
    case True
    then show ?thesis using hexUpper_facts [of n] charDigit_hexUpper [of n]
      by (simp add: toString16.simps [of n] toUpperCase_def positional_def hexUpper_def)
  next
    case False
    then have "n div 16 < n" "n mod 16 < 16" by auto
    then show ?thesis using False less.IH [of "n div 16"] hexUpper_facts [of "n mod 16"] charDigit_hexUpper [of "n mod 16"]
      by (simp add: toString16.simps [of n] toUpperCase_def positional_snoc hexUpper_def zdiv_int zmod_int)
  qed
qed

lemma padded_upper:
  "positional 16 (padStart0 k (toUpperCase (toString16 n))) = int n \<and>
    list_all (\<lambda>c. isHex c \<and> \<not> isJsSpace c) (padStart0 k (toUpperCase (toString16 n)))"
proof -
  have "isHex (CHR ''0'') \<and> \<not> isJsSpace (CHR ''0'')"
    by (simp add: isHex_def isDigit_def inRange_def isJsSpace_def)
  then show ?thesis using upper_toString16 [of n] by (simp add: positional_pad) (auto simp: padStart0_def list_all_iff)
qed

lemma hexNumber_padded: "hexNumber (padStart0 k (toUpperCase (toString16 n))) = n"
proof -
  have "takeWhile isHex (padStart0 k (toUpperCase (toString16 n))) = padStart0 k (toUpperCase (toString16 n))"
    using padded_upper [of k n] by (auto simp: takeWhile_eq_all_conv list_all_iff)
  then show ?thesis using padded_upper [of k n] by (simp only: hexNumber_def nat_int)
qed

lemma solid_padded: "solid (padStart0 k (toUpperCase (toString16 n)))"
  using padded_upper [of k n] toString16_nonempty [of n]
  by (auto simp: solid_def list_all_iff padStart0_def toUpperCase_def)

lemma hexNumber_rel [simp]:
  "hexNumber (relHex2 v) = nat (v mod 256)" "hexNumber (relHex4 v) = nat (v mod 65536)"
  by (simp_all add: relHex2_def relHex4_def hexNumber_padded)

lemma solid_rel [simp]: "solid (relHex2 v)" "solid (relHex4 v)"
  by (simp_all add: relHex2_def relHex4_def solid_padded)


subsection \<open>Lines of the file\<close>

lemma beWord_fields: "beWord v = joinWith '' '' [relHex2 (v div 256), relHex2 v]"
  by (simp add: beWord_def)

lemma beWord_number: "256 * nat (v div 256 mod 256) + nat (v mod 256) = nat (v mod 65536)"
proof -
  have "v mod 65536 = 256 * (v div 256 mod 256) + v mod 256"
    using zmod_zmult2_eq [of 256 v 256] by simp
  moreover have "0 \<le> v div 256 mod 256" "0 \<le> v mod 256" by simp_all
  ultimately show ?thesis by (simp add: nat_add_distrib nat_mult_distrib)
qed

text \<open>Lines as their fields.\<close>

definition textFields :: "int \<Rightarrow> nat list \<Rightarrow> string list" where
  "textFields a bytes = ''T'' # relHex2 (a div 256) # relHex2 a # map (\<lambda>b. relHex2 (int b)) bytes"

definition itemFields :: "reloc_item \<Rightarrow> string list" where
  "itemFields i = [relHex2 (int (ri_mode i)), relHex2 (int (ri_rtp i)), relHex2 (int (ri_index i) div 256),
     relHex2 (int (ri_index i))]"

definition relocFields :: "nat \<Rightarrow> reloc_item list \<Rightarrow> string list" where
  "relocFields idx items =
     [''R'', relHex2 0, relHex2 0, relHex2 (int idx div 256), relHex2 (int idx)] @ concat (map itemFields items)"

lemma join_items: "items \<noteq> [] \<Longrightarrow> joinWith '' '' (map itemText items) = joinWith '' '' (concat (map itemFields items))"
proof (induction items)
  case (Cons i items)
  have i: "itemText i = joinWith '' '' (itemFields i)" "itemFields i \<noteq> []"
    by (simp_all add: itemText_def itemFields_def beWord_def)
  show ?case
  proof (cases "items = []")
    case True
    then show ?thesis using i by simp
  next
    case False
    then have "concat (map itemFields items) \<noteq> []" by (cases items) (auto simp: itemFields_def)
    then show ?thesis using Cons.IH False i by (simp add: joinWith_Cons joinWith_append)
  qed
qed simp

lemma text_line:
  "bytes \<noteq> [] \<Longrightarrow>
   ''T '' @ beWord a @ '' '' @ joinWith '' '' (map (\<lambda>b. relHex2 (int b)) bytes) = joinWith '' '' (textFields a bytes)"
  by (simp add: textFields_def beWord_def joinWith_Cons)

lemma reloc_line:
  "''R '' @ beWord (int R3_WORD_AREA) @ '' '' @ beWord (int idx)
     @ (if items = [] then [] else '' '' @ joinWith '' '' (map itemText items)) = joinWith '' '' (relocFields idx items)"
proof (cases "items = []")
  case False
  then have "concat (map itemFields items) \<noteq> []" by (cases items) (auto simp: itemFields_def)
  then show ?thesis using False
    by (simp add: relocFields_def beWord_def joinWith_Cons join_items R3_WORD_AREA_def)
qed (simp add: relocFields_def beWord_def R3_WORD_AREA_def)

lemma solid_fields: "\<forall>w\<in>set (textFields a bytes). solid w" "\<forall>w\<in>set (relocFields idx items). solid w"
proof -
  have "solid ''T''" "solid ''R''" by (simp_all add: solid_def isJsSpace_def)
  then show "\<forall>w\<in>set (textFields a bytes). solid w" "\<forall>w\<in>set (relocFields idx items). solid w"
    by (simp_all add: textFields_def relocFields_def itemFields_def)
qed

lemma read_line:
  assumes "ws \<noteq> []" "\<forall>w\<in>set ws. solid w"
  shows "fieldsOf isJsSpace (trim (joinWith '' '' ws)) = ws"
  by (rule fields_line [OF assms])

definition smallItem :: "reloc_item \<Rightarrow> bool" where
  "smallItem i \<longleftrightarrow> ri_mode i < 256 \<and> ri_rtp i < 256 \<and> ri_index i < 65536"

lemma index_number:
  assumes "(n :: nat) < 65536"
  shows "256 * nat (int n div 256 mod 256) + nat (int n mod 256) = n"
  "256 * nat (int n div 256) + nat (int n mod 256) = n"
  using beWord_number [of "int n"] assms by simp_all

lemma readItems_fields:
  "\<forall>i\<in>set items. smallItem i \<Longrightarrow> readItems (map hexNumber (concat (map itemFields items))) = items"
  by (induction items) (auto simp: itemFields_def smallItem_def index_number)

lemma byte_value: "b < 256 \<Longrightarrow> nat (int b mod 256) = b"
  by simp

text \<open>A chunk is read back from its two lines.\<close>

lemma read_chunk:
  assumes "\<forall>b\<in>set bytes. b < 256" "bytes \<noteq> []" "idx < 65536" "\<forall>i\<in>set items. smallItem i" "idx < length (rr_areas s)"
  shows "readRelLine (joinWith '' '' (relocFields idx items)) (readRelLine (joinWith '' '' (textFields a bytes)) s) =
    s\<lparr>rr_pending := None, rr_chunks := rr_chunks s @
      [\<lparr>rc_areaName = rr_areas s ! idx, rc_tAddr = nat (a mod 65536), rc_data = bytes, rc_items = items\<rparr>]\<rparr>"
proof -
  have t: "readRelLine (joinWith '' '' (textFields a bytes)) s = s\<lparr>rr_pending := Some (nat (a mod 65536), bytes)\<rparr>"
  proof -
    have f: "fieldsOf isJsSpace (trim (joinWith '' '' (textFields a bytes))) = textFields a bytes"
      by (rule read_line) (simp add: textFields_def, rule solid_fields)
    have "map (\<lambda>b. nat (int b mod 256)) bytes = bytes"
      by (rule map_idI) (use assms(1) byte_value in blast)
    then show ?thesis
      unfolding readRelLine_def f by (simp add: textFields_def orZero_def beWord_number comp_def)
  qed
  have f: "fieldsOf isJsSpace (trim (joinWith '' '' (relocFields idx items))) = relocFields idx items"
    by (rule read_line) (simp add: relocFields_def, rule solid_fields)
  show ?thesis
    unfolding t readRelLine_def [of "joinWith '' '' (relocFields idx items)"] f
    using assms(3,4,5) by (simp add: relocFields_def orZero_def index_number readItems_fields del: nat_mod_distrib)
qed

subsection \<open>Text records\<close>

lemma mapE_list_all2: "mapE f xs = Inr ys \<longleftrightarrow> list_all2 (\<lambda>x y. f x = Inr y) xs ys"
  by (induction xs arbitrary: ys) (auto simp: bindP_Inr list_all2_Cons1)

lemma mapE_member: "mapE f xs = Inr ys \<Longrightarrow> y \<in> set ys \<Longrightarrow> \<exists>x\<in>set xs. f x = Inr y"
  by (induction xs arbitrary: ys) (auto simp: bindP_Inr)

text \<open>Words whose addresses follow on each other.\<close>

fun runFrom :: "int \<Rightarrow> int \<Rightarrow> emitted_word list \<Rightarrow> bool" where
  "runFrom step a [] \<longleftrightarrow> True"
| "runFrom step a (w # ws) \<longleftrightarrow> ew_address w = a \<and> runFrom step (a + step) ws"

lemma runFrom_append:
  "runFrom step a (xs @ ys) \<longleftrightarrow> runFrom step a xs \<and> runFrom step (a + step * int (length xs)) ys"
  by (induction xs arbitrary: a) (auto simp: algebra_simps)

lemma headRun_parts:
  "headRun step ws = (run, rest) \<Longrightarrow> ws = run @ rest \<and> (ws \<noteq> [] \<longrightarrow> run \<noteq> [] \<and> runFrom step (ew_address (hd ws)) run)"
  by (induction step ws arbitrary: run rest rule: headRun.induct) (auto split: prod.splits if_splits)

lemma chunksOf_Nil [simp]: "chunksOf n [] = []"
  by (simp add: chunksOf.simps)

lemma chunksOf_parts:
  "0 < n \<Longrightarrow> concat (chunksOf n xs) = xs \<and> (\<forall>c\<in>set (chunksOf n xs). c \<noteq> [] \<and> length c \<le> n)"
proof (induction n xs rule: chunksOf.induct)
  case (1 n xs)
  then show ?case by (cases "xs = []") (auto simp: chunksOf.simps [of n xs])
qed

lemma chunks_run:
  "runFrom step a xs \<Longrightarrow> c \<in> set (chunksOf n xs) \<Longrightarrow> runFrom step (ew_address (hd c)) c"
proof (induction n xs arbitrary: a rule: chunksOf.induct)
  case (1 n xs)
  show ?case
  proof (cases "xs = [] \<or> n = 0")
    case True
    then show ?thesis using 1(3) by (auto simp: chunksOf.simps [of n xs])
  next
    case False
    have split: "runFrom step a (take n xs @ drop n xs)" using 1(2) by simp
    then have parts: "runFrom step a (take n xs)" "runFrom step (a + step * int (length (take n xs))) (drop n xs)"
      unfolding runFrom_append by blast+
    consider "c = take n xs" | "c \<in> set (chunksOf n (drop n xs))"
      using 1(3) False by (auto simp: chunksOf.simps [of n xs])
    then show ?thesis
    proof cases
      case 1
      with parts(1) False show ?thesis by (cases xs; cases n) auto
    next
      case 2
      then show ?thesis using "1.IH" False parts(2) by blast
    qed
  qed
qed

lemma textChunks_Nil [simp]: "textChunks step [] = []"
  by (simp add: textChunks.simps)

lemma textChunks_parts:
  "concat (textChunks step ws) = ws"
  "c \<in> set (textChunks step ws) \<Longrightarrow> c \<noteq> [] \<and> length c \<le> 7 \<and> runFrom step (ew_address (hd c)) c"
proof (induction step ws rule: textChunks.induct)
  case (1 step ws)
  obtain run rest where h: "headRun step ws = (run, rest)" by fastforce
  note p = headRun_parts [OF h] and k = chunksOf_parts [of "MAX_T_DATA_BYTES div 2" run]
  { case 1
    show ?case
    proof (cases "ws = []")
      case False
      then have "concat (textChunks step rest) = rest" using "1.IH"(1) h by metis
      moreover have "concat (chunksOf (MAX_T_DATA_BYTES div 2) run) = run" using k by (simp add: MAX_T_DATA_BYTES_def)
      moreover have "textChunks step ws = chunksOf (MAX_T_DATA_BYTES div 2) run @ textChunks step rest"
        using False h by (simp add: textChunks.simps [of step ws])
      ultimately show ?thesis using p by simp
    qed (simp add: textChunks.simps [of step ws])
  next
    case 2
    show ?case
    proof (cases "ws = []")
      case False
      with 2 h consider "c \<in> set (chunksOf (MAX_T_DATA_BYTES div 2) run)" | "c \<in> set (textChunks step rest)"
        by (auto simp: textChunks.simps [of step ws])
      then show ?thesis
      proof cases
        case 1
        moreover from this False p have "runFrom step (ew_address (hd c)) c" using chunks_run by blast
        moreover have "\<forall>c\<in>set (chunksOf (MAX_T_DATA_BYTES div 2) run). c \<noteq> [] \<and> length c \<le> 7"
          using k by (simp add: MAX_T_DATA_BYTES_def)
        ultimately show ?thesis by blast
      next
        case 2
        then show ?thesis using "1.IH"(2) [OF False h [symmetric]] by simp
      qed
    qed (use 2 in \<open>simp add: textChunks.simps [of step ws]\<close>) }
qed

subsection \<open>Chunks\<close>

text \<open>The chunk that an object file holds for some words.\<close>

definition chunkOfWords :: "bool \<Rightarrow> string \<Rightarrow> emitted_word list \<Rightarrow> reloc_item list \<Rightarrow> rel_chunk" where
  "chunkOfWords ba area ws items = \<lparr>rc_areaName = area,
     rc_tAddr = nat (unitsToRelAddr (ew_address (hd ws)) ba mod 65536), rc_data = wordBytes ws, rc_items = items\<rparr>"

lemma indexOfName_less: "indexOfName names n = Some i \<Longrightarrow> i < length names \<and> names ! i = n"
  unfolding indexOfName_def by (drule map_of_SomeD) (auto simp: set_zip)

lemma relocItem_index: "relocItem r t areas symbols = Some i \<Longrightarrow> ri_index i < max (length areas) (length symbols) \<and> ri_mode i < 4 \<and> ri_rtp i = t"
  by (auto simp: relocItem_def R3_BYTE_SYM_def R3_WORD_SYM_def R3_BYTE_AREA_def R3_WORD_AREA_def
      dest!: indexOfName_less split: if_splits reloc_operand.splits)

lemma chunkItems_small:
  assumes "chunkItems ba areas symbols relocs area ws = Inr items" "length ws \<le> 7"
    "length areas < 65536" "length symbols < 65536"
  shows "\<forall>i\<in>set items. smallItem i"
proof
  fix i assume "i \<in> set items"
  then obtain r where "relocItem r (nat (2 + (wr_byteAddr r - (if ba then ew_address (hd ws) else ew_address (hd ws) * 2)))) areas symbols = Some i"
    "wr_byteAddr r < (if ba then ew_address (hd ws) else ew_address (hd ws) * 2) + 2 * int (length ws)"
    using mapE_member [OF assms(1) [unfolded chunkItems_def Let_def] \<open>i \<in> set items\<close>] by (force split: option.splits)
  then show "smallItem i"
    using assms(2-) by (auto simp: smallItem_def dest!: relocItem_index)
qed

lemma wordBytes_facts: "\<forall>b\<in>set (wordBytes ws). b < 256" "ws \<noteq> [] \<Longrightarrow> wordBytes ws \<noteq> []"
proof -
  have "unat (v :: u16) div 256 < 256" for v
    using unsigned_less [of v, where ?'a = nat] by (simp add: less_mult_imp_div_less)
  then show "\<forall>b\<in>set (wordBytes ws). b < 256" by (auto simp: wordBytes_def)
  show "ws \<noteq> [] \<Longrightarrow> wordBytes ws \<noteq> []" by (cases ws) (auto simp: wordBytes_def)
qed

lemma read_chunkLines:
  assumes "chunkLines ba areas symbols relocs area idx ws = Inr ls" "ws \<noteq> []" "length ws \<le> 7"
    "length areas < 65536" "length symbols < 65536" "idx < 65536" "idx < length (rr_areas s)" "rr_areas s ! idx = area"
    "rr_pending s = None"
  shows "\<exists>items. chunkItems ba areas symbols relocs area ws = Inr items \<and>
    fold readRelLine ls s = s\<lparr>rr_chunks := rr_chunks s @ [chunkOfWords ba area ws items]\<rparr>"
proof -
  obtain items where i: "chunkItems ba areas symbols relocs area ws = Inr items"
    and ls: "ls = [joinWith '' '' (textFields (unitsToRelAddr (ew_address (hd ws)) ba) (wordBytes ws)),
      joinWith '' '' (relocFields idx items)]"
    using assms(1) unfolding chunkLines_def bindP_Inr text_line [OF wordBytes_facts(2) [OF assms(2)]] reloc_line
    by blast
  have "fold readRelLine ls s = s\<lparr>rr_chunks := rr_chunks s @ [chunkOfWords ba area ws items]\<rparr>"
    using read_chunk [OF wordBytes_facts(1) wordBytes_facts(2) [OF assms(2)] assms(6)
        chunkItems_small [OF i assms(3,4,5)] assms(7)] assms(8,9)
    by (simp add: ls chunkOfWords_def)
  with i show ?thesis by blast
qed

definition chunksRead ::
  "bool \<Rightarrow> string list \<Rightarrow> string list \<Rightarrow> word_reloc list \<Rightarrow> string \<Rightarrow> emitted_word list list \<Rightarrow> rel_chunk list \<Rightarrow> bool" where
  "chunksRead ba areas symbols relocs area wss cs \<longleftrightarrow>
     list_all2 (\<lambda>ws c. \<exists>items. chunkItems ba areas symbols relocs area ws = Inr items \<and> c = chunkOfWords ba area ws items) wss cs"

lemma read_allChunks:
  assumes "list_all2 (\<lambda>ws ls. chunkLines ba areas symbols relocs area idx ws = Inr ls) wss lss"
    "\<forall>ws\<in>set wss. ws \<noteq> [] \<and> length ws \<le> 7"
    "length areas < 65536" "length symbols < 65536" "idx < 65536" "idx < length (rr_areas s)" "rr_areas s ! idx = area"
    "rr_pending s = None"
  shows "\<exists>cs. chunksRead ba areas symbols relocs area wss cs \<and>
    fold readRelLine (concat lss) s = s\<lparr>rr_chunks := rr_chunks s @ cs\<rparr>"
  using assms
proof (induction wss lss arbitrary: s rule: list_all2_induct)
  case Nil
  then show ?case by (auto simp: chunksRead_def)
next
  case (Cons ws wss ls lss)
  obtain items where i: "chunkItems ba areas symbols relocs area ws = Inr items"
    and f: "fold readRelLine ls s = s\<lparr>rr_chunks := rr_chunks s @ [chunkOfWords ba area ws items]\<rparr>"
    using read_chunkLines [OF Cons(1)] Cons(4-) by auto
  obtain cs where "chunksRead ba areas symbols relocs area wss cs"
    "fold readRelLine (concat lss) (fold readRelLine ls s) = s\<lparr>rr_chunks := rr_chunks s @ chunkOfWords ba area ws items # cs\<rparr>"
    using Cons.IH [of "fold readRelLine ls s"] Cons.prems unfolding f by auto
  with i show ?case
    by (intro exI [of _ "chunkOfWords ba area ws items # cs"]) (simp add: chunksRead_def)
qed

subsection \<open>Areas and symbols\<close>

lemma read_symbol:
  assumes "solid name"
  shows "readRelLine (symbolLine name d v) s = s\<lparr>rr_symbols := rr_symbols s @ [name]\<rparr>"
    "oneLine (symbolLine name d v)"
proof -
  let ?def = "(if d then ''Def'' else ''Ref'') @ relHex4 v"
  have l: "symbolLine name d v = joinWith '' '' [''S'', name, ?def]"
    by (simp add: symbolLine_def)
  have solid: "\<forall>w\<in>set [''S'', name, ?def]. solid w"
    using assms solid_rel(2) [of v] by (simp add: solid_def isJsSpace_def)
  then have f: "fieldsOf isJsSpace (trim (joinWith '' '' [''S'', name, ?def])) = [''S'', name, ?def]"
    by (rule read_line [rotated]) simp
  show "readRelLine (symbolLine name d v) s = s\<lparr>rr_symbols := rr_symbols s @ [name]\<rparr>"
    unfolding readRelLine_def l f by simp
  show "oneLine (symbolLine name d v)" unfolding l by (rule oneLine_joined [OF solid])
qed

lemma read_symbols:
  "\<forall>n\<in>set (map f gs). solid n \<Longrightarrow>
   fold readRelLine (map (\<lambda>g. symbolLine (f g) d (v g)) gs) s = s\<lparr>rr_symbols := rr_symbols s @ map f gs\<rparr>"
  by (induction gs arbitrary: s) (simp_all add: read_symbol(1))

lemma read_area:
  assumes "solid area" "area \<noteq> ''size''"
  shows "readRelLine (''A '' @ area @ '' size '' @ relHex4 a @ '' flags '' @ relHex4 b @ '' addr 0'') s =
      s\<lparr>rr_current := area, rr_areas := rr_areas s @ [area], rr_areaSizes := AList.update area (nat (a mod 65536)) (rr_areaSizes s)\<rparr>"
    "oneLine (''A '' @ area @ '' size '' @ relHex4 a @ '' flags '' @ relHex4 b @ '' addr 0'')"
proof -
  let ?ws = "[''A'', area, ''size'', relHex4 a, ''flags'', relHex4 b, ''addr'', ''0'']"
  have l: "''A '' @ area @ '' size '' @ relHex4 a @ '' flags '' @ relHex4 b @ '' addr 0'' = joinWith '' '' ?ws"
    by simp
  have solid: "\<forall>w\<in>set ?ws. solid w"
    using assms(1) by (simp add: solid_def [of "_ # _"] isJsSpace_def)
  then have f: "fieldsOf isJsSpace (trim (joinWith '' '' ?ws)) = ?ws"
    by (rule read_line [rotated]) simp
  show "readRelLine (''A '' @ area @ '' size '' @ relHex4 a @ '' flags '' @ relHex4 b @ '' addr 0'') s =
      s\<lparr>rr_current := area, rr_areas := rr_areas s @ [area], rr_areaSizes := AList.update area (nat (a mod 65536)) (rr_areaSizes s)\<rparr>"
    unfolding readRelLine_def l f using assms(2) by (simp add: areaSizeField_def)
  show "oneLine (''A '' @ area @ '' size '' @ relHex4 a @ '' flags '' @ relHex4 b @ '' addr 0'')"
    unfolding l by (rule oneLine_joined [OF solid])
qed

text \<open>The parts of an area.\<close>

definition areaWords :: "assembly_result \<Rightarrow> string \<Rightarrow> emitted_word list" where
  "areaWords r area = sort_key ew_address (filter (\<lambda>w. canonicalAreaName (ew_area w) = area) (ar_words r))"

definition areaRelocs :: "assembly_result \<Rightarrow> string \<Rightarrow> word_reloc list" where
  "areaRelocs r area = filter (\<lambda>l. canonicalAreaName (wr_area l) = area) (ar_relocs r)"

definition areaSymbols :: "rel_symbol list \<Rightarrow> rel_symbol list \<Rightarrow> string \<Rightarrow> string list" where
  "areaSymbols entries cps area =
     map (\<lambda>g. sdldSymName (rs_name g)) (areaGlobals entries area) @ map rs_name (areaCheckpoints cps area)"

abbreviation byteUnit :: "assembly_result \<Rightarrow> bool" where
  "byteUnit r \<equiv> ar_addressUnit r = UnitByte"

definition wordRuns :: "assembly_result \<Rightarrow> string \<Rightarrow> emitted_word list list" where
  "wordRuns r area = textChunks (if byteUnit r then 2 else 1) (areaWords r area)"

lemma wordRuns_facts:
  "concat (wordRuns r area) = areaWords r area"
  "ws \<in> set (wordRuns r area) \<Longrightarrow> ws \<noteq> [] \<and> length ws \<le> 7 \<and> runFrom (if byteUnit r then 2 else 1) (ew_address (hd ws)) ws"
  using textChunks_parts by (auto simp: wordRuns_def)

lemma read_areaLines:
  assumes "areaLines r entries cps areas symbols area = Inr ls"
    "length areas < 65536" "length symbols < 65536" "solid area" "area \<noteq> ''size''" "\<forall>n\<in>set (areaSymbols entries cps area). solid n"
    "indexOfName areas area = Some (length (rr_areas s))" "rr_pending s = None"
  shows "\<exists>cs sz. chunksRead (byteUnit r) areas symbols (areaRelocs r area) area (wordRuns r area) cs \<and>
    fold readRelLine ls s = s\<lparr>rr_current := area, rr_areas := rr_areas s @ [area],
      rr_areaSizes := sz, rr_symbols := rr_symbols s @ areaSymbols entries cps area, rr_chunks := rr_chunks s @ cs\<rparr>"
    "\<forall>l\<in>set ls. oneLine l"
proof -
  let ?size = "areaSizeOf (byteUnit r) (relAreaInfo r area) (areaWords r area)"
  let ?flags = "asxxxxAreaFlags area ((case relAreaInfo r area of None \<Rightarrow> False | Some i \<Rightarrow> ai_noload i) \<or> area = ''_WORK'')"
  let ?head = "''A '' @ area @ '' size '' @ relHex4 ?size @ '' flags '' @ relHex4 ?flags @ '' addr 0''"
  let ?gs = "map (\<lambda>g. symbolLine (sdldSymName (rs_name g)) True (unitsToRelAddr (rs_value g) (byteUnit r))) (areaGlobals entries area)"
  let ?cs = "map (\<lambda>c. symbolLine (rs_name c) True (rs_value c)) (areaCheckpoints cps area)"
  obtain lss where lss: "mapE (chunkLines (byteUnit r) areas symbols (areaRelocs r area) area (length (rr_areas s))) (wordRuns r area) = Inr lss"
    and ls: "ls = ?head # ?gs @ ?cs @ concat lss"
    using assms(1) unfolding areaLines_def Let_def bindP_Inr assms(7) option.case
    by (auto simp: areaWords_def areaRelocs_def wordRuns_def)
  let ?s1 = "s\<lparr>rr_current := area, rr_areas := rr_areas s @ [area],
      rr_areaSizes := AList.update area (nat (?size mod 65536)) (rr_areaSizes s), rr_symbols := rr_symbols s @ areaSymbols entries cps area\<rparr>"
  have "fold readRelLine (?head # ?gs @ ?cs) s = ?s1"
    using assms(6) unfolding areaSymbols_def
    by (simp only: fold_append fold_simps comp_apply read_area(1) [OF assms(4,5)]) (simp add: read_symbols)
  moreover have "length (rr_areas s) < 65536"
    using indexOfName_less [OF assms(7)] assms(2) by simp
  then obtain cs where "chunksRead (byteUnit r) areas symbols (areaRelocs r area) area (wordRuns r area) cs"
    "fold readRelLine (concat lss) ?s1 = ?s1\<lparr>rr_chunks := rr_chunks s @ cs\<rparr>"
    using read_allChunks [OF lss [unfolded mapE_list_all2], of ?s1] wordRuns_facts(2) [of _ r area] assms(2,3,8)
    by auto
  ultimately show "\<exists>cs sz. chunksRead (byteUnit r) areas symbols (areaRelocs r area) area (wordRuns r area) cs \<and>
    fold readRelLine ls s = s\<lparr>rr_current := area, rr_areas := rr_areas s @ [area],
      rr_areaSizes := sz, rr_symbols := rr_symbols s @ areaSymbols entries cps area, rr_chunks := rr_chunks s @ cs\<rparr>"
    unfolding ls by (intro exI [of _ cs] exI [of _ "AList.update area (nat (?size mod 65536)) (rr_areaSizes s)"]) simp
  have "oneLine l" if mem: "l \<in> set (concat lss)" for l
  proof -
    obtain chunk where chunk: "chunk \<in> set lss" "l \<in> set chunk" using mem by auto
    then obtain ws where "chunkLines (byteUnit r) areas symbols (areaRelocs r area) area (length (rr_areas s)) ws = Inr chunk"
      "ws \<in> set (wordRuns r area)"
      using mapE_member [OF lss] by blast
    with chunk(2)
    show ?thesis
      using wordRuns_facts(2) [of ws r area] wordBytes_facts(2) [of ws] oneLine_joined [OF solid_fields(1)] oneLine_joined [OF solid_fields(2)]
      unfolding chunkLines_def bindP_Inr by (auto simp: text_line [simplified] reloc_line [simplified])
  qed
  then show "\<forall>l\<in>set ls. oneLine l"
    using assms(6) read_symbol(2) read_area(2) [OF assms(4,5)] unfolding ls areaSymbols_def by auto
qed

lemma indexOfName_distinct: "distinct (pre @ n # post) \<Longrightarrow> indexOfName (pre @ n # post) n = Some (length pre)"
proof -
  assume d: "distinct (pre @ n # post)"
  let ?xs = "pre @ n # post"
  have "distinct (map fst (rev (zip ?xs [0 ..< length ?xs])))"
    using d by (auto simp: rev_map [symmetric])
  moreover have "(n, length pre) \<in> set (rev (zip ?xs [0 ..< length ?xs]))"
    by (auto simp: in_set_zip simp del: upt_Suc intro!: exI [of _ "length pre"])
  ultimately show ?thesis unfolding indexOfName_def by (rule map_of_is_SomeI)
qed

lemma relAreaNames_facts:
  "distinct (relAreaNames r entries)" "''size'' \<notin> set (relAreaNames r entries)"
proof -
  have s: "upperChar c \<noteq> CHR ''s''" for c
  proof
    assume "upperChar c = CHR ''s''"
    moreover have "of_char (CHR ''s'') = (115 :: nat)" by code_simp
    ultimately have "of_char (upperChar c) = (115 :: nat)" by simp
    then show False by (simp add: upperChar_def Let_def split: if_splits)
  qed
  have "canonicalAreaName n \<noteq> ''size''" for n
  proof
    assume "canonicalAreaName n = ''size''"
    then have "map upperChar (trim n) = ''size''" by (simp add: canonicalAreaName_def Let_def toUpperCase_def split: if_splits)
    then obtain c where "upperChar c = CHR ''s''" by (cases "trim n") auto
    with s show False by blast
  qed
  then have names: "''size'' \<notin> canonicalAreaName ` A" for A by (metis imageE)
  have order: "''size'' \<notin> set AREA_LINK_ORDER" by code_simp
  show "''size'' \<notin> set (relAreaNames r entries)"
  proof -
    have "''size'' \<notin> set (orderLinkAreaNames ns)" for ns
      unfolding orderLinkAreaNames_def Let_def set_append set_filter set_sort set_remdups set_map
      using names [of "set ns"] order by blast
    then show ?thesis by (simp add: relAreaNames_def Let_def)
  qed
  have "distinct AREA_LINK_ORDER" by code_simp
  then show "distinct (relAreaNames r entries)"
    by (auto simp: relAreaNames_def orderLinkAreaNames_def Let_def)
qed

lemma read_body:
  assumes "list_all2 (\<lambda>area ls. areaLines r entries cps areas symbols area = Inr ls) rest lss"
    "areas = rr_areas s @ rest" "distinct areas" "length areas < 65536" "length symbols < 65536"
    "\<forall>a\<in>set rest. solid a \<and> a \<noteq> ''size'' \<and> (\<forall>n\<in>set (areaSymbols entries cps a). solid n)" "rr_pending s = None"
  shows "(\<forall>l\<in>set (concat lss). oneLine l) \<and>
    (\<exists>css sz cur. list_all2 (\<lambda>a. chunksRead (byteUnit r) areas symbols (areaRelocs r a) a (wordRuns r a)) rest css \<and>
      fold readRelLine (concat lss) s = s\<lparr>rr_current := cur, rr_areas := areas, rr_areaSizes := sz,
        rr_symbols := rr_symbols s @ concat (map (areaSymbols entries cps) rest), rr_chunks := rr_chunks s @ concat css\<rparr>)"
  using assms
proof (induction rest lss arbitrary: s rule: list_all2_induct)
  case Nil
  then show ?case
    by (auto intro!: exI [of _ "rr_areaSizes s"] exI [of _ "rr_current s"])
next
  case (Cons a rest ls lss)
  have idx: "indexOfName areas a = Some (length (rr_areas s))"
    using indexOfName_distinct Cons.prems(1,2) by metis
  have names: "solid a" "a \<noteq> ''size''" "\<forall>n\<in>set (areaSymbols entries cps a). solid n"
    using Cons.prems(5) by simp_all
  obtain cs sz where
    a: "chunksRead (byteUnit r) areas symbols (areaRelocs r a) a (wordRuns r a) cs" "\<forall>l\<in>set ls. oneLine l"
    and f: "fold readRelLine ls s = s\<lparr>rr_current := a, rr_areas := rr_areas s @ [a],
      rr_areaSizes := sz, rr_symbols := rr_symbols s @ areaSymbols entries cps a, rr_chunks := rr_chunks s @ cs\<rparr>"
    using read_areaLines [OF Cons(1) Cons.prems(3,4) names idx Cons.prems(6)] by blast
  let ?s = "fold readRelLine ls s"
  have ih: "(\<forall>l\<in>set (concat lss). oneLine l) \<and>
    (\<exists>css sz cur. list_all2 (\<lambda>a. chunksRead (byteUnit r) areas symbols (areaRelocs r a) a (wordRuns r a)) rest css \<and>
      fold readRelLine (concat lss) ?s = ?s\<lparr>rr_current := cur, rr_areas := areas, rr_areaSizes := sz,
        rr_symbols := rr_symbols ?s @ concat (map (areaSymbols entries cps) rest), rr_chunks := rr_chunks ?s @ concat css\<rparr>)"
    by (rule Cons.IH) (use Cons.prems f in simp_all)
  then obtain css sz2 cur where c: "list_all2 (\<lambda>a. chunksRead (byteUnit r) areas symbols (areaRelocs r a) a (wordRuns r a)) rest css"
    "fold readRelLine (concat lss) ?s = ?s\<lparr>rr_current := cur, rr_areas := areas, rr_areaSizes := sz2,
        rr_symbols := rr_symbols ?s @ concat (map (areaSymbols entries cps) rest), rr_chunks := rr_chunks ?s @ concat css\<rparr>"
    by blast
  have "fold readRelLine (concat (ls # lss)) s = s\<lparr>rr_current := cur, rr_areas := areas, rr_areaSizes := sz2,
      rr_symbols := rr_symbols s @ concat (map (areaSymbols entries cps) (a # rest)), rr_chunks := rr_chunks s @ concat (cs # css)\<rparr>"
    using c(2) by (simp add: f)
  with a(1) c(1) have "\<exists>css sz cur. list_all2 (\<lambda>a. chunksRead (byteUnit r) areas symbols (areaRelocs r a) a (wordRuns r a)) (a # rest) css \<and>
      fold readRelLine (concat (ls # lss)) s = s\<lparr>rr_current := cur, rr_areas := areas, rr_areaSizes := sz,
        rr_symbols := rr_symbols s @ concat (map (areaSymbols entries cps) (a # rest)), rr_chunks := rr_chunks s @ concat css\<rparr>"
    by (intro exI [of _ "cs # css"] exI [of _ sz2] exI [of _ cur]) simp
  with ih a(2) show ?case by auto
qed

subsection \<open>The file is read back\<close>

text \<open>The bytes of an area as they are loaded and as they were emitted, with their addresses.\<close>

definition chunkBytes :: "rel_chunk \<Rightarrow> (nat \<times> nat) list" where
  "chunkBytes c = zip [rc_tAddr c ..< rc_tAddr c + length (rc_data c)] (rc_data c)"

definition loadedBytes :: "rel_chunk list \<Rightarrow> string \<Rightarrow> (nat \<times> nat) list" where
  "loadedBytes cs area = concat (map chunkBytes (filter (\<lambda>c. rc_areaName c = area) cs))"

definition byteAddrOf :: "bool \<Rightarrow> emitted_word \<Rightarrow> int" where
  "byteAddrOf ba w = (if ba then ew_address w else ew_address w * 2)"

definition emittedBytes :: "assembly_result \<Rightarrow> string \<Rightarrow> (nat \<times> nat) list" where
  "emittedBytes r area = concat (map (\<lambda>w. [(nat (byteAddrOf (byteUnit r) w), unat (ew_value w) div 256),
     (nat (byteAddrOf (byteUnit r) w) + 1, unat (ew_value w) mod 256)]) (areaWords r area))"

definition addressesFit :: "assembly_result \<Rightarrow> bool" where
  "addressesFit r \<longleftrightarrow> (\<forall>w\<in>set (ar_words r). 0 \<le> ew_address w \<and> byteAddrOf (byteUnit r) w < 65536)"

lemma run_bytes:
  "runFrom (if ba then 2 else 1) a ws \<Longrightarrow> 0 \<le> a \<Longrightarrow>
   zip [nat (if ba then a else a * 2) ..< nat (if ba then a else a * 2) + length (wordBytes ws)] (wordBytes ws) =
   concat (map (\<lambda>w. [(nat (byteAddrOf ba w), unat (ew_value w) div 256), (nat (byteAddrOf ba w) + 1, unat (ew_value w) mod 256)]) ws)"
proof (induction ws arbitrary: a)
  case (Cons w ws)
  let ?n = "nat (if ba then a else a * 2)"
  let ?hi = "unat (ew_value w) div 256" and ?lo = "unat (ew_value w) mod 256"
  let ?b = "a + (if ba then 2 else 1)"
  have step: "nat (if ba then ?b else ?b * 2) = ?n + 2"
    using Cons.prems(2) by auto
  have bytes: "wordBytes (w # ws) = ?hi # ?lo # wordBytes ws" by (simp add: wordBytes_def)
  have upt: "[?n ..< ?n + length (wordBytes (w # ws))] = ?n # Suc ?n # [?n + 2 ..< ?n + 2 + length (wordBytes ws)]"
    unfolding bytes by (simp add: upt_conv_Cons del: upt_Suc)
  have rest: "zip [?n + 2 ..< ?n + 2 + length (wordBytes ws)] (wordBytes ws) =
    concat (map (\<lambda>w. [(nat (byteAddrOf ba w), unat (ew_value w) div 256), (nat (byteAddrOf ba w) + 1, unat (ew_value w) mod 256)]) ws)"
    using Cons.IH [of ?b] Cons.prems step by simp
  have "ew_address w = a" using Cons.prems(1) by simp
  then have "nat (byteAddrOf ba w) = ?n" by (simp add: byteAddrOf_def)
  then show ?case
    unfolding upt unfolding bytes by (simp only: zip_Cons_Cons rest list.map concat.simps append.simps) simp
qed (simp add: wordBytes_def)

text \<open>The relocations of an area as they are loaded and as they were emitted: address, mode and target.\<close>

definition loadedRelocs :: "rel_chunk list \<Rightarrow> string \<Rightarrow> (int \<times> nat \<times> nat) set" where
  "loadedRelocs cs area =
     {(int (rc_tAddr c) + int (ri_rtp i) - 2, ri_mode i, ri_index i) |c i.
        c \<in> set cs \<and> rc_areaName c = area \<and> i \<in> set (rc_items c)}"

definition emittedRelocs :: "assembly_result \<Rightarrow> string list \<Rightarrow> string list \<Rightarrow> string \<Rightarrow> (int \<times> nat \<times> nat) set" where
  "emittedRelocs r areas symbols area =
     {(wr_byteAddr l, ri_mode i, ri_index i) |l i w.
        l \<in> set (areaRelocs r area) \<and> w \<in> set (areaWords r area) \<and>
        byteAddrOf (byteUnit r) w \<le> wr_byteAddr l \<and> wr_byteAddr l < byteAddrOf (byteUnit r) w + 2 \<and>
        relocItem l 0 areas symbols = Some i}"

lemma run_covers:
  "runFrom (if ba then 2 else 1) a ws \<Longrightarrow> start = (if ba then a else a * 2) \<Longrightarrow>
   (start \<le> x \<and> x < start + 2 * int (length ws)) = (\<exists>w\<in>set ws. byteAddrOf ba w \<le> x \<and> x < byteAddrOf ba w + 2)"
proof (induction ws arbitrary: a start)
  case (Cons w ws)
  let ?b = "a + (if ba then 2 else 1)"
  have ih: "(start + 2 \<le> x \<and> x < start + 2 + 2 * int (length ws)) = (\<exists>w\<in>set ws. byteAddrOf ba w \<le> x \<and> x < byteAddrOf ba w + 2)"
    by (rule Cons.IH [of ?b]) (use Cons.prems in auto)
  have "byteAddrOf ba w = start" using Cons.prems by (simp add: byteAddrOf_def)
  with ih show ?case by (simp only: list.set bex_simps list.size of_nat_Suc) (auto 0 3)
qed simp

lemma relocItem_rtp: "relocItem l t areas symbols = map_option (\<lambda>i. i\<lparr>ri_rtp := t\<rparr>) (relocItem l 0 areas symbols)"
  by (auto simp: relocItem_def map_option.compositionality comp_def split: reloc_operand.split)

lemma mapE_set: "mapE f xs = Inr ys \<Longrightarrow> set ys = {y. \<exists>x\<in>set xs. f x = Inr y}"
  by (induction xs arbitrary: ys) (auto simp: bindP_Inr)

lemma chunk_relocs:
  assumes "chunkItems ba areas symbols relocs area ws = Inr items" "0 \<le> byteAddrOf ba (hd ws)" "byteAddrOf ba (hd ws) < 65536"
    "runFrom (if ba then 2 else 1) (ew_address (hd ws)) ws"
  shows "(\<exists>i\<in>set items. v = (int (rc_tAddr (chunkOfWords ba area ws items)) + int (ri_rtp i) - 2, ri_mode i, ri_index i)) =
    (\<exists>l\<in>set relocs. \<exists>w\<in>set ws. \<exists>i. byteAddrOf ba w \<le> wr_byteAddr l \<and> wr_byteAddr l < byteAddrOf ba w + 2 \<and>
      relocItem l 0 areas symbols = Some i \<and> v = (wr_byteAddr l, ri_mode i, ri_index i))"
proof -
  let ?start = "byteAddrOf ba (hd ws)"
  have t: "int (rc_tAddr (chunkOfWords ba area ws items)) = ?start"
    using assms(2,3) by (cases ba) (auto simp: chunkOfWords_def unitsToRelAddr_def byteAddrOf_def)
  have items: "set items = {i. \<exists>l\<in>set relocs. ?start \<le> wr_byteAddr l \<and> wr_byteAddr l < ?start + 2 * int (length ws) \<and>
      relocItem l (nat (2 + (wr_byteAddr l - ?start))) areas symbols = Some i}"
    using mapE_set [OF assms(1) [unfolded chunkItems_def Let_def]]
    by (auto simp: byteAddrOf_def split: option.splits)
  have covers: "(?start \<le> x \<and> x < ?start + 2 * int (length ws)) = (\<exists>w\<in>set ws. byteAddrOf ba w \<le> x \<and> x < byteAddrOf ba w + 2)" for x
    by (rule run_covers [OF assms(4)]) (simp add: byteAddrOf_def)
  have "(\<exists>i\<in>set items. v = (?start + int (ri_rtp i) - 2, ri_mode i, ri_index i)) =
    (\<exists>l\<in>set relocs. \<exists>i. (?start \<le> wr_byteAddr l \<and> wr_byteAddr l < ?start + 2 * int (length ws)) \<and>
      relocItem l 0 areas symbols = Some i \<and> v = (wr_byteAddr l, ri_mode i, ri_index i))"
    unfolding items relocItem_rtp [of _ "nat _"] by fastforce
  then show ?thesis unfolding t covers by blast
qed

lemma list_all2_map_eq: "list_all2 P xs ys \<Longrightarrow> (\<And>x y. P x y \<Longrightarrow> g y = f x) \<Longrightarrow> map g ys = map f xs"
  by (induction rule: list_all2_induct) auto

lemma list_all2_bex: "list_all2 P xs ys \<Longrightarrow> (\<And>x y. P x y \<Longrightarrow> Q y = R x) \<Longrightarrow> (\<exists>y\<in>set ys. Q y) = (\<exists>x\<in>set xs. R x)"
  by (induction rule: list_all2_induct) auto

lemma list_all2_ball: "list_all2 P xs ys \<Longrightarrow> (\<And>x y. P x y \<Longrightarrow> Q y) \<Longrightarrow> \<forall>y\<in>set ys. Q y"
  by (induction rule: list_all2_induct) auto

lemma concat_map_concat: "concat (map f (concat xss)) = concat (map (\<lambda>xs. concat (map f xs)) xss)"
  by (induction xss) auto

lemma area_chunks:
  assumes "chunksRead (byteUnit r) areas symbols (areaRelocs r area) area (wordRuns r area) cs" "addressesFit r"
  shows "\<forall>c\<in>set cs. rc_areaName c = area" "concat (map chunkBytes cs) = emittedBytes r area"
    "loadedRelocs cs area = emittedRelocs r areas symbols area"
proof -
  let ?ba = "byteUnit r"
  let ?emit = "\<lambda>w. [(nat (byteAddrOf ?ba w), unat (ew_value w) div 256), (nat (byteAddrOf ?ba w) + 1, unat (ew_value w) mod 256)]"
  let ?items = "\<lambda>ws items. chunkItems ?ba areas symbols (areaRelocs r area) area ws = Inr items"
  have run: "0 \<le> byteAddrOf ?ba (hd ws) \<and> 0 \<le> ew_address (hd ws) \<and> byteAddrOf ?ba (hd ws) < 65536
      \<and> runFrom (if ?ba then 2 else 1) (ew_address (hd ws)) ws" if "ws \<in> set (wordRuns r area)" for ws
  proof -
    have "ws \<noteq> []" "set ws \<subseteq> set (areaWords r area)"
      using wordRuns_facts(2) [OF that] wordRuns_facts(1) [of r area] that by (blast, metis UN_upper set_concat)
    then have "hd ws \<in> set (ar_words r)" by (auto simp: areaWords_def dest: hd_in_set)
    then show ?thesis using wordRuns_facts(2) [OF that] assms(2) by (auto simp: addressesFit_def byteAddrOf_def)
  qed
  have bytes: "chunkBytes (chunkOfWords ?ba area ws items) = concat (map ?emit ws)" if "ws \<in> set (wordRuns r area)" for ws items
  proof -
    have "nat (unitsToRelAddr (ew_address (hd ws)) ?ba mod 65536) = nat (if ?ba then ew_address (hd ws) else ew_address (hd ws) * 2)"
      using run [OF that] by (auto simp: unitsToRelAddr_def byteAddrOf_def)
    then show ?thesis using run_bytes [of ?ba "ew_address (hd ws)" ws] run [OF that]
      by (simp add: chunkBytes_def chunkOfWords_def)
  qed
  have each: "list_all2 (\<lambda>ws c. ws \<in> set (wordRuns r area) \<and> (\<exists>items. ?items ws items \<and> c = chunkOfWords ?ba area ws items)) (wordRuns r area) cs"
    using assms(1) unfolding chunksRead_def by (simp add: list.rel_mono_strong)
  then show "\<forall>c\<in>set cs. rc_areaName c = area"
    by (rule list_all2_ball) (auto simp: chunkOfWords_def)
  have "map chunkBytes cs = map (\<lambda>ws. concat (map ?emit ws)) (wordRuns r area)"
    using each by (rule list_all2_map_eq) (auto simp: bytes)
  then have "concat (map chunkBytes cs) = concat (map ?emit (concat (wordRuns r area)))"
    by (simp add: concat_map_concat)
  then show "concat (map chunkBytes cs) = emittedBytes r area" by (simp add: emittedBytes_def wordRuns_facts)
  have members: "set (areaWords r area) = (\<Union>ws\<in>set (wordRuns r area). set ws)"
    using wordRuns_facts(1) [of r area] by (metis set_concat)
  have "v \<in> loadedRelocs cs area \<longleftrightarrow> v \<in> emittedRelocs r areas symbols area" for v
  proof -
    have "v \<in> loadedRelocs cs area \<longleftrightarrow>
      (\<exists>c\<in>set cs. \<exists>i\<in>set (rc_items c). v = (int (rc_tAddr c) + int (ri_rtp i) - 2, ri_mode i, ri_index i))"
      using \<open>\<forall>c\<in>set cs. rc_areaName c = area\<close> by (auto simp: loadedRelocs_def)
    also have "\<dots> \<longleftrightarrow> (\<exists>ws\<in>set (wordRuns r area). \<exists>l\<in>set (areaRelocs r area). \<exists>w\<in>set ws. \<exists>i.
      byteAddrOf ?ba w \<le> wr_byteAddr l \<and> wr_byteAddr l < byteAddrOf ?ba w + 2 \<and>
      relocItem l 0 areas symbols = Some i \<and> v = (wr_byteAddr l, ri_mode i, ri_index i))"
    proof (rule list_all2_bex [OF each])
      fix ws c assume "ws \<in> set (wordRuns r area) \<and> (\<exists>items. ?items ws items \<and> c = chunkOfWords ?ba area ws items)"
      then obtain items where w: "ws \<in> set (wordRuns r area)" "?items ws items" and c: "c = chunkOfWords ?ba area ws items" by blast
      have "rc_items c = items" by (simp add: c chunkOfWords_def)
      then show "(\<exists>i\<in>set (rc_items c). v = (int (rc_tAddr c) + int (ri_rtp i) - 2, ri_mode i, ri_index i)) =
        (\<exists>l\<in>set (areaRelocs r area). \<exists>w\<in>set ws. \<exists>i. byteAddrOf ?ba w \<le> wr_byteAddr l \<and> wr_byteAddr l < byteAddrOf ?ba w + 2 \<and>
          relocItem l 0 areas symbols = Some i \<and> v = (wr_byteAddr l, ri_mode i, ri_index i))"
        using chunk_relocs [OF w(2), of v] run [OF w(1)] unfolding c by simp
    qed
    also have "\<dots> \<longleftrightarrow> v \<in> emittedRelocs r areas symbols area"
      unfolding emittedRelocs_def members by blast
    finally show ?thesis .
  qed
  then show "loadedRelocs cs area = emittedRelocs r areas symbols area" by blast
qed

lemma loaded_other:
  assumes "list_all2 (\<lambda>a cs. \<forall>c\<in>set cs. rc_areaName c = a) areas css" "area \<notin> set areas"
  shows "loadedBytes (concat css) area = []" "loadedRelocs (concat css) area = {}"
proof -
  have "\<forall>c\<in>set (concat css). rc_areaName c \<in> set areas"
    using assms(1) by (induction rule: list_all2_induct) auto
  then have none: "\<forall>c\<in>set (concat css). rc_areaName c \<noteq> area" using assms(2) by blast
  then have "filter (\<lambda>c. rc_areaName c = area) (concat css) = []" unfolding filter_empty_conv .
  then show "loadedBytes (concat css) area = []" by (simp only: loadedBytes_def list.map concat.simps)
  show "loadedRelocs (concat css) area = {}" using none unfolding loadedRelocs_def by blast
qed

lemma loaded_append:
  "loadedBytes (xs @ ys) area = loadedBytes xs area @ loadedBytes ys area"
  "loadedRelocs (xs @ ys) area = loadedRelocs xs area \<union> loadedRelocs ys area"
  by (auto simp: loadedBytes_def loadedRelocs_def)

lemma loaded_own:
  assumes "\<forall>c\<in>set cs. rc_areaName c = b"
  shows "loadedBytes cs area = (if area = b then concat (map chunkBytes cs) else [])"
    "area \<noteq> b \<Longrightarrow> loadedRelocs cs area = {}"
proof -
  have "filter (\<lambda>c. rc_areaName c = area) cs = (if area = b then cs else [])"
    using assms by (auto simp: filter_empty_conv)
  then show "loadedBytes cs area = (if area = b then concat (map chunkBytes cs) else [])" by (simp add: loadedBytes_def)
  show "area \<noteq> b \<Longrightarrow> loadedRelocs cs area = {}" using assms by (auto simp: loadedRelocs_def)
qed

lemma loaded_area:
  assumes "list_all2 (\<lambda>a cs. (\<forall>c\<in>set cs. rc_areaName c = a) \<and> concat (map chunkBytes cs) = B a \<and> loadedRelocs cs a = R a) areas css"
    "distinct areas" "area \<in> set areas"
  shows "loadedBytes (concat css) area = B area \<and> loadedRelocs (concat css) area = R area"
  using assms
proof (induction areas css rule: list_all2_induct)
  case (Cons b areas cs css)
  have own: "\<forall>c\<in>set cs. rc_areaName c = b" using Cons(1) by simp
  have rest: "list_all2 (\<lambda>a cs. \<forall>c\<in>set cs. rc_areaName c = a) areas css"
    using Cons(2) by (rule list_all2_mono) simp
  show ?case
  proof (cases "area = b")
    case True
    then have "area \<notin> set areas" using Cons.prems(1) by simp
    then show ?thesis using Cons(1) loaded_other [OF rest] loaded_own(1) [OF own] True by (simp add: loaded_append)
  next
    case False
    then show ?thesis using Cons.IH Cons.prems loaded_own [OF own] by (simp add: loaded_append)
  qed
qed simp

lemma trim_first:
  assumes "\<not> isJsSpace x"
  shows "\<exists>k. trim (x # ys) = x # take k ys"
proof -
  have "dropWhile isJsSpace (rev ys @ [x]) = dropWhile isJsSpace (rev ys) @ [x]"
    using assms by (induction "rev ys" arbitrary: ys rule: list.induct) (auto simp: dropWhile_append)
  moreover have "rev (dropWhile isJsSpace (rev ys)) = take (length (dropWhile isJsSpace (rev ys))) ys"
    by (metis dropWhile_eq_drop rev_drop rev_rev_ident length_rev length_drop)
  ultimately show ?thesis using assms by (auto simp: trim_def)
qed

lemma read_module: "readRelLine (''M '' @ m) s = s"
proof -
  obtain k where "trim (''M '' @ m) = CHR ''M'' # take k (CHR '' '' # m)"
    using trim_first [of "CHR ''M''" "CHR '' '' # m"] by (auto simp: isJsSpace_def)
  then have "\<exists>fs. fieldsOf isJsSpace (trim (''M '' @ m)) = ''M'' # fs"
    by (cases k) (simp_all add: fieldsOf.simps isJsSpace_def)
  then show ?thesis by (auto simp: readRelLine_def)
qed

lemma read_other:
  "readRelLine ''XH2'' s = s" "readRelLine ''E'' s = s" "readRelLine [] s = s"
  "readRelLine (''H '' @ toUpperCase (toString16 a) @ '' areas '' @ toUpperCase (toString16 b) @ '' global symbols'') s = s"
  "oneLine (''H '' @ toUpperCase (toString16 a) @ '' areas '' @ toUpperCase (toString16 b) @ '' global symbols'')"
proof -
  have one: "readRelLine w s = s" if "solid w" "w \<notin> {''A'', ''S'', ''T'', ''R''}" for w
  proof -
    have "fieldsOf isJsSpace (trim (joinWith '' '' [w])) = [w]" by (rule read_line) (use that in simp_all)
    then show ?thesis using that(2) by (simp add: readRelLine_def)
  qed
  show "readRelLine ''XH2'' s = s" "readRelLine ''E'' s = s"
    by (rule one; simp add: solid_def isJsSpace_def)+
  show "readRelLine [] s = s" by (simp add: readRelLine_def trim_def fieldsOf.simps)
  let ?ws = "[''H'', toUpperCase (toString16 a), ''areas'', toUpperCase (toString16 b), ''global'', ''symbols'']"
  have l: "''H '' @ toUpperCase (toString16 a) @ '' areas '' @ toUpperCase (toString16 b) @ '' global symbols'' = joinWith '' '' ?ws"
    by simp
  have "solid (toUpperCase (toString16 n))" for n using solid_padded [of 0 n] by (simp add: padStart0_def)
  then have solid: "\<forall>w\<in>set ?ws. solid w" by (simp add: solid_def [of "_ # _"] isJsSpace_def)
  then have "fieldsOf isJsSpace (trim (joinWith '' '' ?ws)) = ?ws" by (rule read_line [rotated]) simp
  then show "readRelLine (''H '' @ toUpperCase (toString16 a) @ '' areas '' @ toUpperCase (toString16 b) @ '' global symbols'') s = s"
    unfolding readRelLine_def l by simp
  show "oneLine (''H '' @ toUpperCase (toString16 a) @ '' areas '' @ toUpperCase (toString16 b) @ '' global symbols'')"
    unfolding l by (rule oneLine_joined [OF solid])
qed

lemma names_of_symbols:
  "map sdldSymName (symbolNumbering entries (checkpointEntries r ba) areas) =
   ABS_NAME # map (\<lambda>g. sdldSymName (rs_name g)) (filter (\<lambda>g. \<not> rs_def g) entries)
     @ concat (map (areaSymbols entries (checkpointEntries r ba)) areas)"
proof -
  have "sdldSymName ABS_NAME = ABS_NAME" by code_simp
  moreover have cp: "map (sdldSymName \<circ> rs_name) (areaCheckpoints (checkpointEntries r ba) a) = map rs_name (areaCheckpoints (checkpointEntries r ba) a)" for a
    by (rule map_cong [OF refl])
      (auto simp: areaCheckpoints_def checkpointEntries_def checkpointId_def sdldSymName_def)
  ultimately show ?thesis
    by (simp add: symbolNumbering_def areaSymbols_def [abs_def] map_concat comp_def cp [unfolded comp_def])
qed

lemma solid_sdld: "solid n \<Longrightarrow> solid (sdldSymName n)"
  by (cases n) (auto simp: sdldSymName_def solid_def isJsSpace_def)

text \<open>Everything that the writer numbers has a name without spaces, and there are fewer than 65536 of each kind.\<close>

definition relEntries :: "(string \<Rightarrow> string \<Rightarrow> bool) \<Rightarrow> assembly_result \<Rightarrow> string list \<Rightarrow> rel_symbol list" where
  "relEntries leq r names = globalEntries leq (ar_symbolInfos r) names"

definition relAreas :: "(string \<Rightarrow> string \<Rightarrow> bool) \<Rightarrow> assembly_result \<Rightarrow> string list \<Rightarrow> string list" where
  "relAreas leq r names = relAreaNames r (relEntries leq r names)"

definition relSymbols :: "(string \<Rightarrow> string \<Rightarrow> bool) \<Rightarrow> assembly_result \<Rightarrow> string list \<Rightarrow> string list" where
  "relSymbols leq r names =
     symbolNumbering (relEntries leq r names) (checkpointEntries r (byteUnit r)) (relAreas leq r names)"

definition goodNames :: "string list \<Rightarrow> bool" where
  "goodNames ns \<longleftrightarrow> length ns < 65536 \<and> list_all solid ns"

lemma fold_three: "fold f (xs @ ys @ zs) s = fold f zs (fold f ys (fold f xs s))"
  by simp

lemma read_file:
  assumes "writeRel leq r names m = Inr out" "oneLine m" "goodNames (relAreas leq r names)" "goodNames (relSymbols leq r names)"
  shows "\<exists>css. list_all2 (\<lambda>a. chunksRead (byteUnit r) (relAreas leq r names) (relSymbols leq r names) (areaRelocs r a) a (wordRuns r a))
      (relAreas leq r names) css \<and>
    pr_areas (parseRelChunks out) = relAreas leq r names \<and>
    pr_symbols (parseRelChunks out) = map sdldSymName (relSymbols leq r names) \<and>
    pr_chunks (parseRelChunks out) = concat css"
proof -
  let ?entries = "relEntries leq r names" and ?cps = "checkpointEntries r (byteUnit r)"
    and ?areas = "relAreas leq r names" and ?symbols = "relSymbols leq r names"
  let ?ext = "filter (\<lambda>g. \<not> rs_def g) ?entries"
  let ?head = "''H '' @ toUpperCase (toString16 (length ?areas)) @ '' areas '' @ toUpperCase (toString16 (length ?symbols)) @ '' global symbols''"
  obtain body where body: "mapE (areaLines r ?entries ?cps ?areas ?symbols) ?areas = Inr body"
    and out: "out = joinLines (([''XH2'', ?head, ''M '' @ m, symbolLine ABS_NAME True 0]
      @ map (\<lambda>g. symbolLine (sdldSymName (rs_name g)) False 0) ?ext @ concat body @ [''E''])) @ [char_of (10 :: nat)]"
    using assms(1) unfolding writeRel_def relLines_def Let_def bindP_Inr relEntries_def relAreas_def relSymbols_def by auto
  let ?pre = "[''XH2'', ?head, ''M '' @ m, symbolLine ABS_NAME True 0] @ map (\<lambda>g. symbolLine (sdldSymName (rs_name g)) False 0) ?ext"
  have names: "\<forall>n\<in>set (map sdldSymName ?symbols). solid n" "\<forall>a\<in>set ?areas. solid a"
    "length ?areas < 65536" "length ?symbols < 65536"
    using assms(3,4) by (auto simp: goodNames_def list_all_iff intro: solid_sdld)
  then have ext: "solid ABS_NAME" "\<forall>n\<in>set (map (\<lambda>g. sdldSymName (rs_name g)) ?ext). solid n"
    and own: "\<forall>a\<in>set ?areas. \<forall>n\<in>set (areaSymbols ?entries ?cps a). solid n"
    unfolding relSymbols_def names_of_symbols by auto
  let ?s = "initialReader\<lparr>rr_symbols := ABS_NAME # map (\<lambda>g. sdldSymName (rs_name g)) ?ext\<rparr>"
  have first: "fold readRelLine ?pre initialReader = ?s"
    by (simp only: fold_append fold_simps comp_apply read_other read_module read_symbol(1) [OF ext(1)] read_symbols [OF ext(2)])
      (simp add: initialReader_def)
  have "(\<forall>l\<in>set (concat body). oneLine l) \<and>
    (\<exists>css sz cur. list_all2 (\<lambda>a. chunksRead (byteUnit r) ?areas ?symbols (areaRelocs r a) a (wordRuns r a)) ?areas css \<and>
      fold readRelLine (concat body) ?s = ?s\<lparr>rr_current := cur, rr_areas := ?areas, rr_areaSizes := sz,
        rr_symbols := rr_symbols ?s @ concat (map (areaSymbols ?entries ?cps) ?areas), rr_chunks := rr_chunks ?s @ concat css\<rparr>)"
    by (rule read_body [OF body [unfolded mapE_list_all2]])
      (use names own relAreaNames_facts [of r ?entries] in \<open>auto simp: initialReader_def relAreas_def\<close>)
  then obtain css sz cur where one: "\<forall>l\<in>set (concat body). oneLine l"
    and css: "list_all2 (\<lambda>a. chunksRead (byteUnit r) ?areas ?symbols (areaRelocs r a) a (wordRuns r a)) ?areas css"
    and mid: "fold readRelLine (concat body) ?s = ?s\<lparr>rr_current := cur, rr_areas := ?areas, rr_areaSizes := sz,
        rr_symbols := rr_symbols ?s @ concat (map (areaSymbols ?entries ?cps) ?areas), rr_chunks := rr_chunks ?s @ concat css\<rparr>"
    by blast
  have lines: "splitLines (unixLines out) = ?pre @ concat body @ [''E'', []]"
  proof -
    have j: "out = joinLines (?pre @ concat body @ [''E'', []])"
      unfolding out using joinLines_end [of "?pre @ concat body" "''E''"] by (simp only: append.simps append_assoc)
    have "\<forall>l\<in>set (?pre @ concat body @ [''E'', []]). oneLine l"
    proof -
      have "oneLine ''XH2''" "oneLine ''E''" "oneLine []" by code_simp+
      moreover have "oneLine (''M '' @ m)" using assms(2) by (simp add: oneLine_def char_of_eq_iff)
      moreover have "\<forall>l\<in>set (map (\<lambda>g. symbolLine (sdldSymName (rs_name g)) False 0) ?ext). oneLine l"
        using ext(2) read_symbol(2) by auto
      ultimately show ?thesis
        using one read_symbol(2) [OF ext(1)] read_other(5) by (auto simp del: append_Cons)
    qed
    from lines_text [OF this] show ?thesis unfolding j by simp
  qed
  have "fold readRelLine (?pre @ concat body @ [''E'', []]) initialReader =
      ?s\<lparr>rr_current := cur, rr_areas := ?areas, rr_areaSizes := sz,
        rr_symbols := rr_symbols ?s @ concat (map (areaSymbols ?entries ?cps) ?areas), rr_chunks := rr_chunks ?s @ concat css\<rparr>"
    unfolding fold_three [of readRelLine ?pre] first mid by (simp only: fold_simps read_other)
  with css show ?thesis
    unfolding parseRelChunks_def lines Let_def
    by (intro exI [of _ css]) (simp add: initialReader_def relSymbols_def names_of_symbols)
qed

lemma rel_read:
  assumes "writeRel leq r names m = Inr out" "oneLine m" "addressesFit r"
    "goodNames (relAreas leq r names)" "goodNames (relSymbols leq r names)"
  shows "pr_areas (parseRelChunks out) = relAreas leq r names"
    "pr_symbols (parseRelChunks out) = map sdldSymName (relSymbols leq r names)"
    "area \<in> set (relAreas leq r names) \<Longrightarrow>
       loadedBytes (pr_chunks (parseRelChunks out)) area = emittedBytes r area \<and>
       loadedRelocs (pr_chunks (parseRelChunks out)) area =
         emittedRelocs r (relAreas leq r names) (relSymbols leq r names) area"
proof -
  obtain css where css: "list_all2 (\<lambda>a. chunksRead (byteUnit r) (relAreas leq r names) (relSymbols leq r names) (areaRelocs r a) a (wordRuns r a))
      (relAreas leq r names) css"
    and parts: "pr_areas (parseRelChunks out) = relAreas leq r names"
      "pr_symbols (parseRelChunks out) = map sdldSymName (relSymbols leq r names)"
      "pr_chunks (parseRelChunks out) = concat css"
    using read_file [OF assms(1,2,4,5)] by blast
  show "pr_areas (parseRelChunks out) = relAreas leq r names"
    "pr_symbols (parseRelChunks out) = map sdldSymName (relSymbols leq r names)"
    by (fact parts)+
  have "list_all2 (\<lambda>a cs. (\<forall>c\<in>set cs. rc_areaName c = a) \<and> concat (map chunkBytes cs) = emittedBytes r a \<and>
      loadedRelocs cs a = emittedRelocs r (relAreas leq r names) (relSymbols leq r names) a) (relAreas leq r names) css"
    using css by (rule list_all2_mono) (simp add: area_chunks [OF _ assms(3)])
  moreover have "distinct (relAreas leq r names)" by (simp add: relAreas_def relAreaNames_facts)
  ultimately show "area \<in> set (relAreas leq r names) \<Longrightarrow>
       loadedBytes (pr_chunks (parseRelChunks out)) area = emittedBytes r area \<and>
       loadedRelocs (pr_chunks (parseRelChunks out)) area =
         emittedRelocs r (relAreas leq r names) (relSymbols leq r names) area"
    unfolding parts(3) by (rule loaded_area)
qed

text \<open>
  C16. an object file that the assembler writes is read back by the link step: its areas, its symbols
  under their linker names, and for every area the emitted bytes at their addresses, in the order of
  the addresses, and the relocations of those bytes.
\<close>

theorem rel_roundtrip:
  assumes "writeRel leq r names m = Inr out" "oneLine m" "addressesFit r"
    "goodNames (relAreas leq r names)" "goodNames (relSymbols leq r names)"
  shows "pr_areas (parseRelChunks out) = relAreas leq r names \<and>
    pr_symbols (parseRelChunks out) = map sdldSymName (relSymbols leq r names) \<and>
    (\<forall>area\<in>set (relAreas leq r names).
       loadedBytes (pr_chunks (parseRelChunks out)) area = emittedBytes r area \<and>
       loadedRelocs (pr_chunks (parseRelChunks out)) area =
         emittedRelocs r (relAreas leq r names) (relSymbols leq r names) area)"
  using rel_read [OF assms] by blast

text \<open>Two words in the code area, the second with the address of an external name.\<close>

definition twoWords :: assembly_result where
  "twoWords = \<lparr>ar_words = [\<lparr>ew_address = 8, ew_value = 0x1234, ew_lineNo = 1, ew_source = [], ew_area = ''_CODE''\<rparr>,
      \<lparr>ew_address = 9, ew_value = 0, ew_lineNo = 2, ew_source = [], ew_area = ''_CODE''\<rparr>],
     ar_symbols = Map.empty,
     ar_symbolInfos = [''START'' \<mapsto> \<lparr>si_value = 8, si_kind = SymGlobal, si_area = Some ''_CODE''\<rparr>,
       ''FAR'' \<mapsto> \<lparr>si_value = 0, si_kind = SymExternal, si_area = None\<rparr>],
     ar_relocs = [\<lparr>wr_byteAddr = 18, wr_left = RelSymbol ''FAR'', wr_right = RelConst 0, wr_area = ''_CODE'', wr_low8 = False\<rparr>],
     ar_areas = [\<lparr>ai_name = ''_CODE'', ai_size = 10, ai_noload = False\<rparr>], ar_sourceLines = [],
     ar_storageAddrs = Map.empty, ar_cpuType = CpuMn1613, ar_addressUnit = UnitWord, ar_checkpoints = []\<rparr>"

lemma rel_roundtrip_witness:
  "\<exists>out. writeRel (\<lambda>a b. True) twoWords [''START'', ''FAR''] ''demo'' = Inr out \<and>
     pr_areas (parseRelChunks out) = [''_CODE''] \<and>
     pr_symbols (parseRelChunks out) = [''.__.ABS.'', ''FAR'', ''START''] \<and>
     loadedBytes (pr_chunks (parseRelChunks out)) ''_CODE'' = [(16, 0x12), (17, 0x34), (18, 0), (19, 0)]"
proof -
  have "\<not> isl (writeRel (\<lambda>a b. True) twoWords [''START'', ''FAR''] ''demo'')" by code_simp
  then obtain out where out: "writeRel (\<lambda>a b. True) twoWords [''START'', ''FAR''] ''demo'' = Inr out"
    by (cases "writeRel (\<lambda>a b. True) twoWords [''START'', ''FAR''] ''demo''") auto
  have areas: "relAreas (\<lambda>a b. True) twoWords [''START'', ''FAR''] = [''_CODE'']" by code_simp
  have symbols: "relSymbols (\<lambda>a b. True) twoWords [''START'', ''FAR''] = [''.__.ABS.'', ''FAR'', ''START'']" by code_simp
  have names: "map sdldSymName [''.__.ABS.'', ''FAR'', ''START''] = [''.__.ABS.'', ''FAR'', ''START'']" by code_simp
  have hyps: "oneLine ''demo''" "addressesFit twoWords" "goodNames [''_CODE'']" "goodNames [''.__.ABS.'', ''FAR'', ''START'']"
    by (code_simp, simp add: addressesFit_def twoWords_def byteAddrOf_def, simp_all add: goodNames_def solid_def isJsSpace_def)
  have bytes: "emittedBytes twoWords ''_CODE'' = [(16, 0x12), (17, 0x34), (18, 0), (19, 0)]" by code_simp
  note read = rel_roundtrip [OF out hyps(1,2), unfolded areas symbols, OF hyps(3,4)]
  have "loadedBytes (pr_chunks (parseRelChunks out)) ''_CODE'' = emittedBytes twoWords ''_CODE''"
    using read by (simp only: list.set ball_simps simp_thms)
  then show ?thesis
    using out read [unfolded names] unfolding bytes by blast
qed

end
