(* ===== verification/Hshk_Io.thy ===== *)
theory Hshk_Io
  imports Io_Bridge
begin

text \<open>
  The side of the control and IO board of the handshake, \<^verbatim>\<open>shared/handshake/handshake_type.ts\<close> and
  \<^verbatim>\<open>shared/handshake/handshake_ioboard.ts\<close>.  The other side is the program that the CPU runs: while
  one of the conditions on the lines is awaited, it is advanced by the callback \<^verbatim>\<open>onPoll\<close>, and between
  the turns of the event loop by the other tasks.  Both are fields of the record \<open>hshk_io\<close>, over any
  type of states that holds the shared lines.  The deadline of a wait is the number of turns that
  fit into the timeout.
\<close>

subsection \<open>Codes\<close>

definition RESPONSE_OK :: u8 where "RESPONSE_OK = 0x00"
definition RESPONSE_NG :: u8 where "RESPONSE_NG = 0x01"
definition RESPONSE_NG_MODE_ERROR :: u8 where "RESPONSE_NG_MODE_ERROR = 0x01"
definition RESPONSE_NG_OTHER_ERROR :: u8 where "RESPONSE_NG_OTHER_ERROR = 0x02"

lemmas response_defs = RESPONSE_OK_def RESPONSE_NG_def RESPONSE_NG_MODE_ERROR_def RESPONSE_NG_OTHER_ERROR_def

definition INT_CAUSE_TIMER :: u16 where "INT_CAUSE_TIMER = 0"
definition INT_CAUSE_HANDSHAKE :: u16 where "INT_CAUSE_HANDSHAKE = 2"
definition INT_CAUSE_ADDR_BREAK :: u16 where "INT_CAUSE_ADDR_BREAK = 0"
definition INT_CAUSE_STEP :: u16 where "INT_CAUSE_STEP = 1"

definition encodeInt2Cause :: "u16 \<Rightarrow> u16" where "encodeInt2Cause cause = cause AND 0x06"
definition encodeInt1Cause :: "u16 \<Rightarrow> u16" where "encodeInt1Cause cause = cause AND 0x01"
definition intCauseForTimer :: u16 where "intCauseForTimer = INT_CAUSE_TIMER"

text \<open>Commands from the CPU.\<close>

definition MODE_SET :: u8 where "MODE_SET = 0x10"
definition TIME_GET :: u8 where "TIME_GET = 0x11"
definition TIMER_SET :: u8 where "TIMER_SET = 0x12"
definition UNDEF_NOTIFY :: u8 where "UNDEF_NOTIFY = 0x13"
definition HEX_KEY_GET :: u8 where "HEX_KEY_GET = 0x14"
definition PC_KEY_GET :: u8 where "PC_KEY_GET = 0x15"
definition LED_DISPLAY :: u8 where "LED_DISPLAY = 0x16"
definition LCD_CTRL :: u8 where "LCD_CTRL = 0x17"
definition LCD_TEXT :: u8 where "LCD_TEXT = 0x18"
definition BEEP :: u8 where "BEEP = 0x19"
definition BREAK_NOTIFY :: u8 where "BREAK_NOTIFY = 0x1A"
definition STEP_NOTIFY :: u8 where "STEP_NOTIFY = 0x1B"
definition RTC_GET_RAW :: u8 where "RTC_GET_RAW = 0x1C"
definition TEMP_GET_RAW :: u8 where "TEMP_GET_RAW = 0x1D"
definition LIGHT_GET_RAW :: u8 where "LIGHT_GET_RAW = 0x1E"
definition DISTANCE_GET_RAW :: u8 where "DISTANCE_GET_RAW = 0x1F"

lemmas cpu_command_defs = MODE_SET_def TIME_GET_def TIMER_SET_def UNDEF_NOTIFY_def HEX_KEY_GET_def PC_KEY_GET_def
  LED_DISPLAY_def LCD_CTRL_def LCD_TEXT_def BEEP_def BREAK_NOTIFY_def STEP_NOTIFY_def RTC_GET_RAW_def
  TEMP_GET_RAW_def LIGHT_GET_RAW_def DISTANCE_GET_RAW_def

text \<open>Commands to the CPU.\<close>

definition BREAK_MEM_IO_SET :: u8 where "BREAK_MEM_IO_SET = 0x80"
definition BREAK_MEM_IO_CLR :: u8 where "BREAK_MEM_IO_CLR = 0x81"
definition CMD_EXEC :: u8 where "CMD_EXEC = 0x82"
definition MEM_READ :: u8 where "MEM_READ = 0x83"
definition MEM_WRITE :: u8 where "MEM_WRITE = 0x84"
definition IO_READ :: u8 where "IO_READ = 0x85"
definition IO_WRITE :: u8 where "IO_WRITE = 0x86"

lemmas io_command_defs = BREAK_MEM_IO_SET_def BREAK_MEM_IO_CLR_def CMD_EXEC_def MEM_READ_def MEM_WRITE_def
  IO_READ_def IO_WRITE_def

definition MODE_MONITOR :: u8 where "MODE_MONITOR = 0"
definition MODE_FREE :: u8 where "MODE_FREE = 1"
definition ADDR_BREAK_SLOT_COUNT :: nat where "ADDR_BREAK_SLOT_COUNT = 4"
definition ADDR_BREAK_SET_PAYLOAD_LEN :: nat where "ADDR_BREAK_SET_PAYLOAD_LEN = 9"
definition ADDR_BREAK_SET_FRAME_LEN :: nat where "ADDR_BREAK_SET_FRAME_LEN = 1 + ADDR_BREAK_SET_PAYLOAD_LEN"
definition ADDR_BREAK_CLR_FRAME_LEN :: nat where "ADDR_BREAK_CLR_FRAME_LEN = 2"
definition MEM_READ_REQ_FRAME_LEN :: nat where "MEM_READ_REQ_FRAME_LEN = 9"
definition MEM_WRITE_REQ_HEADER_LEN :: nat where "MEM_WRITE_REQ_HEADER_LEN = 9"
definition HSHK_IO_MAX_BYTES :: nat where "HSHK_IO_MAX_BYTES = 254"
definition DEBUG_MEM_MAX_BYTES :: nat where "DEBUG_MEM_MAX_BYTES = 65536"

definition u32be :: "u32 \<Rightarrow> u8 list" where
  "u32be v = [ucast (drop_bit 24 v), ucast (drop_bit 16 v), ucast (drop_bit 8 v), ucast v]"

subsection \<open>Effects on the lines\<close>

datatype hshk_error =
    HandshakeTimeout
  | Ena0CheckFailed
  | HandshakeNG u8
  | HandshakeCount u8

type_synonym ('s, 'a) hshk = "'s \<Rightarrow> (hshk_error + 'a) \<times> 's"

definition retH :: "'a \<Rightarrow> ('s, 'a) hshk" where
  "retH x = (\<lambda>s. (Inr x, s))"

definition failH :: "hshk_error \<Rightarrow> ('s, 'a) hshk" where
  "failH e = (\<lambda>s. (Inl e, s))"

definition bindH :: "('s, 'a) hshk \<Rightarrow> ('a \<Rightarrow> ('s, 'b) hshk) \<Rightarrow> ('s, 'b) hshk" where
  "bindH m f = (\<lambda>s. case m s of (Inl e, t) \<Rightarrow> (Inl e, t) | (Inr x, t) \<Rightarrow> f x t)"

definition thenH :: "('s, 'a) hshk \<Rightarrow> ('s, 'b) hshk \<Rightarrow> ('s, 'b) hshk" where
  "thenH m n = bindH m (\<lambda>_. n)"

lemma runH [simp]:
  "retH x s = (Inr x, s)" "failH e s = (Inl e, s)"
  "m s = (Inr x, t) \<Longrightarrow> bindH m f s = f x t" "m s = (Inl e, t) \<Longrightarrow> bindH m f s = (Inl e, t)"
  "m s = (Inr x, t) \<Longrightarrow> thenH m n s = n t" "m s = (Inl e, t) \<Longrightarrow> thenH m n s = (Inl e, t)"
  by (simp_all add: retH_def failH_def bindH_def thenH_def)

text \<open>
  The shared lines in a state, the assignment of \<^verbatim>\<open>HSHK_IN_REQ\<close> with its mark that no interrupt is
  to be raised, the callback of a wait, the other tasks of a turn, and the turns before the deadline.
\<close>

record 's hshk_io =
  busOf :: "'s \<Rightarrow> cpu_io_signals"
  updBus :: "(cpu_io_signals \<Rightarrow> cpu_io_signals) \<Rightarrow> 's \<Rightarrow> 's"
  assignInReq :: "bool \<Rightarrow> bool \<Rightarrow> 's \<Rightarrow> 's"
  onPoll :: "('s \<Rightarrow> 's) option"
  otherTasks :: "'s \<Rightarrow> 's"
  turns :: nat

definition createHandshakeBus :: cpu_io_signals where
  "createHandshakeBus = \<lparr>INTERRUPT_BUSY = False, INT_CAUSE = 0, HSHK_OUT_DENA = False, HSHK_OUT_DACK = False,
     HSHK_IN_DENA = False, HSHK_IN_DACK = False, HSHK_OUT_REQ = False, HSHK_IN_REQ = False,
     HSHK_IN_DATA = 0, HSHK_OUT_DATA = 0\<rparr>"

definition setLines :: "'s hshk_io \<Rightarrow> (cpu_io_signals \<Rightarrow> cpu_io_signals) \<Rightarrow> ('s, unit) hshk" where
  "setLines io f = (\<lambda>s. (Inr (), updBus io f s))"

definition getLines :: "'s hshk_io \<Rightarrow> (cpu_io_signals \<Rightarrow> 'a) \<Rightarrow> ('s, 'a) hshk" where
  "getLines io f = (\<lambda>s. (Inr (f (busOf io s)), s))"

definition setHshkInReq :: "'s hshk_io \<Rightarrow> bool \<Rightarrow> bool \<Rightarrow> ('s, unit) hshk" where
  "setHshkInReq io v raiseIrq = (\<lambda>s. (Inr (), assignInReq io v (\<not> raiseIrq) s))"

lemma run_lines [simp]:
  "setLines io f s = (Inr (), updBus io f s)" "getLines io g s = (Inr (g (busOf io s)), s)"
  "setHshkInReq io v raiseIrq s = (Inr (), assignInReq io v (\<not> raiseIrq) s)"
  by (simp_all add: setLines_def getLines_def setHshkInReq_def)

subsection \<open>Waiting\<close>

definition WAIT_CONDITION_POLL_BUDGET :: nat where "WAIT_CONDITION_POLL_BUDGET = 4096"
definition ACK0_RETRY_MAX :: nat where "ACK0_RETRY_MAX = 10"

fun pollLoop :: "('s \<Rightarrow> 's) \<Rightarrow> ('s \<Rightarrow> bool) \<Rightarrow> nat \<Rightarrow> 's \<Rightarrow> bool \<times> 's" where
  "pollLoop poll c 0 s = (False, s)"
| "pollLoop poll c (Suc n) s = (if c (poll s) then (True, poll s) else pollLoop poll c n (poll s))"

text \<open>One check of a wait; \<open>n\<close> more turns fit before the deadline.\<close>

fun waitCheck :: "'s hshk_io \<Rightarrow> ('s \<Rightarrow> bool) \<Rightarrow> nat \<Rightarrow> ('s, unit) hshk" where
  "waitCheck io c 0 s = (if c s then (Inr (), s) else (Inl HandshakeTimeout, s))"
| "waitCheck io c (Suc n) s =
     (if c s then (Inr (), s)
      else
        (case onPoll io of
           None \<Rightarrow> waitCheck io c n (otherTasks io s)
         | Some poll \<Rightarrow>
             (case pollLoop poll c WAIT_CONDITION_POLL_BUDGET s of
                (True, t) \<Rightarrow> (Inr (), t)
              | (False, t) \<Rightarrow> waitCheck io c n (otherTasks io t))))"

definition waitCondition :: "'s hshk_io \<Rightarrow> (cpu_io_signals \<Rightarrow> bool) \<Rightarrow> ('s, unit) hshk" where
  "waitCondition io c = waitCheck io (\<lambda>s. c (busOf io s)) (turns io)"

fun ena0Loop :: "'s hshk_io \<Rightarrow> (cpu_io_signals \<Rightarrow> bool) \<Rightarrow> nat \<Rightarrow> ('s, unit) hshk" where
  "ena0Loop io c 0 s = (Inl Ena0CheckFailed, s)"
| "ena0Loop io c (Suc n) s =
     (let t = otherTasks io s in if c (busOf io t) then (Inr (), t) else ena0Loop io c n t)"

definition waitEna0Check :: "'s hshk_io \<Rightarrow> (cpu_io_signals \<Rightarrow> bool) \<Rightarrow> nat \<Rightarrow> ('s, unit) hshk" where
  "waitEna0Check io c maxRetry = (\<lambda>s. if c (busOf io s) then (Inr (), s) else ena0Loop io c maxRetry s)"

subsection \<open>From the CPU\<close>

definition waitForCpuRequest :: "'s hshk_io \<Rightarrow> ('s, unit) hshk" where
  "waitForCpuRequest io =
     thenH (waitCondition io HSHK_OUT_REQ) (setLines io (\<lambda>b. b\<lparr>HSHK_OUT_DACK := False\<rparr>))"

definition receiveUnitFromCpu :: "'s hshk_io \<Rightarrow> ('s, u8 \<times> u8) hshk" where
  "receiveUnitFromCpu io =
     thenH (waitCondition io HSHK_OUT_DENA)
     (bindH (getLines io (\<lambda>b. ucast (HSHK_OUT_DATA b))) (\<lambda>b0.
      thenH (setLines io (\<lambda>b. b\<lparr>HSHK_OUT_DACK := True\<rparr>))
     (thenH (waitCondition io (\<lambda>b. \<not> HSHK_OUT_DENA b))
     (bindH (getLines io (\<lambda>b. ucast (HSHK_OUT_DATA b))) (\<lambda>b1.
      thenH (setLines io (\<lambda>b. b\<lparr>HSHK_OUT_DACK := False\<rparr>))
     (retH (b0, b1)))))))"

fun receiveBytesFromCpu :: "'s hshk_io \<Rightarrow> nat \<Rightarrow> ('s, u8 list) hshk" where
  "receiveBytesFromCpu io 0 = retH []"
| "receiveBytesFromCpu io (Suc 0) = bindH (receiveUnitFromCpu io) (\<lambda>(b0, b1). retH [b0])"
| "receiveBytesFromCpu io (Suc (Suc n)) =
     bindH (receiveUnitFromCpu io) (\<lambda>(b0, b1).
     bindH (receiveBytesFromCpu io n) (\<lambda>bs. retH (b0 # b1 # bs)))"

definition finalizeReceive :: "'s hshk_io \<Rightarrow> ('s, unit) hshk" where
  "finalizeReceive io = waitCondition io (\<lambda>b. \<not> HSHK_OUT_REQ b)"

definition receive :: "'s hshk_io \<Rightarrow> nat \<Rightarrow> ('s, u8 list) hshk" where
  "receive io n =
     thenH (waitForCpuRequest io) (bindH (receiveBytesFromCpu io n) (\<lambda>bs. thenH (finalizeReceive io) (retH bs)))"

text \<open>The length of the frame follows from its first byte.\<close>

definition receiveFramed :: "'s hshk_io \<Rightarrow> (u8 \<Rightarrow> int) \<Rightarrow> ('s, u8 list) hshk" where
  "receiveFramed io remainingAfterFirst =
     thenH (waitForCpuRequest io) (bindH (receiveUnitFromCpu io) (\<lambda>(b0, b1).
       let n = nat (remainingAfterFirst b0) in
       bindH (if n = 0 then retH [] else if n = 1 then retH [b1]
              else bindH (receiveBytesFromCpu io (n - 1)) (\<lambda>tl. retH (b1 # tl))) (\<lambda>rest.
       thenH (finalizeReceive io) (retH (b0 # rest)))))"

text \<open>
  The length follows from the bytes so far.  A unit that fails to come ends the frame; the loop may
  not end for every rule of lengths, and a value is what it returns when it does.
\<close>

partial_function (option) adaptiveLoop ::
  "'s hshk_io \<Rightarrow> (u8 list \<Rightarrow> int) \<Rightarrow> u8 list \<Rightarrow> u8 list \<Rightarrow> 's \<Rightarrow> (u8 list \<times> 's) option" where
  "adaptiveLoop io remaining bytes pending s =
     (if remaining bytes \<le> 0 then Some (bytes, s)
      else if pending \<noteq> [] then adaptiveLoop io remaining (bytes @ [hd pending]) (tl pending) s
      else
        (case receiveUnitFromCpu io s of
           (r, t) \<Rightarrow>
             (case r of
                Inl e \<Rightarrow> Some (bytes, t)
              | Inr u \<Rightarrow> adaptiveLoop io remaining (bytes @ [fst u]) [snd u] t)))"

definition receiveFramedAdaptive ::
  "'s hshk_io \<Rightarrow> (u8 list \<Rightarrow> int) \<Rightarrow> 's \<Rightarrow> ((hshk_error + u8 list) \<times> 's) option" where
  "receiveFramedAdaptive io remaining s =
     (case thenH (waitForCpuRequest io) (receiveUnitFromCpu io) s of
        (Inl e, t) \<Rightarrow> Some (Inl e, t)
      | (Inr (b0, b1), t) \<Rightarrow>
          map_option (\<lambda>(bytes, u). thenH (finalizeReceive io) (retH bytes) u)
            (adaptiveLoop io remaining [b0] [b1] t))"

subsection \<open>To the CPU\<close>

definition initiateSend :: "'s hshk_io \<Rightarrow> bool \<Rightarrow> ('s, unit) hshk" where
  "initiateSend io raiseIrq =
     (if \<not> raiseIrq then
        thenH (waitCondition io (\<lambda>b. \<not> HSHK_IN_REQ b))
       (thenH (setLines io (\<lambda>b. b\<lparr>HSHK_IN_DENA := False, INT_CAUSE := INT_CAUSE_HANDSHAKE\<rparr>))
       (thenH (setHshkInReq io True False)
              (waitCondition io (\<lambda>b. \<not> HSHK_OUT_REQ b))))
      else
        thenH (waitCondition io (\<lambda>b. \<not> INTERRUPT_BUSY b \<and> \<not> HSHK_OUT_REQ b \<and> \<not> HSHK_IN_REQ b))
       (thenH (setLines io (\<lambda>b. b\<lparr>HSHK_IN_DENA := False, INT_CAUSE := INT_CAUSE_HANDSHAKE\<rparr>))
              (setHshkInReq io True True)))"

definition transferUnitToCpu :: "'s hshk_io \<Rightarrow> u8 \<Rightarrow> u8 \<Rightarrow> ('s, unit) hshk" where
  "transferUnitToCpu io b0 b1 =
     thenH (setLines io (\<lambda>b. b\<lparr>HSHK_IN_DATA := ucast b0, HSHK_IN_DENA := True\<rparr>))
    (thenH (waitCondition io HSHK_IN_DACK)
    (thenH (setLines io (\<lambda>b. b\<lparr>HSHK_IN_DATA := ucast b1, HSHK_IN_DENA := False\<rparr>))
           (waitCondition io (\<lambda>b. \<not> HSHK_IN_DACK b))))"

fun transferBytesToCpu :: "'s hshk_io \<Rightarrow> u8 list \<Rightarrow> ('s, unit) hshk" where
  "transferBytesToCpu io [] = retH ()"
| "transferBytesToCpu io [b0] = transferUnitToCpu io b0 0"
| "transferBytesToCpu io (b0 # b1 # bs) = thenH (transferUnitToCpu io b0 b1) (transferBytesToCpu io bs)"

definition finalizeSend :: "'s hshk_io \<Rightarrow> ('s, unit) hshk" where
  "finalizeSend io = thenH (waitCondition io (\<lambda>b. \<not> HSHK_IN_DACK b)) (setHshkInReq io False False)"

definition send :: "'s hshk_io \<Rightarrow> u8 list \<Rightarrow> bool \<Rightarrow> ('s, unit) hshk" where
  "send io data raiseIrq = thenH (initiateSend io raiseIrq) (thenH (transferBytesToCpu io data) (finalizeSend io))"

definition sendReceive :: "'s hshk_io \<Rightarrow> u8 list \<Rightarrow> nat \<Rightarrow> u8 list \<Rightarrow> ('s, u8 list) hshk" where
  "sendReceive io toCpu fromCpu thenToCpu =
     thenH (initiateSend io True) (thenH (transferBytesToCpu io toCpu)
    (bindH (if 0 < fromCpu then receiveBytesFromCpu io fromCpu else retH []) (\<lambda>reply.
     thenH (if thenToCpu \<noteq> [] then transferBytesToCpu io thenToCpu else retH ())
    (thenH (finalizeSend io) (retH reply)))))"

subsection \<open>Commands to the CPU\<close>

definition memRead :: "'s hshk_io \<Rightarrow> u32 \<Rightarrow> u32 \<Rightarrow> ('s, u8 list) hshk" where
  "memRead io byteAddr count =
     thenH (initiateSend io True)
    (thenH (transferBytesToCpu io ([MEM_READ, 0] @ u32be byteAddr @ u32be count))
    (bindH (if 0 < count then receiveBytesFromCpu io (unat count) else retH []) (\<lambda>out.
     thenH (transferBytesToCpu io [RESPONSE_OK])
    (thenH (finalizeSend io) (retH out)))))"

definition addrBreakSet :: "'s hshk_io \<Rightarrow> u8 list \<Rightarrow> ('s, u8) hshk" where
  "addrBreakSet io payload =
     (if length payload \<noteq> ADDR_BREAK_SET_PAYLOAD_LEN then retH RESPONSE_NG
      else bindH (sendReceive io (BREAK_MEM_IO_SET # payload) 1 []) (\<lambda>reply. retH (hd reply)))"

definition addrBreakClr :: "'s hshk_io \<Rightarrow> u8 \<Rightarrow> ('s, u8) hshk" where
  "addrBreakClr io slot =
     bindH (sendReceive io [BREAK_MEM_IO_CLR, slot] 1 []) (\<lambda>reply. retH (hd reply))"

text \<open>A status other than OK is an exception.\<close>

definition expectOk :: "u8 \<Rightarrow> u8 \<Rightarrow> ('s, unit) hshk" where
  "expectOk cmd st = (if st \<noteq> RESPONSE_OK then failH (HandshakeNG cmd) else retH ())"

definition memWrite :: "'s hshk_io \<Rightarrow> u32 \<Rightarrow> u8 list \<Rightarrow> ('s, unit) hshk" where
  "memWrite io byteAddr data =
     thenH (initiateSend io True)
    (thenH (transferBytesToCpu io ([MEM_WRITE, 0] @ u32be byteAddr @ u32be (of_nat (length data)) @ data))
    (bindH (receiveBytesFromCpu io 1) (\<lambda>st.
     thenH (finalizeSend io) (expectOk MEM_WRITE (hd st)))))"

definition hshkIoRead :: "'s hshk_io \<Rightarrow> u16 \<Rightarrow> u32 \<Rightarrow> ('s, u8 list) hshk" where
  "hshkIoRead io ioAddr byteCount =
     (let count = unat (byteCount AND 0xFF)
      in if HSHK_IO_MAX_BYTES < count then failH (HandshakeCount IO_READ)
         else
           thenH (initiateSend io True)
          (thenH (transferBytesToCpu io [IO_READ, 0, ucast (drop_bit 8 ioAddr), ucast ioAddr, of_nat count, 0])
          (bindH (receiveBytesFromCpu io (count + 1)) (\<lambda>rec.
           thenH (finalizeSend io)
          (thenH (expectOk IO_READ (rec ! count)) (retH (take count rec)))))))"

definition hshkIoWrite :: "'s hshk_io \<Rightarrow> u16 \<Rightarrow> u8 list \<Rightarrow> ('s, unit) hshk" where
  "hshkIoWrite io ioAddr data =
     (if HSHK_IO_MAX_BYTES < length data then failH (HandshakeCount IO_WRITE)
      else
        thenH (initiateSend io True)
       (thenH (transferBytesToCpu io
          ([IO_WRITE, 0, ucast (drop_bit 8 ioAddr), ucast ioAddr, of_nat (length data), 0] @ data))
       (bindH (receiveBytesFromCpu io 1) (\<lambda>st.
        thenH (finalizeSend io) (expectOk IO_WRITE (hd st))))))"

end
