(* ===== verification/Cpu_Peer.thy ===== *)
theory Cpu_Peer
  imports Hshk_Io
begin

text \<open>
  The program of the CPU as the partner of a handshake: the accesses to the lines that the routines
  of \<^verbatim>\<open>retrocpu_boot_monitor/src/mn1613/handshake/handshake_common.asm\<close> make, in their order, with any
  other instructions in between.  One poll of a wait executes one instruction.  The counters that
  end the loops of the CPU are left out.
\<close>

datatype cpu_access =
    SetOutData u8
  | SetOutReq bool
  | SetOutDena bool
  | SetInDack bool
  | ReadInData
  | AwaitOutDack bool
  | AwaitInDena bool
  | AwaitInReq
  | Work

fun enabled :: "cpu_access \<Rightarrow> cpu_io_signals \<Rightarrow> bool" where
  "enabled (AwaitOutDack v) b \<longleftrightarrow> HSHK_OUT_DACK b = v"
| "enabled (AwaitInDena v) b \<longleftrightarrow> HSHK_IN_DENA b = v"
| "enabled AwaitInReq b \<longleftrightarrow> HSHK_IN_REQ b"
| "enabled _ b \<longleftrightarrow> True"

fun effect :: "cpu_access \<Rightarrow> cpu_io_signals \<Rightarrow> cpu_io_signals" where
  "effect (SetOutData v) b = b\<lparr>HSHK_OUT_DATA := ucast v\<rparr>"
| "effect (SetOutReq v) b = b\<lparr>HSHK_OUT_REQ := v\<rparr>"
| "effect (SetOutDena v) b = b\<lparr>HSHK_OUT_DENA := v\<rparr>"
| "effect (SetInDack v) b = b\<lparr>HSHK_IN_DACK := v\<rparr>"
| "effect _ b = b"

fun bytesRead :: "cpu_access \<Rightarrow> cpu_io_signals \<Rightarrow> u8 list" where
  "bytesRead ReadInData b = [ucast (HSHK_IN_DATA b)]"
| "bytesRead _ b = []"

record cpu_peer =
  pr_bus :: cpu_io_signals
  pr_acts :: "cpu_access list"
  pr_got :: "u8 list"

definition peerStep :: "cpu_peer \<Rightarrow> cpu_peer" where
  "peerStep p =
     (case pr_acts p of
        [] \<Rightarrow> p
      | a # rest \<Rightarrow>
          if enabled a (pr_bus p) then
            \<lparr>pr_bus = effect a (pr_bus p), pr_acts = rest, pr_got = pr_got p @ bytesRead a (pr_bus p)\<rparr>
          else p)"

definition peerIo :: "(cpu_peer \<Rightarrow> cpu_peer) \<Rightarrow> nat \<Rightarrow> cpu_peer hshk_io" where
  "peerIo others n =
     \<lparr>busOf = pr_bus, updBus = (\<lambda>f p. p\<lparr>pr_bus := f (pr_bus p)\<rparr>),
      assignInReq = (\<lambda>v quiet p. p\<lparr>pr_bus := (pr_bus p)\<lparr>HSHK_IN_REQ := v\<rparr>\<rparr>),
      onPoll = Some peerStep, otherTasks = others, turns = n\<rparr>"

subsection \<open>Routines of the CPU\<close>

definition cpuInitiateSend :: "cpu_access list" where
  "cpuInitiateSend = [SetOutDena False, SetOutReq True]"

definition cpuSendFirst :: "u8 \<Rightarrow> cpu_access list" where
  "cpuSendFirst v = [SetOutData v, SetOutDena True, AwaitOutDack True]"

definition cpuSendSecond :: "u8 \<Rightarrow> cpu_access list" where
  "cpuSendSecond v = [SetOutData v, SetOutDena False, AwaitOutDack False]"

text \<open>The second half of an odd frame is the zero of \<^verbatim>\<open>l_hshk_flush_send\<close>.\<close>

fun cpuSendBytes :: "u8 list \<Rightarrow> cpu_access list" where
  "cpuSendBytes [] = []"
| "cpuSendBytes [v] = cpuSendFirst v @ cpuSendSecond 0"
| "cpuSendBytes (v # w # vs) = cpuSendFirst v @ cpuSendSecond w @ cpuSendBytes vs"

definition cpuFinalizeSend :: "cpu_access list" where
  "cpuFinalizeSend = [SetOutReq False]"

definition cpuAcceptRequest :: "cpu_access list" where
  "cpuAcceptRequest = [SetInDack False]"

definition cpuRecvFirst :: "cpu_access list" where
  "cpuRecvFirst = [AwaitInDena True, ReadInData, SetInDack True]"

definition cpuRecvSecond :: "cpu_access list" where
  "cpuRecvSecond = [AwaitInDena False, ReadInData, SetInDack False]"

text \<open>With the end of the reception, which drops the padding of an odd frame.\<close>

fun cpuRecvBytes :: "nat \<Rightarrow> cpu_access list" where
  "cpuRecvBytes 0 = [SetOutDena False]"
| "cpuRecvBytes (Suc 0) = cpuRecvFirst @ [SetOutDena False, AwaitInDena False, SetInDack False]"
| "cpuRecvBytes (Suc (Suc n)) = cpuRecvFirst @ cpuRecvSecond @ cpuRecvBytes n"

text \<open>A command with its response.\<close>

definition cpuTransaction :: "u8 list \<Rightarrow> nat \<Rightarrow> cpu_access list" where
  "cpuTransaction frame n =
     cpuInitiateSend @ cpuSendBytes frame @ cpuFinalizeSend @ [AwaitInReq] @ cpuAcceptRequest @ cpuRecvBytes n"

lemmas cpu_routine_defs = cpuInitiateSend_def cpuSendFirst_def cpuSendSecond_def cpuFinalizeSend_def
  cpuAcceptRequest_def cpuRecvFirst_def cpuRecvSecond_def

text \<open>Other instructions before each access; the list says how many.\<close>

fun withWork :: "nat list \<Rightarrow> cpu_access list \<Rightarrow> cpu_access list" where
  "withWork [] as = as"
| "withWork ks [] = []"
| "withWork (k # ks) (a # as) = replicate k Work @ a # withWork ks as"

definition linesIdle :: "cpu_io_signals \<Rightarrow> bool" where
  "linesIdle b \<longleftrightarrow> \<not> HSHK_OUT_REQ b \<and> \<not> HSHK_OUT_DENA b \<and> \<not> HSHK_OUT_DACK b \<and>
     \<not> HSHK_IN_REQ b \<and> \<not> HSHK_IN_DENA b \<and> \<not> HSHK_IN_DACK b"

end
