(* ===== verification/Io_Commands.thy ===== *)
theory Io_Commands
  imports Hshk_Io
begin

text \<open>
  The commands of the CPU to the control and IO board, \<^verbatim>\<open>ioboard/handshake/command_cpu_to_io.ts\<close>: the
  lengths of the frames, the rule by which a frame is received, the decoding of a frame and the
  response.  The handlers of the board are a record of functions over its state \<open>'s\<close>.
\<close>

subsection \<open>Lengths of frames\<close>

definition BREAK_NOTIFY_HEADER_SIZE :: nat where "BREAK_NOTIFY_HEADER_SIZE = 11"
definition BREAK_HISTORY_ENTRY_SIZE_MN1613 :: nat where "BREAK_HISTORY_ENTRY_SIZE_MN1613 = 66"
definition BREAK_HISTORY_ENTRY_SIZE_TMS9995 :: nat where "BREAK_HISTORY_ENTRY_SIZE_TMS9995 = 78"
definition CPU_STATE_NOTIFY_FRAME_SIZE_MN1613 :: nat where "CPU_STATE_NOTIFY_FRAME_SIZE_MN1613 = 60"
definition CPU_STATE_NOTIFY_FRAME_SIZE_TMS9995 :: nat where "CPU_STATE_NOTIFY_FRAME_SIZE_TMS9995 = 70"
definition BREAK_HISTORY_MAX_COUNT :: nat where "BREAK_HISTORY_MAX_COUNT = 4"
definition HSHK_CPU_MN1613 :: nat where "HSHK_CPU_MN1613 = 1"
definition HSHK_CPU_TMS9995 :: nat where "HSHK_CPU_TMS9995 = 2"

lemmas frame_size_defs = BREAK_NOTIFY_HEADER_SIZE_def BREAK_HISTORY_ENTRY_SIZE_MN1613_def
  BREAK_HISTORY_ENTRY_SIZE_TMS9995_def CPU_STATE_NOTIFY_FRAME_SIZE_MN1613_def
  CPU_STATE_NOTIFY_FRAME_SIZE_TMS9995_def BREAK_HISTORY_MAX_COUNT_def HSHK_CPU_MN1613_def HSHK_CPU_TMS9995_def

definition breakHistoryEntrySizeForCpu :: "nat \<Rightarrow> nat" where
  "breakHistoryEntrySizeForCpu cpuType =
     (if cpuType = HSHK_CPU_TMS9995 then BREAK_HISTORY_ENTRY_SIZE_TMS9995 else BREAK_HISTORY_ENTRY_SIZE_MN1613)"

definition CPU_FRAME_SIZE :: "u8 \<rightharpoonup> nat" where
  "CPU_FRAME_SIZE = map_of
     [(MODE_SET, 2), (HEX_KEY_GET, 1), (PC_KEY_GET, 2), (LED_DISPLAY, 16), (BEEP, 6), (TIMER_SET, 6),
      (TIME_GET, 1), (BREAK_NOTIFY, BREAK_NOTIFY_HEADER_SIZE), (LCD_CTRL, 6), (LCD_TEXT, 20),
      (STEP_NOTIFY, CPU_STATE_NOTIFY_FRAME_SIZE_MN1613), (UNDEF_NOTIFY, CPU_STATE_NOTIFY_FRAME_SIZE_MN1613),
      (RTC_GET_RAW, 1), (TEMP_GET_RAW, 1), (LIGHT_GET_RAW, 1), (DISTANCE_GET_RAW, 1)]"

definition CPU_PAYLOAD_REMAINING_SIZE :: "u8 \<rightharpoonup> nat" where
  "CPU_PAYLOAD_REMAINING_SIZE = map_option (\<lambda>n. n - 1) \<circ> CPU_FRAME_SIZE"

definition cpuFrameSizeForCpu :: "u8 \<Rightarrow> nat \<Rightarrow> nat" where
  "cpuFrameSizeForCpu cmd cpuType =
     (if cmd = STEP_NOTIFY \<or> cmd = UNDEF_NOTIFY then
        (if cpuType = HSHK_CPU_TMS9995 then CPU_STATE_NOTIFY_FRAME_SIZE_TMS9995
         else CPU_STATE_NOTIFY_FRAME_SIZE_MN1613)
      else (case CPU_FRAME_SIZE cmd of Some n \<Rightarrow> n | None \<Rightarrow> 1))"

text \<open>The bytes that a frame still lacks.\<close>

definition cpuToIoRemainingSize :: "u8 list \<Rightarrow> nat \<Rightarrow> nat \<Rightarrow> int" where
  "cpuToIoRemainingSize frameSoFar entrySize cpuType =
     (if frameSoFar = [] then 0
      else if hd frameSoFar \<noteq> BREAK_NOTIFY then
        max 0 (int (cpuFrameSizeForCpu (hd frameSoFar) cpuType) - int (length frameSoFar))
      else if length frameSoFar < 3 then max 0 (int BREAK_NOTIFY_HEADER_SIZE - int (length frameSoFar))
      else if BREAK_HISTORY_MAX_COUNT < unat (frameSoFar ! 2) then
        max 0 (int BREAK_NOTIFY_HEADER_SIZE - int (length frameSoFar))
      else max 0 (int (BREAK_NOTIFY_HEADER_SIZE + unat (frameSoFar ! 2) * entrySize) - int (length frameSoFar)))"

definition makeCpuToIoRemainingSize :: "nat \<Rightarrow> nat \<Rightarrow> u8 list \<Rightarrow> int" where
  "makeCpuToIoRemainingSize entrySize cpuType = (\<lambda>frameSoFar. cpuToIoRemainingSize frameSoFar entrySize cpuType)"

subsection \<open>Parameters of the commands\<close>

record led_display_data =
  sevenSeg :: "u8 list"
  bulletLed0_7 :: u8
  bulletLed8_F :: u8

definition LED_SEVEN_SEG_COUNT :: nat where "LED_SEVEN_SEG_COUNT = 12"

record beep_params =
  frequencyHz :: u16
  durationMs :: u16

record timer_params =
  timerNo :: u8
  tp_periodMs :: u16
  tp_count :: u16

text \<open>The address of a notification is the signed 32-bit number that the shifts of its bytes give.\<close>

record cpu_state_notify =
  sn_addr :: int
  sn_r0 :: u16
  sn_r1 :: u16
  sn_r2 :: u16
  sn_r3 :: u16
  sn_r4 :: u16
  sn_r5to15 :: "u16 list"
  sn_sp :: u16
  sn_str :: u16
  sn_ic :: u16
  sn_csbrSsbr :: u16
  sn_tsr :: u16
  sn_npp :: u8
  sn_stack :: "u16 list"

record break_notify_info =
  bn_kind :: nat
  bn_slot :: u8
  bn_flags :: u8
  bn_breakCount :: u8
  bn_historyCount :: u8
  bn_historyEntries :: "u8 list list"
  bn_addr :: int

record light_raw =
  lr_clear :: u16
  lr_red :: u16
  lr_green :: u16
  lr_blue :: u16

record 's cpu_to_io_handlers =
  onModeSet :: "u8 \<Rightarrow> 's \<Rightarrow> u8 \<times> 's"
  getHexKeys :: "'s \<Rightarrow> (u8 list \<times> u8) \<times> 's"
  getPcKey :: "'s \<Rightarrow> (u8 \<times> u8 \<times> u8) \<times> 's"
  onLedDisplay :: "led_display_data \<Rightarrow> 's \<Rightarrow> u8 \<times> 's"
  onBeep :: "beep_params \<Rightarrow> 's \<Rightarrow> u8 \<times> 's"
  onTimerSet :: "timer_params \<Rightarrow> 's \<Rightarrow> u8 \<times> 's"
  getTime :: "'s \<Rightarrow> (u8 list \<times> u8) \<times> 's"
  onBreakNotify :: "break_notify_info \<Rightarrow> 's \<Rightarrow> u8 \<times> 's"
  onStepNotify :: "cpu_state_notify \<Rightarrow> 's \<Rightarrow> u8 \<times> 's"
  onUndefNotify :: "cpu_state_notify \<Rightarrow> 's \<Rightarrow> u8 \<times> 's"
  onLcdControl :: "u8 list \<Rightarrow> 's \<Rightarrow> u8 \<times> 's"
  onLcdText :: "u8 list \<Rightarrow> 's \<Rightarrow> u8 \<times> 's"
  getRtcRaw :: "'s \<Rightarrow> (u8 list \<times> u8) \<times> 's"
  getTempRaw :: "'s \<Rightarrow> (u16 \<times> u8) \<times> 's"
  getLightRaw :: "'s \<Rightarrow> (light_raw \<times> u8) \<times> 's"
  getDistanceRaw :: "'s \<Rightarrow> (u16 \<times> u8 \<times> u8) \<times> 's"

subsection \<open>Decoding\<close>

definition frameWord :: "u8 list \<Rightarrow> nat \<Rightarrow> u16" where
  "frameWord buf ofs = push_bit 8 (ucast (buf ! ofs)) OR ucast (buf ! (ofs + 1))"

definition frameAddr :: "u8 list \<Rightarrow> nat \<Rightarrow> int" where
  "frameAddr buf ofs =
     sint (push_bit 24 (ucast (buf ! ofs)) OR push_bit 16 (ucast (buf ! (ofs + 1)))
           OR push_bit 8 (ucast (buf ! (ofs + 2))) OR ucast (buf ! (ofs + 3)) :: u32)"

definition bytesFromTo :: "'a list \<Rightarrow> nat \<Rightarrow> nat \<Rightarrow> 'a list" where
  "bytesFromTo xs i j = take (j - i) (drop i xs)"

definition decodeMn1613CpuStateNotifyInfo :: "u8 list \<Rightarrow> cpu_state_notify" where
  "decodeMn1613CpuStateNotifyInfo frame =
     \<lparr>sn_addr = frameAddr frame 0x02,
      sn_r0 = frameWord frame 0x06, sn_r1 = frameWord frame 0x08, sn_r2 = frameWord frame 0x0a,
      sn_r3 = frameWord frame 0x0c, sn_r4 = frameWord frame 0x0e, sn_r5to15 = [],
      sn_sp = frameWord frame 0x10, sn_str = frameWord frame 0x12, sn_ic = frameWord frame 0x14,
      sn_csbrSsbr = frameWord frame 0x16, sn_tsr = frameWord frame 0x18, sn_npp = frame ! 0x1a,
      sn_stack = map (\<lambda>i. frameWord frame (0x1c + i * 2)) [0..<16]\<rparr>"

definition decodeTmsCpuStateNotifyInfo :: "u8 list \<Rightarrow> cpu_state_notify" where
  "decodeTmsCpuStateNotifyInfo frame =
     (let regs = map (\<lambda>i. frameWord frame (0x06 + i * 2)) [0..<16] in
      \<lparr>sn_addr = frameAddr frame 0x02,
       sn_r0 = regs ! 0, sn_r1 = regs ! 1, sn_r2 = regs ! 2, sn_r3 = regs ! 3, sn_r4 = regs ! 4,
       sn_r5to15 = drop 5 regs, sn_sp = regs ! 10, sn_str = 0, sn_ic = 0, sn_csbrSsbr = 0, sn_tsr = 0, sn_npp = 0,
       sn_stack = map (\<lambda>i. frameWord frame (0x26 + i * 2)) [0..<16]\<rparr>)"

text \<open>A dispatcher has its handlers, the length of an entry of the history and the kind of the CPU.\<close>

record 's dispatcher =
  handlers :: "'s cpu_to_io_handlers"
  historyEntrySize :: nat
  dispatcherCpu :: nat

definition newDispatcher :: "'s cpu_to_io_handlers \<Rightarrow> nat option \<Rightarrow> nat option \<Rightarrow> 's dispatcher" where
  "newDispatcher hs entrySize cpuType =
     \<lparr>handlers = hs,
      historyEntrySize = (case entrySize of Some n \<Rightarrow> n | None \<Rightarrow> BREAK_HISTORY_ENTRY_SIZE_MN1613),
      dispatcherCpu = (case cpuType of Some n \<Rightarrow> n | None \<Rightarrow> HSHK_CPU_MN1613)\<rparr>"

definition setCpuType :: "nat \<Rightarrow> 's dispatcher \<Rightarrow> 's dispatcher" where
  "setCpuType t d = d\<lparr>dispatcherCpu := t\<rparr>"

definition setHistoryEntrySize :: "nat \<Rightarrow> 's dispatcher \<Rightarrow> 's dispatcher" where
  "setHistoryEntrySize n d = d\<lparr>historyEntrySize := n\<rparr>"

definition decodeCpuStateNotifyInfo :: "'s dispatcher \<Rightarrow> u8 list \<Rightarrow> cpu_state_notify" where
  "decodeCpuStateNotifyInfo d frame =
     (if dispatcherCpu d = HSHK_CPU_TMS9995 then decodeTmsCpuStateNotifyInfo frame
      else decodeMn1613CpuStateNotifyInfo frame)"

subsection \<open>Responses\<close>

definition respond1 :: "u8 \<times> 's \<Rightarrow> u8 list \<times> 's" where
  "respond1 r = ([fst r], snd r)"

definition be16 :: "u16 \<Rightarrow> u8 list" where
  "be16 v = [ucast (drop_bit 8 v), ucast v]"

text \<open>A fixed number of bytes, filled up with zeros.\<close>

definition fixedBytes :: "nat \<Rightarrow> u8 list \<Rightarrow> u8 list" where
  "fixedBytes n bs = take n bs @ replicate (n - length bs) 0"

definition handleModeSet :: "'s dispatcher \<Rightarrow> u8 list \<Rightarrow> 's \<Rightarrow> u8 list \<times> 's" where
  "handleModeSet d frame s =
     (if frame ! 1 \<noteq> MODE_MONITOR \<and> frame ! 1 \<noteq> MODE_FREE then ([RESPONSE_NG], s)
      else respond1 (onModeSet (handlers d) (frame ! 1) s))"

definition handleHexKeyGet :: "'s dispatcher \<Rightarrow> 's \<Rightarrow> u8 list \<times> 's" where
  "handleHexKeyGet d s =
     (case getHexKeys (handlers d) s of ((columns, status), t) \<Rightarrow> (fixedBytes 8 columns @ [status], t))"

definition handlePcKeyGet :: "'s dispatcher \<Rightarrow> 's \<Rightarrow> u8 list \<times> 's" where
  "handlePcKeyGet d s =
     (case getPcKey (handlers d) s of ((ascii, keyCode, status), t) \<Rightarrow> ([ascii, keyCode, status], t))"

definition handleLedDisplay :: "'s dispatcher \<Rightarrow> u8 list \<Rightarrow> 's \<Rightarrow> u8 list \<times> 's" where
  "handleLedDisplay d frame s =
     respond1 (onLedDisplay (handlers d)
       \<lparr>sevenSeg = bytesFromTo frame 0x02 0x0e, bulletLed0_7 = frame ! 0x0e, bulletLed8_F = frame ! 0x0f\<rparr> s)"

definition handleBeep :: "'s dispatcher \<Rightarrow> u8 list \<Rightarrow> 's \<Rightarrow> u8 list \<times> 's" where
  "handleBeep d frame s =
     respond1 (onBeep (handlers d) \<lparr>frequencyHz = frameWord frame 0x01, durationMs = frameWord frame 0x03\<rparr> s)"

definition handleTimerSet :: "'s dispatcher \<Rightarrow> u8 list \<Rightarrow> 's \<Rightarrow> u8 list \<times> 's" where
  "handleTimerSet d frame s =
     (if frame ! 1 \<noteq> 0 then ([RESPONSE_NG], s)
      else respond1 (onTimerSet (handlers d)
        \<lparr>timerNo = frame ! 1, tp_periodMs = frameWord frame 0x02, tp_count = frameWord frame 0x04\<rparr> s))"

definition handleTimeGet :: "'s dispatcher \<Rightarrow> 's \<Rightarrow> u8 list \<times> 's" where
  "handleTimeGet d s =
     (case getTime (handlers d) s of ((timestamp, status), t) \<Rightarrow> (fixedBytes 8 timestamp @ [status], t))"

text \<open>
  The number of entries that are there; a division by an entry size of 0 is infinite or undefined in
  the code, so that all or none of the entries are taken.
\<close>

definition parseCount :: "nat \<Rightarrow> nat \<Rightarrow> nat \<Rightarrow> nat" where
  "parseCount historyCount entryBytes entrySize =
     (if entrySize = 0 then (if entryBytes = 0 then 0 else historyCount)
      else min historyCount (entryBytes div entrySize))"

definition handleBreakNotify :: "'s dispatcher \<Rightarrow> u8 list \<Rightarrow> 's \<Rightarrow> u8 list \<times> 's" where
  "handleBreakNotify d frame s =
     (let slot = frame ! 1; historyCount = frame ! 2; flags = frame ! 3; n = historyEntrySize d;
          count = parseCount (unat historyCount) (length frame - BREAK_NOTIFY_HEADER_SIZE) n
      in if ADDR_BREAK_SLOT_COUNT \<le> unat slot then ([RESPONSE_NG], s)
         else if BREAK_HISTORY_MAX_COUNT < unat historyCount then ([RESPONSE_NG], s)
         else respond1 (onBreakNotify (handlers d)
           \<lparr>bn_kind = (if flags AND 0x40 \<noteq> 0 then 0 else if flags AND 0x01 \<noteq> 0 then 2 else 1),
            bn_slot = slot, bn_flags = flags, bn_breakCount = frame ! 4, bn_historyCount = historyCount,
            bn_historyEntries =
              map (\<lambda>i. bytesFromTo frame (BREAK_NOTIFY_HEADER_SIZE + i * n) (BREAK_NOTIFY_HEADER_SIZE + i * n + n)) [0..<count],
            bn_addr = frameAddr frame 5\<rparr> s))"

definition handleStepNotify :: "'s dispatcher \<Rightarrow> u8 list \<Rightarrow> 's \<Rightarrow> u8 list \<times> 's" where
  "handleStepNotify d frame s = respond1 (onStepNotify (handlers d) (decodeCpuStateNotifyInfo d frame) s)"

definition handleUndefNotify :: "'s dispatcher \<Rightarrow> u8 list \<Rightarrow> 's \<Rightarrow> u8 list \<times> 's" where
  "handleUndefNotify d frame s = respond1 (onUndefNotify (handlers d) (decodeCpuStateNotifyInfo d frame) s)"

definition handleRtcGetRaw :: "'s dispatcher \<Rightarrow> 's \<Rightarrow> u8 list \<times> 's" where
  "handleRtcGetRaw d s = (case getRtcRaw (handlers d) s of ((regs, status), t) \<Rightarrow> (fixedBytes 7 regs @ [status], t))"

definition handleTempGetRaw :: "'s dispatcher \<Rightarrow> 's \<Rightarrow> u8 list \<times> 's" where
  "handleTempGetRaw d s = (case getTempRaw (handlers d) s of ((raw, status), t) \<Rightarrow> (be16 raw @ [status], t))"

definition handleLightGetRaw :: "'s dispatcher \<Rightarrow> 's \<Rightarrow> u8 list \<times> 's" where
  "handleLightGetRaw d s =
     (case getLightRaw (handlers d) s of
        ((l, status), t) \<Rightarrow> (be16 (lr_clear l) @ be16 (lr_red l) @ be16 (lr_green l) @ be16 (lr_blue l) @ [status], t))"

definition handleDistanceGetRaw :: "'s dispatcher \<Rightarrow> 's \<Rightarrow> u8 list \<times> 's" where
  "handleDistanceGetRaw d s =
     (case getDistanceRaw (handlers d) s of
        ((mm, rangeStatus, status), t) \<Rightarrow> (be16 mm @ [rangeStatus AND 0x1f, status], t))"

definition handleLcdControl :: "'s dispatcher \<Rightarrow> u8 list \<Rightarrow> 's \<Rightarrow> u8 list \<times> 's" where
  "handleLcdControl d frame s = respond1 (onLcdControl (handlers d) frame s)"

definition handleLcdText :: "'s dispatcher \<Rightarrow> u8 list \<Rightarrow> 's \<Rightarrow> u8 list \<times> 's" where
  "handleLcdText d frame s = respond1 (onLcdText (handlers d) frame s)"

text \<open>A frame that is shorter than its command needs, and an unknown command, are refused.\<close>

definition dispatch :: "'s dispatcher \<Rightarrow> u8 list \<Rightarrow> 's \<Rightarrow> u8 list \<times> 's" where
  "dispatch d frame s =
     (if frame = [] then ([RESPONSE_NG], s)
      else let cmd = hd frame in
        if length frame < cpuFrameSizeForCpu cmd (dispatcherCpu d) then ([RESPONSE_NG], s)
        else if cmd = MODE_SET then handleModeSet d frame s
        else if cmd = HEX_KEY_GET then handleHexKeyGet d s
        else if cmd = PC_KEY_GET then handlePcKeyGet d s
        else if cmd = LED_DISPLAY then handleLedDisplay d frame s
        else if cmd = BEEP then handleBeep d frame s
        else if cmd = TIMER_SET then handleTimerSet d frame s
        else if cmd = TIME_GET then handleTimeGet d s
        else if cmd = BREAK_NOTIFY then handleBreakNotify d frame s
        else if cmd = LCD_CTRL then handleLcdControl d frame s
        else if cmd = LCD_TEXT then handleLcdText d frame s
        else if cmd = STEP_NOTIFY then handleStepNotify d frame s
        else if cmd = UNDEF_NOTIFY then handleUndefNotify d frame s
        else if cmd = RTC_GET_RAW then handleRtcGetRaw d s
        else if cmd = TEMP_GET_RAW then handleTempGetRaw d s
        else if cmd = LIGHT_GET_RAW then handleLightGetRaw d s
        else if cmd = DISTANCE_GET_RAW then handleDistanceGetRaw d s
        else ([RESPONSE_NG], s))"

end
