(* ===== verification/Io_Devices.thy ===== *)
theory Io_Devices
  imports Io_Commands Js_Text
begin

text \<open>
  The devices of the control and IO board: the LCD (\<^verbatim>\<open>lcd_console/lcd_console.ts\<close>), the key matrix
  (\<^verbatim>\<open>hex_keyboard/key_matrix.ts\<close>), the latches of the lamps (\<^verbatim>\<open>seven_led/io_led.ts\<close>,
  \<^verbatim>\<open>bullet_led/io_undef_led.ts\<close>), the patterns of the seven segments (\<^verbatim>\<open>seven_led/seg_font.ts\<close>), the timer
  (\<^verbatim>\<open>timer/io_timer.ts\<close>) and the clock (\<^verbatim>\<open>timer/io_time.ts\<close>).
\<close>

subsection \<open>LCD\<close>

definition LCD_COLS :: nat where "LCD_COLS = 16"
definition LCD_ROWS :: nat where "LCD_ROWS = 2"
definition LCD_OK :: u8 where "LCD_OK = 0x00"
definition LCD_NG :: u8 where "LCD_NG = 0x01"
definition LCD_SPACE :: u8 where "LCD_SPACE = 0x20"

lemmas lcd_defs = LCD_COLS_def LCD_ROWS_def LCD_OK_def LCD_NG_def LCD_SPACE_def

record lcd =
  ddram :: "u8 list"
  cursorRow :: nat
  cursorCol :: nat
  displayOn :: bool
  cursorOn :: bool
  blinkOn :: bool

definition newLcd :: lcd where
  "newLcd = \<lparr>ddram = replicate (LCD_COLS * LCD_ROWS) LCD_SPACE, cursorRow = 0, cursorCol = 0,
     displayOn = True, cursorOn = False, blinkOn = False\<rparr>"

definition lcdReset :: "lcd \<Rightarrow> lcd" where
  "lcdReset l = l\<lparr>ddram := replicate (length (ddram l)) LCD_SPACE, cursorRow := 0, cursorCol := 0,
     displayOn := True, cursorOn := False, blinkOn := False\<rparr>"

definition lcdClear :: "lcd \<Rightarrow> lcd" where
  "lcdClear l = l\<lparr>ddram := replicate (length (ddram l)) LCD_SPACE, cursorRow := 0, cursorCol := 0\<rparr>"

definition lcdHome :: "lcd \<Rightarrow> lcd" where
  "lcdHome l = l\<lparr>cursorRow := 0, cursorCol := 0\<rparr>"

definition setDisplayControl :: "u8 \<Rightarrow> lcd \<Rightarrow> lcd" where
  "setDisplayControl bits l =
     l\<lparr>displayOn := (bits AND 0x01 \<noteq> 0), cursorOn := (bits AND 0x02 \<noteq> 0), blinkOn := (bits AND 0x04 \<noteq> 0)\<rparr>"

definition isValidRow :: "int \<Rightarrow> bool" where "isValidRow row \<longleftrightarrow> row = 0 \<or> row = 1"
definition isValidCol :: "int \<Rightarrow> bool" where "isValidCol col \<longleftrightarrow> 0 \<le> col \<and> col < int LCD_COLS"

definition setCursor :: "int \<Rightarrow> int \<Rightarrow> lcd \<Rightarrow> bool \<times> lcd" where
  "setCursor row col l =
     (if \<not> isValidRow row \<or> \<not> isValidCol col then (False, l)
      else (True, l\<lparr>cursorRow := nat row, cursorCol := nat col\<rparr>))"

definition lcdIndex :: "nat \<Rightarrow> nat \<Rightarrow> nat" where
  "lcdIndex row col = row * LCD_COLS + col"

definition normalizeAscii :: "u8 \<Rightarrow> u8" where
  "normalizeAscii v = (if v < 0x20 \<or> 0x7e < v then LCD_SPACE else v)"

text \<open>Both ways of writing store the codes from a column on.\<close>

fun writeCodes :: "nat \<Rightarrow> nat \<Rightarrow> u8 list \<Rightarrow> u8 list \<Rightarrow> u8 list" where
  "writeCodes row col [] ram = ram"
| "writeCodes row col (c # cs) ram =
     writeCodes row (col + 1) cs (ram[lcdIndex row col := normalizeAscii c])"

definition writeText :: "int \<Rightarrow> int \<Rightarrow> string \<Rightarrow> lcd \<Rightarrow> bool \<times> lcd" where
  "writeText row col t l =
     (if \<not> isValidRow row \<or> \<not> isValidCol col then (False, l)
      else let cs = take (LCD_COLS - nat col) (map of_char t) in
        (True, l\<lparr>ddram := writeCodes (nat row) (nat col) cs (ddram l), cursorRow := nat row,
           cursorCol := min (nat col + length cs) (LCD_COLS - 1)\<rparr>))"

definition handleControlFrame :: "u8 list \<Rightarrow> lcd \<Rightarrow> u8 \<times> lcd" where
  "handleControlFrame frame l =
     (if length frame < 6 then (LCD_NG, l)
      else let kind = frame ! 2 in
        if kind = 0 then (LCD_OK, lcdClear l)
        else if kind = 1 then (LCD_OK, lcdHome l)
        else if kind = 2 then (LCD_OK, setDisplayControl (frame ! 3) l)
        else if kind = 3 then
          (case setCursor (uint (frame ! 4)) (uint (frame ! 5)) l of (ok, l') \<Rightarrow> (if ok then LCD_OK else LCD_NG, l'))
        else (LCD_NG, l))"

text \<open>Missing characters of a text are blanks.\<close>

definition handleTextFrame :: "u8 list \<Rightarrow> lcd \<Rightarrow> u8 \<times> lcd" where
  "handleTextFrame frame l =
     (if length frame < 4 then (LCD_NG, l)
      else let row = unat (frame ! 1); col = unat (frame ! 2); len = unat (frame ! 3) in
        if \<not> isValidRow (int row) \<or> \<not> isValidCol (int col) then (LCD_NG, l)
        else if 16 < len then (LCD_NG, l)
        else let n = min len (LCD_COLS - col);
                 cs = map (\<lambda>i. if 4 + i < length frame then frame ! (4 + i) else LCD_SPACE) [0..<n] in
          (LCD_OK, l\<lparr>ddram := writeCodes row col cs (ddram l), cursorRow := row,
             cursorCol := min (col + n) (LCD_COLS - 1)\<rparr>))"

record lcd_wire =
  lw_cols :: nat
  lw_rows :: nat
  lw_lines :: "string \<times> string"
  lw_cursorRow :: nat
  lw_cursorCol :: nat
  lw_displayOn :: bool
  lw_cursorOn :: bool
  lw_blinkOn :: bool

definition readLine :: "nat \<Rightarrow> lcd \<Rightarrow> string" where
  "readLine row l =
     map (\<lambda>col. char_of (unat (normalizeAscii
       (if lcdIndex row col < length (ddram l) then ddram l ! lcdIndex row col else LCD_SPACE)))) [0..<LCD_COLS]"

definition lcdSnapshot :: "lcd \<Rightarrow> lcd_wire" where
  "lcdSnapshot l = \<lparr>lw_cols = LCD_COLS, lw_rows = LCD_ROWS, lw_lines = (readLine 0 l, readLine 1 l),
     lw_cursorRow = cursorRow l, lw_cursorCol = cursorCol l, lw_displayOn = displayOn l,
     lw_cursorOn = cursorOn l, lw_blinkOn = blinkOn l\<rparr>"

definition emptyLcdWire :: lcd_wire where
  "emptyLcdWire = \<lparr>lw_cols = LCD_COLS, lw_rows = LCD_ROWS,
     lw_lines = (replicate LCD_COLS (CHR '' ''), replicate LCD_COLS (CHR '' '')),
     lw_cursorRow = 0, lw_cursorCol = 0, lw_displayOn = True, lw_cursorOn = False, lw_blinkOn = False\<rparr>"

subsection \<open>Keys\<close>

definition HEX_KEY_COL_BIT3_TO_0 :: "string list list" where
  "HEX_KEY_COL_BIT3_TO_0 =
     [[''C'', ''8'', ''4'', ''0''], [''D'', ''9'', ''5'', ''1''], [''E'', ''A'', ''6'', ''2''],
      [''F'', ''B'', ''7'', ''3''], [''F0'', ''F2'', ''F4'', ''F6''], [''F1'', ''F3'', ''F5'', ''F7'']]"

fun indexFrom :: "nat \<Rightarrow> 'a \<Rightarrow> 'a list \<Rightarrow> nat option" where
  "indexFrom i x [] = None"
| "indexFrom i x (y # ys) = (if x = y then Some i else indexFrom (i + 1) x ys)"

fun keyColumnFrom :: "nat \<Rightarrow> string \<Rightarrow> string list list \<Rightarrow> (nat \<times> u8) option" where
  "keyColumnFrom col k [] = None"
| "keyColumnFrom col k (names # rest) =
     (case indexFrom 0 k names of
        None \<Rightarrow> keyColumnFrom (col + 1) k rest
      | Some i \<Rightarrow> Some (col, push_bit (3 - i) 1))"

definition panelKeyColumnMask :: "string \<Rightarrow> (nat \<times> u8) option" where
  "panelKeyColumnMask key = keyColumnFrom 0 (toUpperCase (trim key)) HEX_KEY_COL_BIT3_TO_0"

subsection \<open>Lamps\<close>

definition emptyLed :: led_display_data where
  "emptyLed = \<lparr>sevenSeg = replicate LED_SEVEN_SEG_COUNT 0, bulletLed0_7 = 0, bulletLed8_F = 0\<rparr>"

definition applyLedDisplayCommand :: "led_display_data \<Rightarrow> led_display_data" where
  "applyLedDisplayCommand d =
     \<lparr>sevenSeg = fixedBytes LED_SEVEN_SEG_COUNT (sevenSeg d), bulletLed0_7 = bulletLed0_7 d, bulletLed8_F = bulletLed8_F d\<rparr>"

definition applyUndefLedCommand :: "bool \<Rightarrow> bool" where "applyUndefLedCommand on = on"
definition resetUndefLed :: bool where "resetUndefLed = False"

subsection \<open>Seven segments\<close>

definition HEX_TO_SEG :: "string \<rightharpoonup> u8" where
  "HEX_TO_SEG = map_of
     [(''0'', 0x3f), (''1'', 0x06), (''2'', 0x5b), (''3'', 0x4f), (''4'', 0x66), (''5'', 0x6d), (''6'', 0x7d),
      (''7'', 0x07), (''8'', 0x7f), (''9'', 0x6f), (''A'', 0x77), (''B'', 0x7c), (''C'', 0x39), (''D'', 0x5e),
      (''E'', 0x79), (''F'', 0x71)]"

definition hexDigitToSeg :: "string \<Rightarrow> u8" where
  "hexDigitToSeg d = (case HEX_TO_SEG (toUpperCase d) of Some v \<Rightarrow> v | None \<Rightarrow> 0)"

text \<open>\<^verbatim>\<open>slice(-n)\<close>: the last characters, and all of them for 0.\<close>

definition sliceLast :: "nat \<Rightarrow> 'a list \<Rightarrow> 'a list" where
  "sliceLast n xs = (if n = 0 then xs else drop (length xs - n) xs)"

definition wordToSegDigits :: "u32 \<Rightarrow> nat \<Rightarrow> u8 list" where
  "wordToSegDigits v width =
     map (\<lambda>c. hexDigitToSeg [c]) (sliceLast width (padStart0 width (toUpperCase (toString16 (unat v)))))"

definition wordToSegDigitsPadded :: "u32 \<Rightarrow> nat \<Rightarrow> nat \<Rightarrow> u8 list" where
  "wordToSegDigitsPadded v usedDigits totalDigits =
     (let total = max totalDigits 1; used = min (max usedDigits 1) total; digits = wordToSegDigits v used
      in if total \<le> length digits then sliceLast total digits else replicate (total - length digits) 0 @ digits)"

subsection \<open>Timer\<close>

text \<open>The pending callback of the scheduler is the time it waits.\<close>

record io_timer =
  tm_handle :: "nat option"
  tm_periodMs :: nat
  tm_count :: nat
  tm_remaining :: int
  tm_fired :: nat
  tm_minPeriodMs :: nat

definition newIoTimer :: "nat \<Rightarrow> io_timer" where
  "newIoTimer minPeriod = \<lparr>tm_handle = None, tm_periodMs = 0, tm_count = 0, tm_remaining = 0, tm_fired = 0,
     tm_minPeriodMs = minPeriod\<rparr>"

definition timerRunning :: "io_timer \<Rightarrow> bool" where "timerRunning t \<longleftrightarrow> tm_handle t \<noteq> None"

definition isUint16 :: "int \<Rightarrow> bool" where "isUint16 v \<longleftrightarrow> 0 \<le> v \<and> v \<le> 0xffff"

definition timerStop :: "io_timer \<Rightarrow> io_timer" where
  "timerStop t = t\<lparr>tm_handle := None, tm_periodMs := 0, tm_count := 0, tm_remaining := 0\<rparr>"

definition timerArm :: "io_timer \<Rightarrow> io_timer" where
  "timerArm t = t\<lparr>tm_handle := Some (max (tm_periodMs t) (tm_minPeriodMs t))\<rparr>"

definition timerConfigure :: "int \<Rightarrow> int \<Rightarrow> io_timer \<Rightarrow> u8 \<times> io_timer" where
  "timerConfigure period n t =
     (if \<not> isUint16 period \<or> \<not> isUint16 n then (RESPONSE_NG_OTHER_ERROR, t)
      else if period = 0 then (RESPONSE_OK, timerStop t)
      else (RESPONSE_OK, timerArm ((timerStop t)\<lparr>tm_periodMs := nat period, tm_count := nat n, tm_remaining := n, tm_fired := 0\<rparr>)))"

text \<open>The callback of the scheduler; \<open>notify\<close> is \<^verbatim>\<open>onExpire\<close>, which is called last.\<close>

definition timerExpire :: "(io_timer \<Rightarrow> 's) \<Rightarrow> io_timer \<Rightarrow> 's" where
  "timerExpire notify t0 =
     (let t = t0\<lparr>tm_handle := None, tm_fired := tm_fired t0 + 1\<rparr> in
      if 0 < tm_count t then
        (let u = t\<lparr>tm_remaining := tm_remaining t - 1\<rparr>
         in if tm_remaining u \<le> 0 then notify (timerStop u) else notify (timerArm u))
      else notify (timerArm t))"

record io_timer_state =
  ts_running :: bool
  ts_periodMs :: nat
  ts_count :: nat
  ts_remaining :: int
  ts_fired :: nat

definition timerState :: "io_timer \<Rightarrow> io_timer_state" where
  "timerState t = \<lparr>ts_running = timerRunning t, ts_periodMs = tm_periodMs t, ts_count = tm_count t,
     ts_remaining = tm_remaining t, ts_fired = tm_fired t\<rparr>"

subsection \<open>Clock\<close>

definition IO_TIME_TICK_NS :: int where "IO_TIME_TICK_NS = 10000"

record io_clock =
  originNs :: int
  clockStarted :: bool
  frozenTicks :: int

definition newClock :: io_clock where
  "newClock = \<lparr>originNs = 0, clockStarted = False, frozenTicks = 0\<rparr>"

definition currentTicks :: "int \<Rightarrow> io_clock \<Rightarrow> int" where
  "currentTicks nowNs c =
     (let elapsed = nowNs - originNs c in if elapsed \<le> 0 then 0 else (elapsed div IO_TIME_TICK_NS) mod 2 ^ 64)"

definition clockReset :: "int \<Rightarrow> io_clock \<Rightarrow> io_clock" where
  "clockReset nowNs c = \<lparr>originNs = nowNs, clockStarted = True, frozenTicks = 0\<rparr>"

definition clockStop :: "int \<Rightarrow> io_clock \<Rightarrow> io_clock" where
  "clockStop nowNs c =
     (if \<not> clockStarted c then c else c\<lparr>frozenTicks := currentTicks nowNs c, clockStarted := False\<rparr>)"

definition clockTicks :: "int \<Rightarrow> io_clock \<Rightarrow> int" where
  "clockTicks nowNs c = (if \<not> clockStarted c then frozenTicks c else currentTicks nowNs c)"

fun bigBytes :: "nat \<Rightarrow> int \<Rightarrow> u8 list" where
  "bigBytes 0 v = []"
| "bigBytes (Suc n) v = bigBytes n (v div 256) @ [word_of_int (v mod 256)]"

definition readTimestamp :: "int \<Rightarrow> io_clock \<Rightarrow> u8 list" where
  "readTimestamp nowNs c = bigBytes 8 (clockTicks nowNs c)"

end
