(* ===== verification/Io_Board.thy ===== *)
theory Io_Board
  imports Io_Devices
begin

text \<open>
  The control and IO board as the partner of the CPU, \<^verbatim>\<open>ioboard/handshake/io_board_mock.ts\<close>: the state
  that the commands of the CPU act on, the default handlers, the treatment of one request, and the
  delivery of the interrupts of the timer.
\<close>

subsection \<open>State of the commands\<close>

record io_log_entry =
  le_toCpu :: bool
  le_cmd :: u8
  le_frame :: "u8 list"
  le_response :: "u8 list option"

text \<open>
  Beside the state of the commands are the devices: the LCD, the latches of the lamps, the timer.
\<close>

record io_board_state =
  bs_mode :: u8
  bs_led :: "led_display_data option"
  bs_hexKeys :: "u8 list"
  bs_pcKey :: "u8 \<times> u8"
  bs_lastBeep :: "beep_params option"
  bs_lastTimer :: "timer_params option"
  bs_undefLed :: bool
  bs_addrBreakNo :: nat
  bs_lastBreakNotify :: "break_notify_info option"
  bs_lastStepNotify :: "cpu_state_notify option"
  bs_lastUndefNotify :: "cpu_state_notify option"
  bs_timestamp :: "u8 list"
  bs_rtcRaw :: "u8 list"
  bs_tempRaw :: u16
  bs_lightRaw :: light_raw
  bs_distanceRaw :: "u16 \<times> u8"
  bs_log :: "io_log_entry list"
  bs_lcd :: lcd
  bs_ledLatch :: led_display_data
  bs_undefLatch :: bool
  bs_timer :: io_timer

definition createIoBoardCommandState :: "lcd \<Rightarrow> led_display_data \<Rightarrow> bool \<Rightarrow> io_timer \<Rightarrow> io_board_state" where
  "createIoBoardCommandState l led undef tm =
     \<lparr>bs_mode = MODE_MONITOR, bs_led = None, bs_hexKeys = replicate 8 0, bs_pcKey = (0, 0), bs_lastBeep = None,
      bs_lastTimer = None, bs_undefLed = False, bs_addrBreakNo = 0, bs_lastBreakNotify = None,
      bs_lastStepNotify = None, bs_lastUndefNotify = None, bs_timestamp = replicate 8 0, bs_rtcRaw = replicate 7 0,
      bs_tempRaw = 0, bs_lightRaw = \<lparr>lr_clear = 0, lr_red = 0, lr_green = 0, lr_blue = 0\<rparr>,
      bs_distanceRaw = (0, 0), bs_log = [], bs_lcd = l, bs_ledLatch = led, bs_undefLatch = undef, bs_timer = tm\<rparr>"

definition resetIoBoardCommandState :: "io_board_state \<Rightarrow> io_board_state" where
  "resetIoBoardCommandState s =
     createIoBoardCommandState (lcdReset (bs_lcd s)) (bs_ledLatch s) resetUndefLed (bs_timer s)"

definition hexDigitColumnMask :: "int \<Rightarrow> (nat \<times> u8) option" where
  "hexDigitColumnMask digit =
     (if digit < 0 \<or> 15 < digit then None else panelKeyColumnMask (toUpperCase (toString16 (nat digit))))"

definition setPanelKeyHeld :: "string \<Rightarrow> bool \<Rightarrow> io_board_state \<Rightarrow> io_board_state" where
  "setPanelKeyHeld key held s =
     (case panelKeyColumnMask key of
        None \<Rightarrow> s
      | Some (col, keys) \<Rightarrow>
          let cur = bs_hexKeys s ! col
          in s\<lparr>bs_hexKeys := (bs_hexKeys s)[col := (if held then cur OR keys else cur AND NOT keys)]\<rparr>)"

definition setHexKeyHeld :: "int \<Rightarrow> bool \<Rightarrow> io_board_state \<Rightarrow> io_board_state" where
  "setHexKeyHeld digit held s =
     (if digit < 0 \<or> 15 < digit then s else setPanelKeyHeld (toUpperCase (toString16 (nat digit))) held s)"

subsection \<open>Default handlers\<close>

text \<open>The masks of the code have no effect on words; the address becomes unsigned.\<close>

definition normalizeCpuStateNotify :: "cpu_state_notify \<Rightarrow> cpu_state_notify" where
  "normalizeCpuStateNotify info =
     info\<lparr>sn_addr := sn_addr info mod 2 ^ 32, sn_r5to15 := take 11 (sn_r5to15 info), sn_stack := take 16 (sn_stack info)\<rparr>"

definition defaultOnModeSet :: "u8 \<Rightarrow> io_board_state \<Rightarrow> u8 \<times> io_board_state" where
  "defaultOnModeSet mode s =
     (RESPONSE_OK, s\<lparr>bs_mode := mode,
        bs_hexKeys := (if mode \<noteq> MODE_FREE then replicate (length (bs_hexKeys s)) 0 else bs_hexKeys s)\<rparr>)"

definition defaultGetHexKeys :: "io_board_state \<Rightarrow> (u8 list \<times> u8) \<times> io_board_state" where
  "defaultGetHexKeys s =
     (if bs_mode s \<noteq> MODE_FREE then ((replicate 8 0, RESPONSE_NG_MODE_ERROR), s) else ((bs_hexKeys s, RESPONSE_OK), s))"

definition defaultOnLedDisplay :: "led_display_data \<Rightarrow> io_board_state \<Rightarrow> u8 \<times> io_board_state" where
  "defaultOnLedDisplay d s =
     (if bs_mode s \<noteq> MODE_FREE then (RESPONSE_NG_MODE_ERROR, s)
      else (RESPONSE_OK, s\<lparr>bs_led := Some d, bs_ledLatch := applyLedDisplayCommand d\<rparr>))"

definition defaultOnTimerSet :: "bool \<Rightarrow> timer_params \<Rightarrow> io_board_state \<Rightarrow> u8 \<times> io_board_state" where
  "defaultOnTimerSet wired p s =
     (let s1 = s\<lparr>bs_lastTimer := Some p\<rparr> in
      if \<not> wired then (RESPONSE_OK, s1)
      else if timerNo p \<noteq> 0 then (RESPONSE_NG, s1)
      else (case timerConfigure (uint (tp_periodMs p)) (uint (tp_count p)) (bs_timer s1) of
              (r, tm) \<Rightarrow> (r, s1\<lparr>bs_timer := tm\<rparr>)))"

definition defaultOnBreakNotify :: "break_notify_info \<Rightarrow> io_board_state \<Rightarrow> u8 \<times> io_board_state" where
  "defaultOnBreakNotify info s =
     (RESPONSE_OK, s\<lparr>bs_lastBreakNotify := Some (info\<lparr>bn_addr := bn_addr info mod 2 ^ 32\<rparr>)\<rparr>)"

definition defaultOnUndefNotify :: "cpu_state_notify \<Rightarrow> io_board_state \<Rightarrow> u8 \<times> io_board_state" where
  "defaultOnUndefNotify info s =
     (RESPONSE_OK, s\<lparr>bs_lastUndefNotify := Some (normalizeCpuStateNotify info), bs_undefLed := True,
        bs_undefLatch := applyUndefLedCommand True\<rparr>)"

text \<open>With a clock the time is its; otherwise that of the state.\<close>

definition createDefaultCpuToIoHandlers ::
  "bool \<Rightarrow> (io_board_state \<Rightarrow> u8 list) option \<Rightarrow> io_board_state cpu_to_io_handlers" where
  "createDefaultCpuToIoHandlers wired timeSource =
     \<lparr>onModeSet = defaultOnModeSet,
      getHexKeys = defaultGetHexKeys,
      getPcKey = (\<lambda>s. ((fst (bs_pcKey s), snd (bs_pcKey s), RESPONSE_OK), s)),
      onLedDisplay = defaultOnLedDisplay,
      onBeep = (\<lambda>p s. (RESPONSE_OK, s\<lparr>bs_lastBeep := Some p\<rparr>)),
      onTimerSet = defaultOnTimerSet wired,
      getTime = (\<lambda>s. (((case timeSource of Some f \<Rightarrow> f s | None \<Rightarrow> bs_timestamp s), RESPONSE_OK), s)),
      onBreakNotify = defaultOnBreakNotify,
      onStepNotify = (\<lambda>info s. (RESPONSE_OK, s\<lparr>bs_lastStepNotify := Some (normalizeCpuStateNotify info)\<rparr>)),
      onUndefNotify = defaultOnUndefNotify,
      onLcdControl = (\<lambda>frame s. case handleControlFrame frame (bs_lcd s) of (r, l) \<Rightarrow> (r, s\<lparr>bs_lcd := l\<rparr>)),
      onLcdText = (\<lambda>frame s. case handleTextFrame frame (bs_lcd s) of (r, l) \<Rightarrow> (r, s\<lparr>bs_lcd := l\<rparr>)),
      getRtcRaw = (\<lambda>s. ((take 7 (bs_rtcRaw s), RESPONSE_OK), s)),
      getTempRaw = (\<lambda>s. ((bs_tempRaw s, RESPONSE_OK), s)),
      getLightRaw = (\<lambda>s. ((bs_lightRaw s, RESPONSE_OK), s)),
      getDistanceRaw = (\<lambda>s. ((fst (bs_distanceRaw s), snd (bs_distanceRaw s) AND 0x1f, RESPONSE_OK), s))\<rparr>"

subsection \<open>One request\<close>

text \<open>
  The CPU and its lines are a state \<open>'c\<close> beside that of the board.  The oldest entries of the log are
  dropped beyond its length.
\<close>

definition pushLog :: "nat \<Rightarrow> io_log_entry \<Rightarrow> io_board_state \<Rightarrow> io_board_state" where
  "pushLog maxLog entry s = (let l = bs_log s @ [entry] in s\<lparr>bs_log := drop (length l - maxLog) l\<rparr>)"

definition handleOneRequest ::
  "'c hshk_io \<Rightarrow> nat \<Rightarrow> io_board_state dispatcher \<Rightarrow> (u8 list \<Rightarrow> int) \<Rightarrow> 'c \<times> io_board_state \<Rightarrow>
   ((hshk_error + u8 list) \<times> 'c \<times> io_board_state) option" where
  "handleOneRequest io maxLog d remaining = (\<lambda>(c, s).
     (case receiveFramedAdaptive io remaining c of
        None \<Rightarrow> None
      | Some (Inl e, c1) \<Rightarrow> Some (Inl e, c1, s)
      | Some (Inr frame, c1) \<Rightarrow>
          (case dispatch d frame s of (response, s1) \<Rightarrow>
             let s2 = pushLog maxLog \<lparr>le_toCpu = False, le_cmd = hd frame, le_frame = frame, le_response = Some response\<rparr> s1
             in if response = [] then Some (Inr response, c1, s2)
                else (case send io response False c1 of
                        (Inl e, c2) \<Rightarrow> Some (Inl e, c2, s2)
                      | (Inr _, c2) \<Rightarrow> Some (Inr response, c2, s2)))))"

definition sendToCpu ::
  "'c hshk_io \<Rightarrow> nat \<Rightarrow> u8 list \<Rightarrow> 'c \<times> io_board_state \<Rightarrow> (hshk_error + unit) \<times> 'c \<times> io_board_state" where
  "sendToCpu io maxLog data = (\<lambda>(c, s).
     let s1 = pushLog maxLog \<lparr>le_toCpu = True, le_cmd = (if data = [] then 0 else hd data), le_frame = data, le_response = None\<rparr> s
     in case send io data True c of (r, c1) \<Rightarrow> (r, c1, s1))"

definition exchangeWithCpu ::
  "'c hshk_io \<Rightarrow> nat \<Rightarrow> u8 list \<Rightarrow> nat \<Rightarrow> u8 list \<Rightarrow> 'c \<times> io_board_state \<Rightarrow>
   (hshk_error + u8 list) \<times> 'c \<times> io_board_state" where
  "exchangeWithCpu io maxLog toCpu fromCpu thenToCpu = (\<lambda>(c, s).
     let cmd = (if toCpu = [] then 0 else hd toCpu);
         s1 = pushLog maxLog \<lparr>le_toCpu = True, le_cmd = cmd, le_frame = toCpu, le_response = None\<rparr> s
     in case sendReceive io toCpu fromCpu thenToCpu c of
          (Inl e, c1) \<Rightarrow> (Inl e, c1, s1)
        | (Inr reply, c1) \<Rightarrow>
            (Inr reply, c1, pushLog maxLog \<lparr>le_toCpu = False, le_cmd = cmd, le_frame = toCpu, le_response = Some reply\<rparr> s1))"

definition memReadFromCpu ::
  "'c hshk_io \<Rightarrow> nat \<Rightarrow> u32 \<Rightarrow> u32 \<Rightarrow> 'c \<times> io_board_state \<Rightarrow> (hshk_error + u8 list) \<times> 'c \<times> io_board_state" where
  "memReadFromCpu io maxLog byteAddr byteCount = (\<lambda>(c, s).
     let s1 = pushLog maxLog \<lparr>le_toCpu = True, le_cmd = MEM_READ, le_frame = [MEM_READ], le_response = None\<rparr> s
     in case memRead io byteAddr byteCount c of
          (Inl e, c1) \<Rightarrow> (Inl e, c1, s1)
        | (Inr data, c1) \<Rightarrow>
            (Inr data, c1, pushLog maxLog \<lparr>le_toCpu = False, le_cmd = MEM_READ, le_frame = [MEM_READ], le_response = Some data\<rparr> s1))"

definition setHexKeys :: "u8 list \<Rightarrow> io_board_state \<Rightarrow> io_board_state" where
  "setHexKeys columns s = s\<lparr>bs_hexKeys := take 8 columns @ replicate (length (bs_hexKeys s) - length (take 8 columns)) 0\<rparr>"

definition setPcKey :: "u8 \<Rightarrow> u8 \<Rightarrow> io_board_state \<Rightarrow> io_board_state" where
  "setPcKey ascii keyCode s = s\<lparr>bs_pcKey := (ascii, keyCode)\<rparr>"

definition setTimestamp :: "int + u8 list \<Rightarrow> io_board_state \<Rightarrow> io_board_state" where
  "setTimestamp v s = s\<lparr>bs_timestamp := (case v of Inl n \<Rightarrow> bigBytes 8 n | Inr bs \<Rightarrow> fixedBytes 8 bs)\<rparr>"

definition setAddrBreakNo :: "nat \<Rightarrow> io_board_state \<Rightarrow> io_board_state" where
  "setAddrBreakNo n s = s\<lparr>bs_addrBreakNo := n mod 4\<rparr>"

definition clearLed :: "io_board_state \<Rightarrow> io_board_state" where
  "clearLed s = s\<lparr>bs_led := Some emptyLed\<rparr>"

subsection \<open>Interrupts of the timer\<close>

text \<open>
  What the delivery uses: the lines, the interrupt that waits, whether a retry is booked, and the
  interrupts raised with their cause.
\<close>

record timer_irq =
  ti_bus :: cpu_io_signals
  ti_pending :: bool
  ti_retry :: bool
  ti_raised :: "u16 list"

definition TIMER_IRQ_RETRY_MS :: nat where "TIMER_IRQ_RETRY_MS = 1"

definition handshakeLinesBusy :: "cpu_io_signals \<Rightarrow> bool" where
  "handshakeLinesBusy b \<longleftrightarrow>
     HSHK_OUT_REQ b \<or> HSHK_OUT_DENA b \<or> HSHK_IN_DACK b \<or> HSHK_IN_REQ b \<or> HSHK_IN_DENA b \<or> HSHK_OUT_DACK b"

definition scheduleTimerIrqRetry :: "timer_irq \<Rightarrow> timer_irq" where
  "scheduleTimerIrqRetry t = t\<lparr>ti_retry := True\<rparr>"

definition flushTimerInterrupt :: "timer_irq \<Rightarrow> timer_irq" where
  "flushTimerInterrupt t =
     (if \<not> ti_pending t then t
      else if INTERRUPT_BUSY (ti_bus t) \<or> handshakeLinesBusy (ti_bus t) then scheduleTimerIrqRetry t
      else t\<lparr>ti_pending := False, ti_bus := (ti_bus t)\<lparr>INT_CAUSE := intCauseForTimer\<rparr>,
             ti_raised := ti_raised t @ [intCauseForTimer]\<rparr>)"

definition requestTimerInterrupt :: "timer_irq \<Rightarrow> timer_irq" where
  "requestTimerInterrupt t = flushTimerInterrupt (t\<lparr>ti_pending := True\<rparr>)"

definition timerIrqRetried :: "timer_irq \<Rightarrow> timer_irq" where
  "timerIrqRetried t = flushTimerInterrupt (t\<lparr>ti_retry := False\<rparr>)"

definition stopTimers :: "io_timer \<times> timer_irq \<Rightarrow> io_timer \<times> timer_irq" where
  "stopTimers = (\<lambda>(tm, t). (timerStop tm, t\<lparr>ti_pending := False, ti_retry := False\<rparr>))"

end
