(* ===== verification/Hshk_Props.thy ===== *)
theory Hshk_Props
  imports Cpu_Peer Io_Board
begin

text \<open>
  A whole exchange between the CPU and the control and IO board.  The locale \<open>paced_cpu\<close> is what the
  waits of the board rely on: the CPU does the accesses of its script one after the other, each after
  at most 800 other instructions, and otherwise leaves the lines alone.  Inside it, every wait of an
  exchange ends within its first turn; the model of the routines of the CPU is its interpretation.
\<close>

definition CPU_PACE :: nat where "CPU_PACE = 800"

text \<open>A condition holds after some accesses for the first time.\<close>

fun linesReach :: "(cpu_io_signals \<Rightarrow> bool) \<Rightarrow> cpu_access list \<Rightarrow> cpu_io_signals \<Rightarrow> bool" where
  "linesReach c [] b \<longleftrightarrow> c b"
| "linesReach c (a # as) b \<longleftrightarrow> \<not> c b \<and> enabled a b \<and> linesReach c as (effect a b)"

fun effects :: "cpu_access list \<Rightarrow> cpu_io_signals \<Rightarrow> cpu_io_signals" where
  "effects [] b = b"
| "effects (a # as) b = effects as (effect a b)"

fun readBy :: "cpu_access list \<Rightarrow> cpu_io_signals \<Rightarrow> u8 list" where
  "readBy [] b = []"
| "readBy (a # as) b = bytesRead a b @ readBy as (effect a b)"

lemma pollLoop_hit:
  assumes "k < n" "\<forall>j\<le>k. j \<noteq> 0 \<longrightarrow> \<not> c ((poll ^^ j) s)" "c ((poll ^^ Suc k) s)"
  shows "pollLoop poll c n s = (True, (poll ^^ Suc k) s)"
  using assms
proof (induction k arbitrary: n s)
  case 0
  then show ?case by (cases n) auto
next
  case (Suc k)
  then obtain m where n: "n = Suc m" by (cases n) auto
  have shift: "(poll ^^ j) (poll s) = (poll ^^ Suc j) s" for j by (simp add: funpow_swap1)
  have "\<not> c (poll s)" using Suc.prems(2) [rule_format, of 1] by simp
  moreover have "pollLoop poll c m (poll s) = (True, (poll ^^ Suc k) (poll s))"
  proof (rule Suc.IH)
    show "k < m" using Suc.prems(1) n by simp
    show "\<forall>j\<le>k. j \<noteq> 0 \<longrightarrow> \<not> c ((poll ^^ j) (poll s))"
      using Suc.prems(2) by (auto simp only: shift)
    show "c ((poll ^^ Suc k) (poll s))" using Suc.prems(3) by (simp only: shift)
  qed
  ultimately show ?case by (simp add: n funpow_swap1)
qed

lemma byte_twice [simp]: "ucast (ucast v :: u16) = (v :: u8)"
  by (rule bit_word_eqI) (simp add: bit_simps)

locale paced_cpu =
  fixes io :: "'s hshk_io" and poll :: "'s \<Rightarrow> 's" and ok :: "'s \<Rightarrow> bool"
    and script :: "'s \<Rightarrow> cpu_access list" and got :: "'s \<Rightarrow> u8 list"
  assumes polled: "onPoll io = Some poll"
    and in_time: "0 < turns io"
    and bus_upd: "busOf io (updBus io f s) = f (busOf io s)"
    and keeps_upd: "script (updBus io f s) = script s" "got (updBus io f s) = got s" "ok (updBus io f s) = ok s"
    and bus_in_req: "busOf io (assignInReq io v True s) = (busOf io s)\<lparr>HSHK_IN_REQ := v\<rparr>"
    and keeps_in_req: "script (assignInReq io v True s) = script s" "got (assignInReq io v True s) = got s"
      "ok (assignInReq io v True s) = ok s"
    and access: "\<lbrakk>ok s; script s = a # as; enabled a (busOf io s)\<rbrakk> \<Longrightarrow>
      \<exists>k \<le> CPU_PACE. ok ((poll ^^ Suc k) s) \<and> script ((poll ^^ Suc k) s) = as \<and>
        busOf io ((poll ^^ Suc k) s) = effect a (busOf io s) \<and>
        got ((poll ^^ Suc k) s) = got s @ bytesRead a (busOf io s) \<and>
        (\<forall>j\<le>k. busOf io ((poll ^^ j) s) = busOf io s)"
begin

definition at :: "'s \<Rightarrow> cpu_access list \<Rightarrow> cpu_io_signals \<Rightarrow> u8 list \<Rightarrow> bool" where
  "at s as b g \<longleftrightarrow> ok s \<and> script s = as \<and> busOf io s = b \<and> got s = g"

lemma access_run:
  assumes "linesReach c as (busOf io s)" "as \<noteq> []" "ok s" "script s = as @ rest"
  shows "\<exists>k. k < length as * (CPU_PACE + 1) \<and> at ((poll ^^ Suc k) s) rest (effects as (busOf io s)) (got s @ readBy as (busOf io s)) \<and>
    c (busOf io ((poll ^^ Suc k) s)) \<and> (\<forall>j\<le>k. \<not> c (busOf io ((poll ^^ j) s)))"
  using assms
proof (induction as arbitrary: s)
  case (Cons a as)
  let ?b = "busOf io s"
  from Cons.prems have r: "\<not> c ?b" "enabled a ?b" "linesReach c as (effect a ?b)" by auto
  obtain k where k: "k \<le> CPU_PACE" "ok ((poll ^^ Suc k) s)" "script ((poll ^^ Suc k) s) = as @ rest"
    "busOf io ((poll ^^ Suc k) s) = effect a ?b" "got ((poll ^^ Suc k) s) = got s @ bytesRead a ?b"
    "\<forall>j\<le>k. busOf io ((poll ^^ j) s) = ?b"
    using access [OF Cons.prems(3), of a "as @ rest"] Cons.prems(4) r(2) by auto
  have before: "\<forall>j\<le>k. \<not> c (busOf io ((poll ^^ j) s))" using k(6) r(1) by simp
  let ?t = "(poll ^^ Suc k) s"
  show ?case
  proof (cases "as = []")
    case True
    with k r before show ?thesis by (intro exI [of _ k]) (auto simp: at_def)
  next
    case False
    from Cons.IH [OF _ False k(2,3)] r(3) k(4) obtain m where
      m: "m < length as * (CPU_PACE + 1)"
        "at ((poll ^^ Suc m) ?t) rest (effects as (effect a ?b)) (got ?t @ readBy as (effect a ?b))"
        "c (busOf io ((poll ^^ Suc m) ?t))" "\<forall>j\<le>m. \<not> c (busOf io ((poll ^^ j) ?t))"
      by auto
    have shift: "(poll ^^ j) ?t = (poll ^^ (j + Suc k)) s" for j by (simp only: funpow_add comp_apply)
    have late: "\<not> c (busOf io ((poll ^^ j) s))" if "j \<le> Suc m + k" for j
    proof (cases "j \<le> k")
      case False
      with that m(4) [rule_format, of "j - Suc k"] show ?thesis by (simp add: shift del: funpow.simps)
    qed (use before in simp)
    have "Suc m + k < length (a # as) * (CPU_PACE + 1)" using m(1) k(1) by simp
    with m k(5) late show ?thesis
      by (intro exI [of _ "Suc m + k"]) (simp add: shift add.commute del: funpow.simps)
  qed
qed simp

lemma wait_until:
  assumes "linesReach c as (busOf io s)" "length as \<le> 5" "ok s" "script s = as @ rest"
  shows "\<exists>t. waitCondition io c s = (Inr (), t) \<and> at t rest (effects as (busOf io s)) (got s @ readBy as (busOf io s))"
proof (cases "as = []")
  case True
  with assms show ?thesis
    by (cases "turns io") (auto simp: waitCondition_def at_def)
next
  case False
  then obtain a cs where as: "as = a # cs" by (cases as) auto
  from access_run [OF assms(1) False assms(3,4)] obtain k where
    k: "k < length as * (CPU_PACE + 1)" "at ((poll ^^ Suc k) s) rest (effects as (busOf io s)) (got s @ readBy as (busOf io s))"
      "c (busOf io ((poll ^^ Suc k) s))" "\<forall>j\<le>k. \<not> c (busOf io ((poll ^^ j) s))" by blast
  have "length as * (CPU_PACE + 1) \<le> 5 * (CPU_PACE + 1)" using assms(2) by (rule mult_le_mono1)
  with k(1) have less: "k < WAIT_CONDITION_POLL_BUDGET" by (simp add: CPU_PACE_def WAIT_CONDITION_POLL_BUDGET_def)
  obtain n where n: "turns io = Suc n" using in_time by (cases "turns io") auto
  have "pollLoop poll (\<lambda>s. c (busOf io s)) WAIT_CONDITION_POLL_BUDGET s = (True, (poll ^^ Suc k) s)"
    using k(3,4) by (intro pollLoop_hit [OF less]) auto
  with assms(1) as n polled have "waitCondition io c s = (Inr (), (poll ^^ Suc k) s)"
    by (simp add: waitCondition_def del: funpow.simps)
  with k(2) show ?thesis by blast
qed

text \<open>The same on a state whose script, lines and bytes are known.\<close>

lemma wait_at:
  assumes "at s (as @ rest) b g" "linesReach c as b" "length as \<le> 5"
  obtains t where "waitCondition io c s = (Inr (), t)" "at t rest (effects as b) (g @ readBy as b)"
  using wait_until [of c as s rest] assms by (auto simp: at_def)

lemma at_upd: "at s as b g \<Longrightarrow> at (updBus io f s) as (f b) g"
  by (simp add: at_def bus_upd keeps_upd)

lemma at_in_req: "at s as b g \<Longrightarrow> at (assignInReq io v True s) as (b\<lparr>HSHK_IN_REQ := v\<rparr>) g"
  by (simp add: at_def bus_in_req keeps_in_req)

lemma at_bus: "at s as b g \<Longrightarrow> busOf io s = b"
  by (simp add: at_def)

subsection \<open>From the CPU\<close>

lemma unit_received:
  assumes "at s (pre @ cpuSendFirst v @ SetOutData w # SetOutDena False # rest) b g"
    and "pre = [] \<or> pre = [AwaitOutDack False]" "\<not> HSHK_OUT_DENA b" "\<not> HSHK_OUT_DACK b"
  shows "\<exists>t. receiveUnitFromCpu io s = (Inr (v, w), t) \<and> at t rest (b\<lparr>HSHK_OUT_DATA := ucast w\<rparr>) g"
proof -
  let ?raised = "b\<lparr>HSHK_OUT_DATA := ucast v, HSHK_OUT_DENA := True\<rparr>"
  let ?first = "pre @ [SetOutData v, SetOutDena True]"
  have "at s (?first @ AwaitOutDack True # SetOutData w # SetOutDena False # rest) b g"
    using assms(1) by (simp add: cpuSendFirst_def)
  then obtain s1 where s1: "waitCondition io HSHK_OUT_DENA s = (Inr (), s1)"
    "at s1 (AwaitOutDack True # SetOutData w # SetOutDena False # rest) ?raised g"
    by (rule wait_at [where c = HSHK_OUT_DENA]) (use assms(2-4) in auto)
  let ?s2 = "updBus io (\<lambda>b. b\<lparr>HSHK_OUT_DACK := True\<rparr>) s1"
  have "at ?s2 ([AwaitOutDack True, SetOutData w, SetOutDena False] @ rest) (?raised\<lparr>HSHK_OUT_DACK := True\<rparr>) g"
    using at_upd [OF s1(2)] by simp
  then obtain s3 where s3: "waitCondition io (\<lambda>b. \<not> HSHK_OUT_DENA b) ?s2 = (Inr (), s3)"
    "at s3 rest (?raised\<lparr>HSHK_OUT_DACK := True, HSHK_OUT_DATA := ucast w, HSHK_OUT_DENA := False\<rparr>) g"
    by (rule wait_at [where c = "\<lambda>b. \<not> HSHK_OUT_DENA b"]) auto
  have same: "(?raised\<lparr>HSHK_OUT_DACK := True, HSHK_OUT_DATA := ucast w, HSHK_OUT_DENA := False\<rparr>)\<lparr>HSHK_OUT_DACK := False\<rparr>
      = b\<lparr>HSHK_OUT_DATA := ucast w\<rparr>"
    using assms(3,4) by (cases b) simp
  from s1 s3 at_upd [OF s3(2), of "\<lambda>b. b\<lparr>HSHK_OUT_DACK := False\<rparr>"] show ?thesis
    unfolding same by (simp add: receiveUnitFromCpu_def at_bus)
qed

text \<open>The accesses that may still wait for the end of the unit before.\<close>

lemma pending_bytes:
  assumes "at s (pre @ cpuSendBytes td @ rest) b g"
    and "pre = [] \<or> pre = [AwaitOutDack False]" "\<not> HSHK_OUT_DENA b" "\<not> HSHK_OUT_DACK b"
    and "\<forall>k < length td. 0 < remaining (bytes @ take k td)" "remaining (bytes @ td) \<le> 0"
  shows "\<exists>t x pre'. adaptiveLoop io remaining bytes [] s = Some (bytes @ td, t) \<and>
    (pre' = [] \<or> pre' = [AwaitOutDack False]) \<and> at t (pre' @ rest) (b\<lparr>HSHK_OUT_DATA := x\<rparr>) g"
  using assms
proof (induction td arbitrary: s bytes pre b rule: cpuSendBytes.induct)
  case 1
  then show ?case
    by (intro exI [of _ s] exI [of _ "HSHK_OUT_DATA b"] exI [of _ pre]) (simp add: adaptiveLoop.simps [of io remaining bytes])
next
  case (2 v)
  then have "at s (pre @ cpuSendFirst v @ SetOutData 0 # SetOutDena False # AwaitOutDack False # rest) b g"
    by (simp add: cpuSendSecond_def)
  from unit_received [OF this 2(2-4)] obtain t where
    t: "receiveUnitFromCpu io s = (Inr (v, 0), t)" "at t (AwaitOutDack False # rest) (b\<lparr>HSHK_OUT_DATA := ucast (0 :: u8)\<rparr>) g"
    by blast
  have "adaptiveLoop io remaining bytes [] s = Some (bytes @ [v], t)"
    using 2(5,6) t(1) by (simp add: adaptiveLoop.simps [of io remaining bytes] adaptiveLoop.simps [of io remaining "bytes @ [v]"])
  with t(2) show ?case by (intro exI [of _ t] exI [of _ "ucast (0 :: u8)"] exI [of _ "[AwaitOutDack False]"]) simp
next
  case (3 v w vs)
  then have "at s (pre @ cpuSendFirst v @ SetOutData w # SetOutDena False # AwaitOutDack False # cpuSendBytes vs @ rest) b g"
    by (simp add: cpuSendSecond_def)
  from unit_received [OF this 3(3-5)] obtain t where
    t: "receiveUnitFromCpu io s = (Inr (v, w), t)"
      "at t (AwaitOutDack False # cpuSendBytes vs @ rest) (b\<lparr>HSHK_OUT_DATA := ucast w\<rparr>) g" by blast
  have more: "0 < remaining bytes" "0 < remaining (bytes @ [v])"
    using 3(6) [rule_format, of 0] 3(6) [rule_format, of 1] by simp_all
  have "adaptiveLoop io remaining bytes [] s = adaptiveLoop io remaining ((bytes @ [v]) @ [w]) [] t"
    using more t(1) by (simp add: adaptiveLoop.simps [of io remaining bytes] adaptiveLoop.simps [of io remaining "bytes @ [v]"])
  moreover have "\<exists>u x pre'. adaptiveLoop io remaining ((bytes @ [v]) @ [w]) [] t = Some (((bytes @ [v]) @ [w]) @ vs, u) \<and>
    (pre' = [] \<or> pre' = [AwaitOutDack False]) \<and>
    at u (pre' @ rest) ((b\<lparr>HSHK_OUT_DATA := ucast w\<rparr>)\<lparr>HSHK_OUT_DATA := x\<rparr>) g"
  proof (rule 3(1))
    show "at t ([AwaitOutDack False] @ cpuSendBytes vs @ rest) (b\<lparr>HSHK_OUT_DATA := ucast w\<rparr>) g" using t(2) by simp
    show "\<forall>k<length vs. 0 < remaining (((bytes @ [v]) @ [w]) @ take k vs)"
    proof (intro allI impI)
      fix k assume "k < length vs"
      with 3(6) [rule_format, of "Suc (Suc k)"] show "0 < remaining (((bytes @ [v]) @ [w]) @ take k vs)" by simp
    qed
  qed (use 3(4,5,7) in auto)
  ultimately show ?case by auto
qed

lemma frame_received:
  assumes start: "at s (cpuInitiateSend @ cpuSendBytes frame @ cpuFinalizeSend @ rest) b g" "linesIdle b"
    and frame: "frame \<noteq> []"
    and rule: "\<forall>k < length frame. k \<noteq> 0 \<longrightarrow> 0 < remaining (take k frame)" "remaining frame \<le> 0"
  shows "\<exists>t x. receiveFramedAdaptive io remaining s = Some (Inr frame, t) \<and> at t rest (b\<lparr>HSHK_OUT_DATA := x\<rparr>) g"
proof -
  let ?asks = "b\<lparr>HSHK_OUT_REQ := True\<rparr>"
  have idle: "\<not> HSHK_OUT_REQ b" "\<not> HSHK_OUT_DENA b" "\<not> HSHK_OUT_DACK b" using start(2) by (simp_all add: linesIdle_def)
  obtain s1 where s1: "waitCondition io HSHK_OUT_REQ s = (Inr (), s1)"
    "at s1 (cpuSendBytes frame @ cpuFinalizeSend @ rest) (effects cpuInitiateSend b) (g @ readBy cpuInitiateSend b)"
    by (rule wait_at [OF start(1), of HSHK_OUT_REQ]) (use idle in \<open>auto simp: cpuInitiateSend_def\<close>)
  have same: "(effects cpuInitiateSend b)\<lparr>HSHK_OUT_DACK := False\<rparr> = ?asks" using idle by (cases b) (simp add: cpuInitiateSend_def)
  obtain s2 where s2: "waitForCpuRequest io s = (Inr (), s2)" "at s2 (cpuSendBytes frame @ cpuFinalizeSend @ rest) ?asks g"
    using s1(1) at_upd [OF s1(2), of "\<lambda>b. b\<lparr>HSHK_OUT_DACK := False\<rparr>"]
    unfolding same by (auto simp: waitForCpuRequest_def cpuInitiateSend_def)
  have closes: "\<exists>u. finalizeReceive io t = (Inr (), u) \<and> at u rest (b\<lparr>HSHK_OUT_DATA := x\<rparr>) g"
    if t: "at t (pre @ cpuFinalizeSend @ rest) (?asks\<lparr>HSHK_OUT_DATA := x\<rparr>) g" "pre = [] \<or> pre = [AwaitOutDack False]" for t pre x
  proof -
    have "at t ((pre @ cpuFinalizeSend) @ rest) (?asks\<lparr>HSHK_OUT_DATA := x\<rparr>) g" using t(1) by simp
    then obtain u where u: "waitCondition io (\<lambda>b. \<not> HSHK_OUT_REQ b) t = (Inr (), u)"
      "at u rest (effects (pre @ cpuFinalizeSend) (?asks\<lparr>HSHK_OUT_DATA := x\<rparr>)) (g @ readBy (pre @ cpuFinalizeSend) (?asks\<lparr>HSHK_OUT_DATA := x\<rparr>))"
      by (rule wait_at [where c = "\<lambda>b. \<not> HSHK_OUT_REQ b"]) (use t(2) idle in \<open>auto simp: cpuFinalizeSend_def\<close>)
    have "effects (pre @ cpuFinalizeSend) (?asks\<lparr>HSHK_OUT_DATA := x\<rparr>) = b\<lparr>HSHK_OUT_DATA := x\<rparr>"
      using t(2) idle by (cases b) (auto simp: cpuFinalizeSend_def)
    moreover have "readBy (pre @ cpuFinalizeSend) (?asks\<lparr>HSHK_OUT_DATA := x\<rparr>) = []"
      using t(2) by (auto simp: cpuFinalizeSend_def)
    ultimately show ?thesis using u by (simp add: finalizeReceive_def)
  qed
  have dack: "\<not> HSHK_OUT_DENA ?asks" "\<not> HSHK_OUT_DACK ?asks" using idle by simp_all
  show ?thesis
  proof (cases frame rule: cpuSendBytes.cases)
    case (2 v)
    have "at s2 ([] @ cpuSendFirst v @ SetOutData 0 # SetOutDena False # AwaitOutDack False # cpuFinalizeSend @ rest) ?asks g"
      using s2(2) 2 by (simp add: cpuSendSecond_def)
    from unit_received [OF this _ dack] obtain t where t: "receiveUnitFromCpu io s2 = (Inr (v, 0), t)"
      "at t ([AwaitOutDack False] @ cpuFinalizeSend @ rest) (?asks\<lparr>HSHK_OUT_DATA := ucast (0 :: u8)\<rparr>) g" by auto
    from closes [OF t(2)] obtain u where u: "finalizeReceive io t = (Inr (), u)" "at u rest (b\<lparr>HSHK_OUT_DATA := ucast (0 :: u8)\<rparr>) g"
      by blast
    have "adaptiveLoop io remaining [v] [0] t = Some ([v], t)" using rule(2) 2 by (simp add: adaptiveLoop.simps [of io remaining "[v]"])
    with s2(1) t(1) u 2 show ?thesis by (auto simp: receiveFramedAdaptive_def)
  next
    case (3 v w vs)
    have "at s2 ([] @ cpuSendFirst v @ SetOutData w # SetOutDena False # AwaitOutDack False # cpuSendBytes vs @ cpuFinalizeSend @ rest) ?asks g"
      using s2(2) 3 by (simp add: cpuSendSecond_def)
    from unit_received [OF this _ dack] obtain t where t: "receiveUnitFromCpu io s2 = (Inr (v, w), t)"
      "at t ([AwaitOutDack False] @ cpuSendBytes vs @ cpuFinalizeSend @ rest) (?asks\<lparr>HSHK_OUT_DATA := ucast w\<rparr>) g" by auto
    have "\<exists>u x pre'. adaptiveLoop io remaining [v, w] [] t = Some ([v, w] @ vs, u) \<and>
        (pre' = [] \<or> pre' = [AwaitOutDack False]) \<and>
        at u (pre' @ cpuFinalizeSend @ rest) ((?asks\<lparr>HSHK_OUT_DATA := ucast w\<rparr>)\<lparr>HSHK_OUT_DATA := x\<rparr>) g"
    proof (rule pending_bytes [OF t(2)])
      show "\<forall>k<length vs. 0 < remaining ([v, w] @ take k vs)"
      proof (intro allI impI)
        fix k assume "k < length vs"
        with rule(1) [rule_format, of "Suc (Suc k)"] 3 show "0 < remaining ([v, w] @ take k vs)" by simp
      qed
    qed (use dack rule(2) 3 in auto)
    then obtain u x pre' where u: "adaptiveLoop io remaining [v, w] [] t = Some ([v, w] @ vs, u)"
        "pre' = [] \<or> pre' = [AwaitOutDack False]" "at u (pre' @ cpuFinalizeSend @ rest) (?asks\<lparr>HSHK_OUT_DATA := x\<rparr>) g" by auto
    from closes [OF u(3,2)] obtain r where r: "finalizeReceive io u = (Inr (), r)" "at r rest (b\<lparr>HSHK_OUT_DATA := x\<rparr>) g" by blast
    have "adaptiveLoop io remaining [v] [w] t = Some (frame, u)"
      using rule(1) [rule_format, of 1] 3 u(1) by (simp add: adaptiveLoop.simps [of io remaining "[v]"])
    with s2(1) t(1) r show ?thesis by (auto simp: receiveFramedAdaptive_def)
  qed (use frame in simp)
qed

subsection \<open>To the CPU\<close>

lemma unit_sent:
  assumes "at s (pre @ cpuRecvFirst @ mid @ rest) b g"
    and "pre = [] \<or> pre = [AwaitInReq, SetInDack False]" "HSHK_IN_REQ b" "\<not> HSHK_IN_DACK b" "\<not> HSHK_IN_DENA b" "\<not> HSHK_OUT_DENA b"
    and "mid = cpuRecvSecond \<and> out = [v, w] \<or> mid = [SetOutDena False, AwaitInDena False, SetInDack False] \<and> out = [v]"
  shows "\<exists>t. transferUnitToCpu io v w s = (Inr (), t) \<and> at t rest (b\<lparr>HSHK_IN_DATA := ucast w\<rparr>) (g @ out)"
proof -
  let ?b1 = "b\<lparr>HSHK_IN_DATA := ucast v, HSHK_IN_DENA := True\<rparr>"
  let ?s1 = "updBus io (\<lambda>b. b\<lparr>HSHK_IN_DATA := ucast v, HSHK_IN_DENA := True\<rparr>) s"
  have "at ?s1 ((pre @ cpuRecvFirst) @ mid @ rest) ?b1 g" using at_upd [OF assms(1)] by simp
  then obtain s2 where s2: "waitCondition io HSHK_IN_DACK ?s1 = (Inr (), s2)"
    "at s2 (mid @ rest) (effects (pre @ cpuRecvFirst) ?b1) (g @ readBy (pre @ cpuRecvFirst) ?b1)"
    by (rule wait_at [where c = HSHK_IN_DACK]) (use assms(2-4) in \<open>auto simp: cpuRecvFirst_def\<close>)
  have b2: "effects (pre @ cpuRecvFirst) ?b1 = ?b1\<lparr>HSHK_IN_DACK := True\<rparr>" "readBy (pre @ cpuRecvFirst) ?b1 = [v]"
    using assms(2,4) by (cases b; auto simp: cpuRecvFirst_def)+
  let ?b3 = "?b1\<lparr>HSHK_IN_DACK := True, HSHK_IN_DATA := ucast w, HSHK_IN_DENA := False\<rparr>"
  let ?s3 = "updBus io (\<lambda>b. b\<lparr>HSHK_IN_DATA := ucast w, HSHK_IN_DENA := False\<rparr>) s2"
  have "at ?s3 (mid @ rest) ?b3 (g @ [v])" using at_upd [OF s2(2), of "\<lambda>b. b\<lparr>HSHK_IN_DATA := ucast w, HSHK_IN_DENA := False\<rparr>"] by (simp add: b2)
  then obtain t where t: "waitCondition io (\<lambda>b. \<not> HSHK_IN_DACK b) ?s3 = (Inr (), t)"
    "at t rest (effects mid ?b3) ((g @ [v]) @ readBy mid ?b3)"
    by (rule wait_at [where c = "\<lambda>b. \<not> HSHK_IN_DACK b"]) (use assms(7) in \<open>auto simp: cpuRecvSecond_def\<close>)
  have "effects mid ?b3 = b\<lparr>HSHK_IN_DATA := ucast w\<rparr>" "[v] @ readBy mid ?b3 = out"
    using assms(4-7) by (cases b; auto simp: cpuRecvSecond_def)+
  with s2(1) t show ?thesis by (simp add: transferUnitToCpu_def)
qed

lemma bytes_sent:
  assumes "at s (pre @ cpuRecvBytes (length bs)) b g" "bs \<noteq> []"
    and "pre = [] \<or> pre = [AwaitInReq, SetInDack False]" "HSHK_IN_REQ b" "\<not> HSHK_IN_DACK b" "\<not> HSHK_IN_DENA b" "\<not> HSHK_OUT_DENA b"
  shows "\<exists>t x rest. transferBytesToCpu io bs s = (Inr (), t) \<and> at t rest (b\<lparr>HSHK_IN_DATA := x\<rparr>) (g @ bs)"
  using assms
proof (induction bs arbitrary: s pre b g rule: cpuSendBytes.induct)
  case (2 v)
  then have "at s (pre @ cpuRecvFirst @ [SetOutDena False, AwaitInDena False, SetInDack False] @ []) b g" by simp
  from unit_sent [OF this 2(3-7), of "[v]" v 0] 2 show ?case by auto
next
  case (3 v w vs)
  then have "at s (pre @ cpuRecvFirst @ cpuRecvSecond @ cpuRecvBytes (length vs)) b g" by simp
  from unit_sent [OF this 3(4-8), of "[v, w]" v w] obtain t where
    t: "transferUnitToCpu io v w s = (Inr (), t)" "at t ([] @ cpuRecvBytes (length vs)) (b\<lparr>HSHK_IN_DATA := ucast w\<rparr>) (g @ [v, w])"
    by auto
  show ?case
  proof (cases "vs = []")
    case True
    with t show ?thesis by auto
  next
    case False
    from 3(1) [OF t(2) this] 3(4-8) t(1) show ?thesis by auto
  qed
qed simp

lemma response_sent:
  assumes "at s (AwaitInReq # cpuAcceptRequest @ cpuRecvBytes (length bs)) b g" "bs \<noteq> []" "linesIdle b"
  shows "\<exists>t rest c. send io bs False s = (Inr (), t) \<and> at t rest c (g @ bs) \<and> linesIdle c"
proof -
  have idle: "\<not> HSHK_OUT_REQ b" "\<not> HSHK_OUT_DENA b" "\<not> HSHK_OUT_DACK b" "\<not> HSHK_IN_REQ b" "\<not> HSHK_IN_DENA b" "\<not> HSHK_IN_DACK b"
    using assms(3) by (simp_all add: linesIdle_def)
  have now: "waitCondition io c s = (Inr (), s)" if "c (busOf io s)" for c s
    using that by (cases "turns io") (auto simp: waitCondition_def)
  let ?b1 = "b\<lparr>HSHK_IN_DENA := False, INT_CAUSE := INT_CAUSE_HANDSHAKE, HSHK_IN_REQ := True\<rparr>"
  let ?s1 = "assignInReq io True True (updBus io (\<lambda>b. b\<lparr>HSHK_IN_DENA := False, INT_CAUSE := INT_CAUSE_HANDSHAKE\<rparr>) s)"
  have s1: "at ?s1 ([AwaitInReq, SetInDack False] @ cpuRecvBytes (length bs)) ?b1 g"
    using at_in_req [OF at_upd [OF assms(1)]] by (simp add: cpuAcceptRequest_def)
  have init: "initiateSend io False s = (Inr (), ?s1)"
    using idle s1 assms(1) by (simp add: initiateSend_def now at_bus)
  from bytes_sent [OF s1 assms(2)] idle obtain t x rest where
    t: "transferBytesToCpu io bs ?s1 = (Inr (), t)" "at t rest (?b1\<lparr>HSHK_IN_DATA := x\<rparr>) (g @ bs)" by auto
  let ?c = "?b1\<lparr>HSHK_IN_DATA := x, HSHK_IN_REQ := False\<rparr>"
  have "finalizeSend io t = (Inr (), assignInReq io False True t)"
    using t(2) idle by (simp add: finalizeSend_def now at_bus)
  with init t(1) have "send io bs False s = (Inr (), assignInReq io False True t)" by (simp add: send_def)
  moreover have "at (assignInReq io False True t) rest ?c (g @ bs)" using at_in_req [OF t(2), of False] by simp
  moreover have "linesIdle ?c" using idle by (simp add: linesIdle_def)
  ultimately show ?thesis by blast
qed

text \<open>Reception, dispatch and response.\<close>

lemma request_served:
  assumes start: "at s (cpuTransaction frame (length resp)) b g" "linesIdle b"
    and frame: "frame \<noteq> []" "\<forall>k < length frame. k \<noteq> 0 \<longrightarrow> 0 < remaining (take k frame)" "remaining frame \<le> 0"
    and resp: "dispatch d frame q = (resp, q')" "resp \<noteq> []"
  shows "\<exists>t rest c. handleOneRequest io maxLog d remaining (s, q) =
      Some (Inr resp, t, pushLog maxLog \<lparr>le_toCpu = False, le_cmd = hd frame, le_frame = frame, le_response = Some resp\<rparr> q') \<and>
    at t rest c (g @ resp) \<and> linesIdle c"
proof -
  from start(1) have "at s (cpuInitiateSend @ cpuSendBytes frame @ cpuFinalizeSend @
      (AwaitInReq # cpuAcceptRequest @ cpuRecvBytes (length resp))) b g"
    by (simp add: cpuTransaction_def)
  from frame_received [OF this start(2) frame] obtain t x where
    t: "receiveFramedAdaptive io remaining s = Some (Inr frame, t)"
      "at t (AwaitInReq # cpuAcceptRequest @ cpuRecvBytes (length resp)) (b\<lparr>HSHK_OUT_DATA := x\<rparr>) g" by blast
  have "linesIdle (b\<lparr>HSHK_OUT_DATA := x\<rparr>)" using start(2) by (simp add: linesIdle_def)
  from response_sent [OF t(2) resp(2) this] obtain u rest c where
    u: "send io resp False t = (Inr (), u)" "at u rest c (g @ resp)" "linesIdle c" by blast
  have "handleOneRequest io maxLog d remaining (s, q) =
      Some (Inr resp, u, pushLog maxLog \<lparr>le_toCpu = False, le_cmd = hd frame, le_frame = frame, le_response = Some resp\<rparr> q')"
    using t(1) resp u(1) by (simp add: handleOneRequest_def Let_def)
  with u(2,3) show ?thesis by blast
qed

end

subsection \<open>The routines of the CPU\<close>

text \<open>At most so many other instructions before the next access.\<close>

fun pacedFrom :: "nat \<Rightarrow> cpu_access list \<Rightarrow> bool" where
  "pacedFrom n [] \<longleftrightarrow> True"
| "pacedFrom n (Work # as) \<longleftrightarrow> 0 < n \<and> pacedFrom (n - 1) as"
| "pacedFrom n (a # as) \<longleftrightarrow> pacedFrom CPU_PACE as"

definition accessesOf :: "cpu_peer \<Rightarrow> cpu_access list" where
  "accessesOf p = filter (\<lambda>a. a \<noteq> Work) (pr_acts p)"

lemma pacedFrom_access: "a \<noteq> Work \<Longrightarrow> pacedFrom n (a # as) = pacedFrom CPU_PACE as"
  by (cases a) simp_all

lemma next_access:
  assumes "pacedFrom n (pr_acts p)" "accessesOf p = a # as" "enabled a (pr_bus p)"
  shows "\<exists>k \<le> n. pacedFrom CPU_PACE (pr_acts ((peerStep ^^ Suc k) p)) \<and> accessesOf ((peerStep ^^ Suc k) p) = as \<and>
    pr_bus ((peerStep ^^ Suc k) p) = effect a (pr_bus p) \<and>
    pr_got ((peerStep ^^ Suc k) p) = pr_got p @ bytesRead a (pr_bus p) \<and>
    (\<forall>j\<le>k. pr_bus ((peerStep ^^ j) p) = pr_bus p)"
  using assms
proof (induction n arbitrary: p)
  case 0
  then obtain rest where acts: "pr_acts p = a # rest" "a \<noteq> Work"
    by (cases "pr_acts p"; cases "hd (pr_acts p) = Work") (auto simp: accessesOf_def)
  with 0 show ?case by (simp add: accessesOf_def peerStep_def pacedFrom_access)
next
  case (Suc n)
  then obtain x rest where acts: "pr_acts p = x # rest" by (cases "pr_acts p") (auto simp: accessesOf_def)
  show ?case
  proof (cases "x = Work")
    case False
    with Suc.prems acts have "x = a" by (simp add: accessesOf_def)
    with Suc.prems acts False show ?thesis
      by (intro exI [of _ 0]) (simp add: accessesOf_def peerStep_def pacedFrom_access)
  next
    case True
    let ?q = "p\<lparr>pr_acts := rest\<rparr>"
    have q: "peerStep p = ?q" using acts True by (cases p) (simp add: peerStep_def)
    have prems: "pacedFrom n (pr_acts ?q)" "accessesOf ?q = a # as" "enabled a (pr_bus ?q)"
      using Suc.prems acts True by (simp_all add: accessesOf_def)
    have shift: "(peerStep ^^ Suc j) p = (peerStep ^^ j) ?q" for j by (simp add: funpow_swap1 q)
    from Suc.IH [OF prems] obtain k where
      k: "k \<le> n" "pacedFrom CPU_PACE (pr_acts ((peerStep ^^ Suc k) ?q))" "accessesOf ((peerStep ^^ Suc k) ?q) = as"
        "pr_bus ((peerStep ^^ Suc k) ?q) = effect a (pr_bus ?q)"
        "pr_got ((peerStep ^^ Suc k) ?q) = pr_got ?q @ bytesRead a (pr_bus ?q)" "\<forall>j\<le>k. pr_bus ((peerStep ^^ j) ?q) = pr_bus ?q"
      by blast
    have "pr_bus ((peerStep ^^ j) p) = pr_bus p" if "j \<le> Suc k" for j
    proof (cases j)
      case (Suc i)
      with that k(6) have "pr_bus ((peerStep ^^ i) ?q) = pr_bus ?q" by simp
      then show ?thesis unfolding Suc shift by simp
    qed simp
    with k show ?thesis
      by (intro exI [of _ "Suc k"]) (simp only: shift [of "Suc k"], simp)
  qed
qed

interpretation mn1613_cpu: paced_cpu "peerIo others (Suc n)" peerStep "\<lambda>p. pacedFrom CPU_PACE (pr_acts p)" accessesOf pr_got
  for others n
proof unfold_locales
  fix p a as
  assume "pacedFrom CPU_PACE (pr_acts p)" "accessesOf p = a # as" "enabled a (busOf (peerIo others (Suc n)) p)"
  from next_access [OF this(1,2)] this(3)
  show "\<exists>k\<le>CPU_PACE. pacedFrom CPU_PACE (pr_acts ((peerStep ^^ Suc k) p)) \<and> accessesOf ((peerStep ^^ Suc k) p) = as \<and>
      busOf (peerIo others (Suc n)) ((peerStep ^^ Suc k) p) = effect a (busOf (peerIo others (Suc n)) p) \<and>
      pr_got ((peerStep ^^ Suc k) p) = pr_got p @ bytesRead a (busOf (peerIo others (Suc n)) p) \<and>
      (\<forall>j\<le>k. busOf (peerIo others (Suc n)) ((peerStep ^^ j) p) = busOf (peerIo others (Suc n)) p)"
    by (simp add: peerIo_def del: funpow.simps)
qed (simp_all add: peerIo_def accessesOf_def)

end
