(* ===== verification/Io_Settings.thy ===== *)
theory Io_Settings
  imports Io_Devices
begin

text \<open>
  The settings of the control and IO board, 256 bytes of its flash memory,
  \<^verbatim>\<open>ioboard/setting_area/setting_area.ts\<close>.  The storage is the bytes of a file, or nothing before
  the first time.
\<close>

definition SETTING_AREA_SIZE :: nat where "SETTING_AREA_SIZE = 256"
definition SETTING_MARK :: u16 where "SETTING_MARK = 0xaa55"
definition OFS_MARK :: nat where "OFS_MARK = 0x00"
definition OFS_CLOCK_DIV :: nat where "OFS_CLOCK_DIV = 0x02"
definition OFS_CPU_TYPE :: nat where "OFS_CPU_TYPE = 0x03"
definition OFS_CPU_TYPE_RESET :: nat where "OFS_CPU_TYPE_RESET = 0x04"
definition OFS_ADDR_STEP :: nat where "OFS_ADDR_STEP = 0x05"
definition OFS_RESET_VECTOR :: nat where "OFS_RESET_VECTOR = 0x06"
definition OFS_ADDR_DIGITS :: nat where "OFS_ADDR_DIGITS = 0x0a"
definition OFS_DATA_DIGITS :: nat where "OFS_DATA_DIGITS = 0x0b"
definition OFS_EMULATE_PORT :: nat where "OFS_EMULATE_PORT = 0x0c"
definition OFS_STEP_DELAY :: nat where "OFS_STEP_DELAY = 0x0e"

lemmas offset_defs = SETTING_AREA_SIZE_def SETTING_MARK_def OFS_MARK_def OFS_CLOCK_DIV_def OFS_CPU_TYPE_def
  OFS_CPU_TYPE_RESET_def OFS_ADDR_STEP_def OFS_RESET_VECTOR_def OFS_ADDR_DIGITS_def OFS_DATA_DIGITS_def
  OFS_EMULATE_PORT_def OFS_STEP_DELAY_def

definition DEFAULT_EMULATE_PORT :: u16 where "DEFAULT_EMULATE_PORT = 0x7148"
definition ADDR_STEP_1 :: nat where "ADDR_STEP_1 = 1"
definition ADDR_STEP_2 :: nat where "ADDR_STEP_2 = 2"
definition CPU_MN1613 :: nat where "CPU_MN1613 = 1"
definition CPU_TMS9995 :: nat where "CPU_TMS9995 = 2"
definition CPU_Z8002 :: nat where "CPU_Z8002 = 3"
definition CPU_MC68332 :: nat where "CPU_MC68332 = 4"

lemmas setting_value_defs = DEFAULT_EMULATE_PORT_def ADDR_STEP_1_def ADDR_STEP_2_def CPU_MN1613_def
  CPU_TMS9995_def CPU_Z8002_def CPU_MC68332_def

record settings =
  clockDiv :: nat
  cpuType :: nat
  cpuTypeReset :: nat
  addrStep :: nat
  resetVector :: nat
  sevenSegAddrDigits :: nat
  sevenSegDataDigits :: nat
  emulatePort :: nat
  stepDelay :: nat

definition normalizeRaw :: "u8 list \<Rightarrow> u8 list" where
  "normalizeRaw raw =
     (if length raw = SETTING_AREA_SIZE then raw
      else take SETTING_AREA_SIZE raw @ replicate (SETTING_AREA_SIZE - length raw) 0xff)"

definition normalizeAddrStep :: "nat \<Rightarrow> nat" where
  "normalizeAddrStep v = (if v mod 256 = ADDR_STEP_2 then ADDR_STEP_2 else ADDR_STEP_1)"

definition alignAddrToStep :: "u32 \<Rightarrow> nat \<Rightarrow> u32" where
  "alignAddrToStep addr st = (if normalizeAddrStep st = ADDR_STEP_2 \<and> addr AND 1 = 1 then addr - 1 else addr)"

definition normalizeEmulatePort :: "nat \<Rightarrow> nat" where
  "normalizeEmulatePort v =
     (let p = v mod 2 ^ 16 in if p = 0 \<or> p = 0xffff then unat DEFAULT_EMULATE_PORT else p)"

definition defaultSettingsForCpu :: "nat \<Rightarrow> settings" where
  "defaultSettingsForCpu cpu =
     (if cpu = CPU_TMS9995 \<or> cpu = CPU_Z8002 then
        \<lparr>clockDiv = 0, cpuType = cpu, cpuTypeReset = 0, addrStep = ADDR_STEP_2, resetVector = 0,
         sevenSegAddrDigits = 4, sevenSegDataDigits = 4, emulatePort = unat DEFAULT_EMULATE_PORT, stepDelay = 1\<rparr>
      else if cpu = CPU_MC68332 then
        \<lparr>clockDiv = 0, cpuType = cpu, cpuTypeReset = 0, addrStep = ADDR_STEP_2, resetVector = 0,
         sevenSegAddrDigits = 6, sevenSegDataDigits = 4, emulatePort = unat DEFAULT_EMULATE_PORT, stepDelay = 1\<rparr>
      else
        \<lparr>clockDiv = 0, cpuType = CPU_MN1613, cpuTypeReset = 0, addrStep = ADDR_STEP_1, resetVector = 0x108,
         sevenSegAddrDigits = 5, sevenSegDataDigits = 4, emulatePort = unat DEFAULT_EMULATE_PORT, stepDelay = 1\<rparr>)"

text \<open>Big-endian fields.\<close>

definition readU16be :: "u8 list \<Rightarrow> nat \<Rightarrow> nat" where
  "readU16be raw ofs = unat (raw ! ofs) * 256 + unat (raw ! (ofs + 1))"

definition readU32be :: "u8 list \<Rightarrow> nat \<Rightarrow> nat" where
  "readU32be raw ofs = readU16be raw ofs * 65536 + readU16be raw (ofs + 2)"

definition writeU16be :: "u8 list \<Rightarrow> nat \<Rightarrow> nat \<Rightarrow> u8 list" where
  "writeU16be raw ofs v = raw[ofs := of_nat (v div 256), ofs + 1 := of_nat v]"

definition writeU32be :: "u8 list \<Rightarrow> nat \<Rightarrow> nat \<Rightarrow> u8 list" where
  "writeU32be raw ofs v =
     raw[ofs := of_nat (v div 2 ^ 24), ofs + 1 := of_nat (v div 2 ^ 16), ofs + 2 := of_nat (v div 256), ofs + 3 := of_nat v]"

definition decodeSettingArea :: "u8 list \<Rightarrow> settings" where
  "decodeSettingArea raw =
     (let buf = normalizeRaw raw in
      \<lparr>clockDiv = unat (buf ! OFS_CLOCK_DIV) mod 4,
       cpuType = unat (buf ! OFS_CPU_TYPE),
       cpuTypeReset = unat (buf ! OFS_CPU_TYPE_RESET) mod 2,
       addrStep = normalizeAddrStep (unat (buf ! OFS_ADDR_STEP)),
       resetVector = readU32be buf OFS_RESET_VECTOR,
       sevenSegAddrDigits = unat (buf ! OFS_ADDR_DIGITS),
       sevenSegDataDigits = unat (buf ! OFS_DATA_DIGITS),
       emulatePort = normalizeEmulatePort (readU16be buf OFS_EMULATE_PORT),
       stepDelay = unat (buf ! OFS_STEP_DELAY)\<rparr>)"

definition encodeSettingArea :: "settings \<Rightarrow> u8 list" where
  "encodeSettingArea s =
     (let raw0 = writeU16be (replicate SETTING_AREA_SIZE 0xff) OFS_MARK (unat SETTING_MARK);
          raw1 = raw0[OFS_CLOCK_DIV := of_nat (clockDiv s mod 4), OFS_CPU_TYPE := of_nat (cpuType s),
                      OFS_CPU_TYPE_RESET := of_nat (cpuTypeReset s mod 2), OFS_ADDR_STEP := of_nat (normalizeAddrStep (addrStep s))];
          raw2 = writeU32be raw1 OFS_RESET_VECTOR (resetVector s);
          raw3 = raw2[OFS_ADDR_DIGITS := of_nat (sevenSegAddrDigits s), OFS_DATA_DIGITS := of_nat (sevenSegDataDigits s)];
          raw4 = writeU16be raw3 OFS_EMULATE_PORT (normalizeEmulatePort (emulatePort s))
      in raw4[OFS_STEP_DELAY := of_nat (stepDelay s)])"

definition resettledFor :: "settings \<Rightarrow> settings" where
  "resettledFor s = (defaultSettingsForCpu (cpuType s))\<lparr>clockDiv := clockDiv s, cpuType := cpuType s, cpuTypeReset := 0\<rparr>"

definition writeSettingAreaByte :: "u8 list \<Rightarrow> u8 \<Rightarrow> u8 \<Rightarrow> u8 list" where
  "writeSettingAreaByte raw byteAddr v =
     (let next1 = (normalizeRaw raw)[unat byteAddr := v]
      in if unat byteAddr \<noteq> OFS_CPU_TYPE_RESET \<or> v AND 1 = 0 then next1
         else encodeSettingArea (resettledFor (decodeSettingArea next1)))"

definition hasValidMark :: "u8 list \<Rightarrow> bool" where
  "hasValidMark raw \<longleftrightarrow> readU16be (normalizeRaw raw) OFS_MARK = unat SETTING_MARK"

type_synonym setting_store = "u8 list option"

definition storageRead :: "setting_store \<Rightarrow> u8 list option" where
  "storageRead = map_option normalizeRaw"

definition storageWrite :: "u8 list \<Rightarrow> setting_store" where
  "storageWrite raw = Some (normalizeRaw raw)"

definition loadSettingArea :: "setting_store \<Rightarrow> u8 list \<times> settings \<times> bool" where
  "loadSettingArea st =
     (let raw = (case storageRead st of Some r \<Rightarrow> r | None \<Rightarrow> encodeSettingArea (defaultSettingsForCpu CPU_MN1613))
      in (raw, decodeSettingArea raw, storageRead st \<noteq> None \<and> hasValidMark raw))"

definition saveSettingArea :: "settings \<Rightarrow> u8 list \<times> setting_store" where
  "saveSettingArea s = (encodeSettingArea s, storageWrite (encodeSettingArea s))"

datatype init_reason = AlreadyValid | InvalidOrMissingMark | CpuTypeReset

record init_result =
  ir_raw :: "u8 list"
  ir_settings :: settings
  ir_initialized :: bool
  ir_reason :: init_reason

definition initializeSettingArea :: "setting_store \<Rightarrow> init_result \<times> setting_store" where
  "initializeSettingArea st =
     (case loadSettingArea st of (raw, s, validMark) \<Rightarrow>
        if \<not> validMark then
          (case saveSettingArea (defaultSettingsForCpu CPU_MN1613) of (raw', st') \<Rightarrow>
             (\<lparr>ir_raw = raw', ir_settings = defaultSettingsForCpu CPU_MN1613, ir_initialized = True,
               ir_reason = InvalidOrMissingMark\<rparr>, st'))
        else if cpuTypeReset s = 1 then
          (case saveSettingArea (resettledFor s) of (raw', st') \<Rightarrow>
             (\<lparr>ir_raw = raw', ir_settings = resettledFor s, ir_initialized = True, ir_reason = CpuTypeReset\<rparr>, st'))
        else (\<lparr>ir_raw = raw, ir_settings = s, ir_initialized = False, ir_reason = AlreadyValid\<rparr>, st))"

end
