(* ===== verification/Io_Console.thy ===== *)
theory Io_Console
  imports Io_Settings
begin

text \<open>
  The front panel of the control and IO board, \<^verbatim>\<open>ioboard/hex_keyboard/io_console.ts\<close>: its keys, the
  address and data it shows, and the lamps.  The operations on the CPU and on the setting area are
  the functions of a bridge over a state \<open>'b\<close>; each can throw.
\<close>

definition SEG_DASH :: u8 where "SEG_DASH = 0x40"

datatype console_focus = FocusAddr | FocusData
datatype console_mode = ModeMonitor | ModeSettingArea
datatype console_fn = F0 | F1 | F2 | F3 | F4 | F5 | F6 | F7

type_synonym ('s, 'a) act = "'s \<Rightarrow> (string + 'a) \<times> 's"

record 'b console_bridge =
  memReadWord :: "u32 \<Rightarrow> ('b, u16) act"
  memWriteWord :: "u32 \<Rightarrow> u16 \<Rightarrow> ('b, unit) act"
  readSettingByte :: "u8 \<Rightarrow> ('b, u8) act"
  writeSettingByte :: "u8 \<Rightarrow> u8 \<Rightarrow> ('b, unit) act"
  execAt :: "u32 \<Rightarrow> ('b, unit) act"
  setHalt :: "bool \<Rightarrow> ('b, unit) act"
  pulseReset :: "('b, unit) act"

record panel =
  pn_wordAddr :: u32
  pn_dataWord :: u16
  pn_focus :: console_focus
  pn_mode :: console_mode
  pn_halted :: bool
  pn_addrStep :: nat
  pn_addrDigits :: nat
  pn_dataDigits :: nat
  pn_led :: led_display_data
  pn_undef :: bool

definition retA :: "'a \<Rightarrow> ('s, 'a) act" where "retA x = (\<lambda>s. (Inr x, s))"

definition bindA :: "('s, 'a) act \<Rightarrow> ('a \<Rightarrow> ('s, 'c) act) \<Rightarrow> ('s, 'c) act" where
  "bindA m f = (\<lambda>s. case m s of (Inl e, t) \<Rightarrow> (Inl e, t) | (Inr x, t) \<Rightarrow> f x t)"

definition thenA :: "('s, 'a) act \<Rightarrow> ('s, 'c) act \<Rightarrow> ('s, 'c) act" where
  "thenA m n = bindA m (\<lambda>_. n)"

definition onPanel :: "(panel \<Rightarrow> panel) \<Rightarrow> (panel \<times> 'b, unit) act" where
  "onPanel f = (\<lambda>(p, b). (Inr (), (f p, b)))"

definition viaBridge :: "('b, 'a) act \<Rightarrow> (panel \<times> 'b, 'a) act" where
  "viaBridge m = (\<lambda>(p, b). case m b of (r, b') \<Rightarrow> (r, (p, b')))"

text \<open>What follows depends on the panel.\<close>

definition withPanel :: "(panel \<Rightarrow> (panel \<times> 'b, 'a) act) \<Rightarrow> (panel \<times> 'b, 'a) act" where
  "withPanel f = (\<lambda>(p, b). f p (p, b))"

lemmas act_defs = retA_def bindA_def thenA_def onPanel_def viaBridge_def withPanel_def

subsection \<open>Lamps\<close>

definition addrSegs :: "panel \<Rightarrow> u8 list" where
  "addrSegs p =
     (if pn_mode p = ModeSettingArea then [SEG_DASH, 0, 0, 0, 0, 0] @ wordToSegDigits (pn_wordAddr p AND 0xff) 2
      else wordToSegDigitsPadded (pn_wordAddr p) (pn_addrDigits p) 8)"

definition dataSegs :: "panel \<Rightarrow> u8 list" where
  "dataSegs p =
     (if pn_mode p = ModeSettingArea then [0, 0] @ wordToSegDigits (ucast (pn_dataWord p) AND 0xff) 2
      else wordToSegDigitsPadded (ucast (pn_dataWord p)) (pn_dataDigits p) 4)"

definition bulletLamps :: "panel \<Rightarrow> u8" where
  "bulletLamps p =
     (if pn_focus p = FocusAddr then 0x40 else 0x80) OR (if pn_halted p then 0x20 else 0x10) OR (if pn_undef p then 0x08 else 0)"

definition refreshLeds :: "panel \<Rightarrow> panel" where
  "refreshLeds p = p\<lparr>pn_led := applyLedDisplayCommand
     \<lparr>sevenSeg = addrSegs p @ dataSegs p, bulletLed0_7 = 0, bulletLed8_F = bulletLamps p\<rparr>\<rparr>"

definition newPanel :: "led_display_data \<Rightarrow> bool \<Rightarrow> panel" where
  "newPanel led undef =
     refreshLeds \<lparr>pn_wordAddr = 0, pn_dataWord = 0, pn_focus = FocusAddr, pn_mode = ModeMonitor, pn_halted = True,
       pn_addrStep = 1, pn_addrDigits = sevenSegAddrDigits (defaultSettingsForCpu CPU_MN1613), pn_dataDigits = 4,
       pn_led = led, pn_undef = undef\<rparr>"

record console_state =
  cs_wordAddr :: u32
  cs_dataWord :: u16
  cs_focus :: console_focus
  cs_mode :: console_mode
  cs_halted :: bool
  cs_undefInsn :: bool

definition consoleState :: "panel \<Rightarrow> console_state" where
  "consoleState p = \<lparr>cs_wordAddr = pn_wordAddr p, cs_dataWord = pn_dataWord p, cs_focus = pn_focus p,
     cs_mode = pn_mode p, cs_halted = pn_halted p, cs_undefInsn = pn_undef p\<rparr>"

subsection \<open>Helpers\<close>

definition settingByte :: "'b console_bridge \<Rightarrow> nat \<Rightarrow> (panel \<times> 'b, u8) act" where
  "settingByte cpu ofs = viaBridge (readSettingByte cpu (of_nat ofs))"

definition digitsOr :: "nat \<Rightarrow> nat \<Rightarrow> u8 \<Rightarrow> nat" where
  "digitsOr most dflt v = (if 1 \<le> unat v \<and> unat v \<le> most then unat v else dflt)"

definition syncFromSettings :: "'b console_bridge \<Rightarrow> (panel \<times> 'b, unit) act" where
  "syncFromSettings cpu =
     bindA (settingByte cpu OFS_CPU_TYPE) (\<lambda>cpuT.
     bindA (settingByte cpu OFS_ADDR_STEP) (\<lambda>st.
     thenA (onPanel (\<lambda>p. p\<lparr>pn_addrStep := normalizeAddrStep (unat st)\<rparr>))
    (bindA (settingByte cpu OFS_ADDR_DIGITS) (\<lambda>ad.
     bindA (settingByte cpu OFS_DATA_DIGITS) (\<lambda>dd.
     let d = defaultSettingsForCpu (unat cpuT) in
     onPanel (\<lambda>p. p\<lparr>pn_addrDigits := digitsOr 8 (sevenSegAddrDigits d) ad,
                     pn_dataDigits := digitsOr 4 (sevenSegDataDigits d) dd\<rparr>))))))"

definition syncMonitorSettings :: "'b console_bridge \<Rightarrow> (panel \<times> 'b, unit) act" where
  "syncMonitorSettings cpu = thenA (syncFromSettings cpu) (onPanel refreshLeds)"

definition alignMonitorAddr :: "panel \<Rightarrow> panel" where
  "alignMonitorAddr p =
     (if pn_mode p \<noteq> ModeMonitor then p else p\<lparr>pn_wordAddr := alignAddrToStep (pn_wordAddr p) (pn_addrStep p)\<rparr>)"

definition addrDelta :: "panel \<Rightarrow> int" where
  "addrDelta p = (if pn_mode p = ModeSettingArea then 1 else int (pn_addrStep p))"

definition addAddr :: "int \<Rightarrow> panel \<Rightarrow> panel" where
  "addAddr delta p =
     p\<lparr>pn_wordAddr := (if pn_mode p = ModeSettingArea then (pn_wordAddr p + word_of_int delta) AND 0xff
                       else pn_wordAddr p + word_of_int delta)\<rparr>"

text \<open>The data of the address shown.\<close>

definition readAtAddr :: "'b console_bridge \<Rightarrow> (panel \<times> 'b, unit) act" where
  "readAtAddr cpu =
     withPanel (\<lambda>p.
       if pn_mode p = ModeSettingArea then
         bindA (viaBridge (readSettingByte cpu (ucast (pn_wordAddr p)))) (\<lambda>v. onPanel (\<lambda>p. p\<lparr>pn_dataWord := ucast v\<rparr>))
       else
         bindA (viaBridge (memReadWord cpu (pn_wordAddr p))) (\<lambda>v. onPanel (\<lambda>p. p\<lparr>pn_dataWord := v\<rparr>)))"

subsection \<open>Events\<close>

definition notifyCpuReset :: "'b console_bridge \<Rightarrow> (panel \<times> 'b, unit) act" where
  "notifyCpuReset cpu =
     thenA (syncMonitorSettings cpu)
       (onPanel (\<lambda>p. refreshLeds (p\<lparr>pn_wordAddr := 0, pn_dataWord := 0, pn_focus := FocusAddr, pn_mode := ModeMonitor,
          pn_undef := resetUndefLed, pn_halted := True\<rparr>)))"

definition onAdsLongPress :: "'b console_bridge \<Rightarrow> (panel \<times> 'b, unit) act" where
  "onAdsLongPress cpu =
     withPanel (\<lambda>p.
       thenA (onPanel (\<lambda>p. p\<lparr>pn_mode := (if pn_mode p = ModeMonitor then ModeSettingArea else ModeMonitor),
            pn_focus := FocusAddr, pn_wordAddr := 0, pn_dataWord := 0\<rparr>))
       (if pn_mode p = ModeSettingArea then thenA (syncMonitorSettings cpu) (onPanel refreshLeds)
        else onPanel refreshLeds))"

definition syncCpuHalted :: "bool \<Rightarrow> panel \<Rightarrow> panel" where
  "syncCpuHalted h p = (if pn_halted p = h then p else refreshLeds (p\<lparr>pn_halted := h\<rparr>))"

definition setUndefLed :: "bool \<Rightarrow> panel \<Rightarrow> panel" where
  "setUndefLed on p =
     (let q = p\<lparr>pn_undef := applyUndefLedCommand on\<rparr> in refreshLeds (if on then q\<lparr>pn_halted := True\<rparr> else q))"

definition keyDigit :: "char \<Rightarrow> nat option" where
  "keyDigit c = (let n = of_char c :: nat in
     if 48 \<le> n \<and> n \<le> 57 then Some (n - 48)
     else if 65 \<le> n \<and> n \<le> 70 then Some (n - 55)
     else if 97 \<le> n \<and> n \<le> 102 then Some (n - 87) else None)"

definition onHex :: "char \<Rightarrow> panel \<Rightarrow> panel" where
  "onHex digit p =
     (case keyDigit digit of
        None \<Rightarrow> p
      | Some n \<Rightarrow>
          refreshLeds
            (if pn_focus p = FocusAddr then
               (if pn_mode p = ModeSettingArea then
                  p\<lparr>pn_wordAddr := (push_bit 4 (pn_wordAddr p) OR of_nat n) AND 0xff\<rparr>
                else p\<lparr>pn_wordAddr := push_bit 4 (pn_wordAddr p) OR of_nat n\<rparr>)
             else
               (if pn_mode p = ModeSettingArea then
                  p\<lparr>pn_dataWord := (push_bit 4 (pn_dataWord p) OR of_nat n) AND 0xff\<rparr>
                else p\<lparr>pn_dataWord := push_bit 4 (pn_dataWord p) OR of_nat n\<rparr>)))"

definition showData :: "(panel \<times> 'b, unit) act" where
  "showData = onPanel (\<lambda>p. refreshLeds (p\<lparr>pn_focus := FocusData\<rparr>))"

definition functionKey :: "'b console_bridge \<Rightarrow> console_fn \<Rightarrow> (panel \<times> 'b, unit) act" where
  "functionKey cpu fn =
     (case fn of
        F0 \<Rightarrow>
          thenA (onPanel (\<lambda>p. p\<lparr>pn_focus := (if pn_focus p = FocusAddr then FocusData else FocusAddr)\<rparr>))
         (thenA (withPanel (\<lambda>p. if pn_focus p = FocusData then thenA (onPanel alignMonitorAddr) (readAtAddr cpu) else retA ()))
                (onPanel refreshLeds))
      | F1 \<Rightarrow>
          onPanel (\<lambda>p. refreshLeds (if pn_focus p = FocusAddr then p\<lparr>pn_wordAddr := 0\<rparr> else p\<lparr>pn_dataWord := 0\<rparr>))
      | F2 \<Rightarrow>
          thenA (onPanel alignMonitorAddr)
         (thenA (onPanel (\<lambda>p. addAddr (addrDelta p) p)) (thenA (readAtAddr cpu) showData))
      | F3 \<Rightarrow>
          thenA (onPanel alignMonitorAddr)
         (thenA (onPanel (\<lambda>p. addAddr (- addrDelta p) p)) (thenA (readAtAddr cpu) showData))
      | F4 \<Rightarrow>
          thenA (onPanel alignMonitorAddr)
         (thenA (withPanel (\<lambda>p.
            if pn_mode p = ModeSettingArea then
              viaBridge (writeSettingByte cpu (ucast (pn_wordAddr p)) (ucast (pn_dataWord p)))
            else viaBridge (memWriteWord cpu (pn_wordAddr p) (pn_dataWord p))))
         (thenA (onPanel (\<lambda>p. addAddr (addrDelta p) p)) (thenA (readAtAddr cpu) showData)))
      | F5 \<Rightarrow>
          thenA (onPanel alignMonitorAddr)
         (thenA (withPanel (\<lambda>p. viaBridge (execAt cpu (pn_wordAddr p))))
                (onPanel (\<lambda>p. refreshLeds (p\<lparr>pn_halted := False\<rparr>))))
      | F6 \<Rightarrow>
          withPanel (\<lambda>p.
            thenA (viaBridge (setHalt cpu (\<not> pn_halted p)))
                  (onPanel (\<lambda>q. refreshLeds (q\<lparr>pn_halted := \<not> pn_halted p\<rparr>))))
      | F7 \<Rightarrow> thenA (viaBridge (pulseReset cpu)) (notifyCpuReset cpu))"

definition onFunction :: "'b console_bridge \<Rightarrow> console_fn \<Rightarrow> (panel \<times> 'b, unit) act" where
  "onFunction cpu fn = thenA (syncFromSettings cpu) (functionKey cpu fn)"

end
