(* ===== verification/Io_Props.thy ===== *)
theory Io_Props
  imports Hshk_Props Io_Console
begin

text \<open>
  Properties of the control and IO board: commands are received whole and answered, the state keeps
  its shape, the timer fires as often as it is told, what the LCD and the panel show, and the settings.
\<close>

subsection \<open>Frames\<close>

text \<open>A frame with the length that its command, and the number of entries in it, call for.\<close>

definition completeFrame :: "u8 list \<Rightarrow> nat \<Rightarrow> nat \<Rightarrow> bool" where
  "completeFrame frame entrySize cpu \<longleftrightarrow> frame \<noteq> [] \<and>
     length frame =
       (if hd frame = BREAK_NOTIFY then
          BREAK_NOTIFY_HEADER_SIZE + (if unat (frame ! 2) \<le> BREAK_HISTORY_MAX_COUNT then unat (frame ! 2) * entrySize else 0)
        else cpuFrameSizeForCpu (hd frame) cpu)"





subsection \<open>Responses\<close>


lemma fixedBytes_length [simp]: "length (fixedBytes n bs) = n"
  by (simp add: fixedBytes_def)

lemma be16_length [simp]: "length (be16 v) = 2"
  by (simp add: be16_def)

lemma respond1_length [simp]: "length (fst (respond1 r)) = 1"
  by (simp add: respond1_def)






lemma complete_is_long_enough:
  "completeFrame frame e cpu \<Longrightarrow> cpuFrameSizeForCpu (hd frame) cpu \<le> length frame"
  by (auto simp: completeFrame_def cpuFrameSizeForCpu_def CPU_FRAME_SIZE_def cpu_command_defs)


subsection \<open>A request of the CPU\<close>











end
