(* ===== verification/Io_Types.thy ===== *)
theory Io_Types
  imports Io_Board
begin

text \<open>
  The shape of the state of the control and IO board, and that everything that happens to the board
  keeps it: requests of the CPU whole or broken, commands to the CPU, keys, texts, the timer, resets.
\<close>

subsection \<open>Shape\<close>

definition wf_lcd :: "lcd \<Rightarrow> bool" where
  "wf_lcd l \<longleftrightarrow> length (ddram l) = LCD_COLS * LCD_ROWS \<and> cursorRow l < LCD_ROWS \<and> cursorCol l < LCD_COLS \<and>
     (\<forall>c\<in>set (ddram l). 0x20 \<le> c \<and> c \<le> 0x7e)"

definition wf_led :: "led_display_data \<Rightarrow> bool" where
  "wf_led d \<longleftrightarrow> length (sevenSeg d) = LED_SEVEN_SEG_COUNT"

text \<open>A timer runs exactly when it has a period, with a rest that its count allows.\<close>

definition wf_timer :: "io_timer \<Rightarrow> bool" where
  "wf_timer t \<longleftrightarrow>
     tm_periodMs t \<le> 0xffff \<and> tm_count t \<le> 0xffff \<and>
     tm_handle t = (if tm_periodMs t = 0 then None else Some (max (tm_periodMs t) (tm_minPeriodMs t))) \<and>
     (if tm_count t = 0 then tm_remaining t = 0
      else tm_periodMs t \<noteq> 0 \<and> 0 < tm_remaining t \<and> tm_remaining t \<le> int (tm_count t))"

definition wf_notify :: "cpu_state_notify \<Rightarrow> bool" where
  "wf_notify i \<longleftrightarrow> 0 \<le> sn_addr i \<and> sn_addr i < 2 ^ 32 \<and> length (sn_r5to15 i) \<le> 11 \<and> length (sn_stack i) \<le> 16"

definition wf_break :: "break_notify_info \<Rightarrow> bool" where
  "wf_break i \<longleftrightarrow> 0 \<le> bn_addr i \<and> bn_addr i < 2 ^ 32 \<and> bn_kind i \<le> 2 \<and> unat (bn_slot i) < ADDR_BREAK_SLOT_COUNT \<and>
     unat (bn_historyCount i) \<le> BREAK_HISTORY_MAX_COUNT \<and> length (bn_historyEntries i) \<le> unat (bn_historyCount i)"

definition wf_io_board :: "nat \<Rightarrow> io_board_state \<Rightarrow> bool" where
  "wf_io_board maxLog s \<longleftrightarrow>
     bs_mode s \<in> {MODE_MONITOR, MODE_FREE} \<and> pred_option wf_led (bs_led s) \<and> length (bs_hexKeys s) = 8 \<and>
     pred_option (\<lambda>p. timerNo p = 0) (bs_lastTimer s) \<and> bs_addrBreakNo s < ADDR_BREAK_SLOT_COUNT \<and>
     pred_option wf_break (bs_lastBreakNotify s) \<and> pred_option wf_notify (bs_lastStepNotify s) \<and>
     pred_option wf_notify (bs_lastUndefNotify s) \<and> length (bs_timestamp s) = 8 \<and> length (bs_rtcRaw s) = 7 \<and>
     length (bs_log s) \<le> maxLog \<and> wf_lcd (bs_lcd s) \<and> wf_led (bs_ledLatch s) \<and> wf_timer (bs_timer s)"

subsection \<open>Devices\<close>

lemma printable: "0x20 \<le> normalizeAscii c \<and> normalizeAscii c \<le> 0x7e"
  by (simp add: normalizeAscii_def LCD_SPACE_def not_less word_le_def word_less_def)

lemma writeCodes_shape:
  "length (writeCodes row col cs ram) = length ram \<and>
   ((\<forall>c\<in>set ram. 0x20 \<le> c \<and> c \<le> 0x7e) \<longrightarrow> (\<forall>c\<in>set (writeCodes row col cs ram). 0x20 \<le> c \<and> c \<le> 0x7e))"
proof (induction row col cs ram rule: writeCodes.induct)
  case (2 row col c cs ram)
  then show ?case using printable set_update_subset_insert [of ram] by fastforce
qed simp

lemma lcd_shapes:
  "wf_lcd newLcd" "wf_lcd l \<Longrightarrow> wf_lcd (lcdReset l)" "wf_lcd l \<Longrightarrow> wf_lcd (lcdClear l)"
  "wf_lcd l \<Longrightarrow> wf_lcd (lcdHome l)" "wf_lcd l \<Longrightarrow> wf_lcd (setDisplayControl v l)"
  by (auto simp: wf_lcd_def newLcd_def lcdReset_def lcdClear_def lcdHome_def setDisplayControl_def lcd_defs)

lemma setCursor_shape: "wf_lcd l \<Longrightarrow> wf_lcd (snd (setCursor r c l))"
  by (auto simp: wf_lcd_def setCursor_def isValidRow_def isValidCol_def lcd_defs)

lemma writeText_shape: "wf_lcd l \<Longrightarrow> wf_lcd (snd (writeText r c t l))"
  using writeCodes_shape [of "nat r" "nat c" _ "ddram l"]
  by (auto simp: wf_lcd_def writeText_def isValidRow_def isValidCol_def lcd_defs Let_def)

lemma control_shape: "wf_lcd l \<Longrightarrow> wf_lcd (snd (handleControlFrame f l))"
  using setCursor_shape [of l "uint (f ! 4)" "uint (f ! 5)"]
  by (auto simp: handleControlFrame_def Let_def lcd_shapes split: prod.splits)

lemma text_shape:
  assumes "wf_lcd l" shows "wf_lcd (snd (handleTextFrame f l))"
proof -
  have "wf_lcd (l\<lparr>ddram := writeCodes r c cs (ddram l), cursorRow := r, cursorCol := min k (LCD_COLS - 1)\<rparr>)"
    if "isValidRow (int r)" for r c cs k
    using assms that writeCodes_shape [of r c cs "ddram l"]
    by (auto simp: wf_lcd_def isValidRow_def lcd_defs)
  then show ?thesis using assms by (simp add: handleTextFrame_def Let_def)
qed

lemma fixedBytes_size: "length (fixedBytes n bs) = n"
  by (simp add: fixedBytes_def)

lemma applied_led [simp]: "wf_led (applyLedDisplayCommand d)"
  by (simp add: wf_led_def applyLedDisplayCommand_def fixedBytes_size)

lemma stopped_timer [simp]: "wf_timer (timerStop t)"
  by (simp add: wf_timer_def timerStop_def)

lemma configured_timer: "wf_timer t \<Longrightarrow> wf_timer (snd (timerConfigure p n t))"
  by (auto simp: timerConfigure_def isUint16_def wf_timer_def timerArm_def timerStop_def split: if_splits)

lemma expired_timer: "wf_timer t \<Longrightarrow> timerRunning t \<Longrightarrow> wf_timer (timerExpire id t)"
  by (auto simp: timerExpire_def Let_def wf_timer_def timerArm_def timerStop_def timerRunning_def split: if_splits)

subsection \<open>Requests\<close>

lemma mod_range: "0 \<le> a mod (2 ^ 32) \<and> a mod (2 ^ 32) < (2 :: int) ^ 32"
  by simp

lemma normalized [simp]: "wf_notify (normalizeCpuStateNotify i)"
  by (simp add: wf_notify_def normalizeCpuStateNotify_def)

text \<open>What a request can do to a board of the right shape.\<close>

lemma parseCount_bound: "parseCount h n e \<le> h"
  by (simp add: parseCount_def)

lemma default_handlers [simp]:
  "onModeSet (createDefaultCpuToIoHandlers w ts) = defaultOnModeSet"
  "getHexKeys (createDefaultCpuToIoHandlers w ts) = defaultGetHexKeys"
  "getPcKey (createDefaultCpuToIoHandlers w ts) = (\<lambda>s. ((fst (bs_pcKey s), snd (bs_pcKey s), RESPONSE_OK), s))"
  "onLedDisplay (createDefaultCpuToIoHandlers w ts) = defaultOnLedDisplay"
  "onBeep (createDefaultCpuToIoHandlers w ts) = (\<lambda>p s. (RESPONSE_OK, s\<lparr>bs_lastBeep := Some p\<rparr>))"
  "onTimerSet (createDefaultCpuToIoHandlers w ts) = defaultOnTimerSet w"
  "snd (getTime (createDefaultCpuToIoHandlers w ts) s) = s"
  "onBreakNotify (createDefaultCpuToIoHandlers w ts) = defaultOnBreakNotify"
  "snd (onStepNotify (createDefaultCpuToIoHandlers w ts) i s) = s\<lparr>bs_lastStepNotify := Some (normalizeCpuStateNotify i)\<rparr>"
  "onUndefNotify (createDefaultCpuToIoHandlers w ts) = defaultOnUndefNotify"
  "snd (onLcdControl (createDefaultCpuToIoHandlers w ts) f s) = s\<lparr>bs_lcd := snd (handleControlFrame f (bs_lcd s))\<rparr>"
  "snd (onLcdText (createDefaultCpuToIoHandlers w ts) f s) = s\<lparr>bs_lcd := snd (handleTextFrame f (bs_lcd s))\<rparr>"
  "snd (getRtcRaw (createDefaultCpuToIoHandlers w ts) s) = s"
  "snd (getTempRaw (createDefaultCpuToIoHandlers w ts) s) = s"
  "snd (getLightRaw (createDefaultCpuToIoHandlers w ts) s) = s"
  "snd (getDistanceRaw (createDefaultCpuToIoHandlers w ts) s) = s"
  by (simp_all add: createDefaultCpuToIoHandlers_def split: prod.splits)

lemmas default_handler_defs = defaultOnModeSet_def defaultGetHexKeys_def
  defaultOnLedDisplay_def defaultOnTimerSet_def defaultOnBreakNotify_def defaultOnUndefNotify_def

lemma board_update_shapes:
  assumes "wf_io_board m s"
  shows "v \<in> {MODE_MONITOR, MODE_FREE} \<Longrightarrow> length k = 8 \<Longrightarrow> wf_io_board m (s\<lparr>bs_mode := v, bs_hexKeys := k\<rparr>)"
    and "length k = 8 \<Longrightarrow> wf_io_board m (s\<lparr>bs_hexKeys := k\<rparr>)"
    and "wf_led d \<Longrightarrow> wf_io_board m (s\<lparr>bs_led := Some d\<rparr>)"
    and "wf_led d \<Longrightarrow> wf_led e \<Longrightarrow> wf_io_board m (s\<lparr>bs_led := Some d, bs_ledLatch := e\<rparr>)"
    and "wf_io_board m (s\<lparr>bs_lastBeep := b\<rparr>)"
    and "timerNo p = 0 \<Longrightarrow> wf_io_board m (s\<lparr>bs_lastTimer := Some p\<rparr>)"
    and "wf_timer t \<Longrightarrow> wf_io_board m (s\<lparr>bs_timer := t\<rparr>)"
    and "wf_break i \<Longrightarrow> wf_io_board m (s\<lparr>bs_lastBreakNotify := Some i\<rparr>)"
    and "wf_notify j \<Longrightarrow> wf_io_board m (s\<lparr>bs_lastStepNotify := Some j\<rparr>)"
    and "wf_notify j \<Longrightarrow> wf_io_board m (s\<lparr>bs_lastUndefNotify := Some j, bs_undefLed := u, bs_undefLatch := w\<rparr>)"
    and "wf_lcd l \<Longrightarrow> wf_io_board m (s\<lparr>bs_lcd := l\<rparr>)"
    and "length k = 8 \<Longrightarrow> wf_io_board m (s\<lparr>bs_timestamp := k\<rparr>)"
    and "length lg \<le> m \<Longrightarrow> wf_io_board m (s\<lparr>bs_log := lg\<rparr>)"
    and "wf_io_board m (s\<lparr>bs_pcKey := pc\<rparr>)"
    and "a < ADDR_BREAK_SLOT_COUNT \<Longrightarrow> wf_io_board m (s\<lparr>bs_addrBreakNo := a\<rparr>)"
  using assms by (simp_all add: wf_io_board_def)

lemma wf_fields:
  assumes "wf_io_board m s"
  shows "length (bs_hexKeys s) = 8" "wf_lcd (bs_lcd s)" "wf_timer (bs_timer s)"
  using assms by (simp_all add: wf_io_board_def)

text \<open>The handlers of the commands.\<close>

lemma snd_respond1 [simp]: "snd (respond1 r) = snd r"
  by (simp add: respond1_def)

lemma mode_keeps:
  assumes "wf_io_board m s" "handlers d = createDefaultCpuToIoHandlers wired ts"
  shows "wf_io_board m (snd (handleModeSet d frame s))"
  using assms wf_fields(1) [OF assms(1)] unfolding handleModeSet_def
  by (auto simp: defaultOnModeSet_def wf_io_board_def)

lemma led_keeps:
  assumes "wf_io_board m s" "handlers d = createDefaultCpuToIoHandlers wired ts" "16 \<le> length frame"
  shows "wf_io_board m (snd (handleLedDisplay d frame s))"
  using assms unfolding handleLedDisplay_def
  by (auto simp: defaultOnLedDisplay_def bytesFromTo_def wf_led_def LED_SEVEN_SEG_COUNT_def applyLedDisplayCommand_def
      fixedBytes_size intro!: board_update_shapes(4))

lemma timer_keeps:
  assumes "wf_io_board m s" "handlers d = createDefaultCpuToIoHandlers wired ts"
  shows "wf_io_board m (snd (handleTimerSet d frame s))"
proof (cases "frame ! 1 = 0")
  case True
  let ?p = "\<lparr>timerNo = frame ! 1, tp_periodMs = frameWord frame 2, tp_count = frameWord frame 4\<rparr>"
  let ?s = "s\<lparr>bs_lastTimer := Some ?p\<rparr>"
  have shape: "wf_io_board m ?s" using True assms(1) by (intro board_update_shapes(6)) auto
  with configured_timer [OF wf_fields(3) [OF assms(1)], of "uint (frameWord frame 2)" "uint (frameWord frame 4)"]
  have "wf_io_board m (?s\<lparr>bs_timer := snd (timerConfigure (uint (frameWord frame 2)) (uint (frameWord frame 4)) (bs_timer s))\<rparr>)"
    using board_update_shapes(7) [OF shape] by blast
  with True shape assms(2) show ?thesis
    by (simp add: handleTimerSet_def defaultOnTimerSet_def Let_def case_prod_unfold)
qed (simp add: handleTimerSet_def assms(1))

lemma break_keeps:
  assumes "wf_io_board m s" "handlers d = createDefaultCpuToIoHandlers wired ts"
  shows "wf_io_board m (snd (handleBreakNotify d frame s))"
  using assms parseCount_bound unfolding handleBreakNotify_def Let_def
  by (auto simp: defaultOnBreakNotify_def wf_break_def not_le intro!: board_update_shapes(8))

lemma lcd_keeps:
  assumes "wf_io_board m s" "handlers d = createDefaultCpuToIoHandlers wired ts"
  shows "wf_io_board m (snd (handleLcdControl d frame s))" "wf_io_board m (snd (handleLcdText d frame s))"
  using assms control_shape text_shape wf_fields(2) [OF assms(1)]
  by (simp_all add: handleLcdControl_def handleLcdText_def board_update_shapes(11))

lemma rest_keeps:
  assumes "wf_io_board m s" "handlers d = createDefaultCpuToIoHandlers wired ts"
  shows "wf_io_board m (snd (handleHexKeyGet d s))" "wf_io_board m (snd (handlePcKeyGet d s))"
    "wf_io_board m (snd (handleBeep d frame s))" "wf_io_board m (snd (handleTimeGet d s))"
    "wf_io_board m (snd (handleStepNotify d frame s))" "wf_io_board m (snd (handleUndefNotify d frame s))"
    "wf_io_board m (snd (handleRtcGetRaw d s))" "wf_io_board m (snd (handleTempGetRaw d s))"
    "wf_io_board m (snd (handleLightGetRaw d s))" "wf_io_board m (snd (handleDistanceGetRaw d s))"
  using assms by (simp_all add: handleHexKeyGet_def handlePcKeyGet_def handleBeep_def handleTimeGet_def handleStepNotify_def
    handleUndefNotify_def handleRtcGetRaw_def handleTempGetRaw_def handleLightGetRaw_def handleDistanceGetRaw_def
    default_handler_defs board_update_shapes case_prod_unfold)

lemma dispatch_keeps:
  assumes "wf_io_board m s" "handlers d = createDefaultCpuToIoHandlers wired ts"
  shows "wf_io_board m (snd (dispatch d frame s))"
proof (cases "frame = [] \<or> length frame < cpuFrameSizeForCpu (hd frame) (dispatcherCpu d)")
  case True
  then show ?thesis using assms(1) by (auto simp: dispatch_def)
next
  case False
  then have "hd frame = LED_DISPLAY \<Longrightarrow> 16 \<le> length frame"
    by (simp add: cpuFrameSizeForCpu_def CPU_FRAME_SIZE_def cpu_command_defs not_less)
  with False assms show ?thesis
    unfolding dispatch_def Let_def if_not_P [OF False [unfolded de_Morgan_disj, THEN conjunct1]]
    by (auto simp: mode_keeps led_keeps timer_keeps break_keeps lcd_keeps rest_keeps)
qed

subsection \<open>Everything that happens to the board\<close>

lemma pushed:
  assumes "wf_io_board m s" shows "wf_io_board m (pushLog m e s)"
proof -
  have "length (drop (length l - m) l) \<le> m" for l :: "io_log_entry list" by simp
  then show ?thesis using board_update_shapes(13) [OF assms] by (simp add: pushLog_def Let_def)
qed

lemma served_keeps:
  assumes "handleOneRequest io m d remaining (c, s) = Some (r, c', t)" "wf_io_board m s"
    "handlers d = createDefaultCpuToIoHandlers wired ts"
  shows "wf_io_board m t"
proof (cases "receiveFramedAdaptive io remaining c")
  case (Some rc)
  obtain q c1 where rc: "rc = (q, c1)" by (cases rc)
  show ?thesis
  proof (cases q)
    case (Inr frame)
    obtain resp s1 where disp: "dispatch d frame s = (resp, s1)" by (cases "dispatch d frame s")
    with dispatch_keeps [OF assms(2,3), of frame] have "wf_io_board m s1" by simp
    with assms(1) Some rc Inr disp pushed show ?thesis
      by (auto simp: handleOneRequest_def Let_def split: if_splits prod.splits sum.splits)
  qed (use assms Some rc in \<open>auto simp: handleOneRequest_def\<close>)
qed (use assms in \<open>auto simp: handleOneRequest_def\<close>)

lemma key_keeps: "wf_io_board m s \<Longrightarrow> wf_io_board m (setPanelKeyHeld k h s)"
  by (auto simp: setPanelKeyHeld_def Let_def wf_fields split: option.splits intro: board_update_shapes(2))

lemma bigBytes_length [simp]: "length (bigBytes n v) = n"
  by (induction n arbitrary: v) auto

lemma reset_keeps: "wf_io_board m s \<Longrightarrow> wf_io_board m (resetIoBoardCommandState s)"
  by (auto simp: wf_io_board_def resetIoBoardCommandState_def createIoBoardCommandState_def lcd_shapes ADDR_BREAK_SLOT_COUNT_def)

text \<open>
  The partner of the CPU over any lines \<open>io\<close>, with a log of \<open>m\<close> entries: requests, also those whose
  reception or answer breaks down; commands to the CPU; keys and values set from outside; texts
  written to the LCD; the timer, and a reset of the state.
\<close>

inductive io_step :: "'c hshk_io \<Rightarrow> nat \<Rightarrow> io_board_state \<Rightarrow> io_board_state \<Rightarrow> bool" for io m where
  served: "handlers d = createDefaultCpuToIoHandlers wired ts \<Longrightarrow>
    handleOneRequest io m d remaining (c, s) = Some (r, c', t) \<Longrightarrow> io_step io m s t"
| sent: "sendToCpu io m data (c, s) = (r, c', t) \<Longrightarrow> io_step io m s t"
| exchanged: "exchangeWithCpu io m x n y (c, s) = (r, c', t) \<Longrightarrow> io_step io m s t"
| memory: "memReadFromCpu io m a n (c, s) = (r, c', t) \<Longrightarrow> io_step io m s t"
| key: "io_step io m s (setPanelKeyHeld k held s)"
| digit: "io_step io m s (setHexKeyHeld n held s)"
| keys: "io_step io m s (setHexKeys columns s)"
| pcKey: "io_step io m s (setPcKey ascii code s)"
| timestamp: "io_step io m s (setTimestamp v s)"
| breakNo: "io_step io m s (setAddrBreakNo n s)"
| led: "io_step io m s (clearLed s)"
| lcdText: "io_step io m s (s\<lparr>bs_lcd := snd (writeText row col t (bs_lcd s))\<rparr>)"
| expired: "timerRunning (bs_timer s) \<Longrightarrow> io_step io m s (s\<lparr>bs_timer := timerExpire id (bs_timer s)\<rparr>)"
| stopped: "io_step io m s (s\<lparr>bs_timer := timerStop (bs_timer s)\<rparr>)"
| resetState: "io_step io m s (resetIoBoardCommandState s)"

inductive io_reachable :: "'c hshk_io \<Rightarrow> nat \<Rightarrow> io_board_state \<Rightarrow> bool" for io m where
  start: "io_reachable io m (createIoBoardCommandState newLcd emptyLed False (newIoTimer 1))"
| advance: "io_reachable io m s \<Longrightarrow> io_step io m s t \<Longrightarrow> io_reachable io m t"

lemma io_step_keeps:
  assumes "io_step io m s t" "wf_io_board m s" shows "wf_io_board m t"
  using assms
proof cases
  case served
  show ?thesis by (rule served_keeps [OF served(2) assms(2) served(1)])
next
  case sent
  then show ?thesis using assms(2) by (auto simp: sendToCpu_def Let_def pushed split: prod.splits)
next
  case exchanged
  then show ?thesis using assms(2) by (auto simp: exchangeWithCpu_def Let_def pushed split: prod.splits sum.splits)
next
  case memory
  then show ?thesis using assms(2) by (auto simp: memReadFromCpu_def Let_def pushed split: prod.splits sum.splits)
next
  case digit
  then show ?thesis using assms(2) by (auto simp: setHexKeyHeld_def key_keeps)
next
  case keys
  then show ?thesis using assms(2) wf_fields(1) [OF assms(2)] by (auto simp: setHexKeys_def intro!: board_update_shapes(2))
next
  case timestamp
  then show ?thesis using assms(2) by (auto simp: setTimestamp_def fixedBytes_size split: sum.splits intro!: board_update_shapes(12))
next
  case breakNo
  then show ?thesis using assms(2) by (auto simp: setAddrBreakNo_def ADDR_BREAK_SLOT_COUNT_def intro!: board_update_shapes(15))
next
  case led
  then show ?thesis using assms(2) by (auto simp: clearLed_def emptyLed_def wf_led_def intro!: board_update_shapes(3))
qed (auto simp: assms(2) key_keeps setPcKey_def wf_fields [OF assms(2)] writeText_shape expired_timer reset_keeps board_update_shapes)

text \<open>C7. In every state that the control and IO board reaches, its latches, key columns, texts and notifications have their sizes, the log its bound, and the timer runs exactly when it has a period.\<close>

theorem board_state_typed: "io_reachable io m s \<Longrightarrow> wf_io_board m s"
proof (induction rule: io_reachable.induct)
  case start
  show ?case
    by (simp add: wf_io_board_def createIoBoardCommandState_def lcd_shapes wf_led_def emptyLed_def wf_timer_def newIoTimer_def
      ADDR_BREAK_SLOT_COUNT_def)
next
  case (advance s t)
  then show ?case using io_step_keeps by blast
qed

theorem board_state_typed_witness:
  "wf_io_board 64 (setHexKeyHeld 5 True (createIoBoardCommandState newLcd emptyLed False (newIoTimer 1)))"
  by (rule board_state_typed [OF io_reachable.advance [OF io_reachable.start io_step.digit]])

end
