(* ===== verification/Io_Debug.thy ===== *)
theory Io_Debug
  imports Hshk_Io
begin

text \<open>
  The frames of the debugger on the PC (\<^verbatim>\<open>ioboard/debug_addr_break.ts\<close>, \<^verbatim>\<open>debug_mem_read.ts\<close>,
  \<^verbatim>\<open>debug_mem_write.ts\<close>), and the treatment of a connection (\<^verbatim>\<open>debug_host.ts\<close>): the buffer of received
  bytes, the frames cut from it, and the answers.  The socket itself is left out; the relay to the
  CPU is a record of handlers over a state \<open>'b\<close> that can throw.
\<close>

subsection \<open>Frames\<close>

record addr_break_fields =
  ab_slot :: u8
  ab_flags :: u8
  ab_count :: u8
  ab_addr :: u32
  ab_data :: u16

definition joinU32 :: "u8 \<Rightarrow> u8 \<Rightarrow> u8 \<Rightarrow> u8 \<Rightarrow> u32" where
  "joinU32 b3 b2 b1 b0 = push_bit 24 (ucast b3) OR push_bit 16 (ucast b2) OR push_bit 8 (ucast b1) OR ucast b0"

definition encodeAddrBreakSetFrame :: "addr_break_fields \<Rightarrow> u8 list" where
  "encodeAddrBreakSetFrame f =
     [BREAK_MEM_IO_SET, ab_slot f, ab_flags f, ab_count f] @ u32be (ab_addr f)
     @ [ucast (drop_bit 8 (ab_data f)), ucast (ab_data f)]"

definition parseAddrBreakSetFrame :: "u8 list \<Rightarrow> addr_break_fields option" where
  "parseAddrBreakSetFrame frame =
     (if length frame < ADDR_BREAK_SET_FRAME_LEN then None
      else if hd frame \<noteq> BREAK_MEM_IO_SET then None
      else Some \<lparr>ab_slot = frame ! 1, ab_flags = frame ! 2, ab_count = frame ! 3,
        ab_addr = joinU32 (frame ! 4) (frame ! 5) (frame ! 6) (frame ! 7),
        ab_data = push_bit 8 (ucast (frame ! 8)) OR ucast (frame ! 9)\<rparr>)"


definition encodeAddrBreakClrFrame :: "u8 \<Rightarrow> u8 list" where
  "encodeAddrBreakClrFrame slot = [BREAK_MEM_IO_CLR, slot]"

definition parseAddrBreakClrSlot :: "u8 list \<Rightarrow> u8 option" where
  "parseAddrBreakClrSlot frame =
     (if length frame < ADDR_BREAK_CLR_FRAME_LEN then None
      else if hd frame \<noteq> BREAK_MEM_IO_CLR then None else Some (frame ! 1))"




definition encodeMemReadFrame :: "u32 \<Rightarrow> u32 \<Rightarrow> u8 list" where
  "encodeMemReadFrame byteAddr byteCount = [MEM_READ] @ u32be byteAddr @ u32be byteCount"

definition parseMemReadFrame :: "u8 list \<Rightarrow> (u32 \<times> u32) option" where
  "parseMemReadFrame frame =
     (if length frame < MEM_READ_REQ_FRAME_LEN then None
      else if hd frame \<noteq> MEM_READ then None
      else Some (joinU32 (frame ! 1) (frame ! 2) (frame ! 3) (frame ! 4),
                 joinU32 (frame ! 5) (frame ! 6) (frame ! 7) (frame ! 8)))"

definition encodeMemWriteFrame :: "u32 \<Rightarrow> u8 list \<Rightarrow> u8 list" where
  "encodeMemWriteFrame byteAddr data = [MEM_WRITE] @ u32be byteAddr @ u32be (of_nat (length data)) @ data"

definition parseMemWriteFrame :: "u8 list \<Rightarrow> (u32 \<times> u8 list) option" where
  "parseMemWriteFrame frame =
     (if length frame < MEM_WRITE_REQ_HEADER_LEN then None
      else if hd frame \<noteq> MEM_WRITE then None
      else let byteCount = unat (joinU32 (frame ! 5) (frame ! 6) (frame ! 7) (frame ! 8))
        in if DEBUG_MEM_MAX_BYTES < byteCount then None
           else if length frame < MEM_WRITE_REQ_HEADER_LEN + byteCount then None
           else Some (joinU32 (frame ! 1) (frame ! 2) (frame ! 3) (frame ! 4),
                      take byteCount (drop MEM_WRITE_REQ_HEADER_LEN frame)))"

subsection \<open>Commands\<close>






subsection \<open>A connection\<close>





subsection \<open>Properties\<close>

lemma joinU32_u32be:
  "joinU32 (ucast (drop_bit 24 v)) (ucast (drop_bit 16 v)) (ucast (drop_bit 8 v)) (ucast v) = (v :: u32)"
proof (rule bit_word_eqI)
  fix n assume "n < LENGTH(32)"
  then consider "n < 8" | "8 \<le> n" "n < 16" | "16 \<le> n" "n < 24" | "24 \<le> n" "n < 32" by fastforce
  then show "bit (joinU32 (ucast (drop_bit 24 v)) (ucast (drop_bit 16 v)) (ucast (drop_bit 8 v)) (ucast v)) n = bit v n"
    by cases (auto simp: joinU32_def bit_simps)
qed

lemma join16: "push_bit 8 (ucast (ucast (drop_bit 8 v) :: u8)) OR ucast (ucast v :: u8) = (v :: u16)"
  by (rule bit_word_eqI) (auto simp: bit_simps)

text \<open>C34. The commands of the debugger survive the way through their frames.\<close>

theorem debug_frames_roundtrip:
  assumes "length data \<le> DEBUG_MEM_MAX_BYTES"
  shows "parseAddrBreakSetFrame (encodeAddrBreakSetFrame f) = Some f \<and>
    parseAddrBreakClrSlot (encodeAddrBreakClrFrame slot) = Some slot \<and>
    parseMemReadFrame (encodeMemReadFrame a n) = Some (a, n) \<and>
    parseMemWriteFrame (encodeMemWriteFrame a data) = Some (a, data)"
proof -
  have len: "unat (of_nat (length data) :: u32) = length data"
    using assms by (simp add: DEBUG_MEM_MAX_BYTES_def unat_of_nat)
  have lens: "ADDR_BREAK_SET_FRAME_LEN = 10" "ADDR_BREAK_CLR_FRAME_LEN = 2" "MEM_READ_REQ_FRAME_LEN = 9" "MEM_WRITE_REQ_HEADER_LEN = 9"
    by (simp_all add: ADDR_BREAK_SET_FRAME_LEN_def ADDR_BREAK_SET_PAYLOAD_LEN_def ADDR_BREAK_CLR_FRAME_LEN_def
      MEM_READ_REQ_FRAME_LEN_def MEM_WRITE_REQ_HEADER_LEN_def)
  have "parseAddrBreakSetFrame (encodeAddrBreakSetFrame f) = Some f"
    by (cases f) (simp add: parseAddrBreakSetFrame_def encodeAddrBreakSetFrame_def u32be_def lens joinU32_u32be join16)
  moreover have "parseAddrBreakClrSlot (encodeAddrBreakClrFrame slot) = Some slot"
    by (simp add: parseAddrBreakClrSlot_def encodeAddrBreakClrFrame_def lens)
  moreover have "parseMemReadFrame (encodeMemReadFrame a n) = Some (a, n)"
    by (simp add: parseMemReadFrame_def encodeMemReadFrame_def u32be_def lens joinU32_u32be)
  moreover have "parseMemWriteFrame (encodeMemWriteFrame a data) = Some (a, data)"
    using assms len by (simp add: parseMemWriteFrame_def encodeMemWriteFrame_def u32be_def lens joinU32_u32be Let_def)
  ultimately show ?thesis by blast
qed

theorem debug_frames_roundtrip_witness:
  "parseMemWriteFrame (encodeMemWriteFrame 0x12345678 [1, 2, 3]) = Some (0x12345678, [1, 2, 3])"
  using debug_frames_roundtrip [where data = "[1, 2, 3]" and a = "0x12345678"] by (simp add: DEBUG_MEM_MAX_BYTES_def)






end
