(* ===== verification/Hex_Load.thy ===== *)
theory Hex_Load
  imports Link_Props
begin

text \<open>
  Intel HEX as the emulator loads it, \<^verbatim>\<open>retrocpu_emu_ts/src/code_test/intel_hex.ts\<close>: with checksums, an
  obligatory end, and segment bases.  A pair that \<^verbatim>\<open>parseInt\<close> does not read is not a number, \<open>None\<close>
  here; it becomes 0 in every operation on bits.  What comes out of the link step is loaded
  byte for byte.
\<close>

subsection \<open>Records\<close>

datatype hex_error =
    MissingColon nat
  | BadLength nat
  | ChecksumError nat
  | BadType2 nat
  | BadType4 nat
  | MissingEof
  | AddressOutOfRange nat

text \<open>\<^verbatim>\<open>parseInt(\<dots>, 16)\<close> of two characters.\<close>

definition hexPair :: "char \<Rightarrow> char \<Rightarrow> int option" where
  "hexPair a b =
     (if isJsSpace a then (if isHex b then Some (charDigit b) else None)
      else if a = CHR ''+'' then (if isHex b then Some (charDigit b) else None)
      else if a = CHR ''-'' then (if isHex b then Some (- charDigit b) else None)
      else if isHex a then
        (if isHex b then Some (16 * charDigit a + charDigit b)
         else if a = CHR ''0'' \<and> (b = CHR ''x'' \<or> b = CHR ''X'') then None
         else Some (charDigit a))
      else None)"

fun hexPairs :: "string \<Rightarrow> int option list" where
  "hexPairs (a # b # cs) = hexPair a b # hexPairs cs"
| "hexPairs cs = []"

definition bitsOf :: "int option \<Rightarrow> 'w::len word" where
  "bitsOf v = (case v of None \<Rightarrow> 0 | Some n \<Rightarrow> word_of_int n)"

text \<open>A sum that is not a number becomes 0.\<close>

definition addMasked :: "int option \<Rightarrow> int \<Rightarrow> int" where
  "addMasked b acc = (case b of None \<Rightarrow> 0 | Some v \<Rightarrow> (acc + v) mod 256)"

definition checksumOk :: "int option list \<Rightarrow> bool" where
  "checksumOk bs \<longleftrightarrow> fold addMasked bs 0 = 0"

text \<open>\<^verbatim>\<open>slice(4, 4 + count)\<close>; a negative end counts from the end of the list.\<close>

definition recordData :: "int option list \<Rightarrow> int option list" where
  "recordData bs =
     (let count = (case hd bs of None \<Rightarrow> -4 | Some n \<Rightarrow> n);
          stop = (if 4 + count < 0 then int (length bs) + (4 + count) else 4 + count)
      in drop 4 (take (nat stop) bs))"

text \<open>The lines from a number on; \<open>f\<close> is what is done with the data of a record and can throw.\<close>

fun walkLines ::
  "(nat \<Rightarrow> int option list \<Rightarrow> 's \<Rightarrow> hex_error + 's) \<Rightarrow> nat \<Rightarrow> u32 \<Rightarrow> string list \<Rightarrow> 's \<Rightarrow> hex_error + 's" where
  "walkLines f n base [] s = Inl MissingEof"
| "walkLines f n base (l # ls) s =
     (let raw = trim l; hex = tl raw; bs = hexPairs hex;
          addr = push_bit 8 (bitsOf (bs ! 1)) OR bitsOf (bs ! 2) :: u32;
          data = recordData bs;
          high = push_bit 8 (bitsOf (data ! 0)) OR bitsOf (data ! 1) :: u32
      in if raw = [] then walkLines f (n + 1) base ls s
         else if hd raw \<noteq> CHR '':'' then Inl (MissingColon n)
         else if length hex < 10 \<or> odd (length hex) then Inl (BadLength n)
         else if \<not> checksumOk bs then Inl (ChecksumError n)
         else if bs ! 3 = Some 0 then
           (case f (unat (base + addr)) data s of Inl e \<Rightarrow> Inl e | Inr t \<Rightarrow> walkLines f (n + 1) base ls t)
         else if bs ! 3 = Some 1 then Inr s
         else if bs ! 3 = Some 2 then
           (if length data \<noteq> 2 then Inl (BadType2 n) else walkLines f (n + 1) (push_bit 4 high) ls s)
         else if bs ! 3 = Some 4 then
           (if length data \<noteq> 2 then Inl (BadType4 n) else walkLines f (n + 1) (push_bit 16 high) ls s)
         else walkLines f (n + 1) base ls s)"

definition walkIntelHexData ::
  "string \<Rightarrow> (nat \<Rightarrow> int option list \<Rightarrow> 's \<Rightarrow> hex_error + 's) \<Rightarrow> 's \<Rightarrow> hex_error + 's" where
  "walkIntelHexData hexText f s = walkLines f 1 0 (splitLines (unixLines hexText)) s"

subsection \<open>Into memory\<close>

text \<open>The buffer, the bytes written, and the lowest and highest address.\<close>

record hex_load =
  hl_mem :: "u8 list"
  hl_bytesWritten :: nat
  hl_minAddr :: "nat option"
  hl_maxAddr :: "nat option"

fun loadBytes :: "nat \<Rightarrow> int option list \<Rightarrow> hex_load \<Rightarrow> hex_error + hex_load" where
  "loadBytes a [] s = Inr s"
| "loadBytes a (b # bs) s =
     (if length (hl_mem s) \<le> a then Inl (AddressOutOfRange a)
      else loadBytes (a + 1) bs
        \<lparr>hl_mem = (hl_mem s)[a := bitsOf b], hl_bytesWritten = hl_bytesWritten s + 1,
         hl_minAddr = Some (case hl_minAddr s of None \<Rightarrow> a | Some m \<Rightarrow> min m a),
         hl_maxAddr = Some (case hl_maxAddr s of None \<Rightarrow> a | Some m \<Rightarrow> max m a)\<rparr>)"

text \<open>Without data the lowest address is 0 and the highest -1.\<close>

definition loadIntelHex :: "string \<Rightarrow> u8 list \<Rightarrow> hex_error + (u8 list \<times> nat \<times> int \<times> int)" where
  "loadIntelHex hexText buf =
     map_sum id (\<lambda>s. (hl_mem s, hl_bytesWritten s,
         (case hl_minAddr s of None \<Rightarrow> 0 | Some m \<Rightarrow> int m), (case hl_maxAddr s of None \<Rightarrow> -1 | Some m \<Rightarrow> int m)))
       (walkIntelHexData hexText loadBytes \<lparr>hl_mem = buf, hl_bytesWritten = 0, hl_minAddr = None, hl_maxAddr = None\<rparr>)"

subsection \<open>Chunks for the DMA\<close>

type_synonym dma_chunk = "nat \<times> u8 list"

definition addChunk :: "nat \<Rightarrow> int option list \<Rightarrow> dma_chunk list \<Rightarrow> hex_error + dma_chunk list" where
  "addChunk a data raw =
     Inr (if data = [] then raw
          else if raw \<noteq> [] \<and> fst (last raw) + length (snd (last raw)) = a then
            butlast raw @ [(fst (last raw), snd (last raw) @ map bitsOf data)]
          else raw @ [(a, map bitsOf data)])"

record dma_plan =
  dp_chunks :: "dma_chunk list"
  dp_bytesWritten :: nat
  dp_minAddr :: int
  dp_maxAddr :: int

definition intelHexToDmaPlan :: "string \<Rightarrow> hex_error + dma_plan" where
  "intelHexToDmaPlan hexText =
     map_sum id (\<lambda>chunks.
       \<lparr>dp_chunks = chunks, dp_bytesWritten = sum_list (map (length \<circ> snd) chunks),
        dp_minAddr = (if chunks = [] then 0 else int (Min (set (map fst chunks)))),
        dp_maxAddr = (if chunks = [] then -1 else Max (set (map (\<lambda>c. int (fst c + length (snd c)) - 1) chunks)))\<rparr>)
       (walkIntelHexData hexText addChunk [])"

subsection \<open>Written for tests\<close>

fun hexTestLines :: "nat \<Rightarrow> nat \<Rightarrow> u8 list \<Rightarrow> string list" where
  "hexTestLines 0 addr payload = []"
| "hexTestLines (Suc n) addr payload =
     (if payload = [] then []
      else let chunk = take 16 payload;
               rec = [of_nat (length chunk), of_nat (addr div 256), of_nat addr, 0] @ chunk
           in ('':'' @ concat (map (\<lambda>b. padStart0 2 (toUpperCase (toString16 (unat b)))) (rec @ [- sum_list rec :: u8])))
              # hexTestLines n (addr + length chunk) (drop 16 payload))"

definition wordsToIntelHex :: "u16 \<Rightarrow> u16 list \<Rightarrow> string" where
  "wordsToIntelHex wordAddr ws =
     (let payload = concat (map (\<lambda>w. [ucast (drop_bit 8 w), ucast w]) ws)
      in joinLines (hexTestLines (length payload) (unat wordAddr * 2) payload @ ['':00000001FF'']) @ [char_of (10 :: nat)])"

definition testBytesToIntelHex :: "u16 \<Rightarrow> u16 list \<Rightarrow> string" where
  "testBytesToIntelHex addr ws = wordsToIntelHex (drop_bit 1 addr) ws"

subsection \<open>From the assembler to memory\<close>

lemma hexPair_byte:
  assumes "b < 256"
  shows "hexPairs (byteText b @ s) = Some (int b) # hexPairs s"
proof -
  have d: "b div 16 < 16" "b mod 16 < 16" using assms by auto
  note hi = hexUpper_facts [OF d(1)] and lo = hexUpper_facts [OF d(2)]
  have "\<forall>e<16. charDigit (hexUpper e) = int e \<and> hexUpper e \<noteq> CHR ''+'' \<and> hexUpper e \<noteq> CHR ''-''"
    unfolding all_less_16 by (simp add: hexUpper_def hexDigit_def upperChar_def charDigit_def Let_def)
  then have digit: "charDigit (hexUpper e) = int e \<and> hexUpper e \<noteq> CHR ''+'' \<and> hexUpper e \<noteq> CHR ''-''" if "e < 16" for e
    using that by blast
  have "16 * int (b div 16) + int (b mod 16) = int b" by presburger
  with hi lo digit d show ?thesis
    by (simp add: byteText_two assms hexPair_def)
qed

lemma hexPairs_record: "\<forall>b\<in>set bs. b < 256 \<Longrightarrow> hexPairs (concat (map byteText bs)) = map (Some \<circ> int) bs"
  by (induction bs) (simp_all add: hexPair_byte)

lemma checksum_fold: "fold addMasked (map (Some \<circ> int) bs) acc mod 256 = (acc + int (sum_list bs)) mod 256"
proof (induction bs arbitrary: acc)
  case (Cons b bs)
  show ?case using Cons.IH [of "(acc + int b) mod 256"] by (simp add: addMasked_def mod_simps add.assoc)
qed simp

lemma checksum_masked: "bs \<noteq> [] \<Longrightarrow> 0 \<le> fold addMasked (map (Some \<circ> int) bs) acc \<and> fold addMasked (map (Some \<circ> int) bs) acc < 256"
  by (induction bs arbitrary: acc) (auto simp: addMasked_def neq_Nil_conv, (case_tac bs; simp)+)

lemma recordBytes_sum: "sum_list (recordBytes start bs) mod 256 = 0"
proof -
  have "(m + (256 - m mod 256) mod 256) mod 256 = 0" for m :: nat
  proof -
    have fill: "m = 256 * q + r \<Longrightarrow> r < 256 \<Longrightarrow> m + (256 - r) = 256 * (q + 1)" for q r by simp
    have "m + (256 - m mod 256) = 256 * (m div 256 + 1)" by (rule fill) simp_all
    then have "(m + (256 - m mod 256)) mod 256 = 0" by simp
    then show ?thesis by (simp only: mod_add_right_eq)
  qed
  then have "sum_list (r @ [hexChecksum r]) mod 256 = 0" for r
    by (simp add: hexChecksum_def)
  then show ?thesis by (simp only: recordBytes_def Let_def)
qed

lemma record_checksum: "checksumOk (map (Some \<circ> int) (recordBytes start bs))"
proof -
  let ?v = "fold addMasked (map (Some \<circ> int) (recordBytes start bs)) 0"
  have "int (sum_list (recordBytes start bs)) mod 256 = int (sum_list (recordBytes start bs) mod 256)" by (simp add: zmod_int)
  then have "?v mod 256 = 0"
    using checksum_fold [of "recordBytes start bs" 0] recordBytes_sum [of start bs] by simp
  moreover have "recordBytes start bs \<noteq> []" by (simp add: recordBytes_def Let_def)
  ultimately show ?thesis
    using checksum_masked [of "recordBytes start bs" 0] mod_pos_pos_trivial [of ?v 256] unfolding checksumOk_def by simp
qed

lemma byteText_length: "\<forall>b\<in>set bs. b < 256 \<Longrightarrow> length (concat (map byteText bs)) = 2 * length bs"
  by (induction bs) (simp_all add: byteText_two)

lemma address_word: "start < 65536 \<Longrightarrow>
  unat (push_bit 8 (of_nat (start div 256 mod 256)) OR of_nat (start mod 256) :: u32) = start"
proof -
  assume "start < 65536"
  then have d: "start div 256 mod 256 = start div 256" by auto
  have "(push_bit 8 (of_nat (start div 256)) OR of_nat (start mod 256) :: u32) = of_nat (push_bit 8 (start div 256) OR start mod 256)"
    by (simp add: of_nat_or_eq push_bit_of_nat)
  also have "push_bit 8 (start div 256) OR start mod 256 = start"
  proof -
    have "start div 256 = drop_bit 8 start" "start mod 256 = take_bit 8 start"
      by (simp_all add: drop_bit_eq_div take_bit_eq_mod)
    then show ?thesis by (simp only:) (rule bit_eqI, auto simp: bit_simps)
  qed
  finally show ?thesis using d \<open>start < 65536\<close> by (simp add: unat_of_nat)
qed

lemma drop_four: "drop 4 (take (4 + n) (a # b # c # d # xs)) = take n xs"
  by (simp add: numeral_eq_Suc)

lemma walk_record:
  assumes "\<forall>b\<in>set bs. b < 256" "length bs \<le> 16" "start < 65536"
  shows "walkLines f n 0 (recordText start bs # ls) s =
    (case f start (map (Some \<circ> int) bs) s of Inl e \<Rightarrow> Inl e | Inr t \<Rightarrow> walkLines f (n + 1) 0 ls t)"
proof -
  let ?r = "recordBytes start bs"
  have small: "\<forall>b\<in>set ?r. b < 256" by (rule recordBytes_small [OF assms(1,2)])
  have t: "trim (recordText start bs) = recordText start bs"
    by (rule trim_noSpace [OF _ recordText_solid [OF assms(1,2)]]) (simp add: recordText_def)
  have p: "hexPairs (tl (recordText start bs)) = map (Some \<circ> int) ?r"
    using hexPairs_record [OF small] by (simp add: recordText_def)
  have len: "length ?r = length bs + 5" by (simp add: recordBytes_def Let_def)
  then have l: "length (tl (recordText start bs)) = 2 * length bs + 10"
    using byteText_length [OF small] by (simp add: recordText_def)
  have at: "map (Some \<circ> int) ?r ! 1 = Some (int (start div 256 mod 256))" "map (Some \<circ> int) ?r ! 2 = Some (int (start mod 256))"
    "map (Some \<circ> int) ?r ! 3 = Some 0"
    by (simp_all add: recordBytes_def Let_def)
  have d: "recordData (map (Some \<circ> int) ?r) = map (Some \<circ> int) bs"
    by (simp add: recordData_def recordBytes_def Let_def nat_add_distrib drop_four)
  have a: "unat (0 + (push_bit 8 (bitsOf (Some (int (start div 256 mod 256)))) OR bitsOf (Some (int (start mod 256)))) :: u32) = start"
    using address_word [OF assms(3)] by (simp add: bitsOf_def)
  have c: "recordText start bs \<noteq> []" "hd (recordText start bs) = CHR '':''" by (simp_all add: recordText_def)
  show ?thesis
    unfolding walkLines.simps Let_def t p l at d a
    using c record_checksum [of start bs] by simp
qed

lemma loadBytes_some:
  assumes "a + length bs \<le> length (hl_mem s)"
  shows "\<exists>t. loadBytes a (map (Some \<circ> int) bs) s = Inr t \<and> length (hl_mem t) = length (hl_mem s) \<and>
    (\<forall>x < length (hl_mem s). hl_mem t ! x = (if a \<le> x \<and> x < a + length bs then of_nat (bs ! (x - a)) else hl_mem s ! x))"
  using assms
proof (induction bs arbitrary: a s)
  case (Cons b bs)
  let ?s = "\<lparr>hl_mem = (hl_mem s)[a := of_nat b], hl_bytesWritten = hl_bytesWritten s + 1,
         hl_minAddr = Some (case hl_minAddr s of None \<Rightarrow> a | Some m \<Rightarrow> min m a),
         hl_maxAddr = Some (case hl_maxAddr s of None \<Rightarrow> a | Some m \<Rightarrow> max m a)\<rparr>"
  have "(a + 1) + length bs \<le> length (hl_mem ?s)" using Cons.prems by simp
  from Cons.prems have "a < length (hl_mem s)" by simp
  from Cons.IH [OF \<open>(a + 1) + length bs \<le> length (hl_mem ?s)\<close>] obtain t where
    t0: "loadBytes (a + 1) (map (Some \<circ> int) bs) ?s = Inr t" "length (hl_mem t) = length (hl_mem ?s)"
      "\<forall>x < length (hl_mem ?s). hl_mem t ! x = (if a + 1 \<le> x \<and> x < a + 1 + length bs then of_nat (bs ! (x - (a + 1))) else hl_mem ?s ! x)"
    by blast
  then have t: "loadBytes a (map (Some \<circ> int) (b # bs)) s = Inr t"
    "length (hl_mem t) = length (hl_mem s)"
    "\<forall>x < length (hl_mem s). hl_mem t ! x = (if a + 1 \<le> x \<and> x < a + 1 + length bs then of_nat (bs ! (x - (a + 1))) else (hl_mem s)[a := of_nat b] ! x)"
    using \<open>a < length (hl_mem s)\<close> by (simp_all add: bitsOf_def)
  have "hl_mem t ! x = (if a \<le> x \<and> x < a + length (b # bs) then of_nat ((b # bs) ! (x - a)) else hl_mem s ! x)"
    if x: "x < length (hl_mem s)" for x
  proof (cases "x = a")
    case False
    then have "x - a = Suc (x - Suc a)" if "a \<le> x" using that by simp
    with False show ?thesis using t(3) [rule_format, OF x] x by auto
  qed (use t(3) [rule_format, OF x] x in simp)
  with t show ?case by blast
qed auto

lemma walk_end: "walkLines f n base ('':00000001FF'' # ls) s = Inr s"
proof -
  have line: "trim '':00000001FF'' = '':00000001FF''" "tl '':00000001FF'' = ''00000001FF''"
    "'':00000001FF'' = [] \<longleftrightarrow> False" "hd '':00000001FF'' \<noteq> CHR '':'' \<longleftrightarrow> False"
    "length ''00000001FF'' < 10 \<or> odd (length ''00000001FF'') \<longleftrightarrow> False"
    by code_simp+
  have bytes: "checksumOk (hexPairs ''00000001FF'')" "hexPairs ''00000001FF'' ! 3 = Some 1" by code_simp+
  have other: "Some 1 = Some (0 :: int) \<longleftrightarrow> False" by simp
  show ?thesis
    unfolding walkLines.simps Let_def line bytes(2) other using bytes(1) by simp
qed

lemma loadBytes_groups:
  assumes "\<forall>g\<in>set gs. goodGroup g \<and> (\<forall>a\<in>set g. a < 65536 \<and> a < length (hl_mem s) \<and> f a < 256)"
  shows "\<exists>t. walkLines loadBytes n 0 (map (\<lambda>g. recordText (hd g) (map f g)) gs @ ['':00000001FF'', []]) s = Inr t \<and>
    length (hl_mem t) = length (hl_mem s) \<and>
    (\<forall>x < length (hl_mem s). hl_mem t ! x = (if x \<in> set (concat gs) then of_nat (f x) else hl_mem s ! x))"
  using assms
proof (induction gs arbitrary: n s)
  case Nil
  have "walkLines loadBytes n 0 ['':00000001FF'', []] s = Inr s"
    by (rule walk_end)
  then show ?case by simp
next
  case (Cons g gs)
  have g: "g \<noteq> []" "length g \<le> 16" "g = [hd g ..< hd g + length g]" "\<forall>b\<in>set (map f g). b < 256"
    using Cons.prems by (auto simp: goodGroup_def)
  have mem: "x \<in> set g \<longleftrightarrow> hd g \<le> x \<and> x < hd g + length g" for x
    by (subst g(3)) auto
  have h: "hd g < 65536" using Cons.prems g(1) by (cases g) auto
  have "hd g + length g - 1 \<in> set g" using g(1) by (simp add: mem) (cases g; simp)
  then have fits: "hd g + length (map f g) \<le> length (hl_mem s)" using Cons.prems g(1) by auto
  from loadBytes_some [OF fits] obtain u where u: "loadBytes (hd g) (map (Some \<circ> int) (map f g)) s = Inr u"
    "length (hl_mem u) = length (hl_mem s)"
    "\<forall>x < length (hl_mem s). hl_mem u ! x = (if hd g \<le> x \<and> x < hd g + length (map f g) then of_nat (map f g ! (x - hd g)) else hl_mem s ! x)"
    by blast
  from Cons.IH [of u "n + 1"] Cons.prems u(2) obtain t where
    t: "walkLines loadBytes (n + 1) 0 (map (\<lambda>g. recordText (hd g) (map f g)) gs @ ['':00000001FF'', []]) u = Inr t"
      "length (hl_mem t) = length (hl_mem u)"
      "\<forall>x < length (hl_mem u). hl_mem t ! x = (if x \<in> set (concat gs) then of_nat (f x) else hl_mem u ! x)" by auto
  have "g ! (x - hd g) = x" if "hd g \<le> x" "x < hd g + length g" for x
    by (subst g(3)) (use that in simp)
  then have now: "hl_mem u ! x = (if x \<in> set g then of_nat (f x) else hl_mem s ! x)" if "x < length (hl_mem s)" for x
    using u(3) that by (auto simp: mem)
  have w: "walkLines loadBytes n 0 (map (\<lambda>g. recordText (hd g) (map f g)) (g # gs) @ ['':00000001FF'', []]) s = Inr t"
    using walk_record [OF g(4) _ h, of loadBytes n] g(2) u(1) t(1) by simp
  show ?case
    using w t(2,3) u(2) now by (intro exI [of _ t]) auto
qed

text \<open>C6. The file that the assembler's link step writes puts every byte of the program into the memory of the emulator.\<close>

theorem program_reaches_memory:
  assumes "byteImage im" "\<forall>a\<in>set (map fst im). a < length buf"
  shows "\<exists>t m n lo hi. bytesToIntelHex im = Some t \<and> loadIntelHex t buf = Inr (m, n, lo, hi) \<and> length m = length buf \<and>
    (\<forall>a < length buf. m ! a = (case map_of im a of Some (Some v) \<Rightarrow> of_nat v | _ \<Rightarrow> buf ! a))"
proof -
  let ?gs = "hexGroups (sort (map fst im))"
  let ?ls = "map (imageLine im) ?gs @ ['':00000001FF'', []]"
  let ?s = "\<lparr>hl_mem = buf, hl_bytesWritten = 0, hl_minAddr = None, hl_maxAddr = None\<rparr>"
  have all: "set (concat ?gs) = set (map fst im)" by (simp only: concat_hexGroups set_sort)
  have good: "\<forall>g\<in>set ?gs. goodGroup g \<and> (\<forall>a\<in>set g. a < 65536 \<and> a < length (hl_mem ?s) \<and> byteIn im a < 256)"
  proof (intro ballI conjI)
    fix g a assume "g \<in> set ?gs" "a \<in> set g"
    then have "a \<in> set (map fst im)" unfolding all [symmetric] by auto
    with assms(2) have "a < length buf" by blast
    then show "a < length (hl_mem ?s)" by simp
  qed (use hexGroups_good group_at [OF assms(1)] in blast)+
  have walk: "walkIntelHexData (joinLines ?ls) loadBytes ?s = walkLines loadBytes 1 0 ?ls ?s"
    using lines_text [OF hex_text(2) [OF assms(1)]] by (simp add: walkIntelHexData_def)
  obtain t where t: "walkLines loadBytes 1 0 ?ls ?s = Inr t" "length (hl_mem t) = length buf"
    "\<forall>x < length buf. hl_mem t ! x = (if x \<in> set (concat ?gs) then of_nat (byteIn im x) else buf ! x)"
    using loadBytes_groups [OF good, of 1] by (auto simp: imageLine_def [abs_def])
  have byte: "hl_mem t ! a = (case map_of im a of Some (Some v) \<Rightarrow> of_nat v | _ \<Rightarrow> buf ! a)" if a: "a < length buf" for a
  proof (cases "a \<in> set (map fst im)")
    case True
    with byteImage_at [OF assms(1) True] t(3) a show ?thesis unfolding all by simp
  next
    case False
    then have "map_of im a = None" by (simp add: map_of_eq_None_iff)
    with False t(3) a show ?thesis unfolding all by simp
  qed
  show ?thesis
    using hex_text(1) [OF assms(1)] t(1,2) byte
    by (simp add: loadIntelHex_def walk)
qed

theorem program_reaches_memory_witness:
  "\<exists>t m n lo hi. bytesToIntelHex [(3, Some 7), (2, Some 255)] = Some t \<and> loadIntelHex t (replicate 5 1) = Inr (m, n, lo, hi) \<and>
    m ! 2 = 255 \<and> m ! 3 = 7 \<and> m ! 4 = 1"
proof -
  have "byteImage [(3, Some 7), (2, Some 255)]" by (simp add: byteImage_def)
  from program_reaches_memory [OF this, of "replicate 5 1"] obtain t m n lo hi where
    r: "bytesToIntelHex [(3, Some 7), (2, Some 255)] = Some t" "loadIntelHex t (replicate 5 1) = Inr (m, n, lo, hi)"
    "\<forall>a < 5. m ! a = (case map_of [(3, Some 7), (2, Some 255)] a of Some (Some v) \<Rightarrow> of_nat v | _ \<Rightarrow> replicate 5 1 ! a)" by auto
  from r(3) have "m ! 2 = 255" "m ! 3 = 7" "m ! 4 = 1" by simp_all
  with r show ?thesis by blast
qed

end
