(* ===== verification/Cpu_Dma.thy ===== *)
theory Cpu_Dma
  imports Run_Props Tms_Run
begin

text \<open>
  Writing the memory of the CPU board from outside, \<^verbatim>\<open>cpuboard/cpu_dma.ts\<close>: the CPU is held with
  HLT, its memory is written, HLT is released.  The code reaches the processor through
  \<^verbatim>\<open>getCpuCore\<close>, here a record of the operations that it uses, with the two processors as instances.
\<close>

subsection \<open>The processor\<close>

record 's dma_core =
  coreIsTms :: bool
  coreHLT :: "'s \<Rightarrow> bool"
  coreRST :: "'s \<Rightarrow> bool"
  coreRUN :: "'s \<Rightarrow> bool"
  coreStatus :: "'s \<Rightarrow> exec_status"
  coreSetHLT :: "bool \<Rightarrow> 's \<Rightarrow> 's"
  coreLength :: "'s \<Rightarrow> nat"
  corePutByte :: "nat \<Rightarrow> u8 \<Rightarrow> 's \<Rightarrow> 's"
  corePutWord :: "nat \<Rightarrow> u16 \<Rightarrow> 's \<Rightarrow> 's"

definition noPins :: cpu_pins_in where
  "noPins = \<lparr>inRST = None, inHLT = None, inIRQ0 = None, inIRQ1 = None, inIRQ2 = None, inBSAV = None, inSTRT = None\<rparr>"

text \<open>Setting pins of the MN1613 never fails (\<open>setPins_completes\<close>).\<close>

definition mnCore :: "board dma_core" where
  "mnCore =
     \<lparr>coreIsTms = False,
      coreHLT = (\<lambda>s. cur (pinHLT s)), coreRST = (\<lambda>s. cur (pinRST s)), coreRUN = (\<lambda>s. execStatus s = Running),
      coreStatus = execStatus,
      coreSetHLT = (\<lambda>v s. snd (run_state (setPins (noPins\<lparr>inHLT := Some v\<rparr>)) s)),
      coreLength = (\<lambda>s. byteLength (mem s)),
      corePutByte = (\<lambda>a v. mem_update (\<lambda>m. m\<lparr>bytes := (bytes m)(a := v)\<rparr>)),
      corePutWord = (\<lambda>a v. mem_update (setUint16 a v))\<rparr>"

definition noTmsPins :: tms_pins where
  "noTmsPins = \<lparr>pin_RST = None, pin_HLT = None, pin_IRQ1 = None, pin_IRQ2 = None, pin_NMI = None\<rparr>"

text \<open>The memory of the TMS9995 is a buffer of 64 KB.\<close>

definition tmsCore :: "tms dma_core" where
  "tmsCore =
     \<lparr>coreIsTms = True,
      coreHLT = (\<lambda>s. cur (tpHLT s)), coreRST = (\<lambda>s. cur (tpRST s)), coreRUN = (\<lambda>s. tStatus s = Running),
      coreStatus = tStatus,
      coreSetHLT = (\<lambda>v s. snd (run_state (tms_setPins (noTmsPins\<lparr>pin_HLT := Some v\<rparr>)) s)),
      coreLength = (\<lambda>s. 65536),
      corePutByte = (\<lambda>a v s. s\<lparr>tMem := (tMem s)(of_nat a := v)\<rparr>),
      corePutWord = (\<lambda>a v s. s\<lparr>tMem := (tMem s)(of_nat a := ucast (drop_bit 8 v), of_nat (a + 1) := ucast v)\<rparr>)\<rparr>"

subsection \<open>A transfer\<close>

datatype dma_error = DmaBusy | DmaNotAllowed | DmaRunTimeout | DmaByteOutOfRange nat | DmaWordOutOfRange nat

text \<open>The flag of the module, the flag that the hook of the worker stores for others, and the processor.\<close>

record 's dma_state =
  dm_busy :: bool
  dm_flag :: bool
  dm_core :: 's

definition mayTouchMemory :: "'s dma_core \<Rightarrow> 's \<Rightarrow> bool" where
  "mayTouchMemory c s \<longleftrightarrow> coreHLT c s \<or> coreRST c s \<or> coreStatus c s = Idle \<or> coreStatus c s = Halted"

definition writeWordToRam :: "'s dma_core \<Rightarrow> nat \<Rightarrow> u16 \<Rightarrow> 's \<Rightarrow> dma_error + 's" where
  "writeWordToRam c wordAddr v s =
     (let k = wordAddr mod 0x10000; off = (if coreIsTms c then k else k * 2)
      in if coreLength c s \<le> off + 1 then
           Inl (if coreIsTms c then DmaByteOutOfRange off else DmaWordOutOfRange wordAddr)
         else Inr (corePutWord c off v s))"

text \<open>\<open>n\<close> turns of the event loop pass before the deadline; \<open>others\<close> is what runs in one.\<close>

fun waitStopped :: "'s dma_core \<Rightarrow> ('s \<Rightarrow> 's) \<Rightarrow> nat \<Rightarrow> 's \<Rightarrow> bool \<times> 's" where
  "waitStopped c others 0 s = (\<not> coreRUN c s, s)"
| "waitStopped c others (Suc n) s = (if coreRUN c s then waitStopped c others n (others s) else (True, s))"

definition dmaBegin :: "'s dma_core \<Rightarrow> ('s \<Rightarrow> 's) \<Rightarrow> nat \<Rightarrow> 's dma_state \<Rightarrow> (dma_error + unit) \<times> 's dma_state" where
  "dmaBegin c others n d =
     (if dm_busy d then (Inl DmaBusy, d)
      else let running = coreStatus c (dm_core d) = Running \<or> coreRUN c (dm_core d);
               (ok, s) = (if running then waitStopped c others n (coreSetHLT c True (dm_core d)) else (True, dm_core d))
           in if \<not> ok then (Inl DmaRunTimeout, \<lparr>dm_busy = False, dm_flag = False, dm_core = coreSetHLT c False s\<rparr>)
              else (if mayTouchMemory c s then Inr () else Inl DmaNotAllowed, \<lparr>dm_busy = True, dm_flag = True, dm_core = s\<rparr>))"

definition dmaEnd :: "'s dma_core \<Rightarrow> 's dma_state \<Rightarrow> 's dma_state" where
  "dmaEnd c d =
     \<lparr>dm_busy = False, dm_flag = False,
      dm_core = (if coreHLT c (dm_core d) then coreSetHLT c False (dm_core d) else dm_core d)\<rparr>"

text \<open>Byte by byte for the TMS9995; words for the MN1613, where a last single byte is followed by a zero.\<close>

fun dmaBytes :: "'s dma_core \<Rightarrow> nat \<Rightarrow> u8 list \<Rightarrow> 's \<Rightarrow> (dma_error + unit) \<times> 's" where
  "dmaBytes c a [] s = (Inr (), s)"
| "dmaBytes c a (v # vs) s =
     (if \<not> mayTouchMemory c s then (Inl DmaNotAllowed, s)
      else if coreLength c s \<le> a mod 0x10000 then (Inl (DmaByteOutOfRange (a mod 0x10000)), s)
      else dmaBytes c (a + 1) vs (corePutByte c (a mod 0x10000) v s))"

fun dmaPairs :: "'s dma_core \<Rightarrow> nat \<Rightarrow> u8 list \<Rightarrow> 's \<Rightarrow> (dma_error + unit) \<times> 's" where
  "dmaPairs c a [] s = (Inr (), s)"
| "dmaPairs c a (hi # vs) s =
     (if \<not> mayTouchMemory c s then (Inl DmaNotAllowed, s)
      else let lo = (case vs of [] \<Rightarrow> 0 | l # _ \<Rightarrow> l)
        in case writeWordToRam c (a div 2 mod 2 ^ 32) (push_bit 8 (ucast hi) OR ucast lo) s of
             Inl e \<Rightarrow> (Inl e, s)
           | Inr t \<Rightarrow> dmaPairs c (a + 2) (drop 1 vs) t)"

fun dmaWords :: "'s dma_core \<Rightarrow> u32 \<Rightarrow> u16 list \<Rightarrow> 's \<Rightarrow> (dma_error + unit) \<times> 's" where
  "dmaWords c a [] s = (Inr (), s)"
| "dmaWords c a (w # ws) s =
     (if \<not> mayTouchMemory c s then (Inl DmaNotAllowed, s)
      else case writeWordToRam c (unat a) w s of
             Inl e \<Rightarrow> (Inl e, s)
           | Inr t \<Rightarrow> dmaWords c (a + (if coreIsTms c then 2 else 1)) ws t)"

text \<open>The end of a transfer is reached also when writing throws, but not when its begin does.\<close>

definition dmaTransfer ::
  "'s dma_core \<Rightarrow> ('s \<Rightarrow> 's) \<Rightarrow> nat \<Rightarrow> ('s \<Rightarrow> (dma_error + unit) \<times> 's) \<Rightarrow> 's dma_state \<Rightarrow> (dma_error + unit) \<times> 's dma_state" where
  "dmaTransfer c others n write d =
     (case dmaBegin c others n d of
        (Inl e, d1) \<Rightarrow> (Inl e, d1)
      | (Inr _, d1) \<Rightarrow> (case write (dm_core d1) of (r, s) \<Rightarrow> (r, dmaEnd c (d1\<lparr>dm_core := s\<rparr>))))"

definition dmaWriteBytes ::
  "'s dma_core \<Rightarrow> ('s \<Rightarrow> 's) \<Rightarrow> nat \<Rightarrow> u32 \<Rightarrow> u8 list \<Rightarrow> 's dma_state \<Rightarrow> (dma_error + unit) \<times> 's dma_state" where
  "dmaWriteBytes c others n byteAddr data =
     dmaTransfer c others n (if coreIsTms c then dmaBytes c (unat byteAddr) data else dmaPairs c (unat byteAddr) data)"

definition dmaWriteWords ::
  "'s dma_core \<Rightarrow> ('s \<Rightarrow> 's) \<Rightarrow> nat \<Rightarrow> u32 \<Rightarrow> u16 list \<Rightarrow> 's dma_state \<Rightarrow> (dma_error + unit) \<times> 's dma_state" where
  "dmaWriteWords c others n wordAddr ws = dmaTransfer c others n (dmaWords c wordAddr ws)"

subsection \<open>What a transfer does\<close>

text \<open>The bytes of a block laid over others.\<close>

definition overlay :: "nat \<Rightarrow> 'v list \<Rightarrow> (nat \<Rightarrow> 'v) \<Rightarrow> nat \<Rightarrow> 'v" where
  "overlay a vs m x = (if a \<le> x \<and> x < a + length vs then vs ! (x - a) else m x)"

lemma overlay_Cons: "overlay a (v # vs) m = overlay (a + 1) vs (m(a := v))"
  by (rule ext) (auto simp: overlay_def nth_Cons')

lemma overlay_Nil [simp]: "overlay a [] m = m"
  by (rule ext) (auto simp: overlay_def)

lemma word_halves:
  fixes hi lo :: u8
  shows "ucast (drop_bit 8 (push_bit 8 (ucast hi) OR ucast lo :: u16)) = hi"
    "ucast (push_bit 8 (ucast hi) OR ucast lo :: u16) = lo"
proof -
  have "\<not> bit lo (8 + n)" for n using bit_imp_le_length [of lo "8 + n"] by auto
  then show "ucast (drop_bit 8 (push_bit 8 (ucast hi) OR ucast lo :: u16)) = hi"
    by (auto intro!: bit_word_eqI simp: bit_simps)
qed (auto intro!: bit_word_eqI simp: bit_simps)

text \<open>
  The contract of a processor: memory is a store of bytes, and while no request is pending on its
  pins (\<open>calm\<close>) a change of HLT does not touch it.
\<close>

locale dma_memory =
  fixes c :: "'s dma_core" and byteAt :: "'s \<Rightarrow> nat \<Rightarrow> u8" and calm :: "'s \<Rightarrow> bool"
  assumes put_word: "off + 1 < coreLength c s \<Longrightarrow>
      byteAt (corePutWord c off v s) = (byteAt s)(off := ucast (drop_bit 8 v), off + 1 := ucast v)"
    and put_byte: "off < coreLength c s \<Longrightarrow> byteAt (corePutByte c off b s) = (byteAt s)(off := b)"
    and put_length: "coreLength c (corePutWord c off v s) = coreLength c s" "coreLength c (corePutByte c off b s) = coreLength c s"
    and put_may: "mayTouchMemory c (corePutWord c off v s) = mayTouchMemory c s"
      "mayTouchMemory c (corePutByte c off b s) = mayTouchMemory c s"
    and put_calm: "calm (corePutWord c off v s) = calm s" "calm (corePutByte c off b s) = calm s"
    and halt_bytes: "calm s \<Longrightarrow> byteAt (coreSetHLT c h s) = byteAt s"
    and halt_level: "calm s \<Longrightarrow> coreHLT c (coreSetHLT c h s) = h"
    and halt_calm: "calm s \<Longrightarrow> calm (coreSetHLT c h s)"
begin

lemma bytes_written:
  assumes "mayTouchMemory c s" "a + length vs \<le> coreLength c s" "a + length vs \<le> 0x10000"
  shows "\<exists>t. dmaBytes c a vs s = (Inr (), t) \<and> byteAt t = overlay a vs (byteAt s) \<and> coreLength c t = coreLength c s \<and> calm t = calm s"
  using assms
proof (induction vs arbitrary: a s)
  case (Cons v vs)
  have put: "byteAt (corePutByte c a v s) = (byteAt s)(a := v)" using Cons.prems by (intro put_byte) simp
  have "\<exists>t. dmaBytes c (a + 1) vs (corePutByte c a v s) = (Inr (), t) \<and>
      byteAt t = overlay (a + 1) vs (byteAt (corePutByte c a v s)) \<and> coreLength c t = coreLength c (corePutByte c a v s) \<and>
      calm t = calm (corePutByte c a v s)"
    using Cons.prems by (intro Cons.IH) (simp_all add: put_length put_may)
  moreover have "dmaBytes c a (v # vs) s = dmaBytes c (a + 1) vs (corePutByte c a v s)"
    using Cons.prems by simp
  ultimately show ?case by (simp only: overlay_Cons put put_length put_calm)
qed simp

text \<open>Words of the MN1613: whole words from an even address, inside the addresses that 16 bits reach.\<close>

lemma pairs_written:
  assumes "mayTouchMemory c s" "\<not> coreIsTms c" "even a" "even (length vs)"
    "a + length vs \<le> coreLength c s" "a + length vs \<le> 0x20000"
  shows "\<exists>t. dmaPairs c a vs s = (Inr (), t) \<and> byteAt t = overlay a vs (byteAt s) \<and> coreLength c t = coreLength c s \<and> calm t = calm s"
  using assms
proof (induction "length vs div 2" arbitrary: a vs s)
  case 0
  then have "vs = []" by (cases vs; cases "tl vs") auto
  then show ?case by simp
next
  case (Suc k)
  then obtain hi lo ws where vs: "vs = hi # lo # ws" by (cases vs; cases "tl vs") auto
  have off: "a div 2 mod 2 ^ 32 mod 0x10000 * 2 = a" using Suc.prems(3,6) vs by simp
  let ?w = "push_bit 8 (ucast hi) OR ucast lo :: u16"
  have wr: "writeWordToRam c (a div 2 mod 2 ^ 32) ?w s = Inr (corePutWord c a ?w s)"
    using Suc.prems(2,5) by (simp only: writeWordToRam_def Let_def off if_False) (simp add: vs)
  have "byteAt (corePutWord c a ?w s) = (byteAt s)(a := hi, a + 1 := lo)"
    using Suc.prems(5) put_word [of a s ?w] unfolding word_halves by (simp add: vs)
  moreover have "\<exists>t. dmaPairs c (a + 2) ws (corePutWord c a ?w s) = (Inr (), t) \<and>
      byteAt t = overlay (a + 2) ws (byteAt (corePutWord c a ?w s)) \<and> coreLength c t = coreLength c (corePutWord c a ?w s) \<and>
      calm t = calm (corePutWord c a ?w s)"
    using Suc.hyps(2) Suc.prems by (intro Suc.hyps(1)) (simp_all add: vs put_length put_may)
  moreover have "dmaPairs c a vs s = dmaPairs c (a + 2) ws (corePutWord c a ?w s)"
    using Suc.prems(1) wr by (simp add: vs)
  ultimately show ?case by (simp only: vs overlay_Cons put_length put_calm add.assoc one_add_one)
qed

text \<open>A processor that is held, idle or halted is written at once; a running one when it stops before the deadline.\<close>

lemma transfer_at_rest:
  assumes "\<not> dm_busy d" "\<not> coreRUN c (dm_core d)" "coreStatus c (dm_core d) \<noteq> Running" "mayTouchMemory c (dm_core d)"
    and "write (dm_core d) = (r, t)"
  shows "dmaTransfer c others n write d =
    (r, \<lparr>dm_busy = False, dm_flag = False, dm_core = (if coreHLT c t then coreSetHLT c False t else t)\<rparr>)"
  using assms by (simp add: dmaTransfer_def dmaBegin_def dmaEnd_def Let_def)

lemma waits:
  "waitStopped c others n s = (True, t) \<Longrightarrow> \<not> coreRUN c t"
  by (induction c others n s rule: waitStopped.induct) (auto split: if_splits)

lemma transfer_waits:
  assumes "\<not> dm_busy d" "coreRUN c (dm_core d)"
    "waitStopped c others n (coreSetHLT c True (dm_core d)) = (True, u)" "mayTouchMemory c u" "write u = (r, t)"
  shows "dmaTransfer c others n write d =
    (r, \<lparr>dm_busy = False, dm_flag = False, dm_core = (if coreHLT c t then coreSetHLT c False t else t)\<rparr>)"
  using assms by (simp add: dmaTransfer_def dmaBegin_def dmaEnd_def Let_def)

text \<open>Whatever a transfer does, HLT is released at its end, unless it is refused at its begin.\<close>

lemma transfer_releases:
  assumes "dmaTransfer c others n write d = (r, d')" "fst (dmaBegin c others n d) = Inr ()"
    and "\<And>s r t. write s = (r, t) \<Longrightarrow> calm t"
  shows "\<not> coreHLT c (dm_core d') \<and> \<not> dm_busy d' \<and> \<not> dm_flag d'"
  using assms by (auto simp: dmaTransfer_def dmaEnd_def halt_level split: prod.splits sum.splits if_splits)

text \<open>A transfer that is refused after it has set the flag leaves the flag: every later transfer is refused.\<close>

lemma refused_stays_busy:
  assumes "dmaTransfer c others n write d = (Inl DmaNotAllowed, d')" "fst (dmaBegin c others n d) \<noteq> Inr ()"
  shows "dm_busy d' \<and> fst (dmaTransfer c others n write' d') = Inl DmaBusy"
proof -
  from assms have "dm_busy d'"
    by (auto simp: dmaTransfer_def dmaBegin_def Let_def split: prod.splits sum.splits if_splits)
  then show ?thesis by (simp add: dmaTransfer_def dmaBegin_def)
qed

end

subsection \<open>The two processors\<close>

text \<open>Whatever the pins are, setting them on the MN1613 completes and touches neither memory nor levels.\<close>

lemma pin_requests:
  "cur (snd (edgeRequest p)) = cur p" "cur (snd (levelRequest p)) = cur p" "cur (commitSample p) = cur p"
  by (simp_all add: edgeRequest_def levelRequest_def takeDeferred_def)

text \<open>What sampling the pins leaves as it is.\<close>

definition pinsOnly :: "board \<Rightarrow> board \<Rightarrow> bool" where
  "pinsOnly s t \<longleftrightarrow> mem t = mem s \<and> ioCallbacks t = ioCallbacks s \<and> ports t = ports s \<and> breakpoints t = breakpoints s \<and>
     cur (pinHLT t) = cur (pinHLT s) \<and> cur (pinRST t) = cur (pinRST s) \<and> (noDeferred s \<longrightarrow> noDeferred t)"

lemma pinsOnly_trans: "pinsOnly s t \<Longrightarrow> pinsOnly t u \<Longrightarrow> pinsOnly s u"
  by (simp add: pinsOnly_def)

lemma deferred_request [simp]:
  "\<not> deferred p \<Longrightarrow> \<not> deferred (snd (edgeRequest p))" "\<not> deferred p \<Longrightarrow> \<not> deferred (snd (levelRequest p))"
  by (simp_all add: edgeRequest_noDeferred levelRequest_noDeferred)

lemma run_sampleRST: "\<exists>t. run_state sampleRST s = (Inr (), t) \<and> pinsOnly s t"
  by (cases s) (simp add: sampleRST_def run_resetCpu settled_def forInputPins_def forOutputPins_def settleInput_def clearDeferred_def
      pin_requests pinsOnly_def noDeferred_def)

lemma run_samples:
  "\<exists>t. run_state sampleHLT s = ((), t) \<and> pinsOnly s t"
  "\<exists>t. run_state (sampleIRQ 0 pinIRQ0 pinIRQ0_update) s = ((), t) \<and> pinsOnly s t"
  "\<exists>t. run_state (sampleIRQ 1 pinIRQ1 pinIRQ1_update) s = ((), t) \<and> pinsOnly s t"
  "\<exists>t. run_state (sampleIRQ 2 pinIRQ2 pinIRQ2_update) s = ((), t) \<and> pinsOnly s t"
  by (cases s; simp add: sampleHLT_def sampleIRQ_def triggerInterrupt_def pin_requests pinsOnly_def noDeferred_def)+

lemma run_pins: "\<exists>t. run_state processInputPins s = (Inr (), t) \<and> pinsOnly s t \<and> prev (pinRST t) = cur (pinRST s)"
proof -
  obtain a where a: "run_state sampleRST s = (Inr (), a)" "pinsOnly s a" using run_sampleRST by blast
  obtain b where b: "run_state sampleHLT a = ((), b)" "pinsOnly a b" using run_samples(1) by blast
  obtain e where e: "run_state (sampleIRQ 0 pinIRQ0 pinIRQ0_update) b = ((), e)" "pinsOnly b e" using run_samples(2) by blast
  obtain f where f: "run_state (sampleIRQ 1 pinIRQ1 pinIRQ1_update) e = ((), f)" "pinsOnly e f" using run_samples(3) by blast
  obtain g where g: "run_state (sampleIRQ 2 pinIRQ2 pinIRQ2_update) f = ((), g)" "pinsOnly f g" using run_samples(4) by blast
  have sg: "pinsOnly s g" using a b e f g pinsOnly_trans by blast
  have run: "run_state processInputPins s = (Inr (), forOutputPins commitSample (forInputPins commitSample g))"
    by (simp add: processInputPins_def run_andThen a b e f g del: One_nat_def)
  have "pinsOnly g (forOutputPins commitSample (forInputPins commitSample g))"
    by (simp add: pinsOnly_def noDeferred_def forInputPins_def forOutputPins_def pin_requests)
  moreover have "prev (pinRST (forOutputPins commitSample (forInputPins commitSample g))) = cur (pinRST s)"
    using sg by (simp add: pinsOnly_def forInputPins_def forOutputPins_def commitSample_def)
  ultimately show ?thesis using run pinsOnly_trans [OF sg] by blast
qed

lemma setPins_completes:
  "\<exists>t. run_state (setPins v) s = (Inr (), t) \<and> mem t = mem s \<and> ioCallbacks t = ioCallbacks s \<and> ports t = ports s \<and>
     breakpoints t = breakpoints s \<and> (noDeferred s \<longrightarrow> noDeferred t) \<and>
     cur (pinHLT t) = (case inHLT v of None \<Rightarrow> cur (pinHLT s) | Some b \<Rightarrow> b) \<and>
     cur (pinRST t) = (case inRST v of None \<Rightarrow> cur (pinRST s) | Some b \<Rightarrow> b) \<and> prev (pinRST t) = cur (pinRST t)"
proof -
  let ?s = "s\<lparr>pinRST := drive (inRST v) (pinRST s), pinHLT := drive (inHLT v) (pinHLT s), pinIRQ0 := drive (inIRQ0 v) (pinIRQ0 s),
    pinIRQ1 := drive (inIRQ1 v) (pinIRQ1 s), pinIRQ2 := drive (inIRQ2 v) (pinIRQ2 s), pinBSAV := drive (inBSAV v) (pinBSAV s),
    pinSTRT := drive (inSTRT v) (pinSTRT s)\<rparr>"
  have "run_state (setPins v) s = run_state processInputPins ?s" by (cases s) (simp add: setPins_def)
  moreover have "noDeferred s \<Longrightarrow> noDeferred ?s"
    by (simp add: noDeferred_def drive_def setInputLevel_def split: option.splits)
  ultimately show ?thesis
    using run_pins [of ?s] by (auto simp: pinsOnly_def drive_def setInputLevel_def split: option.splits)
qed

lemma mn_halt:
  "mem (coreSetHLT mnCore h s) = mem s" "coreHLT mnCore (coreSetHLT mnCore h s) = h"
  using setPins_completes [of "noPins\<lparr>inHLT := Some h\<rparr>" s] by (auto simp: mnCore_def)

interpretation mn_dma: dma_memory mnCore "\<lambda>s. bytes (mem s)" "\<lambda>_. True"
proof (unfold_locales, goal_cases)
  case (1 off s v)
  show ?case by (simp add: mnCore_def setUint16_def)
qed (auto simp: mn_halt, auto simp: mnCore_def setUint16_def mayTouchMemory_def)

text \<open>On the TMS9995 a pending edge of RST or NMI would be served; without one the pins are as on the MN1613.\<close>

definition calmTms :: "tms \<Rightarrow> bool" where
  "calmTms s \<longleftrightarrow> (\<forall>p \<in> {tpRST s, tpIRQ1 s, tpIRQ2 s, tpNMI s}. \<not> risingEdge p \<and> \<not> deferred p) \<and> \<not> deferred (tpHLT s)"

lemma calm_edge: "\<not> risingEdge p \<Longrightarrow> \<not> deferred p \<Longrightarrow> tmsEdge p = (False, p)"
  by (simp add: tmsEdge_def takeDeferred_def)

lemma calm_RST: "calmTms s \<Longrightarrow> run_state tmsSampleRST s = ((), s)"
  by (cases s) (simp add: tmsSampleRST_def calmTms_def calm_edge)

lemma calm_HLT:
  assumes "calmTms s"
  shows "\<exists>t. run_state tmsSampleHLT s = ((), t) \<and> tMem t = tMem s \<and> tpHLT t = tpHLT s \<and> tpRST t = tpRST s \<and>
    tpIRQ1 t = tpIRQ1 s \<and> tpIRQ2 t = tpIRQ2 s \<and> tpNMI t = tpNMI s"
  using assms
  by (cases s) (simp add: tmsSampleHLT_def calmTms_def takeDeferred_def setTStatus_def setRun_def Let_def)

lemma calm_pins:
  assumes "calmTms s"
  shows "\<exists>t. run_state tms_processInputPins s = ((), t) \<and> tMem t = tMem s \<and> calmTms t \<and> cur (tpHLT t) = cur (tpHLT s)"
proof -
  obtain u where u: "run_state tmsSampleHLT s = ((), u)" "tMem u = tMem s" "tpHLT u = tpHLT s" "tpRST u = tpRST s"
    "tpIRQ1 u = tpIRQ1 s" "tpIRQ2 u = tpIRQ2 s" "tpNMI u = tpNMI s" using calm_HLT [OF assms] by blast
  with assms have "calmTms u" by (simp add: calmTms_def)
  then have e: "tmsEdge (tpIRQ1 u) = (False, tpIRQ1 u)" "tmsEdge (tpIRQ2 u) = (False, tpIRQ2 u)" "tmsEdge (tpNMI u) = (False, tpNMI u)"
    by (simp_all add: calmTms_def calm_edge)
  have "run_state tms_processInputPins s = ((), tpRUN_update commitSample (forTmsInputs commitSample u))"
    using e by (cases u) (simp add: tms_processInputPins_def calm_RST [OF assms] u(1))
  with \<open>calmTms u\<close> u(2,3) show ?thesis
    by (simp add: forTmsInputs_def calmTms_def risingEdge_def)
qed

lemma tms_halt:
  assumes "calmTms s"
  shows "tMem (coreSetHLT tmsCore h s) = tMem s" "coreHLT tmsCore (coreSetHLT tmsCore h s) = h" "calmTms (coreSetHLT tmsCore h s)"
proof -
  let ?s = "s\<lparr>tpHLT := setInputLevel h (tpHLT s)\<rparr>"
  have "run_state (tms_setPins (noTmsPins\<lparr>pin_HLT := Some h\<rparr>)) s = run_state tms_processInputPins ?s"
    by (cases s) (simp add: tms_setPins_def noTmsPins_def tmsDrive_def)
  moreover have "calmTms ?s" using assms by (simp add: calmTms_def setInputLevel_def)
  ultimately show "tMem (coreSetHLT tmsCore h s) = tMem s" "coreHLT tmsCore (coreSetHLT tmsCore h s) = h"
    "calmTms (coreSetHLT tmsCore h s)"
    using calm_pins [of ?s] by (auto simp: tmsCore_def setInputLevel_def)
qed

lemma word16_apart: "n < 65536 \<Longrightarrow> m < 65536 \<Longrightarrow> (of_nat n :: u16) = of_nat m \<longleftrightarrow> n = m"
  by (simp add: word_of_nat_eq_iff take_bit_nat_def)

definition tmsByteAt :: "tms \<Rightarrow> nat \<Rightarrow> u8" where
  "tmsByteAt s n = (if n < 65536 then tMem s (of_nat n) else 0)"

interpretation tms_dma: dma_memory tmsCore tmsByteAt calmTms
proof (unfold_locales, goal_cases)
  case (1 off s v)
  then have len: "off + 1 < 65536" by (simp add: tmsCore_def)
  show ?case
  proof
    fix n
    have "n < 65536 \<Longrightarrow> (of_nat n :: u16) = of_nat off \<longleftrightarrow> n = off"
      "n < 65536 \<Longrightarrow> (of_nat n :: u16) = of_nat (off + 1) \<longleftrightarrow> n = off + 1"
      using len by (intro word16_apart; simp)+
    with len show "tmsByteAt (corePutWord tmsCore off v s) n =
        ((tmsByteAt s)(off := ucast (drop_bit 8 v), off + 1 := ucast v)) n"
      by (auto simp: tmsCore_def tmsByteAt_def simp del: of_nat_add of_nat_Suc)
  qed
next
  case (2 off s v)
  then have len: "off < 65536" by (simp add: tmsCore_def)
  show ?case
  proof
    fix n
    have "n < 65536 \<Longrightarrow> (of_nat n :: u16) = of_nat off \<longleftrightarrow> n = off"
      using len by (intro word16_apart)
    with len show "tmsByteAt (corePutByte tmsCore off v s) n = ((tmsByteAt s)(off := v)) n"
      by (auto simp: tmsCore_def tmsByteAt_def)
  qed
qed (auto simp: tms_halt tmsByteAt_def, auto simp: tmsCore_def mayTouchMemory_def calmTms_def)

text \<open>A transfer to the MN1613 at rest; it changes memory and the level of HLT.\<close>

definition hostKept :: "board \<Rightarrow> board \<Rightarrow> bool" where
  "hostKept s t \<longleftrightarrow> ioCallbacks t = ioCallbacks s \<and> ports t = ports s \<and> breakpoints t = breakpoints s \<and>
     cur (pinRST t) = cur (pinRST s) \<and> (noDeferred s \<longrightarrow> noDeferred t)"

lemma hostKept_trans: "hostKept s t \<Longrightarrow> hostKept t u \<Longrightarrow> hostKept s u"
  by (simp add: hostKept_def)

lemma word_host: "writeWordToRam mnCore w v s = Inr t \<Longrightarrow> hostKept s t"
  by (auto simp: writeWordToRam_def mnCore_def hostKept_def noDeferred_def Let_def split: if_splits)

lemma pairs_host: "dmaPairs mnCore a vs s = (r, t) \<Longrightarrow> hostKept s t"
proof (induction "length vs" arbitrary: a vs s rule: less_induct)
  case less
  show ?case
  proof (cases vs)
    case Nil
    with less.prems show ?thesis by (simp add: hostKept_def)
  next
    case (Cons hi ws)
    define w where "w = writeWordToRam mnCore (a div 2 mod 2 ^ 32) (push_bit 8 (ucast hi) OR ucast (case ws of [] \<Rightarrow> 0 | l # _ \<Rightarrow> l)) s"
    have run: "(if \<not> mayTouchMemory mnCore s then (Inl DmaNotAllowed, s)
        else case w of Inl e \<Rightarrow> (Inl e, s) | Inr t \<Rightarrow> dmaPairs mnCore (a + 2) (drop 1 ws) t) = (r, t)"
      using less.prems unfolding Cons w_def by (simp only: dmaPairs.simps Let_def)
    have "length (drop 1 ws) < length vs" by (simp add: Cons le_imp_less_Suc)
    then have later: "dmaPairs mnCore (a + 2) (drop 1 ws) u = (r, t) \<Longrightarrow> hostKept u t" for u
      by (rule less.hyps)
    show ?thesis
    proof (cases "mayTouchMemory mnCore s")
      case False
      with run show ?thesis by (simp add: hostKept_def)
    next
      case may: True
      show ?thesis
      proof (cases w)
        case (Inl e)
        with may run show ?thesis by (simp add: hostKept_def)
      next
        case (Inr u)
        then have "hostKept s u" using word_host unfolding w_def by blast
        moreover have "hostKept u t" using later may run unfolding Inr by simp
        ultimately show ?thesis by (rule hostKept_trans)
      qed
    qed
  qed
qed

lemma noPins_fields [simp]: "inRST noPins = None" "inHLT noPins = None"
  by (simp_all add: noPins_def)

lemma halt_host: "hostKept s (coreSetHLT mnCore h s)"
proof -
  obtain t where t: "run_state (setPins (noPins\<lparr>inHLT := Some h\<rparr>)) s = (Inr (), t)"
    "ioCallbacks t = ioCallbacks s" "ports t = ports s" "breakpoints t = breakpoints s" "noDeferred s \<longrightarrow> noDeferred t"
    "cur (pinRST t) = cur (pinRST s)"
    using setPins_completes [of "noPins\<lparr>inHLT := Some h\<rparr>" s] by auto
  then have "coreSetHLT mnCore h s = t" by (simp add: mnCore_def)
  with t show ?thesis by (simp add: hostKept_def)
qed

lemma mn_transfer:
  assumes "\<not> dm_busy d" "execStatus (dm_core d) \<noteq> Running" "mayTouchMemory mnCore (dm_core d)"
    "even (unat a)" "even (length data)" "unat a + length data \<le> byteLength (mem (dm_core d))" "unat a + length data \<le> 0x20000"
  shows "\<exists>s. dmaWriteBytes mnCore others n a data d = (Inr (), \<lparr>dm_busy = False, dm_flag = False, dm_core = s\<rparr>) \<and>
    bytes (mem s) = overlay (unat a) data (bytes (mem (dm_core d))) \<and> byteLength (mem s) = byteLength (mem (dm_core d)) \<and>
    \<not> cur (pinHLT s) \<and> hostKept (dm_core d) s"
proof -
  obtain t where t: "dmaPairs mnCore (unat a) data (dm_core d) = (Inr (), t)"
      "bytes (mem t) = overlay (unat a) data (bytes (mem (dm_core d)))" "byteLength (mem t) = byteLength (mem (dm_core d))"
    using mn_dma.pairs_written [OF assms(3) _ assms(4,5) _ assms(7)] assms(6) by (auto simp: mnCore_def)
  let ?u = "if coreHLT mnCore t then coreSetHLT mnCore False t else t"
  have "dmaWriteBytes mnCore others n a data d = (Inr (), \<lparr>dm_busy = False, dm_flag = False, dm_core = ?u\<rparr>)"
    unfolding dmaWriteBytes_def using mn_dma.transfer_at_rest [OF assms(1) _ _ assms(3), of _ "Inr ()" t] assms(2) t(1)
    by (simp add: mnCore_def)
  moreover have "mem ?u = mem t" "\<not> cur (pinHLT ?u)" using mn_halt [of False t] by (auto simp: mnCore_def)
  moreover have "hostKept (dm_core d) ?u" using pairs_host [OF t(1)] halt_host hostKept_trans by auto
  ultimately show ?thesis using t(2,3) by (intro exI [of _ ?u]) simp
qed

end
