(* ===== verification/Cpu_Boot.thy ===== *)
theory Cpu_Boot
  imports Cpu_Dma
begin

text \<open>
  Starting the CPU board: \<^verbatim>\<open>cpuboard/boot.ts\<close> for the MN1613, and the requests of the IO board to the CPU
  that \<^verbatim>\<open>cpuboard/cpu_board_link.ts\<close> serves.  The texts of the log are left out.
\<close>

subsection \<open>Power on, stub and reset\<close>

definition RESET_VECTOR_STR_OFF :: u16 where "RESET_VECTOR_STR_OFF = 2"
definition RESET_VECTOR_IC_OFF :: u16 where "RESET_VECTOR_IC_OFF = 3"
definition OPCODE_H :: u16 where "OPCODE_H = 0x2000"

datatype boot_phase = ResetWait | VectorReady | ResetPulsed

record boot_result =
  br_phase :: boot_phase
  br_ic :: u16
  br_status :: exec_status

definition bootResult :: "boot_phase \<Rightarrow> boot_result cpu" where
  "bootResult ph = gets (\<lambda>s. \<lparr>br_phase = ph, br_ic = IC (reg s), br_status = execStatus s\<rparr>)"

text \<open>A word outside the buffer is not written.\<close>

definition writeWordMn1613 :: "u16 \<Rightarrow> u16 \<Rightarrow> unit cpu" where
  "writeWordMn1613 wordAddr v =
     modify (mem_update (\<lambda>m. if unat wordAddr * 2 + 1 < byteLength m then setUint16 (unat wordAddr * 2) v m else m))"

definition allPins :: "bool \<Rightarrow> cpu_pins_in" where
  "allPins b = \<lparr>inRST = Some b, inHLT = Some b, inIRQ0 = Some b, inIRQ1 = Some b, inIRQ2 = Some b, inBSAV = Some b, inSTRT = Some b\<rparr>"

definition enterResetWait :: "(js_error + boot_result) cpu" where
  "enterResetWait = do {
     attachIoBoardPorts;
     resetAddrComparators;
     r \<leftarrow> setPins (allPins False);
     (case r of
        Inl e \<Rightarrow> ret (Inl e)
      | Inr _ \<Rightarrow> do { powerOnIdle; b \<leftarrow> bootResult ResetWait; ret (Inr b) })
   }"

definition loadHaltStubAtMonitorEntry :: "boot_result cpu" where
  "loadHaltStubAtMonitorEntry = do {
     writeWordMn1613 (MONITOR_ENTRY_WORD + RESET_VECTOR_STR_OFF) 0;
     writeWordMn1613 (MONITOR_ENTRY_WORD + RESET_VECTOR_IC_OFF) (MONITOR_ENTRY_WORD + RESET_VECTOR_IC_OFF + 1);
     writeWordMn1613 (MONITOR_ENTRY_WORD + RESET_VECTOR_IC_OFF + 1) OPCODE_H;
     setResetVector MONITOR_ENTRY_WORD;
     bootResult VectorReady
   }"

definition pulseCpuReset :: "(js_error + boot_result) cpu" where
  "pulseCpuReset = do {
     r \<leftarrow> andThen (setPins (noPins\<lparr>inHLT := Some False\<rparr>))
         (andThen (setPins (noPins\<lparr>inRST := Some True\<rparr>)) (setPins (noPins\<lparr>inRST := Some False\<rparr>)));
     (case r of
        Inl e \<Rightarrow> ret (Inl e)
      | Inr _ \<Rightarrow> do { b \<leftarrow> bootResult ResetPulsed; ret (Inr b) })
   }"

definition coldBootHaltStub :: "(js_error + boot_result) cpu" where
  "coldBootHaltStub = do {
     a \<leftarrow> enterResetWait;
     (case a of
        Inl e \<Rightarrow> ret (Inl e)
      | Inr _ \<Rightarrow> do { loadHaltStubAtMonitorEntry; pulseCpuReset })
   }"

subsection \<open>Requests of the IO board\<close>

definition IRQ_RETRY_MAX :: nat where "IRQ_RETRY_MAX = 200"

definition panelAddrToByteAddr :: "u32 \<Rightarrow> u32" where
  "panelAddrToByteAddr panelAddr = panelAddr * 2"

definition linkSetHalt :: "bool \<Rightarrow> outcome cpu" where
  "linkSetHalt h =
     (if h then andThen (setPins (noPins\<lparr>inHLT := Some True\<rparr>)) (do { requestHalt; finished })
      else andThen (setPins (noPins\<lparr>inHLT := Some False\<rparr>)) (do {
        st \<leftarrow> gets execStatus;
        whenM (st \<noteq> Running) startRun;
        finished
      }))"

definition linkPulseReset :: "u16 option \<Rightarrow> outcome cpu" where
  "linkPulseReset vec = do {
     (case vec of Some v \<Rightarrow> setResetVector v | None \<Rightarrow> ret ());
     andThen (setPins (noPins\<lparr>inHLT := Some False\<rparr>)) (do {
       r \<leftarrow> pulseCpuReset;
       (case r of Inl e \<Rightarrow> ret (Inl e) | Inr _ \<Rightarrow> finished)
     })
   }"

definition noFields :: partial_register where
  "noFields = \<lparr>psR = (\<lambda>_. None), psOSR = (\<lambda>_. None), psSP = None, psSTR = None, psIC = None, psCSBR = None, psSSBR = None,
     psTSR0 = None, psTSR1 = None, psNPP = None, psIISR = None, psSBRB = None, psICB = None\<rparr>"

definition linkExec :: "u32 \<Rightarrow> outcome cpu" where
  "linkExec wordAddr = andThen (setPins (noPins\<lparr>inHLT := Some False\<rparr>)) (do {
     setState (noFields\<lparr>psIC := Some (uint (wordAddr AND 0xffff))\<rparr>);
     startRun;
     finished
   })"

definition irqPin :: "nat \<Rightarrow> bool \<Rightarrow> cpu_pins_in" where
  "irqPin level b =
     (if level = 0 then noPins\<lparr>inIRQ0 := Some b\<rparr> else if level = 1 then noPins\<lparr>inIRQ1 := Some b\<rparr> else noPins\<lparr>inIRQ2 := Some b\<rparr>)"

definition raiseIrq :: "nat \<Rightarrow> u16 \<Rightarrow> outcome cpu" where
  "raiseIrq level cause = do {
     setIntCause cause;
     andThen (setPins (irqPin level True)) (do {
       triggerInterrupt (if level = 0 \<or> level = 1 then level else 2);
       setPins (irqPin level False)
     })
   }"

text \<open>
  An interrupt waits while the lines of the handshake are in use; \<open>Inl\<close> is the attempt that is booked
  for the next turn of the timer.
\<close>

definition deliverInterrupt :: "nat \<Rightarrow> u16 \<Rightarrow> nat \<Rightarrow> (nat + js_error + unit) cpu" where
  "deliverInterrupt level cause attempt = do {
     b \<leftarrow> getInterruptBusy;
     active \<leftarrow> isHandshakeActive;
     (if (b = 1 \<or> active) \<and> attempt < IRQ_RETRY_MAX then ret (Inl (attempt + 1))
      else do { r \<leftarrow> raiseIrq level cause; ret (Inr r) })
   }"

subsection \<open>After a reset\<close>

definition startRegisters :: "u16 \<Rightarrow> mem_buffer \<Rightarrow> cpu_register" where
  "startRegisters vec m = initialRegister\<lparr>rSTR := memWord (phys (vec + 2) 0) m, IC := memWord (phys (vec + 3) 0) m\<rparr>"

lemma run_reset_pins:
  assumes "risingEdge (pinRST s)" "\<not> cur (pinHLT s)"
  shows "\<exists>t. run_state processInputPins s = (Inr (), t) \<and> reg t = startRegisters (vectorAddr s) (mem s) \<and> execStatus t = Running \<and>
    pendingIRQ t = 0 \<and> clockCount t = 0 \<and> noDeferred t \<and> risingIrqs t = 0"
proof -
  have "run_state sampleRST s = run_state resetCpu s"
    using assms(1) by (cases s) (simp add: sampleRST_def edgeRequest_def)
  then obtain a where a: "run_state sampleRST s = (Inr (), a)" "reg a = startRegisters (vectorAddr s) (mem s)" "execStatus a = Running"
    "pendingIRQ a = 0" "clockCount a = 0" "noDeferred a" "risingIrqs a = 0" "\<not> cur (pinHLT a)"
    "\<not> risingEdge (pinIRQ0 a)" "\<not> risingEdge (pinIRQ1 a)" "\<not> risingEdge (pinIRQ2 a)"
    using assms(2) by (simp add: run_resetCpu startRegisters_def settled_def forInputPins_def forOutputPins_def settleInput_def
      clearDeferred_def noDeferred_def risingIrqs_def risingEdge_def)
  have "run_state processInputPins s = (Inr (), forOutputPins commitSample (forInputPins commitSample a))"
    using a(6,8,9,10,11) by (cases a) (simp add: processInputPins_def run_andThen a(1) sampleHLT_def sampleIRQ_def
      noDeferred_def levelRequest_def edgeRequest_def takeDeferred_def)
  with a show ?thesis
    by (simp add: forInputPins_def forOutputPins_def noDeferred_def risingIrqs_def risingEdge_def)
qed

lemma run_setPins_RST:
  "run_state (setPins (noPins\<lparr>inRST := Some b\<rparr>)) s = run_state processInputPins (s\<lparr>pinRST := setInputLevel b (pinRST s)\<rparr>)"
  by (cases s) (simp add: setPins_def noPins_def drive_def)

text \<open>The state of the board after a pulse of RST: the CPU starts at the vector.\<close>

definition startedFrom :: "board \<Rightarrow> board \<Rightarrow> bool" where
  "startedFrom s t \<longleftrightarrow> reg t = startRegisters (vectorAddr s) (mem s) \<and> execStatus t = Running \<and> pendingIRQ t = 0 \<and>
     mem t = mem s \<and> ioCallbacks t = ioCallbacks s \<and> ports t = ports s \<and> breakpoints t = breakpoints s \<and>
     \<not> cur (pinHLT t) \<and> \<not> cur (pinRST t) \<and> noDeferred t \<and> risingIrqs t = 0"

lemma run_pulseCpuReset:
  assumes "noDeferred s" "\<not> cur (pinRST s)"
  shows "\<exists>t. run_state pulseCpuReset s = (Inr \<lparr>br_phase = ResetPulsed, br_ic = IC (reg t), br_status = Running\<rparr>, t) \<and> startedFrom s t"
proof -
  obtain a where a: "run_state (setPins (noPins\<lparr>inHLT := Some False\<rparr>)) s = (Inr (), a)" "mem a = mem s" "ioCallbacks a = ioCallbacks s"
    "ports a = ports s" "breakpoints a = breakpoints s" "noDeferred a" "\<not> cur (pinHLT a)" "\<not> cur (pinRST a)" "\<not> prev (pinRST a)"
    using setPins_completes [of "noPins\<lparr>inHLT := Some False\<rparr>" s] assms by auto
  let ?a = "a\<lparr>pinRST := setInputLevel True (pinRST a)\<rparr>"
  have "risingEdge (pinRST ?a)" "\<not> cur (pinHLT ?a)" using a by (simp_all add: risingEdge_def setInputLevel_def)
  from run_reset_pins [OF this] obtain b where b: "run_state processInputPins ?a = (Inr (), b)"
    "reg b = startRegisters (vectorAddr ?a) (mem ?a)" "execStatus b = Running" "pendingIRQ b = 0" "noDeferred b" "risingIrqs b = 0" by blast
  from run_pins [of ?a] b(1) have kb: "pinsOnly ?a b" by auto
  let ?b = "b\<lparr>pinRST := setInputLevel False (pinRST b)\<rparr>"
  have nb: "noDeferred ?b" "\<not> risingEdge (pinRST ?b)" using b(5) by (simp_all add: noDeferred_def risingEdge_def setInputLevel_def)
  have hb: "\<not> cur (pinHLT ?b)" using kb a(7) by (simp add: pinsOnly_def)
  let ?t = "(sampledPins ?b)\<lparr>pendingIRQ := pendingIRQ ?b OR risingIrqs ?b\<rparr>"
  have t: "run_state processInputPins ?b = (Inr (), ?t)" using run_processInputPins [OF nb] hb by simp
  have va: "vectorAddr ?a = vectorAddr s" using a by (simp add: vectorAddr_def split: callbacks.splits)
  have quiet: "pendingIRQ ?b OR risingIrqs ?b = 0" using b(4,6) by (simp add: risingIrqs_def)
  have "startedFrom s ?t" unfolding startedFrom_def quiet
    using a b kb hb va nb(1) by (simp add: pinsOnly_def sampledPins_def forInputPins_def forOutputPins_def noDeferred_def risingIrqs_def
        setInputLevel_def)
  moreover have "run_state pulseCpuReset s = (Inr \<lparr>br_phase = ResetPulsed, br_ic = IC (reg ?t), br_status = Running\<rparr>, ?t)"
    by (simp add: pulseCpuReset_def run_andThen a(1) run_setPins_RST b t bootResult_def)
  ultimately show ?thesis by blast
qed

subsection \<open>Cold boot\<close>

lemma write_is_setMemWord:
  "run_state (writeWordMn1613 a v) s = ((), s\<lparr>mem := setMemWord (phys a 0) v (mem s)\<rparr>)"
  by (cases s) (simp add: writeWordMn1613_def setMemWord_def unat_phys_0 Let_def)

lemma run_enterResetWait:
  "\<exists>t. run_state enterResetWait s = (Inr \<lparr>br_phase = ResetWait, br_ic = 0, br_status = Idle\<rparr>, t) \<and>
     mem t = mem s \<and> ioCallbacks t = IoBoardPorts \<and> ports t = ports s \<and> breakpoints t = breakpoints s \<and> noDeferred t \<and>
     \<not> cur (pinRST t) \<and> \<not> cur (pinHLT t)"
proof -
  let ?s = "s\<lparr>hitCallbacks := IoBoardPorts, ioCallbacks := IoBoardPorts, comparators := bank_reset (comparators s),
    stepUnit := sb_reset (stepUnit s)\<rparr>"
  obtain t where t: "run_state (setPins (allPins False)) ?s = (Inr (), t)" "mem t = mem s" "ioCallbacks t = IoBoardPorts"
    "ports t = ports s" "breakpoints t = breakpoints s" "\<not> cur (pinHLT t)" "\<not> cur (pinRST t)"
    using setPins_completes [of "allPins False" ?s] by (auto simp: allPins_def)
  have "run_state (do { attachIoBoardPorts; resetAddrComparators }) s = ((), ?s)"
    by (cases s) (simp add: attachIoBoardPorts_def resetAddrComparators_def)
  then have "run_state enterResetWait s = run_state (do { powerOnIdle; b \<leftarrow> bootResult ResetWait; ret (Inr b) }) t"
    using t(1) by (simp add: enterResetWait_def case_prod_unfold)
  with t show ?thesis
    by (cases t) (simp add: powerOnIdle_def settlePins_def bootResult_def forInputPins_def forOutputPins_def settleInput_def
      clearDeferred_def noDeferred_def initialRegister_def)
qed

lemma vectorAddr_ports: "ioCallbacks s = IoBoardPorts \<Longrightarrow> vectorAddr s = resetVector (ports s)"
  by (simp add: vectorAddr_def)

definition stubbed :: "mem_buffer \<Rightarrow> mem_buffer" where
  "stubbed m = setMemWord (phys 0x010C 0) OPCODE_H (setMemWord (phys 0x010B 0) 0x010C (setMemWord (phys 0x010A 0) 0 m))"

lemma stubbed_words:
  assumes "0x21A \<le> byteLength m"
  shows "memWord (phys 0x010A 0) (stubbed m) = 0" "memWord (phys 0x010B 0) (stubbed m) = 0x010C"
    "memWord (phys 0x010C 0) (stubbed m) = 0x2000"
    "p \<notin> {phys 0x010A 0, phys 0x010B 0, phys 0x010C 0} \<Longrightarrow> memWord p (stubbed m) = memWord p m"
proof -
  have ok: "memOk (phys 0x010A 0) m" "memOk (phys 0x010B 0) m" "memOk (phys 0x010C 0) m"
    using assms by (simp_all add: memOk_def unat_phys_0)
  then show "memWord (phys 0x010A 0) (stubbed m) = 0" "memWord (phys 0x010B 0) (stubbed m) = 0x010C"
    "memWord (phys 0x010C 0) (stubbed m) = 0x2000"
    by (simp_all add: stubbed_def OPCODE_H_def memWord_setMemWord_other memWord_setMemWord_same ram.ok_wr)
  show "p \<notin> {phys 0x010A 0, phys 0x010B 0, phys 0x010C 0} \<Longrightarrow> memWord p (stubbed m) = memWord p m"
    by (simp add: stubbed_def memWord_setMemWord_other not_sym)
qed

lemma run_loadHaltStub:
  "run_state loadHaltStubAtMonitorEntry s =
    (\<lparr>br_phase = VectorReady, br_ic = IC (reg s), br_status = execStatus s\<rparr>,
     s\<lparr>mem := stubbed (mem s), ports := (ports s)\<lparr>resetVector := 0x0108\<rparr>\<rparr>)"
  by (cases s) (simp add: loadHaltStubAtMonitorEntry_def write_is_setMemWord setResetVector_def bootResult_def stubbed_def
      MONITOR_ENTRY_WORD_def RESET_VECTOR_STR_OFF_def RESET_VECTOR_IC_OFF_def)

lemma run_halt_opcode: "run_state (execOp lg 0x2000) s = (Inr (), s\<lparr>execStatus := Halted\<rparr>)"
  by (cases s) (simp add: execOp_def exec04_def)

text \<open>C10. A cold boot brings the CPU from any state to the halt instruction of the stub.\<close>

theorem cold_boot_halts:
  assumes "0x21A \<le> byteLength (mem s)" "0x010C \<notin> breakpoints s"
  shows "\<exists>b t u. run_state coldBootHaltStub s = (Inr b, t) \<and> br_phase b = ResetPulsed \<and> br_status b = Running \<and> br_ic b = 0x010C \<and>
    reg t = initialRegister\<lparr>IC := 0x010C\<rparr> \<and>
    run_state (tickCpu lg) t = (Inr (), u) \<and> execStatus u = Halted \<and> IC (reg u) = 0x010D \<and>
    (\<forall>p. p \<notin> {phys 0x010A 0, phys 0x010B 0, phys 0x010C 0} \<longrightarrow> memWord p (mem u) = memWord p (mem s))"
proof -
  obtain a where a: "run_state enterResetWait s = (Inr \<lparr>br_phase = ResetWait, br_ic = 0, br_status = Idle\<rparr>, a)"
     "mem a = mem s" "ioCallbacks a = IoBoardPorts" "ports a = ports s" "breakpoints a = breakpoints s" "noDeferred a" "\<not> cur (pinRST a)"
    using run_enterResetWait by blast
  let ?m = "stubbed (mem s)"
  let ?a = "a\<lparr>mem := ?m, ports := (ports a)\<lparr>resetVector := 0x0108\<rparr>\<rparr>"
  have "noDeferred ?a" "\<not> cur (pinRST ?a)" using a by (simp_all add: noDeferred_def)
  from run_pulseCpuReset [OF this] obtain t where
    t: "run_state pulseCpuReset ?a = (Inr \<lparr>br_phase = ResetPulsed, br_ic = IC (reg t), br_status = Running\<rparr>, t)" "startedFrom ?a t" by blast
  have boot: "run_state coldBootHaltStub s = (Inr \<lparr>br_phase = ResetPulsed, br_ic = IC (reg t), br_status = Running\<rparr>, t)"
    using a t by (simp add: coldBootHaltStub_def run_loadHaltStub)
  have reg: "reg t = initialRegister\<lparr>IC := 0x010C\<rparr>"
    using t(2) a stubbed_words [OF assms(1)] by (simp add: startedFrom_def startRegisters_def vectorAddr_ports initialRegister_def)
  from t(2) a have st: "execStatus t = Running" "\<not> cur (pinHLT t)" "\<not> cur (pinRST t)" "breakpoints t = breakpoints s" "mem t = ?m"
      "noDeferred t" "risingIrqs t = 0" "pendingIRQ t = 0"
    by (simp_all add: startedFrom_def)
  let ?t = "(sampledPins t)\<lparr>pendingIRQ := 0\<rparr>"
  have pins: "run_state processInputPins t = (Inr (), ?t)"
    using run_processInputPins [of t] st by (simp add: risingEdge_def)
  let ?u = "?t\<lparr>execStatus := Running, pinIOP := setOutputLevel False (pinIOP ?t), pinWRT := setOutputLevel False (pinWRT ?t)\<rparr>"
  have "breakpoints ?t = breakpoints s" using st by (simp add: sampledPins_def forInputPins_def forOutputPins_def)
  then have tick: "run_state (tickCpu lg) t = run_state (executeOne lg) ?u"
    using tick_after_pins [OF pins, of lg] st(1,2) assms(2) by (simp add: reg)
  have "wordC (reg ?u) (mem ?u) (IC (reg ?u)) = 0x2000"
    using stubbed_words(3) [OF assms(1)] by (simp add: st(5) reg initialRegister_def)
  then have run: "run_state (executeOne lg) ?u = (Inr (), (afterFetch ?u)\<lparr>execStatus := Halted\<rparr>)"
    using run_executeOne [of ?u lg] run_halt_opcode by simp
  let ?v = "(afterFetch ?u)\<lparr>execStatus := Halted\<rparr>"
  have "mem ?v = ?m" "IC (reg ?v) = 0x010D" by (simp_all add: afterFetch_core st(5) reg)
  with tick run stubbed_words(4) [OF assms(1)] have
    "run_state (tickCpu lg) t = (Inr (), ?v) \<and> execStatus ?v = Halted \<and> IC (reg ?v) = 0x010D \<and>
      (\<forall>p. p \<notin> {phys 0x010A 0, phys 0x010B 0, phys 0x010C 0} \<longrightarrow> memWord p (mem ?v) = memWord p (mem s))" by simp
  moreover have "IC (reg t) = 0x010C" by (simp add: reg)
  ultimately show ?thesis using boot reg by (intro exI [of _ t] exI conjI) auto
qed

theorem cold_boot_halts_witness:
  "\<exists>b t u. run_state coldBootHaltStub initialBoard = (Inr b, t) \<and> run_state (tickCpu (\<lambda>_. 0)) t = (Inr (), u) \<and> execStatus u = Halted"
  using cold_boot_halts [of initialBoard "\<lambda>_. 0"] by (simp add: initialBoard_def MEM_WORDS_def) blast

end
