(* ===== verification/Cpu_Link.thy ===== *)
theory Cpu_Link
  imports Cpu_Boot
begin

text \<open>
  The link of the CPU board to the IO board, \<^verbatim>\<open>cpuboard/cpu_board_link.ts\<close> with the MN1613 as processor:
  one request and its reply, and interrupts that wait for the lines to be free.  The slices of the CPU
  worker (\<^verbatim>\<open>cpu_slice.ts\<close>, \<^verbatim>\<open>worker.ts\<close>) and the clock in two halves (\<^verbatim>\<open>shared_board.ts\<close>).
\<close>

subsection \<open>Requests\<close>

datatype link_request =
    DmaWriteBytes u32 "u8 list"
  | DmaWriteWords u32 "u16 list"
  | DmaOther
  | SetHalt bool
  | PulseReset "u16 option"
  | SetStepDelay u8
  | SetClockDiv u8
  | CpuIrq nat u16
  | HshkMemRead u32 u32
  | HshkMemWrite u32 "u8 list"
  | HshkExec u32
  | HshkBreakSet "u8 list"
  | HshkBreakClr u8
  | HshkOther u8
  | UnknownType

datatype request_error =
    DmaWriteOnly
  | UnknownRequest
  | AgentMissing
  | UnsupportedHshk u8
  | LinkDma dma_error
  | LinkThrown js_error
  | AgentError string

text \<open>A reply with its data, or a failure with its reason.\<close>

type_synonym link_reply = "request_error + u8 list option"

text \<open>The operations of the agent of the handshake that the link uses; each can throw.\<close>

record hshk_agent =
  ag_memRead :: "u32 \<Rightarrow> u32 \<Rightarrow> board \<Rightarrow> (string + u8 list) \<times> board"
  ag_memWrite :: "u32 \<Rightarrow> u8 list \<Rightarrow> board \<Rightarrow> (string + unit) \<times> board"
  ag_addrBreakSet :: "u8 list \<Rightarrow> board \<Rightarrow> (string + u8) \<times> board"
  ag_addrBreakClr :: "u8 \<Rightarrow> board \<Rightarrow> (string + u8) \<times> board"

text \<open>The divider of the clock, the board with its transfers, and the interrupts booked for the timer.\<close>

record link_state =
  lk_clockDiv :: u8
  lk_dma :: "board dma_state"
  lk_retries :: "(nat \<times> u16 \<times> nat) list"

definition getBoardLinkClockDiv :: "link_state \<Rightarrow> u8" where
  "getBoardLinkClockDiv l = lk_clockDiv l AND 0x03"

text \<open>A call on the board whose result becomes the reply.\<close>

definition onBoard :: "(board \<Rightarrow> link_reply \<times> board) \<Rightarrow> link_state \<Rightarrow> link_reply \<times> link_state" where
  "onBoard f l =
     (case f (dm_core (lk_dma l)) of (r, s) \<Rightarrow> (r, l\<lparr>lk_dma := (lk_dma l)\<lparr>dm_core := s\<rparr>\<rparr>))"

definition runOnBoard :: "outcome cpu \<Rightarrow> link_state \<Rightarrow> link_reply \<times> link_state" where
  "runOnBoard m = onBoard (\<lambda>s. case run_state m s of (r, t) \<Rightarrow> (map_sum LinkThrown (\<lambda>_. None) r, t))"

definition viaAgent :: "('x \<Rightarrow> u8 list option) \<Rightarrow> hshk_agent option \<Rightarrow> (hshk_agent \<Rightarrow> board \<Rightarrow> (string + 'x) \<times> board) \<Rightarrow>
    link_state \<Rightarrow> link_reply \<times> link_state" where
  "viaAgent f ag op =
     (case ag of
        None \<Rightarrow> (\<lambda>l. (Inl AgentMissing, l))
      | Some a \<Rightarrow> onBoard (\<lambda>s. case op a s of (r, t) \<Rightarrow> (map_sum AgentError f r, t)))"

definition viaDma :: "(board dma_state \<Rightarrow> (dma_error + unit) \<times> board dma_state) \<Rightarrow> link_state \<Rightarrow> link_reply \<times> link_state" where
  "viaDma f l = (case f (lk_dma l) of (r, d) \<Rightarrow> (map_sum LinkDma (\<lambda>_. None) r, l\<lparr>lk_dma := d\<rparr>))"

definition linkDeliver :: "nat \<Rightarrow> u16 \<Rightarrow> nat \<Rightarrow> link_state \<Rightarrow> link_reply \<times> link_state" where
  "linkDeliver level cause attempt l =
     (case run_state (deliverInterrupt level cause attempt) (dm_core (lk_dma l)) of (r, s) \<Rightarrow>
        let l1 = l\<lparr>lk_dma := (lk_dma l)\<lparr>dm_core := s\<rparr>\<rparr> in
        (case r of
           Inl k \<Rightarrow> (Inr None, l1\<lparr>lk_retries := lk_retries l1 @ [(level, cause, k)]\<rparr>)
         | Inr q \<Rightarrow> (map_sum LinkThrown (\<lambda>_. None) q, l1)))"

text \<open>\<open>others\<close> and \<open>n\<close> are what runs while a transfer waits, and for how many turns it does.\<close>

definition handleRequest ::
  "hshk_agent option \<Rightarrow> (board \<Rightarrow> board) \<Rightarrow> nat \<Rightarrow> link_request \<Rightarrow> link_state \<Rightarrow> link_reply \<times> link_state" where
  "handleRequest ag others n req =
     (case req of
        DmaWriteBytes a data \<Rightarrow> viaDma (dmaWriteBytes mnCore others n a data)
      | DmaWriteWords a ws \<Rightarrow> viaDma (dmaWriteWords mnCore others n a ws)
      | DmaOther \<Rightarrow> (\<lambda>l. (Inl DmaWriteOnly, l))
      | SetHalt h \<Rightarrow> runOnBoard (linkSetHalt h)
      | PulseReset v \<Rightarrow> runOnBoard (linkPulseReset v)
      | SetStepDelay d \<Rightarrow>
          runOnBoard (do { modify (stepUnit_update (\<lambda>u. fst (sb_writePort IO_PORT_STEP_DELAY (ucast d) u))); finished })
      | SetClockDiv d \<Rightarrow> (\<lambda>l. (Inr None, l\<lparr>lk_clockDiv := d AND 0x03\<rparr>))
      | CpuIrq level cause \<Rightarrow> linkDeliver level cause 0
      | HshkMemRead a k \<Rightarrow> viaAgent Some ag (\<lambda>g. ag_memRead g (panelAddrToByteAddr a) k)
      | HshkMemWrite a data \<Rightarrow> viaAgent (\<lambda>_. None) ag (\<lambda>g. ag_memWrite g (panelAddrToByteAddr a) data)
      | HshkExec a \<Rightarrow> runOnBoard (linkExec a)
      | HshkBreakSet p \<Rightarrow> viaAgent (\<lambda>st. Some [st]) ag (\<lambda>g. ag_addrBreakSet g p)
      | HshkBreakClr slot \<Rightarrow> viaAgent (\<lambda>st. Some [st]) ag (\<lambda>g. ag_addrBreakClr g slot)
      | HshkOther cmd \<Rightarrow> (\<lambda>l. (Inl (UnsupportedHshk cmd), l))
      | UnknownType \<Rightarrow> (\<lambda>l. (Inl UnknownRequest, l)))"

text \<open>The oldest booked interrupt is tried again.\<close>

definition irqRetryDue :: "link_state \<Rightarrow> link_state" where
  "irqRetryDue l =
     (case lk_retries l of
        [] \<Rightarrow> l
      | (level, cause, k) # rest \<Rightarrow> snd (linkDeliver level cause k (l\<lparr>lk_retries := rest\<rparr>)))"

subsection \<open>Slices of the worker\<close>

definition HSHK_STEPS_PER_SLICE :: nat where "HSHK_STEPS_PER_SLICE = 4096"

definition handshakeBusyFromBus :: "cpu_io_signals \<Rightarrow> bool" where
  "handshakeBusyFromBus b \<longleftrightarrow>
     HSHK_OUT_REQ b \<or> HSHK_OUT_DENA b \<or> HSHK_IN_DACK b \<or> HSHK_IN_REQ b \<or> HSHK_IN_DENA b \<or> HSHK_OUT_DACK b \<or> INTERRUPT_BUSY b"

text \<open>Steps and delay.\<close>

definition cpuSlicePlan :: "bool \<Rightarrow> nat \<Rightarrow> nat \<Rightarrow> nat \<times> nat" where
  "cpuSlicePlan handshakeBusy stepsPerSlice sliceMs =
     (if handshakeBusy then (HSHK_STEPS_PER_SLICE, 0) else (stepsPerSlice, sliceMs))"

definition effectiveSteps :: "bool \<Rightarrow> nat \<Rightarrow> u8 \<Rightarrow> nat" where
  "effectiveSteps turbo steps clockDiv =
     (if turbo then steps else max 1 (steps div 2 ^ unat (clockDiv AND 0x03)))"

fun ticks :: "log16 \<Rightarrow> nat \<Rightarrow> outcome cpu" where
  "ticks lg 0 = finished"
| "ticks lg (Suc k) = andThen (tickCpu lg) (ticks lg k)"

text \<open>While a transfer has set its flag no instruction is executed; the delay of the next slice is last.\<close>

definition cpuSlice :: "log16 \<Rightarrow> (board \<Rightarrow> cpu_io_signals) \<Rightarrow> nat \<Rightarrow> nat \<Rightarrow> link_state \<Rightarrow> (js_error + nat) \<times> link_state" where
  "cpuSlice lg bus stepsPerSlice sliceMs l =
     (let s = dm_core (lk_dma l); turbo = handshakeBusyFromBus (bus s);
          steps = effectiveSteps turbo (fst (cpuSlicePlan turbo stepsPerSlice sliceMs)) (getBoardLinkClockDiv l);
          (r, t) = (if \<not> dm_flag (lk_dma l) then run_state (ticks lg steps) s else (Inr (), s))
      in (map_sum id (\<lambda>_. if handshakeBusyFromBus (bus t) then 0 else sliceMs) r, l\<lparr>lk_dma := (lk_dma l)\<lparr>dm_core := t\<rparr>\<rparr>))"

subsection \<open>The clock in two halves\<close>

definition clockCountToHiLo :: "u64 \<Rightarrow> 32 word \<times> 32 word" where
  "clockCountToHiLo c = (ucast (drop_bit 32 c), ucast c)"

definition clockCountFromHiLo :: "32 word \<Rightarrow> 32 word \<Rightarrow> u64" where
  "clockCountFromHiLo hi lo = push_bit 32 (ucast hi) OR ucast lo"

lemma clock_halves: "case clockCountToHiLo c of (hi, lo) \<Rightarrow> clockCountFromHiLo hi lo = c"
  by (auto simp: clockCountToHiLo_def clockCountFromHiLo_def intro!: bit_word_eqI simp: bit_simps)

subsection \<open>Interrupts arrive\<close>











end
