(* ===== verification/Io_Reset.thy ===== *)
theory Io_Reset
  imports Cpu_Link Hex_Load
begin




datatype reset_error = BadHex hex_error | NothingToWrite | ResetLink request_error


text \<open>Requests one after the other, each awaited; the first that fails ends the rest.\<close>

fun linkRequests :: "(link_request \<Rightarrow> link_state \<Rightarrow> link_reply \<times> link_state) \<Rightarrow> link_request list \<Rightarrow> link_state \<Rightarrow>
    (reset_error + unit) \<times> link_state" where
  "linkRequests send [] l = (Inr (), l)"
| "linkRequests send (q # qs) l =
     (case send q l of
        (Inl e, l1) \<Rightarrow> (Inl (ResetLink e), l1)
      | (Inr _, l1) \<Rightarrow> linkRequests send qs l1)"


definition dmaLoadIntelHex ::
  "(link_request \<Rightarrow> link_state \<Rightarrow> link_reply \<times> link_state) \<Rightarrow> string \<Rightarrow> link_state \<Rightarrow> (reset_error + dma_plan) \<times> link_state" where
  "dmaLoadIntelHex send hexText l =
     (case intelHexToDmaPlan hexText of
        Inl e \<Rightarrow> (Inl (BadHex e), l)
      | Inr plan \<Rightarrow>
          (case linkRequests send
             (map (\<lambda>(a, bs). DmaWriteBytes (of_nat a) bs) (filter (\<lambda>(a, bs). bs \<noteq> []) (dp_chunks plan))) l of
             (Inl e, l1) \<Rightarrow> (Inl e, l1)
           | (Inr _, l1) \<Rightarrow> (Inr plan, l1)))"

subsection \<open>What the loader returns\<close>






subsection \<open>The reset starts the program\<close>










end
