(* ===== verification/Spec2Isabelle.thy ===== *)
theory Spec2Isabelle
  imports Board_Reach Block_Props Control_Props Shift_Props Float_Props Decode_Props Text_Props
    Run_Props Encoder_Props Encoder_Size Tms_Jumps Tms_Cru_Props Tms_Interrupts Tms_Flags Mmap_Props
    Parse_Props Pass_Props Macro_Props Rel_Props Io_Props Io_Types Io_Debug Hex_Load Io_Reset
begin

text \<open>
  A verification development for RetroCpuEmu, an emulator of a board computer with a Panafacom
  MN1613 or a TMS9995 processor, and its cross assembler (TypeScript).

  \<^bold>\<open>The program.\<close>  The emulator (\<^verbatim>\<open>src/retrocpu_emu_ts\<close>) runs a CPU board and an IO board as two
  workers.  On the CPU board \<^verbatim>\<open>cpuboard/mn1613/mn1613.ts\<close> interprets instructions over module-level
  state: registers, a byte buffer of memory, pins, breakpoints.  Each memory access is shown to the
  address comparators (\<^verbatim>\<open>addr_comparator.ts\<close>), each instruction fetch to the step unit
  (\<^verbatim>\<open>step_break.ts\<close>); both can raise an interrupt.  Port instructions go through callbacks that
  \<^verbatim>\<open>cpuboard/io_ports.ts\<close> installs: the reset vector, the handshake registers
  (\<^verbatim>\<open>handshake/io_port_bridge.ts\<close>), the comparators and the step unit.
  The TMS9995 (\<^verbatim>\<open>cpuboard/tms9995\<close>) is the other processor of the board: it keeps its registers
  in memory, sees the same units as memory-mapped registers and the handshake lines as bits of
  the communication register unit (CRU).  The disassembler (\<^verbatim>\<open>dis_assembler/mn1613\<close>) shows
  words to the debugger.  The assembler
  (\<^verbatim>\<open>src/retrocpu_asm_ts/src/main\<close>) parses lines (\<^verbatim>\<open>parser.ts\<close>), evaluates expressions (\<^verbatim>\<open>expression.ts\<close>),
  encodes instructions (\<^verbatim>\<open>mn1613/mn1613_encoder.ts\<close>, \<^verbatim>\<open>tms9995/tms9995_encode.ts\<close>) and runs two passes over
  the source (\<^verbatim>\<open>assembler.ts\<close>) after the expansion of macros (\<^verbatim>\<open>macros.ts\<close>).  Its result is written as
  an object file (\<^verbatim>\<open>relWriter.ts\<close>); the link step (\<^verbatim>\<open>sdldLink.ts\<close>) hands object files to the linker
  \<^verbatim>\<open>sdld\<close> and corrects the byte addresses in the image.

  \<^bold>\<open>Theories and code.\<close>
  \<^item> \<open>Prelude\<close>: words, the state monad with exceptions, the locale \<open>effect_order\<close> that composes
    invariants and frame conditions over programs, facts on 16-bit arithmetic.
    \<open>Js_Text\<close> and \<open>Js_Number\<close>: the string and number operations of the language.
  \<^item> \<open>Pin_Signal\<close>, \<open>Step_Break\<close>, \<open>Addr_Comparator\<close>, \<open>Io_Bridge\<close>: the units around the CPU, one theory
    for each file, with their properties.
  \<^item> \<open>Board_State\<close>: the module state of \<^verbatim>\<open>mn1613.ts\<close> as the record \<open>board\<close>; \<open>Io_Ports\<close>: the port
    map; \<open>Mn1613_Core\<close>: memory and port access, effective addresses, skip, flags, stack, interrupts;
    \<open>Mn1613_Float\<close>: the 32-bit hexadecimal floating point format; \<open>Mn1613_Exec\<close> and
    \<open>Mn1613_Execute\<close>: the opcodes of \<^verbatim>\<open>_executeOne\<close> and \<^verbatim>\<open>_exec04\<close>; \<open>Mn1613_Run\<close>: reset, pins, tick,
    step, run, debugger access.
  \<^item> \<open>Tms_Cru\<close>, \<open>Tms_Mmap\<close>, \<open>Tms_Status\<close>: \<^verbatim>\<open>cru_handshake.ts\<close> and \<^verbatim>\<open>cru_timer.ts\<close>, \<^verbatim>\<open>io_mmap.ts\<close>,
    \<^verbatim>\<open>status.ts\<close>; \<open>Tms_Board\<close>: the module state of \<^verbatim>\<open>tms9995.ts\<close> as the record \<open>tms\<close>, the memory
    operations and the TMS9995 wiring of \<^verbatim>\<open>io_ports.ts\<close>; \<open>Tms_Execute\<close>: \<^verbatim>\<open>addressing.ts\<close> and
    \<^verbatim>\<open>execute.ts\<close>; \<open>Tms_Run\<close>: reset, pins, interrupts, decrementer, tick.
  \<^item> \<open>Mn1613_Decode\<close>, \<open>Mn1613_Disassembler\<close>: \<^verbatim>\<open>decode.ts\<close>, \<^verbatim>\<open>format.ts\<close>, \<^verbatim>\<open>labels.ts\<close>.
  \<^item> \<open>Asm_Expr\<close>, \<open>Asm_Encoder\<close>, \<open>Tms_Encoder\<close>: \<^verbatim>\<open>expression.ts\<close>, \<^verbatim>\<open>mn1613_encoder.ts\<close> and
    \<^verbatim>\<open>tms9995_encode.ts\<close>; \<open>Asm_Parse\<close>: \<^verbatim>\<open>parser.ts\<close>; \<open>Asm_Reloc\<close>: the relocatable operands of
    \<^verbatim>\<open>expression.ts\<close> and \<^verbatim>\<open>areaOrder.ts\<close>; \<open>Asm_Passes\<close>: \<^verbatim>\<open>assembler.ts\<close>, \<^verbatim>\<open>cpuType.ts\<close>, \<^verbatim>\<open>checkpoint.ts\<close>;
    \<open>Asm_Macros\<close>: \<^verbatim>\<open>macros.ts\<close>; \<open>Asm_Rel\<close>: \<^verbatim>\<open>relWriter.ts\<close>, \<^verbatim>\<open>lstWriter.ts\<close>; \<open>Asm_Link\<close>: \<^verbatim>\<open>sdldLink.ts\<close>.

  \<^bold>\<open>Correspondence.\<close>  JavaScript numbers that the code masks to 16 bits are 16-bit words; sums that
  are inspected before they are masked are integers.  The byte buffer of memory is a function on
  addresses with the length checked as \<^verbatim>\<open>DataView\<close> does.  An exception is the left side of a sum.
  Callbacks are data types with one constructor for each callback the program installs.
  Floating point values are rationals rounded to 53 bits; the estimate of a logarithm, whose
  accuracy the language leaves open, is a parameter (\<open>lg\<close>); so are the evaluation of a repeat count by
  the language (\<open>js\<close>), the order of names by locale (\<open>leq\<close>) and the linker (\<open>sdld\<close>).

  \<^bold>\<open>Lemmas.\<close>  \<open>Board_Effects\<close>, \<open>Board_Invariant\<close>, \<open>Board_Reach\<close>: what an instruction can change, and
  the invariant of all reachable states.  \<open>Memory_Words\<close>: memory as an array of words.
  \<open>Core_Run\<close>: rules that compute a run of the core, on which the functional properties rest
  (\<open>Arith_Props\<close>, \<open>Shift_Props\<close>, \<open>Control_Props\<close>, \<open>Block_Props\<close>, \<open>Float_Props\<close>, \<open>Run_Props\<close>).
  \<open>Decode_Props\<close>: the disassembler against the CPU.  \<open>Expr_Props\<close>: the evaluator terminates and
  follows precedence.  \<open>Encoder_Text\<close>, \<open>Encoder_Props\<close>: assembling what the disassembler prints
  gives the words back.  \<open>Encoder_Size\<close>, \<open>Pass_Sizes\<close>: the two passes agree on lengths, for
  both encoders; \<open>Pass_Props\<close>: they agree on addresses.  \<open>Parse_Props\<close>: printed lines are parsed back.
  \<open>Text_Lines\<close>, \<open>Macro_Props\<close>: what repeat blocks and calls expand to.  \<open>Rel_Props\<close>: object files are
  read back; \<open>Link_Props\<close>: Intel HEX and the correction of addresses.
  \<open>Tms_Effects\<close>, \<open>Tms_Reach\<close>: the invariant of the reachable states of the TMS9995.
  \<open>Tms_Core\<close>: rules that compute its instructions when the workspace is in memory;
  \<open>Tms_Interrupts\<close>, \<open>Tms_Jumps\<close>, \<open>Tms_Flags\<close>, \<open>Tms_Cru_Props\<close>, \<open>Mmap_Props\<close>: its properties.

  \<^bold>\<open>Bounds and fuel.\<close>  BLK runs with the fuel of its counter R0, which it decrements on each round.
  The evaluator has the fuel \<open>exprFuel\<close>, which \<open>evalTokens_terminates\<close> proves sufficient.
  The TMS9995 instruction X calls the interpreter recursively, to a depth that the engine's stack
  bounds; the depth is a parameter, and every property holds for each depth that is not 0.
  The repetition of the parser gets as much fuel as the line has characters.  Names declared with
  \<^verbatim>\<open>.globl\<close> are taken to consist of identifier characters where they become part of a pattern.
  \<^verbatim>\<open>run\<close> works in batches of 1000 instructions as in the code.

  Macros are expanded to the depth 64 and in at most 32 passes, as in the code.

  \<^bold>\<open>Not modelled.\<close>  The handshake services and the timers of the IO board are planned.  Workers,
  files, the user interface, the editor extension and the ports to Rust are left out: they are
  glue, input and output, copies, or another language.  Hooks that only tests install are left
  out of the CPU.  The replacement of the memory buffer of the TMS9995 is left out: it is always
  64 KB.
\<close>

end
